(* ===== verification/Prelude.thy ===== *)
theory Prelude
  imports Complex_Main "HOL-Library.AList" "HOL-Library.Sublist"
    "HOL-Library.List_Lexorder" "HOL-Library.Char_ord"
begin

text \<open>
  Shared vocabulary of the development: Python text and dictionary operations, results that
  may be errors, and the generic lemmas the component theories use.

  \<^item> A Python \<open>str\<close> is a \<open>string\<close> whose characters are code points up to 255;
    \<open>py_space\<close> and \<open>lower_char\<close> follow Python on that whole range.
  \<^item> A Python \<open>dict\<close> is an association list in insertion order: \<open>map_of\<close> reads,
    \<open>AList.update\<close> assigns (keeping the position of a key already present, as Python does)
    and \<open>AList.delete\<close> removes.
  \<^item> A \<open>datetime\<close> is an \<open>int\<close> of microseconds since the epoch, always UTC-aware.
  \<^item> A call that may raise returns \<open>'e + 'a\<close>, with \<open>Inl\<close> for the exception.
\<close>

section \<open>Types shared by the components\<close>

type_synonym ('k, 'v) dict = "('k \<times> 'v) list"

type_synonym timestamp = int

type_synonym headers = "(string, string) dict"

abbreviation microseconds :: "int \<Rightarrow> int" where
  "microseconds s \<equiv> 1000000 * s"

named_theorems text_simps \<open>evaluation of Python text operations\<close>
named_theorems dict_simps \<open>reading a dictionary after it was written\<close>

section \<open>Python text\<close>

text \<open>\<open>str.isspace\<close> on the code points below 256.\<close>

definition py_space :: "char \<Rightarrow> bool" where
  "py_space c \<longleftrightarrow>
     (let n = (of_char c :: nat)
      in (9 \<le> n \<and> n \<le> 13) \<or> (28 \<le> n \<and> n \<le> 32) \<or> n = 133 \<or> n = 160)"

definition lstrip_if :: "(char \<Rightarrow> bool) \<Rightarrow> string \<Rightarrow> string" where
  "lstrip_if P s = dropWhile P s"

definition rstrip_if :: "(char \<Rightarrow> bool) \<Rightarrow> string \<Rightarrow> string" where
  "rstrip_if P s = rev (dropWhile P (rev s))"

definition strip_if :: "(char \<Rightarrow> bool) \<Rightarrow> string \<Rightarrow> string" where
  "strip_if P s = rstrip_if P (lstrip_if P s)"

abbreviation strip :: "string \<Rightarrow> string" where
  "strip s \<equiv> strip_if py_space s"

abbreviation rstrip_char :: "char \<Rightarrow> string \<Rightarrow> string" where
  "rstrip_char c s \<equiv> rstrip_if (\<lambda>x. x = c) s"

abbreviation lstrip_char :: "char \<Rightarrow> string \<Rightarrow> string" where
  "lstrip_char c s \<equiv> lstrip_if (\<lambda>x. x = c) s"

text \<open>\<open>str.lower\<close> on the code points below 256.\<close>

definition lower_char :: "char \<Rightarrow> char" where
  "lower_char c =
     (let n = (of_char c :: nat)
      in if (65 \<le> n \<and> n \<le> 90) \<or> (192 \<le> n \<and> n \<le> 222 \<and> n \<noteq> 215)
         then char_of (n + 32) else c)"

definition lower :: "string \<Rightarrow> string" where
  "lower s = map lower_char s"

text \<open>
  \<open>str.upper\<close> on the code points below 256, except that the micro sign and the y with diaeresis,
  whose capitals lie outside that range, are left as they are.
\<close>

definition upper_char :: "char \<Rightarrow> string" where
  "upper_char c =
     (let n = (of_char c :: nat)
      in if n = 223 then ''SS''
         else if (97 \<le> n \<and> n \<le> 122) \<or> (224 \<le> n \<and> n \<le> 254 \<and> n \<noteq> 247)
         then [char_of (n - 32)] else [c])"

definition upper :: "string \<Rightarrow> string" where
  "upper s = concat (map upper_char s)"

definition is_ascii :: "string \<Rightarrow> bool" where
  "is_ascii s \<longleftrightarrow> list_all (\<lambda>c. (of_char c :: nat) < 128) s"

abbreviation startswith :: "string \<Rightarrow> string \<Rightarrow> bool" where
  "startswith s p \<equiv> prefix p s"

abbreviation endswith :: "string \<Rightarrow> string \<Rightarrow> bool" where
  "endswith s p \<equiv> suffix p s"

text \<open>The substring test \<open>p in s\<close>.\<close>

fun contains :: "string \<Rightarrow> string \<Rightarrow> bool" where
  "contains [] p = (p = [])"
| "contains (c # s) p = (prefix p (c # s) \<or> contains s p)"

text \<open>\<open>s.split(c)\<close> for a one-character separator.\<close>

fun split_char :: "char \<Rightarrow> string \<Rightarrow> string list" where
  "split_char c [] = [[]]"
| "split_char c (x # xs) =
     (if x = c then [] # split_char c xs
      else (case split_char c xs of
              [] \<Rightarrow> [[x]]
            | w # ws \<Rightarrow> (x # w) # ws))"

text \<open>\<open>s.split(c, 1)\<close>: one part when the separator is absent, two otherwise.\<close>

fun split_once :: "char \<Rightarrow> string \<Rightarrow> string \<times> string option" where
  "split_once c [] = ([], None)"
| "split_once c (x # xs) =
     (if x = c then ([], Some xs)
      else (case split_once c xs of (w, r) \<Rightarrow> (x # w, r)))"

text \<open>\<open>s.split()\<close>: the maximal runs without white space.\<close>

fun split_ws_aux :: "string \<Rightarrow> string \<Rightarrow> string list" where
  "split_ws_aux [] w = (if w = [] then [] else [rev w])"
| "split_ws_aux (c # s) w =
     (if py_space c then (if w = [] then split_ws_aux s [] else rev w # split_ws_aux s [])
      else split_ws_aux s (c # w))"

definition split_ws :: "string \<Rightarrow> string list" where
  "split_ws s = split_ws_aux s []"

fun join :: "string \<Rightarrow> string list \<Rightarrow> string" where
  "join sep [] = []"
| "join sep [x] = x"
| "join sep (x # xs) = x @ sep @ join sep xs"

text \<open>Decimal rendering of integers, as \<open>str(n)\<close>.\<close>

fun digits_rev :: "nat \<Rightarrow> string" where
  "digits_rev n =
     (if n < 10 then [char_of (48 + n)] else char_of (48 + n mod 10) # digits_rev (n div 10))"

declare digits_rev.simps [simp del]

definition str_nat :: "nat \<Rightarrow> string" where
  "str_nat n = rev (digits_rev n)"

definition str_int :: "int \<Rightarrow> string" where
  "str_int i = (if i < 0 then CHR ''-'' # str_nat (nat (- i)) else str_nat (nat i))"

section \<open>Lemmas on text\<close>

lemma set_lstrip_if: "set (lstrip_if P s) \<subseteq> set s"
  by (auto simp: lstrip_if_def dest: set_dropWhileD)

lemma set_rstrip_if: "set (rstrip_if P s) \<subseteq> set s"
  by (auto simp: rstrip_if_def dest: set_dropWhileD)

lemma set_strip_if: "set (strip_if P s) \<subseteq> set s"
  using set_lstrip_if set_rstrip_if unfolding strip_if_def by fastforce

lemma rstrip_if_last: "rstrip_if P s \<noteq> [] \<Longrightarrow> \<not> P (last (rstrip_if P s))"
  by (metis hd_dropWhile last_rev rev_is_Nil_conv rstrip_if_def)

lemma rstrip_if_Nil_iff: "rstrip_if P s = [] \<longleftrightarrow> (\<forall>c \<in> set s. P c)"
  by (simp add: rstrip_if_def dropWhile_eq_Nil_conv)

lemma rstrip_if_idem [simp]: "rstrip_if P (rstrip_if P s) = rstrip_if P s"
  by (simp add: rstrip_if_def dropWhile_idem)

lemma rstrip_if_not_last:
  "s \<noteq> [] \<Longrightarrow> \<not> P (last s) \<Longrightarrow> rstrip_if P s = s"
  by (cases s rule: rev_cases) (auto simp: rstrip_if_def)

lemma rstrip_if_snoc:
  "rstrip_if P (s @ [c]) = (if P c then rstrip_if P s else s @ [c])"
  by (simp add: rstrip_if_def)

lemma prefix_rstrip_if: "prefix (rstrip_if P s) s"
  by (metis prefix_def rev_append rev_rev_ident rstrip_if_def takeWhile_dropWhile_id)

lemma strip_if_Nil [simp]: "strip_if P [] = []"
  by (simp add: strip_if_def lstrip_if_def rstrip_if_def)

lemma lstrip_if_Nil [simp]: "lstrip_if P [] = []"
  by (simp add: lstrip_if_def)

lemma rstrip_if_Nil [simp]: "rstrip_if P [] = []"
  by (simp add: rstrip_if_def)

lemma strip_if_edges:
  assumes "strip_if P s \<noteq> []"
  shows "\<not> P (hd (strip_if P s))" and "\<not> P (last (strip_if P s))"
proof -
  show "\<not> P (last (strip_if P s))"
    using assms rstrip_if_last unfolding strip_if_def by blast
  have "hd (strip_if P s) = hd (lstrip_if P s)"
    using assms prefix_rstrip_if [of P "lstrip_if P s"]
    unfolding strip_if_def by (metis hd_append2 prefix_def)
  moreover have "lstrip_if P s \<noteq> []"
    using assms by (auto simp: strip_if_def)
  ultimately show "\<not> P (hd (strip_if P s))"
    by (simp add: lstrip_if_def hd_dropWhile)
qed

lemma strip_if_idem [simp]: "strip_if P (strip_if P s) = strip_if P s"
proof (cases "strip_if P s = []")
  case False
  then have "lstrip_if P (strip_if P s) = strip_if P s"
    using strip_if_edges(1) [OF False]
    by (cases "strip_if P s") (auto simp: lstrip_if_def)
  then show ?thesis
    using strip_if_edges(2) [OF False] False rstrip_if_not_last
    by (metis strip_if_def)
qed simp

lemma lower_Nil [simp]: "lower [] = []"
  by (simp add: lower_def)

lemma lower_Nil_iff [simp]: "lower s = [] \<longleftrightarrow> s = []"
  by (simp add: lower_def)

lemma length_lower [simp]: "length (lower s) = length s"
  by (simp add: lower_def)

lemma lower_append: "lower (s @ t) = lower s @ lower t"
  by (simp add: lower_def)

lemma lower_char_idem [simp]: "lower_char (lower_char c) = lower_char c"
proof -
  have "(of_char c :: nat) < 256"
    by (metis nat_of_char_less_256)
  then show ?thesis
    by (auto simp: lower_char_def Let_def)
qed

lemma lower_idem [simp]: "lower (lower s) = lower s"
  by (simp add: lower_def)

lemma contains_sublist: "contains s p \<longleftrightarrow> sublist p s"
  by (induction s p rule: contains.induct) (auto simp: sublist_Cons_right)

lemma split_char_not_Nil [simp]: "split_char c s \<noteq> []"
  by (induction s) (auto split: list.splits)

lemma split_char_no_sep: "w \<in> set (split_char c s) \<Longrightarrow> c \<notin> set w"
proof (induction s arbitrary: w)
  case (Cons x xs)
  then show ?case
    by (auto split: if_splits list.splits)
qed simp

lemma join_split_char: "join [c] (split_char c s) = s"
proof (induction s)
  case (Cons x xs)
  show ?case
  proof (cases "split_char c xs")
    case Nil
    then show ?thesis by simp
  next
    case (Cons w ws)
    with Cons.IH show ?thesis
      by (cases ws) auto
  qed
qed simp

lemma split_char_absent: "c \<notin> set s \<Longrightarrow> split_char c s = [s]"
  by (induction s) auto

lemma split_char_append:
  "c \<notin> set u \<Longrightarrow> split_char c (u @ c # s) = u # split_char c s"
  by (induction u) auto

lemma split_once_Some:
  "split_once c s = (u, Some v) \<Longrightarrow> s = u @ c # v \<and> c \<notin> set u"
  by (induction s arbitrary: u) (auto split: if_splits prod.splits)

lemma split_once_None:
  "split_once c s = (u, None) \<Longrightarrow> u = s \<and> c \<notin> set s"
  by (induction s arbitrary: u) (auto split: if_splits prod.splits)

lemma split_once_append:
  "c \<notin> set u \<Longrightarrow> split_once c (u @ c # v) = (u, Some v)"
  by (induction u) auto

section \<open>Lemmas on dictionaries\<close>

lemma map_of_update [dict_simps]:
  "map_of (AList.update k v d) k' = (if k' = k then Some v else map_of d k')"
  by (simp add: update_conv')

lemma map_of_delete [dict_simps]:
  "map_of (AList.delete k d) k' = (if k' = k then None else map_of d k')"
  by (simp add: delete_conv')

lemma keys_update [dict_simps]:
  "fst ` set (AList.update k v d) = insert k (fst ` set d)"
  by (induction d) auto

lemma distinct_keys_update [intro]:
  "distinct (map fst d) \<Longrightarrow> distinct (map fst (AList.update k v d))"
  by (rule distinct_update)

lemma distinct_keys_delete [intro]:
  "distinct (map fst d) \<Longrightarrow> distinct (map fst (AList.delete k d))"
  by (rule distinct_delete)

lemma update_new: "k \<notin> fst ` set d \<Longrightarrow> AList.update k v d = d @ [(k, v)]"
  by (induction d) auto

lemma length_update:
  "length (AList.update k v d) = (if k \<in> fst ` set d then length d else Suc (length d))"
  by (induction d) auto

lemma delete_absent: "k \<notin> fst ` set d \<Longrightarrow> AList.delete k d = d"
  by (induction d) auto

lemma in_delete_iff: "(k, v) \<in> set (AList.delete k' d) \<longleftrightarrow> (k, v) \<in> set d \<and> k \<noteq> k'"
  by (induction d) auto

lemma in_update_cases:
  "(k, v) \<in> set (AList.update k' v' d) \<Longrightarrow> (k, v) = (k', v') \<or> (k, v) \<in> set d"
  by (induction d) (auto split: if_splits)

lemma length_delete_le: "length (AList.delete k d) \<le> length d"
  by (induction d) auto

end
