(* ===== verification/Json.thy ===== *)
theory Json
  imports Prelude
begin

text \<open>
  The values \<open>json.loads\<close> produces, and the Python operations the hub applies to them:
  truth value, equality, membership, iteration, hashability and \<open>str\<close>/\<open>repr\<close>. An object is
  an association list in document order. A float is its rational value (\<open>NaN\<close> and the
  infinities are outside the model); the text Python prints for a float is the argument
  \<open>fr\<close> of \<open>py_repr\<close> and \<open>py_str\<close>.
\<close>

section \<open>JSON values\<close>

datatype json =
    JNull
  | JBool bool
  | JInt int
  | JFloat rat
  | JStr string
  | JList "json list"
  | JObj "(string \<times> json) list"

type_synonym jdict = "(string, json) dict"

datatype py_exc =
    ValueError string
  | TypeError string
  | KeyError string
  | AttributeError string
  | IndexError string
  | RuntimeError string

type_synonym 'a py = "py_exc + 'a"

fun exc_text :: "py_exc \<Rightarrow> string" where
  "exc_text (ValueError s) = s"
| "exc_text (TypeError s) = s"
| "exc_text (KeyError s) = s"
| "exc_text (AttributeError s) = s"
| "exc_text (IndexError s) = s"
| "exc_text (RuntimeError s) = s"

text \<open>\<open>type(exc).__name__\<close>.\<close>

fun exc_name :: "py_exc \<Rightarrow> string" where
  "exc_name (ValueError t) = ''ValueError''"
| "exc_name (TypeError t) = ''TypeError''"
| "exc_name (KeyError t) = ''KeyError''"
| "exc_name (AttributeError t) = ''AttributeError''"
| "exc_name (IndexError t) = ''IndexError''"
| "exc_name (RuntimeError t) = ''RuntimeError''"

fun is_obj :: "json \<Rightarrow> bool" where
  "is_obj (JObj _) = True" | "is_obj _ = False"

fun is_str :: "json \<Rightarrow> bool" where
  "is_str (JStr _) = True" | "is_str _ = False"

fun is_list :: "json \<Rightarrow> bool" where
  "is_list (JList _) = True" | "is_list _ = False"

text \<open>\<open>d.get(k)\<close>: the value, or \<open>None\<close>.\<close>

definition jget :: "jdict \<Rightarrow> string \<Rightarrow> json" where
  "jget d k = (case map_of d k of None \<Rightarrow> JNull | Some v \<Rightarrow> v)"

text \<open>\<open>d.get(k, default)\<close>.\<close>

definition jget_or :: "jdict \<Rightarrow> string \<Rightarrow> json \<Rightarrow> json" where
  "jget_or d k dflt = (case map_of d k of None \<Rightarrow> dflt | Some v \<Rightarrow> v)"

definition has_key :: "jdict \<Rightarrow> string \<Rightarrow> bool" where
  "has_key d k \<longleftrightarrow> map_of d k \<noteq> None"

text \<open>\<open>v if isinstance(v, dict) else {}\<close>.\<close>

fun obj_or_empty :: "json \<Rightarrow> jdict" where
  "obj_or_empty (JObj d) = d"
| "obj_or_empty _ = []"

text \<open>\<open>bool(v)\<close>.\<close>

fun truthy :: "json \<Rightarrow> bool" where
  "truthy JNull = False"
| "truthy (JBool b) = b"
| "truthy (JInt i) = (i \<noteq> 0)"
| "truthy (JFloat r) = (r \<noteq> 0)"
| "truthy (JStr s) = (s \<noteq> [])"
| "truthy (JList xs) = (xs \<noteq> [])"
| "truthy (JObj d) = (d \<noteq> [])"

text \<open>Dictionaries and lists cannot be hashed, so they cannot be looked up in a set.\<close>

fun hashable :: "json \<Rightarrow> bool" where
  "hashable (JList _) = False"
| "hashable (JObj _) = False"
| "hashable _ = True"

text \<open>Equality: \<open>True == 1 == 1.0\<close>; objects compare as unordered maps.\<close>

fun num_of :: "json \<Rightarrow> rat option" where
  "num_of (JBool b) = Some (if b then 1 else 0)"
| "num_of (JInt i) = Some (of_int i)"
| "num_of (JFloat r) = Some r"
| "num_of _ = None"

fun py_eq :: "json \<Rightarrow> json \<Rightarrow> bool"
  and py_eq_list :: "json list \<Rightarrow> json list \<Rightarrow> bool"
  and py_eq_dict :: "(string \<times> json) list \<Rightarrow> jdict \<Rightarrow> bool" where
  "py_eq (JList xs) w = (case w of JList ys \<Rightarrow> py_eq_list xs ys | _ \<Rightarrow> False)"
| "py_eq (JObj d) w =
     (case w of JObj e \<Rightarrow> length d = length e \<and> py_eq_dict d e | _ \<Rightarrow> False)"
| "py_eq JNull w = (w = JNull)"
| "py_eq (JStr s) w = (w = JStr s)"
| "py_eq v w = (num_of w = num_of v)"
| "py_eq_list [] ys = (ys = [])"
| "py_eq_list (x # xs) ys =
     (case ys of [] \<Rightarrow> False | y # ys' \<Rightarrow> py_eq x y \<and> py_eq_list xs ys')"
| "py_eq_dict [] e = True"
| "py_eq_dict ((k, v) # d) e =
     ((case map_of e k of None \<Rightarrow> False | Some w \<Rightarrow> py_eq v w) \<and> py_eq_dict d e)"

text \<open>\<open>for x in v\<close>.\<close>

fun py_iter :: "json \<Rightarrow> json list py" where
  "py_iter (JList xs) = Inr xs"
| "py_iter (JObj d) = Inr (map (\<lambda>p. JStr (fst p)) d)"
| "py_iter (JStr s) = Inr (map (\<lambda>c. JStr [c]) s)"
| "py_iter _ = Inl (TypeError ''object is not iterable'')"

text \<open>\<open>x in v\<close>.\<close>

fun py_in :: "json \<Rightarrow> json \<Rightarrow> bool py" where
  "py_in x (JList xs) = Inr (list_ex (py_eq x) xs)"
| "py_in x (JObj d) =
     (if \<not> hashable x then Inl (TypeError ''unhashable type'')
      else Inr (case x of JStr s \<Rightarrow> has_key d s | _ \<Rightarrow> False))"
| "py_in x (JStr s) =
     (case x of JStr p \<Rightarrow> Inr (contains s p)
      | _ \<Rightarrow> Inl (TypeError ''in <string> requires string as left operand''))"
| "py_in x _ = Inl (TypeError ''argument is not iterable'')"

section \<open>\<open>repr\<close> and \<open>str\<close>\<close>

definition hex_digit :: "nat \<Rightarrow> char" where
  "hex_digit n = (if n < 10 then char_of (48 + n) else char_of (87 + n))"

definition repr_char :: "char \<Rightarrow> char \<Rightarrow> string" where
  "repr_char q c =
     (let n = (of_char c :: nat) in
      if c = q \<or> n = 92 then [char_of (92::nat), c]
      else if n = 9 then [char_of (92::nat), CHR ''t'']
      else if n = 10 then [char_of (92::nat), CHR ''n'']
      else if n = 13 then [char_of (92::nat), CHR ''r'']
      else if n < 32 \<or> (127 \<le> n \<and> n \<le> 160) \<or> n = 173
           then [char_of (92::nat), CHR ''x'', hex_digit (n div 16), hex_digit (n mod 16)]
      else [c])"

text \<open>Python quotes with an apostrophe unless the text holds one and no double quote.\<close>

definition repr_str :: "string \<Rightarrow> string" where
  "repr_str s =
     (let a = char_of (39::nat); d = char_of (34::nat);
          q = (if a \<in> set s \<and> d \<notin> set s then d else a)
      in [q] @ concat (map (repr_char q) s) @ [q])"

fun py_repr :: "(rat \<Rightarrow> string) \<Rightarrow> json \<Rightarrow> string"
  and py_reprs :: "(rat \<Rightarrow> string) \<Rightarrow> json list \<Rightarrow> string list"
  and py_repr_items :: "(rat \<Rightarrow> string) \<Rightarrow> (string \<times> json) list \<Rightarrow> string list" where
  "py_repr fr JNull = ''None''"
| "py_repr fr (JBool b) = (if b then ''True'' else ''False'')"
| "py_repr fr (JInt i) = str_int i"
| "py_repr fr (JFloat r) = fr r"
| "py_repr fr (JStr s) = repr_str s"
| "py_repr fr (JList xs) = ''['' @ join '', '' (py_reprs fr xs) @ '']''"
| "py_repr fr (JObj d) = ''{'' @ join '', '' (py_repr_items fr d) @ ''}''"
| "py_reprs fr [] = []"
| "py_reprs fr (x # xs) = py_repr fr x # py_reprs fr xs"
| "py_repr_items fr [] = []"
| "py_repr_items fr ((k, v) # d) = (repr_str k @ '': '' @ py_repr fr v) # py_repr_items fr d"

definition py_str :: "(rat \<Rightarrow> string) \<Rightarrow> json \<Rightarrow> string" where
  "py_str fr v = (case v of JStr s \<Rightarrow> s | _ \<Rightarrow> py_repr fr v)"

text \<open>\<open>str(v or "")\<close>, the idiom for optional text fields of a response.\<close>

definition str_or_empty :: "(rat \<Rightarrow> string) \<Rightarrow> json \<Rightarrow> string" where
  "str_or_empty fr v = (if truthy v then py_str fr v else [])"

text \<open>\<open>int(v)\<close>: floats truncate towards zero, text may carry white space, a sign and
  single underscores between digits.\<close>

definition is_digit :: "char \<Rightarrow> bool" where
  "is_digit c \<longleftrightarrow> 48 \<le> (of_char c :: nat) \<and> (of_char c :: nat) \<le> 57"

fun digits_val :: "nat \<Rightarrow> string \<Rightarrow> nat option" where
  "digits_val acc [] = Some acc"
| "digits_val acc (c # s) =
     (if is_digit c then digits_val (10 * acc + (of_char c - 48)) s
      else if c = CHR ''_'' \<and> s \<noteq> [] \<and> is_digit (hd s) then digits_val acc s
      else None)"

definition int_of_digits :: "string \<Rightarrow> int option" where
  "int_of_digits s =
     (if s \<noteq> [] \<and> is_digit (hd s) then map_option int (digits_val 0 s) else None)"

definition parse_int :: "string \<Rightarrow> int option" where
  "parse_int s =
     (case strip s of
        [] \<Rightarrow> None
      | c # r \<Rightarrow> if c = CHR ''-'' then map_option uminus (int_of_digits r)
                 else if c = CHR ''+'' then int_of_digits r
                 else int_of_digits (c # r))"

definition trunc_rat :: "rat \<Rightarrow> int" where
  "trunc_rat r = (if r < 0 then - \<lfloor>- r\<rfloor> else \<lfloor>r\<rfloor>)"

fun py_int :: "json \<Rightarrow> int py" where
  "py_int (JInt i) = Inr i"
| "py_int (JBool b) = Inr (if b then 1 else 0)"
| "py_int (JFloat r) = Inr (trunc_rat r)"
| "py_int (JStr s) =
     (case parse_int s of None \<Rightarrow> Inl (ValueError ''invalid literal for int()'') | Some i \<Rightarrow> Inr i)"
| "py_int _ = Inl (TypeError ''int() argument must be a string or a number'')"

section \<open>Lemmas\<close>

lemma jget_update [dict_simps]:
  "jget (AList.update k v d) k' = (if k' = k then v else jget d k')"
  by (simp add: jget_def dict_simps)

lemma has_key_update [dict_simps]:
  "has_key (AList.update k v d) k' \<longleftrightarrow> k' = k \<or> has_key d k'"
  by (simp add: has_key_def dict_simps)

lemma has_key_delete [dict_simps]:
  "has_key (AList.delete k d) k' \<longleftrightarrow> k' \<noteq> k \<and> has_key d k'"
  by (simp add: has_key_def dict_simps)

lemma has_key_iff: "has_key d k \<longleftrightarrow> k \<in> fst ` set d"
  by (metis has_key_def map_of_eq_None_iff)

lemma jget_absent: "\<not> has_key d k \<Longrightarrow> jget d k = JNull"
  by (simp add: has_key_def jget_def)

lemma py_str_JStr [simp]: "py_str fr (JStr s) = s"
  by (simp add: py_str_def)

lemma str_or_empty_JStr [simp]: "str_or_empty fr (JStr s) = s"
  by (simp add: str_or_empty_def)

lemma str_or_empty_JNull [simp]: "str_or_empty fr JNull = []"
  by (simp add: str_or_empty_def)

end
