(* ===== verification/Constants.thy ===== *)
theory Constants
  imports Json
begin

text \<open>
  \<^verbatim>\<open>mcp/constants.py\<close>: the protocol revisions the hub supports, the method names of each
  revision, and the functions that classify a revision or choose the one to send.
  Text compares by code point (HOL-Library.List_Lexorder over Char_ord), as in Python.
\<close>

section \<open>Protocol revisions\<close>

definition PROTOCOL_VERSION :: string where
  "PROTOCOL_VERSION = ''2025-11-25''"

definition BACKWARD_COMPAT_PROTOCOL_VERSION :: string where
  "BACKWARD_COMPAT_PROTOCOL_VERSION = ''2025-06-18''"

definition STATELESS_PROTOCOL_VERSION :: string where
  "STATELESS_PROTOCOL_VERSION = ''2026-07-28''"

definition SUPPORTED_PROTOCOL_VERSIONS :: "string list" where
  "SUPPORTED_PROTOCOL_VERSIONS =
     [PROTOCOL_VERSION, BACKWARD_COMPAT_PROTOCOL_VERSION, STATELESS_PROTOCOL_VERSION]"

definition is_supported_protocol_version :: "string \<Rightarrow> bool" where
  "is_supported_protocol_version version \<longleftrightarrow> strip version \<in> set SUPPORTED_PROTOCOL_VERSIONS"

definition supported_protocol_versions_str :: string where
  "supported_protocol_versions_str = join '', '' (rev (sort SUPPORTED_PROTOCOL_VERSIONS))"

datatype version_status = Unknown | Supported | Outdated | Newer | Unsupported

definition mcp_version_status :: "string option \<Rightarrow> version_status" where
  "mcp_version_status version =
     (let stripped = strip (case version of None \<Rightarrow> [] | Some v \<Rightarrow> v) in
      if stripped = [] then Unknown
      else if stripped \<in> set SUPPORTED_PROTOCOL_VERSIONS then Supported
      else if stripped < Min (set SUPPORTED_PROTOCOL_VERSIONS) then Outdated
      else if Max (set SUPPORTED_PROTOCOL_VERSIONS) < stripped then Newer
      else Unsupported)"

definition resolve_protocol_version :: "string option \<Rightarrow> string" where
  "resolve_protocol_version configured =
     (case configured of
        None \<Rightarrow> PROTOCOL_VERSION
      | Some c \<Rightarrow> let stripped = strip c in if stripped \<noteq> [] then stripped else PROTOCOL_VERSION)"

section \<open>Methods\<close>

definition METHOD_INITIALIZE :: string where "METHOD_INITIALIZE = ''initialize''"
definition METHOD_INITIALIZED :: string where "METHOD_INITIALIZED = ''notifications/initialized''"
definition METHOD_TOOLS_LIST :: string where "METHOD_TOOLS_LIST = ''tools/list''"
definition METHOD_TOOLS_CALL :: string where "METHOD_TOOLS_CALL = ''tools/call''"
definition METHOD_PROMPTS_LIST :: string where "METHOD_PROMPTS_LIST = ''prompts/list''"
definition METHOD_PROMPTS_GET :: string where "METHOD_PROMPTS_GET = ''prompts/get''"
definition METHOD_RESOURCES_LIST :: string where "METHOD_RESOURCES_LIST = ''resources/list''"
definition METHOD_RESOURCES_READ :: string where "METHOD_RESOURCES_READ = ''resources/read''"
definition METHOD_RESOURCES_TEMPLATES :: string where
  "METHOD_RESOURCES_TEMPLATES = ''resources/templates/list''"
definition METHOD_PING :: string where "METHOD_PING = ''ping''"
definition METHOD_LOGGING_SET_LEVEL :: string where
  "METHOD_LOGGING_SET_LEVEL = ''logging/setLevel''"
definition METHOD_COMPLETION_COMPLETE :: string where
  "METHOD_COMPLETION_COMPLETE = ''completion/complete''"
definition METHOD_SAMPLING_CREATE_MESSAGE :: string where
  "METHOD_SAMPLING_CREATE_MESSAGE = ''sampling/createMessage''"
definition METHOD_RESOURCES_SUBSCRIBE :: string where
  "METHOD_RESOURCES_SUBSCRIBE = ''resources/subscribe''"
definition METHOD_RESOURCES_UNSUBSCRIBE :: string where
  "METHOD_RESOURCES_UNSUBSCRIBE = ''resources/unsubscribe''"
definition METHOD_ELICITATION_CREATE :: string where
  "METHOD_ELICITATION_CREATE = ''elicitation/create''"
definition METHOD_ROOTS_LIST :: string where "METHOD_ROOTS_LIST = ''roots/list''"
definition METHOD_SERVER_DISCOVER :: string where "METHOD_SERVER_DISCOVER = ''server/discover''"
definition METHOD_SUBSCRIPTIONS_LISTEN :: string where
  "METHOD_SUBSCRIPTIONS_LISTEN = ''subscriptions/listen''"

definition HANDSHAKE_MCP_METHODS :: "string list" where
  "HANDSHAKE_MCP_METHODS =
     [METHOD_INITIALIZE, METHOD_INITIALIZED, METHOD_TOOLS_LIST, METHOD_TOOLS_CALL,
      METHOD_PROMPTS_LIST, METHOD_PROMPTS_GET, METHOD_RESOURCES_LIST, METHOD_RESOURCES_READ,
      METHOD_RESOURCES_TEMPLATES, METHOD_RESOURCES_SUBSCRIBE, METHOD_RESOURCES_UNSUBSCRIBE,
      METHOD_PING, METHOD_LOGGING_SET_LEVEL, METHOD_COMPLETION_COMPLETE,
      METHOD_SAMPLING_CREATE_MESSAGE, METHOD_ELICITATION_CREATE, METHOD_ROOTS_LIST]"

definition STATELESS_MCP_METHODS :: "string list" where
  "STATELESS_MCP_METHODS =
     [METHOD_SERVER_DISCOVER, METHOD_SUBSCRIPTIONS_LISTEN, METHOD_TOOLS_LIST, METHOD_TOOLS_CALL,
      METHOD_PROMPTS_LIST, METHOD_PROMPTS_GET, METHOD_RESOURCES_LIST, METHOD_RESOURCES_READ,
      METHOD_RESOURCES_TEMPLATES, METHOD_COMPLETION_COMPLETE]"

definition VALID_MCP_METHODS :: "string list" where
  "VALID_MCP_METHODS = HANDSHAKE_MCP_METHODS @ STATELESS_MCP_METHODS"

definition valid_methods_for :: "string option \<Rightarrow> string list" where
  "valid_methods_for protocol_version =
     (let stripped = strip (case protocol_version of None \<Rightarrow> [] | Some v \<Rightarrow> v) in
      if stripped = STATELESS_PROTOCOL_VERSION then STATELESS_MCP_METHODS
      else if stripped \<in> set SUPPORTED_PROTOCOL_VERSIONS then HANDSHAKE_MCP_METHODS
      else VALID_MCP_METHODS)"

section \<open>Error codes, result types and client metadata\<close>

definition PARSE_ERROR :: int where "PARSE_ERROR = -32700"
definition INVALID_REQUEST :: int where "INVALID_REQUEST = -32600"
definition METHOD_NOT_FOUND :: int where "METHOD_NOT_FOUND = -32601"
definition INVALID_PARAMS :: int where "INVALID_PARAMS = -32602"
definition INTERNAL_ERROR :: int where "INTERNAL_ERROR = -32603"

definition RESULT_TYPE_COMPLETE :: string where "RESULT_TYPE_COMPLETE = ''complete''"
definition RESULT_TYPE_INPUT_REQUIRED :: string where
  "RESULT_TYPE_INPUT_REQUIRED = ''input_required''"
definition VALID_RESULT_TYPES :: "string list" where
  "VALID_RESULT_TYPES = [RESULT_TYPE_COMPLETE, RESULT_TYPE_INPUT_REQUIRED]"

definition MCP_CLIENT_NAME :: string where "MCP_CLIENT_NAME = ''mcp_hub''"
definition MCP_CLIENT_VERSION :: string where "MCP_CLIENT_VERSION = ''0.1.0''"

lemmas version_defs =
  PROTOCOL_VERSION_def BACKWARD_COMPAT_PROTOCOL_VERSION_def STATELESS_PROTOCOL_VERSION_def
  SUPPORTED_PROTOCOL_VERSIONS_def

lemmas method_defs =
  METHOD_INITIALIZE_def METHOD_INITIALIZED_def METHOD_TOOLS_LIST_def METHOD_TOOLS_CALL_def
  METHOD_PROMPTS_LIST_def METHOD_PROMPTS_GET_def METHOD_RESOURCES_LIST_def
  METHOD_RESOURCES_READ_def METHOD_RESOURCES_TEMPLATES_def METHOD_PING_def
  METHOD_LOGGING_SET_LEVEL_def METHOD_COMPLETION_COMPLETE_def
  METHOD_SAMPLING_CREATE_MESSAGE_def METHOD_RESOURCES_SUBSCRIBE_def
  METHOD_RESOURCES_UNSUBSCRIBE_def METHOD_ELICITATION_CREATE_def METHOD_ROOTS_LIST_def
  METHOD_SERVER_DISCOVER_def METHOD_SUBSCRIPTIONS_LISTEN_def

section \<open>Lemmas\<close>

lemma min_supported: "Min (set SUPPORTED_PROTOCOL_VERSIONS) = ''2025-06-18''"
  by code_simp

lemma max_supported: "Max (set SUPPORTED_PROTOCOL_VERSIONS) = ''2026-07-28''"
  by code_simp

lemma supported_str:
  "supported_protocol_versions_str = ''2026-07-28, 2025-11-25, 2025-06-18''"
  by code_simp

lemma supported_range:
  "v \<in> set SUPPORTED_PROTOCOL_VERSIONS \<Longrightarrow>
     Min (set SUPPORTED_PROTOCOL_VERSIONS) \<le> v \<and> v \<le> Max (set SUPPORTED_PROTOCOL_VERSIONS)"
  by simp

text \<open>The badge is decided by the position of the revision in the order of dates.\<close>

lemma mcp_version_status_spec:
  assumes "strip v \<noteq> []"
  shows "mcp_version_status (Some v) = Outdated \<longleftrightarrow> strip v < ''2025-06-18''"
    and "mcp_version_status (Some v) = Newer \<longleftrightarrow> ''2026-07-28'' < strip v"
    and "mcp_version_status (Some v) = Supported \<longleftrightarrow> is_supported_protocol_version v"
proof -
  have le: "''2025-06-18'' \<le> s \<and> s \<le> ''2026-07-28''" if "s \<in> set SUPPORTED_PROTOCOL_VERSIONS" for s
    using supported_range [OF that] by (simp only: min_supported max_supported)
  have lt: "''2025-06-18'' < (''2026-07-28'' :: string)" by code_simp
  have sep: "\<not> (''2026-07-28'' < s \<and> s < ''2025-06-18'')" for s
    using lt by (meson less_asym less_trans)
  show "mcp_version_status (Some v) = Outdated \<longleftrightarrow> strip v < ''2025-06-18''"
    using assms le [of "strip v"] unfolding mcp_version_status_def Let_def min_supported max_supported
    by auto
  show "mcp_version_status (Some v) = Newer \<longleftrightarrow> ''2026-07-28'' < strip v"
    using assms le [of "strip v"] sep [of "strip v"] unfolding mcp_version_status_def Let_def min_supported max_supported
    by auto
  show "mcp_version_status (Some v) = Supported \<longleftrightarrow> is_supported_protocol_version v"
    using assms unfolding mcp_version_status_def is_supported_protocol_version_def Let_def
    by auto
qed

lemma resolve_protocol_version_nonempty: "resolve_protocol_version c \<noteq> []"
  by (auto simp: resolve_protocol_version_def PROTOCOL_VERSION_def Let_def split: option.splits)

lemma resolve_protocol_version_negotiated:
  "strip c \<noteq> [] \<Longrightarrow> resolve_protocol_version (Some c) = strip c"
  by (simp add: resolve_protocol_version_def Let_def)

lemma valid_methods_subset: "set (valid_methods_for v) \<subseteq> set VALID_MCP_METHODS"
  by (auto simp: valid_methods_for_def VALID_MCP_METHODS_def Let_def split: if_splits)

lemma stateless_drops_handshake:
  "METHOD_INITIALIZE \<notin> set STATELESS_MCP_METHODS" "METHOD_PING \<notin> set STATELESS_MCP_METHODS"
  by (simp_all add: STATELESS_MCP_METHODS_def method_defs)

end
