(* ===== verification/Jsonrpc.thy ===== *)
theory Jsonrpc
  imports Constants Json
begin

text \<open>
  \<^verbatim>\<open>mcp/jsonrpc.py\<close>, \<^verbatim>\<open>mcp/mrtr.py\<close> and \<^verbatim>\<open>mcp/sse.py\<close>: building and validating JSON-RPC messages,
  the retry of a call that needs more input, and the payload of a server-sent event.

  \<open>json.loads\<close> is the argument \<open>loads\<close> (\<open>Inl\<close> the text of its exception) and the text of a float
  is the argument \<open>fr\<close>.
\<close>

section \<open>Requests\<close>

datatype severity = Sev_error | Sev_warning

record validation_error =
  ve_field :: string
  ve_message :: string
  ve_severity :: severity

definition error_at :: "string \<Rightarrow> string \<Rightarrow> validation_error" where
  "error_at field message = \<lparr>ve_field = field, ve_message = message, ve_severity = Sev_error\<rparr>"

definition warning_at :: "string \<Rightarrow> string \<Rightarrow> validation_error" where
  "warning_at field message = \<lparr>ve_field = field, ve_message = message, ve_severity = Sev_warning\<rparr>"

definition dq :: "string \<Rightarrow> string" where
  "dq s = [CHR 0x22] @ s @ [CHR 0x22]"

definition sq :: "string \<Rightarrow> string" where
  "sq s = [CHR 0x27] @ s @ [CHR 0x27]"

definition is_notification :: "string \<Rightarrow> bool" where
  "is_notification meth \<longleftrightarrow> meth = METHOD_INITIALIZED \<or> startswith meth ''notifications/''"

definition build_request :: "string \<Rightarrow> json \<Rightarrow> json \<Rightarrow> jdict" where
  "build_request meth request_id params =
     [(''jsonrpc'', JStr ''2.0''), (''method'', JStr meth)]
     @ (if request_id = JNull \<and> (startswith meth ''notifications/'' \<or> meth = METHOD_INITIALIZED)
        then [] else [(''id'', request_id)])
     @ (if params \<noteq> JNull then [(''params'', params)] else [])"

definition build_initialize_request :: "json \<Rightarrow> string \<Rightarrow> string \<Rightarrow> jdict" where
  "build_initialize_request request_id client_name client_version =
     build_request METHOD_INITIALIZE request_id
       (JObj [(''protocolVersion'', JStr PROTOCOL_VERSION), (''capabilities'', JObj []),
              (''clientInfo'', JObj [(''name'', JStr client_name), (''version'', JStr client_version)])])"

definition build_initialized_notification :: jdict where
  "build_initialized_notification = [(''jsonrpc'', JStr ''2.0''), (''method'', JStr METHOD_INITIALIZED)]"

definition build_list_request :: "string \<Rightarrow> json \<Rightarrow> jdict" where
  "build_list_request meth request_id = build_request meth request_id (JObj [])"

definition build_call_tool_request :: "string \<Rightarrow> jdict \<Rightarrow> json \<Rightarrow> jdict" where
  "build_call_tool_request tool_name arguments request_id =
     build_request ''tools/call'' request_id
       (JObj [(''name'', JStr tool_name), (''arguments'', JObj arguments)])"

text \<open>The bodies after decoding; bytes are decoded first, and a body that is not an object has no
  \<open>get\<close>.\<close>

datatype rpc_body = RawBytes string | Decoded json

definition decode_body :: "(string \<Rightarrow> string + json) \<Rightarrow> rpc_body \<Rightarrow> jdict py" where
  "decode_body loads data =
     (case (case data of
              RawBytes b \<Rightarrow> (case loads b of Inl e \<Rightarrow> Inl (ValueError (''Invalid JSON: '' @ e)) | Inr v \<Rightarrow> Inr v)
            | Decoded v \<Rightarrow> Inr v) of
        Inl e \<Rightarrow> Inl e
      | Inr (JObj d) \<Rightarrow> Inr d
      | Inr _ \<Rightarrow> Inl (AttributeError ''object has no attribute get''))"

definition jsonrpc_errors :: "jdict \<Rightarrow> validation_error list" where
  "jsonrpc_errors data =
     (if jget data ''jsonrpc'' = JStr ''2.0'' then []
      else [error_at ''jsonrpc'' (dq ''jsonrpc'' @ '' must equal '' @ dq ''2.0'')])"

definition method_errors :: "string option \<Rightarrow> jdict \<Rightarrow> validation_error list" where
  "method_errors protocol_version data =
     (case jget data ''method'' of
        JStr meth \<Rightarrow>
          if meth = []
          then [error_at ''method'' (dq ''method'' @ '' must be a non-empty string'')]
          else if meth \<in> set (valid_methods_for protocol_version) then []
          else [warning_at ''method''
                  (case protocol_version of
                     Some v \<Rightarrow>
                       if v \<noteq> [] \<and> meth \<in> set (valid_methods_for None)
                       then ''method '' @ dq meth @ '' does not exist in MCP '' @ strip v
                       else ''unknown MCP method '' @ dq meth
                   | None \<Rightarrow> ''unknown MCP method '' @ dq meth)]
      | _ \<Rightarrow> [error_at ''method'' (dq ''method'' @ '' must be a non-empty string'')])"

definition id_errors :: "jdict \<Rightarrow> validation_error list" where
  "id_errors data =
     (case jget data ''method'' of
        JStr meth \<Rightarrow>
          if is_notification meth \<and> has_key data ''id''
          then [error_at ''id'' (''Notifications MUST NOT have an '' @ sq ''id'' @ '' key'')]
          else if \<not> is_notification meth \<and> \<not> has_key data ''id''
          then [error_at ''id'' (''Non-notifications MUST have an '' @ sq ''id'' @ '' key'')]
          else []
      | _ \<Rightarrow> [])"

definition validate_request ::
  "(string \<Rightarrow> string + json) \<Rightarrow> rpc_body \<Rightarrow> string option \<Rightarrow> validation_error list py" where
  "validate_request loads data protocol_version =
     map_sum (\<lambda>e. e) (\<lambda>d. jsonrpc_errors d @ method_errors protocol_version d @ id_errors d)
       (decode_body loads data)"

section \<open>Responses\<close>

definition result_error_errors :: "jdict \<Rightarrow> validation_error list" where
  "result_error_errors data =
     (if has_key data ''result'' \<longleftrightarrow> has_key data ''error''
      then [error_at ''result/error''
              (''Exactly one of '' @ sq ''result'' @ '' or '' @ sq ''error'' @ '' must be present'')]
      else [])"

text \<open>\<open>result_type not in VALID_RESULT_TYPES\<close> hashes the value first, which an object or a list
  refuses.\<close>

definition result_type_errors :: "(rat \<Rightarrow> string) \<Rightarrow> jdict \<Rightarrow> validation_error list py" where
  "result_type_errors fr data =
     (case (if has_key data ''result'' then jget data ''result'' else JNull) of
        JObj result \<Rightarrow>
          if has_key result ''resultType''
          then (let t = jget result ''resultType''
                in if \<not> hashable t then Inl (TypeError ''unhashable type'')
                   else if t \<in> JStr ` set VALID_RESULT_TYPES then Inr []
                   else Inr [warning_at ''result.resultType''
                       (sq ''resultType'' @ '' must be one of '' @ py_repr fr (JList (map JStr (sort VALID_RESULT_TYPES)))
                        @ '', got '' @ py_repr fr t)])
          else Inr []
      | _ \<Rightarrow> Inr [])"

definition error_object_errors :: "jdict \<Rightarrow> validation_error list" where
  "error_object_errors data =
     (if \<not> has_key data ''error'' then []
      else case jget data ''error'' of
        JObj e \<Rightarrow>
          (if \<not> has_key e ''code'' then [error_at ''error.code'' (sq ''error.code'' @ '' is required'')]
           else if py_eq (jget e ''code'') (JInt 0)
           then [error_at ''error.code'' (sq ''error.code'' @ '' must be non-zero'')] else [])
          @ (if \<not> has_key e ''message''
             then [error_at ''error.message'' (sq ''error.message'' @ '' is required'')] else [])
      | _ \<Rightarrow> [error_at ''error'' (sq ''error'' @ '' must be an object'')])"

definition validate_response ::
  "(rat \<Rightarrow> string) \<Rightarrow> (string \<Rightarrow> string + json) \<Rightarrow> rpc_body \<Rightarrow> validation_error list py" where
  "validate_response fr loads data =
     (case decode_body loads data of
        Inl e \<Rightarrow> Inl e
      | Inr d \<Rightarrow>
          map_sum (\<lambda>e. e)
            (\<lambda>ts. jsonrpc_errors d @ result_error_errors d @ ts @ error_object_errors d)
            (result_type_errors fr d))"

section \<open>Multi-round-trip requests\<close>

record input_request =
  iq_id :: string
  iq_method :: string
  iq_message :: string
  iq_mode :: string
  iq_schema :: jdict

record input_required =
  iq_requests :: "input_request list"
  iq_request_state :: string

definition parse_input_request :: "(rat \<Rightarrow> string) \<Rightarrow> string \<times> json \<Rightarrow> input_request" where
  "parse_input_request fr item =
     (case item of (request_id, entry) \<Rightarrow>
        let params = (case entry of JObj e \<Rightarrow> obj_or_empty (jget e ''params'') | _ \<Rightarrow> [])
        in \<lparr>iq_id = request_id,
            iq_method = (case entry of JObj e \<Rightarrow> py_str fr (jget_or e ''method'' (JStr [])) | _ \<Rightarrow> []),
            iq_message = py_str fr (jget_or params ''message'' (JStr [])),
            iq_mode = py_str fr (jget_or params ''mode'' (JStr [])),
            iq_schema = obj_or_empty (jget params ''requestedSchema'')\<rparr>)"

definition parse_input_required ::
  "(rat \<Rightarrow> string) \<Rightarrow> (string \<Rightarrow> string + json) \<Rightarrow> string \<Rightarrow> input_required option" where
  "parse_input_required fr loads response_body =
     (case loads response_body of
        Inr (JObj payload) \<Rightarrow>
          (case jget payload ''result'' of
             JObj result \<Rightarrow>
               if jget result ''resultType'' \<noteq> JStr RESULT_TYPE_INPUT_REQUIRED then None
               else (case jget result ''inputRequests'' of
                       JObj raw \<Rightarrow>
                         if raw = [] then None
                         else Some \<lparr>iq_requests = map (parse_input_request fr) raw,
                                    iq_request_state =
                                      (case jget result ''requestState'' of JStr s \<Rightarrow> s | _ \<Rightarrow> [])\<rparr>
                     | _ \<Rightarrow> None)
           | _ \<Rightarrow> None)
      | _ \<Rightarrow> None)"

definition next_id :: "json \<Rightarrow> json" where
  "next_id original =
     (case original of
        JInt i \<Rightarrow> JInt (i + 1)
      | JStr s \<Rightarrow> if s \<noteq> [] then JStr (s @ ''-retry'') else JInt 1
      | _ \<Rightarrow> JInt 1)"

text \<open>\<open>dict(v or {})\<close>. A list must hold pairs; a pair whose key is not text is outside the model
  and treated as the type error.\<close>

fun pairs_to_dict :: "json list \<Rightarrow> jdict \<Rightarrow> jdict py" where
  "pairs_to_dict [] d = Inr d"
| "pairs_to_dict (JList [JStr k, v] # xs) d = pairs_to_dict xs (AList.update k v d)"
| "pairs_to_dict (JStr [a, b] # xs) d = pairs_to_dict xs (AList.update [a] (JStr [b]) d)"
| "pairs_to_dict (_ # xs) d = Inl (TypeError ''cannot convert dictionary update sequence element'')"

definition dict_or_empty :: "json \<Rightarrow> jdict py" where
  "dict_or_empty v =
     (if \<not> truthy v then Inr []
      else case v of
        JObj d \<Rightarrow> Inr d
      | JList xs \<Rightarrow> pairs_to_dict xs []
      | JStr s \<Rightarrow> Inl (ValueError ''dictionary update sequence element #0 has length 1; 2 is required'')
      | _ \<Rightarrow> Inl (TypeError ''object is not iterable''))"

text \<open>The dictionary comprehension: a repeated id keeps its first position.\<close>

definition input_responses :: "input_required \<Rightarrow> jdict \<Rightarrow> jdict" where
  "input_responses ir answers =
     foldl (\<lambda>d r. AList.update (iq_id r)
                    (JObj [(''action'', JStr ''accept''),
                           (''content'', jget_or answers (iq_id r) (JObj []))]) d) [] (iq_requests ir)"

definition build_retry_body ::
  "(string \<Rightarrow> string + json) \<Rightarrow> string \<Rightarrow> input_required \<Rightarrow> jdict \<Rightarrow> jdict option py" where
  "build_retry_body loads original_request ir answers =
     (case loads original_request of
        Inr (JObj payload) \<Rightarrow>
          (case dict_or_empty (jget payload ''params'') of
             Inl e \<Rightarrow> Inl e
           | Inr params \<Rightarrow>
               (let p1 = AList.update ''inputResponses'' (JObj (input_responses ir answers)) params;
                    p2 = (if iq_request_state ir \<noteq> []
                          then AList.update ''requestState'' (JStr (iq_request_state ir)) p1 else p1)
                in Inr (Some (AList.update ''params'' (JObj p2)
                         (AList.update ''id'' (next_id (jget payload ''id'')) payload)))))
      | _ \<Rightarrow> Inr None)"

section \<open>Server-sent events\<close>

text \<open>The loop over the lines: \<open>None\<close> for the \<open>[DONE]\<close> marker.\<close>

fun sse_lines :: "bool \<Rightarrow> string list \<Rightarrow> string list option" where
  "sse_lines found [] = Some []"
| "sse_lines found (line # ls) =
     (if startswith line ''data:''
      then if strip (drop 5 line) = ''[DONE]'' then None
           else map_option (\<lambda>ps. drop 5 line # ps) (sse_lines True ls)
      else if found then Some [] else sse_lines found ls)"

definition extract_sse_data :: "string \<Rightarrow> string option" where
  "extract_sse_data body =
     (if \<not> contains body ''data:'' then None
      else case sse_lines False (split_char (CHR 0x0A) body) of
        None \<Rightarrow> None
      | Some [] \<Rightarrow> None
      | Some parts \<Rightarrow> Some (strip (join [CHR 0x0A] parts)))"

section \<open>Lemmas\<close>

lemma build_request_get:
  "jget (build_request m i p) ''jsonrpc'' = JStr ''2.0''"
  "jget (build_request m i p) ''method'' = JStr m"
  "has_key (build_request m i p) ''id'' \<longleftrightarrow> \<not> (i = JNull \<and> is_notification m)"
  "jget (build_request m i p) ''params'' = p"
  by (auto simp: build_request_def jget_def has_key_def is_notification_def)

lemma valid_methods_nonempty: "m \<in> set (valid_methods_for v) \<Longrightarrow> m \<noteq> []"
  using valid_methods_subset[of v]
  by (auto simp: VALID_MCP_METHODS_def HANDSHAKE_MCP_METHODS_def STATELESS_MCP_METHODS_def method_defs)

lemma validate_built:
  assumes "m \<in> set (valid_methods_for v)" "is_notification m \<longrightarrow> i = JNull"
  shows "validate_request loads (Decoded (JObj (build_request m i p))) v = Inr []"
  using assms valid_methods_nonempty[OF assms(1)]
  by (auto simp: validate_request_def decode_body_def jsonrpc_errors_def method_errors_def
      id_errors_def build_request_get)

lemma next_id_differs: "py_eq (next_id v) v \<longleftrightarrow> v = JBool True \<or> v = JFloat 1"
  by (cases v) (auto simp: next_id_def)

lemma build_retry_body_Some:
  assumes "build_retry_body loads req ir answers = Inr (Some d)"
  shows "\<exists>payload. loads req = Inr (JObj payload) \<and> jget d ''id'' = next_id (jget payload ''id'') \<and>
           jget d ''method'' = jget payload ''method'' \<and>
           (\<exists>p. jget d ''params'' = JObj p \<and> jget p ''inputResponses'' = JObj (input_responses ir answers) \<and>
                (iq_request_state ir \<noteq> [] \<longrightarrow> jget p ''requestState'' = JStr (iq_request_state ir)))"
  using assms
  by (auto simp: build_retry_body_def Let_def jget_update split: sum.splits json.splits if_splits)

lemma sse_lines_data:
  "\<forall>p \<in> set ps. strip p \<noteq> ''[DONE]'' \<Longrightarrow>
     sse_lines f (map (\<lambda>p. ''data:'' @ p) ps @ [[]]) = (if ps = [] \<and> \<not> f then Some [] else Some ps)"
  by (induction ps arbitrary: f) auto

end
