(* ===== verification/Http.thy ===== *)
theory Http
  imports Json
begin

text \<open>
  The HTTP vocabulary the handlers share: Starlette's request (with the principal the
  authentication dependency leaves on \<open>request.state\<close>) and response, FastAPI's
  \<open>HTTPException\<close>, and the case-insensitive header lookup of Starlette's \<open>Headers\<close>.
\<close>

section \<open>Headers\<close>

fun header_get :: "headers \<Rightarrow> string \<Rightarrow> string option" where
  "header_get [] name = None"
| "header_get ((k, v) # hs) name = (if lower k = lower name then Some v else header_get hs name)"

text \<open>\<open>headers.get(name, "")\<close>.\<close>

definition header_or_empty :: "headers \<Rightarrow> string \<Rightarrow> string" where
  "header_or_empty hs name = (case header_get hs name of None \<Rightarrow> [] | Some v \<Rightarrow> v)"

section \<open>Responses and exceptions\<close>

record http_response =
  hr_status :: int
  hr_body :: string
  hr_headers :: headers

text \<open>Starlette's \<open>Response\<close>: the given headers with lower-case names, then \<open>content-length\<close> for a
  status that may carry a body, then the media type, with its charset for text.\<close>

definition media_type_header :: "string \<Rightarrow> string" where
  "media_type_header m =
     (if startswith m ''text/'' \<and> \<not> contains (lower m) ''charset='' then m @ ''; charset=utf-8'' else m)"

definition response_of :: "int \<Rightarrow> string \<Rightarrow> headers \<Rightarrow> string option \<Rightarrow> http_response" where
  "response_of status body hs media_type =
     (let given = map (\<lambda>(k, v). (lower k, v)) hs;
          len = (if ''content-length'' \<notin> fst ` set given \<and> \<not> (status < 200 \<or> status = 204 \<or> status = 304)
                 then [(''content-length'', str_nat (length body))] else []);
          typ = (case media_type of
                   Some m \<Rightarrow> if ''content-type'' \<in> fst ` set given then []
                             else [(''content-type'', media_type_header m)]
                 | None \<Rightarrow> [])
      in \<lparr>hr_status = status, hr_body = body, hr_headers = given @ len @ typ\<rparr>)"

abbreviation plain_response :: "int \<Rightarrow> string \<Rightarrow> http_response" where
  "plain_response status body \<equiv> response_of status body [] None"

record http_exception =
  he_status :: int
  he_detail :: string
  he_headers :: headers

section \<open>Lemmas\<close>

lemma response_of_sel [simp]:
  "hr_status (response_of status body hs m) = status" "hr_body (response_of status body hs m) = body"
  by (simp_all add: response_of_def Let_def)

lemma header_get_Some: "header_get hs name = Some v \<Longrightarrow> \<exists>k. (k, v) \<in> set hs \<and> lower k = lower name"
  by (induction hs name rule: header_get.induct) (auto split: if_splits)

lemma header_get_None:
  "header_get hs name = None \<longleftrightarrow> (\<forall>(k, v) \<in> set hs. lower k \<noteq> lower name)"
  by (induction hs name rule: header_get.induct) auto

lemma header_get_lower [simp]: "header_get hs (lower name) = header_get hs name"
  by (induction hs name rule: header_get.induct) auto

end
