(* ===== verification/Token_Exchange.thy ===== *)
theory Token_Exchange
  imports Http
begin

text \<open>
  \<^verbatim>\<open>mcp/token_exchange.py\<close> (RFC 8693, one leg) and \<^verbatim>\<open>mcp/id_jag.py\<close> (ID-JAG, two legs).

  The HTTP client is the argument \<open>post\<close>: what posting a form to a URL answers, either the
  text of an \<open>httpx.HTTPError\<close> or a response. PyJWT's unverified decode is the argument
  \<open>claims_of\<close>. An exchange returns the requests it sent, in order, beside its result, so that
  what is sent and when can be stated.
\<close>

section \<open>Token endpoints\<close>

type_synonym form = "(string, string) dict"

record token_response =
  tr_status :: int
  tr_json :: "string + json"       \<comment> \<open>\<open>response.json()\<close>: \<open>Inl\<close> the text of its \<open>ValueError\<close>\<close>
  tr_status_error :: string        \<comment> \<open>the text \<open>raise_for_status()\<close> would raise with\<close>

type_synonym token_endpoint = "string \<Rightarrow> form \<Rightarrow> string + token_response"

type_synonym sent_forms = "(string \<times> form) list"

definition opt_field :: "string \<Rightarrow> string \<Rightarrow> form" where
  "opt_field name v = (if v \<noteq> [] then [(name, v)] else [])"

section \<open>RFC 8693 token exchange\<close>

definition TOKEN_EXCHANGE_GRANT_TYPE :: string where
  "TOKEN_EXCHANGE_GRANT_TYPE = ''urn:ietf:params:oauth:grant-type:token-exchange''"
definition ACCESS_TOKEN_TYPE :: string where
  "ACCESS_TOKEN_TYPE = ''urn:ietf:params:oauth:token-type:access_token''"
definition MIN_TOKEN_LIFETIME_SECONDS :: int where "MIN_TOKEN_LIFETIME_SECONDS = 30"
definition DEFAULT_EXPIRES_IN :: int where "DEFAULT_EXPIRES_IN = 300"

record token_exchange_error =
  xe_message :: string
  xe_error :: string
  xe_error_description :: string
  xe_status_code :: int

definition exchange_error :: "string \<Rightarrow> token_exchange_error" where
  "exchange_error m =
     \<lparr>xe_message = m, xe_error = [], xe_error_description = [], xe_status_code = 0\<rparr>"

definition exchange_error_summary :: "token_exchange_error \<Rightarrow> string" where
  "exchange_error_summary e =
     (if xe_error e \<noteq> [] \<and> xe_error_description e \<noteq> []
      then xe_error e @ '': '' @ xe_error_description e
      else if xe_error e \<noteq> [] then xe_error e else xe_message e)"

record exchange_request =
  xr_token_url :: string
  xr_client_id :: string
  xr_client_secret :: string
  xr_subject_token :: string
  xr_audience :: string
  xr_resource :: string
  xr_scope :: string
  xr_actor_token :: string
  xr_requested_token_type :: string

definition to_form :: "exchange_request \<Rightarrow> form" where
  "to_form r =
     [(''grant_type'', TOKEN_EXCHANGE_GRANT_TYPE),
      (''subject_token'', xr_subject_token r),
      (''subject_token_type'', ACCESS_TOKEN_TYPE),
      (''client_id'', xr_client_id r),
      (''client_secret'', xr_client_secret r)]
     @ opt_field ''requested_token_type'' (xr_requested_token_type r)
     @ opt_field ''audience'' (xr_audience r)
     @ opt_field ''resource'' (xr_resource r)
     @ opt_field ''scope'' (xr_scope r)
     @ (if xr_actor_token r \<noteq> []
        then [(''actor_token'', xr_actor_token r), (''actor_token_type'', ACCESS_TOKEN_TYPE)]
        else [])"

record exchanged_token =
  xt_access_token :: string
  xt_expires_in :: int
  xt_issued_token_type :: string
  xt_scope :: string

definition coerce_expires_in :: "json \<Rightarrow> int" where
  "coerce_expires_in v =
     (case py_int v of
        Inl e \<Rightarrow> DEFAULT_EXPIRES_IN
      | Inr seconds \<Rightarrow> max seconds MIN_TOKEN_LIFETIME_SECONDS)"

text \<open>The \<open>error\<close> and \<open>error_description\<close> of an error body, and the message both modules
  build from them.\<close>

definition oauth_error_fields :: "(rat \<Rightarrow> string) \<Rightarrow> token_response \<Rightarrow> string \<times> string" where
  "oauth_error_fields fr response =
     (case tr_json response of
        Inr (JObj d) \<Rightarrow>
          (str_or_empty fr (jget d ''error''), str_or_empty fr (jget d ''error_description''))
      | _ \<Rightarrow> ([], []))"

definition oauth_error_detail :: "string \<times> string \<Rightarrow> string" where
  "oauth_error_detail p =
     (case p of (error, description) \<Rightarrow>
        if error \<noteq> [] \<and> description \<noteq> [] then error @ '': '' @ description else error)"

definition failed_message :: "string \<Rightarrow> int \<Rightarrow> string \<Rightarrow> string" where
  "failed_message what status detail =
     what @ '' failed ('' @ str_int status @ '')'' @ (if detail \<noteq> [] then '': '' @ detail else [])"

definition error_from_response ::
  "(rat \<Rightarrow> string) \<Rightarrow> token_response \<Rightarrow> token_exchange_error" where
  "error_from_response fr response =
     (let fields = oauth_error_fields fr response
      in \<lparr>xe_message = failed_message ''token exchange'' (tr_status response)
                         (oauth_error_detail fields),
          xe_error = fst fields, xe_error_description = snd fields,
          xe_status_code = tr_status response\<rparr>)"

definition read_exchange ::
  "(rat \<Rightarrow> string) \<Rightarrow> string + token_response \<Rightarrow> token_exchange_error + exchanged_token" where
  "read_exchange fr outcome =
     (case outcome of
        Inl exc \<Rightarrow> Inl (exchange_error (''token endpoint unreachable: '' @ exc))
      | Inr response \<Rightarrow>
          if tr_status response \<ge> 400 then Inl (error_from_response fr response)
          else case tr_json response of
            Inl _ \<Rightarrow> Inl (exchange_error ''token endpoint returned a non-JSON body'')
          | Inr (JObj payload) \<Rightarrow>
              (case jget payload ''access_token'' of
                 JStr access_token \<Rightarrow>
                   if access_token = []
                   then Inl (exchange_error ''token response contained no access_token'')
                   else Inr \<lparr>xt_access_token = access_token,
                             xt_expires_in = coerce_expires_in (jget payload ''expires_in''),
                             xt_issued_token_type =
                               str_or_empty fr (jget payload ''issued_token_type''),
                             xt_scope = str_or_empty fr (jget payload ''scope'')\<rparr>
               | _ \<Rightarrow> Inl (exchange_error ''token response contained no access_token''))
          | Inr _ \<Rightarrow> Inl (exchange_error ''token endpoint returned an unexpected body''))"

definition exchange_token ::
  "(rat \<Rightarrow> string) \<Rightarrow> token_endpoint \<Rightarrow> exchange_request
     \<Rightarrow> sent_forms \<times> (token_exchange_error + exchanged_token)" where
  "exchange_token fr post request =
     (let form = to_form request
      in ([(xr_token_url request, form)], read_exchange fr (post (xr_token_url request) form)))"

section \<open>ID-JAG\<close>

definition JWT_BEARER_GRANT_TYPE :: string where
  "JWT_BEARER_GRANT_TYPE = ''urn:ietf:params:oauth:grant-type:jwt-bearer''"
definition ID_JAG_TOKEN_TYPE :: string where
  "ID_JAG_TOKEN_TYPE = ''urn:ietf:params:oauth:token-type:id-jag''"
definition ID_TOKEN_TYPE :: string where
  "ID_TOKEN_TYPE = ''urn:ietf:params:oauth:token-type:id_token''"
definition ID_JAG_GRANT_PROFILE :: string where
  "ID_JAG_GRANT_PROFILE = ''urn:ietf:params:oauth:grant-profile:id-jag''"

record id_jag_error =
  ie_message :: string
  ie_leg :: int
  ie_error :: string
  ie_error_description :: string
  ie_status_code :: int

definition id_jag_failure :: "int \<Rightarrow> string \<Rightarrow> id_jag_error" where
  "id_jag_failure leg m =
     \<lparr>ie_message = m, ie_leg = leg, ie_error = [], ie_error_description = [], ie_status_code = 0\<rparr>"

definition id_jag_summary :: "id_jag_error \<Rightarrow> string" where
  "id_jag_summary e =
     (let location = (if ie_leg e = 1 then ''leg 1 (enterprise IdP)'' else ''leg 2 (resource AS)'');
          detail = (if ie_error e \<noteq> [] \<and> ie_error_description e \<noteq> []
                    then ie_error e @ '': '' @ ie_error_description e
                    else if ie_error e \<noteq> [] then ie_error e else ie_message e)
      in location @ '': '' @ detail)"

record id_jag_request =
  ir_idp_token_url :: string
  ir_resource_as_token_url :: string
  ir_resource_as_issuer :: string
  ir_resource_id :: string
  ir_client_id :: string
  ir_client_secret :: string
  ir_subject_token :: string
  ir_subject_token_type :: string
  ir_scope :: string

record id_jag_access_token =
  ia_access_token :: string
  ia_expires_in :: int
  ia_scope :: string

definition supports_id_jag_profile :: "jdict option \<Rightarrow> bool" where
  "supports_id_jag_profile metadata =
     (case metadata of
        None \<Rightarrow> False
      | Some d \<Rightarrow> (case jget d ''authorization_grant_profiles_supported'' of
                     JList profiles \<Rightarrow> JStr ID_JAG_GRANT_PROFILE \<in> set profiles
                   | _ \<Rightarrow> False))"

definition id_jag_error_from_response ::
  "(rat \<Rightarrow> string) \<Rightarrow> int \<Rightarrow> token_response \<Rightarrow> id_jag_error" where
  "id_jag_error_from_response fr leg response =
     (let fields = oauth_error_fields fr response
      in \<lparr>ie_message = failed_message (''leg '' @ str_int leg) (tr_status response)
                         (oauth_error_detail fields),
          ie_leg = leg, ie_error = fst fields, ie_error_description = snd fields,
          ie_status_code = tr_status response\<rparr>)"

text \<open>\<open>_post\<close>, from the answer of the endpoint on.\<close>

definition read_leg ::
  "(rat \<Rightarrow> string) \<Rightarrow> int \<Rightarrow> string + token_response \<Rightarrow> id_jag_error + jdict" where
  "read_leg fr leg outcome =
     (case outcome of
        Inl exc \<Rightarrow> Inl (id_jag_failure leg (''token endpoint unreachable: '' @ exc))
      | Inr response \<Rightarrow>
          if tr_status response \<ge> 400 then Inl (id_jag_error_from_response fr leg response)
          else case tr_json response of
            Inl _ \<Rightarrow> Inl (id_jag_failure leg ''token endpoint returned a non-JSON body'')
          | Inr (JObj payload) \<Rightarrow> Inr payload
          | Inr _ \<Rightarrow> Inl (id_jag_failure leg ''token endpoint returned an unexpected body''))"

definition id_jag_form :: "id_jag_request \<Rightarrow> form" where
  "id_jag_form r =
     [(''grant_type'', TOKEN_EXCHANGE_GRANT_TYPE),
      (''subject_token'', ir_subject_token r),
      (''subject_token_type'', ir_subject_token_type r),
      (''requested_token_type'', ID_JAG_TOKEN_TYPE),
      (''audience'', ir_resource_as_issuer r),
      (''client_id'', ir_client_id r),
      (''client_secret'', ir_client_secret r)]
     @ opt_field ''resource'' (ir_resource_id r)
     @ opt_field ''scope'' (ir_scope r)"

definition request_id_jag ::
  "(rat \<Rightarrow> string) \<Rightarrow> token_endpoint \<Rightarrow> id_jag_request \<Rightarrow> id_jag_error + string" where
  "request_id_jag fr post r =
     (case read_leg fr 1 (post (ir_idp_token_url r) (id_jag_form r)) of
        Inl e \<Rightarrow> Inl e
      | Inr payload \<Rightarrow>
          (let issued_type = str_or_empty fr (jget payload ''issued_token_type'')
           in if issued_type \<noteq> ID_JAG_TOKEN_TYPE
              then Inl (id_jag_failure 1 (''expected issued_token_type '' @ ID_JAG_TOKEN_TYPE
                                          @ '', got '' @ repr_str issued_type))
              else case jget payload ''access_token'' of
                JStr assertion \<Rightarrow>
                  if assertion = [] then Inl (id_jag_failure 1 ''the IdP returned no assertion'')
                  else Inr assertion
              | _ \<Rightarrow> Inl (id_jag_failure 1 ''the IdP returned no assertion'')))"

definition verify_resource_claim ::
  "(rat \<Rightarrow> string) \<Rightarrow> (string \<Rightarrow> string + jdict) \<Rightarrow> string \<Rightarrow> string \<Rightarrow> id_jag_error option" where
  "verify_resource_claim fr claims_of assertion expected =
     (if expected = [] then None
      else case claims_of assertion of
        Inl exc \<Rightarrow> Some (id_jag_failure 1 (''the assertion is not a readable JWT: '' @ exc))
      | Inr claims \<Rightarrow>
          (let actual = str_or_empty fr (jget claims ''resource'')
           in if actual \<noteq> expected
              then Some (id_jag_failure 1 (''assertion resource claim '' @ repr_str actual
                                           @ '' does not name '' @ repr_str expected))
              else None))"

definition redeem_form :: "id_jag_request \<Rightarrow> string \<Rightarrow> form" where
  "redeem_form r assertion =
     [(''grant_type'', JWT_BEARER_GRANT_TYPE), (''assertion'', assertion),
      (''client_id'', ir_client_id r), (''client_secret'', ir_client_secret r)]
     @ opt_field ''scope'' (ir_scope r)"

definition redeem_id_jag ::
  "(rat \<Rightarrow> string) \<Rightarrow> token_endpoint \<Rightarrow> id_jag_request \<Rightarrow> string
     \<Rightarrow> id_jag_error + id_jag_access_token" where
  "redeem_id_jag fr post r assertion =
     (case read_leg fr 2 (post (ir_resource_as_token_url r) (redeem_form r assertion)) of
        Inl e \<Rightarrow> Inl e
      | Inr payload \<Rightarrow>
          (case jget payload ''access_token'' of
             JStr access_token \<Rightarrow>
               if access_token = []
               then Inl (id_jag_failure 2 ''the resource AS returned no access_token'')
               else Inr \<lparr>ia_access_token = access_token,
                         ia_expires_in = coerce_expires_in (jget payload ''expires_in''),
                         ia_scope = str_or_empty fr (jget payload ''scope'')\<rparr>
           | _ \<Rightarrow> Inl (id_jag_failure 2 ''the resource AS returned no access_token'')))"

definition exchange_for_access_token ::
  "(rat \<Rightarrow> string) \<Rightarrow> token_endpoint \<Rightarrow> (string \<Rightarrow> string + jdict) \<Rightarrow> id_jag_request
     \<Rightarrow> sent_forms \<times> (id_jag_error + id_jag_access_token)" where
  "exchange_for_access_token fr post claims_of r =
     (let leg1 = (ir_idp_token_url r, id_jag_form r)
      in case request_id_jag fr post r of
           Inl e \<Rightarrow> ([leg1], Inl e)
         | Inr assertion \<Rightarrow>
             (case verify_resource_claim fr claims_of assertion (ir_resource_id r) of
                Some e \<Rightarrow> ([leg1], Inl e)
              | None \<Rightarrow> ([leg1, (ir_resource_as_token_url r, redeem_form r assertion)],
                         redeem_id_jag fr post r assertion)))"

section \<open>Lemmas\<close>

lemma coerce_expires_in_floor: "coerce_expires_in v \<ge> MIN_TOKEN_LIFETIME_SECONDS"
  by (auto simp: coerce_expires_in_def DEFAULT_EXPIRES_IN_def MIN_TOKEN_LIFETIME_SECONDS_def
      split: sum.splits)

lemma read_exchange_Inr:
  "read_exchange fr out = Inr t \<Longrightarrow>
     xt_access_token t \<noteq> [] \<and> xt_expires_in t \<ge> MIN_TOKEN_LIFETIME_SECONDS \<and>
     (\<exists>resp. out = Inr resp \<and> tr_status resp < 400)"
  using coerce_expires_in_floor
  by (auto simp: read_exchange_def split: sum.splits if_splits json.splits)

lemma opt_field_get: "map_of (opt_field k v) k' = (if k' = k \<and> v \<noteq> [] then Some v else None)"
  by (simp add: opt_field_def)

text \<open>The subject token travels in the field \<open>subject_token\<close>, and the actor token only when
  delegation is configured.\<close>

lemma to_form_get:
  "map_of (to_form r) ''subject_token'' = Some (xr_subject_token r)"
  "map_of (to_form r) ''actor_token'' =
     (if xr_actor_token r = [] then None else Some (xr_actor_token r))"
  "map_of (to_form r) ''audience'' = (if xr_audience r = [] then None else Some (xr_audience r))"
  "map_of (to_form r) ''resource'' = (if xr_resource r = [] then None else Some (xr_resource r))"
  "map_of (to_form r) ''scope'' = (if xr_scope r = [] then None else Some (xr_scope r))"
  by (simp_all add: to_form_def opt_field_get map_add_def)

lemma request_id_jag_Inr:
  "request_id_jag fr post r = Inr a \<Longrightarrow>
     \<exists>resp payload. post (ir_idp_token_url r) (id_jag_form r) = Inr resp \<and> tr_status resp < 400 \<and>
       tr_json resp = Inr (JObj payload) \<and>
       str_or_empty fr (jget payload ''issued_token_type'') = ID_JAG_TOKEN_TYPE \<and>
       jget payload ''access_token'' = JStr a \<and> a \<noteq> []"
  by (auto simp: request_id_jag_def read_leg_def Let_def split: sum.splits if_splits json.splits)

lemma redeem_id_jag_Inr:
  "redeem_id_jag fr post r a = Inr t \<Longrightarrow>
     ia_access_token t \<noteq> [] \<and> ia_expires_in t \<ge> MIN_TOKEN_LIFETIME_SECONDS"
  using coerce_expires_in_floor
  by (auto simp: redeem_id_jag_def split: sum.splits if_splits json.splits)

text \<open>The second leg is sent only after the first one issued an ID-JAG whose resource claim
  names this server.\<close>

lemma redeem_only_after_claim:
  assumes "exchange_for_access_token fr post claims_of r = (sent, res)" "length sent > 1"
  obtains a where "request_id_jag fr post r = Inr a"
    "ir_resource_id r \<noteq> [] \<longrightarrow>
       (\<exists>claims. claims_of a = Inr claims \<and>
                 str_or_empty fr (jget claims ''resource'') = ir_resource_id r)"
    "sent = [(ir_idp_token_url r, id_jag_form r), (ir_resource_as_token_url r, redeem_form r a)]"
  using assms
  by (auto simp: exchange_for_access_token_def verify_resource_claim_def Let_def
      split: sum.splits option.splits if_splits)

lemma exchange_for_access_token_Inr:
  "exchange_for_access_token fr post claims_of r = (sent, Inr t) \<Longrightarrow>
     length sent = 2 \<and> ia_access_token t \<noteq> [] \<and> ia_expires_in t \<ge> MIN_TOKEN_LIFETIME_SECONDS"
  by (auto simp: exchange_for_access_token_def Let_def dest: redeem_id_jag_Inr
      split: sum.splits option.splits)

end
