(* ===== verification/Obo_Cache.thy ===== *)
theory Obo_Cache
  imports Token_Exchange
begin

text \<open>
  \<^verbatim>\<open>mcp/obo_cache.py\<close>: exchanged tokens keyed per subject.

  The \<open>OrderedDict\<close> is an association list, oldest use first. \<open>token\<close> holds the lock twice,
  around \<open>cache_lookup\<close> and around \<open>cache_store\<close>, and runs the exchange between the two; the
  step relation \<open>cache_step\<close> interleaves the two critical sections of any number of
  requests with invalidations and the passing of time.
\<close>

section \<open>Cache and operations\<close>

definition DEFAULT_MAX_ENTRIES :: nat where "DEFAULT_MAX_ENTRIES = 1024"
definition EXPIRY_MARGIN_SECONDS :: int where "EXPIRY_MARGIN_SECONDS = 30"

record obo_cache_key =
  ck_subject :: string
  ck_issuer :: string
  ck_server_id :: string
  ck_audience :: string
  ck_scope :: string
  ck_resource :: string
  ck_flow :: string

record cache_entry =
  ce_token :: string
  ce_expires_at :: timestamp

type_synonym cache_entries = "(obo_cache_key, cache_entry) dict"

record obo_token_cache =
  oc_entries :: cache_entries
  oc_max_entries :: nat

definition new_obo_cache :: "nat \<Rightarrow> obo_token_cache" where
  "new_obo_cache n = \<lparr>oc_entries = [], oc_max_entries = n\<rparr>"

definition is_live :: "timestamp \<Rightarrow> cache_entry \<Rightarrow> bool" where
  "is_live now e \<longleftrightarrow> ce_expires_at e - now > microseconds EXPIRY_MARGIN_SECONDS"

definition expiry_for :: "timestamp \<Rightarrow> exchanged_token \<Rightarrow> timestamp option \<Rightarrow> timestamp" where
  "expiry_for now exchanged subject_expires_at =
     (let own = now + microseconds (xt_expires_in exchanged)
      in case subject_expires_at of None \<Rightarrow> own | Some t \<Rightarrow> min own t)"

text \<open>\<open>OrderedDict.move_to_end\<close> of a key that is present.\<close>

definition move_to_end :: "'k \<Rightarrow> ('k, 'v) dict \<Rightarrow> ('k, 'v) dict" where
  "move_to_end k d = (case map_of d k of None \<Rightarrow> d | Some v \<Rightarrow> AList.delete k d @ [(k, v)])"

fun evict_if_needed :: "nat \<Rightarrow> ('k, 'v) dict \<Rightarrow> ('k, 'v) dict" where
  "evict_if_needed n [] = []"
| "evict_if_needed n (e # es) = (if length (e # es) > n then evict_if_needed n es else e # es)"

definition cache_lookup ::
  "timestamp \<Rightarrow> obo_cache_key \<Rightarrow> obo_token_cache \<Rightarrow> obo_token_cache \<times> string option" where
  "cache_lookup now key c =
     (case map_of (oc_entries c) key of
        None \<Rightarrow> (c, None)
      | Some entry \<Rightarrow>
          if is_live now entry
          then (c\<lparr>oc_entries := move_to_end key (oc_entries c)\<rparr>, Some (ce_token entry))
          else (c\<lparr>oc_entries := AList.delete key (oc_entries c)\<rparr>, None))"

definition cache_store ::
  "timestamp \<Rightarrow> obo_cache_key \<Rightarrow> exchanged_token \<Rightarrow> timestamp option
     \<Rightarrow> obo_token_cache \<Rightarrow> obo_token_cache" where
  "cache_store now key exchanged subject_expires_at c =
     (let entry = \<lparr>ce_token = xt_access_token exchanged,
                   ce_expires_at = expiry_for now exchanged subject_expires_at\<rparr>
      in c\<lparr>oc_entries := evict_if_needed (oc_max_entries c)
             (move_to_end key (AList.update key entry (oc_entries c)))\<rparr>)"

text \<open>\<open>OBOTokenCache.token\<close> as one call: \<open>t1\<close> and \<open>t2\<close> are the clock readings of the two
  critical sections and \<open>fetch\<close> is what the exchange returns.\<close>

definition cache_token ::
  "timestamp \<Rightarrow> timestamp \<Rightarrow> obo_cache_key \<Rightarrow> 'e + exchanged_token \<Rightarrow> timestamp option
     \<Rightarrow> obo_token_cache \<Rightarrow> obo_token_cache \<times> ('e + string)" where
  "cache_token t1 t2 key fetch subject_expires_at c =
     (case cache_lookup t1 key c of
        (c', Some token) \<Rightarrow> (c', Inr token)
      | (c', None) \<Rightarrow>
          (case fetch of
             Inl e \<Rightarrow> (c', Inl e)
           | Inr exchanged \<Rightarrow>
               (cache_store t2 key exchanged subject_expires_at c',
                Inr (xt_access_token exchanged))))"

definition cache_invalidate :: "obo_cache_key \<Rightarrow> obo_token_cache \<Rightarrow> obo_token_cache" where
  "cache_invalidate key c = c\<lparr>oc_entries := AList.delete key (oc_entries c)\<rparr>"

definition cache_size :: "obo_token_cache \<Rightarrow> nat" where
  "cache_size c = length (oc_entries c)"

section \<open>Well-formed caches\<close>

definition cache_ok :: "obo_token_cache \<Rightarrow> bool" where
  "cache_ok c \<longleftrightarrow>
     distinct (map fst (oc_entries c)) \<and> length (oc_entries c) \<le> oc_max_entries c"

lemma evict_if_needed_drop: "evict_if_needed n es = drop (length es - n) es"
  by (induction n es rule: evict_if_needed.induct) (auto simp: Suc_diff_le not_less)

lemma move_to_end_present:
  "map_of d k = Some v \<Longrightarrow> move_to_end k d = AList.delete k d @ [(k, v)]"
  by (simp add: move_to_end_def)

lemma move_to_end_update:
  "move_to_end k (AList.update k v d) = AList.delete k d @ [(k, v)]"
  by (simp add: move_to_end_def update_conv' delete_update_same)

lemma delete_notin: "k \<notin> fst ` set (AList.delete k d)"
  by (auto simp: in_delete_iff)

lemma map_of_delete_snoc:
  "map_of (AList.delete k d @ [(k, v)]) = (map_of d)(k \<mapsto> v)"
  by (auto simp: map_add_def delete_conv' fun_eq_iff split: option.splits)

lemma distinct_delete_snoc:
  "distinct (map fst d) \<Longrightarrow> distinct (map fst (AList.delete k d @ [(k, v)]))"
  by (simp add: delete_notin distinct_delete)

lemma length_delete_present:
  "map_of d k = Some v \<Longrightarrow> distinct (map fst d) \<Longrightarrow> Suc (length (AList.delete k d)) = length d"
  by (induction d) (auto simp: delete_absent[unfolded image_def] split: if_splits dest: map_of_SomeD)

lemma in_set_move_to_end: "distinct (map fst d) \<Longrightarrow> set (move_to_end k d) = set d"
  by (auto simp: move_to_end_def in_delete_iff map_of_eq_Some_iff split: option.splits
      dest: eq_key_imp_eq_value)

lemma distinct_keys_drop: "distinct (map fst d) \<Longrightarrow> distinct (map fst (drop n d))"
  by (simp add: drop_map[symmetric])

lemma cache_ok_new: "cache_ok (new_obo_cache n)"
  by (simp add: cache_ok_def new_obo_cache_def)

lemma cache_lookup_ok: "cache_ok c \<Longrightarrow> cache_ok (fst (cache_lookup now k c))"
  using length_delete_le[of k "oc_entries c"] length_delete_present[of "oc_entries c" k]
  by (auto simp: cache_ok_def cache_lookup_def move_to_end_present distinct_delete_snoc
      distinct_delete simp del: map_append split: option.splits)

lemma cache_store_ok: "cache_ok c \<Longrightarrow> cache_ok (cache_store now k t se c)"
  by (simp add: cache_ok_def cache_store_def Let_def move_to_end_update evict_if_needed_drop
      distinct_delete_snoc distinct_keys_drop del: map_append drop_append)

lemma cache_invalidate_ok: "cache_ok c \<Longrightarrow> cache_ok (cache_invalidate k c)"
  using length_delete_le[of k "oc_entries c"]
  by (auto simp: cache_ok_def cache_invalidate_def distinct_delete)

lemma cache_max [simp]:
  "oc_max_entries (fst (cache_lookup now k c)) = oc_max_entries c"
  "oc_max_entries (cache_store now k t se c) = oc_max_entries c"
  "oc_max_entries (cache_invalidate k c) = oc_max_entries c"
  by (simp_all add: cache_lookup_def cache_store_def cache_invalidate_def Let_def split: option.split)

section \<open>What a lookup returns\<close>

lemma cache_lookup_hit:
  "snd (cache_lookup now k c) = Some t \<longleftrightarrow>
     (\<exists>e. map_of (oc_entries c) k = Some e \<and> is_live now e \<and> ce_token e = t)"
  by (auto simp: cache_lookup_def split: option.splits)

lemma cache_lookup_entries:
  "cache_ok c \<Longrightarrow> set (oc_entries (fst (cache_lookup now k c))) \<subseteq> set (oc_entries c)"
  by (auto simp: cache_lookup_def cache_ok_def in_set_move_to_end in_delete_iff
      split: option.splits)

lemma cache_store_entries:
  "set (oc_entries (cache_store now k t se c)) \<subseteq>
     {(k', e) \<in> set (oc_entries c). k' \<noteq> k} \<union>
     {(k, \<lparr>ce_token = xt_access_token t, ce_expires_at = expiry_for now t se\<rparr>)}"
  using set_drop_subset
  by (fastforce simp: cache_store_def Let_def move_to_end_update evict_if_needed_drop in_delete_iff
      dest: in_set_dropD)

text \<open>With room for at least one entry, the entry just stored survives the eviction, and what
  is evicted is a prefix: the least recently used entries.\<close>

lemma cache_store_get:
  assumes "oc_max_entries c > 0"
  shows "map_of (oc_entries (cache_store now k t se c)) k =
           Some \<lparr>ce_token = xt_access_token t, ce_expires_at = expiry_for now t se\<rparr>"
proof -
  let ?e = "\<lparr>ce_token = xt_access_token t, ce_expires_at = expiry_for now t se\<rparr>"
  let ?d = "AList.delete k (oc_entries c)"
  let ?n = "Suc (length ?d) - oc_max_entries c"
  have "oc_entries (cache_store now k t se c) = drop ?n ?d @ drop (?n - length ?d) [(k, ?e)]"
    by (simp add: cache_store_def Let_def move_to_end_update evict_if_needed_drop)
  moreover have "?n - length ?d = 0" using assms by simp
  moreover have "map_of (drop ?n ?d) k = None"
    using delete_notin[of k "oc_entries c"] by (auto simp: map_of_eq_None_iff dest: in_set_dropD)
  ultimately show ?thesis by (simp add: map_add_def)
qed

lemma cache_store_evicts_prefix:
  "\<exists>gone. AList.delete k (oc_entries c) @ [(k, e)] = gone @ oc_entries (cache_store now k t se c)"
  if "e = \<lparr>ce_token = xt_access_token t, ce_expires_at = expiry_for now t se\<rparr>"
  using that
  by (metis (no_types, lifting) append_take_drop_id cache_store_def evict_if_needed_drop
      move_to_end_update obo_token_cache.select_convs(1) obo_token_cache.surjective
      obo_token_cache.update_convs(1))

lemma expiry_for_le:
  "expiry_for now t se \<le> now + microseconds (xt_expires_in t)"
  "se = Some s \<Longrightarrow> expiry_for now t se \<le> s"
  by (auto simp: expiry_for_def Let_def split: option.splits)

text \<open>A token issued with the minimum lifetime is never served from the cache: the margin of a
  live entry is as long as that lifetime.\<close>

lemma floor_token_never_live:
  assumes "xt_expires_in t \<le> EXPIRY_MARGIN_SECONDS" "now \<le> now'"
  shows "\<not> is_live now' \<lparr>ce_token = a, ce_expires_at = expiry_for now t se\<rparr>"
  using assms expiry_for_le(1)[of now t se] by (simp add: is_live_def)

section \<open>Interleaved requests\<close>

text \<open>Beside the cache and the clock, the state carries the requests whose exchange is under way
  (the key and the expiry of the caller's own token) and two histories: the tokens issued for
  each key, with the expiry of the token they were exchanged for, and the answers given.\<close>

record cache_system =
  cs_cache :: obo_token_cache
  cs_now :: timestamp
  cs_pending :: "(obo_cache_key \<times> timestamp option) list"
  cs_issued :: "(obo_cache_key \<times> exchanged_token \<times> timestamp option) list"
  cs_answers :: "(obo_cache_key \<times> string \<times> timestamp \<times> bool) list"

definition cache_start :: "nat \<Rightarrow> timestamp \<Rightarrow> cache_system" where
  "cache_start n now =
     \<lparr>cs_cache = new_obo_cache n, cs_now = now, cs_pending = [], cs_issued = [], cs_answers = []\<rparr>"

inductive cache_step :: "cache_system \<Rightarrow> cache_system \<Rightarrow> bool" where
  hit: "cache_lookup (cs_now s) k (cs_cache s) = (c, Some t) \<Longrightarrow>
    cache_step s (s\<lparr>cs_cache := c, cs_answers := (k, t, cs_now s, True) # cs_answers s\<rparr>)"
| miss: "cache_lookup (cs_now s) k (cs_cache s) = (c, None) \<Longrightarrow>
    cache_step s (s\<lparr>cs_cache := c, cs_pending := (k, se) # cs_pending s\<rparr>)"
| fetched: "(k, se) \<in> set (cs_pending s) \<Longrightarrow>
    cache_step s (s\<lparr>cs_cache := cache_store (cs_now s) k t se (cs_cache s),
                    cs_pending := remove1 (k, se) (cs_pending s),
                    cs_issued := (k, t, se) # cs_issued s,
                    cs_answers := (k, xt_access_token t, cs_now s, False) # cs_answers s\<rparr>)"
| failed: "(k, se) \<in> set (cs_pending s) \<Longrightarrow>
    cache_step s (s\<lparr>cs_pending := remove1 (k, se) (cs_pending s)\<rparr>)"
| invalidated: "cache_step s (s\<lparr>cs_cache := cache_invalidate k (cs_cache s)\<rparr>)"
| tick: "d \<ge> 0 \<Longrightarrow> cache_step s (s\<lparr>cs_now := cs_now s + d\<rparr>)"

inductive cache_reachable :: "nat \<Rightarrow> timestamp \<Rightarrow> cache_system \<Rightarrow> bool" for n now where
  start: "cache_reachable n now (cache_start n now)"
| step: "cache_reachable n now s \<Longrightarrow> cache_step s s' \<Longrightarrow> cache_reachable n now s'"

inductive_cases cache_stepE: "cache_step s s'"

text \<open>What a reachable system keeps: the cache is well-formed and bounded; every entry was issued
  for its own key and expires no later than the token it was exchanged for; and every answer was
  issued for the key it answers, a cached one more than the margin before that expiry.\<close>

definition entry_issued :: "cache_system \<Rightarrow> obo_cache_key \<Rightarrow> cache_entry \<Rightarrow> bool" where
  "entry_issued s k e \<longleftrightarrow>
     (\<exists>t se. (k, t, se) \<in> set (cs_issued s) \<and> xt_access_token t = ce_token e \<and>
             (\<forall>x. se = Some x \<longrightarrow> ce_expires_at e \<le> x))"

definition answer_issued :: "cache_system \<Rightarrow> obo_cache_key \<times> string \<times> timestamp \<times> bool \<Rightarrow> bool" where
  "answer_issued s a \<longleftrightarrow>
     (case a of (k, tok, served, cached) \<Rightarrow>
        \<exists>t se. (k, t, se) \<in> set (cs_issued s) \<and> xt_access_token t = tok \<and>
               (\<forall>x. cached \<and> se = Some x \<longrightarrow> served + microseconds EXPIRY_MARGIN_SECONDS < x))"

definition cache_inv :: "nat \<Rightarrow> cache_system \<Rightarrow> bool" where
  "cache_inv n s \<longleftrightarrow>
     cache_ok (cs_cache s) \<and> oc_max_entries (cs_cache s) = n \<and>
     (\<forall>(k, e) \<in> set (oc_entries (cs_cache s)). entry_issued s k e) \<and>
     (\<forall>a \<in> set (cs_answers s). answer_issued s a)"

lemma cache_inv_start: "cache_inv n (cache_start n now)"
  by (simp add: cache_inv_def cache_start_def cache_ok_new)
     (simp add: new_obo_cache_def)

lemma entry_issued_cong:
  "set (cs_issued s) \<subseteq> set (cs_issued s') \<Longrightarrow> entry_issued s k e \<Longrightarrow> entry_issued s' k e"
  by (auto simp: entry_issued_def)

lemma answer_issued_cong:
  "set (cs_issued s) \<subseteq> set (cs_issued s') \<Longrightarrow> answer_issued s a \<Longrightarrow> answer_issued s' a"
  by (cases a) (auto simp: answer_issued_def; blast)

text \<open>The frame of a step: fewer entries, the same answers, nothing forgotten.\<close>

lemma cache_inv_frame:
  assumes "cache_inv n s" "cache_ok c" "oc_max_entries c = n"
    "set (oc_entries c) \<subseteq> set (oc_entries (cs_cache s))"
    "cs_cache s' = c" "cs_issued s' = cs_issued s" "cs_answers s' = cs_answers s"
  shows "cache_inv n s'"
  unfolding cache_inv_def
proof (intro conjI ballI)
  show "case x of (k, e) \<Rightarrow> entry_issued s' k e" if "x \<in> set (oc_entries (cs_cache s'))" for x
  proof -
    have "x \<in> set (oc_entries (cs_cache s))" using that assms(4,5) by blast
    then have "entry_issued s (fst x) (snd x)" using assms(1) by (auto simp: cache_inv_def)
    then show ?thesis using assms(6) by (simp add: entry_issued_def case_prod_beta)
  qed
  show "answer_issued s' a" if "a \<in> set (cs_answers s')" for a
    using that assms by (simp add: cache_inv_def answer_issued_def)
qed (use assms in auto)

lemma cache_inv_hit:
  assumes "cache_inv n s" "cache_lookup (cs_now s) k (cs_cache s) = (c, Some t)"
  shows "cache_inv n (s\<lparr>cs_cache := c, cs_answers := (k, t, cs_now s, True) # cs_answers s\<rparr>)"
proof -
  have ok: "cache_ok (cs_cache s)" using assms(1) by (simp add: cache_inv_def)
  have c: "cache_inv n (s\<lparr>cs_cache := c\<rparr>)"
    using assms(1) cache_lookup_ok[OF ok, of "cs_now s" k] cache_lookup_entries[OF ok, of "cs_now s" k]
      cache_max(1)[of "cs_now s" k "cs_cache s"]
    by (intro cache_inv_frame[OF assms(1)]) (auto simp: assms(2) cache_inv_def)
  obtain e where e: "map_of (oc_entries (cs_cache s)) k = Some e" "is_live (cs_now s) e" "ce_token e = t"
    using cache_lookup_hit[of "cs_now s" k "cs_cache s" t] assms(2) by auto
  then have "entry_issued s k e"
    using assms(1) map_of_SomeD[OF e(1)] by (auto simp: cache_inv_def)
  then have "answer_issued s (k, t, cs_now s, True)"
    using e(2,3) by (fastforce simp: entry_issued_def answer_issued_def is_live_def)
  then show ?thesis
    using c by (auto simp: cache_inv_def entry_issued_def answer_issued_def)
qed

lemma cache_inv_fetched:
  assumes "cache_inv n s"
  shows "cache_inv n (s\<lparr>cs_cache := cache_store (cs_now s) k t se (cs_cache s),
           cs_pending := p, cs_issued := (k, t, se) # cs_issued s,
           cs_answers := (k, xt_access_token t, cs_now s, False) # cs_answers s\<rparr>)"
    (is "cache_inv n ?s'")
  unfolding cache_inv_def
proof (intro conjI ballI)
  have new: "entry_issued ?s' k \<lparr>ce_token = xt_access_token t,
               ce_expires_at = expiry_for (cs_now s) t se\<rparr>"
    using expiry_for_le(2) by (fastforce simp: entry_issued_def)
  have old: "entry_issued ?s' k' e" if "(k', e) \<in> set (oc_entries (cs_cache s))" for k' e
    using assms that by (rule_tac entry_issued_cong[of s]) (auto simp: cache_inv_def)
  show "case x of (k', e) \<Rightarrow> entry_issued ?s' k' e" if "x \<in> set (oc_entries (cs_cache ?s'))" for x
    using that cache_store_entries[of "cs_now s" k t se "cs_cache s"] new old by fastforce
  have last: "answer_issued ?s' (k, xt_access_token t, cs_now s, False)"
    by (auto simp: answer_issued_def)
  have past: "answer_issued ?s' a" if "a \<in> set (cs_answers s)" for a
    using assms that by (rule_tac answer_issued_cong[of s]) (auto simp: cache_inv_def)
  show "answer_issued ?s' a" if "a \<in> set (cs_answers ?s')" for a
    using that last past by (cases a) auto
qed (use assms cache_store_ok in \<open>auto simp: cache_inv_def\<close>)

lemma cache_inv_step: "cache_step s s' \<Longrightarrow> cache_inv n s \<Longrightarrow> cache_inv n s'"
proof (induction rule: cache_step.induct)
  case (hit s k c t)
  then show ?case by (rule_tac cache_inv_hit)
next
  case (miss s k c se)
  then have ok: "cache_ok (cs_cache s)" by (simp add: cache_inv_def)
  show ?case
    using miss cache_lookup_ok[OF ok, of "cs_now s" k] cache_lookup_entries[OF ok, of "cs_now s" k]
      cache_max(1)[of "cs_now s" k "cs_cache s"]
    by (intro cache_inv_frame[OF miss(2)]) (auto simp: cache_inv_def)
next
  case (fetched k se s t)
  then show ?case by (intro cache_inv_fetched)
next
  case (failed k se s)
  then show ?case by (intro cache_inv_frame[OF failed(2)]) (auto simp: cache_inv_def)
next
  case (invalidated s k)
  then show ?case
    by (intro cache_inv_frame[OF invalidated])
       (auto simp: cache_inv_def cache_invalidate_ok, auto simp: cache_invalidate_def in_delete_iff)
next
  case (tick d s)
  then show ?case by (intro cache_inv_frame[OF tick(2)]) (auto simp: cache_inv_def)
qed

lemma cache_reachable_inv: "cache_reachable n now s \<Longrightarrow> cache_inv n s"
  by (induction rule: cache_reachable.induct) (auto intro: cache_inv_start cache_inv_step)

end
