(* ===== verification/Server_Model.thy ===== *)
theory Server_Model
  imports Constants
begin

text \<open>
  \<^verbatim>\<open>models/server.py\<close>, \<^verbatim>\<open>models/openapi.py\<close> and \<^verbatim>\<open>models/agent.py\<close>: the records the hub
  keeps of a registered server and of a registered agent, with their methods. A \<open>Literal\<close>
  field is a datatype. \<open>RegisteredServer\<close> is one record with every field of the class, in its
  order, under the prefix \<open>srv_\<close>.
\<close>

section \<open>Field types\<close>

datatype transport_kind = TK_http | TK_stdio | TK_openapi

datatype registration_type = RT_self | RT_manual | RT_unset

datatype mcp_transport = MT_http | MT_sse | MT_stdio | MT_openapi | MT_unset

datatype auth_type =
  AT_bearer | AT_basic | AT_oauth | AT_obo | AT_ema | AT_api_key | AT_unset

datatype api_key_in = KI_header | KI_query | KI_unset

datatype actor_token_source = AS_none | AS_client_credentials

datatype subject_token_type = ST_id_token | ST_access_token

datatype token_status = TS_ok | TS_error | TS_unset

datatype dialect = D20 | D30 | D31 | D32

record operation_ref =
  or_method :: string
  or_path :: string

record operation_override = operation_ref +
  ov_name :: "string option"
  ov_description :: "string option"

record openapi_snapshot =
  os_document :: jdict
  os_dialect :: dialect
  os_sha256 :: string
  os_source_url :: string
  os_loaded_at :: "timestamp option"

record fault_injection =
  fi_enabled :: bool
  fi_timeout_enabled :: bool
  fi_timeout_millis :: int
  fi_malformed_json :: bool
  fi_invalid_method :: bool
  fi_sse_interrupt :: bool

section \<open>RegisteredServer\<close>

record registered_server =
  srv_id :: string
  srv_url :: string
  srv_transport_kind :: transport_kind
  srv_stdio_command_name :: string
  srv_openapi_base_url :: string
  srv_openapi_snapshot :: "openapi_snapshot option"
  srv_openapi_pending :: "openapi_snapshot option"
  srv_openapi_selection :: "operation_ref list"
  srv_openapi_overrides :: "operation_override list"
  srv_openapi_health_probe :: "operation_ref option"
  srv_registry_source :: string
  srv_registry_name :: string
  srv_registry_version :: string
  srv_imported_at :: "timestamp option"
  srv_name :: string
  srv_version :: string
  srv_description :: string
  srv_tags :: "string list"
  srv_created_at :: "timestamp option"
  srv_updated_at :: "timestamp option"
  srv_registration_type :: registration_type
  srv_mcp_protocol_version :: string
  srv_mcp_transport :: mcp_transport
  srv_mcp_conformant :: "bool option"
  srv_auth_type :: auth_type
  srv_bearer_token :: string
  srv_api_key_name :: string
  srv_api_key_in :: api_key_in
  srv_api_key_value :: string
  srv_basic_username :: string
  srv_basic_password :: string
  srv_oauth_discovery_url :: string
  srv_oauth_issuer :: string
  srv_oauth_token_url :: string
  srv_oauth_client_id :: string
  srv_oauth_client_secret :: string
  srv_oauth_scope :: string
  srv_oauth_resource :: string
  srv_oauth_metadata :: "jdict option"
  srv_oauth_last_checked :: "timestamp option"
  srv_obo_audience :: string
  srv_obo_resource :: string
  srv_obo_scope :: string
  srv_obo_actor_token_source :: actor_token_source
  srv_ema_resource_as_issuer :: string
  srv_ema_resource_as_token_url :: string
  srv_ema_resource_id :: string
  srv_ema_subject_token_type :: subject_token_type
  srv_ema_supports_id_jag_profile :: "bool option"
  srv_required_scope :: string
  srv_trace_verbose :: bool
  srv_fault_injection :: fault_injection
  srv_healthy :: bool
  srv_rate_limited :: bool
  srv_consecutive_fails :: int
  srv_last_checked :: "timestamp option"
  srv_healthy_since :: "timestamp option"
  srv_uptime_seconds :: rat
  srv_supports_health_endpoint :: "bool option"
  srv_schema_conformant :: "bool option"
  srv_schema_issues :: "string list"
  srv_oauth_token_status :: token_status
  srv_oauth_token_error :: string
  srv_obo_status :: token_status
  srv_obo_error :: string
  srv_ema_status :: token_status
  srv_ema_error :: string
  srv_tools :: "json list option"
  srv_prompts :: "json list option"
  srv_resources :: "json list option"
  srv_last_capability_sync :: "timestamp option"

text \<open>\<open>RegisteredServer(id=i, url=u)\<close>: every other field at its declared default.\<close>

definition default_fault_injection :: fault_injection where
  "default_fault_injection =
     \<lparr>fi_enabled = False, fi_timeout_enabled = False, fi_timeout_millis = 0,
      fi_malformed_json = False, fi_invalid_method = False, fi_sse_interrupt = False\<rparr>"

definition new_server :: "string \<Rightarrow> string \<Rightarrow> registered_server" where
  "new_server i u =
     \<lparr>srv_id = i, srv_url = u, srv_transport_kind = TK_http, srv_stdio_command_name = [],
      srv_openapi_base_url = [], srv_openapi_snapshot = None, srv_openapi_pending = None,
      srv_openapi_selection = [], srv_openapi_overrides = [], srv_openapi_health_probe = None,
      srv_registry_source = [], srv_registry_name = [], srv_registry_version = [],
      srv_imported_at = None, srv_name = [], srv_version = [], srv_description = [], srv_tags = [],
      srv_created_at = None, srv_updated_at = None, srv_registration_type = RT_unset,
      srv_mcp_protocol_version = [], srv_mcp_transport = MT_unset, srv_mcp_conformant = None,
      srv_auth_type = AT_unset, srv_bearer_token = [], srv_api_key_name = [],
      srv_api_key_in = KI_unset, srv_api_key_value = [], srv_basic_username = [],
      srv_basic_password = [], srv_oauth_discovery_url = [], srv_oauth_issuer = [],
      srv_oauth_token_url = [], srv_oauth_client_id = [], srv_oauth_client_secret = [],
      srv_oauth_scope = [], srv_oauth_resource = [], srv_oauth_metadata = None,
      srv_oauth_last_checked = None, srv_obo_audience = [], srv_obo_resource = [],
      srv_obo_scope = [], srv_obo_actor_token_source = AS_none, srv_ema_resource_as_issuer = [],
      srv_ema_resource_as_token_url = [], srv_ema_resource_id = [],
      srv_ema_subject_token_type = ST_id_token, srv_ema_supports_id_jag_profile = None,
      srv_required_scope = [], srv_trace_verbose = False,
      srv_fault_injection = default_fault_injection, srv_healthy = False,
      srv_rate_limited = False, srv_consecutive_fails = 0, srv_last_checked = None,
      srv_healthy_since = None, srv_uptime_seconds = 0, srv_supports_health_endpoint = None,
      srv_schema_conformant = None, srv_schema_issues = [], srv_oauth_token_status = TS_unset,
      srv_oauth_token_error = [], srv_obo_status = TS_unset, srv_obo_error = [],
      srv_ema_status = TS_unset, srv_ema_error = [], srv_tools = None, srv_prompts = None,
      srv_resources = None, srv_last_capability_sync = None\<rparr>"

definition is_stdio :: "registered_server \<Rightarrow> bool" where
  "is_stdio srv \<longleftrightarrow> srv_transport_kind srv = TK_stdio"

definition is_openapi :: "registered_server \<Rightarrow> bool" where
  "is_openapi srv \<longleftrightarrow> srv_transport_kind srv = TK_openapi"

text \<open>
  The validator pydantic runs after building a record: a stdio server's address names its
  allowlist entry, an OpenAPI server's address is always the synthetic one.
\<close>

definition synthesize_stdio_url :: "registered_server \<Rightarrow> registered_server" where
  "synthesize_stdio_url srv =
     (let s1 = (if is_stdio srv \<and> srv_stdio_command_name srv \<noteq> []
                   \<and> \<not> startswith (srv_url srv) ''stdio:''
                then srv\<lparr>srv_url := ''stdio:'' @ srv_stdio_command_name srv\<rparr> else srv)
      in if is_openapi s1 \<and> srv_url s1 \<noteq> ''openapi:'' @ srv_id s1
         then s1\<lparr>srv_url := ''openapi:'' @ srv_id s1\<rparr> else s1)"

text \<open>The first match of \<open>record_protocol_metadata\<close>: version, conformance, transport.\<close>

definition record_protocol_metadata ::
  "registered_server \<Rightarrow> string option \<Rightarrow> mcp_transport option \<Rightarrow> registered_server \<times> bool" where
  "record_protocol_metadata srv protocol_version transport =
     (let version = strip (case protocol_version of None \<Rightarrow> [] | Some v \<Rightarrow> v);
          conformant = is_supported_protocol_version version;
          (s1, c1) = (if version \<noteq> [] \<and> srv_mcp_protocol_version srv \<noteq> version
                      then (srv\<lparr>srv_mcp_protocol_version := version\<rparr>, True) else (srv, False));
          (s2, c2) = (if version \<noteq> [] \<and> srv_mcp_conformant s1 \<noteq> Some conformant
                      then (s1\<lparr>srv_mcp_conformant := Some conformant\<rparr>, True) else (s1, c1))
      in (case transport of
            Some t \<Rightarrow> if t \<noteq> MT_unset \<and> srv_mcp_transport s2 \<noteq> t
                      then (s2\<lparr>srv_mcp_transport := t\<rparr>, True) else (s2, c2)
          | None \<Rightarrow> (s2, c2)))"

text \<open>
  \<^verbatim>\<open>mcp/oauth.py\<close>: the token endpoint named by a discovery document. A non-string
  \<open>token_endpoint\<close> has no \<open>strip\<close>, so the call raises.
\<close>

definition token_endpoint_from_metadata :: "jdict option \<Rightarrow> string py" where
  "token_endpoint_from_metadata metadata =
     (case metadata of
        None \<Rightarrow> Inr []
      | Some d \<Rightarrow> (case jget_or d ''token_endpoint'' (JStr []) of
                     JStr s \<Rightarrow> Inr (strip s)
                   | _ \<Rightarrow> Inl (AttributeError ''object has no attribute strip'')))"

text \<open>\<open>server.oauth_token_url or token_endpoint_from_metadata(server.oauth_metadata)\<close>.\<close>

definition oauth_token_endpoint :: "registered_server \<Rightarrow> string py" where
  "oauth_token_endpoint srv =
     (if srv_oauth_token_url srv \<noteq> [] then Inr (srv_oauth_token_url srv)
      else token_endpoint_from_metadata (srv_oauth_metadata srv))"

definition has_service_credential :: "registered_server \<Rightarrow> bool py" where
  "has_service_credential srv =
     (if strip (srv_bearer_token srv) \<noteq> [] \<or> strip (srv_api_key_value srv) \<noteq> [] then Inr True
      else if strip (srv_basic_username srv) \<noteq> [] \<or> strip (srv_basic_password srv) \<noteq> []
      then Inr True
      else (case oauth_token_endpoint srv of
              Inl e \<Rightarrow> Inl e
            | Inr endpoint \<Rightarrow>
                Inr (srv_oauth_client_id srv \<noteq> [] \<and> srv_oauth_client_secret srv \<noteq> []
                     \<and> endpoint \<noteq> [])))"

definition needs_user_identity :: "registered_server \<Rightarrow> bool py" where
  "needs_user_identity srv =
     (if srv_auth_type srv = AT_obo \<or> srv_auth_type srv = AT_ema
      then map_sum (\<lambda>e. e) Not (has_service_credential srv) else Inr False)"

section \<open>Redacted copies\<close>

text \<open>\<open>_summary\<close>: a snapshot without its document.\<close>

definition summary :: "openapi_snapshot option \<Rightarrow> openapi_snapshot option" where
  "summary = map_option (\<lambda>s. s\<lparr>os_document := []\<rparr>)"

definition sanitize_for_api :: "registered_server \<Rightarrow> registered_server" where
  "sanitize_for_api srv =
     srv\<lparr>srv_bearer_token := [], srv_api_key_value := [],
         srv_openapi_snapshot := summary (srv_openapi_snapshot srv),
         srv_openapi_pending := summary (srv_openapi_pending srv),
         srv_basic_password := [], srv_oauth_client_secret := [], srv_oauth_token_error := [],
         srv_obo_error := [], srv_ema_error := []\<rparr>"

text \<open>\<open>sanitize_for_ui\<close> takes the body redaction of the trace recorder as its first argument.\<close>

definition sanitize_for_ui :: "(string \<Rightarrow> string) \<Rightarrow> registered_server \<Rightarrow> registered_server" where
  "sanitize_for_ui sanitize_body srv =
     srv\<lparr>srv_bearer_token := [], srv_api_key_value := [],
         srv_openapi_snapshot := summary (srv_openapi_snapshot srv),
         srv_openapi_pending := summary (srv_openapi_pending srv),
         srv_basic_password := [], srv_oauth_client_secret := [],
         srv_oauth_token_error := sanitize_body (srv_oauth_token_error srv),
         srv_obo_error := sanitize_body (srv_obo_error srv),
         srv_ema_error := sanitize_body (srv_ema_error srv)\<rparr>"

definition sanitize_for_persistence :: "registered_server \<Rightarrow> registered_server" where
  "sanitize_for_persistence srv =
     srv\<lparr>srv_tools := None, srv_prompts := None, srv_resources := None,
         srv_last_capability_sync := None, srv_schema_conformant := None,
         srv_schema_issues := [], srv_healthy := False, srv_rate_limited := False,
         srv_last_checked := None, srv_healthy_since := None, srv_uptime_seconds := 0,
         srv_oauth_token_status := TS_unset, srv_oauth_token_error := [],
         srv_obo_status := TS_unset, srv_obo_error := [],
         srv_ema_status := TS_unset, srv_ema_error := []\<rparr>"

section \<open>RegisteredAgent\<close>

record agent_card =
  ac_name :: string
  ac_description :: string
  ac_version :: string
  ac_url :: string
  ac_capabilities :: jdict
  ac_skills :: "jdict list"
  ac_default_input_modes :: "string list"
  ac_default_output_modes :: "string list"
  ac_auth :: "jdict option"

record registered_agent =
  ag_id :: string
  ag_url :: string
  ag_name :: string
  ag_description :: string
  ag_tags :: "string list"
  ag_created_at :: "timestamp option"
  ag_updated_at :: "timestamp option"
  ag_bearer_token :: string
  ag_last_card :: "agent_card option"
  ag_last_card_checked :: "timestamp option"
  ag_card_valid :: "bool option"
  ag_card_issues :: "string list"

definition agent_sanitize_for_api :: "registered_agent \<Rightarrow> registered_agent" where
  "agent_sanitize_for_api a = a\<lparr>ag_bearer_token := []\<rparr>"

definition agent_sanitize_for_persistence :: "registered_agent \<Rightarrow> registered_agent" where
  "agent_sanitize_for_persistence a = a\<lparr>ag_bearer_token := []\<rparr>"

section \<open>Lemmas\<close>

lemmas sanitize_defs =
  sanitize_for_api_def sanitize_for_ui_def sanitize_for_persistence_def

text \<open>What an API copy still says: nothing depends on the credentials of the record.\<close>

definition same_but_secrets :: "registered_server \<Rightarrow> registered_server \<Rightarrow> bool" where
  "same_but_secrets s t \<longleftrightarrow>
     s\<lparr>srv_bearer_token := [], srv_api_key_value := [], srv_basic_password := [],
       srv_oauth_client_secret := [], srv_oauth_token_error := [], srv_obo_error := [],
       srv_ema_error := []\<rparr> =
     t\<lparr>srv_bearer_token := [], srv_api_key_value := [], srv_basic_password := [],
       srv_oauth_client_secret := [], srv_oauth_token_error := [], srv_obo_error := [],
       srv_ema_error := []\<rparr>"

lemma sanitize_for_persistence_idem:
  "sanitize_for_persistence (sanitize_for_persistence s) = sanitize_for_persistence s"
  by (simp add: sanitize_for_persistence_def)

lemma sanitize_for_persistence_id [simp]: "srv_id (sanitize_for_persistence s) = srv_id s"
  by (simp add: sanitize_for_persistence_def)

lemma agent_sanitize_for_persistence_id [simp]:
  "ag_id (agent_sanitize_for_persistence a) = ag_id a"
  by (simp add: agent_sanitize_for_persistence_def)

lemma synthesize_openapi_url:
  "is_openapi s \<Longrightarrow> srv_url (synthesize_stdio_url s) = ''openapi:'' @ srv_id s"
  by (simp add: synthesize_stdio_url_def Let_def is_stdio_def is_openapi_def)

lemma record_protocol_metadata_conformant:
  "record_protocol_metadata s pv tr = (s', ch) \<Longrightarrow>
     strip (case pv of None \<Rightarrow> [] | Some v \<Rightarrow> v) \<noteq> [] \<Longrightarrow>
     srv_mcp_protocol_version s' = strip (case pv of None \<Rightarrow> [] | Some v \<Rightarrow> v) \<and>
     srv_mcp_conformant s' = Some (is_supported_protocol_version (srv_mcp_protocol_version s'))"
  by (auto simp: record_protocol_metadata_def Let_def split: if_splits option.splits)

text \<open>The flag the callers persist on: some field of the trio changed.\<close>

lemma record_protocol_metadata_changed:
  assumes "record_protocol_metadata s pv tr = (s', ch)"
  shows "ch \<longleftrightarrow> (srv_mcp_protocol_version s', srv_mcp_conformant s', srv_mcp_transport s')
               \<noteq> (srv_mcp_protocol_version s, srv_mcp_conformant s, srv_mcp_transport s)"
  using assms
  by (simp add: record_protocol_metadata_def Let_def split: if_splits option.splits) auto

end
