(* ===== verification/Principal_Auth.thy ===== *)
theory Principal_Auth
  imports Http Server_Model
begin

text \<open>
  \<^verbatim>\<open>auth/\<close>: the principal, the caller identity of an outbound call, the authentication
  dependency with the \<open>none\<close> and \<open>basic\<close> strategies, RFC 9728 metadata, and per-server
  authorization. The contract every strategy keeps is the locale \<open>authenticator\<close>.
  A frozenset of scopes is a list read as a set.

  Base64 decoding followed by UTF-8 decoding is the argument \<open>b64\<close> of the basic strategy
  (\<open>None\<close> for \<open>binascii.Error\<close> or \<open>UnicodeDecodeError\<close>).
\<close>

section \<open>Principal and caller\<close>

record principal =
  pr_subject :: string
  pr_issuer :: string
  pr_scopes :: "string list"
  pr_token :: string
  pr_is_anonymous :: bool
  pr_id_token :: string
  pr_expires_at :: "timestamp option"

definition ANONYMOUS_SUBJECT :: string where
  "ANONYMOUS_SUBJECT = ''anonymous''"

text \<open>\<open>Principal(subject=s)\<close>: the other fields at their defaults.\<close>

definition named_principal :: "string \<Rightarrow> principal" where
  "named_principal s =
     \<lparr>pr_subject = s, pr_issuer = [], pr_scopes = [], pr_token = [], pr_is_anonymous = False,
      pr_id_token = [], pr_expires_at = None\<rparr>"

definition anonymous :: principal where
  "anonymous = (named_principal ANONYMOUS_SUBJECT)\<lparr>pr_is_anonymous := True\<rparr>"

definition can_act_as_obo_subject :: "principal \<Rightarrow> bool" where
  "can_act_as_obo_subject p \<longleftrightarrow> \<not> pr_is_anonymous p \<and> pr_token p \<noteq> []"

definition has_scope :: "principal \<Rightarrow> string \<Rightarrow> bool" where
  "has_scope p scope \<longleftrightarrow> scope \<in> set (pr_scopes p)"

datatype caller_identity = PrincipalCaller principal | ServiceIdentity

record http_request =
  rq_method :: string
  rq_url :: string
  rq_path :: string
  rq_query :: string
  rq_base_url :: string
  rq_headers :: headers
  rq_body :: string
  rq_principal :: "principal option"

definition caller_from_request :: "http_request \<Rightarrow> caller_identity" where
  "caller_from_request request =
     (case rq_principal request of
        Some p \<Rightarrow> PrincipalCaller p
      | None \<Rightarrow> PrincipalCaller anonymous)"

section \<open>Configuration\<close>

record auth_config =
  auth_kind :: string
  basic_register_user :: string
  basic_register_pass :: string
  jwt_issuer :: string
  jwt_audience :: string
  jwt_jwks_uri :: string
  jwt_algorithms :: "string list"
  jwt_required_scopes :: "string list"
  jwt_leeway_seconds :: rat
  jwt_resource :: string
  jwt_admin_scope :: string

definition default_auth_config :: auth_config where
  "default_auth_config =
     \<lparr>auth_kind = ''none'', basic_register_user = ''admin'', basic_register_pass = [],
      jwt_issuer = [], jwt_audience = [], jwt_jwks_uri = [], jwt_algorithms = [],
      jwt_required_scopes = [], jwt_leeway_seconds = 0, jwt_resource = [], jwt_admin_scope = []\<rparr>"

section \<open>RFC 9728 metadata\<close>

definition PROTECTED_RESOURCE_METADATA_PATH :: string where
  "PROTECTED_RESOURCE_METADATA_PATH = ''/.well-known/oauth-protected-resource''"

definition REALM :: string where
  "REALM = ''k5n-mcp-hub''"

definition resource_identifier :: "http_request \<Rightarrow> string \<Rightarrow> string" where
  "resource_identifier request configured =
     (let override = rstrip_char (CHR ''/'') (strip configured)
      in if override \<noteq> [] then override else rstrip_char (CHR ''/'') (rq_base_url request))"

definition metadata_url :: "http_request \<Rightarrow> string \<Rightarrow> string" where
  "metadata_url request configured =
     resource_identifier request configured @ PROTECTED_RESOURCE_METADATA_PATH"

definition protected_resource_metadata :: "http_request \<Rightarrow> auth_config \<Rightarrow> jdict" where
  "protected_resource_metadata request auth =
     [(''resource'', JStr (resource_identifier request (jwt_resource auth))),
      (''authorization_servers'', JList [JStr (strip (jwt_issuer auth))]),
      (''scopes_supported'', JList (map JStr (jwt_required_scopes auth))),
      (''bearer_methods_supported'', JList [JStr ''header''])]"

definition bearer_challenge :: "http_request \<Rightarrow> auth_config \<Rightarrow> string" where
  "bearer_challenge request auth =
     ''Bearer realm='' @ [CHR 0x22] @ REALM @ [CHR 0x22] @ '', resource_metadata='' @ [CHR 0x22]
       @ metadata_url request (jwt_resource auth) @ [CHR 0x22]"

section \<open>Authorization\<close>

definition DEFAULT_ADMIN_SCOPE :: string where
  "DEFAULT_ADMIN_SCOPE = ''mcp:admin''"

definition authorization_enforced :: "auth_config \<Rightarrow> bool" where
  "authorization_enforced auth \<longleftrightarrow> auth_kind auth = ''jwt''"

definition admin_scope :: "auth_config \<Rightarrow> string" where
  "admin_scope auth =
     (let s = strip (jwt_admin_scope auth) in if s \<noteq> [] then s else DEFAULT_ADMIN_SCOPE)"

definition is_admin :: "principal \<Rightarrow> auth_config \<Rightarrow> bool" where
  "is_admin p auth =
     (if \<not> authorization_enforced auth then True
      else if pr_is_anonymous p then False
      else has_scope p (admin_scope auth))"

definition may_call_server :: "principal \<Rightarrow> registered_server \<Rightarrow> auth_config \<Rightarrow> bool" where
  "may_call_server p server auth =
     (if \<not> authorization_enforced auth then True
      else if is_admin p auth then True
      else if pr_is_anonymous p then False
      else let required = strip (srv_required_scope server)
           in if required = [] then False else has_scope p required)"

text \<open>\<open>_auth_config\<close>: the application's settings, or the defaults when it has none.\<close>

definition request_auth_config :: "auth_config option \<Rightarrow> auth_config" where
  "request_auth_config settings =
     (case settings of Some a \<Rightarrow> a | None \<Rightarrow> default_auth_config)"

definition request_principal :: "http_request \<Rightarrow> principal" where
  "request_principal request =
     (case caller_from_request request of
        PrincipalCaller p \<Rightarrow> p
      | ServiceIdentity \<Rightarrow> anonymous)"

definition request_is_admin :: "auth_config option \<Rightarrow> http_request \<Rightarrow> bool" where
  "request_is_admin settings request =
     is_admin (request_principal request) (request_auth_config settings)"

definition require_admin :: "auth_config option \<Rightarrow> http_request \<Rightarrow> http_exception option" where
  "require_admin settings request =
     (let auth = request_auth_config settings
      in if is_admin (request_principal request) auth then None
         else Some \<lparr>he_status = 403,
                    he_detail = ''requires the '' @ repr_str (admin_scope auth) @ '' scope'',
                    he_headers = []\<rparr>)"

text \<open>\<open>None\<close> when the caller may go on, \<open>Some\<close> with the exception the function raises.\<close>

definition require_server_access ::
  "auth_config option \<Rightarrow> http_request \<Rightarrow> registered_server \<Rightarrow> http_exception option" where
  "require_server_access settings request server =
     (let auth = request_auth_config settings;
          p = request_principal request
      in if may_call_server p server auth then None
         else if pr_is_anonymous p then
           Some \<lparr>he_status = 401, he_detail = ''Unauthorized'',
                 he_headers = (if auth_kind auth = ''jwt''
                               then [(''WWW-Authenticate'', bearer_challenge request auth)] else [])\<rparr>
         else
           let required = strip (srv_required_scope server)
           in Some \<lparr>he_status = 403,
                    he_detail = (if required \<noteq> [] then ''requires the '' @ repr_str required @ '' scope''
                      else ''this server declares no required_scope, so only an admin may reach it''),
                    he_headers = []\<rparr>)"

section \<open>Strategies\<close>

text \<open>\<open>secrets.compare_digest\<close> on text refuses characters outside ASCII.\<close>

definition compare_digest :: "string \<Rightarrow> string \<Rightarrow> bool py" where
  "compare_digest a b =
     (if is_ascii a \<and> is_ascii b then Inr (a = b)
      else Inl (TypeError ''comparing strings with non-ASCII characters is not supported''))"

definition noauth_authenticate :: "http_request \<Rightarrow> principal option" where
  "noauth_authenticate request = Some anonymous"

text \<open>
  \<open>base64.b64decode\<close> raises a plain \<open>ValueError\<close>, which is not caught, on text outside ASCII.
\<close>

definition basic_authenticate ::
  "(string \<Rightarrow> string option) \<Rightarrow> string \<Rightarrow> string \<Rightarrow> http_request \<Rightarrow> principal option py" where
  "basic_authenticate b64 user password request =
     (let auth_header = header_or_empty (rq_headers request) ''Authorization''
      in if \<not> startswith auth_header ''Basic '' then Inr None
         else
           let encoded_creds = drop 6 auth_header
           in if \<not> is_ascii encoded_creds
              then Inl (ValueError ''string argument should contain only ASCII characters'')
              else
                (case b64 encoded_creds of
                   None \<Rightarrow> Inr None
                 | Some decoded_creds \<Rightarrow>
                     (case split_once (CHR '':'') decoded_creds of
                        (_, None) \<Rightarrow> Inr None
                      | (candidate_user, Some candidate_password) \<Rightarrow>
                          (case compare_digest user candidate_user of
                             Inl e \<Rightarrow> Inl e
                           | Inr user_matches \<Rightarrow>
                               (case compare_digest password candidate_password of
                                  Inl e \<Rightarrow> Inl e
                                | Inr password_matches \<Rightarrow>
                                    if \<not> (user_matches \<and> password_matches) then Inr None
                                    else Inr (Some (named_principal user)))))))"

text \<open>
  \<open>auth_required\<close>: 401 with the challenge unless the strategy names a principal, which then
  travels on the request. \<open>Inl\<close> of \<open>Inl\<close> is an exception the strategy itself raised.
\<close>

datatype auth_failure = Refused http_exception | Crashed py_exc

definition auth_required ::
  "('s \<Rightarrow> http_request \<Rightarrow> principal option py \<times> 's) \<Rightarrow> (http_request \<Rightarrow> string) \<Rightarrow> 's \<Rightarrow>
     http_request \<Rightarrow> (auth_failure + http_request) \<times> 's" where
  "auth_required authenticate challenge s request =
     (case authenticate s request of
        (Inl e, s') \<Rightarrow> (Inl (Crashed e), s')
      | (Inr None, s') \<Rightarrow>
          (Inl (Refused \<lparr>he_status = 401, he_detail = ''Unauthorized'',
                         he_headers = [(''WWW-Authenticate'', challenge request)]\<rparr>), s')
      | (Inr (Some p), s') \<Rightarrow> (Inr (request\<lparr>rq_principal := Some p\<rparr>), s'))"

section \<open>The contract of a strategy\<close>

text \<open>The credential presented as \<open>Authorization: Bearer ...\<close>.\<close>

definition presented_bearer :: "http_request \<Rightarrow> string option" where
  "presented_bearer request =
     (let h = header_or_empty (rq_headers request) ''Authorization''
      in if startswith h ''Bearer '' \<and> strip (drop 7 h) \<noteq> [] then Some (strip (drop 7 h)) else None)"

locale authenticator =
  fixes authenticate :: "'s \<Rightarrow> http_request \<Rightarrow> principal option py \<times> 's"
  assumes token_presented: "authenticate s request = (Inr (Some p), s') \<Longrightarrow> pr_token p \<noteq> [] \<Longrightarrow>
      presented_bearer request = Some (pr_token p)"
    and anonymous_empty: "authenticate s request = (Inr (Some p), s') \<Longrightarrow> pr_is_anonymous p \<Longrightarrow>
      pr_scopes p = [] \<and> pr_token p = [] \<and> pr_id_token p = []"
    and assertion_needs_token: "authenticate s request = (Inr (Some p), s') \<Longrightarrow>
      pr_id_token p \<noteq> [] \<Longrightarrow> pr_token p \<noteq> []"
begin

lemma required_sets_principal:
  "auth_required authenticate ch s request = (Inr request', s') \<Longrightarrow>
     \<exists>p. authenticate s request = (Inr (Some p), s') \<and> request' = request\<lparr>rq_principal := Some p\<rparr>"
  by (auto simp: auth_required_def split: prod.splits sum.splits option.splits)

lemma subject_token_is_the_callers:
  assumes "auth_required authenticate ch s request = (Inr request', s')"
    and "can_act_as_obo_subject (request_principal request')"
  shows "presented_bearer request = Some (pr_token (request_principal request'))"
  using required_sets_principal [OF assms(1)] assms(2) token_presented
  by (auto simp: request_principal_def caller_from_request_def can_act_as_obo_subject_def)

lemma assertion_only_with_token:
  assumes "auth_required authenticate ch s request = (Inr request', s')"
    and "pr_id_token (request_principal request') \<noteq> []"
  shows "can_act_as_obo_subject (request_principal request')"
  using required_sets_principal [OF assms(1)] assms(2) assertion_needs_token anonymous_empty
  by (fastforce simp: request_principal_def caller_from_request_def can_act_as_obo_subject_def)

end

definition noauth_step :: "unit \<Rightarrow> http_request \<Rightarrow> principal option py \<times> unit" where
  "noauth_step s request = (Inr (noauth_authenticate request), s)"

definition basic_step ::
  "(string \<Rightarrow> string option) \<Rightarrow> string \<Rightarrow> string \<Rightarrow> unit \<Rightarrow> http_request \<Rightarrow>
     principal option py \<times> unit" where
  "basic_step b64 user password s request = (basic_authenticate b64 user password request, s)"

lemma basic_authenticate_Some:
  "basic_authenticate b64 user password request = Inr (Some p) \<Longrightarrow> p = named_principal user"
  by (auto simp: basic_authenticate_def Let_def
      split: if_splits option.splits prod.splits sum.splits)

interpretation noauth: authenticator noauth_step
  by unfold_locales
    (simp_all add: noauth_step_def noauth_authenticate_def anonymous_def named_principal_def)

interpretation basic: authenticator "basic_step b64 user password"
  for b64 :: "string \<Rightarrow> string option" and user password :: string
  by unfold_locales
    (auto simp: basic_step_def named_principal_def dest!: basic_authenticate_Some)

section \<open>Authorization lemmas\<close>

lemma may_call_server_iff:
  "may_call_server p server auth \<longleftrightarrow>
     \<not> authorization_enforced auth \<or>
     (\<not> pr_is_anonymous p \<and>
      (has_scope p (admin_scope auth) \<or>
       (strip (srv_required_scope server) \<noteq> [] \<and> has_scope p (strip (srv_required_scope server)))))"
  by (auto simp: may_call_server_def is_admin_def Let_def)

lemma require_server_access_None:
  "require_server_access settings request server = None \<longleftrightarrow>
     may_call_server (request_principal request) server (request_auth_config settings)"
  by (simp add: require_server_access_def Let_def)

lemma require_server_access_status:
  "require_server_access settings request server = Some e \<Longrightarrow>
     he_status e = (if pr_is_anonymous (request_principal request) then 401 else 403)"
  by (auto simp: require_server_access_def Let_def split: if_splits)

lemma basic_accepts_iff:
  assumes "is_ascii user" and "is_ascii password" and "is_ascii cu" and "is_ascii cp"
    and "CHR '':'' \<notin> set cu" and "b64 creds = Some (cu @ CHR '':'' # cp)" and "is_ascii creds"
    and "header_or_empty (rq_headers request) ''Authorization'' = ''Basic '' @ creds"
  shows "basic_authenticate b64 user password request =
    Inr (if cu = user \<and> cp = password then Some (named_principal user) else None)"
  using assms
  by (auto simp: basic_authenticate_def Let_def split_once_append compare_digest_def)

end
