(* ===== verification/Server_Auth.thy ===== *)
theory Server_Auth
  imports Obo_Cache Principal_Auth
begin

text \<open>
  \<^verbatim>\<open>mcp/auth.py\<close>: how an outbound call is authenticated to a registered server.

  \<open>apply_server_auth\<close> mutates the headers, the query parameters, the server record and the two
  token caches; the record \<open>auth_state\<close> holds them, with the token requests sent. What the
  call reads from outside is the record \<open>auth_env\<close>: the token endpoints, PyJWT's unverified
  decode, base64, the text of a float and of a non-string form value, and the clock at the four
  places it is read.
\<close>

section \<open>Environment and state\<close>

record auth_env =
  ae_post :: token_endpoint
  ae_claims_of :: "string \<Rightarrow> string + jdict"
  ae_b64 :: "string \<Rightarrow> string"
  ae_float_text :: "rat \<Rightarrow> string"
  ae_form_text :: "json \<Rightarrow> string"
  ae_token_lookup_at :: timestamp
  ae_token_store_at :: timestamp
  ae_obo_lookup_at :: timestamp
  ae_obo_store_at :: timestamp

record cached_token =
  ct_value :: json
  ct_expires_at :: timestamp

type_synonym token_cache = "(string, cached_token) dict"

record auth_state =
  as_headers :: headers
  as_params :: "headers option"
  as_server :: registered_server
  as_tokens :: token_cache
  as_obo :: obo_token_cache
  as_sent :: sent_forms

datatype auth_error =
    OBOAuthError string bool      \<comment> \<open>the detail, and whether authenticating would help\<close>
  | Raised py_exc

definition server_key :: "registered_server \<Rightarrow> string" where
  "server_key srv = (if srv_id srv \<noteq> [] then srv_id srv else srv_url srv)"

definition set_header :: "string \<Rightarrow> string \<Rightarrow> auth_state \<Rightarrow> auth_state" where
  "set_header name v st = st\<lparr>as_headers := AList.update name v (as_headers st)\<rparr>"

section \<open>TokenCache: the hub's own client-credentials tokens\<close>

fun py_type_name :: "json \<Rightarrow> string" where
  "py_type_name JNull = ''NoneType''"
| "py_type_name (JBool _) = ''bool''"
| "py_type_name (JInt _) = ''int''"
| "py_type_name (JFloat _) = ''float''"
| "py_type_name (JStr _) = ''str''"
| "py_type_name (JList _) = ''list''"
| "py_type_name (JObj _) = ''dict''"

text \<open>\<open>timedelta(seconds=max(v, 30))\<close> in microseconds, rounded half to even; text and \<open>None\<close> do
  not compare with an integer.\<close>

definition round_half_even :: "rat \<Rightarrow> int" where
  "round_half_even r =
     (let f = \<lfloor>r\<rfloor>; d = r - of_int f
      in if d < 1/2 then f else if d > 1/2 then f + 1 else if even f then f else f + 1)"

definition credential_lifetime :: "json \<Rightarrow> int py" where
  "credential_lifetime v =
     (case num_of v of
        Some r \<Rightarrow> Inr (round_half_even (max r 30 * 1000000))
      | None \<Rightarrow> Inl (TypeError (char_of (39::nat) # ''>'' @ [char_of (39::nat)]
                  @ '' not supported between instances of '' @ repr_str ''int''
                  @ '' and '' @ repr_str (py_type_name v))))"

definition credentials_form :: "registered_server \<Rightarrow> form" where
  "credentials_form srv =
     [(''grant_type'', ''client_credentials''), (''client_id'', srv_oauth_client_id srv),
      (''client_secret'', srv_oauth_client_secret srv)]
     @ opt_field ''resource'' (srv_oauth_resource srv)
     @ opt_field ''scope'' (srv_oauth_scope srv)"

definition read_credentials :: "string + token_response \<Rightarrow> string + (json \<times> int)" where
  "read_credentials outcome =
     (case outcome of
        Inl exc \<Rightarrow> Inl exc
      | Inr response \<Rightarrow>
          if tr_status response < 200 \<or> tr_status response \<ge> 300 then Inl (tr_status_error response)
          else case tr_json response of
            Inl exc \<Rightarrow> Inl exc
          | Inr (JObj payload) \<Rightarrow>
              if \<not> truthy (jget payload ''access_token'')
              then Inl ''missing access_token in token response''
              else (case credential_lifetime (jget_or payload ''expires_in'' (JInt 300)) of
                      Inl e \<Rightarrow> Inl (exc_text e)
                    | Inr d \<Rightarrow> Inr (jget payload ''access_token'', d))
          | Inr v \<Rightarrow> Inl (repr_str (py_type_name v) @ '' object has no attribute '' @ repr_str ''get''))"

text \<open>\<open>TokenCache.token\<close>: the new cache, the requests sent, and the token or the text of the
  exception.\<close>

definition token_cache_token ::
  "auth_env \<Rightarrow> registered_server \<Rightarrow> token_cache \<Rightarrow> token_cache \<times> sent_forms \<times> (string + json)" where
  "token_cache_token env srv tokens =
     (let key = server_key srv;
          cached = (case map_of tokens key of
                      Some c \<Rightarrow> if ct_expires_at c - ae_token_lookup_at env > microseconds 30
                                then Some (ct_value c) else None
                    | None \<Rightarrow> None)
      in case cached of
           Some v \<Rightarrow> (tokens, [], Inr v)
         | None \<Rightarrow>
             (case oauth_token_endpoint srv of
                Inl e \<Rightarrow> (tokens, [], Inl (exc_text e))
              | Inr token_url \<Rightarrow>
                  if token_url = [] then (tokens, [], Inl ''missing oauth token endpoint'')
                  else if srv_oauth_client_id srv = [] \<or> srv_oauth_client_secret srv = []
                  then (tokens, [], Inl ''missing oauth client credentials'')
                  else
                    (let sent = [(token_url, credentials_form srv)]
                     in case read_credentials (ae_post env token_url (credentials_form srv)) of
                          Inl exc \<Rightarrow> (tokens, sent, Inl exc)
                        | Inr (access_token, lifetime) \<Rightarrow>
                            (AList.update key
                               \<lparr>ct_value = access_token,
                                ct_expires_at = ae_token_store_at env + lifetime\<rparr> tokens,
                             sent, Inr access_token))))"

section \<open>Failures\<close>

definition obo_failure :: "string \<Rightarrow> bool \<Rightarrow> auth_state \<Rightarrow> auth_state \<times> auth_error option" where
  "obo_failure detail needs_authentication st =
     (st\<lparr>as_server := (as_server st)\<lparr>srv_obo_status := TS_error, srv_obo_error := detail\<rparr>\<rparr>,
      Some (OBOAuthError detail needs_authentication))"

definition ema_failure :: "string \<Rightarrow> bool \<Rightarrow> auth_state \<Rightarrow> auth_state \<times> auth_error option" where
  "ema_failure detail needs_authentication st =
     (st\<lparr>as_server := (as_server st)\<lparr>srv_ema_status := TS_error, srv_ema_error := detail\<rparr>\<rparr>,
      Some (OBOAuthError detail needs_authentication))"

definition no_identity :: string where
  "no_identity = ''no user identity available to act on behalf of''"

section \<open>On-behalf-of exchange\<close>

definition subject_token_type_text :: "subject_token_type \<Rightarrow> string" where
  "subject_token_type_text t = (case t of ST_id_token \<Rightarrow> ''id_token'' | ST_access_token \<Rightarrow> ''access_token'')"

definition obo_cache_key_for :: "registered_server \<Rightarrow> principal \<Rightarrow> obo_cache_key" where
  "obo_cache_key_for srv caller =
     (if srv_auth_type srv = AT_ema
      then \<lparr>ck_subject = pr_subject caller, ck_issuer = pr_issuer caller,
            ck_server_id = server_key srv, ck_audience = srv_ema_resource_as_issuer srv,
            ck_scope = srv_obo_scope srv, ck_resource = srv_ema_resource_id srv,
            ck_flow = ''ema:'' @ subject_token_type_text (srv_ema_subject_token_type srv)\<rparr>
      else \<lparr>ck_subject = pr_subject caller, ck_issuer = pr_issuer caller,
            ck_server_id = server_key srv, ck_audience = srv_obo_audience srv,
            ck_scope = srv_obo_scope srv, ck_resource = srv_obo_resource srv,
            ck_flow = ''obo''\<rparr>)"

definition invalidate_obo_token ::
  "registered_server \<Rightarrow> principal \<Rightarrow> obo_token_cache \<Rightarrow> obo_token_cache" where
  "invalidate_obo_token srv caller cache = cache_invalidate (obo_cache_key_for srv caller) cache"

definition form_text :: "auth_env \<Rightarrow> json \<Rightarrow> string" where
  "form_text env v = (case v of JStr s \<Rightarrow> s | _ \<Rightarrow> ae_form_text env v)"

text \<open>The cached or freshly fetched token, with the token requests the fetch sends.\<close>

definition cached_fetch ::
  "auth_env \<Rightarrow> obo_cache_key \<Rightarrow> timestamp option \<Rightarrow> sent_forms \<times> ('e + exchanged_token)
     \<Rightarrow> auth_state \<Rightarrow> auth_state \<times> ('e + string)" where
  "cached_fetch env key subject_expires_at fetch st =
     (let sent = (case snd (cache_lookup (ae_obo_lookup_at env) key (as_obo st)) of
                    Some _ \<Rightarrow> [] | None \<Rightarrow> fst fetch);
          (cache, res) = cache_token (ae_obo_lookup_at env) (ae_obo_store_at env) key (snd fetch)
                           subject_expires_at (as_obo st)
      in (st\<lparr>as_obo := cache, as_sent := as_sent st @ sent\<rparr>, res))"

definition obo_exchange_request ::
  "registered_server \<Rightarrow> principal \<Rightarrow> string \<Rightarrow> string \<Rightarrow> exchange_request" where
  "obo_exchange_request srv caller token_url actor_token =
     \<lparr>xr_token_url = token_url, xr_client_id = srv_oauth_client_id srv,
      xr_client_secret = srv_oauth_client_secret srv, xr_subject_token = pr_token caller,
      xr_audience = srv_obo_audience srv, xr_resource = srv_obo_resource srv,
      xr_scope = srv_obo_scope srv, xr_actor_token = actor_token,
      xr_requested_token_type = ACCESS_TOKEN_TYPE\<rparr>"

definition bearer :: "string \<Rightarrow> string" where
  "bearer t = ''Bearer '' @ t"

text \<open>The part of \<open>_apply_obo_auth\<close> after the actor token was obtained.\<close>

definition obo_exchange ::
  "auth_env \<Rightarrow> principal \<Rightarrow> string \<Rightarrow> string \<Rightarrow> auth_state \<Rightarrow> auth_state \<times> auth_error option" where
  "obo_exchange env caller token_url actor_token st =
     (let srv = as_server st;
          fetch = exchange_token (ae_float_text env) (ae_post env)
                    (obo_exchange_request srv caller token_url actor_token)
      in case cached_fetch env (obo_cache_key_for srv caller) (pr_expires_at caller) fetch st of
           (st', Inl e) \<Rightarrow> obo_failure (exchange_error_summary e) False st'
         | (st', Inr access_token) \<Rightarrow>
             ((set_header ''Authorization'' (bearer access_token) st')
                \<lparr>as_server := (as_server st')\<lparr>srv_obo_status := TS_ok, srv_obo_error := []\<rparr>\<rparr>,
              None))"

definition apply_obo_auth ::
  "auth_env \<Rightarrow> principal \<Rightarrow> auth_state \<Rightarrow> auth_state \<times> auth_error option" where
  "apply_obo_auth env caller st =
     (let srv = as_server st
      in if \<not> can_act_as_obo_subject caller then obo_failure no_identity True st
         else case oauth_token_endpoint srv of
           Inl e \<Rightarrow> (st, Some (Raised e))
         | Inr token_url \<Rightarrow>
             if token_url = [] then obo_failure ''no oauth token endpoint configured'' False st
             else if srv_oauth_client_id srv = [] \<or> srv_oauth_client_secret srv = []
             then obo_failure ''missing oauth client credentials for the exchange'' False st
             else if srv_obo_actor_token_source srv = AS_client_credentials
             then (case token_cache_token env srv (as_tokens st) of
                     (tokens, sent, res) \<Rightarrow>
                       (let st' = st\<lparr>as_tokens := tokens, as_sent := as_sent st @ sent\<rparr>
                        in case res of
                             Inl exc \<Rightarrow>
                               obo_failure (''could not obtain the hub'' @ [char_of (39::nat)]
                                            @ ''s actor token: '' @ exc) False st'
                           | Inr token \<Rightarrow> obo_exchange env caller token_url (form_text env token) st'))
             else obo_exchange env caller token_url [] st)"

section \<open>Enterprise-managed authorization\<close>

definition ema_subject_assertion ::
  "registered_server \<Rightarrow> principal \<Rightarrow> string + (string \<times> string)" where
  "ema_subject_assertion srv caller =
     (if srv_ema_subject_token_type srv = ST_access_token
      then if pr_token caller = [] then Inl ''caller has no access token to exchange''
           else Inr (pr_token caller, ACCESS_TOKEN_TYPE)
      else if pr_id_token caller = []
      then Inl (''caller supplied no identity assertion (ID token); the server is ''
                @ ''configured for ema_subject_token_type=id_token'')
      else Inr (pr_id_token caller, ID_TOKEN_TYPE))"

definition ema_id_jag_request ::
  "registered_server \<Rightarrow> string \<Rightarrow> string \<times> string \<Rightarrow> id_jag_request" where
  "ema_id_jag_request srv idp_token_url assertion =
     \<lparr>ir_idp_token_url = idp_token_url,
      ir_resource_as_token_url = srv_ema_resource_as_token_url srv,
      ir_resource_as_issuer = srv_ema_resource_as_issuer srv,
      ir_resource_id = srv_ema_resource_id srv, ir_client_id = srv_oauth_client_id srv,
      ir_client_secret = srv_oauth_client_secret srv, ir_subject_token = fst assertion,
      ir_subject_token_type = snd assertion, ir_scope = srv_obo_scope srv\<rparr>"

text \<open>\<open>fetch\<close> of \<open>_apply_ema_auth\<close>: the issued token, as the cache keeps it.\<close>

definition as_exchanged :: "id_jag_access_token \<Rightarrow> exchanged_token" where
  "as_exchanged t =
     \<lparr>xt_access_token = ia_access_token t, xt_expires_in = ia_expires_in t,
      xt_issued_token_type = [], xt_scope = []\<rparr>"

definition apply_ema_auth ::
  "auth_env \<Rightarrow> principal \<Rightarrow> auth_state \<Rightarrow> auth_state \<times> auth_error option" where
  "apply_ema_auth env caller st =
     (let srv = as_server st
      in if pr_is_anonymous caller then ema_failure no_identity True st
         else case ema_subject_assertion srv caller of
           Inl detail \<Rightarrow> ema_failure detail True st
         | Inr assertion \<Rightarrow>
             (case oauth_token_endpoint srv of
                Inl e \<Rightarrow> (st, Some (Raised e))
              | Inr idp_token_url \<Rightarrow>
                  if idp_token_url = []
                  then ema_failure ''no enterprise IdP token endpoint configured'' False st
                  else if srv_ema_resource_as_token_url srv = [] \<or> srv_ema_resource_as_issuer srv = []
                  then ema_failure ''no resource authorization server configured'' False st
                  else if srv_oauth_client_id srv = [] \<or> srv_oauth_client_secret srv = []
                  then ema_failure ''missing oauth client credentials for the exchange'' False st
                  else
                    (let fetch = map_prod (\<lambda>x. x) (map_sum (\<lambda>e. e) as_exchanged)
                           (exchange_for_access_token (ae_float_text env) (ae_post env)
                              (ae_claims_of env) (ema_id_jag_request srv idp_token_url assertion))
                     in case cached_fetch env (obo_cache_key_for srv caller)
                               (pr_expires_at caller) fetch st of
                          (st', Inl e) \<Rightarrow> ema_failure (id_jag_summary e) False st'
                        | (st', Inr access_token) \<Rightarrow>
                            ((set_header ''Authorization'' (bearer access_token) st')
                               \<lparr>as_server := (as_server st')\<lparr>srv_ema_status := TS_ok,
                                                             srv_ema_error := []\<rparr>\<rparr>,
                             None))))"

section \<open>The rules in order\<close>

definition clear_oauth_status :: "auth_state \<Rightarrow> auth_state" where
  "clear_oauth_status st =
     st\<lparr>as_server := (as_server st)\<lparr>srv_oauth_token_status := TS_unset, srv_oauth_token_error := []\<rparr>\<rparr>"

definition apply_api_key :: "auth_state \<Rightarrow> auth_state \<times> auth_error option" where
  "apply_api_key st =
     (let srv = as_server st; v = strip (srv_api_key_value srv)
      in if srv_api_key_in srv = KI_query
         then (case as_params st of
                 None \<Rightarrow> (st, Some (Raised (ValueError
                   (''server '' @ repr_str (srv_id srv)
                    @ '' sends its API key as a query parameter, but this ''
                    @ ''call site passed no params to receive it''))))
               | Some params \<Rightarrow>
                   (clear_oauth_status
                      (st\<lparr>as_params := Some (AList.update (srv_api_key_name srv) v params)\<rparr>), None))
         else (clear_oauth_status (set_header (srv_api_key_name srv) v st), None))"

definition apply_bearer :: "auth_state \<Rightarrow> auth_state" where
  "apply_bearer st =
     (let tok = strip (srv_bearer_token (as_server st));
          st1 = set_header ''Authorization'' (bearer tok) st;
          st2 = (if is_openapi (as_server st) then st1 else set_header ''X-MCP-Token'' tok st1)
      in clear_oauth_status st2)"

definition apply_basic :: "auth_env \<Rightarrow> string \<Rightarrow> string \<Rightarrow> auth_state \<Rightarrow> auth_state" where
  "apply_basic env username password st =
     clear_oauth_status
       (set_header ''Authorization'' (''Basic '' @ ae_b64 env (username @ '':'' @ password)) st)"

definition set_oauth_status :: "token_status \<Rightarrow> string \<Rightarrow> auth_state \<Rightarrow> auth_state" where
  "set_oauth_status status err st =
     st\<lparr>as_server := (as_server st)\<lparr>srv_oauth_token_status := status, srv_oauth_token_error := err\<rparr>\<rparr>"

definition apply_oauth :: "auth_env \<Rightarrow> auth_state \<Rightarrow> auth_state" where
  "apply_oauth env st =
     (case token_cache_token env (as_server st) (as_tokens st) of
        (tokens, sent, res) \<Rightarrow>
          (let st' = st\<lparr>as_tokens := tokens, as_sent := as_sent st @ sent\<rparr>
           in case res of
                Inl exc \<Rightarrow> set_oauth_status TS_error exc st'
              | Inr token \<Rightarrow>
                  if truthy token
                  then set_oauth_status TS_ok []
                         (set_header ''Authorization'' (bearer (py_str (ae_float_text env) token)) st')
                  else set_oauth_status TS_error ''empty token response'' st'))"

definition apply_server_auth ::
  "auth_env \<Rightarrow> caller_identity \<Rightarrow> auth_state \<Rightarrow> auth_state \<times> auth_error option" where
  "apply_server_auth env caller st =
     (let srv = as_server st;
          username = strip (srv_basic_username srv);
          password = strip (srv_basic_password srv);
          own_credentials =
            (if srv_auth_type srv = AT_api_key
             then if strip (srv_api_key_value srv) \<noteq> [] then apply_api_key st else (st, None)
             else if strip (srv_bearer_token srv) \<noteq> [] then (apply_bearer st, None)
             else if username \<noteq> [] \<or> password \<noteq> [] then (apply_basic env username password st, None)
             else if srv_auth_type srv = AT_oauth \<or> srv_oauth_token_url srv \<noteq> []
                     \<or> (case srv_oauth_metadata srv of None \<Rightarrow> False | Some d \<Rightarrow> d \<noteq> [])
             then (apply_oauth env st, None)
             else (st, None))
      in case caller of
           PrincipalCaller p \<Rightarrow>
             if srv_auth_type srv = AT_obo then apply_obo_auth env p st
             else if srv_auth_type srv = AT_ema then apply_ema_auth env p st
             else own_credentials
         | ServiceIdentity \<Rightarrow> own_credentials)"

lemmas auth_failure_defs = obo_failure_def ema_failure_def

lemmas auth_update_defs =
  set_header_def clear_oauth_status_def set_oauth_status_def

section \<open>Lemmas\<close>

lemma cached_fetch_frame:
  "cached_fetch env key se fetch st = (st', res) \<Longrightarrow>
     as_headers st' = as_headers st \<and> as_params st' = as_params st \<and>
     as_server st' = as_server st \<and> as_tokens st' = as_tokens st"
  by (auto simp: cached_fetch_def Let_def split: prod.splits)

lemma cache_token_Inr:
  "cache_token t1 t2 key fetch se c = (c', Inr tok) \<Longrightarrow>
     snd (cache_lookup t1 key c) = Some tok \<or>
     snd (cache_lookup t1 key c) = None \<and> (\<exists>x. fetch = Inr x \<and> xt_access_token x = tok)"
  by (auto simp: cache_token_def split: prod.splits option.splits sum.splits)

lemma cached_fetch_Inr:
  assumes "cached_fetch env key se fetch st = (st', Inr tok)"
  shows "(\<exists>e. map_of (oc_entries (as_obo st)) key = Some e \<and> is_live (ae_obo_lookup_at env) e \<and>
              ce_token e = tok \<and> as_sent st' = as_sent st) \<or>
         (\<exists>x. snd fetch = Inr x \<and> xt_access_token x = tok \<and> as_sent st' = as_sent st @ fst fetch)"
proof -
  obtain c where c: "cache_token (ae_obo_lookup_at env) (ae_obo_store_at env) key (snd fetch) se
                       (as_obo st) = (c, Inr tok)"
    using assms by (auto simp: cached_fetch_def Let_def split: prod.splits)
  have sent: "as_sent st' = as_sent st @
      (case snd (cache_lookup (ae_obo_lookup_at env) key (as_obo st)) of Some _ \<Rightarrow> [] | None \<Rightarrow> fst fetch)"
    using assms by (auto simp: cached_fetch_def Let_def split: prod.splits)
  show ?thesis
    using cache_token_Inr[OF c] sent by (fastforce simp: cache_lookup_hit)
qed

lemma cached_fetch_ok: "cache_ok (as_obo st) \<Longrightarrow> cache_ok (as_obo (fst (cached_fetch env key se fetch st)))"
  using cache_lookup_ok[of "as_obo st" "ae_obo_lookup_at env" key]
  by (auto simp: cached_fetch_def Let_def cache_token_def cache_store_ok
      split: prod.splits option.splits sum.splits)

lemma obo_exchange_error:
  "obo_exchange env p url act st = (st', Some e) \<Longrightarrow>
     as_headers st' = as_headers st \<and> as_params st' = as_params st \<and> srv_obo_status (as_server st') = TS_error"
  by (auto simp: obo_exchange_def Let_def obo_failure_def dest!: cached_fetch_frame
      split: prod.splits sum.splits)

lemma apply_obo_auth_error:
  "apply_obo_auth env p st = (st', Some e) \<Longrightarrow>
     as_headers st' = as_headers st \<and> as_params st' = as_params st"
  by (auto simp: apply_obo_auth_def Let_def obo_failure_def dest!: obo_exchange_error
      split: prod.splits sum.splits if_splits)

lemma apply_ema_auth_error:
  "apply_ema_auth env p st = (st', Some e) \<Longrightarrow>
     as_headers st' = as_headers st \<and> as_params st' = as_params st"
  by (auto simp: apply_ema_auth_def Let_def ema_failure_def dest!: cached_fetch_frame
      split: prod.splits sum.splits if_splits)

text \<open>Where a token sent on behalf of a user comes from: a live cache entry under the key of
  this caller and server, or an exchange of this caller's own token.\<close>

definition obo_provenance :: "auth_env \<Rightarrow> principal \<Rightarrow> auth_state \<Rightarrow> auth_state \<Rightarrow> string \<Rightarrow> bool" where
  "obo_provenance env p st st' tok \<longleftrightarrow>
     (\<exists>e. map_of (oc_entries (as_obo st)) (obo_cache_key_for (as_server st) p) = Some e \<and>
          is_live (ae_obo_lookup_at env) e \<and> ce_token e = tok) \<or>
     (\<exists>url form x. last (as_sent st') = (url, form) \<and>
          map_of form ''subject_token'' = Some (pr_token p) \<and>
          read_exchange (ae_float_text env) (ae_post env url form) = Inr x \<and> xt_access_token x = tok)"

lemma obo_exchange_None:
  assumes "obo_exchange env p url act st = (st', None)"
  shows "\<exists>tok. as_headers st' = AList.update ''Authorization'' (bearer tok) (as_headers st) \<and>
               obo_provenance env p st st' tok"
proof -
  let ?fetch = "exchange_token (ae_float_text env) (ae_post env)
                  (obo_exchange_request (as_server st) p url act)"
  obtain s tok where f: "cached_fetch env (obo_cache_key_for (as_server st) p) (pr_expires_at p)
                           ?fetch st = (s, Inr tok)"
    and st': "st' = (set_header ''Authorization'' (bearer tok) s)
                \<lparr>as_server := (as_server s)\<lparr>srv_obo_status := TS_ok, srv_obo_error := []\<rparr>\<rparr>"
    using assms by (auto simp: obo_exchange_def Let_def obo_failure_def split: prod.splits sum.splits)
  have "obo_provenance env p st st' tok"
    using cached_fetch_Inr[OF f] st'
    by (auto simp: obo_provenance_def set_header_def exchange_token_def Let_def to_form_get
        obo_exchange_request_def)
  then show ?thesis using cached_fetch_frame[OF f] st' by (auto simp: set_header_def)
qed

lemma apply_obo_auth_None:
  assumes "apply_obo_auth env p st = (st', None)"
  shows "can_act_as_obo_subject p \<and>
         (\<exists>tok. as_headers st' = AList.update ''Authorization'' (bearer tok) (as_headers st) \<and>
                obo_provenance env p st st' tok)"
  using assms
  by (auto simp: apply_obo_auth_def Let_def obo_failure_def obo_provenance_def
      dest!: obo_exchange_None split: prod.splits sum.splits if_splits)

text \<open>Two callers, or two flows, never share a key.\<close>

lemma obo_cache_key_subject:
  "obo_cache_key_for srv p = obo_cache_key_for srv' q \<Longrightarrow>
     pr_subject p = pr_subject q \<and> pr_issuer p = pr_issuer q \<and> server_key srv = server_key srv' \<and>
     (srv_auth_type srv = AT_ema \<longleftrightarrow> srv_auth_type srv' = AT_ema)"
  by (auto simp: obo_cache_key_for_def split: if_splits)

text \<open>A background call uses only the server's own credentials: it leaves the per-user cache
  alone and exchanges nothing.\<close>

lemma token_cache_token_sent:
  "token_cache_token env srv tokens = (tokens', sent, res) \<Longrightarrow>
     \<forall>(url, form) \<in> set sent. form = credentials_form srv"
  by (auto simp: token_cache_token_def Let_def split: option.splits sum.splits if_splits prod.splits)

lemma credentials_form_no_subject: "map_of (credentials_form srv) ''subject_token'' = None"
  by (simp add: credentials_form_def opt_field_def)

lemma apply_api_key_obo [simp]:
  "as_obo (fst (apply_api_key st)) = as_obo st" "as_sent (fst (apply_api_key st)) = as_sent st"
  by (auto simp: apply_api_key_def Let_def auth_update_defs split: option.splits)

lemma apply_bearer_obo [simp]:
  "as_obo (apply_bearer st) = as_obo st" "as_sent (apply_bearer st) = as_sent st"
  by (auto simp: apply_bearer_def Let_def auth_update_defs)

lemma apply_basic_obo [simp]:
  "as_obo (apply_basic env u w st) = as_obo st" "as_sent (apply_basic env u w st) = as_sent st"
  by (auto simp: apply_basic_def auth_update_defs)

lemma apply_oauth_obo:
  "as_obo (apply_oauth env st) = as_obo st"
  "\<exists>sent. as_sent (apply_oauth env st) = as_sent st @ sent \<and>
          (\<forall>(url, form) \<in> set sent. form = credentials_form (as_server st))"
  by (auto simp: apply_oauth_def Let_def auth_update_defs dest: token_cache_token_sent
      split: prod.splits sum.splits if_splits)

lemma apply_service_identity:
  "as_obo (fst (apply_server_auth env ServiceIdentity st)) = as_obo st"
  "\<exists>sent. as_sent (fst (apply_server_auth env ServiceIdentity st)) = as_sent st @ sent \<and>
          (\<forall>(url, form) \<in> set sent. form = credentials_form (as_server st))"
  using apply_oauth_obo[of env st] by (auto simp: apply_server_auth_def Let_def)

section \<open>Static credentials under delegation\<close>

text \<open>\<open>with_static\<close> replaces the static credentials a record may still hold; a call made for a user
  on an \<open>obo\<close> or \<open>ema\<close> server never reads them.\<close>

definition with_static :: "string \<Rightarrow> string \<Rightarrow> string \<Rightarrow> registered_server \<Rightarrow> registered_server" where
  "with_static b u w srv = srv\<lparr>srv_bearer_token := b, srv_basic_username := u, srv_basic_password := w\<rparr>"

lemma with_static_sel [simp]:
  "srv_id (with_static b u w s) = srv_id s" "srv_url (with_static b u w s) = srv_url s"
  "srv_auth_type (with_static b u w s) = srv_auth_type s"
  "srv_oauth_token_url (with_static b u w s) = srv_oauth_token_url s"
  "srv_oauth_metadata (with_static b u w s) = srv_oauth_metadata s"
  "srv_oauth_client_id (with_static b u w s) = srv_oauth_client_id s"
  "srv_oauth_client_secret (with_static b u w s) = srv_oauth_client_secret s"
  "srv_oauth_resource (with_static b u w s) = srv_oauth_resource s"
  "srv_oauth_scope (with_static b u w s) = srv_oauth_scope s"
  "srv_obo_audience (with_static b u w s) = srv_obo_audience s"
  "srv_obo_resource (with_static b u w s) = srv_obo_resource s"
  "srv_obo_scope (with_static b u w s) = srv_obo_scope s"
  "srv_obo_actor_token_source (with_static b u w s) = srv_obo_actor_token_source s"
  "srv_ema_resource_as_issuer (with_static b u w s) = srv_ema_resource_as_issuer s"
  "srv_ema_resource_as_token_url (with_static b u w s) = srv_ema_resource_as_token_url s"
  "srv_ema_resource_id (with_static b u w s) = srv_ema_resource_id s"
  "srv_ema_subject_token_type (with_static b u w s) = srv_ema_subject_token_type s"
  by (simp_all add: with_static_def)

lemma with_static_reads [simp]:
  "oauth_token_endpoint (with_static b u w s) = oauth_token_endpoint s"
  "server_key (with_static b u w s) = server_key s"
  "credentials_form (with_static b u w s) = credentials_form s"
  "obo_cache_key_for (with_static b u w s) p = obo_cache_key_for s p"
  "obo_exchange_request (with_static b u w s) p url act = obo_exchange_request s p url act"
  "ema_subject_assertion (with_static b u w s) p = ema_subject_assertion s p"
  "ema_id_jag_request (with_static b u w s) url a = ema_id_jag_request s url a"
  by (simp_all add: oauth_token_endpoint_def server_key_def credentials_form_def obo_cache_key_for_def obo_exchange_request_def
      ema_subject_assertion_def ema_id_jag_request_def)

lemma token_cache_token_static [simp]:
  "token_cache_token env (with_static b u w s) tokens = token_cache_token env s tokens"
  unfolding token_cache_token_def with_static_reads with_static_sel ..

definition restatic :: "string \<Rightarrow> string \<Rightarrow> string \<Rightarrow> auth_state \<Rightarrow> auth_state" where
  "restatic b u w st = st\<lparr>as_server := with_static b u w (as_server st)\<rparr>"

lemma restatic_sel [simp]:
  "as_headers (restatic b u w st) = as_headers st" "as_params (restatic b u w st) = as_params st"
  "as_tokens (restatic b u w st) = as_tokens st" "as_obo (restatic b u w st) = as_obo st"
  "as_sent (restatic b u w st) = as_sent st"
  "as_server (restatic b u w st) = with_static b u w (as_server st)"
  by (simp_all add: restatic_def)

lemma restatic_update [simp]:
  "(restatic b u w st)\<lparr>as_obo := c, as_sent := x\<rparr> = restatic b u w (st\<lparr>as_obo := c, as_sent := x\<rparr>)"
  "(restatic b u w st)\<lparr>as_tokens := tk, as_sent := x\<rparr> = restatic b u w (st\<lparr>as_tokens := tk, as_sent := x\<rparr>)"
  by (simp_all add: restatic_def)

lemma cached_fetch_restatic:
  "cached_fetch env key se fetch (restatic b u w st) =
     map_prod (restatic b u w) (\<lambda>r. r) (cached_fetch env key se fetch st)"
  by (simp add: cached_fetch_def Let_def split: prod.split)

lemma failure_restatic:
  "obo_failure d n (restatic b u w st) = map_prod (restatic b u w) (\<lambda>r. r) (obo_failure d n st)"
  "ema_failure d n (restatic b u w st) = map_prod (restatic b u w) (\<lambda>r. r) (ema_failure d n st)"
  by (simp_all add: auth_failure_defs restatic_def with_static_def)

lemma obo_exchange_restatic:
  "obo_exchange env p url act (restatic b u w st) =
     map_prod (restatic b u w) (\<lambda>r. r) (obo_exchange env p url act st)"
  by (simp add: obo_exchange_def Let_def cached_fetch_restatic failure_restatic split: prod.split sum.split)
     (simp add: restatic_def with_static_def set_header_def)

lemma apply_obo_auth_restatic:
  "apply_obo_auth env p (restatic b u w st) = map_prod (restatic b u w) (\<lambda>r. r) (apply_obo_auth env p st)"
  by (simp add: apply_obo_auth_def Let_def failure_restatic obo_exchange_restatic split: prod.split sum.split)

lemma apply_ema_auth_restatic:
  "apply_ema_auth env p (restatic b u w st) = map_prod (restatic b u w) (\<lambda>r. r) (apply_ema_auth env p st)"
  by (simp add: apply_ema_auth_def Let_def failure_restatic cached_fetch_restatic split: prod.split sum.split)
     (simp add: restatic_def with_static_def set_header_def)

lemma apply_server_auth_restatic:
  assumes "srv_auth_type (as_server st) = AT_obo \<or> srv_auth_type (as_server st) = AT_ema"
  shows "apply_server_auth env (PrincipalCaller p) (restatic b u w st) =
     map_prod (restatic b u w) (\<lambda>r. r) (apply_server_auth env (PrincipalCaller p) st)"
  using assms by (auto simp: apply_server_auth_def apply_obo_auth_restatic apply_ema_auth_restatic)
section \<open>Isolation of users over a run\<close>

text \<open>What one call leaves in the shared cache: what was there, or under the caller's own key
  the answer to an exchange of the caller's own token.\<close>

definition exchanged_for :: "auth_env \<Rightarrow> principal \<Rightarrow> string \<Rightarrow> bool" where
  "exchanged_for env p tok \<longleftrightarrow>
     (\<exists>url form x. map_of form ''subject_token'' = Some (pr_token p) \<and>
        read_exchange (ae_float_text env) (ae_post env url form) = Inr x \<and> xt_access_token x = tok)"

definition caches_own :: "auth_env \<Rightarrow> principal \<Rightarrow> auth_state \<Rightarrow> auth_state \<Rightarrow> bool" where
  "caches_own env p st st' \<longleftrightarrow>
     cache_ok (as_obo st') \<and>
     (\<forall>(k, e) \<in> set (oc_entries (as_obo st')).
        (k, e) \<in> set (oc_entries (as_obo st)) \<or>
        k = obo_cache_key_for (as_server st) p \<and> exchanged_for env p (ce_token e))"

lemma cached_fetch_entries:
  assumes "cache_ok (as_obo st)" "cached_fetch env key se fetch st = (st', res)"
    and "(k, e) \<in> set (oc_entries (as_obo st'))"
  shows "(k, e) \<in> set (oc_entries (as_obo st)) \<or>
         k = key \<and> (\<exists>x. snd fetch = Inr x \<and> xt_access_token x = ce_token e)"
proof -
  let ?l = "cache_lookup (ae_obo_lookup_at env) key (as_obo st)"
  have sub: "set (oc_entries (fst ?l)) \<subseteq> set (oc_entries (as_obo st))"
    by (rule cache_lookup_entries[OF assms(1)])
  have obo: "as_obo st' = fst (cache_token (ae_obo_lookup_at env) (ae_obo_store_at env) key (snd fetch) se (as_obo st))"
    using assms(2) by (auto simp: cached_fetch_def Let_def split: prod.splits)
  show ?thesis
  proof (cases "snd ?l")
    case (Some t)
    then have "as_obo st' = fst ?l" by (auto simp: obo cache_token_def split: prod.splits)
    then show ?thesis using sub assms(3) by auto
  next
    case None
    show ?thesis
    proof (cases "snd fetch")
      case (Inl err)
      then have "as_obo st' = fst ?l" using None by (auto simp: obo cache_token_def split: prod.splits)
      then show ?thesis using sub assms(3) by auto
    next
      case (Inr x)
      then have "as_obo st' = cache_store (ae_obo_store_at env) key x se (fst ?l)"
        using None by (auto simp: obo cache_token_def split: prod.splits)
      then show ?thesis
        using cache_store_entries[of "ae_obo_store_at env" key x se "fst ?l"] assms(3) sub Inr by auto
    qed
  qed
qed

lemma obo_exchange_caches_own:
  assumes "cache_ok (as_obo st)"
  shows "caches_own env p st (fst (obo_exchange env p url act st))"
proof -
  let ?req = "obo_exchange_request (as_server st) p url act"
  let ?fetch = "exchange_token (ae_float_text env) (ae_post env) ?req"
  obtain s res where f: "cached_fetch env (obo_cache_key_for (as_server st) p) (pr_expires_at p)
                           ?fetch st = (s, res)" by fastforce
  have own: "as_obo (fst (obo_exchange env p url act st)) = as_obo s"
    by (simp add: obo_exchange_def Let_def f obo_failure_def set_header_def split: sum.splits)
  have "exchanged_for env p (xt_access_token x)" if "snd ?fetch = Inr x" for x
    using that unfolding exchanged_for_def
    by (auto simp: exchange_token_def Let_def obo_exchange_request_def to_form_get
        intro!: exI[of _ url] exI[of _ "to_form ?req"])
  then have "(k, e) \<in> set (oc_entries (as_obo st)) \<or>
      k = obo_cache_key_for (as_server st) p \<and> exchanged_for env p (ce_token e)"
    if "(k, e) \<in> set (oc_entries (as_obo s))" for k e
    using cached_fetch_entries[OF assms f that] by metis
  moreover have "cache_ok (as_obo s)"
    using cached_fetch_ok[OF assms, of env "obo_cache_key_for (as_server st) p" "pr_expires_at p" ?fetch] f by simp
  ultimately show ?thesis unfolding caches_own_def own by blast
qed

lemma caches_own_refl: "cache_ok (as_obo st) \<Longrightarrow> as_obo st' = as_obo st \<Longrightarrow> caches_own env p st st'"
  by (auto simp: caches_own_def)

lemma apply_obo_auth_caches_own:
  assumes "cache_ok (as_obo st)"
  shows "caches_own env p st (fst (apply_obo_auth env p st))"
proof -
  have frame: "caches_own env p st (fst (obo_exchange env p url act (st\<lparr>as_tokens := tokens, as_sent := sent\<rparr>)))"
    for url act tokens sent
    using obo_exchange_caches_own[of "st\<lparr>as_tokens := tokens, as_sent := sent\<rparr>" env p url act] assms
    by (simp add: caches_own_def)
  have "caches_own env p st (fst (obo_failure d n st))"
       "caches_own env p st (fst (obo_failure d n (st\<lparr>as_tokens := tokens, as_sent := sent\<rparr>)))"
    for d n tokens sent
    using assms by (simp_all add: caches_own_def obo_failure_def case_prod_beta)
  then show ?thesis
    using frame obo_exchange_caches_own[OF assms] caches_own_refl[OF assms refl]
    by (simp add: apply_obo_auth_def Let_def split: sum.splits prod.splits)
qed

text \<open>A sequence of delegated calls of any callers on any servers, sharing the caches.\<close>

type_synonym obo_call = "auth_env \<times> principal \<times> registered_server"

definition obo_call :: "obo_call \<Rightarrow> token_cache \<Rightarrow> obo_token_cache \<Rightarrow> auth_state \<times> auth_error option" where
  "obo_call c tokens obo =
     (case c of (env, p, srv) \<Rightarrow>
        apply_obo_auth env p
          \<lparr>as_headers = [], as_params = None, as_server = srv, as_tokens = tokens, as_obo = obo, as_sent = []\<rparr>)"

fun obo_run :: "obo_call list \<Rightarrow> token_cache \<Rightarrow> obo_token_cache \<Rightarrow> (auth_state \<times> auth_error option) list" where
  "obo_run [] tokens obo = []"
| "obo_run (c # cs) tokens obo =
     (let r = obo_call c tokens obo in r # obo_run cs (as_tokens (fst r)) (as_obo (fst r)))"

definition obo_origin :: "obo_call list \<Rightarrow> obo_cache_key \<Rightarrow> string \<Rightarrow> bool" where
  "obo_origin calls k tok \<longleftrightarrow>
     (\<exists>(env, q, srv) \<in> set calls. k = obo_cache_key_for srv q \<and> exchanged_for env q tok)"

lemma obo_originI:
  "(env, q, srv) \<in> set calls \<Longrightarrow> exchanged_for env q tok \<Longrightarrow> obo_origin calls (obo_cache_key_for srv q) tok"
  unfolding obo_origin_def by blast

lemma obo_provenance_cases:
  assumes "obo_provenance env p st st' tok"
  obtains e where "(obo_cache_key_for (as_server st) p, e) \<in> set (oc_entries (as_obo st))" "ce_token e = tok"
  | "exchanged_for env p tok"
  using assms unfolding obo_provenance_def exchanged_for_def by (metis map_of_SomeD)

lemma obo_run_length [simp]: "length (obo_run calls tokens obo) = length calls"
  by (induction calls tokens obo rule: obo_run.induct) (auto simp: Let_def)

lemma obo_run_origin:
  assumes "cache_ok obo" "\<forall>(k, e) \<in> set (oc_entries obo). obo_origin calls k (ce_token e)"
    and "set cs \<subseteq> set calls" "i < length cs" "cs ! i = (env, p, srv)"
    and "obo_run cs tokens obo ! i = (st', None)"
  shows "\<exists>tok. as_headers st' = [(''Authorization'', bearer tok)] \<and>
               obo_origin calls (obo_cache_key_for srv p) tok"
  using assms
proof (induction cs tokens obo arbitrary: i rule: obo_run.induct)
  case (2 c cs tokens obo)
  obtain env' p' srv' where c: "c = (env', p', srv')" by (metis prod_cases3)
  let ?st = "\<lparr>as_headers = [], as_params = None, as_server = srv', as_tokens = tokens, as_obo = obo, as_sent = []\<rparr>"
  obtain st1 err where r: "obo_call c tokens obo = (st1, err)" by fastforce
  then have run: "apply_obo_auth env' p' ?st = (st1, err)" by (simp add: obo_call_def c)
  have member: "(env', p', srv') \<in> set calls" using 2(4) c by auto
  have "caches_own env' p' ?st st1"
    using apply_obo_auth_caches_own[of ?st env' p'] 2(2) run by simp
  then have next_ok: "cache_ok (as_obo st1)"
      "\<forall>(k, e) \<in> set (oc_entries (as_obo st1)). obo_origin calls k (ce_token e)"
    using 2(3) obo_originI[OF member] unfolding caches_own_def by (simp, fastforce)
  show ?case
  proof (cases i)
    case 0
    with 2(6,7) c r have "apply_obo_auth env p ?st = (st', None)" "p = p'" "env = env'" "srv = srv'"
      using run by (auto simp: Let_def)
    from apply_obo_auth_None[OF this(1)] obtain tok
      where "as_headers st' = [(''Authorization'', bearer tok)]" "obo_provenance env p ?st st' tok"
      by auto
    moreover from this(2) have "obo_origin calls (obo_cache_key_for srv p) tok"
      using 2(3) obo_originI[OF member] \<open>p = p'\<close> \<open>env = env'\<close> \<open>srv = srv'\<close>
      by (cases rule: obo_provenance_cases) fastforce+
    ultimately show ?thesis by blast
  next
    case (Suc j)
    then show ?thesis
      using 2(1)[OF r[symmetric], of j] next_ok 2(4,5,6,7) r by (simp add: Let_def)
  qed
qed simp

end
