(* ===== verification/Stateless.thy ===== *)
theory Stateless
  imports Jsonrpc Server_Auth
begin

text \<open>
  \<^verbatim>\<open>mcp/pagination.py\<close> and \<^verbatim>\<open>mcp/stateless.py\<close>: following cursors to the end of a list, and the
  client of the stateless protocol revision, one self-contained POST per operation.

  \<open>collect_pages\<close> is generic in the state its \<open>fetch\<close> threads and in the errors it raises. The
  POST itself is the argument \<open>post\<close>: the flattened text of a transport failure, or status,
  content type and decoded content of the response.
\<close>

section \<open>Pagination\<close>

definition MAX_PAGES :: nat where "MAX_PAGES = 100"

definition CURSOR_KEYS :: "string list" where "CURSOR_KEYS = [''nextCursor'', ''next_cursor'']"

fun first_cursor :: "jdict \<Rightarrow> string list \<Rightarrow> string option" where
  "first_cursor d [] = None"
| "first_cursor d (k # ks) =
     (case jget d k of JStr v \<Rightarrow> if v \<noteq> [] then Some v else first_cursor d ks | _ \<Rightarrow> first_cursor d ks)"

definition next_cursor_from :: "json \<Rightarrow> string option" where
  "next_cursor_from result = (case result of JObj d \<Rightarrow> first_cursor d CURSOR_KEYS | _ \<Rightarrow> None)"

type_synonym ('s, 'e, 'a) fetcher = "string option \<Rightarrow> 's \<Rightarrow> ('e + 'a) \<times> 's"

text \<open>The \<open>while\<close> loop; the first argument counts the pages still allowed. Merging a page may raise.\<close>

fun pages_loop ::
  "('s, 'e, 'a) fetcher \<Rightarrow> ('a \<Rightarrow> 'a \<Rightarrow> 'e + 'a) \<Rightarrow> ('a \<Rightarrow> string option) \<Rightarrow> nat \<Rightarrow> string \<Rightarrow> 'a \<Rightarrow> 's
     \<Rightarrow> ('e + 'a) \<times> 's" where
  "pages_loop fetch merge nxt 0 cursor acc s = (Inr acc, s)"
| "pages_loop fetch merge nxt (Suc n) cursor acc s =
     (case fetch (Some cursor) s of
        (Inl e, s') \<Rightarrow> (Inl e, s')
      | (Inr page, s') \<Rightarrow>
          (case merge acc page of
             Inl e \<Rightarrow> (Inl e, s')
           | Inr acc' \<Rightarrow>
               (case nxt page of
                  None \<Rightarrow> (Inr acc', s')
                | Some c \<Rightarrow> if c = cursor then (Inr acc', s') else pages_loop fetch merge nxt n c acc' s')))"

definition collect_pages ::
  "('s, 'e, 'a) fetcher \<Rightarrow> ('a \<Rightarrow> 'a \<Rightarrow> 'e + 'a) \<Rightarrow> ('a \<Rightarrow> string option) \<Rightarrow> 's \<Rightarrow> ('e + 'a) \<times> 's" where
  "collect_pages fetch merge nxt s =
     (case fetch None s of
        (Inl e, s') \<Rightarrow> (Inl e, s')
      | (Inr page, s') \<Rightarrow>
          (case nxt page of
             None \<Rightarrow> (Inr page, s')
           | Some c \<Rightarrow> pages_loop fetch merge nxt (MAX_PAGES - 1) c page s'))"

section \<open>The stateless client\<close>

definition META_PROTOCOL_VERSION :: string where
  "META_PROTOCOL_VERSION = ''io.modelcontextprotocol/protocolVersion''"
definition META_CLIENT_CAPABILITIES :: string where
  "META_CLIENT_CAPABILITIES = ''io.modelcontextprotocol/clientCapabilities''"
definition META_CLIENT_INFO :: string where
  "META_CLIENT_INFO = ''io.modelcontextprotocol/clientInfo''"
definition EMA_EXTENSION :: string where
  "EMA_EXTENSION = ''io.modelcontextprotocol/enterprise-managed-authorization''"

definition stateless_meta :: "registered_server option \<Rightarrow> jdict" where
  "stateless_meta server =
     (let capabilities =
            (case server of
               Some s \<Rightarrow> if srv_auth_type s = AT_ema
                         then [(''extensions'', JObj [(EMA_EXTENSION, JObj [])])] else []
             | None \<Rightarrow> [])
      in [(META_PROTOCOL_VERSION, JStr STATELESS_PROTOCOL_VERSION),
          (META_CLIENT_CAPABILITIES, JObj capabilities),
          (META_CLIENT_INFO, JObj [(''name'', JStr MCP_CLIENT_NAME), (''version'', JStr MCP_CLIENT_VERSION)])])"

record discover_result =
  dr_server_name :: string
  dr_server_version :: string
  dr_protocol_version :: string
  dr_protocol_versions :: "string list"
  dr_capabilities :: jdict

datatype error_kind = EK_handshake | EK_list | EK_ping | EK_transport | EK_discover

record mcp_client_error =
  mc_message :: string
  mc_kind :: error_kind
  mc_status_code :: "int option"
  mc_jsonrpc_code :: "int option"

definition client_error :: "error_kind \<Rightarrow> string \<Rightarrow> mcp_client_error" where
  "client_error kind message =
     \<lparr>mc_message = message, mc_kind = kind, mc_status_code = None, mc_jsonrpc_code = None\<rparr>"

definition is_method_not_found :: "mcp_client_error \<Rightarrow> bool" where
  "is_method_not_found e \<longleftrightarrow>
     mc_jsonrpc_code e = Some METHOD_NOT_FOUND \<or> mc_status_code e \<in> {Some 404, Some 405}"

datatype client_failure = ClientError mcp_client_error | AuthFailed auth_error

text \<open>The client's counter, the server record (when it has one), the token caches and the requests
  posted.\<close>

record stateless_client =
  sl_counter :: nat
  sl_server :: "registered_server option"
  sl_tokens :: token_cache
  sl_obo :: obo_token_cache
  sl_posts :: "(headers \<times> jdict) list"

record stateless_env =
  se_auth :: auth_env
  se_caller :: caller_identity
  se_loads :: "string \<Rightarrow> string + json"
  se_float_text :: "rat \<Rightarrow> string"
  se_post :: "headers \<Rightarrow> jdict \<Rightarrow> string + (int \<times> string \<times> string)"

definition stateless_headers :: "string \<Rightarrow> headers" where
  "stateless_headers meth =
     [(''Accept'', ''application/json, text/event-stream''),
      (''MCP-Protocol-Version'', STATELESS_PROTOCOL_VERSION), (''Mcp-Method'', meth)]"

definition stateless_payload :: "registered_server option \<Rightarrow> nat \<Rightarrow> string \<Rightarrow> jdict \<Rightarrow> jdict" where
  "stateless_payload server n meth params =
     [(''jsonrpc'', JStr ''2.0''), (''id'', JStr (''hub-'' @ str_nat n)), (''method'', JStr meth),
      (''params'', JObj (AList.update ''_meta'' (JObj (stateless_meta server)) params))]"

definition parse_body ::
  "stateless_env \<Rightarrow> string \<Rightarrow> error_kind \<Rightarrow> string \<Rightarrow> string \<Rightarrow> mcp_client_error + json" where
  "parse_body env meth kind content_type content =
     (let raw = (if contains content_type ''text/event-stream'' then extract_sse_data content else Some content)
      in case raw of
           None \<Rightarrow> Inl (client_error kind (meth @ '' returned an empty event stream''))
         | Some r \<Rightarrow> (case se_loads env r of
                        Inl e \<Rightarrow> Inl (client_error kind (meth @ '' returned invalid JSON: '' @ e))
                      | Inr v \<Rightarrow> Inr v))"

text \<open>\<open>_post\<close> from the response on.\<close>

definition read_post ::
  "stateless_env \<Rightarrow> string \<Rightarrow> error_kind \<Rightarrow> string + (int \<times> string \<times> string) \<Rightarrow> mcp_client_error + json" where
  "read_post env meth kind answer =
     (case answer of
        Inl e \<Rightarrow> Inl (client_error kind (meth @ '' request failed: '' @ e))
      | Inr (status, content_type, content) \<Rightarrow>
          if status \<ge> 400
          then Inl ((client_error kind (meth @ '' returned HTTP '' @ str_int status))
                      \<lparr>mc_status_code := Some status\<rparr>)
          else case parse_body env meth kind content_type content of
            Inl e \<Rightarrow> Inl e
          | Inr (JObj body) \<Rightarrow>
              (case jget body ''error'' of
                 JObj err \<Rightarrow>
                   Inl ((client_error kind (meth @ '' failed: ''
                           @ py_str (se_float_text env) (jget_or err ''message'' (JStr ''unknown error''))))
                          \<lparr>mc_jsonrpc_code :=
                             (case jget err ''code'' of JInt i \<Rightarrow> Some i
                              | JBool b \<Rightarrow> Some (if b then 1 else 0) | _ \<Rightarrow> None)\<rparr>)
               | _ \<Rightarrow> Inr (jget body ''result''))
          | Inr body \<Rightarrow> Inr body)"

definition stateless_post ::
  "stateless_env \<Rightarrow> string \<Rightarrow> jdict \<Rightarrow> error_kind \<Rightarrow> stateless_client
     \<Rightarrow> (client_failure + json) \<times> stateless_client" where
  "stateless_post env meth params kind c =
     (let (hs, server, tokens, obo, err) =
            (case sl_server c of
               None \<Rightarrow> (stateless_headers meth, None, sl_tokens c, sl_obo c, None)
             | Some s \<Rightarrow>
                 (case apply_server_auth (se_auth env) (se_caller env)
                         \<lparr>as_headers = stateless_headers meth, as_params = None, as_server = s,
                          as_tokens = sl_tokens c, as_obo = sl_obo c, as_sent = []\<rparr> of
                    (a, e) \<Rightarrow> (as_headers a, Some (as_server a), as_tokens a, as_obo a, e)));
          c1 = c\<lparr>sl_server := server, sl_tokens := tokens, sl_obo := obo\<rparr>
      in case err of
           Some e \<Rightarrow> (Inl (AuthFailed e), c1)
         | None \<Rightarrow>
             (let n = Suc (sl_counter c);
                  payload = stateless_payload server n meth params;
                  c2 = c1\<lparr>sl_counter := n, sl_posts := sl_posts c1 @ [(hs, payload)]\<rparr>
              in (map_sum ClientError (\<lambda>v. v) (read_post env meth kind (se_post env hs payload)), c2)))"

definition parse_discover :: "(rat \<Rightarrow> string) \<Rightarrow> json \<Rightarrow> discover_result" where
  "parse_discover fr result =
     (case result of
        JObj d \<Rightarrow>
          (let listed = (case jget d ''protocolVersions'' of JList vs \<Rightarrow> map (py_str fr) vs | _ \<Rightarrow> []);
               versions = (if listed = [] \<and> truthy (jget d ''protocolVersion'')
                           then [py_str fr (jget d ''protocolVersion'')] else listed);
               chosen = (if STATELESS_PROTOCOL_VERSION \<in> set versions then STATELESS_PROTOCOL_VERSION
                         else if versions \<noteq> [] then foldl max (hd versions) (tl versions)
                         else STATELESS_PROTOCOL_VERSION);
               server_info = obj_or_empty (jget d ''serverInfo'')
           in \<lparr>dr_server_name = py_str fr (jget_or server_info ''name'' (JStr [])),
               dr_server_version = py_str fr (jget_or server_info ''version'' (JStr [])),
               dr_protocol_version = chosen, dr_protocol_versions = versions,
               dr_capabilities = obj_or_empty (jget d ''capabilities'')\<rparr>)
      | _ \<Rightarrow> \<lparr>dr_server_name = [], dr_server_version = [],
              dr_protocol_version = STATELESS_PROTOCOL_VERSION, dr_protocol_versions = [],
              dr_capabilities = []\<rparr>)"

definition stateless_discover ::
  "stateless_env \<Rightarrow> stateless_client \<Rightarrow> (client_failure + discover_result) \<times> stateless_client" where
  "stateless_discover env c =
     (case stateless_post env METHOD_SERVER_DISCOVER [] EK_discover c of
        (r, c') \<Rightarrow> (map_sum (\<lambda>e. e) (parse_discover (se_float_text env)) r, c'))"

definition merge_page :: "string \<Rightarrow> json \<Rightarrow> json \<Rightarrow> json" where
  "merge_page key acc page =
     (case (acc, page) of
        (JObj a, JObj p) \<Rightarrow>
          (case (jget a key, jget p key) of
             (JList items, JList extra) \<Rightarrow> JObj (AList.update key (JList (items @ extra)) a)
           | _ \<Rightarrow> acc)
      | _ \<Rightarrow> acc)"

definition drop_cursors :: "json \<Rightarrow> json" where
  "drop_cursors result =
     (case result of JObj d \<Rightarrow> JObj (foldl (\<lambda>d k. AList.delete k d) d CURSOR_KEYS) | _ \<Rightarrow> result)"

definition stateless_list ::
  "stateless_env \<Rightarrow> string \<Rightarrow> stateless_client \<Rightarrow> (client_failure + json) \<times> stateless_client" where
  "stateless_list env meth c =
     (let key = hd (split_char (CHR ''/'') meth);
          fetch = (\<lambda>cursor. stateless_post env meth
                     (case cursor of Some cu \<Rightarrow> if cu \<noteq> [] then [(''cursor'', JStr cu)] else [] | None \<Rightarrow> [])
                     EK_list)
      in case collect_pages fetch (\<lambda>acc page. Inr (merge_page key acc page)) next_cursor_from c of
           (r, c') \<Rightarrow> (map_sum (\<lambda>e. e) drop_cursors r, c'))"

section \<open>Lemmas\<close>

text \<open>Counting the fetches: a measure of the state that one fetch raises by at most one.\<close>

lemma pages_loop_bound:
  assumes "\<And>c s. m (snd (fetch c s)) \<le> m s + (1::nat)"
  shows "m (snd (pages_loop fetch merge nxt n cursor acc s)) \<le> m s + n"
proof (induction n arbitrary: cursor acc s)
  case (Suc n)
  obtain r s' where f: "fetch (Some cursor) s = (r, s')" by fastforce
  have le: "m s' \<le> m s + 1" using assms[of "Some cursor" s] f by simp
  have "m (snd (pages_loop fetch merge nxt n c a s')) \<le> m s + Suc n" for c a
    using Suc.IH[of c a s'] le by simp
  then show ?case
    using le f by (auto split: sum.split option.split)
qed simp

lemma collect_pages_bound:
  assumes "\<And>c s. m (snd (fetch c s)) \<le> m s + (1::nat)"
  shows "m (snd (collect_pages fetch merge nxt s)) \<le> m s + MAX_PAGES"
proof -
  obtain r s' where f: "fetch None s = (r, s')" by fastforce
  have le: "m s' \<le> m s + 1" using assms[of None s] f by simp
  have "m (snd (pages_loop fetch merge nxt (MAX_PAGES - 1) c a s')) \<le> m s + MAX_PAGES" for c a
    using pages_loop_bound[where m = m and fetch = fetch, OF assms, of merge nxt "MAX_PAGES - 1" c a s'] le
    by (simp add: MAX_PAGES_def)
  then show ?thesis
    using le f by (auto simp: collect_pages_def MAX_PAGES_def split: sum.split option.split)
qed

text \<open>A server that serves \<open>n\<close> pages under distinct cursors is read to the end.\<close>

lemma pages_loop_complete:
  assumes serve: "\<And>i s. i < n \<Longrightarrow> fetch (Some (cur i)) s = (Inr (page i), s)"
    and nxt: "\<And>i. i < n \<Longrightarrow> nxt (page i) = (if Suc i < n then Some (cur (Suc i)) else None)"
    and diff: "\<And>i. Suc i < n \<Longrightarrow> cur (Suc i) \<noteq> cur i"
    and "i < n" "n - i \<le> m"
  shows "pages_loop fetch (\<lambda>a p. Inr (merge a p)) nxt m (cur i) acc s = (Inr (foldl merge acc (map page [i..<n])), s)"
  using assms(4,5)
proof (induction m arbitrary: i acc)
  case (Suc m)
  have split: "[i..<n] = i # [Suc i..<n]" using Suc.prems by (simp add: upt_conv_Cons)
  show ?case
  proof (cases "Suc i < n")
    case True
    then show ?thesis
      using Suc.IH[of "Suc i" "merge acc (page i)"] Suc.prems serve[of i s] nxt[of i] diff[of i]
      by (simp add: split)
  next
    case False
    then show ?thesis using Suc.prems serve[of i s] nxt[of i] by (simp add: split)
  qed
qed simp

lemma collect_pages_complete:
  assumes first: "\<And>s. fetch None s = (Inr (page 0), s)"
    and serve: "\<And>i s. i < n \<Longrightarrow> fetch (Some (cur i)) s = (Inr (page i), s)"
    and nxt: "\<And>i. i < n \<Longrightarrow> nxt (page i) = (if Suc i < n then Some (cur (Suc i)) else None)"
    and diff: "\<And>i. Suc i < n \<Longrightarrow> cur (Suc i) \<noteq> cur i"
    and n: "0 < n" "n \<le> MAX_PAGES"
  shows "collect_pages fetch (\<lambda>a p. Inr (merge a p)) nxt s = (Inr (foldl merge (page 0) (map page [1..<n])), s)"
proof (cases "n = 1")
  case True
  then show ?thesis using first nxt[of 0] n by (simp add: collect_pages_def)
next
  case False
  then have "Suc 0 < n" using n by simp
  then show ?thesis
    using first nxt[of 0] n pages_loop_complete[OF serve nxt diff, of 1 "MAX_PAGES - 1" merge "page 0" s]
    by (simp add: collect_pages_def)
qed

lemma stateless_post_posts:
  "length (sl_posts (snd (stateless_post env m p k c))) \<le> length (sl_posts c) + 1"
  by (auto simp: stateless_post_def Let_def split: prod.splits option.splits)

lemma stateless_list_posts:
  "length (sl_posts (snd (stateless_list env m c))) \<le> length (sl_posts c) + MAX_PAGES"
proof -
  have "length (sl_posts (snd (collect_pages
          (\<lambda>cursor. stateless_post env m (p cursor) EK_list) merge nxt c))) \<le> length (sl_posts c) + MAX_PAGES"
    for p merge nxt
    by (rule collect_pages_bound[where m = "\<lambda>c. length (sl_posts c)"]) (rule stateless_post_posts)
  then show ?thesis by (simp add: stateless_list_def Let_def case_prod_beta)
qed

text \<open>The revision chosen is an advertised one, and the stateless one whenever it is advertised.\<close>

lemma foldl_max_in: "foldl max a xs \<in> set (a # (xs :: string list))"
  by (induction xs arbitrary: a) (auto simp: max_def)

lemma parse_discover_version:
  fixes fr r
  defines "d \<equiv> parse_discover fr r"
  shows "dr_protocol_version d \<in> set (dr_protocol_versions d) \<or>
           dr_protocol_versions d = [] \<and> dr_protocol_version d = STATELESS_PROTOCOL_VERSION"
    and "STATELESS_PROTOCOL_VERSION \<in> set (dr_protocol_versions d) \<Longrightarrow>
           dr_protocol_version d = STATELESS_PROTOCOL_VERSION"
proof -
  have m: "vs \<noteq> [] \<Longrightarrow> foldl max (hd vs) (tl vs) \<in> set vs" for vs :: "string list"
    using foldl_max_in[of "hd vs" "tl vs"] by (cases vs) auto
  show "dr_protocol_version d \<in> set (dr_protocol_versions d) \<or>
           dr_protocol_versions d = [] \<and> dr_protocol_version d = STATELESS_PROTOCOL_VERSION"
    unfolding d_def parse_discover_def Let_def using m by (cases r) auto
  show "STATELESS_PROTOCOL_VERSION \<in> set (dr_protocol_versions d) \<Longrightarrow>
           dr_protocol_version d = STATELESS_PROTOCOL_VERSION"
    unfolding d_def parse_discover_def Let_def by (cases r) auto
qed

end
