(* ===== verification/Sdk_Client.thy ===== *)
theory Sdk_Client
  imports Stateless
begin

text \<open>
  \<^verbatim>\<open>mcp/sdk_client.py\<close>: the client of the handshake protocol revisions, on top of a session of the MCP SDK.
  The SDK's transport and session are arguments; what was asked of the session is recorded in order, and the answers depend on it.
  An exception is the tree of the exceptions it groups, of its cause and of its context.
\<close>

section \<open>Exceptions\<close>

datatype sdk_exc = Sdk_exc
  (xe_type: string) (xe_text: string) (xe_timeout: bool) (xe_status: "int option")
  (xe_invalid: "nat option")         \<comment> \<open>of a \<open>ValidationError\<close>, its number of errors\<close>
  (xe_subs: "sdk_exc list") (xe_cause: "sdk_exc option") (xe_context: "sdk_exc option")

text \<open>The walks of \<open>_extract_status_code\<close> and \<open>_find_validation_error\<close>: the exception, the ones it groups, its cause and
  its context. An exception that was seen before gave nothing then.\<close>

fun exc_search :: "(sdk_exc \<Rightarrow> 'a option) \<Rightarrow> sdk_exc \<Rightarrow> 'a option"
  and exc_search_all :: "(sdk_exc \<Rightarrow> 'a option) \<Rightarrow> sdk_exc list \<Rightarrow> 'a option"
  and exc_search_opt :: "(sdk_exc \<Rightarrow> 'a option) \<Rightarrow> sdk_exc option \<Rightarrow> 'a option"
where
  "exc_search f (Sdk_exc n t tm st bad subs cause ctx) =
     (case f (Sdk_exc n t tm st bad subs cause ctx) of
        Some r \<Rightarrow> Some r
      | None \<Rightarrow>
          (case exc_search_all f subs of
             Some r \<Rightarrow> Some r
           | None \<Rightarrow> (case exc_search_opt f cause of Some r \<Rightarrow> Some r | None \<Rightarrow> exc_search_opt f ctx)))"
| "exc_search_all f [] = None"
| "exc_search_all f (e # es) = (case exc_search f e of Some r \<Rightarrow> Some r | None \<Rightarrow> exc_search_all f es)"
| "exc_search_opt f None = None"
| "exc_search_opt f (Some e) = exc_search f e"

definition extract_status_code :: "sdk_exc \<Rightarrow> int option" where
  "extract_status_code e = exc_search xe_status e"

definition find_validation_error :: "sdk_exc \<Rightarrow> sdk_exc option" where
  "find_validation_error e = exc_search (\<lambda>x. if xe_invalid x \<noteq> None then Some x else None) e"

definition distinct_first :: "'a list \<Rightarrow> 'a list" where
  "distinct_first xs = rev (remdups (rev xs))"

fun flatten_exc :: "sdk_exc \<Rightarrow> string" where
  "flatten_exc (Sdk_exc n t tm st bad subs cause ctx) =
     (let parts = filter (\<lambda>p. p \<noteq> []) (map flatten_exc subs);
          msg = strip t
      in if parts \<noteq> [] then join ''; '' (distinct_first parts)
         else if msg \<noteq> [] then msg
         else if n = ''BrokenResourceError''
         then ''connection interrupted (the server may be rate-limiting concurrent requests)''
         else n)"

definition plain_exc :: "string \<Rightarrow> string \<Rightarrow> sdk_exc" where
  "plain_exc n t = Sdk_exc n t False None None [] None None"

definition raised_exc :: "py_exc \<Rightarrow> sdk_exc" where
  "raised_exc x = plain_exc (exc_name x) (exc_text x)"

definition no_attribute :: "json \<Rightarrow> string \<Rightarrow> sdk_exc" where
  "no_attribute v name =
     plain_exc ''AttributeError'' (repr_str (py_type_name v) @ '' object has no attribute '' @ repr_str name)"

section \<open>Reading what a session lists\<close>

text \<open>\<open>dict(it)\<close> of an item that is not an object: its elements are pairs, whose keys are text here.\<close>

fun pair_of :: "json \<Rightarrow> (string \<times> json) option" where
  "pair_of (JList [JStr k, v]) = Some (k, v)"
| "pair_of (JStr [c, d]) = Some ([c], JStr [d])"
| "pair_of (JObj [(k, _), (k', _)]) = Some (k, JStr k')"
| "pair_of _ = None"

fun dict_of_pairs :: "json list \<Rightarrow> jdict \<Rightarrow> sdk_exc + jdict" where
  "dict_of_pairs [] d = Inr d"
| "dict_of_pairs (x # xs) d =
     (case pair_of x of
        None \<Rightarrow> Inl (plain_exc ''ValueError'' ''dictionary update sequence element is not a pair'')
      | Some (k, v) \<Rightarrow> dict_of_pairs xs (AList.update k v d))"

definition as_dict :: "json \<Rightarrow> sdk_exc + jdict" where
  "as_dict it =
     (case it of
        JObj d \<Rightarrow> Inr d
      | _ \<Rightarrow> (case py_iter it of Inl e \<Rightarrow> Inl (raised_exc e) | Inr xs \<Rightarrow> dict_of_pairs xs []))"

fun as_dicts :: "json list \<Rightarrow> sdk_exc + jdict list" where
  "as_dicts [] = Inr []"
| "as_dicts (it # its) =
     (case as_dict it of
        Inl e \<Rightarrow> Inl e
      | Inr d \<Rightarrow> map_sum (\<lambda>e. e) (\<lambda>ds. d # ds) (as_dicts its))"

definition properties_issue :: "string \<Rightarrow> string" where
  "properties_issue path =
     path @ '' was [] (an empty JSON array); JSON Schema requires an object here, so it was read as {}''"

text \<open>\<open>repair\<close>: the value and the issues it adds, in the order they are found.\<close>

fun repair :: "json \<Rightarrow> string \<Rightarrow> json \<times> string list"
  and repair_list :: "json list \<Rightarrow> string \<Rightarrow> nat \<Rightarrow> json list \<times> string list"
  and repair_dict :: "jdict \<Rightarrow> string \<Rightarrow> jdict \<times> string list"
where
  "repair (JList xs) path = (let r = repair_list xs path 0 in (JList (fst r), snd r))"
| "repair (JObj d) path = (let r = repair_dict d path in (JObj (fst r), snd r))"
| "repair v path = (v, [])"
| "repair_list [] path i = ([], [])"
| "repair_list (x # xs) path i =
     (let r = repair x (path @ ''['' @ str_nat i @ '']''); rs = repair_list xs path (Suc i)
      in (fst r # fst rs, snd r @ snd rs))"
| "repair_dict [] path = ([], [])"
| "repair_dict ((k, v) # d) path =
     (let loc = (if path \<noteq> [] then path @ ''.'' @ k else k);
          r = (if k = ''properties'' \<and> v = JList [] then (JObj [], [properties_issue loc]) else repair v loc);
          rs = repair_dict d path
      in ((k, fst r) # fst rs, snd r @ snd rs))"

definition item_label :: "(rat \<Rightarrow> string) \<Rightarrow> string \<Rightarrow> nat \<Rightarrow> jdict \<Rightarrow> string" where
  "item_label fr kind i item =
     (if truthy (jget item ''name'') then py_str fr (jget item ''name'')
      else if truthy (jget item ''uri'') then py_str fr (jget item ''uri'')
      else kind @ ''['' @ str_nat i @ '']'')"

fun repair_items :: "(rat \<Rightarrow> string) \<Rightarrow> string \<Rightarrow> nat \<Rightarrow> jdict list \<Rightarrow> jdict list \<times> string list" where
  "repair_items fr kind i [] = ([], [])"
| "repair_items fr kind i (item # items) =
     (let r = repair_dict item (item_label fr kind i item); rs = repair_items fr kind (Suc i) items
      in (fst r # fst rs, snd r @ snd rs))"

definition normalize_schema_defects ::
  "(rat \<Rightarrow> string) \<Rightarrow> jdict list \<Rightarrow> string \<Rightarrow> jdict list \<times> string list" where
  "normalize_schema_defects fr items kind = repair_items fr kind 0 items"

section \<open>The client\<close>

record initialize_result =
  ir_server_name :: string
  ir_server_version :: string
  ir_protocol_version :: string
  ir_session_id :: string
  ir_transport :: mcp_transport
  ir_capabilities :: "jdict option"

text \<open>What is asked of the session.\<close>

datatype session_call =
    Call_open headers
  | Call_initialize
  | Call_notify
  | Call_list string "string option"
  | Call_raw string "string option"
  | Call_close

text \<open>A typed page of the SDK: its items as plain dictionaries, and its cursor.\<close>

record sdk_page =
  pg_items :: "jdict list"
  pg_cursor :: "string option"

record sdk_server_info =
  si_name :: string
  si_version :: string
  si_protocol_version :: string
  si_capabilities :: "jdict option"       \<comment> \<open>without the capabilities that are \<open>None\<close>\<close>

type_synonym session_log = "session_call list"

record sdk_env =
  sk_auth :: auth_env
  sk_caller :: caller_identity
  sk_float_text :: "rat \<Rightarrow> string"
  sk_open :: "session_log \<Rightarrow> sdk_exc option"
  sk_initialize :: "session_log \<Rightarrow> sdk_exc + sdk_server_info"
  sk_session_header :: "session_log \<Rightarrow> string"  \<comment> \<open>the last \<open>mcp-session-id\<close> seen, or empty\<close>
  sk_notify :: "session_log \<Rightarrow> sdk_exc option"
  sk_list :: "session_log \<Rightarrow> sdk_exc + sdk_page"
  sk_raw :: "(session_log \<Rightarrow> sdk_exc + json) option"   \<comment> \<open>absent when the SDK has no dispatcher\<close>
  sk_close :: "session_log \<Rightarrow> sdk_exc option"

record mcp_client =
  sc_base_url :: string
  sc_server :: "registered_server option"
  sc_tokens :: token_cache
  sc_obo :: obo_token_cache
  sc_session :: bool
  sc_initialize_result :: "initialize_result option"
  sc_session_id :: string
  sc_schema_issues :: "string list"
  sc_headers :: headers
  sc_calls :: session_log

definition new_client ::
  "string \<Rightarrow> registered_server option \<Rightarrow> token_cache \<Rightarrow> obo_token_cache \<Rightarrow> session_log \<Rightarrow> mcp_client" where
  "new_client base_url server tokens obo calls =
     \<lparr>sc_base_url = base_url, sc_server = server, sc_tokens = tokens, sc_obo = obo, sc_session = False,
      sc_initialize_result = None, sc_session_id = [], sc_schema_issues = [], sc_headers = [], sc_calls = calls\<rparr>"

definition wrapping :: "string \<Rightarrow> jdict option \<Rightarrow> token_cache \<Rightarrow> obo_token_cache \<Rightarrow> session_log \<Rightarrow> mcp_client" where
  "wrapping base_url capabilities tokens obo calls =
     (new_client base_url None tokens obo calls)
       \<lparr>sc_session := True,
        sc_initialize_result := Some \<lparr>ir_server_name = [], ir_server_version = [], ir_protocol_version = [],
          ir_session_id = [], ir_transport = MT_http, ir_capabilities = capabilities\<rparr>\<rparr>"

definition called :: "session_call \<Rightarrow> mcp_client \<Rightarrow> mcp_client" where
  "called call c = c\<lparr>sc_calls := sc_calls c @ [call]\<rparr>"

definition status_error :: "error_kind \<Rightarrow> string \<Rightarrow> sdk_exc \<Rightarrow> mcp_client_error" where
  "status_error kind message e = (client_error kind message)\<lparr>mc_status_code := extract_status_code e\<rparr>"

definition open_headers :: "registered_server option \<Rightarrow> headers \<Rightarrow> headers" where
  "open_headers server hs =
     (if map_of hs ''MCP-Protocol-Version'' = None
      then AList.update ''MCP-Protocol-Version''
             (resolve_protocol_version (map_option srv_mcp_protocol_version server)) hs
      else hs)"

definition open_transport :: "sdk_env \<Rightarrow> mcp_client \<Rightarrow> (client_failure + unit) \<times> mcp_client" where
  "open_transport env c =
     (let (hs, server, tokens, obo, err) =
            (case sc_server c of
               None \<Rightarrow> ([], None, sc_tokens c, sc_obo c, None)
             | Some s \<Rightarrow>
                 (case apply_server_auth (sk_auth env) (sk_caller env)
                         \<lparr>as_headers = [], as_params = None, as_server = s, as_tokens = sc_tokens c,
                          as_obo = sc_obo c, as_sent = []\<rparr> of
                    (a, e) \<Rightarrow> (as_headers a, Some (as_server a), as_tokens a, as_obo a, e)));
          c1 = c\<lparr>sc_server := server, sc_tokens := tokens, sc_obo := obo\<rparr>
      in case err of
           Some e \<Rightarrow> (Inl (AuthFailed e), c1)
         | None \<Rightarrow>
             (let h = open_headers server hs;
                  c2 = called (Call_open h) (c1\<lparr>sc_headers := h\<rparr>)
              in case sk_open env (sc_calls c2) of
                   Some e \<Rightarrow>
                     (Inl (ClientError (status_error EK_transport (''Failed to open transport: '' @ flatten_exc e) e)),
                      c2\<lparr>sc_session := False\<rparr>)
                 | None \<Rightarrow> (Inr (), c2\<lparr>sc_session := True\<rparr>)))"

definition close_transport :: "sdk_env \<Rightarrow> mcp_client \<Rightarrow> (sdk_exc + unit) \<times> mcp_client" where
  "close_transport env c =
     (let c1 = called Call_close c
      in case sk_close env (sc_calls c1) of
           Some e \<Rightarrow> (Inl e, c1)
         | None \<Rightarrow> (Inr (), c1\<lparr>sc_session := False\<rparr>))"

text \<open>\<open>handshake\<close> from the open session on.\<close>

definition handshake_failed :: "sdk_env \<Rightarrow> rat \<Rightarrow> sdk_exc \<Rightarrow> mcp_client_error" where
  "handshake_failed env seconds e =
     (if xe_timeout e
      then client_error EK_handshake (''Handshake timed out after '' @ sk_float_text env seconds @ ''s'')
      else status_error EK_handshake (''Handshake failed: '' @ flatten_exc e) e)"

definition initialize_session ::
  "sdk_env \<Rightarrow> rat \<Rightarrow> mcp_client \<Rightarrow> (client_failure + initialize_result) \<times> mcp_client" where
  "initialize_session env seconds c =
     (let c1 = called Call_initialize c
      in case sk_initialize env (sc_calls c1) of
           Inl e \<Rightarrow> (Inl (ClientError (handshake_failed env seconds e)), c1)
         | Inr info \<Rightarrow>
             (let sid = sk_session_header env (sc_calls c1);
                  r = \<lparr>ir_server_name = si_name info, ir_server_version = si_version info,
                       ir_protocol_version = si_protocol_version info, ir_session_id = sid,
                       ir_transport = MT_sse, ir_capabilities = si_capabilities info\<rparr>;
                  c2 = called Call_notify (c1\<lparr>sc_session_id := sid, sc_initialize_result := Some r\<rparr>)
              in case sk_notify env (sc_calls c2) of
                   Some e \<Rightarrow> (Inl (ClientError (handshake_failed env seconds e)), c2)
                 | None \<Rightarrow> (Inr r, c2)))"

definition handshake ::
  "sdk_env \<Rightarrow> rat \<Rightarrow> mcp_client \<Rightarrow> (client_failure + initialize_result) \<times> mcp_client" where
  "handshake env seconds c =
     (if sc_session c then initialize_session env seconds c
      else case open_transport env c of
        (Inl e, c1) \<Rightarrow> (Inl e, c1)
      | (Inr _, c1) \<Rightarrow> initialize_session env seconds c1)"

section \<open>Lists\<close>

definition LIST_ATTRS :: "(string \<times> string) list" where
  "LIST_ATTRS =
     [(''tools/list'', ''tools''), (''prompts/list'', ''prompts''), (''resources/list'', ''resources'')]"

definition list_failed :: "sdk_env \<Rightarrow> string \<Rightarrow> rat \<Rightarrow> sdk_exc \<Rightarrow> mcp_client_error" where
  "list_failed env meth seconds e =
     client_error EK_list
       (if xe_timeout e then ''List '' @ meth @ '' timed out after '' @ sk_float_text env seconds @ ''s''
        else ''List '' @ meth @ '' failed: '' @ flatten_exc e)"

definition fetch_typed :: "sdk_env \<Rightarrow> string \<Rightarrow> (mcp_client, sdk_exc, sdk_page) fetcher" where
  "fetch_typed env meth cursor c =
     (let c1 = called (Call_list meth (case cursor of Some cu \<Rightarrow> if cu \<noteq> [] then Some cu else None | None \<Rightarrow> None)) c
      in (sk_list env (sc_calls c1), c1))"

definition merge_typed :: "sdk_page \<Rightarrow> sdk_page \<Rightarrow> sdk_exc + sdk_page" where
  "merge_typed acc page = Inr (acc\<lparr>pg_items := pg_items acc @ pg_items page\<rparr>)"

definition typed_cursor :: "sdk_page \<Rightarrow> string option" where
  "typed_cursor page = (case pg_cursor page of Some cu \<Rightarrow> if cu \<noteq> [] then Some cu else None | None \<Rightarrow> None)"

definition fetch_raw ::
  "(session_log \<Rightarrow> sdk_exc + json) \<Rightarrow> string \<Rightarrow> (mcp_client, sdk_exc, json) fetcher" where
  "fetch_raw send meth cursor c =
     (let c1 = called (Call_raw meth (case cursor of Some cu \<Rightarrow> if cu \<noteq> [] then Some cu else None | None \<Rightarrow> None)) c
      in (send (sc_calls c1), c1))"

text \<open>\<open>(v or {}).get(attr, [])\<close>.\<close>

definition listed_under :: "string \<Rightarrow> json \<Rightarrow> sdk_exc + json" where
  "listed_under attr v =
     (case (if truthy v then v else JObj []) of
        JObj d \<Rightarrow> Inr (jget_or d attr (JList []))
      | w \<Rightarrow> Inl (no_attribute w ''get''))"

definition merge_raw :: "string \<Rightarrow> json \<Rightarrow> json \<Rightarrow> sdk_exc + json" where
  "merge_raw attr acc page =
     (case acc of
        JObj a \<Rightarrow>
          (case jget_or a attr (JList []) of
             JList items \<Rightarrow>
               (case listed_under attr page of
                  Inl e \<Rightarrow> Inl e
                | Inr v \<Rightarrow>
                    (case py_iter v of
                       Inl e \<Rightarrow> Inl (raised_exc e)
                     | Inr extra \<Rightarrow> Inr (JObj (AList.update attr (JList (items @ extra)) a))))
           | w \<Rightarrow> Inl (no_attribute w ''extend''))
      | _ \<Rightarrow> Inl (no_attribute acc ''setdefault''))"

definition add_issues :: "string list \<Rightarrow> string list \<Rightarrow> string list" where
  "add_issues issues known = foldl (\<lambda>k i. if i \<in> set k then k else k @ [i]) known issues"

definition nonconformant_summary :: "string \<Rightarrow> sdk_exc \<Rightarrow> string" where
  "nonconformant_summary meth cause =
     meth @ '' did not validate against the MCP schema for this protocol revision: ''
       @ str_nat (case xe_invalid cause of Some n \<Rightarrow> n | None \<Rightarrow> 0) @ '' error(s)''"

text \<open>The items of the merged raw pages, repaired.\<close>

definition lenient_items :: "sdk_env \<Rightarrow> string \<Rightarrow> json \<Rightarrow> sdk_exc + jdict list \<times> string list" where
  "lenient_items env attr raw =
     (case listed_under attr raw of
        Inl e \<Rightarrow> Inl e
      | Inr v \<Rightarrow>
          (case py_iter (if truthy v then v else JList []) of
             Inl e \<Rightarrow> Inl (raised_exc e)
           | Inr items \<Rightarrow>
               map_sum (\<lambda>e. e) (\<lambda>ds. normalize_schema_defects (sk_float_text env) ds attr) (as_dicts items)))"

definition list_leniently ::
  "sdk_env \<Rightarrow> string \<Rightarrow> string \<Rightarrow> rat \<Rightarrow> sdk_exc \<Rightarrow> mcp_client \<Rightarrow> (mcp_client_error + jdict list) \<times> mcp_client" where
  "list_leniently env meth attr seconds cause c =
     (case sk_raw env of
        None \<Rightarrow> (Inl (client_error EK_list (''List '' @ meth @ '' failed: '' @ flatten_exc cause)), c)
      | Some send \<Rightarrow>
          (case collect_pages (fetch_raw send meth) (merge_raw attr) next_cursor_from c of
             (Inl e, c1) \<Rightarrow> (Inl (list_failed env meth seconds e), c1)
           | (Inr raw, c1) \<Rightarrow>
               (case lenient_items env attr raw of
                  Inl e \<Rightarrow> (Inl (list_failed env meth seconds e), c1)
                | Inr (repaired, issues) \<Rightarrow>
                    (Inr repaired,
                     c1\<lparr>sc_schema_issues :=
                          add_issues (nonconformant_summary meth cause # issues) (sc_schema_issues c1)\<rparr>))))"

definition client_list ::
  "sdk_env \<Rightarrow> string \<Rightarrow> rat \<Rightarrow> mcp_client \<Rightarrow> (mcp_client_error + jdict list) \<times> mcp_client" where
  "client_list env meth seconds c =
     (if \<not> sc_session c
      then (Inl (client_error EK_list
              ''Client not initialized. Call handshake() first or use async context manager.''), c)
      else case map_of LIST_ATTRS meth of
        None \<Rightarrow> (Inl (client_error EK_list (''Unknown method: '' @ meth
                    @ ''. Must be one of: tools/list, prompts/list, resources/list'')), c)
      | Some attr \<Rightarrow>
          (case collect_pages (fetch_typed env meth) merge_typed typed_cursor c of
             (Inr page, c1) \<Rightarrow> (Inr (pg_items page), c1)
           | (Inl e, c1) \<Rightarrow>
               (case find_validation_error e of
                  None \<Rightarrow> (Inl (list_failed env meth seconds e), c1)
                | Some cause \<Rightarrow> list_leniently env meth attr seconds cause c1)))"

section \<open>\<open>ping\<close>\<close>

definition auth_prefix :: "registered_server option \<Rightarrow> string" where
  "auth_prefix server =
     (case server of
        Some s \<Rightarrow> if srv_auth_type s = AT_ema then ''enterprise-managed auth failed: ''
                  else ''on-behalf-of auth failed: ''
      | None \<Rightarrow> [])"

definition sdk_auth_exc :: "registered_server option \<Rightarrow> auth_error \<Rightarrow> sdk_exc" where
  "sdk_auth_exc server e =
     (case e of
        OBOAuthError detail needs_authentication \<Rightarrow> plain_exc ''OBOAuthError'' (auth_prefix server @ detail)
      | Raised x \<Rightarrow> raised_exc x)"

definition ping_failed :: "sdk_exc \<Rightarrow> mcp_client_error" where
  "ping_failed e = status_error EK_ping (''Ping failed: '' @ flatten_exc e) e"

definition ping_error :: "registered_server option \<Rightarrow> client_failure \<Rightarrow> mcp_client_error" where
  "ping_error server f =
     (case f of
        ClientError e \<Rightarrow> (client_error EK_ping (''Ping failed: '' @ mc_message e))\<lparr>mc_status_code := mc_status_code e\<rparr>
      | AuthFailed e \<Rightarrow> ping_failed (sdk_auth_exc server e))"

text \<open>A connection of its own: what \<open>__aexit__\<close> raises replaces the result.\<close>

definition ping :: "sdk_env \<Rightarrow> rat \<Rightarrow> mcp_client \<Rightarrow> mcp_client_error option \<times> mcp_client" where
  "ping env seconds c =
     (let own = new_client (sc_base_url c) (sc_server c) (sc_tokens c) (sc_obo c) (sc_calls c);
          back = (\<lambda>own'. c\<lparr>sc_server := sc_server own', sc_tokens := sc_tokens own', sc_obo := sc_obo own',
                          sc_calls := sc_calls own'\<rparr>)
      in case open_transport env own of
           (Inl f, c1) \<Rightarrow> (Some (ping_error (sc_server c) f), back c1)
         | (Inr _, c1) \<Rightarrow>
             (case handshake env seconds c1 of
                (r, c2) \<Rightarrow>
                  (case close_transport env c2 of
                     (Inl e, c3) \<Rightarrow> (Some (ping_failed e), back c3)
                   | (Inr _, c3) \<Rightarrow> ((case r of Inl f \<Rightarrow> Some (ping_error (sc_server c) f) | Inr _ \<Rightarrow> None), back c3))))"

section \<open>Lemmas\<close>

text \<open>No object inside has an empty array as its \<open>properties\<close>.\<close>

fun well_propertied :: "json \<Rightarrow> bool" and all_propertied :: "json list \<Rightarrow> bool" and dict_propertied :: "jdict \<Rightarrow> bool" where
  "well_propertied (JList xs) = all_propertied xs"
| "well_propertied (JObj d) = dict_propertied d"
| "well_propertied v = True"
| "all_propertied [] = True"
| "all_propertied (x # xs) = (well_propertied x \<and> all_propertied xs)"
| "dict_propertied [] = True"
| "dict_propertied ((k, v) # d) = (\<not> (k = ''properties'' \<and> v = JList []) \<and> well_propertied v \<and> dict_propertied d)"

lemma repair_empty_list: "fst (repair v p) = JList [] \<longleftrightarrow> v = JList []"
proof (cases v)
  case (JList xs)
  then show ?thesis by (cases xs) (simp_all add: Let_def)
qed (simp_all add: Let_def)

lemma repair_propertied:
  "well_propertied (fst (repair v p))"
  "all_propertied (fst (repair_list xs p i))"
  "dict_propertied (fst (repair_dict d p))"
  by (induction v p and xs p i and d p rule: repair_repair_list_repair_dict.induct)
    (simp_all add: Let_def repair_empty_list)

lemma repair_id:
  "well_propertied v \<Longrightarrow> repair v p = (v, [])"
  "all_propertied xs \<Longrightarrow> repair_list xs p i = (xs, [])"
  "dict_propertied d \<Longrightarrow> repair_dict d p = (d, [])"
  by (induction v p and xs p i and d p rule: repair_repair_list_repair_dict.induct) (simp_all add: Let_def)

lemma repair_reports:
  "snd (repair v p) = [] \<Longrightarrow> well_propertied v"
  "snd (repair_list xs p i) = [] \<Longrightarrow> all_propertied xs"
  "snd (repair_dict d p) = [] \<Longrightarrow> dict_propertied d"
  by (induction v p and xs p i and d p rule: repair_repair_list_repair_dict.induct)
    (simp_all add: Let_def split: if_splits)

lemma repair_items_propertied: "list_all dict_propertied (fst (repair_items fr kind i items))"
  by (induction fr kind i items rule: repair_items.induct) (simp_all add: Let_def repair_propertied)

lemma repair_items_id: "list_all dict_propertied items \<Longrightarrow> repair_items fr kind i items = (items, [])"
  by (induction fr kind i items rule: repair_items.induct) (simp_all add: Let_def repair_id)

lemma repair_items_reports: "snd (repair_items fr kind i items) = [] \<Longrightarrow> list_all dict_propertied items"
  by (induction fr kind i items rule: repair_items.induct) (auto simp: Let_def intro: repair_reports(3))

text \<open>A repaired list has no defect left; a list without a defect is not changed, and only such a list has no issue.\<close>

lemma normalize_repaired: "list_all dict_propertied (fst (normalize_schema_defects fr items kind))"
  by (simp add: normalize_schema_defects_def repair_items_propertied)

lemma normalize_id: "list_all dict_propertied items \<Longrightarrow> normalize_schema_defects fr items kind = (items, [])"
  by (simp add: normalize_schema_defects_def repair_items_id)

lemma normalize_reports: "snd (normalize_schema_defects fr items kind) = [] \<longleftrightarrow> list_all dict_propertied items"
  using normalize_id repair_items_reports by (metis normalize_schema_defects_def snd_conv)

text \<open>A list that was read leniently leaves an issue, and every listing sends a bounded number of requests.\<close>

lemma add_issues_keeps: "known \<noteq> [] \<Longrightarrow> add_issues issues known \<noteq> []"
  unfolding add_issues_def by (induction issues arbitrary: known) simp_all

lemma add_issues_not_Nil: "add_issues (i # is) known \<noteq> []"
proof -
  have "(if i \<in> set known then known else known @ [i]) \<noteq> []" by auto
  from add_issues_keeps[OF this, of "is"] show ?thesis by (simp add: add_issues_def)
qed

lemma list_leniently_reports:
  "list_leniently env meth attr seconds cause c = (Inr items, c') \<Longrightarrow> sc_schema_issues c' \<noteq> []"
  by (auto simp: list_leniently_def add_issues_not_Nil split: option.splits prod.splits sum.splits)

lemma fetch_typed_calls: "length (sc_calls (snd (fetch_typed env meth cursor c))) \<le> length (sc_calls c) + 1"
  by (simp add: fetch_typed_def called_def Let_def)

lemma fetch_raw_calls: "length (sc_calls (snd (fetch_raw send meth cursor c))) \<le> length (sc_calls c) + 1"
  by (simp add: fetch_raw_def called_def Let_def)

lemma list_leniently_calls:
  "length (sc_calls (snd (list_leniently env meth attr seconds cause c))) \<le> length (sc_calls c) + MAX_PAGES"
proof (cases "sk_raw env")
  case (Some send)
  have "length (sc_calls (snd (collect_pages (fetch_raw send meth) (merge_raw attr) next_cursor_from c)))
      \<le> length (sc_calls c) + MAX_PAGES"
    by (rule collect_pages_bound[where m = "\<lambda>c. length (sc_calls c)"]) (rule fetch_raw_calls)
  then show ?thesis using Some by (auto simp: list_leniently_def split: prod.splits sum.splits)
qed (simp add: list_leniently_def)

lemma typed_pages_calls:
  "length (sc_calls (snd (collect_pages (fetch_typed env meth) merge_typed typed_cursor c))) \<le> length (sc_calls c) + MAX_PAGES"
  by (rule collect_pages_bound[where m = "\<lambda>c. length (sc_calls c)"]) (rule fetch_typed_calls)

lemma client_list_calls:
  "length (sc_calls (snd (client_list env meth seconds c))) \<le> length (sc_calls c) + 2 * MAX_PAGES"
proof -
  obtain r c1 where run: "collect_pages (fetch_typed env meth) merge_typed typed_cursor c = (r, c1)" by fastforce
  have typed: "length (sc_calls c1) \<le> length (sc_calls c) + MAX_PAGES"
    using typed_pages_calls[of env meth c] run by simp
  have lenient: "length (sc_calls (snd (list_leniently env meth attr seconds cause c1))) \<le> length (sc_calls c) + 2 * MAX_PAGES"
    for attr cause
    using list_leniently_calls[of env meth attr seconds cause c1] typed by linarith
  show ?thesis
  proof (cases "map_of LIST_ATTRS meth")
    case (Some attr)
    then show ?thesis
      using typed lenient run by (cases r) (simp_all add: client_list_def split: option.split)
  qed (simp add: client_list_def)
qed

text \<open>An open session has announced the revision the server is configured with, in a header of every request.\<close>

lemma open_headers_revision: "map_of (open_headers server hs) ''MCP-Protocol-Version'' \<noteq> None"
  by (simp add: open_headers_def map_of_update)

lemma open_transport_revision:
  "open_transport env c = (Inr (), c') \<Longrightarrow>
     sc_session c' \<and> map_of (sc_headers c') ''MCP-Protocol-Version'' \<noteq> None"
  using open_headers_revision
  by (auto simp: open_transport_def Let_def called_def split: prod.splits option.splits)

end
