(* ===== verification/Openapi_Refs.thy ===== *)
theory Openapi_Refs
  imports Json
begin

text \<open>
  \<^verbatim>\<open>openapi/refs.py\<close>: every \<open>$ref\<close> of an imported document is local, resolves, and is on no cycle
  that consumes no structure. \<open>urllib.parse.unquote\<close> is the argument \<open>unquote\<close>. A Python stack
  is a list with its top first. The depth-first search keeps, for each node on its trail, the
  successors not yet looked at.
\<close>

section \<open>JSON pointers\<close>

type_synonym pointer = "string list"

datatype ref_error = SpecError string string | RefRaised py_exc

fun escape_part :: "string \<Rightarrow> string" where
  "escape_part [] = []"
| "escape_part (c # s) =
     (if c = CHR ''~'' then ''~0'' else if c = CHR ''/'' then ''~1'' else [c]) @ escape_part s"

definition encode_pointer :: "pointer \<Rightarrow> string" where
  "encode_pointer parts = concat (map (\<lambda>p. ''/'' @ escape_part p) parts)"

text \<open>\<open>s.replace(a + b, c)\<close> for a two-character text.\<close>

fun replace2 :: "char \<Rightarrow> char \<Rightarrow> char \<Rightarrow> string \<Rightarrow> string" where
  "replace2 a b r (x # y # s) =
     (if x = a \<and> y = b then r # replace2 a b r s else x # replace2 a b r (y # s))"
| "replace2 a b r s = s"

definition unescape_part :: "string \<Rightarrow> string" where
  "unescape_part s = replace2 (CHR ''~'') (CHR ''0'') (CHR ''~'') (replace2 (CHR ''~'') (CHR ''1'') (CHR ''/'') s)"

definition decode_pointer :: "string \<Rightarrow> pointer py" where
  "decode_pointer p =
     (case p of
        [] \<Rightarrow> Inr []
      | c # r \<Rightarrow> if c \<noteq> CHR ''/'' then Inl (ValueError (''not a JSON pointer: '' @ repr_str p))
                 else Inr (map unescape_part (split_char (CHR ''/'') r)))"

section \<open>Size of a document\<close>

fun jsize :: "json \<Rightarrow> nat" and jsizes :: "json list \<Rightarrow> nat"
  and jsize_items :: "(string \<times> json) list \<Rightarrow> nat" where
  "jsize (JList xs) = Suc (jsizes xs)"
| "jsize (JObj d) = Suc (jsize_items d)"
| "jsize v = 1"
| "jsizes [] = 0"
| "jsizes (x # xs) = jsize x + jsizes xs"
| "jsize_items [] = 0"
| "jsize_items ((k, v) # d) = jsize v + jsize_items d"

lemma jsizes_sum: "jsizes xs = sum_list (map jsize xs)"
  by (induction xs) auto

lemma jsize_items_sum: "jsize_items d = sum_list (map (\<lambda>kv. jsize (snd kv)) d)"
  by (induction d) auto

lemma jsize_pos: "0 < jsize v"
  by (cases v) auto

section \<open>Collecting references\<close>

definition REBASING_KEYWORDS :: "string list" where
  "REBASING_KEYWORDS = [''$id'', ''$dynamicRef'', ''$recursiveRef'']"

fun rebasing :: "jdict \<Rightarrow> string list \<Rightarrow> (string \<times> string) option" where
  "rebasing d [] = None"
| "rebasing d (k # ks) = (case jget d k of JStr s \<Rightarrow> Some (k, s) | _ \<Rightarrow> rebasing d ks)"

definition rebasing_error :: "pointer \<Rightarrow> string \<times> string \<Rightarrow> ref_error" where
  "rebasing_error path ks =
     SpecError (fst ks @ '' is not supported in an imported spec: it changes where references resolve (''
                @ repr_str (snd ks) @ '')'') (encode_pointer (path @ [fst ks]))"

definition numbered :: "pointer \<Rightarrow> json list \<Rightarrow> (json \<times> pointer) list" where
  "numbered path xs = map (\<lambda>(i, x). (x, path @ [str_nat i])) (enumerate 0 xs)"

function collect_sites ::
  "(json \<times> pointer) list \<Rightarrow> (pointer \<times> string) list \<Rightarrow> ref_error + (pointer \<times> string) list" where
  "collect_sites [] sites = Inr sites"
| "collect_sites ((v, path) # stack) sites =
     (case v of
        JObj d \<Rightarrow>
          (case rebasing d REBASING_KEYWORDS of
             Some ks \<Rightarrow> Inl (rebasing_error path ks)
           | None \<Rightarrow>
               collect_sites (rev (map (\<lambda>(k, c). (c, path @ [k])) d) @ stack)
                 (case jget d ''$ref'' of JStr r \<Rightarrow> sites @ [(path, r)] | _ \<Rightarrow> sites))
      | JList xs \<Rightarrow> collect_sites (rev (numbered path xs) @ stack) sites
      | _ \<Rightarrow> collect_sites stack sites)"
  by pat_completeness auto

lemma sum_numbered: "sum_list (map (\<lambda>p. jsize (fst p)) (numbered path xs)) = jsizes xs"
proof -
  have "map (\<lambda>p. jsize (fst p)) (numbered path xs) = map jsize xs"
    by (rule nth_equalityI) (simp_all add: numbered_def nth_enumerate_eq case_prod_beta)
  then show ?thesis by (simp add: jsizes_sum)
qed

lemma sum_map_rev: "sum_list (map f (rev xs)) = (sum_list (map f xs) :: nat)"
  by (simp add: rev_map[symmetric])

lemma sum_children:
  "sum_list (map (\<lambda>p. jsize (fst p)) (map (\<lambda>(k, c). (c, path @ [k])) d)) = jsize_items d"
  by (induction d) auto

termination collect_sites
  by (relation "measure (\<lambda>(stack, sites). sum_list (map (\<lambda>p. jsize (fst p)) stack))")
     (auto simp only: in_measure prod.case map_append sum_list_append sum_map_rev sum_numbered
        sum_children wf_measure, auto simp: jsize_pos)

definition collect_ref_sites :: "json \<Rightarrow> ref_error + (pointer \<times> string) list" where
  "collect_ref_sites document = collect_sites [(document, [])] []"

section \<open>Resolving\<close>

definition local_pointer :: "(string \<Rightarrow> string) \<Rightarrow> string \<Rightarrow> pointer \<Rightarrow> ref_error + pointer" where
  "local_pointer unquote ref path =
     (if \<not> startswith ref ''#/''
      then Inl (SpecError (''$ref '' @ repr_str ref @ '' is external or not a JSON pointer. Imported specs must be ''
                  @ ''self-contained: only local refs of the form '' @ repr_str ''#/...'' @ '' are supported'')
                  (encode_pointer (path @ [''$ref''])))
      else case decode_pointer (unquote (drop 1 ref)) of
        Inl e \<Rightarrow> Inl (RefRaised e)
      | Inr p \<Rightarrow> Inr p)"

text \<open>\<open>str.isdigit\<close> also holds of the superscripts one, two and three, which \<open>int\<close> refuses.\<close>

definition py_isdigit :: "string \<Rightarrow> bool" where
  "py_isdigit s \<longleftrightarrow> s \<noteq> [] \<and> list_all (\<lambda>c. is_digit c \<or> (of_char c :: nat) \<in> {178, 179, 185}) s"

fun walk :: "json \<Rightarrow> pointer \<Rightarrow> json option py" where
  "walk node [] = Inr (Some node)"
| "walk node (part # ps) =
     (case node of
        JObj d \<Rightarrow> (case map_of d part of Some v \<Rightarrow> walk v ps | None \<Rightarrow> Inr None)
      | JList xs \<Rightarrow>
          if py_isdigit part
          then (case parse_int part of
                  None \<Rightarrow> Inl (ValueError ''invalid literal for int()'')
                | Some i \<Rightarrow> if i < int (length xs) then walk (xs ! nat i) ps else Inr None)
          else Inr None
      | _ \<Rightarrow> Inr None)"

definition resolve ::
  "json \<Rightarrow> pointer \<Rightarrow> string \<Rightarrow> pointer \<Rightarrow> ref_error + jdict" where
  "resolve document ptr ref path =
     (case walk document ptr of
        Inl e \<Rightarrow> Inl (RefRaised e)
      | Inr None \<Rightarrow> Inl (SpecError (''$ref '' @ repr_str ref @ '' points at nothing in this document'')
                          (encode_pointer (path @ [''$ref''])))
      | Inr (Some (JObj d)) \<Rightarrow> Inr d
      | Inr (Some _) \<Rightarrow> Inl (SpecError (''$ref '' @ repr_str ref @ '' must point at an object'')
                              (encode_pointer (path @ [''$ref'']))))"

section \<open>References applied to the same instance\<close>

definition SAME_INSTANCE_LISTS :: "string list" where
  "SAME_INSTANCE_LISTS = [''allOf'', ''anyOf'', ''oneOf'']"

definition SAME_INSTANCE_SCHEMAS :: "string list" where
  "SAME_INSTANCE_SCHEMAS = [''not'', ''if'', ''then'', ''else'']"

definition same_instance_children :: "jdict \<Rightarrow> json list" where
  "same_instance_children d =
     concat (map (\<lambda>k. case jget d k of JList xs \<Rightarrow> xs | _ \<Rightarrow> []) SAME_INSTANCE_LISTS)
     @ concat (map (\<lambda>k. if has_key d k then [jget d k] else []) SAME_INSTANCE_SCHEMAS)"

definition key_size :: "jdict \<Rightarrow> string \<Rightarrow> nat" where
  "key_size d k = (case map_of d k of None \<Rightarrow> 0 | Some v \<Rightarrow> jsize v)"

lemma key_sizes: "distinct ks \<Longrightarrow> sum_list (map (key_size d) ks) \<le> jsize_items d"
proof (induction d arbitrary: ks)
  case (Cons kv d)
  obtain k v where kv: "kv = (k, v)" by fastforce
  have other: "sum_list (map (key_size (kv # d)) ls) = sum_list (map (key_size d) ls)" if "k \<notin> set ls" for ls
    using that by (induction ls) (auto simp: key_size_def kv)
  show ?case
  proof (cases "k \<in> set ks")
    case True
    then obtain as bs where ks: "ks = as @ k # bs" by (meson split_list)
    have "k \<notin> set (as @ bs)" "distinct (as @ bs)" using Cons.prems ks by auto
    moreover have "sum_list (map (key_size (kv # d)) ks) = jsize v + sum_list (map (key_size (kv # d)) (as @ bs))"
      by (simp add: ks) (simp add: key_size_def kv)
    ultimately show ?thesis using Cons.IH[of "as @ bs"] other[of "as @ bs"] by (simp add: kv)
  next
    case False
    then show ?thesis using Cons.IH[OF Cons.prems] other[of ks] by (simp add: kv)
  qed
qed (simp add: key_size_def)

lemma children_list_size: "jsizes (case jget d k of JList xs \<Rightarrow> xs | _ \<Rightarrow> []) \<le> key_size d k"
  by (auto simp: jget_def key_size_def split: option.splits json.splits)

lemma jsizes_append: "jsizes (xs @ ys) = jsizes xs + jsizes ys"
  by (simp add: jsizes_sum)

lemma children_size: "jsizes (same_instance_children d) \<le> jsize_items d"
proof -
  let ?l = SAME_INSTANCE_LISTS and ?s = SAME_INSTANCE_SCHEMAS
  have a: "jsizes (concat (map (\<lambda>k. case jget d k of JList xs \<Rightarrow> xs | _ \<Rightarrow> []) ks)) \<le> sum_list (map (key_size d) ks)" for ks
    by (induction ks) (auto simp: jsizes_append intro: add_mono children_list_size)
  have b: "jsizes (concat (map (\<lambda>k. if has_key d k then [jget d k] else []) ks)) \<le> sum_list (map (key_size d) ks)" for ks
    by (induction ks) (auto simp: jsizes_append has_key_def jget_def key_size_def)
  have "distinct (?l @ ?s)" by (simp add: SAME_INSTANCE_LISTS_def SAME_INSTANCE_SCHEMAS_def)
  from key_sizes[OF this, of d] a[of ?l] b[of ?s] show ?thesis
    by (simp add: same_instance_children_def jsizes_append)
qed

function same_refs :: "(string \<Rightarrow> string) \<Rightarrow> json list \<Rightarrow> pointer list \<Rightarrow> pointer list py" where
  "same_refs unquote [] found = Inr found"
| "same_refs unquote (v # stack) found =
     (case v of
        JObj d \<Rightarrow>
          (case jget d ''$ref'' of
             JStr ref \<Rightarrow>
               (case decode_pointer (unquote (drop 1 ref)) of
                  Inl e \<Rightarrow> Inl e
                | Inr p \<Rightarrow> same_refs unquote (rev (same_instance_children d) @ stack) (found @ [p]))
           | _ \<Rightarrow> same_refs unquote (rev (same_instance_children d) @ stack) found)
      | _ \<Rightarrow> same_refs unquote stack found)"
  by pat_completeness auto

lemma jsizes_rev: "jsizes (rev xs) = jsizes xs"
  by (simp add: jsizes_sum sum_map_rev)

termination same_refs
  using children_size
  by (relation "measure (\<lambda>(unquote, stack, found). jsizes stack)")
     (auto simp: jsizes_append jsizes_rev jsize_pos le_imp_less_Suc)

definition same_instance_refs :: "(string \<Rightarrow> string) \<Rightarrow> jdict \<Rightarrow> pointer list py" where
  "same_instance_refs unquote schema = same_refs unquote [JObj schema] []"

section \<open>Cycles and expansion\<close>

definition MAX_COMPOSITION_EXPANSION :: nat where "MAX_COMPOSITION_EXPANSION = 10000"

type_synonym ref_graph = "(pointer, pointer list) dict"

abbreviation succs :: "ref_graph \<Rightarrow> pointer \<Rightarrow> pointer list" where
  "succs g p \<equiv> (case map_of g p of None \<Rightarrow> [] | Some qs \<Rightarrow> qs)"

definition expansion_of :: "ref_graph \<Rightarrow> (pointer, nat) dict \<Rightarrow> pointer \<Rightarrow> nat" where
  "expansion_of g expansion p =
     1 + sum_list (map (\<lambda>q. case map_of expansion q of None \<Rightarrow> 1 | Some n \<Rightarrow> n) (succs g p))"

definition record_expansion ::
  "ref_graph \<Rightarrow> (pointer, nat) dict \<Rightarrow> pointer \<Rightarrow> ref_error + (pointer, nat) dict" where
  "record_expansion g expansion p =
     (let total = expansion_of g expansion p
      in if total > MAX_COMPOSITION_EXPANSION
         then Inl (SpecError (''$ref '' @ repr_str (''#'' @ encode_pointer p) @ '' expands to more than ''
                     @ str_nat MAX_COMPOSITION_EXPANSION
                     @ '' schemas through allOf/anyOf/oneOf/not, which is too many to validate'') [])
         else Inr (AList.update p total expansion))"

definition cycle_error :: "pointer list \<Rightarrow> pointer \<Rightarrow> ref_error" where
  "cycle_error trail q =
     SpecError (''$ref cycle with no structure between the steps, which can never be resolved: ''
       @ join '' -> '' (map (\<lambda>p. ''#'' @ encode_pointer p) (dropWhile (\<lambda>p. p \<noteq> q) trail @ [q]))) []"

text \<open>The search from one start: the frames (top first), the finished nodes (latest first) and the
  expansions.\<close>

type_synonym frames = "(pointer \<times> pointer list) list"

function dfs ::
  "ref_graph \<Rightarrow> frames \<Rightarrow> pointer list \<Rightarrow> (pointer, nat) dict
     \<Rightarrow> ref_error + (pointer list \<times> (pointer, nat) dict)" where
  "dfs g [] fin expansion = Inr (fin, expansion)"
| "dfs g ((p, []) # frames) fin expansion =
     (case record_expansion g expansion p of
        Inl e \<Rightarrow> Inl e
      | Inr expansion' \<Rightarrow> dfs g frames (p # fin) expansion')"
| "dfs g ((p, q # qs) # frames) fin expansion =
     (if q \<in> set (map fst ((p, q # qs) # frames))
      then Inl (cycle_error (rev (map fst ((p, q # qs) # frames))) q)
      else if q \<in> set fin \<or> map_of g q = None then dfs g ((p, qs) # frames) fin expansion
      else dfs g ((q, succs g q) # (p, qs) # frames) fin expansion)"
  by pat_completeness auto

definition unvisited :: "ref_graph \<Rightarrow> frames \<Rightarrow> pointer list \<Rightarrow> pointer set" where
  "unvisited g frames fin = {k \<in> fst ` set g. k \<notin> set fin \<and> k \<notin> fst ` set frames}"

lemma finite_unvisited: "finite (unvisited g frames fin)"
  by (simp add: unvisited_def)

definition dfs_work :: "frames \<Rightarrow> nat" where
  "dfs_work frames = sum_list (map (\<lambda>f. Suc (length (snd f))) frames)"

lemma unvisited_pop: "unvisited g frames (p # fin) \<subseteq> unvisited g ((p, r) # frames) fin"
  by (auto simp: unvisited_def)

lemma unvisited_push:
  assumes "q \<notin> set fin" "map_of g q \<noteq> None" "q \<notin> fst ` set ((p, r) # frames)"
  shows "unvisited g ((q, qs) # (p, r') # frames) fin \<subset> unvisited g ((p, r) # frames) fin"
proof -
  have "q \<in> fst ` set g" using assms(2) by (simp add: map_of_eq_None_iff)
  then show ?thesis using assms by (auto simp: unvisited_def)
qed

termination dfs
proof (relation "(\<lambda>(g, frames, fin, ex). card (unvisited g frames fin)) <*mlex*>
                 measure (\<lambda>(g, frames, fin, ex). dfs_work frames)", goal_cases)
  case 1
  show ?case by (intro wf_mlex) simp
next
  case (2 g p frames fin expansion ex')
  then show ?case
    using card_mono[OF finite_unvisited unvisited_pop] by (intro mlex_leq) (auto simp: dfs_work_def)
next
  case (3 g p q qs frames fin expansion)
  then show ?case by (intro mlex_leq) (auto simp: dfs_work_def unvisited_def)
next
  case (4 g p q qs frames fin expansion)
  then have "unvisited g ((q, succs g q) # (p, qs) # frames) fin \<subset> unvisited g ((p, q # qs) # frames) fin"
    by (intro unvisited_push) auto
  from psubset_card_mono[OF finite_unvisited this] show ?case
    by (intro mlex_less) (simp only: prod.case)
qed

fun check_from ::
  "ref_graph \<Rightarrow> pointer list \<Rightarrow> pointer list \<Rightarrow> (pointer, nat) dict
     \<Rightarrow> ref_error + (pointer list \<times> (pointer, nat) dict)" where
  "check_from g [] fin expansion = Inr (fin, expansion)"
| "check_from g (start # starts) fin expansion =
     (if start \<in> set fin then check_from g starts fin expansion
      else case dfs g [(start, succs g start)] fin expansion of
        Inl e \<Rightarrow> Inl e
      | Inr (fin', expansion') \<Rightarrow> check_from g starts fin' expansion')"

fun build_edges :: "(string \<Rightarrow> string) \<Rightarrow> (pointer, jdict) dict \<Rightarrow> ref_graph py" where
  "build_edges unquote [] = Inr []"
| "build_edges unquote ((p, schema) # targets) =
     (case same_instance_refs unquote schema of
        Inl e \<Rightarrow> Inl e
      | Inr refs \<Rightarrow>
          (case build_edges unquote targets of
             Inl e \<Rightarrow> Inl e
           | Inr g \<Rightarrow> Inr ((p, refs) # g)))"

definition check_cycles :: "(string \<Rightarrow> string) \<Rightarrow> (pointer, jdict) dict \<Rightarrow> ref_error + unit" where
  "check_cycles unquote targets =
     (case build_edges unquote targets of
        Inl e \<Rightarrow> Inl (RefRaised e)
      | Inr g \<Rightarrow> (case check_from g (map fst g) [] [] of Inl e \<Rightarrow> Inl e | Inr _ \<Rightarrow> Inr ()))"

fun gather_targets ::
  "(string \<Rightarrow> string) \<Rightarrow> json \<Rightarrow> (pointer \<times> string) list \<Rightarrow> (pointer, jdict) dict
     \<Rightarrow> ref_error + (pointer, jdict) dict" where
  "gather_targets unquote document [] targets = Inr targets"
| "gather_targets unquote document ((path, ref) # sites) targets =
     (case local_pointer unquote ref path of
        Inl e \<Rightarrow> Inl e
      | Inr ptr \<Rightarrow>
          if ptr \<in> fst ` set targets then gather_targets unquote document sites targets
          else case resolve document ptr ref path of
                 Inl e \<Rightarrow> Inl e
               | Inr schema \<Rightarrow> gather_targets unquote document sites (AList.update ptr schema targets))"

definition check_refs :: "(string \<Rightarrow> string) \<Rightarrow> json \<Rightarrow> ref_error + unit" where
  "check_refs unquote document =
     (case collect_ref_sites document of
        Inl e \<Rightarrow> Inl e
      | Inr sites \<Rightarrow>
          (case gather_targets unquote document sites [] of
             Inl e \<Rightarrow> Inl e
           | Inr targets \<Rightarrow> check_cycles unquote targets))"

section \<open>Pointers round trip\<close>

lemma replace2_other: "x \<noteq> a \<Longrightarrow> replace2 a b r (x # s) = x # replace2 a b r s"
  by (cases s) auto

fun escape_tilde :: "string \<Rightarrow> string" where
  "escape_tilde [] = []"
| "escape_tilde (c # s) = (if c = CHR ''~'' then ''~0'' else [c]) @ escape_tilde s"

lemma replace_slashes:
  "replace2 (CHR ''~'') (CHR ''1'') (CHR ''/'') (escape_part s) = escape_tilde s"
  by (induction s) (simp_all add: replace2_other)

lemma replace_tildes:
  "replace2 (CHR ''~'') (CHR ''0'') (CHR ''~'') (escape_tilde s) = s"
  by (induction s) (simp_all add: replace2_other)

lemma unescape_escape: "unescape_part (escape_part s) = s"
  by (simp add: unescape_part_def replace_slashes replace_tildes)

lemma escape_part_no_slash: "CHR ''/'' \<notin> set (escape_part s)"
  by (induction s) auto

lemma encode_pointer_Cons:
  "split_char (CHR ''/'') (escape_part p @ encode_pointer ps) = map escape_part (p # ps)"
proof (induction ps arbitrary: p)
  case Nil
  then show ?case by (simp add: encode_pointer_def split_char_absent escape_part_no_slash)
next
  case (Cons q qs)
  have "encode_pointer (q # qs) = CHR ''/'' # escape_part q @ encode_pointer qs"
    by (simp add: encode_pointer_def)
  then show ?case using Cons by (simp add: split_char_append escape_part_no_slash)
qed

lemma decode_encode: "decode_pointer (encode_pointer ps) = Inr ps"
proof (cases ps)
  case (Cons p qs)
  have "encode_pointer (p # qs) = CHR ''/'' # escape_part p @ encode_pointer qs"
    by (simp add: encode_pointer_def)
  then show ?thesis
    by (simp add: Cons decode_pointer_def encode_pointer_Cons unescape_escape comp_def)
qed (simp add: encode_pointer_def decode_pointer_def)

section \<open>What an accepted document guarantees\<close>

lemma gather_targets_ok:
  assumes "gather_targets unquote document sites targets = Inr targets'"
  shows "\<forall>(path, ref) \<in> set sites. \<exists>ptr. local_pointer unquote ref path = Inr ptr \<and> ptr \<in> fst ` set targets'"
    and "fst ` set targets \<subseteq> fst ` set targets'"
  using assms
proof (induction unquote document sites targets rule: gather_targets.induct)
  case (2 unquote document path ref sites targets)
  { case 1
    with 2 show ?case by (auto split: sum.splits if_splits simp: keys_update)
  next
    case 2
    with "2.IH" show ?case by (auto split: sum.splits if_splits simp: keys_update)
  }
qed simp_all

lemma gather_targets_resolve:
  assumes "gather_targets unquote document sites targets = Inr targets'"
      and "\<forall>(p, d) \<in> set targets. walk document p = Inr (Some (JObj d))"
  shows "\<forall>(p, d) \<in> set targets'. walk document p = Inr (Some (JObj d))"
  using assms
proof (induction unquote document sites targets rule: gather_targets.induct)
  case (2 unquote document path ref sites targets)
  have upd: "\<forall>(p, d) \<in> set (AList.update ptr schema targets). walk document p = Inr (Some (JObj d))"
    if "resolve document ptr ref path = Inr schema" for ptr schema
    using 2(4) that
    by (auto simp: resolve_def split: sum.splits option.splits json.splits dest!: in_update_cases)
  show ?case
    using 2 upd by (auto split: sum.splits if_splits)
qed simp

lemma build_edges_keys: "build_edges unquote targets = Inr g \<Longrightarrow> map fst g = map fst targets"
  by (induction unquote targets arbitrary: g rule: build_edges.induct) (auto split: sum.splits)

lemma build_edges_succs:
  "build_edges unquote targets = Inr g \<Longrightarrow> map_of targets p = Some schema \<Longrightarrow>
   \<exists>refs. same_instance_refs unquote schema = Inr refs \<and> map_of g p = Some refs"
  by (induction unquote targets arbitrary: g rule: build_edges.induct)
     (auto split: sum.splits if_splits)

text \<open>Finished nodes, latest first: what a node leads to finished before it.\<close>

fun settled :: "ref_graph \<Rightarrow> pointer list \<Rightarrow> bool" where
  "settled g [] = True"
| "settled g (p # fin) =
     (p \<notin> set fin \<and> (\<forall>q \<in> set (succs g p). map_of g q \<noteq> None \<longrightarrow> q \<in> set fin) \<and> settled g fin)"

text \<open>The frames: the successors already looked at are finished, absent, or on the trail just above.\<close>

fun framed :: "ref_graph \<Rightarrow> pointer option \<Rightarrow> frames \<Rightarrow> pointer list \<Rightarrow> bool" where
  "framed g upper_node [] fin = True"
| "framed g upper_node ((p, qs) # frames) fin =
     (p \<notin> set fin
      \<and> (\<forall>q \<in> set (succs g p). q \<in> set qs \<or> map_of g q = None \<or> q \<in> set fin \<or> Some q = upper_node)
      \<and> framed g (Some p) frames fin)"

lemma framed_finish:
  "framed g (Some p) frames fin \<Longrightarrow> p \<notin> fst ` set frames \<Longrightarrow> framed g None frames (p # fin)"
proof (cases frames)
  case (Cons f fs)
  have rest: "framed g upper_node fs (p # fin)"
    if "framed g upper_node fs fin" "p \<notin> fst ` set fs" for upper_node fs
    using that by (induction g upper_node fs fin rule: framed.induct) auto
  assume "framed g (Some p) frames fin" "p \<notin> fst ` set frames"
  then show ?thesis using rest[of "Some (fst f)" fs] Cons by (cases f) auto
qed simp

lemma dfs_settles:
  assumes "dfs g frames fin expansion = Inr (fin', expansion')"
      and "settled g fin" and "framed g None frames fin" and "distinct (map fst frames)"
  shows "settled g fin' \<and> set fin \<union> fst ` set frames \<subseteq> set fin'"
  using assms
proof (induction g frames fin expansion rule: dfs.induct)
  case (2 g p frames fin expansion)
  then obtain ex where ex: "record_expansion g expansion p = Inr ex"
      and run: "dfs g frames (p # fin) ex = Inr (fin', expansion')"
    by (auto split: sum.splits)
  have "settled g (p # fin)" using 2(3,4) by auto
  moreover have "framed g None frames (p # fin)" using 2(4,5) by (intro framed_finish) auto
  ultimately show ?case using 2(1)[OF ex run] 2(5) by auto
next
  case (3 g p q qs frames fin expansion)
  show ?case
  proof (cases "q \<in> set (map fst ((p, q # qs) # frames))")
    case True
    with 3(3) show ?thesis by (simp split: if_splits)
  next
    case fresh: False
    show ?thesis
    proof (cases "q \<in> set fin \<or> map_of g q = None")
      case True
      with 3(3) fresh have "dfs g ((p, qs) # frames) fin expansion = Inr (fin', expansion')"
        by (simp split: if_splits)
      from 3(1)[OF fresh True this 3(4)] 3(5,6) True show ?thesis by auto
    next
      case False
      with 3(3) fresh have run: "dfs g ((q, succs g q) # (p, qs) # frames) fin expansion = Inr (fin', expansion')"
        by (simp split: if_splits)
      have "framed g None ((q, succs g q) # (p, qs) # frames) fin"
        using 3(5) False by auto
      from 3(2)[OF fresh False run 3(4) this] 3(6) fresh show ?thesis by auto
    qed
  qed
qed simp_all

lemma check_from_settles:
  assumes "check_from g starts fin expansion = Inr (fin', expansion')" and "settled g fin"
  shows "settled g fin' \<and> set fin \<union> set starts \<subseteq> set fin'"
  using assms
proof (induction g starts fin expansion rule: check_from.induct)
  case (2 g start starts fin expansion)
  show ?case
  proof (cases "start \<in> set fin")
    case True
    with 2 show ?thesis by auto
  next
    case False
    with 2(3) obtain fin1 ex1 where run: "dfs g [(start, succs g start)] fin expansion = Inr (fin1, ex1)"
        and rest: "check_from g starts fin1 ex1 = Inr (fin', expansion')"
      by (auto split: sum.splits)
    from dfs_settles[OF run 2(4)] False
    have "settled g fin1 \<and> set fin \<union> {start} \<subseteq> set fin1" by auto
    with 2(2)[OF False run refl rest] show ?thesis by auto
  qed
qed simp_all

definition age :: "pointer list \<Rightarrow> pointer \<Rightarrow> nat" where
  "age fin p = length (dropWhile (\<lambda>q. q \<noteq> p) fin)"

lemma settled_closed:
  "settled g fin \<Longrightarrow> p \<in> set fin \<Longrightarrow> q \<in> set (succs g p) \<Longrightarrow> map_of g q \<noteq> None \<Longrightarrow> q \<in> set fin"
  by (induction fin) auto

lemma settled_age:
  "settled g fin \<Longrightarrow> p \<in> set fin \<Longrightarrow> q \<in> set (succs g p) \<Longrightarrow> map_of g q \<noteq> None \<Longrightarrow>
   age fin q < age fin p"
proof (induction fin)
  case (Cons a fin)
  show ?case
  proof (cases "a = p")
    case True
    with Cons.prems have "q \<in> set fin" "q \<noteq> a" by auto
    then show ?thesis using True length_dropWhile_le[of _ fin] by (auto simp: age_def le_imp_less_Suc)
  next
    case False
    then have p: "p \<in> set fin" using Cons.prems by auto
    have "q \<in> set fin"
      using settled_closed[of g fin, OF _ p Cons.prems(3,4)] Cons.prems(1) by simp
    with False p Cons show ?thesis by (auto simp: age_def)
  qed
qed simp

definition ref_steps :: "ref_graph \<Rightarrow> (pointer \<times> pointer) set" where
  "ref_steps g = {(p, q). map_of g p \<noteq> None \<and> map_of g q \<noteq> None \<and> q \<in> set (succs g p)}"

lemma check_from_acyclic:
  assumes "check_from g (map fst g) [] [] = Inr r"
  shows "acyclic (ref_steps g)"
proof -
  obtain fin ex where r: "r = (fin, ex)" by fastforce
  from check_from_settles[OF assms[unfolded r]]
  have fin: "settled g fin" "fst ` set g \<subseteq> set fin" by auto
  have "age fin q < age fin p" if "(p, q) \<in> ref_steps g" for p q
  proof (rule settled_age[OF fin(1)])
    have "p \<in> fst ` set g" using that by (simp add: ref_steps_def map_of_eq_None_iff)
    then show "p \<in> set fin" using fin(2) by blast
  qed (use that in \<open>auto simp: ref_steps_def\<close>)
  then have "(ref_steps g)\<inverse> \<subseteq> measure (age fin)" by auto
  then have "wf ((ref_steps g)\<inverse>)" using wf_subset wf_measure by blast
  then show ?thesis using wf_acyclic acyclic_converse by blast
qed

definition expansions_ok :: "(pointer, nat) dict \<Rightarrow> bool" where
  "expansions_ok expansion \<longleftrightarrow> (\<forall>n \<in> snd ` set expansion. n \<le> MAX_COMPOSITION_EXPANSION)"

lemma record_expansion_bound:
  "record_expansion g expansion p = Inr expansion' \<Longrightarrow> expansions_ok expansion \<Longrightarrow> expansions_ok expansion'"
  by (auto simp: expansions_ok_def record_expansion_def Let_def split: if_splits dest!: in_update_cases)

lemma dfs_expansion:
  "dfs g frames fin expansion = Inr (fin', expansion') \<Longrightarrow> expansions_ok expansion \<Longrightarrow>
   expansions_ok expansion'"
proof (induction g frames fin expansion rule: dfs.induct)
  case (2 g p frames fin expansion)
  then show ?case by (auto split: sum.splits dest: record_expansion_bound)
next
  case (3 g p q qs frames fin expansion)
  from 3(3) consider
      "q \<notin> set (map fst ((p, q # qs) # frames))" "q \<in> set fin \<or> map_of g q = None"
      "dfs g ((p, qs) # frames) fin expansion = Inr (fin', expansion')"
    | "q \<notin> set (map fst ((p, q # qs) # frames))" "\<not> (q \<in> set fin \<or> map_of g q = None)"
      "dfs g ((q, succs g q) # (p, qs) # frames) fin expansion = Inr (fin', expansion')"
    by (simp only: dfs.simps split: if_splits) (simp, blast+)
  then show ?case using 3(1,2,4) by cases blast+
qed simp

lemma check_from_expansion:
  "check_from g starts fin expansion = Inr (fin', expansion') \<Longrightarrow> expansions_ok expansion \<Longrightarrow>
   expansions_ok expansion'"
proof (induction g starts fin expansion rule: check_from.induct)
  case (2 g start starts fin expansion)
  then show ?case by (auto split: if_splits sum.splits dest: dfs_expansion)
qed simp

lemma check_refs_accepts:
  assumes "check_refs unquote document = Inr ()"
  obtains sites targets g where
    "collect_ref_sites document = Inr sites"
    "gather_targets unquote document sites [] = Inr targets"
    "build_edges unquote targets = Inr g"
    "\<forall>(path, ref) \<in> set sites. \<exists>ptr d. local_pointer unquote ref path = Inr ptr
       \<and> walk document ptr = Inr (Some (JObj d))"
    "acyclic (ref_steps g)"
proof -
  from assms obtain sites targets where
      sites: "collect_ref_sites document = Inr sites"
      and targets: "gather_targets unquote document sites [] = Inr targets"
      and cycles: "check_cycles unquote targets = Inr ()"
    by (auto simp: check_refs_def split: sum.splits)
  from cycles obtain g r where g: "build_edges unquote targets = Inr g"
      and r: "check_from g (map fst g) [] [] = Inr r"
    by (auto simp: check_cycles_def split: sum.splits)
  have "\<forall>(path, ref) \<in> set sites. \<exists>ptr d. local_pointer unquote ref path = Inr ptr
       \<and> walk document ptr = Inr (Some (JObj d))"
    using gather_targets_ok(1)[OF targets] gather_targets_resolve[OF targets] by fastforce
  with that sites targets g check_from_acyclic[OF r] show thesis by blast
qed

end
