(* ===== verification/Py_Object.thy ===== *)
theory Py_Object
  imports Openapi_Refs
begin

text \<open>
  Python's operations on the values of a document, for the code that reads OpenAPI documents: the
  attribute and subscript errors of a value that is not what the code expects are values of \<open>py\<close>.
  A computation that may also run forever is a \<open>run\<close>, with \<open>None\<close> for not returning. With them are
  \<open>resolve_local\<close> of \<^verbatim>\<open>openapi/refs.py\<close> and \<open>deref\<close> of \<^verbatim>\<open>openapi/schema_convert.py\<close>.
\<close>

section \<open>Sequencing\<close>

type_synonym 'a run = "'a py option"

definition bind_py :: "'a py \<Rightarrow> ('a \<Rightarrow> 'b py) \<Rightarrow> 'b py" where
  "bind_py m f = (case m of Inl e \<Rightarrow> Inl e | Inr x \<Rightarrow> f x)"

definition bind_run :: "'a run \<Rightarrow> ('a \<Rightarrow> 'b run) \<Rightarrow> 'b run" where
  "bind_run m f = (case m of None \<Rightarrow> None | Some (Inl e) \<Rightarrow> Some (Inl e) | Some (Inr x) \<Rightarrow> f x)"

abbreviation ret :: "'a \<Rightarrow> 'a run" where "ret x \<equiv> Some (Inr x)"

fun map_py :: "('a \<Rightarrow> 'b py) \<Rightarrow> 'a list \<Rightarrow> 'b list py" where
  "map_py f [] = Inr []"
| "map_py f (x # xs) = bind_py (f x) (\<lambda>y. bind_py (map_py f xs) (\<lambda>ys. Inr (y # ys)))"

text \<open>A loop that updates a state.\<close>

fun fold_run :: "('a \<Rightarrow> 's \<Rightarrow> 's run) \<Rightarrow> 'a list \<Rightarrow> 's \<Rightarrow> 's run" where
  "fold_run f [] s = ret s"
| "fold_run f (x # xs) s = bind_run (f x s) (fold_run f xs)"

lemma bind_py_simps [simp]: "bind_py (Inl e) f = Inl e" "bind_py (Inr x) f = f x"
  by (simp_all add: bind_py_def)

lemma bind_run_simps [simp]:
  "bind_run None f = None" "bind_run (Some (Inl e)) f = Some (Inl e)" "bind_run (ret x) f = f x"
  by (simp_all add: bind_run_def)

lemma bind_py_Inr: "bind_py m f = Inr y \<longleftrightarrow> (\<exists>x. m = Inr x \<and> f x = Inr y)"
  by (cases m) auto

lemma bind_run_ret: "bind_run m f = ret y \<longleftrightarrow> (\<exists>x. m = ret x \<and> f x = ret y)"
  by (auto simp: bind_run_def split: option.splits sum.splits)

lemma fold_run_invariant:
  assumes "\<And>x s s'. x \<in> set xs \<Longrightarrow> I s \<Longrightarrow> f x s = ret s' \<Longrightarrow> I s'"
    and "fold_run f xs s = ret s'" "I s"
  shows "I s'"
  using assms
proof (induction xs arbitrary: s)
  case (Cons x xs)
  from Cons.prems(2) obtain s1 where s1: "f x s = ret s1" "fold_run f xs s1 = ret s'"
    by (auto simp: bind_run_ret)
  have "I s1" using Cons.prems(1)[OF _ Cons.prems(3) s1(1)] by simp
  with Cons.IH[OF _ s1(2)] Cons.prems(1) show ?case by auto
qed simp

section \<open>Reading values\<close>

text \<open>\<open>v.get(k, default)\<close>, \<open>v[k]\<close>, \<open>v.items()\<close> and \<open>k in v\<close> for a text \<open>k\<close>.\<close>

definition py_get :: "json \<Rightarrow> string \<Rightarrow> json \<Rightarrow> json py" where
  "py_get v k dflt =
     (case v of JObj d \<Rightarrow> Inr (jget_or d k dflt) | _ \<Rightarrow> Inl (AttributeError ''object has no attribute get''))"

definition py_item :: "json \<Rightarrow> string \<Rightarrow> json py" where
  "py_item v k =
     (case v of
        JObj d \<Rightarrow> (case map_of d k of Some x \<Rightarrow> Inr x | None \<Rightarrow> Inl (KeyError k))
      | _ \<Rightarrow> Inl (TypeError ''object is not subscriptable by text''))"

definition py_items :: "json \<Rightarrow> jdict py" where
  "py_items v = (case v of JObj d \<Rightarrow> Inr d | _ \<Rightarrow> Inl (AttributeError ''object has no attribute items''))"

definition py_has :: "json \<Rightarrow> string \<Rightarrow> bool py" where
  "py_has v k = py_in (JStr k) v"

text \<open>\<open>v.startswith(p)\<close> and the other methods of text, on a value that may not be text.\<close>

definition py_text :: "json \<Rightarrow> string py" where
  "py_text v = (case v of JStr s \<Rightarrow> Inr s | _ \<Rightarrow> Inl (AttributeError ''object has no such text method''))"

text \<open>\<open>{**d, **e}\<close>.\<close>

definition dict_merge :: "jdict \<Rightarrow> jdict \<Rightarrow> jdict" where
  "dict_merge d e = foldl (\<lambda>acc (k, v). AList.update k v acc) d e"

text \<open>\<open>{key: d[key] for key in keys if key in d}\<close>.\<close>

definition pick :: "string list \<Rightarrow> jdict \<Rightarrow> jdict" where
  "pick ks d = concat (map (\<lambda>k. case map_of d k of Some v \<Rightarrow> [(k, v)] | None \<Rightarrow> []) ks)"

section \<open>References\<close>

text \<open>\<open>xs[i]\<close>, also for a negative index.\<close>

definition py_index :: "json list \<Rightarrow> int \<Rightarrow> json py" where
  "py_index xs i =
     (let j = (if i < 0 then i + int (length xs) else i)
      in if 0 \<le> j \<and> j < int (length xs) then Inr (xs ! nat j) else Inl (IndexError ''list index out of range''))"

fun follow :: "json \<Rightarrow> pointer \<Rightarrow> json py" where
  "follow node [] = Inr node"
| "follow node (part # ps) =
     (case node of
        JList xs \<Rightarrow>
          (case parse_int part of
             None \<Rightarrow> Inl (ValueError ''invalid literal for int()'')
           | Some i \<Rightarrow> bind_py (py_index xs i) (\<lambda>v. follow v ps))
      | _ \<Rightarrow> bind_py (py_item node part) (\<lambda>v. follow v ps))"

definition resolve_local :: "(string \<Rightarrow> string) \<Rightarrow> json \<Rightarrow> string \<Rightarrow> json py" where
  "resolve_local unquote document ref =
     bind_py (decode_pointer (unquote (drop 1 ref))) (follow document)"

partial_function (option) deref :: "(string \<Rightarrow> string) \<Rightarrow> json \<Rightarrow> json \<Rightarrow> json run" where
  "deref unquote document schema =
     (case schema of
        JObj d \<Rightarrow>
          (case jget d ''$ref'' of
             JStr ref \<Rightarrow>
               (case resolve_local unquote document ref of
                  Inl e \<Rightarrow> Some (Inl e)
                | Inr v \<Rightarrow> deref unquote document v)
           | _ \<Rightarrow> ret schema)
      | _ \<Rightarrow> ret schema)"

declare deref.simps [code]

section \<open>Dereferencing ends on a checked document\<close>

text \<open>A lookup the check performed is one the code can repeat.\<close>

lemma int_of_digits_nonneg: "int_of_digits s = Some i \<Longrightarrow> 0 \<le> i"
  by (auto simp: int_of_digits_def split: if_splits)

lemma strip_if_none: "\<forall>c \<in> set s. \<not> P c \<Longrightarrow> strip_if P s = s"
proof (cases "s = []")
  case False
  assume none: "\<forall>c \<in> set s. \<not> P c"
  then have "dropWhile P s = s" "dropWhile P (rev s) = rev s"
    using False by (simp_all add: dropWhile_eq_self_iff hd_rev)
  then show ?thesis by (simp add: strip_if_def lstrip_if_def rstrip_if_def)
qed simp

lemma py_isdigit_parse:
  assumes "py_isdigit s" "parse_int s = Some i"
  shows "0 \<le> i"
proof -
  obtain c r where s: "s = c # r" using assms(1) by (cases s) (auto simp: py_isdigit_def)
  have digit: "is_digit x \<or> (of_char x :: nat) \<in> {178, 179, 185}" if "x \<in> set s" for x
    using assms(1) that by (auto simp: py_isdigit_def list_all_iff)
  then have "\<not> py_space x" if "x \<in> set s" for x
    using that by (fastforce simp: is_digit_def py_space_def Let_def)
  then have "strip s = s" by (intro strip_if_none) blast
  moreover have "c \<noteq> CHR ''-'' \<and> c \<noteq> CHR ''+''" using digit[of c] s by (auto simp: is_digit_def)
  ultimately show ?thesis using assms(2) s int_of_digits_nonneg by (auto simp: parse_int_def)
qed

lemma walk_follow: "walk node ps = Inr (Some v) \<Longrightarrow> follow node ps = Inr v"
proof (induction node ps rule: walk.induct)
  case (2 node part ps)
  then show ?case
    by (cases node)
       (auto simp: py_item_def py_index_def Let_def bind_py_Inr dest: py_isdigit_parse
          split: option.splits if_splits)
qed simp

text \<open>The parts of a document.\<close>

inductive part_of :: "json \<Rightarrow> json \<Rightarrow> bool" where
  part_self: "part_of v v"
| part_obj: "(k, w) \<in> set d \<Longrightarrow> part_of v w \<Longrightarrow> part_of v (JObj d)"
| part_list: "w \<in> set xs \<Longrightarrow> part_of v w \<Longrightarrow> part_of v (JList xs)"

lemma part_of_trans: "part_of v w \<Longrightarrow> part_of u v \<Longrightarrow> part_of u w"
  by (induction rule: part_of.induct) (auto intro: part_of.intros)

lemma walk_part: "walk node ps = Inr (Some v) \<Longrightarrow> part_of v node"
proof (induction node ps rule: walk.induct)
  case (2 node part ps)
  then show ?case
  proof (cases node)
    case (JList xs)
    with 2 obtain i where i: "parse_int part = Some i" "py_isdigit part" "i < int (length xs)"
      "walk (xs ! nat i) ps = Inr (Some v)"
      by (auto split: option.splits if_splits)
    then have "xs ! nat i \<in> set xs" using py_isdigit_parse[OF i(2,1)] by (intro nth_mem) linarith
    moreover have "part_of v (xs ! nat i)" using "2.IH" JList i by metis
    ultimately show ?thesis using JList part_list by blast
  next
    case (JObj d)
    with 2 obtain w where "map_of d part = Some w" "walk w ps = Inr (Some v)"
      by (auto split: option.splits)
    then show ?thesis using "2.IH" JObj part_obj map_of_SomeD by metis
  qed auto
qed (simp add: part_self)

definition site_of :: "string \<Rightarrow> json \<Rightarrow> bool" where
  "site_of r v \<longleftrightarrow> (\<exists>d. part_of (JObj d) v \<and> jget d ''$ref'' = JStr r)"

lemma site_of_obj: "site_of r (JObj d) \<Longrightarrow> jget d ''$ref'' = JStr r \<or> (\<exists>(k, w) \<in> set d. site_of r w)"
  by (auto simp: site_of_def elim: part_of.cases)

lemma site_of_list: "site_of r (JList xs) \<Longrightarrow> \<exists>w \<in> set xs. site_of r w"
  by (auto simp: site_of_def elim: part_of.cases)

lemma site_of_atom [simp]:
  "\<not> site_of r JNull" "\<not> site_of r (JBool b)" "\<not> site_of r (JInt i)" "\<not> site_of r (JFloat q)"
  "\<not> site_of r (JStr s)"
  by (auto simp: site_of_def elim: part_of.cases)

lemma collect_sites_complete:
  "collect_sites stack sites = Inr sites' \<Longrightarrow>
     set sites \<subseteq> set sites' \<and> (\<forall>(v, path) \<in> set stack. \<forall>r. site_of r v \<longrightarrow> r \<in> snd ` set sites')"
proof (induction stack sites rule: collect_sites.induct)
  case (2 v path stack sites)
  show ?case
  proof (cases v)
    case (JObj d)
    let ?sites = "case jget d ''$ref'' of JStr r \<Rightarrow> sites @ [(path, r)] | _ \<Rightarrow> sites"
    have no: "rebasing d REBASING_KEYWORDS = None"
      and run: "collect_sites (rev (map (\<lambda>(k, c). (c, path @ [k])) d) @ stack) ?sites = Inr sites'"
      using "2.prems" JObj by (auto split: option.splits)
    have ih: "set ?sites \<subseteq> set sites'"
      "\<forall>(w, p) \<in> set (rev (map (\<lambda>(k, c). (c, path @ [k])) d) @ stack). \<forall>r. site_of r w \<longrightarrow> r \<in> snd ` set sites'"
      using "2.IH" JObj no run by auto
    have "r \<in> snd ` set sites'" if r: "site_of r v" for r
    proof -
      from site_of_obj[of r d] r JObj consider
        "jget d ''$ref'' = JStr r" | k w where "(k, w) \<in> set d" "site_of r w" by auto
      then show ?thesis
      proof cases
        case 1
        then have "(path, r) \<in> set sites'" using ih(1) by auto
        then show ?thesis by force
      next
        case (2 k w)
        then have "(w, path @ [k]) \<in> set (rev (map (\<lambda>(k, c). (c, path @ [k])) d) @ stack)" by force
        then show ?thesis using ih(2) 2(2) by blast
      qed
    qed
    moreover have "set sites \<subseteq> set sites'" using ih(1) by (auto split: json.splits)
    ultimately show ?thesis using ih(2) by auto
  next
    case (JList xs)
    have ih: "set sites \<subseteq> set sites'"
      "\<forall>(w, p) \<in> set (rev (numbered path xs) @ stack). \<forall>r. site_of r w \<longrightarrow> r \<in> snd ` set sites'"
      using "2.IH" "2.prems" JList by auto
    have "\<exists>p. (w, p) \<in> set (numbered path xs)" if "w \<in> set xs" for w
    proof -
      from that obtain i where i: "i < length xs" "w = xs ! i" by (auto simp: in_set_conv_nth)
      then have "(i, w) \<in> set (enumerate 0 xs)" by (simp add: in_set_enumerate_eq)
      then show ?thesis by (force simp: numbered_def)
    qed
    then have "r \<in> snd ` set sites'" if "site_of r v" for r
      using site_of_list[of r xs] that JList ih(2) by fastforce
    then show ?thesis using ih by auto
  qed (use 2 in auto)
qed simp

text \<open>The reference of a schema itself is among those applied to the same instance.\<close>

lemma same_refs_keeps: "same_refs unquote stack found = Inr refs \<Longrightarrow> set found \<subseteq> set refs"
proof (induction unquote stack found rule: same_refs.induct)
  case (2 unquote v stack found)
  show ?case
  proof (cases v)
    case (JObj d)
    show ?thesis
    proof (cases "\<exists>ref. jget d ''$ref'' = JStr ref")
      case True
      then obtain ref where ref: "jget d ''$ref'' = JStr ref" by blast
      with "2.prems" JObj obtain p where "decode_pointer (unquote (drop 1 ref)) = Inr p"
        "same_refs unquote (rev (same_instance_children d) @ stack) (found @ [p]) = Inr refs"
        by (auto split: sum.splits)
      with "2.IH" JObj ref have "set (found @ [p]) \<subseteq> set refs" by metis
      then show ?thesis by simp
    next
      case False
      then have "same_refs unquote (rev (same_instance_children d) @ stack) found = Inr refs"
        using "2.prems" JObj by (simp split: json.splits)
      with False "2.IH" JObj show ?thesis by (cases "jget d ''$ref''") auto
    qed
  qed (use 2 in auto)
qed simp

lemma same_instance_refs_own:
  assumes "same_instance_refs unquote d = Inr refs" "jget d ''$ref'' = JStr ref"
  shows "\<exists>p. decode_pointer (unquote (drop 1 ref)) = Inr p \<and> p \<in> set refs"
proof -
  from assms obtain p where p: "decode_pointer (unquote (drop 1 ref)) = Inr p"
      "same_refs unquote (rev (same_instance_children d) @ []) ([] @ [p]) = Inr refs"
    by (auto simp: same_instance_refs_def split: sum.splits)
  with same_refs_keeps[OF p(2)] show ?thesis by auto
qed

lemma local_pointer_decode:
  "local_pointer unquote ref path = Inr p \<Longrightarrow> decode_pointer (unquote (drop 1 ref)) = Inr p"
  by (auto simp: local_pointer_def split: if_splits sum.splits)

text \<open>Every reference in an accepted document leads to a target of the graph.\<close>

lemma site_target:
  assumes sites: "collect_ref_sites document = Inr sites"
    and targets: "gather_targets unquote document sites [] = Inr targets"
    and "site_of ref document"
  shows "\<exists>p d. decode_pointer (unquote (drop 1 ref)) = Inr p \<and> map_of targets p = Some d \<and>
               walk document p = Inr (Some (JObj d))"
proof -
  have "ref \<in> snd ` set sites"
    using collect_sites_complete[OF sites[unfolded collect_ref_sites_def]] assms(3) by auto
  then obtain path where "(path, ref) \<in> set sites" by auto
  then obtain p where p: "local_pointer unquote ref path = Inr p" "p \<in> fst ` set targets"
    using gather_targets_ok(1)[OF targets] by blast
  then obtain d where d: "map_of targets p = Some d"
    by (metis map_of_eq_None_iff not_Some_eq)
  moreover have "walk document p = Inr (Some (JObj d))"
    using gather_targets_resolve[OF targets] map_of_SomeD[OF d] by auto
  ultimately show ?thesis using local_pointer_decode[OF p(1)] by blast
qed

text \<open>\<open>deref\<close> returns, with a value that is no reference.\<close>

definition is_ref :: "json \<Rightarrow> bool" where
  "is_ref v \<longleftrightarrow> (case v of JObj d \<Rightarrow> is_str (jget d ''$ref'') | _ \<Rightarrow> False)"

lemma deref_step:
  "deref unquote document (JObj d) =
     (case jget d ''$ref'' of
        JStr ref \<Rightarrow> (case resolve_local unquote document ref of
                       Inl e \<Rightarrow> Some (Inl e) | Inr v \<Rightarrow> deref unquote document v)
      | _ \<Rightarrow> ret (JObj d))"
  by (subst deref.simps) simp

lemma deref_no_ref: "\<not> is_ref v \<Longrightarrow> deref unquote document v = ret v"
  by (subst deref.simps) (auto simp: is_ref_def split: json.splits)

lemma deref_returns:
  assumes "check_refs unquote document = Inr ()" "part_of v document"
  shows "\<exists>w. deref unquote document v = ret w \<and> \<not> is_ref w \<and> part_of w document"
proof -
  from check_refs_accepts[OF assms(1)] obtain sites targets g where
    sites: "collect_ref_sites document = Inr sites"
    and targets: "gather_targets unquote document sites [] = Inr targets"
    and g: "build_edges unquote targets = Inr g" and ac: "acyclic (ref_steps g)" by metis
  have "finite (ref_steps g)"
  proof (rule finite_subset)
    show "ref_steps g \<subseteq> (fst ` set g) \<times> (fst ` set g)"
      by (auto simp: ref_steps_def map_of_eq_None_iff)
  qed simp
  then have wf: "wf ((ref_steps g)\<inverse>)" using ac finite_acyclic_wf_converse by blast
  have from_target: "\<exists>w. deref unquote document (JObj d) = ret w \<and> \<not> is_ref w \<and> part_of w document"
    if "map_of targets p = Some d" for p d
    using wf that
  proof (induction p arbitrary: d)
    case (less p)
    have d: "part_of (JObj d) document"
      using gather_targets_resolve[OF targets] map_of_SomeD[OF less.prems] walk_part by fastforce
    show ?case
    proof (cases "is_ref (JObj d)")
      case True
      then obtain ref where ref: "jget d ''$ref'' = JStr ref" by (auto simp: is_ref_def elim: is_str.elims)
      then have "site_of ref document" using d by (auto simp: site_of_def)
      from site_target[OF sites targets this] obtain q e where q:
        "decode_pointer (unquote (drop 1 ref)) = Inr q" "map_of targets q = Some e"
        "walk document q = Inr (Some (JObj e))" by blast
      from build_edges_succs[OF g less.prems] obtain refs where refs:
        "same_instance_refs unquote d = Inr refs" "map_of g p = Some refs" by blast
      have "q \<in> set refs" using same_instance_refs_own[OF refs(1) ref] q(1) by auto
      then have "(q, p) \<in> (ref_steps g)\<inverse>"
        using refs(2) build_edges_succs[OF g q(2)] by (auto simp: ref_steps_def)
      from less.IH[OF this q(2)] show ?thesis
        using ref q walk_follow[OF q(3)] by (simp add: deref_step resolve_local_def)
    next
      case False
      then show ?thesis using d by (simp add: deref_no_ref)
    qed
  qed
  show ?thesis
  proof (cases "is_ref v")
    case True
    then obtain d ref where v: "v = JObj d" "jget d ''$ref'' = JStr ref"
      by (cases v) (auto simp: is_ref_def elim: is_str.elims)
    then have "site_of ref document" using assms(2) by (auto simp: site_of_def)
    from site_target[OF sites targets this] obtain q e where q:
      "decode_pointer (unquote (drop 1 ref)) = Inr q" "map_of targets q = Some e"
      "walk document q = Inr (Some (JObj e))" by blast
    then show ?thesis
      using from_target[OF q(2)] v walk_follow[OF q(3)] by (simp add: deref_step resolve_local_def)
  next
    case False
    then show ?thesis using assms(2) by (simp add: deref_no_ref)
  qed
qed

end
