(* ===== verification/Schema_Convert.thy ===== *)
theory Schema_Convert
  imports Py_Object Server_Model
begin

text \<open>
  \<^verbatim>\<open>openapi/schema_convert.py\<close>: the schemas of a document as self-contained JSON Schema. The
  \<open>SchemaBundler\<close> is a record threaded through the conversion; \<open>_pending\<close> is a Python list, its end
  the next to be taken.
\<close>

section \<open>Names\<close>

definition name_char :: "char \<Rightarrow> bool" where
  "name_char c \<longleftrightarrow>
     (let n = (of_char c :: nat)
      in (65 \<le> n \<and> n \<le> 90) \<or> (97 \<le> n \<and> n \<le> 122) \<or> (48 \<le> n \<and> n \<le> 57)) \<or>
     c \<in> {CHR ''_'', CHR ''.'', CHR ''-''}"

text \<open>\<open>re.sub("[^A-Za-z0-9_.-]+", "_", s)\<close>; the flag says that a run is being dropped.\<close>

fun squash :: "bool \<Rightarrow> string \<Rightarrow> string" where
  "squash dropping [] = []"
| "squash dropping (c # s) =
     (if name_char c then c # squash False s
      else if dropping then squash True s else CHR ''_'' # squash True s)"

definition safe_name :: "string \<Rightarrow> string" where
  "safe_name s = squash False s"

abbreviation strip_underscores :: "string \<Rightarrow> string" where
  "strip_underscores s \<equiv> strip_if (\<lambda>c. c = CHR ''_'') s"

lemma digits_rev_inj: "digits_rev m = digits_rev n \<Longrightarrow> m = n"
proof (induction m arbitrary: n rule: digits_rev.induct)
  case (1 m)
  have hd: "char_of (48 + x :: nat) = char_of (48 + y :: nat) \<longleftrightarrow> x = y" if "x < 10" "y < 10" for x y
    using that by (simp add: char_of_eq_iff take_bit_eq_mod)
  have ne: "digits_rev x \<noteq> []" for x by (subst digits_rev.simps) simp
  show ?case
  proof (cases "m < 10 \<longleftrightarrow> n < 10")
    case True
    show ?thesis
    proof (cases "m < 10")
      case True
      then show ?thesis using 1(2) \<open>m < 10 \<longleftrightarrow> n < 10\<close> hd[of m n]
        by (simp add: digits_rev.simps[of m] digits_rev.simps[of n])
    next
      case False
      then have "n \<ge> 10" using True by simp
      then have "m mod 10 = n mod 10" "digits_rev (m div 10) = digits_rev (n div 10)"
        using 1(2) False hd[of "m mod 10" "n mod 10"]
        by (simp_all add: digits_rev.simps[of m] digits_rev.simps[of n])
      then show ?thesis using 1(1)[OF False] by (metis div_mult_mod_eq)
    qed
  next
    case False
    then show ?thesis using 1(2) ne ne[symmetric]
      by (auto simp: digits_rev.simps[of m] digits_rev.simps[of n] split: if_splits)
  qed
qed

lemma str_nat_inj: "str_nat m = str_nat n \<longleftrightarrow> m = n"
  by (auto simp: str_nat_def dest: digits_rev_inj)

definition numbered_name :: "string \<Rightarrow> nat \<Rightarrow> string" where
  "numbered_name base n = base @ ''_'' @ str_nat n"

text \<open>The numbers above \<open>n\<close> whose name is taken are finitely many, so the search ends.\<close>

definition taken_above :: "string list \<Rightarrow> string \<Rightarrow> nat \<Rightarrow> nat set" where
  "taken_above used base n = {k. n < k \<and> numbered_name base k \<in> set used}"

lemma finite_taken_above: "finite (taken_above used base n)"
proof (rule finite_imageD)
  show "finite (numbered_name base ` taken_above used base n)"
    by (rule finite_subset[of _ "set used"]) (auto simp: taken_above_def)
  show "inj_on (numbered_name base) (taken_above used base n)"
    by (auto simp: inj_on_def numbered_name_def str_nat_inj)
qed

function fresh_name :: "string list \<Rightarrow> string \<Rightarrow> nat \<Rightarrow> string" where
  "fresh_name used base n =
     (if numbered_name base (Suc n) \<in> set used then fresh_name used base (Suc n)
      else numbered_name base (Suc n))"
  by pat_completeness auto
termination
proof (relation "measure (\<lambda>(used, base, n). card (taken_above used base n))")
  fix used base n
  assume "numbered_name base (Suc n) \<in> set used"
  then have "taken_above used base (Suc n) \<subset> taken_above used base n"
    by (auto simp: taken_above_def)
  from psubset_card_mono[OF finite_taken_above this]
  show "((used, base, Suc n), used, base, n) \<in> measure (\<lambda>(used, base, n). card (taken_above used base n))"
    by simp
qed simp

declare fresh_name.simps [simp del]

lemma fresh_name_fresh: "fresh_name used base n \<notin> set used"
  by (induction used base n rule: fresh_name.induct) (subst fresh_name.simps, auto)

section \<open>The bundler\<close>

record bundler =
  bu_document :: json
  bu_is_30 :: bool
  bu_names :: "(string, string) dict"
  bu_pending :: "(string \<times> string) list"
  bu_defs :: jdict

definition new_bundler :: "json \<Rightarrow> dialect \<Rightarrow> bundler" where
  "new_bundler document dia =
     \<lparr>bu_document = document, bu_is_30 = (dia = D30), bu_names = [], bu_pending = [], bu_defs = []\<rparr>"

definition COMPONENT_SCHEMA :: string where "COMPONENT_SCHEMA = ''#/components/schemas/''"

definition base_name :: "string \<Rightarrow> string" where
  "base_name ref =
     (let tail = drop (length COMPONENT_SCHEMA) ref;
          raw = (if startswith ref COMPONENT_SCHEMA \<and> CHR ''/'' \<notin> set tail then tail
                 else lstrip_if (\<lambda>c. c = CHR ''#'' \<or> c = CHR ''/'') ref);
          name = strip_underscores (safe_name raw)
      in if name \<noteq> [] then name else ''schema'')"

definition def_name :: "string \<Rightarrow> bundler \<Rightarrow> bundler \<times> string" where
  "def_name ref b =
     (case map_of (bu_names b) ref of
        Some name \<Rightarrow> (b, name)
      | None \<Rightarrow>
          (let base = base_name ref; used = map snd (bu_names b);
               name = (if base \<in> set used then fresh_name used base 1 else base)
           in (b\<lparr>bu_names := AList.update ref name (bu_names b),
                 bu_pending := bu_pending b @ [(name, ref)]\<rparr>, name)))"

section \<open>Conversion\<close>

definition OPENAPI_ONLY :: "string list" where
  "OPENAPI_ONLY = [''discriminator'', ''xml'', ''externalDocs'', ''nullable'', ''example'']"

definition ONE_SCHEMA :: "string list" where
  "ONE_SCHEMA =
     [''items'', ''additionalProperties'', ''not'', ''if'', ''then'', ''else'', ''contains'', ''propertyNames'',
      ''unevaluatedProperties'', ''unevaluatedItems'', ''additionalItems'']"

definition SCHEMA_MAPS :: "string list" where
  "SCHEMA_MAPS = [''properties'', ''patternProperties'', ''dependentSchemas'', ''$defs'']"

definition SCHEMA_LISTS :: "string list" where
  "SCHEMA_LISTS = [''allOf'', ''anyOf'', ''oneOf'', ''prefixItems'']"

text \<open>A boolean \<open>exclusiveMinimum\<close> or \<open>exclusiveMaximum\<close>.\<close>

definition exclusive_bound :: "jdict \<Rightarrow> string \<Rightarrow> string \<Rightarrow> jdict \<Rightarrow> jdict" where
  "exclusive_bound schema exclusive bound out =
     (case jget schema exclusive of
        JBool b \<Rightarrow>
          (let out1 = AList.delete exclusive out
           in if b \<and> has_key schema bound
              then AList.delete bound (AList.update exclusive (jget schema bound) out1) else out1)
      | _ \<Rightarrow> out)"

definition convert_30_keywords :: "jdict \<Rightarrow> jdict \<Rightarrow> jdict" where
  "convert_30_keywords schema out =
     (let out1 = exclusive_bound schema ''exclusiveMaximum'' ''maximum''
                   (exclusive_bound schema ''exclusiveMinimum'' ''minimum'' out)
      in if jget schema ''nullable'' \<noteq> JBool True then out1
         else case jget out1 ''type'' of
           JStr kind \<Rightarrow>
             (let out2 = AList.update ''type'' (JList [JStr kind, JStr ''null'']) out1
              in case jget out2 ''enum'' of
                   JList vs \<Rightarrow> if JNull \<in> set vs then out2
                               else AList.update ''enum'' (JList (vs @ [JNull])) out2
                 | _ \<Rightarrow> out2)
         | JNull \<Rightarrow> [(''anyOf'', JList [JObj out1, JObj [(''type'', JStr ''null'')]])]
         | _ \<Rightarrow> out1)"

text \<open>The end of \<open>_convert_keywords\<close>: the example, and the rewriting of 3.0 keywords.\<close>

definition finish_keywords :: "bool \<Rightarrow> jdict \<Rightarrow> jdict \<Rightarrow> jdict" where
  "finish_keywords is_30 schema out =
     (let out1 = (if has_key schema ''example'' \<and> \<not> has_key out ''examples''
                  then AList.update ''examples'' (JList [jget schema ''example'']) out else out)
      in if is_30 then convert_30_keywords schema out1 else out1)"

fun convert :: "json \<Rightarrow> bundler \<Rightarrow> bundler \<times> json"
  and convert_items :: "string list \<Rightarrow> (string \<times> json) list \<Rightarrow> bundler \<Rightarrow> bundler \<times> jdict"
  and convert_map :: "(string \<times> json) list \<Rightarrow> bundler \<Rightarrow> bundler \<times> jdict"
  and convert_list :: "json list \<Rightarrow> bundler \<Rightarrow> bundler \<times> json list" where
  "convert (JObj d) b =
     (case jget d ''$ref'' of
        JStr ref \<Rightarrow>
          (let (b1, name) = def_name ref b;
               new = [(''$ref'', JStr (''#/$defs/'' @ name))]
           in if bu_is_30 b then (b1, JObj new)
              else let (b2, out) = convert_items [''$ref''] d b1
                   in (b2, JObj (dict_merge new (finish_keywords (bu_is_30 b) d out))))
      | _ \<Rightarrow> (let (b1, out) = convert_items [] d b in (b1, JObj (finish_keywords (bu_is_30 b) d out))))"
| "convert v b = (b, v)"
| "convert_items skip [] b = (b, [])"
| "convert_items skip ((k, v) # d) b =
     (if k \<in> set skip \<or> k \<in> set OPENAPI_ONLY \<or> startswith k ''x-'' then convert_items skip d b
      else
        let (b1, w) =
              (if k \<in> set ONE_SCHEMA then convert v b
               else if k \<in> set SCHEMA_MAPS
               then (case v of JObj m \<Rightarrow> (let (b', m') = convert_map m b in (b', JObj m')) | _ \<Rightarrow> (b, v))
               else if k \<in> set SCHEMA_LISTS
               then (case v of JList xs \<Rightarrow> (let (b', xs') = convert_list xs b in (b', JList xs')) | _ \<Rightarrow> (b, v))
               else (b, v));
            (b2, out) = convert_items skip d b1
        in (b2, (k, w) # out))"
| "convert_map [] b = (b, [])"
| "convert_map ((name, v) # d) b =
     (let (b1, w) = convert v b; (b2, out) = convert_map d b1 in (b2, (name, w) # out))"
| "convert_list [] b = (b, [])"
| "convert_list (v # vs) b =
     (let (b1, w) = convert v b; (b2, out) = convert_list vs b1 in (b2, w # out))"

text \<open>The loop of \<open>finish\<close>.\<close>

definition bundle_one :: "string \<Rightarrow> json \<Rightarrow> bundler \<Rightarrow> bundler" where
  "bundle_one name v b = (let (b1, w) = convert v b in b1\<lparr>bu_defs := AList.update name w (bu_defs b1)\<rparr>)"

partial_function (option) bundle_pending :: "(string \<Rightarrow> string) \<Rightarrow> bundler \<Rightarrow> bundler run" where
  "bundle_pending unquote b =
     (if bu_pending b = [] then ret b
      else
        let (name, ref) = last (bu_pending b)
        in case resolve_local unquote (bu_document b) ref of
             Inl e \<Rightarrow> Some (Inl e)
           | Inr v \<Rightarrow> bundle_pending unquote (bundle_one name v (b\<lparr>bu_pending := butlast (bu_pending b)\<rparr>)))"

declare bundle_pending.simps [code]

definition finish :: "(string \<Rightarrow> string) \<Rightarrow> jdict \<Rightarrow> bundler \<Rightarrow> jdict run" where
  "finish unquote schema b =
     bind_run (bundle_pending unquote b)
       (\<lambda>b'. ret (if bu_defs b' \<noteq> [] then AList.update ''$defs'' (JObj (bu_defs b')) schema else schema))"

section \<open>What converting adds\<close>

text \<open>\<open>b'\<close> is \<open>b\<close> with the new references \<open>new\<close>, named and waiting; each is one that \<open>R\<close> allows.\<close>

definition extends :: "(string \<Rightarrow> bool) \<Rightarrow> bundler \<Rightarrow> bundler \<Rightarrow> bool" where
  "extends R b b' \<longleftrightarrow>
     (\<exists>new. bu_names b' = bu_names b @ map (\<lambda>(n, r). (r, n)) new \<and> bu_pending b' = bu_pending b @ new \<and>
            (\<forall>(n, r) \<in> set new. R r)) \<and>
     bu_document b' = bu_document b \<and> bu_is_30 b' = bu_is_30 b \<and> bu_defs b' = bu_defs b"

definition named_once :: "bundler \<Rightarrow> bool" where
  "named_once b \<longleftrightarrow> distinct (map fst (bu_names b)) \<and> distinct (map snd (bu_names b))"

definition grows :: "(string \<Rightarrow> bool) \<Rightarrow> bundler \<Rightarrow> bundler \<Rightarrow> bool" where
  "grows R b b' \<longleftrightarrow> extends R b b' \<and> (named_once b \<longrightarrow> named_once b')"

lemma grows_refl [simp]: "grows R b b"
  by (auto simp: grows_def extends_def)

lemma extends_trans: "extends R b b1 \<Longrightarrow> extends R b1 b2 \<Longrightarrow> extends R b b2"
  unfolding extends_def by (elim conjE exE) (intro conjI exI[of _ "_ @ _"], auto)

lemma grows_trans: "grows R b b1 \<Longrightarrow> grows R b1 b2 \<Longrightarrow> grows R b b2"
  unfolding grows_def using extends_trans by blast

lemma grows_mono: "grows R b b1 \<Longrightarrow> (\<And>r. R r \<Longrightarrow> S r) \<Longrightarrow> grows S b b1"
  unfolding grows_def extends_def by blast

lemma def_name_grows: "def_name ref b = (b', name) \<Longrightarrow> R ref \<Longrightarrow> grows R b b'"
proof (cases "map_of (bu_names b) ref")
  case None
  assume run: "def_name ref b = (b', name)" "R ref"
  have new: "ref \<notin> fst ` set (bu_names b)" using None by (simp add: map_of_eq_None_iff)
  have b': "b' = b\<lparr>bu_names := bu_names b @ [(ref, name)], bu_pending := bu_pending b @ [(name, ref)]\<rparr>"
    using run(1) None new by (auto simp: def_name_def Let_def update_new)
  have "name \<notin> set (map snd (bu_names b))"
    using run(1) None fresh_name_fresh[of "map snd (bu_names b)" "base_name ref" 1]
    by (auto simp: def_name_def Let_def split: if_splits)
  then show ?thesis using new run(2) by (auto simp: grows_def extends_def named_once_def b')
qed (simp add: def_name_def)

lemma def_name_named: "def_name ref b = (b', name) \<Longrightarrow> (ref, name) \<in> set (bu_names b')"
  by (auto simp: def_name_def Let_def map_of_SomeD update_conv' split: option.splits if_splits
      dest: map_of_SomeD intro: map_of_SomeD)

definition grows_on :: "json \<Rightarrow> bool" where
  "grows_on v \<longleftrightarrow>
     (\<forall>b. grows (\<lambda>r. site_of r v) b (fst (convert v b))) \<and>
     (case v of
        JObj m \<Rightarrow> (\<forall>b. grows (\<lambda>r. site_of r v) b (fst (convert_map m b)))
      | JList xs \<Rightarrow> (\<forall>b. grows (\<lambda>r. site_of r v) b (fst (convert_list xs b)))
      | _ \<Rightarrow> True)"

lemma grows_step:
  assumes "grows R b b1" "grows S b1 b2" "\<And>r. R r \<Longrightarrow> T r" "\<And>r. S r \<Longrightarrow> T r"
  shows "grows T b b2"
  by (rule grows_trans[OF grows_mono[OF assms(1,3)] grows_mono[OF assms(2,4)]])

lemma convert_map_grows:
  "\<forall>(k, v) \<in> set m. grows_on v \<Longrightarrow> grows (\<lambda>r. \<exists>(k, v) \<in> set m. site_of r v) b (fst (convert_map m b))"
proof (induction m arbitrary: b)
  case (Cons kv m)
  obtain k v where kv: "kv = (k, v)" by fastforce
  obtain b1 w where c: "convert v b = (b1, w)" by fastforce
  obtain b2 out where m: "convert_map m b1 = (b2, out)" by fastforce
  have "grows (\<lambda>r. site_of r v) b b1"
    using Cons.prems kv c by (auto simp: grows_on_def) (metis fst_conv)
  moreover have "grows (\<lambda>r. \<exists>(k, v) \<in> set m. site_of r v) b1 b2" using Cons.IH[of b1] Cons.prems m by simp
  ultimately have "grows (\<lambda>r. \<exists>(k, v) \<in> set (kv # m). site_of r v) b b2"
    by (rule grows_step) (auto simp: kv)
  then show ?case by (simp add: kv c m)
qed simp

lemma convert_list_grows:
  "\<forall>v \<in> set vs. grows_on v \<Longrightarrow> grows (\<lambda>r. \<exists>v \<in> set vs. site_of r v) b (fst (convert_list vs b))"
proof (induction vs arbitrary: b)
  case (Cons v vs)
  obtain b1 w where c: "convert v b = (b1, w)" by fastforce
  obtain b2 out where m: "convert_list vs b1 = (b2, out)" by fastforce
  have "grows (\<lambda>r. site_of r v) b b1" using Cons.prems c by (auto simp: grows_on_def) (metis fst_conv)
  moreover have "grows (\<lambda>r. \<exists>v \<in> set vs. site_of r v) b1 b2" using Cons.IH[of b1] Cons.prems m by simp
  ultimately have "grows (\<lambda>r. \<exists>v \<in> set (v # vs). site_of r v) b b2"
    by (rule grows_step) auto
  then show ?case by (simp add: c m)
qed simp

lemma convert_items_grows:
  "\<forall>(k, v) \<in> set d. grows_on v \<Longrightarrow> grows (\<lambda>r. \<exists>(k, v) \<in> set d. site_of r v) b (fst (convert_items skip d b))"
proof (induction d arbitrary: b)
  case (Cons kv d)
  obtain k v where kv: "kv = (k, v)" by fastforce
  have v: "grows_on v" using Cons.prems kv by auto
  show ?case
  proof (cases "k \<in> set skip \<or> k \<in> set OPENAPI_ONLY \<or> startswith k ''x-''")
    case True
    have "grows (\<lambda>r. \<exists>(k, v) \<in> set (kv # d). site_of r v) b (fst (convert_items skip d b))"
      by (rule grows_mono[OF Cons.IH]) (use Cons.prems in auto)
    then show ?thesis using True kv by simp
  next
    case False
    let ?w = "if k \<in> set ONE_SCHEMA then convert v b
               else if k \<in> set SCHEMA_MAPS
               then (case v of JObj m \<Rightarrow> (let (b', m') = convert_map m b in (b', JObj m')) | _ \<Rightarrow> (b, v))
               else if k \<in> set SCHEMA_LISTS
               then (case v of JList xs \<Rightarrow> (let (b', xs') = convert_list xs b in (b', JList xs')) | _ \<Rightarrow> (b, v))
               else (b, v)"
    obtain b1 w where c: "?w = (b1, w)" by fastforce
    obtain b2 out where m: "convert_items skip d b1 = (b2, out)" by fastforce
    have "grows (\<lambda>r. site_of r v) b (fst ?w)"
      using v by (auto simp: grows_on_def case_prod_beta Let_def split: json.splits)
    then have "grows (\<lambda>r. site_of r v) b b1" using c by simp
    moreover have "grows (\<lambda>r. \<exists>(k, v) \<in> set d. site_of r v) b1 b2" using Cons.IH[of b1] Cons.prems m by simp
    ultimately have "grows (\<lambda>r. \<exists>(k, v) \<in> set (kv # d). site_of r v) b b2"
      by (rule grows_step) (auto simp: kv)
    moreover have "fst (convert_items skip (kv # d) b) = b2"
      using False unfolding kv convert_items.simps c by (simp add: m)
    ultimately show ?thesis by simp
  qed
qed simp

lemma site_of_member: "\<exists>(k, v) \<in> set d. site_of r v \<Longrightarrow> site_of r (JObj d)"
  by (auto simp: site_of_def intro: part_obj)

lemma convert_obj_grows:
  assumes "\<forall>(k, v) \<in> set d. grows_on v"
  shows "grows (\<lambda>r. site_of r (JObj d)) b (fst (convert (JObj d) b))"
proof (cases "\<exists>ref. jget d ''$ref'' = JStr ref")
  case True
  then obtain ref where ref: "jget d ''$ref'' = JStr ref" by blast
  obtain b1 name where dn: "def_name ref b = (b1, name)" by fastforce
  have "site_of ref (JObj d)" using ref part_self by (auto simp: site_of_def)
  from def_name_grows[where R = "\<lambda>r. site_of r (JObj d)", OF dn this]
  have g: "grows (\<lambda>r. site_of r (JObj d)) b b1" .
  have "grows (\<lambda>r. site_of r (JObj d)) b (fst (convert_items [''$ref''] d b1))"
    by (rule grows_step[OF g convert_items_grows[OF assms]]) (simp_all add: site_of_member)
  then show ?thesis using g ref dn by (simp add: Let_def case_prod_beta)
next
  case False
  have "grows (\<lambda>r. site_of r (JObj d)) b (fst (convert_items [] d b))"
    by (rule grows_mono[OF convert_items_grows[OF assms]]) (rule site_of_member)
  moreover have "fst (convert (JObj d) b) = fst (convert_items [] d b)"
    using False by (simp add: case_prod_beta split: json.splits)
  ultimately show ?thesis by simp
qed

lemma convert_grows_on: "grows_on v"
proof (induction v)
  case (JList xs)
  have "grows (\<lambda>r. site_of r (JList xs)) b (fst (convert_list xs b))" for b
    by (rule grows_mono[OF convert_list_grows]) (use JList in \<open>auto simp: site_of_def intro: part_list\<close>)
  then show ?case by (simp add: grows_on_def)
next
  case (JObj d)
  then have d: "\<forall>(k, v) \<in> set d. grows_on v" by fastforce
  have "grows (\<lambda>r. site_of r (JObj d)) b (fst (convert_map d b))" for b
    by (rule grows_mono[OF convert_map_grows[OF d]]) (rule site_of_member)
  then show ?case using convert_obj_grows[OF d] unfolding grows_on_def by (simp del: convert.simps)
qed (simp_all add: grows_on_def)

lemma convert_grows: "convert v b = (b', w) \<Longrightarrow> grows (\<lambda>r. site_of r v) b b'"
  using convert_grows_on[of v] unfolding grows_on_def by (metis fst_conv)

section \<open>Bundling ends, and leaves no name undefined\<close>

text \<open>Every name but those of \<open>X\<close>, which are being converted, is waiting or defined.\<close>

definition bundle_ok :: "string set \<Rightarrow> bundler \<Rightarrow> bool" where
  "bundle_ok X b \<longleftrightarrow>
     named_once b \<and>
     (\<forall>(r, n) \<in> set (bu_names b). site_of r (bu_document b) \<and>
        (n \<in> X \<or> (n, r) \<in> set (bu_pending b) \<or> has_key (bu_defs b) n)) \<and>
     (\<forall>(n, r) \<in> set (bu_pending b). (r, n) \<in> set (bu_names b))"

definition unnamed :: "bundler \<Rightarrow> string set" where
  "unnamed b = {r. site_of r (bu_document b) \<and> r \<notin> fst ` set (bu_names b)}"

lemma new_bundler_ok [simp]: "bundle_ok {} (new_bundler document dia)" "bu_document (new_bundler document dia) = document"
  by (simp_all add: bundle_ok_def new_bundler_def named_once_def)

lemma finite_sites:
  assumes "check_refs unquote document = Inr ()"
  shows "finite {r. site_of r document}"
proof -
  obtain sites where sites: "collect_ref_sites document = Inr sites"
    using check_refs_accepts[OF assms] by metis
  have "{r. site_of r document} \<subseteq> snd ` set sites"
    using collect_sites_complete[OF sites[unfolded collect_ref_sites_def]] by auto
  then show ?thesis using finite_subset by blast
qed

lemma resolve_local_checked:
  assumes "check_refs unquote document = Inr ()" "site_of r document"
  shows "\<exists>v. resolve_local unquote document r = Inr v \<and> part_of v document"
proof -
  from check_refs_accepts[OF assms(1)] obtain sites targets where
    "collect_ref_sites document = Inr sites" "gather_targets unquote document sites [] = Inr targets" by metis
  from site_target[OF this assms(2)] obtain p d where
    "decode_pointer (unquote (drop 1 r)) = Inr p" "walk document p = Inr (Some (JObj d))" by blast
  then show ?thesis using walk_follow walk_part by (auto simp: resolve_local_def)
qed

lemma convert_ok:
  assumes run: "convert v b = (b', w)" and ok: "bundle_ok X b" and part: "part_of v (bu_document b)"
  shows "bundle_ok X b'" "bu_document b' = bu_document b" "bu_defs b' = bu_defs b"
    "set (bu_names b) \<subseteq> set (bu_names b')" "set (bu_pending b) \<subseteq> set (bu_pending b')"
    "finite (unnamed b) \<Longrightarrow>
       card (unnamed b') + length (bu_pending b') = card (unnamed b) + length (bu_pending b)"
proof -
  from convert_grows[OF run] obtain new where new:
    "bu_names b' = bu_names b @ map (\<lambda>(n, r). (r, n)) new" "bu_pending b' = bu_pending b @ new"
    "\<forall>(n, r) \<in> set new. site_of r v" "bu_document b' = bu_document b" "bu_defs b' = bu_defs b"
    "named_once b \<longrightarrow> named_once b'"
    unfolding grows_def extends_def by blast
  have up: "site_of r (bu_document b)" if "site_of r v" for r
    using that part part_of_trans by (auto simp: site_of_def)
  have once: "named_once b'" using new(6) ok by (simp add: bundle_ok_def)
  have "site_of r (bu_document b) \<and> (n \<in> X \<or> (n, r) \<in> set (bu_pending b') \<or> has_key (bu_defs b) n)"
    if "(r, n) \<in> set (bu_names b')" for r n
  proof -
    from that new(1) consider "(r, n) \<in> set (bu_names b)" | "(n, r) \<in> set new" by auto
    then show ?thesis
    proof cases
      case 1
      then show ?thesis using ok new(2) unfolding bundle_ok_def by auto
    next
      case 2
      then have "site_of r v" using new(3) by blast
      then show ?thesis using up 2 new(2) by simp
    qed
  qed
  moreover have "(r, n) \<in> set (bu_names b')" if "(n, r) \<in> set (bu_pending b')" for r n
    using that ok new(1,2) unfolding bundle_ok_def by auto
  ultimately show "bundle_ok X b'" using once unfolding bundle_ok_def new(4,5) by blast
  show "bu_document b' = bu_document b" "bu_defs b' = bu_defs b"
    "set (bu_names b) \<subseteq> set (bu_names b')" "set (bu_pending b) \<subseteq> set (bu_pending b')"
    using new by auto
  have refs: "map fst (bu_names b') = map fst (bu_names b) @ map snd new"
    by (simp add: new(1) case_prod_beta comp_def)
  then have dis: "distinct (map snd new)" "set (map snd new) \<inter> fst ` set (bu_names b) = {}"
    using once by (auto simp: named_once_def)
  have "unnamed b' = unnamed b - set (map snd new)"
    using arg_cong[OF refs, of set] by (auto simp: unnamed_def new(4))
  moreover have "set (map snd new) \<subseteq> unnamed b"
  proof
    fix r assume r: "r \<in> set (map snd new)"
    then obtain n where "(n, r) \<in> set new" by auto
    then have "site_of r v" using new(3) by blast
    then show "r \<in> unnamed b" using r dis(2) up[of r] by (simp add: unnamed_def disjoint_iff)
  qed
  moreover assume "finite (unnamed b)"
  ultimately have "card (unnamed b') + card (set (map snd new)) = card (unnamed b)"
    by (simp add: card_Diff_subset card_mono)
  then show "card (unnamed b') + length (bu_pending b') = card (unnamed b) + length (bu_pending b)"
    using distinct_card[OF dis(1)] new(2) by simp
qed

lemma bundle_one_ok:
  assumes ok: "bundle_ok {} b" and pend: "bu_pending b = ps @ [(name, ref)]"
    and part: "part_of v (bu_document b)" and fin: "finite (unnamed b)"
    and b': "b' = bundle_one name v (b\<lparr>bu_pending := ps\<rparr>)"
  shows "bundle_ok {} b' \<and> bu_document b' = bu_document b \<and> set (bu_names b) \<subseteq> set (bu_names b') \<and>
    card (unnamed b') + length (bu_pending b') < card (unnamed b) + length (bu_pending b)"
proof -
  let ?b = "b\<lparr>bu_pending := ps\<rparr>"
  obtain b1 w where run: "convert v ?b = (b1, w)" by fastforce
  have once: "n = name" if "(r, n) \<in> set (bu_names b)" "r = ref" for r n
    using that ok pend unfolding bundle_ok_def named_once_def
    by (metis (no_types, lifting) case_prodD eq_key_imp_eq_value in_set_conv_decomp)
  then have "bundle_ok {name} ?b" using ok pend unfolding bundle_ok_def named_once_def by fastforce
  moreover have "part_of v (bu_document ?b)" "unnamed ?b = unnamed b" using part by (simp_all add: unnamed_def)
  ultimately have c: "bundle_ok {name} b1" "bu_document b1 = bu_document b" "bu_defs b1 = bu_defs b"
      "set (bu_names b) \<subseteq> set (bu_names b1)"
      "card (unnamed b1) + length (bu_pending b1) = card (unnamed b) + length ps"
    using convert_ok[OF run, of "{name}"] fin by auto
  have b1: "b' = b1\<lparr>bu_defs := AList.update name w (bu_defs b1)\<rparr>"
    using b' run by (simp add: bundle_one_def)
  have "bundle_ok {} b'"
    using c(1) unfolding b1 bundle_ok_def named_once_def by (auto simp: has_key_update)
  moreover have "unnamed b' = unnamed b1" by (simp add: b1 unnamed_def)
  ultimately show ?thesis using c pend by (simp add: b1)
qed

lemma bundle_pending_returns:
  assumes checked: "check_refs unquote (bu_document b) = Inr ()" and "bundle_ok {} b"
  shows "\<exists>b'. bundle_pending unquote b = ret b' \<and> set (bu_names b) \<subseteq> set (bu_names b') \<and>
              (\<forall>(r, n) \<in> set (bu_names b'). has_key (bu_defs b') n)"
  using assms
proof (induction "card (unnamed b) + length (bu_pending b)" arbitrary: b rule: less_induct)
  case less
  show ?case
  proof (cases "bu_pending b" rule: rev_cases)
    case Nil
    then have "bundle_pending unquote b = ret b" by (subst bundle_pending.simps) simp
    then show ?thesis using less.prems(2) Nil by (auto simp: bundle_ok_def)
  next
    case (snoc ps nr)
    obtain name ref where nr: "nr = (name, ref)" by fastforce
    have "site_of ref (bu_document b)" using less.prems(2) snoc nr unfolding bundle_ok_def by auto
    from resolve_local_checked[OF less.prems(1) this] obtain v where
      v: "resolve_local unquote (bu_document b) ref = Inr v" "part_of v (bu_document b)" by blast
    let ?b = "bundle_one name v (b\<lparr>bu_pending := ps\<rparr>)"
    have "bundle_pending unquote b = bundle_pending unquote ?b"
      by (subst bundle_pending.simps) (simp add: snoc nr v(1))
    moreover have "finite (unnamed b)"
      using finite_sites[OF less.prems(1)] by (rule rev_finite_subset) (auto simp: unnamed_def)
    from bundle_one_ok[OF less.prems(2) snoc[unfolded nr] v(2) this refl]
    have "bundle_ok {} ?b" "bu_document ?b = bu_document b" "set (bu_names b) \<subseteq> set (bu_names ?b)"
      "card (unnamed ?b) + length (bu_pending ?b) < card (unnamed b) + length (bu_pending b)" by auto
    ultimately show ?thesis using less.hyps[of ?b] less.prems(1) by auto
  qed
qed

end
