(* ===== verification/Swagger2.thy ===== *)
theory Swagger2
  imports Py_Object
begin

text \<open>
  \<^verbatim>\<open>openapi/swagger2.py\<close>: a Swagger 2.0 document in the OpenAPI 3.0 shape. The input has passed the
  loader's validation; of a document that has not, the model says that an exception is raised where
  the code raises one, not of which class. \<open>fr\<close> is the text of a float and \<open>unquote\<close> that of
  \<^verbatim>\<open>urllib.parse\<close>. Copies share nothing in the model, so \<open>copy.deepcopy\<close> leaves no trace.
\<close>

section \<open>Vocabulary\<close>

definition UNSUPPORTED :: string where "UNSUPPORTED = ''x-mcp-hub-unsupported''"
definition OPENAPI_VERSION :: string where "OPENAPI_VERSION = ''3.0.3''"

definition METHODS_20 :: "string list" where
  "METHODS_20 = [''get'', ''put'', ''post'', ''delete'', ''options'', ''head'', ''patch'']"

definition MEDIA_JSON :: string where "MEDIA_JSON = ''application/json''"
definition MEDIA_FORM :: string where "MEDIA_FORM = ''application/x-www-form-urlencoded''"
definition MEDIA_MULTIPART :: string where "MEDIA_MULTIPART = ''multipart/form-data''"

definition VALUE_KEYWORDS :: "string list" where
  "VALUE_KEYWORDS =
     [''type'', ''format'', ''default'', ''maximum'', ''exclusiveMaximum'', ''minimum'', ''exclusiveMinimum'',
      ''maxLength'', ''minLength'', ''pattern'', ''maxItems'', ''minItems'', ''uniqueItems'', ''enum'', ''multipleOf'']"

definition PARAMETER_FIELDS :: "string list" where
  "PARAMETER_FIELDS = [''name'', ''in'', ''description'', ''required'', ''allowEmptyValue'']"

definition OPERATION_FIELDS_DROPPED :: "string list" where
  "OPERATION_FIELDS_DROPPED = [''parameters'', ''responses'', ''consumes'', ''produces'', ''schemes'']"

definition STYLES :: "((string \<times> string) \<times> string \<times> bool) list" where
  "STYLES =
     [((''csv'', ''query''), ''form'', False), ((''csv'', ''path''), ''simple'', False),
      ((''csv'', ''header''), ''simple'', False), ((''csv'', ''formData''), ''form'', False),
      ((''multi'', ''query''), ''form'', True), ((''multi'', ''formData''), ''form'', True),
      ((''ssv'', ''query''), ''spaceDelimited'', False), ((''ssv'', ''formData''), ''spaceDelimited'', False),
      ((''pipes'', ''query''), ''pipeDelimited'', False), ((''pipes'', ''formData''), ''pipeDelimited'', False)]"

definition OAUTH2_FLOWS :: "(string \<times> string \<times> string list) list" where
  "OAUTH2_FLOWS =
     [(''implicit'', ''implicit'', [''authorizationUrl'']), (''password'', ''password'', [''tokenUrl'']),
      (''application'', ''clientCredentials'', [''tokenUrl'']),
      (''accessCode'', ''authorizationCode'', [''authorizationUrl'', ''tokenUrl''])]"

definition quoted :: "string \<Rightarrow> string" where
  "quoted s = [CHR 0x27] @ s @ [CHR 0x27]"

definition as_obj :: "json \<Rightarrow> jdict py" where
  "as_obj v = py_items v"

definition as_text :: "json \<Rightarrow> string py" where
  "as_text v = (case v of JStr s \<Rightarrow> Inr s | _ \<Rightarrow> Inl (TypeError ''expected text''))"

definition as_list :: "json \<Rightarrow> json list py" where
  "as_list v = py_iter v"

definition extensions :: "jdict \<Rightarrow> jdict" where
  "extensions d = filter (\<lambda>(k, v). startswith k ''x-'') d"

definition item_of :: "jdict \<Rightarrow> string \<Rightarrow> json py" where
  "item_of d k = py_item (JObj d) k"

record context20 =
  cx_document :: jdict
  cx_consumes :: "string list"
  cx_produces :: "string list"

definition media_list :: "jdict \<Rightarrow> string \<Rightarrow> string list py" where
  "media_list d k = bind_py (as_list (jget_or d k (JList []))) (map_py as_text)"

definition cx_resolve :: "(string \<Rightarrow> string) \<Rightarrow> context20 \<Rightarrow> json \<Rightarrow> json py" where
  "cx_resolve unquote ctx ref =
     bind_py (as_text ref) (resolve_local unquote (JObj (cx_document ctx)))"

definition cx_parameter :: "(string \<Rightarrow> string) \<Rightarrow> context20 \<Rightarrow> json \<Rightarrow> jdict py" where
  "cx_parameter unquote ctx param =
     bind_py (as_obj param) (\<lambda>p.
       if has_key p ''$ref'' then bind_py (cx_resolve unquote ctx (jget p ''$ref'')) as_obj else Inr p)"

section \<open>Schemas\<close>

definition rewrite_ref :: "string \<Rightarrow> string" where
  "rewrite_ref ref =
     (if startswith ref ''#/definitions/''
      then ''#/components/schemas/'' @ drop (length ''#/definitions/'') ref
      else if startswith ref ''#/responses/''
      then ''#/components/responses/'' @ drop (length ''#/responses/'') ref else ref)"

definition binary_file :: "jdict \<Rightarrow> jdict" where
  "binary_file out = AList.update ''format'' (JStr ''binary'') (AList.update ''type'' (JStr ''string'') out)"

fun schema_3 :: "json \<Rightarrow> json"
  and schema_3_items :: "(string \<times> json) list \<Rightarrow> jdict \<Rightarrow> jdict"
  and schema_3_map :: "(string \<times> json) list \<Rightarrow> jdict"
  and schema_3_list :: "json list \<Rightarrow> json list" where
  "schema_3 (JObj d) =
     (let out = schema_3_items d [] in JObj (if jget out ''type'' = JStr ''file'' then binary_file out else out))"
| "schema_3 v = v"
| "schema_3_items [] out = out"
| "schema_3_items ((k, v) # d) out =
     schema_3_items d
       (if k = ''$ref'' \<and> is_str v
        then AList.update k (case v of JStr r \<Rightarrow> JStr (rewrite_ref r) | _ \<Rightarrow> v) out
        else if k = ''x-nullable'' then (if v = JBool True then AList.update ''nullable'' (JBool True) out else out)
        else if k = ''discriminator'' \<and> is_str v then AList.update k (JObj [(''propertyName'', v)]) out
        else if k = ''properties'' \<and> is_obj v
        then AList.update k (case v of JObj m \<Rightarrow> JObj (schema_3_map m) | _ \<Rightarrow> v) out
        else if k \<in> {''items'', ''additionalProperties''} then AList.update k (schema_3 v) out
        else if k = ''allOf'' \<and> is_list v
        then AList.update k (case v of JList xs \<Rightarrow> JList (schema_3_list xs) | _ \<Rightarrow> v) out
        else AList.update k v out)"
| "schema_3_map [] = []"
| "schema_3_map ((k, v) # d) = (k, schema_3 v) # schema_3_map d"
| "schema_3_list [] = []"
| "schema_3_list (v # vs) = schema_3 v # schema_3_list vs"

text \<open>The schema of a parameter, items or header object; the reason is that of its own level.\<close>

function value_schema :: "jdict \<Rightarrow> jdict" where
  "value_schema obj =
     (let s1 = pick VALUE_KEYWORDS obj;
          s2 = (if jget obj ''type'' = JStr ''file'' then binary_file s1 else s1)
      in case jget obj ''items'' of
           JObj items \<Rightarrow> AList.update ''items'' (JObj (value_schema items)) s2
         | _ \<Rightarrow> s2)"
  by pat_completeness auto

lemma jget_size: "jget d k = JObj e \<Longrightarrow> jsize_items e < jsize_items d"
  by (induction d) (auto simp: jget_def split: if_splits)

termination value_schema
  by (relation "measure jsize_items") (auto dest: jget_size)

declare value_schema.simps [simp del]

definition value_reasons :: "jdict \<Rightarrow> string \<Rightarrow> string list" where
  "value_reasons obj place =
     (case jget obj ''items'' of
        JObj items \<Rightarrow>
          if jget items ''type'' = JStr ''array''
          then [place @ '' is a nested array (an array of arrays), which is not supported''] else []
      | _ \<Rightarrow> [])"

definition header_3 :: "json \<Rightarrow> json py" where
  "header_3 header =
     bind_py (as_obj header) (\<lambda>h.
       Inr (JObj (dict_merge (AList.update ''schema'' (JObj (value_schema h)) (pick [''description''] h))
                    (extensions h))))"

section \<open>Parameters and bodies\<close>

definition style_of :: "jdict \<Rightarrow> (string \<times> bool) option py" where
  "style_of param =
     bind_py (item_of param ''in'') (\<lambda>location.
       case (jget_or param ''collectionFormat'' (JStr ''csv''), location) of
         (JStr fmt, JStr l) \<Rightarrow> Inr (map_of STYLES (fmt, l))
       | _ \<Rightarrow> Inr None)"

definition style_reason :: "(rat \<Rightarrow> string) \<Rightarrow> jdict \<Rightarrow> string" where
  "style_reason fr param =
     ''parameter '' @ quoted (py_str fr (jget param ''name'')) @ '' uses collectionFormat ''
     @ quoted (py_str fr (jget_or param ''collectionFormat'' (JStr ''csv''))) @ '' in ''
     @ py_str fr (jget param ''in'') @ '', which has no OpenAPI 3 equivalent''"

definition parameter_3 :: "(rat \<Rightarrow> string) \<Rightarrow> jdict \<Rightarrow> (jdict \<times> string list) py" where
  "parameter_3 fr param =
     bind_py (item_of param ''name'') (\<lambda>name.
       let out = AList.update ''schema'' (JObj (value_schema param))
                   (dict_merge (pick PARAMETER_FIELDS param) (extensions param));
           reasons = value_reasons param (''parameter '' @ quoted (py_str fr name))
       in if jget param ''type'' \<noteq> JStr ''array'' then Inr (out, reasons)
          else bind_py (style_of param) (\<lambda>style.
            case style of
              None \<Rightarrow> Inr (out, reasons @ [style_reason fr param])
            | Some (s, e) \<Rightarrow>
                Inr (AList.update ''explode'' (JBool e) (AList.update ''style'' (JStr s) out), reasons)))"

definition body_3 :: "jdict \<Rightarrow> string list \<Rightarrow> jdict py" where
  "body_3 param consumes =
     bind_py (item_of param ''schema'') (\<lambda>s.
       let schema = schema_3 s;
           out1 = pick [''description''] param;
           out2 = (if truthy (jget param ''required'') then AList.update ''required'' (JBool True) out1 else out1);
           media = (if consumes \<noteq> [] then consumes else [MEDIA_JSON]);
           content = foldl (\<lambda>c m. AList.update m (JObj [(''schema'', schema)]) c) [] media
       in Inr (dict_merge (AList.update ''content'' (JObj content) out2) (extensions param)))"

record form_acc =
  fa_properties :: jdict
  fa_required :: "json list"
  fa_encoding :: jdict
  fa_reasons :: "string list"

definition form_field :: "(rat \<Rightarrow> string) \<Rightarrow> jdict \<Rightarrow> form_acc \<Rightarrow> form_acc py" where
  "form_field fr param acc =
     bind_py (item_of param ''name'') (\<lambda>nv. bind_py (as_text nv) (\<lambda>name.
       let place = ''formData parameter '' @ quoted name;
           s1 = value_schema param;
           schema = (if has_key param ''description''
                     then AList.update ''description'' (jget param ''description'') s1 else s1);
           acc1 = acc\<lparr>fa_reasons := fa_reasons acc @ value_reasons param place
                        @ (if jget param ''type'' = JStr ''file''
                           then [place @ '' is a file upload (type: file), which is not supported''] else []),
                      fa_properties := AList.update name (JObj schema) (fa_properties acc),
                      fa_required := fa_required acc
                        @ (if truthy (jget param ''required'') then [JStr name] else [])\<rparr>
       in if jget param ''type'' \<noteq> JStr ''array'' then Inr acc1
          else bind_py (style_of param) (\<lambda>style.
            case style of
              None \<Rightarrow> Inr (acc1\<lparr>fa_reasons := fa_reasons acc1 @ [style_reason fr param]\<rparr>)
            | Some (s, e) \<Rightarrow>
                Inr (acc1\<lparr>fa_encoding := AList.update name
                       (JObj [(''style'', JStr s), (''explode'', JBool e)]) (fa_encoding acc1)\<rparr>))))"

fun form_fields :: "(rat \<Rightarrow> string) \<Rightarrow> jdict list \<Rightarrow> form_acc \<Rightarrow> form_acc py" where
  "form_fields fr [] acc = Inr acc"
| "form_fields fr (p # ps) acc = bind_py (form_field fr p acc) (form_fields fr ps)"

definition form_body :: "(rat \<Rightarrow> string) \<Rightarrow> jdict list \<Rightarrow> string list \<Rightarrow> (jdict \<times> string list) py" where
  "form_body fr params consumes =
     bind_py (form_fields fr params \<lparr>fa_properties = [], fa_required = [], fa_encoding = [], fa_reasons = []\<rparr>)
       (\<lambda>acc.
          let media = (if MEDIA_MULTIPART \<in> set consumes \<and> MEDIA_FORM \<notin> set consumes
                       then MEDIA_MULTIPART else MEDIA_FORM);
              schema = [(''type'', JStr ''object''), (''properties'', JObj (fa_properties acc))]
                       @ (if fa_required acc \<noteq> [] then [(''required'', JList (fa_required acc))] else []);
              media_out = [(''schema'', JObj schema)]
                          @ (if fa_encoding acc \<noteq> [] then [(''encoding'', JObj (fa_encoding acc))] else [])
          in Inr ((if fa_required acc \<noteq> [] then [(''required'', JBool True)] else [])
                  @ [(''content'', JObj [(media, JObj media_out)])],
                  fa_reasons acc))"

section \<open>Responses\<close>

definition response_content :: "json \<Rightarrow> json \<Rightarrow> string list \<Rightarrow> jdict py" where
  "response_content schema examples produces =
     (let media = (if produces \<noteq> [] then produces else [MEDIA_JSON])
      in foldl (\<lambda>acc m. bind_py acc (\<lambda>c. bind_py (py_has examples m) (\<lambda>has.
             if has then bind_py (py_item examples m) (\<lambda>x.
                      Inr (AList.update m (JObj [(''schema'', schema_3 schema), (''example'', x)]) c))
             else Inr (AList.update m (JObj [(''schema'', schema_3 schema)]) c)))) (Inr []) media)"

definition response_3 :: "string list \<Rightarrow> json \<Rightarrow> json py" where
  "response_3 produces response =
     bind_py (as_obj response) (\<lambda>r.
       if has_key r ''$ref''
       then bind_py (as_text (jget r ''$ref'')) (\<lambda>ref. Inr (JObj [(''$ref'', JStr (rewrite_ref ref))]))
       else
         let out0 = [(''description'', jget_or r ''description'' (JStr []))]
         in bind_py (if has_key r ''headers''
                     then bind_py (as_obj (jget r ''headers'')) (\<lambda>hs.
                            bind_py (map_py (\<lambda>(n, h). bind_py (header_3 h) (\<lambda>x. Inr (n, x))) hs) (\<lambda>xs.
                              Inr (out0 @ [(''headers'', JObj xs)])))
                     else Inr out0) (\<lambda>out1.
            bind_py (if has_key r ''schema''
                     then bind_py (response_content (jget r ''schema'') (jget_or r ''examples'' (JObj [])) produces)
                            (\<lambda>c. Inr (out1 @ [(''content'', JObj c)]))
                     else Inr out1) (\<lambda>out2.
              Inr (JObj (dict_merge out2 (extensions r))))))"

section \<open>Operations\<close>

text \<open>\<open>merged\<close> with the position of each \<open>(name, in)\<close>.\<close>

definition param_key :: "jdict \<Rightarrow> (json \<times> json) py" where
  "param_key p = bind_py (item_of p ''name'') (\<lambda>n. bind_py (item_of p ''in'') (\<lambda>l. Inr (n, l)))"

definition merge_one ::
  "jdict list \<times> ((json \<times> json), nat) dict \<Rightarrow> jdict \<Rightarrow> (jdict list \<times> ((json \<times> json), nat) dict) py" where
  "merge_one acc param =
     bind_py (param_key param) (\<lambda>key.
       case map_of (snd acc) key of
         Some i \<Rightarrow> Inr ((fst acc)[i := param], snd acc)
       | None \<Rightarrow> Inr (fst acc @ [param], AList.update key (length (fst acc)) (snd acc)))"

definition merge_parameters :: "jdict list \<Rightarrow> jdict list \<Rightarrow> jdict list py" where
  "merge_parameters shared own =
     bind_py (map_py param_key shared) (\<lambda>ks.
       bind_py (foldl (\<lambda>acc p. bind_py acc (\<lambda>a. merge_one a p))
                  (Inr (shared, foldl (\<lambda>pos (i, k). AList.update k i pos) [] (enumerate 0 ks))) own)
         (\<lambda>a. Inr (fst a)))"

definition in_of :: "jdict \<Rightarrow> json" where
  "in_of p = jget p ''in''"

definition own_media :: "jdict \<Rightarrow> string \<Rightarrow> string list \<Rightarrow> string list py" where
  "own_media op k dflt = (if has_key op k then media_list op k else Inr dflt)"

definition both_bodies :: string where
  "both_bodies = ''operation has both a body parameter and formData parameters, ''
                 @ ''but a request has only one body''"

definition operation_body ::
  "(rat \<Rightarrow> string) \<Rightarrow> jdict list \<Rightarrow> string list \<Rightarrow> (jdict option \<times> string list) py" where
  "operation_body fr params consumes =
     (let body = filter (\<lambda>p. in_of p = JStr ''body'') params;
          form = filter (\<lambda>p. in_of p = JStr ''formData'') params;
          clash = (if body \<noteq> [] \<and> form \<noteq> [] then [both_bodies] else [])
      in if body \<noteq> [] then bind_py (body_3 (hd body) consumes) (\<lambda>b. Inr (Some b, clash))
         else if form \<noteq> [] then bind_py (form_body fr form consumes) (\<lambda>(b, rs). Inr (Some b, clash @ rs))
         else Inr (None, clash))"

definition operation_3 ::
  "(rat \<Rightarrow> string) \<Rightarrow> (string \<Rightarrow> string) \<Rightarrow> context20 \<Rightarrow> jdict list \<Rightarrow> json \<Rightarrow> json py" where
  "operation_3 fr unquote ctx shared operation =
     bind_py (as_obj operation) (\<lambda>op.
     bind_py (as_list (jget_or op ''parameters'' (JList []))) (\<lambda>own_json.
     bind_py (map_py (cx_parameter unquote ctx) own_json) (\<lambda>own.
     bind_py (merge_parameters shared own) (\<lambda>params.
     bind_py (own_media op ''consumes'' (cx_consumes ctx)) (\<lambda>consumes.
     bind_py (own_media op ''produces'' (cx_produces ctx)) (\<lambda>produces.
     bind_py (map_py (parameter_3 fr)
                (filter (\<lambda>p. in_of p \<notin> {JStr ''body'', JStr ''formData''}) params)) (\<lambda>regular.
     bind_py (operation_body fr params consumes) (\<lambda>(request_body, body_reasons).
     bind_py (bind_py (item_of op ''responses'') as_obj) (\<lambda>responses.
     bind_py (map_py (\<lambda>(code, r). if startswith code ''x-'' then Inr (code, r)
                                  else bind_py (response_3 produces r) (\<lambda>x. Inr (code, x))) responses) (\<lambda>rs.
       let reasons = concat (map snd regular) @ body_reasons;
           out0 = filter (\<lambda>(k, v). k \<notin> set OPERATION_FIELDS_DROPPED) op;
           out1 = (if regular \<noteq> []
                   then AList.update ''parameters'' (JList (map (\<lambda>(p, _). JObj p) regular)) out0 else out0);
           out2 = (case request_body of
                     Some b \<Rightarrow> AList.update ''requestBody'' (JObj b) out1 | None \<Rightarrow> out1);
           out3 = AList.update ''responses'' (JObj rs) out2
       in Inr (JObj (if reasons \<noteq> [] then AList.update UNSUPPORTED (JList (map JStr reasons)) out3
                     else out3))))))))))))"

definition path_item_3 ::
  "(rat \<Rightarrow> string) \<Rightarrow> (string \<Rightarrow> string) \<Rightarrow> context20 \<Rightarrow> json \<Rightarrow> json py" where
  "path_item_3 fr unquote ctx path_item =
     bind_py (as_obj path_item) (\<lambda>item0.
     bind_py (if has_key item0 ''$ref''
              then bind_py (cx_resolve unquote ctx (jget item0 ''$ref'')) as_obj else Inr item0) (\<lambda>item.
     bind_py (as_list (jget_or item ''parameters'' (JList []))) (\<lambda>shared_json.
     bind_py (map_py (cx_parameter unquote ctx) shared_json) (\<lambda>shared.
     bind_py (map_py (\<lambda>(k, v).
                if k \<in> set METHODS_20 then bind_py (operation_3 fr unquote ctx shared v) (\<lambda>x. Inr [(k, x)])
                else if startswith k ''x-'' then Inr [(k, v)] else Inr []) item) (\<lambda>parts.
       Inr (JObj (concat parts)))))))"

section \<open>The document\<close>

definition server_url :: "string \<Rightarrow> json" where
  "server_url u = JObj [(''url'', JStr u)]"

definition servers_3 :: "(rat \<Rightarrow> string) \<Rightarrow> jdict \<Rightarrow> json list py" where
  "servers_3 fr source =
     bind_py (py_text (jget_or source ''basePath'' (JStr []))) (\<lambda>base_path.
       let host = jget source ''host''; base = rstrip_char (CHR ''/'') base_path
       in if truthy host
          then if \<not> has_key source ''schemes''
               then Inr [server_url (''//'' @ py_str fr host @ base)]
               else bind_py (as_list (jget source ''schemes'')) (\<lambda>schemes.
                      Inr (map (\<lambda>s. server_url (py_str fr s @ ''://'' @ py_str fr host @ base))
                               (filter (\<lambda>s. s \<in> {JStr ''http'', JStr ''https''}) schemes)))
          else if has_key source ''basePath'' then Inr [server_url (if base \<noteq> [] then base else ''/'')]
          else Inr [])"

definition oauth2_flow :: "jdict \<Rightarrow> jdict py" where
  "oauth2_flow scheme =
     bind_py (bind_py (item_of scheme ''flow'') as_text) (\<lambda>flow.
       case map_of OAUTH2_FLOWS flow of
         None \<Rightarrow> Inl (KeyError flow)
       | Some (name, urls) \<Rightarrow>
           bind_py (map_py (\<lambda>u. bind_py (item_of scheme u) (\<lambda>v. Inr (u, v))) urls) (\<lambda>us.
             Inr [(''type'', JStr ''oauth2''),
                  (''flows'', JObj [(name, JObj (us @ [(''scopes'', jget_or scheme ''scopes'' (JObj []))]))])]))"

definition security_scheme_3 :: "json \<Rightarrow> json py" where
  "security_scheme_3 scheme_json =
     bind_py (as_obj scheme_json) (\<lambda>scheme.
     bind_py (item_of scheme ''type'') (\<lambda>kind.
     bind_py (if kind = JStr ''basic''
              then Inr [(''type'', JStr ''http''), (''scheme'', JStr ''basic'')]
              else if kind = JStr ''apiKey''
              then bind_py (item_of scheme ''name'') (\<lambda>n. bind_py (item_of scheme ''in'') (\<lambda>l.
                     Inr [(''type'', JStr ''apiKey''), (''name'', n), (''in'', l)]))
              else oauth2_flow scheme) (\<lambda>out.
       let out1 = (if has_key scheme ''description''
                   then AList.update ''description'' (jget scheme ''description'') out else out)
       in Inr (JObj (dict_merge out1 (extensions scheme))))))"

text \<open>A component kind, when the source has a non-empty map of it.\<close>

definition component_kind :: "jdict \<Rightarrow> string \<Rightarrow> string \<Rightarrow> (json \<Rightarrow> json py) \<Rightarrow> jdict py" where
  "component_kind source k target f =
     (if \<not> truthy (jget source k) then Inr []
      else bind_py (as_obj (jget source k)) (\<lambda>d.
             bind_py (map_py (\<lambda>(n, v). bind_py (f v) (\<lambda>x. Inr (n, x))) d) (\<lambda>xs. Inr [(target, JObj xs)])))"

definition components_3 :: "context20 \<Rightarrow> jdict py" where
  "components_3 ctx =
     (let source = cx_document ctx
      in bind_py (component_kind source ''definitions'' ''schemas'' (\<lambda>s. Inr (schema_3 s))) (\<lambda>schemas.
         bind_py (component_kind source ''responses'' ''responses'' (response_3 (cx_produces ctx))) (\<lambda>responses.
         bind_py (component_kind source ''securityDefinitions'' ''securitySchemes'' security_scheme_3) (\<lambda>security.
           Inr (schemas @ responses @ security)))))"

definition swagger2_to_openapi3 ::
  "(rat \<Rightarrow> string) \<Rightarrow> (string \<Rightarrow> string) \<Rightarrow> jdict \<Rightarrow> jdict py" where
  "swagger2_to_openapi3 fr unquote source =
     (if jget source ''swagger'' \<noteq> JStr ''2.0''
      then Inl (ValueError ''swagger2_to_openapi3 expects a Swagger 2.0 document'')
      else
        bind_py (media_list source ''consumes'') (\<lambda>consumes.
        bind_py (media_list source ''produces'') (\<lambda>produces.
        let ctx = \<lparr>cx_document = source, cx_consumes = consumes, cx_produces = produces\<rparr>
        in bind_py (item_of source ''info'') (\<lambda>info.
           bind_py (servers_3 fr source) (\<lambda>servers.
           bind_py (bind_py (item_of source ''paths'') as_obj) (\<lambda>paths.
           bind_py (map_py (\<lambda>(path, item). if startswith path ''x-'' then Inr (path, item)
                                           else bind_py (path_item_3 fr unquote ctx item) (\<lambda>x. Inr (path, x)))
                      paths) (\<lambda>ps.
           bind_py (components_3 ctx) (\<lambda>components.
             Inr (dict_merge
               ([(''openapi'', JStr OPENAPI_VERSION), (''info'', info)]
                @ (if servers \<noteq> [] then [(''servers'', JList servers)] else [])
                @ pick [''tags'', ''security'', ''externalDocs''] source
                @ [(''paths'', JObj ps)]
                @ (if components \<noteq> [] then [(''components'', JObj components)] else []))
               (extensions source))))))))))"

end
