(* ===== verification/Request_Builder.thy ===== *)
theory Request_Builder
  imports Json
begin

text \<open>
  \<^verbatim>\<open>openapi/request_builder.py\<close> and the plans of \<^verbatim>\<open>openapi/model.py\<close> it executes: validated tool
  arguments to the parts of an HTTP request. \<open>urllib.parse.quote\<close> and \<open>urlencode\<close> are modelled;
  the compact \<open>json.dumps\<close> is the argument \<open>dumps\<close> and the text of a float the argument \<open>fr\<close>.
\<close>

section \<open>Plans\<close>

datatype param_location = In_path | In_query | In_header

record parameter_plan =
  pp_argument :: string
  pp_name :: string
  pp_location :: param_location
  pp_style :: string
  pp_explode :: bool

datatype body_mode = Merged | Whole

record body_plan =
  bp_media_type :: string
  bp_mode :: body_mode
  bp_fields :: "(string \<times> string) list"
  bp_required :: bool

datatype output_kind = Out_object | Out_wrapped | Out_none

record request_plan =
  rp_method :: string
  rp_path :: string
  rp_parameters :: "parameter_plan list"
  rp_body :: "body_plan option"
  rp_output :: output_kind

record prepared_request =
  pd_method :: string
  pd_path :: string
  pd_query :: "(string \<times> string) list"
  pd_headers :: "(string \<times> string) list"
  pd_body :: "string option"
  pd_content_type :: "string option"

datatype build_error = ArgumentProblem string | BuildRaised py_exc

definition FORM_MEDIA :: string where "FORM_MEDIA = ''application/x-www-form-urlencoded''"

section \<open>Percent encoding\<close>

definition utf8 :: "char \<Rightarrow> nat list" where
  "utf8 c = (let n = (of_char c :: nat) in if n < 128 then [n] else [192 + n div 64, 128 + n mod 64])"

definition hex_upper :: "nat \<Rightarrow> char" where
  "hex_upper n = (if n < 10 then char_of (48 + n) else char_of (55 + n))"

definition pct :: "nat \<Rightarrow> string" where
  "pct b = [CHR ''%'', hex_upper (b div 16), hex_upper (b mod 16)]"

definition unreserved :: "char \<Rightarrow> bool" where
  "unreserved c \<longleftrightarrow>
     (let n = (of_char c :: nat)
      in (65 \<le> n \<and> n \<le> 90) \<or> (97 \<le> n \<and> n \<le> 122) \<or> (48 \<le> n \<and> n \<le> 57))
     \<or> c \<in> {CHR ''_'', CHR ''.'', CHR ''-'', CHR ''~''}"

definition quote_char :: "string \<Rightarrow> char \<Rightarrow> string" where
  "quote_char safe c =
     (if unreserved c \<or> (c \<in> set safe \<and> (of_char c :: nat) < 128) then [c] else concat (map pct (utf8 c)))"

definition quote :: "string \<Rightarrow> string \<Rightarrow> string" where
  "quote safe s = concat (map (quote_char safe) s)"

definition quote_plus :: "string \<Rightarrow> string" where
  "quote_plus s = map (\<lambda>c. if c = CHR '' '' then CHR ''+'' else c) (quote '' '' s)"

definition urlencode :: "(string \<times> string) list \<Rightarrow> string" where
  "urlencode pairs = join ''&'' (map (\<lambda>(k, v). quote_plus k @ ''='' @ quote_plus v) pairs)"

text \<open>The characters a path template's literal text keeps.\<close>

definition LITERAL_SAFE :: string where
  "LITERAL_SAFE = ''/:@!$&'' @ [CHR 0x27] @ ''()*+,;=-._~''"

section \<open>Values\<close>

definition scalar :: "(rat \<Rightarrow> string) \<Rightarrow> (json \<Rightarrow> string) \<Rightarrow> json \<Rightarrow> string" where
  "scalar fr dumps v =
     (case v of
        JBool b \<Rightarrow> if b then ''true'' else ''false''
      | JNull \<Rightarrow> []
      | JObj d \<Rightarrow> dumps v
      | JList xs \<Rightarrow> dumps v
      | _ \<Rightarrow> py_str fr v)"

definition segment_text :: "string \<Rightarrow> string" where
  "segment_text t =
     (let encoded = quote [] t
      in if encoded = ''.'' \<or> encoded = ''..''
         then concat (map (\<lambda>c. if c = CHR ''.'' then ''%2E'' else [c]) encoded) else encoded)"

definition segment :: "(rat \<Rightarrow> string) \<Rightarrow> (json \<Rightarrow> string) \<Rightarrow> json \<Rightarrow> string" where
  "segment fr dumps v = segment_text (scalar fr dumps v)"

section \<open>Path\<close>

datatype path_part = Literal string | Variable string

text \<open>The matches of \<open>\{([^}]+)\}\<close> and the text between them; the second argument collects the
  literal text in reverse.\<close>

fun path_variable :: "string \<Rightarrow> (string \<times> string) option" where
  "path_variable s =
     (case split_once (CHR ''}'') s of
        (name, Some rest) \<Rightarrow> if name \<noteq> [] then Some (name, rest) else None
      | (name, None) \<Rightarrow> None)"

function path_parts :: "string \<Rightarrow> string \<Rightarrow> path_part list" where
  "path_parts [] acc = [Literal (rev acc)]"
| "path_parts (c # s) acc =
     (if c = CHR ''{''
      then (case path_variable s of
              Some (name, rest) \<Rightarrow> Literal (rev acc) # Variable name # path_parts rest []
            | None \<Rightarrow> path_parts s (c # acc))
      else path_parts s (c # acc))"
  by pat_completeness auto
termination
  by (relation "measure (\<lambda>(s, acc). length s)")
     (auto dest!: split_once_Some split: prod.splits option.splits if_splits)

fun find_param :: "parameter_plan list \<Rightarrow> param_location \<Rightarrow> string \<Rightarrow> parameter_plan option" where
  "find_param [] loc name = None"
| "find_param (p # ps) loc name =
     (case find_param ps loc name of
        Some q \<Rightarrow> Some q
      | None \<Rightarrow> if pp_location p = loc \<and> pp_name p = name then Some p else None)"

definition path_value ::
  "(rat \<Rightarrow> string) \<Rightarrow> (json \<Rightarrow> string) \<Rightarrow> parameter_plan \<Rightarrow> jdict \<Rightarrow> build_error + string" where
  "path_value fr dumps param arguments =
     (let v = jget arguments (pp_argument param)
      in if v \<in> {JNull, JStr [], JList []}
         then Inl (ArgumentProblem (''path parameter '' @ repr_str (pp_name param) @ '' must not be empty''))
         else case v of
           JList xs \<Rightarrow> Inr (join '','' (map (segment fr dumps) xs))
         | _ \<Rightarrow> Inr (segment fr dumps v))"

fun render_path ::
  "(rat \<Rightarrow> string) \<Rightarrow> (json \<Rightarrow> string) \<Rightarrow> parameter_plan list \<Rightarrow> jdict \<Rightarrow> path_part list
     \<Rightarrow> build_error + string" where
  "render_path fr dumps params arguments [] = Inr []"
| "render_path fr dumps params arguments (Literal t # ps) =
     map_sum (\<lambda>e. e) (\<lambda>r. quote LITERAL_SAFE t @ r) (render_path fr dumps params arguments ps)"
| "render_path fr dumps params arguments (Variable name # ps) =
     (case find_param params In_path name of
        None \<Rightarrow> Inl (BuildRaised (KeyError name))
      | Some param \<Rightarrow>
          (case path_value fr dumps param arguments of
             Inl e \<Rightarrow> Inl e
           | Inr t \<Rightarrow> map_sum (\<lambda>e. e) (\<lambda>r. t @ r) (render_path fr dumps params arguments ps)))"

definition build_path ::
  "(rat \<Rightarrow> string) \<Rightarrow> (json \<Rightarrow> string) \<Rightarrow> string \<Rightarrow> parameter_plan list \<Rightarrow> jdict \<Rightarrow> build_error + string" where
  "build_path fr dumps template params arguments =
     render_path fr dumps params arguments (path_parts template [])"

section \<open>Query, headers and body\<close>

definition query_pairs ::
  "(rat \<Rightarrow> string) \<Rightarrow> (json \<Rightarrow> string) \<Rightarrow> parameter_plan \<Rightarrow> json \<Rightarrow> (string \<times> string) list" where
  "query_pairs fr dumps param v =
     (case v of
        JList xs \<Rightarrow>
          if xs = [] then []
          else if pp_explode param then map (\<lambda>x. (pp_name param, scalar fr dumps x)) xs
          else [(pp_name param, join '','' (map (scalar fr dumps) xs))]
      | _ \<Rightarrow> [(pp_name param, scalar fr dumps v)])"

definition is_ctl :: "char \<Rightarrow> bool" where
  "is_ctl c \<longleftrightarrow> (of_char c :: nat) < 32 \<or> (of_char c :: nat) = 127"

definition header_value ::
  "(rat \<Rightarrow> string) \<Rightarrow> (json \<Rightarrow> string) \<Rightarrow> parameter_plan \<Rightarrow> json \<Rightarrow> build_error + string" where
  "header_value fr dumps param v =
     (let t = (case v of JList xs \<Rightarrow> join '','' (map (scalar fr dumps) xs) | _ \<Rightarrow> scalar fr dumps v)
      in if list_ex is_ctl t
         then Inl (ArgumentProblem (''header '' @ repr_str (pp_name param) @ '' must not contain control characters''))
         else Inr t)"

fun collect_params ::
  "(rat \<Rightarrow> string) \<Rightarrow> (json \<Rightarrow> string) \<Rightarrow> jdict \<Rightarrow> parameter_plan list
     \<Rightarrow> build_error + ((string \<times> string) list \<times> (string \<times> string) list)" where
  "collect_params fr dumps arguments [] = Inr ([], [])"
| "collect_params fr dumps arguments (p # ps) =
     (let v = jget arguments (pp_argument p)
      in if v = JNull then collect_params fr dumps arguments ps
         else case pp_location p of
           In_query \<Rightarrow>
             map_sum (\<lambda>e. e) (\<lambda>(q, h). (query_pairs fr dumps p v @ q, h))
               (collect_params fr dumps arguments ps)
         | In_header \<Rightarrow>
             (case header_value fr dumps p v of
                Inl e \<Rightarrow> Inl e
              | Inr t \<Rightarrow> map_sum (\<lambda>e. e) (\<lambda>(q, h). (q, (pp_name p, t) # h))
                           (collect_params fr dumps arguments ps))
         | In_path \<Rightarrow> collect_params fr dumps arguments ps)"

definition form_pairs :: "(rat \<Rightarrow> string) \<Rightarrow> (json \<Rightarrow> string) \<Rightarrow> jdict \<Rightarrow> (string \<times> string) list" where
  "form_pairs fr dumps payload =
     concat (map (\<lambda>(name, v). case v of
                    JList xs \<Rightarrow> map (\<lambda>x. (name, scalar fr dumps x)) xs
                  | _ \<Rightarrow> [(name, scalar fr dumps v)]) payload)"

definition encode_payload ::
  "(rat \<Rightarrow> string) \<Rightarrow> (json \<Rightarrow> string) \<Rightarrow> string \<Rightarrow> json \<Rightarrow> build_error + (string option \<times> string option)" where
  "encode_payload fr dumps media payload =
     (if media = FORM_MEDIA
      then (case payload of
              JObj d \<Rightarrow> Inr (Some (urlencode (form_pairs fr dumps d)), Some media)
            | _ \<Rightarrow> Inl (BuildRaised (AttributeError ''object has no attribute items'')))
      else Inr (Some (dumps payload), Some media))"

definition build_body ::
  "(rat \<Rightarrow> string) \<Rightarrow> (json \<Rightarrow> string) \<Rightarrow> body_plan option \<Rightarrow> jdict
     \<Rightarrow> build_error + (string option \<times> string option)" where
  "build_body fr dumps body arguments =
     (case body of
        None \<Rightarrow> Inr (None, None)
      | Some b \<Rightarrow>
          (case bp_mode b of
             Whole \<Rightarrow>
               (case bp_fields b of
                  [(argument, _)] \<Rightarrow>
                    if has_key arguments argument
                    then encode_payload fr dumps (bp_media_type b) (jget arguments argument)
                    else Inr (None, None)
                | _ \<Rightarrow> Inl (BuildRaised (ValueError ''wrong number of values to unpack'')))
           | Merged \<Rightarrow>
               (let payload = foldl (\<lambda>d (arg, prop). if has_key arguments arg
                                       then AList.update prop (jget arguments arg) d else d) [] (bp_fields b)
                in if payload = [] \<and> \<not> bp_required b then Inr (None, None)
                   else encode_payload fr dumps (bp_media_type b) (JObj payload))))"

definition build_http_request ::
  "(rat \<Rightarrow> string) \<Rightarrow> (json \<Rightarrow> string) \<Rightarrow> request_plan \<Rightarrow> jdict \<Rightarrow> build_error + prepared_request" where
  "build_http_request fr dumps plan arguments =
     (case collect_params fr dumps arguments (rp_parameters plan) of
        Inl e \<Rightarrow> Inl e
      | Inr (query, hs) \<Rightarrow>
          (case build_path fr dumps (rp_path plan) (rp_parameters plan) arguments of
             Inl e \<Rightarrow> Inl e
           | Inr path \<Rightarrow>
               (case build_body fr dumps (rp_body plan) arguments of
                  Inl e \<Rightarrow> Inl e
                | Inr (body, content_type) \<Rightarrow>
                    Inr \<lparr>pd_method = rp_method plan, pd_path = path, pd_query = query,
                         pd_headers = hs, pd_body = body, pd_content_type = content_type\<rparr>)))"

section \<open>Decoding\<close>

text \<open>The reading of a percent-encoded byte string, for the round trip.\<close>

definition hex_val :: "char \<Rightarrow> nat" where
  "hex_val c = (let n = (of_char c :: nat) in if n < 58 then n - 48 else n - 55)"

fun pct_bytes :: "string \<Rightarrow> nat list" where
  "pct_bytes (c # a # b # s) =
     (if c = CHR ''%'' then (16 * hex_val a + hex_val b) # pct_bytes s
      else of_char c # pct_bytes (a # b # s))"
| "pct_bytes (c # s) = of_char c # pct_bytes s"
| "pct_bytes [] = []"

section \<open>Lemmas\<close>

lemma of_char_hex_upper:
  "n < 16 \<Longrightarrow> (of_char (hex_upper n) :: nat) = (if n < 10 then 48 + n else 55 + n)"
  by (simp add: hex_upper_def)

lemma hex_upper_unreserved: "n < 16 \<Longrightarrow> unreserved (hex_upper n)"
  by (simp add: unreserved_def of_char_hex_upper Let_def)

lemma hex_val_upper: "n < 16 \<Longrightarrow> hex_val (hex_upper n) = n"
  by (simp add: hex_val_def of_char_hex_upper Let_def)

lemma utf8_bytes: "b \<in> set (utf8 c) \<Longrightarrow> b < 256"
proof -
  have n: "(of_char c :: nat) < 256" by simp
  then have "(of_char c :: nat) div 64 < 64" by linarith
  with n show "b \<in> set (utf8 c) \<Longrightarrow> b < 256"
    by (auto simp: utf8_def Let_def split: if_splits)
qed

lemma pct_chars: "b < 256 \<Longrightarrow> set (pct b) \<subseteq> {c. unreserved c \<or> c = CHR ''%''}"
  by (auto simp: pct_def hex_upper_unreserved)

lemma quote_char_chars:
  "set (quote_char safe c) \<subseteq> {x. unreserved x \<or> x = CHR ''%'' \<or> x \<in> set safe}"
proof
  fix x assume x: "x \<in> set (quote_char safe c)"
  show "x \<in> {x. unreserved x \<or> x = CHR ''%'' \<or> x \<in> set safe}"
  proof (cases "unreserved c \<or> (c \<in> set safe \<and> (of_char c :: nat) < 128)")
    case True
    then show ?thesis using x by (auto simp: quote_char_def)
  next
    case False
    then obtain b where "b \<in> set (utf8 c)" "x \<in> set (pct b)" using x by (auto simp: quote_char_def)
    then show ?thesis using pct_chars[OF utf8_bytes] by blast
  qed
qed

lemma quote_chars: "set (quote safe s) \<subseteq> {c. unreserved c \<or> c = CHR ''%'' \<or> c \<in> set safe}"
  using quote_char_chars[of safe] by (fastforce simp: quote_def)

lemma segment_chars: "set (segment_text t) \<subseteq> {c. unreserved c \<or> c = CHR ''%''}"
proof -
  have "set (quote [] t) \<subseteq> {c. unreserved c \<or> c = CHR ''%''}" using quote_chars[of "[]" t] by simp
  moreover have "unreserved (CHR ''2'') \<and> unreserved (CHR ''E'')" by code_simp
  ultimately show ?thesis by (auto simp: segment_text_def Let_def split: if_splits)
qed

text \<open>A segment holds no character that could end it or the path, and is no dot segment.\<close>

lemma segment_no_delimiter:
  "c \<in> set (segment_text t) \<Longrightarrow> c \<notin> {CHR ''/'', CHR ''?'', CHR ''#'', CHR ''&'', CHR '';''}"
proof -
  have "\<forall>c \<in> {CHR ''/'', CHR ''?'', CHR ''#'', CHR ''&'', CHR '';''}. \<not> unreserved c \<and> c \<noteq> CHR ''%''"
    by code_simp
  then show "c \<in> set (segment_text t) \<Longrightarrow> c \<notin> {CHR ''/'', CHR ''?'', CHR ''#'', CHR ''&'', CHR '';''}"
    using segment_chars[of t] by blast
qed

lemma segment_not_dots: "segment_text t \<notin> {''.'', ''..''}"
  by (auto simp: segment_text_def Let_def)

text \<open>Encoding loses nothing.\<close>

lemma pct_bytes_pct: "b < 256 \<Longrightarrow> pct_bytes (pct b @ s) = b # pct_bytes s"
  by (simp add: pct_def hex_val_upper)

lemma pct_bytes_plain: "c \<noteq> CHR ''%'' \<Longrightarrow> pct_bytes (c # s) = of_char c # pct_bytes s"
  by (cases "c # s" rule: pct_bytes.cases) auto

lemma pct_bytes_concat:
  "\<forall>b \<in> set bs. b < 256 \<Longrightarrow> pct_bytes (concat (map pct bs) @ s) = bs @ pct_bytes s"
  by (induction bs) (auto simp: pct_bytes_pct)

lemma unreserved_plain: "unreserved c \<Longrightarrow> c \<noteq> CHR ''%'' \<and> utf8 c = [of_char c]"
  by (auto simp: unreserved_def utf8_def Let_def)

lemma pct_bytes_quote:
  assumes "CHR ''%'' \<notin> set safe"
  shows "pct_bytes (quote safe s) = concat (map utf8 s)"
proof (induction s)
  case (Cons c s)
  have "pct_bytes (quote_char safe c @ r) = utf8 c @ pct_bytes r" for r
  proof (cases "unreserved c \<or> (c \<in> set safe \<and> (of_char c :: nat) < 128)")
    case True
    then have "c \<noteq> CHR ''%'' \<and> utf8 c = [of_char c]"
      using assms unreserved_plain[of c] by (auto simp: utf8_def Let_def split: if_splits)
    then show ?thesis using True by (simp add: quote_char_def pct_bytes_plain)
  next
    case False
    then show ?thesis using utf8_bytes[of _ c] by (auto simp: quote_char_def pct_bytes_concat)
  qed
  then show ?case using Cons by (simp add: quote_def)
qed (simp add: quote_def)

section \<open>The shape of a rendered path\<close>

definition count_slashes :: "string \<Rightarrow> nat" where
  "count_slashes s = length (filter (\<lambda>c. c = CHR ''/'') s)"

lemma count_slashes_append [simp]: "count_slashes (a @ b) = count_slashes a + count_slashes b"
  by (simp add: count_slashes_def)

lemma count_slashes_none: "CHR ''/'' \<notin> set s \<Longrightarrow> count_slashes s = 0"
  by (auto simp: count_slashes_def filter_empty_conv)

lemma count_slashes_quote_char: "count_slashes (quote_char LITERAL_SAFE c) = count_slashes [c]"
proof (cases "c = CHR ''/''")
  case True
  have "CHR ''/'' \<in> set LITERAL_SAFE" "(of_char (CHR ''/'') :: nat) < 128"
    by (simp_all add: LITERAL_SAFE_def)
  then show ?thesis using True by (simp add: quote_char_def)
next
  case False
  have n: "\<not> unreserved (CHR ''/'')" by code_simp
  have "CHR ''/'' \<notin> set (quote_char LITERAL_SAFE c)"
  proof (cases "unreserved c \<or> (c \<in> set LITERAL_SAFE \<and> (of_char c :: nat) < 128)")
    case True
    then show ?thesis using False by (simp add: quote_char_def)
  next
    case f: False
    then have "set (quote_char LITERAL_SAFE c) \<subseteq> {x. unreserved x \<or> x = CHR ''%''}"
      using pct_chars utf8_bytes[of _ c] by (simp add: quote_char_def) blast
    then show ?thesis using n by auto
  qed
  then show ?thesis using False by (simp add: count_slashes_none)
qed

lemma count_slashes_quote: "count_slashes (quote LITERAL_SAFE t) = count_slashes t"
  by (induction t)
     (simp_all add: quote_def count_slashes_quote_char, simp_all add: count_slashes_def)

lemma join_chars: "c \<in> set (join sep ws) \<Longrightarrow> c \<in> set sep \<or> (\<exists>w \<in> set ws. c \<in> set w)"
  by (induction sep ws rule: join.induct) auto

lemma path_value_no_slash:
  assumes "path_value fr dumps p args = Inr t"
  shows "CHR ''/'' \<notin> set t" "CHR ''?'' \<notin> set t" "CHR ''#'' \<notin> set t"
proof -
  have "c \<notin> {CHR ''/'', CHR ''?'', CHR ''#''}" if c: "c \<in> set t" for c
  proof (cases "jget args (pp_argument p)")
    case (JList xs)
    then have "t = join '','' (map (segment fr dumps) xs)"
      using assms by (simp add: path_value_def Let_def split: if_splits)
    then have "c = CHR '','' \<or> (\<exists>x. c \<in> set (segment fr dumps x))"
      using join_chars[of c "'',''" "map (segment fr dumps) xs"] c by auto
    then show ?thesis using segment_no_delimiter[of c] by (auto simp: segment_def)
  qed (use assms c segment_no_delimiter[of c] in
        \<open>auto simp: path_value_def segment_def Let_def split: if_splits\<close>)
  then show "CHR ''/'' \<notin> set t" "CHR ''?'' \<notin> set t" "CHR ''#'' \<notin> set t" by blast+
qed

definition literal_slashes :: "path_part list \<Rightarrow> nat" where
  "literal_slashes ps = sum_list (map (\<lambda>p. case p of Literal t \<Rightarrow> count_slashes t | Variable v \<Rightarrow> 0) ps)"

text \<open>No argument adds a segment: the rendered path has the slashes of the template's literal text.\<close>

lemma render_path_slashes:
  "render_path fr dumps params args ps = Inr path \<Longrightarrow> count_slashes path = literal_slashes ps"
proof (induction fr dumps params args ps arbitrary: path rule: render_path.induct)
  case (1 fr dumps params args)
  then show ?case by (simp add: literal_slashes_def count_slashes_def)
next
  case (2 fr dumps params args t ps)
  then obtain r where "render_path fr dumps params args ps = Inr r" "path = quote LITERAL_SAFE t @ r"
    by (cases "render_path fr dumps params args ps") auto
  with 2 show ?case by (simp add: literal_slashes_def count_slashes_quote)
next
  case (3 fr dumps params args name ps)
  then obtain param t r where p: "find_param params In_path name = Some param"
    "path_value fr dumps param args = Inr t" "render_path fr dumps params args ps = Inr r" "path = t @ r"
    by (cases "render_path fr dumps params args ps") (auto split: option.splits sum.splits)
  with 3 path_value_no_slash(1)[OF p(2)] show ?case
    by (simp add: literal_slashes_def count_slashes_none)
qed

text \<open>Header values carry no control character, so no argument adds a header.\<close>

lemma header_value_no_ctl: "header_value fr dumps p v = Inr t \<Longrightarrow> \<forall>c \<in> set t. \<not> is_ctl c"
  by (auto simp: header_value_def Let_def list_ex_iff split: if_splits)

lemma collect_params_headers:
  "collect_params fr dumps args ps = Inr (q, h) \<Longrightarrow> \<forall>(k, v) \<in> set h. \<forall>c \<in> set v. \<not> is_ctl c"
proof (induction ps arbitrary: q h)
  case (Cons p ps)
  show ?case
  proof (cases "collect_params fr dumps args ps")
    case (Inl e)
    then show ?thesis
      using Cons.prems by (auto simp: Let_def split: if_splits param_location.splits sum.splits)
  next
    case (Inr qh)
    obtain q' h' where qh: "qh = (q', h')" by fastforce
    have "\<forall>(k, v) \<in> set h'. \<forall>c \<in> set v. \<not> is_ctl c" using Cons.IH Inr qh by simp
    then show ?thesis
      using Cons.prems Inr qh header_value_no_ctl[of fr dumps p "jget args (pp_argument p)"]
      by (auto simp: Let_def split: if_splits param_location.splits sum.splits; blast)
  qed
qed simp

end
