(* ===== verification/Openapi_Model.thy ===== *)
theory Openapi_Model
  imports Request_Builder Server_Model Openapi_Refs "HOL-Library.Product_Lexorder"
begin

text \<open>
  The rest of \<^verbatim>\<open>openapi/model.py\<close>: operation keys, tool definitions and mapped operations, and
  \<^verbatim>\<open>openapi/validation.py\<close>, the checks of arguments against a tool's schema. The JSON Schema
  validator is the argument \<open>iter_errors\<close> (\<open>None\<close> for a \<open>RecursionError\<close>) and RE2's compilation of a
  pattern the argument \<open>re2\<close>, whose value on a pattern it accepts is the search; the ellipsis, outside the code points of the
  model, is the argument \<open>ell\<close>.
\<close>

section \<open>Operations\<close>

record operation_key =
  ok_method :: string
  ok_path :: string

text \<open>\<open>OperationKey(method, path)\<close>: the method in upper case.\<close>

definition mk_key :: "string \<Rightarrow> string \<Rightarrow> operation_key" where
  "mk_key method path = \<lparr>ok_method = upper method, ok_path = path\<rparr>"

definition key_text :: "operation_key \<Rightarrow> string" where
  "key_text k = ok_method k @ '' '' @ ok_path k"

definition ref_key :: "('z) operation_ref_scheme \<Rightarrow> operation_key" where
  "ref_key r = mk_key (or_method r) (or_path r)"

record override =
  od_name :: "string option"
  od_description :: "string option"

section \<open>Tools\<close>

record tool_def =
  td_name :: string
  td_description :: string
  td_input_schema :: jdict
  td_output_schema :: "jdict option"
  td_annotations :: jdict

definition tool_def_to_mcp :: "tool_def \<Rightarrow> jdict" where
  "tool_def_to_mcp t =
     [(''name'', JStr (td_name t)), (''description'', JStr (td_description t)),
      (''inputSchema'', JObj (td_input_schema t))]
     @ (case td_output_schema t of None \<Rightarrow> [] | Some s \<Rightarrow> [(''outputSchema'', JObj s)])
     @ (if td_annotations t \<noteq> [] then [(''annotations'', JObj (td_annotations t))] else [])"

record tool =
  tl_key :: operation_key
  tl_definition :: tool_def
  tl_plan :: request_plan

record mapped_operation =
  mo_key :: operation_key
  mo_tool :: "tool_def option"
  mo_plan :: "request_plan option"
  mo_unsupported :: "string list"
  mo_dropped :: "string list"
  mo_selected :: bool
  mo_name_problem :: "string option"
  mo_conflicts :: "operation_key list"
  mo_notes :: "string list"

definition mapped_problems :: "mapped_operation \<Rightarrow> string list" where
  "mapped_problems m =
     (case mo_name_problem m of Some p \<Rightarrow> if p \<noteq> [] then [p] else [] | None \<Rightarrow> [])
     @ (case mo_tool m of
          Some t \<Rightarrow> if mo_conflicts m \<noteq> []
                    then [''tool name '' @ [CHR 0x27] @ td_name t @ [CHR 0x27] @ '' is also used by ''
                          @ join '', '' (map key_text (mo_conflicts m))]
                    else []
        | None \<Rightarrow> [])"

definition mapping_error_text :: "string list \<Rightarrow> string" where
  "mapping_error_text problems =
     ''The selected operations cannot be served:'' @ [CHR 0x0A]
     @ join [CHR 0x0A] (map (\<lambda>p. ''- '' @ p) problems)"

section \<open>Argument validation\<close>

type_synonym re2 = "string \<Rightarrow> (string \<Rightarrow> bool) option"

record schema_error =
  se_path :: "string list"
  se_message :: string

text \<open>The \<open>pattern\<close> keyword; a pattern RE2 cannot compile is not checked.\<close>

definition pattern_errors :: "re2 \<Rightarrow> string \<Rightarrow> json \<Rightarrow> schema_error list" where
  "pattern_errors re2 pattern v =
     (case v of
        JStr s \<Rightarrow>
          (case re2 pattern of
             Some search \<Rightarrow>
               if search s then []
               else [\<lparr>se_path = [],
                      se_message = repr_str s @ '' does not match the pattern '' @ repr_str pattern\<rparr>]
           | None \<Rightarrow> [])
      | _ \<Rightarrow> [])"

text \<open>The \<open>patternProperties\<close> keyword; \<open>descend\<close> is the validator's on a value, a subschema and the
  key the errors are placed under.\<close>

definition pattern_property_errors ::
  "re2 \<Rightarrow> (json \<Rightarrow> json \<Rightarrow> string \<Rightarrow> schema_error list) \<Rightarrow> jdict \<Rightarrow> json \<Rightarrow> schema_error list" where
  "pattern_property_errors re2 descend patterns v =
     (case v of
        JObj d \<Rightarrow>
          concat (map (\<lambda>(pattern, subschema).
            case re2 pattern of
              None \<Rightarrow> []
            | Some search \<Rightarrow>
                concat (map (\<lambda>(k, x). if search k then descend x subschema k else []) d)) patterns)
      | _ \<Rightarrow> [])"

type_synonym iter_errors = "jdict \<Rightarrow> json \<Rightarrow> schema_error list option"

definition MAX_MESSAGE :: nat where "MAX_MESSAGE = 300"

definition relevance :: "schema_error \<Rightarrow> nat \<times> string" where
  "relevance e = (length (se_path e), se_message e)"

definition argument_error :: "string \<Rightarrow> iter_errors \<Rightarrow> jdict \<Rightarrow> json \<Rightarrow> string option" where
  "argument_error ell iter_errors schema arguments =
     (case iter_errors schema arguments of
        None \<Rightarrow> Some ''the arguments are nested too deeply to validate''
      | Some errors \<Rightarrow>
          (case sort_key relevance errors of
             [] \<Rightarrow> None
           | e # _ \<Rightarrow>
               (let path = join ''/'' (se_path e);
                    message = (if length (se_message e) \<le> MAX_MESSAGE then se_message e
                               else take MAX_MESSAGE (se_message e) @ ell)
                in Some (if path \<noteq> [] then message @ '' (at '' @ path @ '')'' else message))))"

text \<open>The patterns of a schema RE2 cannot compile. The top of the stack is its head.\<close>

definition uncompiled :: "re2 \<Rightarrow> string list \<Rightarrow> string \<Rightarrow> string list" where
  "uncompiled re2 found p = (if re2 p = None \<and> p \<notin> set found then found @ [p] else found)"

definition node_patterns :: "re2 \<Rightarrow> jdict \<Rightarrow> string list \<Rightarrow> string list" where
  "node_patterns re2 d found =
     (let f1 = (case jget d ''pattern'' of JStr p \<Rightarrow> uncompiled re2 found p | _ \<Rightarrow> found)
      in case jget d ''patternProperties'' of
           JObj ps \<Rightarrow> foldl (uncompiled re2) f1 (map fst ps)
         | _ \<Rightarrow> f1)"

function unchecked_from :: "re2 \<Rightarrow> json list \<Rightarrow> string list \<Rightarrow> string list" where
  "unchecked_from re2 [] found = found"
| "unchecked_from re2 (v # stack) found =
     (case v of
        JObj d \<Rightarrow> unchecked_from re2 (rev (map snd d) @ stack) (node_patterns re2 d found)
      | JList xs \<Rightarrow> unchecked_from re2 (rev xs @ stack) found
      | _ \<Rightarrow> unchecked_from re2 stack found)"
  by pat_completeness auto

lemma jsizes_rev_snd: "jsizes (rev (map snd d)) = jsize_items d"
  by (simp add: jsizes_sum jsize_items_sum sum_map_rev comp_def)

lemma jsizes_simps [simp]: "jsizes (xs @ ys) = jsizes xs + jsizes ys" "jsizes (rev xs) = jsizes xs"
  by (simp_all add: jsizes_sum sum_map_rev)

termination unchecked_from
  by (relation "measure (\<lambda>(re2, stack, found). jsizes stack)")
     (auto simp only: in_measure prod.case jsizes_simps(1) jsizes_rev_snd wf_measure, auto simp: jsize_pos)

definition unchecked_patterns :: "re2 \<Rightarrow> json \<Rightarrow> string list" where
  "unchecked_patterns re2 schema = unchecked_from re2 [schema] []"

section \<open>Lemmas\<close>

lemma argument_error_None:
  "argument_error ell iter_errors schema arguments = None \<longleftrightarrow> iter_errors schema arguments = Some []"
  by (auto simp: argument_error_def Let_def split: option.splits list.splits)
     (metis length_sort length_0_conv)

end
