(* ===== verification/Url.thy ===== *)
theory Url
  imports Json
begin

text \<open>
  What the hub uses of \<^verbatim>\<open>urllib.parse\<close> (Python 3.11): \<open>urlsplit\<close>/\<open>urlparse\<close>, \<open>urlunsplit\<close>/\<open>urlunparse\<close>
  and the \<open>hostname\<close>, \<open>username\<close> and \<open>password\<close> of a parsed URL. The validity of a bracketed
  IPv6 host, which \<open>urlsplit\<close> asks of the module \<open>ipaddress\<close>, is the argument \<open>brk\<close>.
\<close>

section \<open>Parsing\<close>

record url_parts =
  u_scheme :: string
  u_netloc :: string
  u_path :: string
  u_query :: string
  u_fragment :: string

definition c0_or_space :: "char \<Rightarrow> bool" where
  "c0_or_space c \<longleftrightarrow> (of_char c :: nat) \<le> 32"

definition is_ascii_alpha :: "char \<Rightarrow> bool" where
  "is_ascii_alpha c \<longleftrightarrow>
     (let n = (of_char c :: nat) in (65 \<le> n \<and> n \<le> 90) \<or> (97 \<le> n \<and> n \<le> 122))"

definition is_scheme_char :: "char \<Rightarrow> bool" where
  "is_scheme_char c \<longleftrightarrow> is_ascii_alpha c \<or> is_digit c \<or> c \<in> {CHR ''+'', CHR ''-'', CHR ''.''}"

text \<open>White space in front and tabs, carriage returns and newlines anywhere are dropped.\<close>

definition clean_url :: "string \<Rightarrow> string" where
  "clean_url s =
     filter (\<lambda>c. c \<notin> {CHR 0x09, CHR 0x0A, CHR 0x0D}) (lstrip_if c0_or_space s)"

definition split_scheme :: "string \<Rightarrow> string \<times> string" where
  "split_scheme url =
     (case split_once (CHR '':'') url of
        (pre, Some rest) \<Rightarrow>
          if pre \<noteq> [] \<and> is_ascii_alpha (hd pre) \<and> (\<forall>c \<in> set pre. is_scheme_char c)
          then (lower pre, rest) else ([], url)
      | (pre, None) \<Rightarrow> ([], url))"

definition is_delim :: "char \<Rightarrow> bool" where
  "is_delim c \<longleftrightarrow> c \<in> {CHR ''/'', CHR ''?'', CHR ''#''}"

definition split_netloc :: "string \<Rightarrow> string \<times> string" where
  "split_netloc url =
     (if startswith url ''//''
      then (takeWhile (\<lambda>c. \<not> is_delim c) (drop 2 url), dropWhile (\<lambda>c. \<not> is_delim c) (drop 2 url))
      else ([], url))"

definition or_empty :: "string option \<Rightarrow> string" where
  "or_empty v = (case v of None \<Rightarrow> [] | Some s \<Rightarrow> s)"

definition bracketed_host :: "string \<Rightarrow> string" where
  "bracketed_host netloc =
     fst (split_once (CHR '']'') (or_empty (snd (split_once (CHR ''['') netloc))))"

definition netloc_ok :: "(string \<Rightarrow> bool) \<Rightarrow> string \<Rightarrow> bool" where
  "netloc_ok brk netloc \<longleftrightarrow>
     (CHR ''['' \<in> set netloc \<longleftrightarrow> CHR '']'' \<in> set netloc) \<and>
     (CHR ''['' \<in> set netloc \<longrightarrow> brk (bracketed_host netloc))"

definition urlsplit :: "(string \<Rightarrow> bool) \<Rightarrow> string \<Rightarrow> url_parts py" where
  "urlsplit brk s =
     (let (scheme, r1) = split_scheme (clean_url s);
          (netloc, r2) = split_netloc r1;
          (r3, fragment) = split_once (CHR ''#'') r2;
          (path, query) = split_once (CHR ''?'') r3
      in if netloc_ok brk netloc
         then Inr \<lparr>u_scheme = scheme, u_netloc = netloc, u_path = path,
                   u_query = or_empty query, u_fragment = or_empty fragment\<rparr>
         else Inl (ValueError ''Invalid IPv6 URL''))"

section \<open>Building\<close>

definition uses_netloc :: "string list" where
  "uses_netloc =
     [[], ''ftp'', ''http'', ''gopher'', ''nntp'', ''telnet'', ''imap'', ''wais'', ''file'', ''mms'',
      ''https'', ''shttp'', ''snews'', ''prospero'', ''rtsp'', ''rtsps'', ''rtspu'', ''rsync'', ''svn'',
      ''svn+ssh'', ''sftp'', ''nfs'', ''git'', ''git+ssh'', ''ws'', ''wss'']"

definition urlunsplit :: "url_parts \<Rightarrow> string" where
  "urlunsplit u =
     (let p = u_path u;
          a = (if u_netloc u \<noteq> [] \<or> (u_scheme u \<noteq> [] \<and> u_scheme u \<in> set uses_netloc)
                  \<or> startswith p ''//''
               then ''//'' @ u_netloc u @ (if p \<noteq> [] \<and> hd p \<noteq> CHR ''/'' then ''/'' @ p else p)
               else p);
          b = (if u_scheme u \<noteq> [] then u_scheme u @ '':'' @ a else a);
          c = (if u_query u \<noteq> [] then b @ ''?'' @ u_query u else b)
      in if u_fragment u \<noteq> [] then c @ ''#'' @ u_fragment u else c)"

text \<open>\<open>urlunparse(urlparse(s))\<close>: \<open>urlparse\<close> also splits \<open>;params\<close> off the last path segment, and
  \<open>urlunparse\<close> puts non-empty ones back, so a bare trailing semicolon is what is lost.\<close>

definition uses_params :: "string list" where
  "uses_params =
     [[], ''ftp'', ''hdl'', ''prospero'', ''http'', ''imap'', ''https'', ''shttp'', ''rtsp'', ''rtsps'',
      ''rtspu'', ''sip'', ''sips'', ''mms'', ''sftp'', ''tel'']"

definition last_segment :: "string \<Rightarrow> string" where
  "last_segment p = last (split_char (CHR ''/'') p)"

definition drop_empty_params :: "url_parts \<Rightarrow> url_parts" where
  "drop_empty_params u =
     (if u_scheme u \<in> set uses_params \<and> snd (split_once (CHR '';'') (last_segment (u_path u))) = Some []
      then u\<lparr>u_path := butlast (u_path u)\<rparr> else u)"

definition reparse_url :: "(string \<Rightarrow> bool) \<Rightarrow> string \<Rightarrow> string py" where
  "reparse_url brk s = map_sum (\<lambda>e. e) (\<lambda>u. urlunsplit (drop_empty_params u)) (urlsplit brk s)"

section \<open>Host and user information\<close>

definition after_last :: "char \<Rightarrow> string \<Rightarrow> string" where
  "after_last c s = last (split_char c s)"

definition user_info :: "string \<Rightarrow> string option" where
  "user_info netloc =
     (if CHR ''@'' \<in> set netloc
      then Some (take (length netloc - Suc (length (after_last (CHR ''@'') netloc))) netloc) else None)"

definition url_username :: "url_parts \<Rightarrow> string option" where
  "url_username u = map_option (\<lambda>i. fst (split_once (CHR '':'') i)) (user_info (u_netloc u))"

definition url_password :: "url_parts \<Rightarrow> string option" where
  "url_password u = Option.bind (user_info (u_netloc u)) (\<lambda>i. snd (split_once (CHR '':'') i))"

definition lower_host :: "string \<Rightarrow> string" where
  "lower_host h =
     (case split_once (CHR ''%'') h of
        (name, None) \<Rightarrow> lower name
      | (name, Some zone) \<Rightarrow> lower name @ ''%'' @ zone)"

definition url_hostname :: "url_parts \<Rightarrow> string option" where
  "url_hostname u =
     (let info = after_last (CHR ''@'') (u_netloc u);
          host = (case split_once (CHR ''['') info of
                    (_, Some bracketed) \<Rightarrow> fst (split_once (CHR '']'') bracketed)
                  | (_, None) \<Rightarrow> fst (split_once (CHR '':'') info))
      in if host = [] then None else Some (lower_host host))"

section \<open>Lemmas\<close>

lemma split_once_fst_absent: "c \<notin> set (fst (split_once c s))"
  by (induction c s rule: split_once.induct) (auto split: prod.splits)

lemma split_once_join:
  "split_once c s = (a, b) \<Longrightarrow> s = (case b of None \<Rightarrow> a | Some r \<Rightarrow> a @ c # r)"
  by (cases b) (auto dest: split_once_Some split_once_None)

lemma or_empty_simps [simp]: "or_empty None = []" "or_empty (Some s) = s"
  by (simp_all add: or_empty_def)

lemma urlsplit_parts:
  assumes "urlsplit brk s = Inr u"
  shows "CHR ''?'' \<notin> set (u_path u) \<and> CHR ''#'' \<notin> set (u_path u) \<and> CHR ''#'' \<notin> set (u_query u) \<and>
         (\<forall>c \<in> set (u_netloc u). \<not> is_delim c)"
proof -
  obtain scheme r1 netloc r2 r3 fragment path query where
    p: "split_scheme (clean_url s) = (scheme, r1)" "split_netloc r1 = (netloc, r2)"
       "split_once (CHR ''#'') r2 = (r3, fragment)" "split_once (CHR ''?'') r3 = (path, query)"
    by (metis surj_pair)
  then have u: "u = \<lparr>u_scheme = scheme, u_netloc = netloc, u_path = path,
                     u_query = or_empty query, u_fragment = or_empty fragment\<rparr>"
    using assms by (auto simp: urlsplit_def split: if_splits)
  have "CHR ''#'' \<notin> set r3" using split_once_fst_absent[of "CHR ''#''" r2] p(3) by simp
  moreover have "CHR ''?'' \<notin> set path" using split_once_fst_absent[of "CHR ''?''" r3] p(4) by simp
  moreover have "\<forall>c \<in> set netloc. \<not> is_delim c"
    using p(2) by (auto simp: split_netloc_def dest: set_takeWhileD split: if_splits)
  ultimately show ?thesis
    using split_once_join[OF p(4)] u by (auto split: option.splits)
qed

end
