(* ===== verification/Backends.thy ===== *)
theory Backends
  imports Url Server_Model Http
begin

text \<open>
  \<^verbatim>\<open>proxy/url.py\<close>, \<^verbatim>\<open>proxy/fault_injection.py\<close> and \<^verbatim>\<open>proxy/stdio_proxy.py\<close>: the address of the
  backend call, the faults an operator injects, and the forwarding of one JSON-RPC request to a
  program. \<open>json.dumps\<close> and \<open>json.loads\<close> are the arguments \<open>dumps\<close> and \<open>loads\<close>; \<open>loads\<close> gives
  the text of the \<open>JSONDecodeError\<close> or the value.
\<close>

section \<open>The backend URL\<close>

definition relative_path :: "string \<Rightarrow> string" where
  "relative_path incoming_path =
     (if startswith incoming_path ''/mcp'' then drop 4 incoming_path else incoming_path)"

definition join_path :: "string \<Rightarrow> string \<Rightarrow> string" where
  "join_path server_url rel =
     (if rel = [] then server_url
      else rstrip_char (CHR ''/'') server_url @ ''/'' @ lstrip_char (CHR ''/'') rel)"

definition compose_backend_url ::
  "(string \<Rightarrow> bool) \<Rightarrow> string \<Rightarrow> string \<Rightarrow> string option \<Rightarrow> string py" where
  "compose_backend_url brk server_url incoming_path incoming_query =
     (let result = join_path server_url (relative_path incoming_path)
      in case incoming_query of
           None \<Rightarrow> Inr result
         | Some q \<Rightarrow>
             if q = [] then Inr result
             else map_sum (\<lambda>e. e)
                    (\<lambda>r. r @ (if contains q ''?'' then q else ''?'' @ q)) (reparse_url brk result))"

section \<open>Fault injection\<close>

definition DEFAULT_FAULT_TIMEOUT_MS :: int where "DEFAULT_FAULT_TIMEOUT_MS = 5000"

text \<open>The body the handler hands over: bytes on the proxy route; a decoded object or text
  elsewhere.\<close>

datatype fault_body = BytesBody string | TextBody string | ObjectBody jdict

record fault_request =
  fr_headers :: headers
  fr_method :: string
  fr_body :: fault_body

definition fault_wait_ms :: "fault_injection \<Rightarrow> int" where
  "fault_wait_ms fi =
     (let w = (if fi_timeout_millis fi \<noteq> 0 then fi_timeout_millis fi else DEFAULT_FAULT_TIMEOUT_MS)
      in if w < 0 then DEFAULT_FAULT_TIMEOUT_MS else w)"

definition fault_request_id :: "(string \<Rightarrow> string + json) \<Rightarrow> fault_body \<Rightarrow> json" where
  "fault_request_id loads body =
     (case body of
        ObjectBody d \<Rightarrow> jget d ''id''
      | TextBody t \<Rightarrow> (case loads t of Inr (JObj d) \<Rightarrow> jget d ''id'' | _ \<Rightarrow> JNull)
      | BytesBody _ \<Rightarrow> JNull)"

text \<open>The injected response with the milliseconds slept before it, or \<open>None\<close>.\<close>

definition apply_fault_injection ::
  "(string \<Rightarrow> string + json) \<Rightarrow> (json \<Rightarrow> string) \<Rightarrow> fault_request \<Rightarrow> registered_server
     \<Rightarrow> (http_response \<times> int) option" where
  "apply_fault_injection loads dumps request server =
     (let fi = srv_fault_injection server
      in if \<not> fi_enabled fi then None
         else if fi_sse_interrupt fi
                 \<and> (contains (header_or_empty (fr_headers request) ''Accept'') ''text/event-stream''
                    \<or> fr_method request = ''GET'')
         then Some (response_of 200
                      (''event: error'' @ [CHR 0x0A] @ ''data: {'' @ [CHR 0x22] @ ''error'' @ [CHR 0x22]
                       @ '':'' @ [CHR 0x22] @ ''sse interrupted'' @ [CHR 0x22] @ ''}'' @ [CHR 0x0A, CHR 0x0A])
                      [(''Cache-Control'', ''no-cache'')] (Some ''text/event-stream''), 0)
         else if fi_timeout_enabled fi
         then Some (response_of 504 (''Injected timeout'' @ [CHR 0x0A]) [] (Some ''text/plain''),
                    fault_wait_ms fi)
         else if fi_malformed_json fi
         then Some (response_of 200 ''{bad json'' [] (Some ''application/json''), 0)
         else if fi_invalid_method fi
         then Some (response_of 200
                      (dumps (JObj
                        [(''jsonrpc'', JStr ''2.0''),
                         (''error'', JObj [(''code'', JInt METHOD_NOT_FOUND),
                                           (''message'', JStr ''Method not found'')]),
                         (''id'', fault_request_id loads (fr_body request))]))
                      [] (Some ''application/json''), 0)
         else None)"

section \<open>Stdio servers\<close>

record stdio_proxy_result =
  sp_body :: string
  sp_status_code :: int
  sp_error :: string

text \<open>A session: \<open>ss_request\<close> is the dispatcher's raw request (\<open>None\<close> where the session has no
  such dispatcher), answering with the text of an exception or the result. A pool either starts
  the session or raises.\<close>

record stdio_session =
  ss_request :: "(string \<Rightarrow> json \<Rightarrow> string + json) option"

type_synonym stdio_pool_view = "registered_server \<Rightarrow> string + stdio_session"

definition envelope_result :: "json \<Rightarrow> json \<Rightarrow> json" where
  "envelope_result request_id result =
     JObj [(''jsonrpc'', JStr ''2.0''), (''id'', request_id), (''result'', result)]"

definition envelope_error :: "json \<Rightarrow> int \<Rightarrow> string \<Rightarrow> json" where
  "envelope_error request_id code message =
     JObj [(''jsonrpc'', JStr ''2.0''), (''id'', request_id),
           (''error'', JObj [(''code'', JInt code), (''message'', JStr message)])]"

definition stdio_refusal ::
  "(json \<Rightarrow> string) \<Rightarrow> json \<Rightarrow> int \<Rightarrow> string \<Rightarrow> int \<Rightarrow> string \<Rightarrow> stdio_proxy_result" where
  "stdio_refusal dumps request_id code message status err =
     \<lparr>sp_body = dumps (envelope_error request_id code message), sp_status_code = status,
      sp_error = err\<rparr>"

definition forward_to_stdio ::
  "(string \<Rightarrow> string + json) \<Rightarrow> (json \<Rightarrow> string) \<Rightarrow> stdio_pool_view option \<Rightarrow> registered_server
     \<Rightarrow> string \<Rightarrow> stdio_proxy_result" where
  "forward_to_stdio loads dumps pool server request_body =
     (case loads (if request_body = [] then ''{}'' else request_body) of
        Inl e \<Rightarrow> stdio_refusal dumps JNull PARSE_ERROR (''invalid json: '' @ e) 400 e
      | Inr (JObj parsed) \<Rightarrow>
          (let request_id = jget parsed ''id''; params = jget parsed ''params''
           in case jget parsed ''method'' of
                JStr meth \<Rightarrow>
                  if meth = []
                  then stdio_refusal dumps request_id INVALID_REQUEST ''missing method'' 400 ''missing method''
                  else (case pool of
                    None \<Rightarrow> stdio_refusal dumps request_id INTERNAL_ERROR
                             ''stdio servers are not enabled'' 503 ''stdio servers are not enabled''
                  | Some start \<Rightarrow>
                      (case start server of
                         Inl e \<Rightarrow> stdio_refusal dumps request_id INTERNAL_ERROR e 502 e
                       | Inr session \<Rightarrow>
                           if request_id = JNull
                           then \<lparr>sp_body = [], sp_status_code = 202, sp_error = []\<rparr>
                           else (case ss_request session of
                             None \<Rightarrow> stdio_refusal dumps request_id INTERNAL_ERROR
                                      ''stdio transport is unavailable'' 502 ''stdio transport is unavailable''
                           | Some send \<Rightarrow>
                               (case send meth params of
                                  Inl e \<Rightarrow> stdio_refusal dumps request_id INTERNAL_ERROR e 200 e
                                | Inr raw \<Rightarrow> \<lparr>sp_body = dumps (envelope_result request_id raw),
                                             sp_status_code = 200, sp_error = []\<rparr>))))
              | _ \<Rightarrow> stdio_refusal dumps request_id INVALID_REQUEST ''missing method'' 400 ''missing method'')
      | Inr _ \<Rightarrow> stdio_refusal dumps JNull INVALID_REQUEST ''expected a JSON object'' 400 ''expected a JSON object'')"

section \<open>Lemmas\<close>

text \<open>The base route is sent to the registered address verbatim.\<close>

lemma compose_backend_url_base: "compose_backend_url brk url ''/mcp'' None = Inr url"
  by (simp add: compose_backend_url_def relative_path_def join_path_def)

text \<open>Where a relative path is present, exactly one slash separates it from the address.\<close>

lemma join_path_one_slash:
  assumes "rel \<noteq> []"
  obtains a b where "join_path url rel = a @ ''/'' @ b" "a = rstrip_char (CHR ''/'') url"
    "a \<noteq> [] \<longrightarrow> last a \<noteq> CHR ''/''" "b \<noteq> [] \<longrightarrow> hd b \<noteq> CHR ''/''"
proof
  show "join_path url rel = rstrip_char (CHR ''/'') url @ ''/'' @ lstrip_char (CHR ''/'') rel"
    using assms by (simp add: join_path_def)
  show "rstrip_char (CHR ''/'') url \<noteq> [] \<longrightarrow> last (rstrip_char (CHR ''/'') url) \<noteq> CHR ''/''"
    using rstrip_if_last by blast
  show "lstrip_char (CHR ''/'') rel \<noteq> [] \<longrightarrow> hd (lstrip_char (CHR ''/'') rel) \<noteq> CHR ''/''"
    using hd_dropWhile[of "\<lambda>x. x = CHR ''/''" rel] by (auto simp: lstrip_if_def)
qed simp

lemma fault_wait_nonneg: "fault_wait_ms fi \<ge> 0"
  by (simp add: fault_wait_ms_def DEFAULT_FAULT_TIMEOUT_MS_def Let_def)

lemma fault_disabled: "\<not> fi_enabled (srv_fault_injection s) \<Longrightarrow> apply_fault_injection l d r s = None"
  by (simp add: apply_fault_injection_def Let_def)

text \<open>An enabled injection answers unless none of its faults applies to the request.\<close>

lemma fault_enabled_None:
  "apply_fault_injection l d r s = None \<longleftrightarrow>
     (let fi = srv_fault_injection s
      in \<not> fi_enabled fi \<or>
         (\<not> (fi_sse_interrupt fi \<and>
             (contains (header_or_empty (fr_headers r) ''Accept'') ''text/event-stream'' \<or> fr_method r = ''GET''))
          \<and> \<not> fi_timeout_enabled fi \<and> \<not> fi_malformed_json fi \<and> \<not> fi_invalid_method fi))"
  by (simp add: apply_fault_injection_def Let_def)

text \<open>A reply to a request carries the request's id, whatever happened.\<close>

definition reply_id_ok :: "(json \<Rightarrow> string) \<Rightarrow> json \<Rightarrow> stdio_proxy_result \<Rightarrow> bool" where
  "reply_id_ok dumps i r \<longleftrightarrow>
     (\<exists>code m. sp_body r = dumps (envelope_error i code m)) \<or>
     (\<exists>v. sp_body r = dumps (envelope_result i v))"

lemma reply_id_ok_refusal: "reply_id_ok dumps i (stdio_refusal dumps i code m status e)"
  by (auto simp: reply_id_ok_def stdio_refusal_def)

lemma reply_id_ok_result:
  "reply_id_ok dumps i \<lparr>sp_body = dumps (envelope_result i v), sp_status_code = n, sp_error = e\<rparr>"
  by (auto simp: reply_id_ok_def)

lemma forward_to_stdio_id:
  assumes "loads body = Inr (JObj d)" "body \<noteq> []" "jget d ''id'' \<noteq> JNull"
  shows "reply_id_ok dumps (jget d ''id'') (forward_to_stdio loads dumps pool srv body)"
  using assms
  by (auto simp: forward_to_stdio_def Let_def reply_id_ok_refusal reply_id_ok_result
      split: json.split option.split sum.split)

end
