(* ===== verification/Trace.thy ===== *)
theory Trace
  imports Server_Model
begin

text \<open>
  \<^verbatim>\<open>trace/recorder.py\<close> and \<^verbatim>\<open>trace/__init__.py\<close>: the redaction of headers and bodies, and the
  bounded per-server buffers of trace entries.

  The three regular expressions of the textual fallback are the matchers \<open>match_jsonish\<close>,
  \<open>match_formish\<close> and \<open>match_proseish\<close>, which \<open>re_sub\<close> applies from left to right as
  \<open>re.sub\<close> does. No name of \<open>SENSITIVE_BODY_FIELDS\<close> is a prefix of another, so at a position at
  most one alternative of the pattern applies. \<open>json.loads\<close> and \<open>json.dumps\<close> are the
  arguments \<open>loads\<close> and \<open>dumps\<close>. Bodies are text.
\<close>

section \<open>Sensitive names\<close>

definition SENSITIVE_HEADERS :: "string list" where
  "SENSITIVE_HEADERS =
     [''authorization'', ''proxy-authorization'', ''cookie'', ''set-cookie'', ''x-mcp-token'',
      ''x-api-key'', ''api-key'', ''x-auth-token'', ''x-access-token'', ''x-amz-security-token'',
      ''mcp-session-id'', ''x-mcp-identity-assertion'']"

text \<open>In the sorted order in which the alternatives of the patterns are written.\<close>

definition SENSITIVE_BODY_FIELDS :: "string list" where
  "SENSITIVE_BODY_FIELDS =
     [''access_token'', ''actor_token'', ''assertion'', ''client_assertion'', ''client_secret'',
      ''id_token'', ''password'', ''private_key'', ''refresh_token'', ''subject_token'']"

definition REDACTED :: string where
  "REDACTED = ''****''"

section \<open>Structural redaction\<close>

fun redact_structure :: "json \<Rightarrow> json"
  and redact_items :: "(string \<times> json) list \<Rightarrow> (string \<times> json) list"
  and redact_list :: "json list \<Rightarrow> json list" where
  "redact_structure (JObj d) = JObj (redact_items d)"
| "redact_structure (JList xs) = JList (redact_list xs)"
| "redact_structure v = v"
| "redact_items [] = []"
| "redact_items ((k, v) # d) =
     (k, if lower k \<in> set SENSITIVE_BODY_FIELDS then JStr REDACTED else redact_structure v)
     # redact_items d"
| "redact_list [] = []"
| "redact_list (x # xs) = redact_structure x # redact_list xs"

section \<open>Textual redaction\<close>

definition word_char :: "char \<Rightarrow> bool" where
  "word_char c \<longleftrightarrow>
     (let n = (of_char c :: nat)
      in (48 \<le> n \<and> n \<le> 57) \<or> (65 \<le> n \<and> n \<le> 90) \<or> n = 95 \<or> (97 \<le> n \<and> n \<le> 122)
         \<or> n \<in> {170, 178, 179, 181, 185, 186, 188, 189, 190}
         \<or> (192 \<le> n \<and> n \<noteq> 215 \<and> n \<noteq> 247))"

type_synonym matcher = "char option \<Rightarrow> string \<Rightarrow> (nat \<times> string) option"

text \<open>A matcher sees the previous character and the rest; it answers length and replacement.\<close>

function re_sub :: "matcher \<Rightarrow> char option \<Rightarrow> string \<Rightarrow> string" where
  "re_sub m p [] = []"
| "re_sub m p (c # s) =
     (case m p (c # s) of
        None \<Rightarrow> c # re_sub m (Some c) s
      | Some (n, r) \<Rightarrow> r @ re_sub m (Some (last (take (max 1 n) (c # s)))) (drop (max 1 n) (c # s)))"
  by pat_completeness auto
termination
  by (relation "measure (\<lambda>(m, p, s). length s)") auto

text \<open>The field name at the front, whatever its case, and what follows it.\<close>

fun match_field :: "string list \<Rightarrow> string \<Rightarrow> (string \<times> string) option" where
  "match_field [] s = None"
| "match_field (f # fs) s =
     (if lower (take (length f) s) = f then Some (take (length f) s, drop (length f) s)
      else match_field fs s)"

definition word_boundary_before :: "char option \<Rightarrow> bool" where
  "word_boundary_before p \<longleftrightarrow> (case p of None \<Rightarrow> True | Some c \<Rightarrow> \<not> word_char c)"

definition word_boundary_after :: "string \<Rightarrow> bool" where
  "word_boundary_after s \<longleftrightarrow> (case s of [] \<Rightarrow> True | c # _ \<Rightarrow> \<not> word_char c)"

abbreviation dquote :: char where "dquote \<equiv> char_of (34 :: nat)"
abbreviation squote :: char where "squote \<equiv> char_of (39 :: nat)"

definition match_jsonish :: matcher where
  "match_jsonish p s =
     (case s of
        [] \<Rightarrow> None
      | c # s1 \<Rightarrow>
          if c \<noteq> dquote then None
          else (case match_field SENSITIVE_BODY_FIELDS s1 of
                  None \<Rightarrow> None
                | Some (f, s2) \<Rightarrow>
                    (case s2 of
                       [] \<Rightarrow> None
                     | q \<comment> \<open>closing quote\<close> # s3 \<Rightarrow>
                         if q \<noteq> dquote then None
                         else (case dropWhile py_space s3 of
                                 [] \<Rightarrow> None
                               | k # s4 \<Rightarrow>
                                   if k \<noteq> CHR '':'' then None
                                   else (case dropWhile py_space s4 of
                                           [] \<Rightarrow> None
                                         | w # s5 \<Rightarrow>
                                             if w \<noteq> dquote then None
                                             else let rest = dropWhile (\<lambda>x. x \<noteq> dquote) s5;
                                                      opened = take (length s - length s5) s
                                                  in Some (length s - length rest,
                                                           opened @ REDACTED))))))"

definition match_formish :: matcher where
  "match_formish p s =
     (if \<not> word_boundary_before p then None
      else (case match_field SENSITIVE_BODY_FIELDS s of
              None \<Rightarrow> None
            | Some (f, s1) \<Rightarrow>
                (case s1 of
                   [] \<Rightarrow> None
                 | e # s2 \<Rightarrow>
                     if e \<noteq> CHR ''='' then None
                     else let rest = dropWhile (\<lambda>x. x \<noteq> CHR ''&'' \<and> \<not> py_space x) s2
                          in if length rest = length s2 then None
                             else Some (length s - length rest, f @ ''='' @ REDACTED))))"

definition match_proseish :: matcher where
  "match_proseish p s =
     (if \<not> word_boundary_before p then None
      else (case match_field SENSITIVE_BODY_FIELDS s of
              None \<Rightarrow> None
            | Some (f, s1) \<Rightarrow>
                if \<not> word_boundary_after s1 then None
                else
                  let s2 = dropWhile py_space s1;
                      s3 = (case s2 of [] \<Rightarrow> []
                            | c # r \<Rightarrow> if c = CHR '':'' \<or> c = CHR ''='' then r else s2);
                      s4 = dropWhile py_space s3
                  in (case s4 of
                        [] \<Rightarrow> None
                      | q1 # s5 \<Rightarrow>
                          if q1 \<noteq> squote \<and> q1 \<noteq> dquote then None
                          else
                            (case dropWhile (\<lambda>x. x \<noteq> squote \<and> x \<noteq> dquote) s5 of
                               [] \<Rightarrow> None
                             | q2 # rest \<Rightarrow>
                                 if length s5 = Suc (length rest) then None
                                 else Some (length s - length rest,
                                            take (length s - length s4) s @ [q1] @ REDACTED
                                              @ [q2])))))"

definition redact_text :: "string \<Rightarrow> string" where
  "redact_text text =
     re_sub match_proseish None (re_sub match_formish None (re_sub match_jsonish None text))"

definition sanitize_text ::
  "(string \<Rightarrow> json option) \<Rightarrow> (json \<Rightarrow> string) \<Rightarrow> string \<Rightarrow> string" where
  "sanitize_text loads dumps text =
     (case loads text of
        None \<Rightarrow> redact_text text
      | Some parsed \<Rightarrow>
          if is_obj parsed \<or> is_list parsed then dumps (redact_structure parsed)
          else redact_text text)"

definition sanitize_trace_body ::
  "(string \<Rightarrow> json option) \<Rightarrow> (json \<Rightarrow> string) \<Rightarrow> string \<Rightarrow> string" where
  "sanitize_trace_body loads dumps body = (if body = [] then body else sanitize_text loads dumps body)"

section \<open>Headers\<close>

definition redact_auth_header :: "string \<Rightarrow> string" where
  "redact_auth_header v =
     (if v = [] then []
      else if startswith (lower v) ''bearer '' then ''Bearer ****''
      else if startswith (lower v) ''basic '' then ''Basic ****''
      else ''****'')"

definition sanitize_trace_headers :: "string list \<Rightarrow> headers \<Rightarrow> headers" where
  "sanitize_trace_headers extra_sensitive hs =
     (let sensitive = SENSITIVE_HEADERS @ map lower extra_sensitive
      in map (\<lambda>(k, v).
           (k, if lower k = ''authorization'' then redact_auth_header v
               else if lower k \<in> set sensitive then ''****'' else v)) hs)"

definition format_headers :: "headers \<Rightarrow> string" where
  "format_headers hs = join [CHR 0x0A] (map (\<lambda>(k, v). k @ '': '' @ v) hs)"

definition sanitize_headers :: "headers \<Rightarrow> headers" where
  "sanitize_headers hs =
     map (\<lambda>(k, v). (k, if lower k \<in> set SENSITIVE_HEADERS then ''[REDACTED]'' else v)) hs"

text \<open>Python's \<open>xs[:n]\<close>, also for a negative \<open>n\<close>.\<close>

definition py_prefix :: "int \<Rightarrow> 'a list \<Rightarrow> 'a list" where
  "py_prefix n xs = (if 0 \<le> n then take (nat n) xs else take (length xs - nat (- n)) xs)"

definition truncate_body :: "string \<Rightarrow> int \<Rightarrow> string" where
  "truncate_body body limit =
     (if int (length body) \<le> limit then body else py_prefix limit body @ ''...[truncated]'')"

definition is_sse_content_type :: "string option \<Rightarrow> bool" where
  "is_sse_content_type content_type =
     (case content_type of None \<Rightarrow> False | Some c \<Rightarrow> contains (lower c) ''text/event-stream'')"

section \<open>Entries and the recorder\<close>

record trace_entry =
  te_timestamp :: timestamp
  te_server_id :: string
  te_operation :: string
  te_http_method :: string
  te_url :: string
  te_outbound_url :: string
  te_status :: int
  te_duration_ms :: rat
  te_error :: string
  te_request_headers :: headers
  te_response_headers :: headers
  te_subject :: string
  te_request_body :: string
  te_response_body :: string

record trace_recorder =
  tr_limit :: nat
  tr_buffers :: "(string, trace_entry list) dict"

definition new_recorder :: "nat \<Rightarrow> trace_recorder" where
  "new_recorder limit = \<lparr>tr_limit = limit, tr_buffers = []\<rparr>"

text \<open>\<open>deque(maxlen=n).append\<close>: the oldest entries fall out on the left.\<close>

definition deque_append :: "nat \<Rightarrow> 'a list \<Rightarrow> 'a \<Rightarrow> 'a list" where
  "deque_append n q x = (let q' = q @ [x] in drop (length q' - n) q')"

definition redact_entry :: "(string \<Rightarrow> string) \<Rightarrow> trace_entry \<Rightarrow> trace_entry" where
  "redact_entry sanitize e =
     e\<lparr>te_request_body := sanitize (te_request_body e),
       te_response_body := sanitize (te_response_body e)\<rparr>"

text \<open>\<open>sanitize\<close> is \<open>sanitize_trace_body\<close> of the body's type.\<close>

definition recorder_add ::
  "(string \<Rightarrow> string) \<Rightarrow> trace_entry \<Rightarrow> trace_recorder \<Rightarrow> trace_recorder" where
  "recorder_add sanitize entry r =
     (if te_server_id entry = [] then r
      else
        let e = redact_entry sanitize entry;
            sid = te_server_id entry;
            buf = (case map_of (tr_buffers r) sid of None \<Rightarrow> [] | Some b \<Rightarrow> b)
        in r\<lparr>tr_buffers := AList.update sid (deque_append (tr_limit r) buf e) (tr_buffers r)\<rparr>)"

definition recorder_list :: "trace_recorder \<Rightarrow> string \<Rightarrow> string option \<Rightarrow> trace_entry list" where
  "recorder_list r server_id subject =
     (case map_of (tr_buffers r) server_id of
        None \<Rightarrow> []
      | Some entries \<Rightarrow>
          (case subject of
             None \<Rightarrow> entries
           | Some sub \<Rightarrow> filter (\<lambda>e. te_subject e = sub) entries))"

definition recorder_clear :: "string \<Rightarrow> trace_recorder \<Rightarrow> trace_recorder" where
  "recorder_clear server_id r =
     (if map_of (tr_buffers r) server_id = None then r
      else r\<lparr>tr_buffers := AList.update server_id [] (tr_buffers r)\<rparr>)"

section \<open>Structural redaction hides every sensitive field\<close>

text \<open>Every value stored, at any depth, under a sensitive name is the marker.\<close>

fun secrets_hidden :: "json \<Rightarrow> bool"
  and items_hidden :: "(string \<times> json) list \<Rightarrow> bool"
  and list_hidden :: "json list \<Rightarrow> bool" where
  "secrets_hidden (JObj d) = items_hidden d"
| "secrets_hidden (JList xs) = list_hidden xs"
| "secrets_hidden v = True"
| "items_hidden [] = True"
| "items_hidden ((k, v) # d) =
     ((lower k \<in> set SENSITIVE_BODY_FIELDS \<longrightarrow> v = JStr REDACTED) \<and> secrets_hidden v \<and> items_hidden d)"
| "list_hidden [] = True"
| "list_hidden (x # xs) = (secrets_hidden x \<and> list_hidden xs)"

lemma redact_hides:
  "secrets_hidden (redact_structure j)" "items_hidden (redact_items d)"
  "list_hidden (redact_list xs)"
  by (induction j and d and xs rule: redact_structure_redact_items_redact_list.induct) auto

lemma redact_fixes_hidden:
  "secrets_hidden j \<Longrightarrow> redact_structure j = j" "items_hidden d \<Longrightarrow> redact_items d = d"
  "list_hidden xs \<Longrightarrow> redact_list xs = xs"
  by (induction j and d and xs rule: redact_structure_redact_items_redact_list.induct) auto

text \<open>Two documents that differ only under sensitive names are redacted alike.\<close>

fun same_public :: "json \<Rightarrow> json \<Rightarrow> bool"
  and same_public_items :: "(string \<times> json) list \<Rightarrow> (string \<times> json) list \<Rightarrow> bool"
  and same_public_list :: "json list \<Rightarrow> json list \<Rightarrow> bool" where
  "same_public (JObj d) w = (case w of JObj e \<Rightarrow> same_public_items d e | _ \<Rightarrow> False)"
| "same_public (JList xs) w = (case w of JList ys \<Rightarrow> same_public_list xs ys | _ \<Rightarrow> False)"
| "same_public v w = (w = v)"
| "same_public_items [] e = (e = [])"
| "same_public_items ((k, v) # d) e =
     (case e of [] \<Rightarrow> False
      | (k', v') # e' \<Rightarrow>
          k' = k \<and> (lower k \<in> set SENSITIVE_BODY_FIELDS \<or> same_public v v') \<and> same_public_items d e')"
| "same_public_list [] ys = (ys = [])"
| "same_public_list (x # xs) ys =
     (case ys of [] \<Rightarrow> False | y # ys' \<Rightarrow> same_public x y \<and> same_public_list xs ys')"

lemma same_public_redact:
  "same_public j w \<Longrightarrow> redact_structure j = redact_structure w"
  "same_public_items d e \<Longrightarrow> redact_items d = redact_items e"
  "same_public_list xs ys \<Longrightarrow> redact_list xs = redact_list ys"
  by (induction j w and d e and xs ys
      rule: same_public_same_public_items_same_public_list.induct)
    (auto split: json.splits list.splits if_splits)

section \<open>Headers lose their credentials\<close>

lemma redact_auth_header_range:
  "redact_auth_header v \<in> {[], ''Bearer ****'', ''Basic ****'', ''****''}"
  by (simp add: redact_auth_header_def)

lemma sanitize_trace_headers_sensitive:
  assumes "(k, v) \<in> set (sanitize_trace_headers extra hs)"
    and "lower k \<in> set (SENSITIVE_HEADERS @ map lower extra)"
  shows "v \<in> {[], ''Bearer ****'', ''Basic ****'', ''****''}"
  using assms
  by (auto simp: sanitize_trace_headers_def redact_auth_header_def Let_def split: if_splits)

lemma sanitize_headers_sensitive:
  "(k, v) \<in> set (sanitize_headers hs) \<Longrightarrow> lower k \<in> set SENSITIVE_HEADERS \<Longrightarrow> v = ''[REDACTED]''"
  by (auto simp: sanitize_headers_def)

lemma truncate_body_length:
  "0 \<le> limit \<Longrightarrow> length (truncate_body body limit) \<le> nat limit + 14"
  by (auto simp: truncate_body_def py_prefix_def)

section \<open>The buffers are the bounded tail of the history\<close>

definition last_n :: "nat \<Rightarrow> 'a list \<Rightarrow> 'a list" where
  "last_n n xs = drop (length xs - n) xs"

lemma length_last_n [simp]: "length (last_n n xs) = min n (length xs)"
  by (simp add: last_n_def)

lemma deque_append_last_n: "deque_append n (last_n n xs) x = last_n n (xs @ [x])"
proof -
  have "last_n n xs @ [x] = drop (length xs - n) (xs @ [x])"
    by (simp add: last_n_def)
  moreover have "Suc (length (last_n n xs)) - n + (length xs - n) = Suc (length xs) - n"
    by auto
  ultimately show ?thesis
    by (simp add: deque_append_def last_n_def Let_def)
qed

datatype trace_event = Add trace_entry | Clear string

fun recorder_step :: "(string \<Rightarrow> string) \<Rightarrow> trace_recorder \<Rightarrow> trace_event \<Rightarrow> trace_recorder" where
  "recorder_step san r (Add e) = recorder_add san e r"
| "recorder_step san r (Clear sid) = recorder_clear sid r"

text \<open>The abstract history of one server: what was added since it was last cleared.\<close>

fun history :: "(string \<Rightarrow> string) \<Rightarrow> string \<Rightarrow> trace_entry list \<Rightarrow> trace_event list \<Rightarrow> trace_entry list" where
  "history san sid h [] = h"
| "history san sid h (Add e # es) =
     history san sid (if te_server_id e = sid then h @ [redact_entry san e] else h) es"
| "history san sid h (Clear s # es) = history san sid (if s = sid then [] else h) es"

abbreviation buffer :: "trace_recorder \<Rightarrow> string \<Rightarrow> trace_entry list" where
  "buffer r sid \<equiv> recorder_list r sid None"

lemma recorder_step_buffer:
  assumes "sid \<noteq> []" and "buffer r sid = last_n (tr_limit r) h"
  shows "buffer (recorder_step san r ev) sid = last_n (tr_limit r) (history san sid h [ev])"
  using assms deque_append_last_n [of "tr_limit r" h]
  by (cases ev)
    (auto simp: recorder_add_def recorder_clear_def recorder_list_def Let_def dict_simps last_n_def
      split: option.splits)

lemma recorder_step_limit [simp]: "tr_limit (recorder_step san r ev) = tr_limit r"
  by (cases ev) (simp_all add: recorder_add_def recorder_clear_def Let_def)

lemma history_Cons: "history san sid h (ev # es) = history san sid (history san sid h [ev]) es"
  by (cases ev) simp_all

lemma recorder_refines_history_from:
  assumes "sid \<noteq> []" and "buffer r sid = last_n (tr_limit r) h"
  shows "buffer (foldl (recorder_step san) r evs) sid
         = last_n (tr_limit r) (history san sid h evs)"
  using assms(2)
proof (induction evs arbitrary: r h)
  case (Cons ev evs)
  have "buffer (recorder_step san r ev) sid = last_n (tr_limit r) (history san sid h [ev])"
    using recorder_step_buffer [OF assms(1) Cons.prems] .
  with Cons.IH [of "recorder_step san r ev" "history san sid h [ev]"] show ?case
    by (simp add: history_Cons [of san sid h ev evs])
qed simp

lemma recorder_list_subject:
  "e \<in> set (recorder_list r sid (Some sub)) \<Longrightarrow> te_subject e = sub \<and> e \<in> set (buffer r sid)"
  by (auto simp: recorder_list_def split: option.splits)

end
