(* ===== verification/Proxy.thy ===== *)
theory Proxy
  imports Backends Server_Auth Trace
begin

text \<open>
  \<^verbatim>\<open>proxy/handler.py\<close> and \<^verbatim>\<open>proxy/openapi_proxy.py\<close>: one MCP request through the hub.

  The handler's effects are the fields of \<open>proxy_state\<close>: the token caches, the trace entries added
  and the calls made to the backend, both in order, and the token requests sent. What it reads
  from outside is the record \<open>proxy_env\<close>; the two authentication environments and the two
  backends are those of the first attempt and of the one retry. A run makes one trace entry of
  its own, so one reading of the clock serves for its duration. OpenTelemetry spans carry no
  state and are left out. A streamed body is the list of chunks delivered to the client.
\<close>

section \<open>Outbound headers\<close>

definition has_header :: "headers \<Rightarrow> string \<Rightarrow> bool" where
  "has_header hs key \<longleftrightarrow> list_ex (\<lambda>(k, v). lower k = lower key) hs"

definition inject_stateless_request_headers ::
  "(string \<Rightarrow> string + json) \<Rightarrow> string \<Rightarrow> headers \<Rightarrow> headers" where
  "inject_stateless_request_headers loads body outbound =
     (case loads body of
        Inr (JObj parsed) \<Rightarrow>
          (let h1 = (case jget parsed ''method'' of
                       JStr m \<Rightarrow> if m \<noteq> [] \<and> \<not> has_header outbound ''Mcp-Method''
                                 then AList.update ''Mcp-Method'' m outbound else outbound
                     | _ \<Rightarrow> outbound)
           in case jget parsed ''params'' of
                JObj params \<Rightarrow>
                  (case jget params ''name'' of
                     JStr n \<Rightarrow> if n \<noteq> [] \<and> \<not> has_header h1 ''Mcp-Name''
                               then AList.update ''Mcp-Name'' n h1 else h1
                   | _ \<Rightarrow> h1)
              | _ \<Rightarrow> h1)
      | _ \<Rightarrow> outbound)"

text \<open>The headers of the incoming request that survive: neither \<open>Host\<close> nor the caller's own
  \<open>Authorization\<close>.\<close>

definition forwarded_headers :: "headers \<Rightarrow> headers" where
  "forwarded_headers hs =
     filter (\<lambda>(k, v). lower k \<noteq> ''host'' \<and> lower k \<noteq> ''authorization'') hs"

definition unauthenticated_headers ::
  "(string \<Rightarrow> string + json) \<Rightarrow> headers \<Rightarrow> registered_server \<Rightarrow> string \<Rightarrow> headers" where
  "unauthenticated_headers loads incoming server body =
     (let h1 = forwarded_headers incoming;
          h2 = (if has_header h1 ''MCP-Protocol-Version'' then h1
                else AList.update ''MCP-Protocol-Version''
                       (resolve_protocol_version (Some (srv_mcp_protocol_version server))) h1)
      in if strip (srv_mcp_protocol_version server) = STATELESS_PROTOCOL_VERSION \<and> body \<noteq> []
         then inject_stateless_request_headers loads body h2 else h2)"

definition build_outbound_headers ::
  "auth_env \<Rightarrow> (string \<Rightarrow> string + json) \<Rightarrow> headers \<Rightarrow> caller_identity \<Rightarrow> string \<Rightarrow> registered_server
     \<Rightarrow> token_cache \<Rightarrow> obo_token_cache \<Rightarrow> auth_state \<times> auth_error option" where
  "build_outbound_headers env loads incoming caller body server tokens obo =
     apply_server_auth env caller
       \<lparr>as_headers = unauthenticated_headers loads incoming server body, as_params = None,
        as_server = server, as_tokens = tokens, as_obo = obo, as_sent = []\<rparr>"

section \<open>Environment, state and result\<close>

record backend_call =
  bc_method :: string
  bc_url :: string
  bc_headers :: headers
  bc_body :: string

record backend_response =
  br_status :: int
  br_headers :: headers
  br_chunks :: "string list"

datatype backend_outcome =
    Unreachable string                  \<comment> \<open>connect error, connect timeout or protocol error\<close>
  | Aborted                             \<comment> \<open>any other exception, which the handler re-raises\<close>
  | Responded backend_response

record upstream_exchange =
  ux_method :: string
  ux_url :: string
  ux_url_template :: string
  ux_status :: int
  ux_duration_ms :: rat
  ux_error :: string
  ux_request_headers :: headers
  ux_response_headers :: headers
  ux_request_body :: string

record openapi_reply =
  oy_body :: string
  oy_status_code :: int
  oy_error :: string
  oy_needs_authentication :: bool

record proxy_state =
  px_tokens :: token_cache
  px_obo :: obo_token_cache
  px_trace :: "trace_entry list"
  px_calls :: "backend_call list"
  px_token_requests :: sent_forms

type_synonym openapi_handler =
  "registered_server \<Rightarrow> caller_identity \<Rightarrow> string \<Rightarrow> string \<Rightarrow> token_cache \<times> obo_token_cache
     \<Rightarrow> (token_cache \<times> obo_token_cache \<times> sent_forms) \<times> openapi_reply \<times> upstream_exchange list"

record proxy_env =
  pv_loads :: "string \<Rightarrow> string + json"
  pv_dumps :: "json \<Rightarrow> string"
  pv_brk :: "string \<Rightarrow> bool"
  pv_settings :: "auth_config option"
  pv_body_limit :: int
  pv_capture_sse :: bool
  pv_lookup :: "string \<Rightarrow> registered_server option"
  pv_auth1 :: auth_env
  pv_auth2 :: auth_env
  pv_backend1 :: "backend_call \<Rightarrow> backend_outcome"
  pv_backend2 :: "backend_call \<Rightarrow> backend_outcome"
  pv_stdio :: "stdio_pool_view option"
  pv_openapi :: openapi_handler
  pv_now :: timestamp
  pv_elapsed :: rat

datatype proxy_result =
    Replied http_response
  | Streamed int headers "string list"
  | ProxyRaised

definition add_trace :: "trace_entry \<Rightarrow> proxy_state \<Rightarrow> proxy_state" where
  "add_trace e st = st\<lparr>px_trace := px_trace st @ [e]\<rparr>"

definition caller_subject :: "caller_identity \<Rightarrow> string" where
  "caller_subject caller = (case caller of PrincipalCaller p \<Rightarrow> pr_subject p | ServiceIdentity \<Rightarrow> [])"

text \<open>\<open>Entry(...)\<close> with the fields every entry of the handler shares.\<close>

definition proxy_entry ::
  "proxy_env \<Rightarrow> http_request \<Rightarrow> registered_server \<Rightarrow> string \<Rightarrow> string \<Rightarrow> int \<Rightarrow> string \<Rightarrow> trace_entry" where
  "proxy_entry env request server subject outbound_url status err =
     \<lparr>te_timestamp = pv_now env, te_server_id = srv_id server, te_operation = ''proxy'',
      te_http_method = rq_method request, te_url = rq_url request, te_outbound_url = outbound_url,
      te_status = status, te_duration_ms = pv_elapsed env, te_error = err,
      te_request_headers = [], te_response_headers = [], te_subject = subject,
      te_request_body = [], te_response_body = []\<rparr>"

text \<open>What verbose tracing captures of the request.\<close>

definition captured_request :: "proxy_env \<Rightarrow> http_request \<Rightarrow> registered_server \<Rightarrow> headers \<times> string" where
  "captured_request env request server =
     (if srv_trace_verbose server
      then (sanitize_headers (rq_headers request), truncate_body (rq_body request) (pv_body_limit env))
      else ([], []))"

definition with_request :: "headers \<times> string \<Rightarrow> trace_entry \<Rightarrow> trace_entry" where
  "with_request captured e =
     e\<lparr>te_request_headers := fst captured, te_request_body := snd captured\<rparr>"

section \<open>Failures of delegation\<close>

definition obo_failure_response ::
  "proxy_env \<Rightarrow> http_request \<Rightarrow> registered_server \<Rightarrow> string \<Rightarrow> bool \<Rightarrow> proxy_state
     \<Rightarrow> proxy_state \<times> proxy_result" where
  "obo_failure_response env request server detail needs_authentication st =
     (let hs = (case pv_settings env of
                  Some auth \<Rightarrow>
                    if needs_authentication \<and> auth_kind auth = ''jwt''
                    then [(''WWW-Authenticate'', bearer_challenge request auth)] else []
                | None \<Rightarrow> []);
          status = (if needs_authentication then 401 else 502);
          body = (if needs_authentication then ''Unauthorized''
                  else ''On-behalf-of authentication failed: '' @ detail)
      in (add_trace (proxy_entry env request server [] [] status detail) st,
          Replied (response_of status body hs None)))"

section \<open>OpenAPI backends\<close>

definition exchange_entry ::
  "proxy_env \<Rightarrow> http_request \<Rightarrow> registered_server \<Rightarrow> string \<Rightarrow> upstream_exchange \<Rightarrow> trace_entry" where
  "exchange_entry env request server subject x =
     (let verbose = srv_trace_verbose server
      in \<lparr>te_timestamp = pv_now env, te_server_id = srv_id server, te_operation = ''openapi_call'',
          te_http_method = ux_method x, te_url = rq_url request,
          te_outbound_url = (if verbose then ux_url x else ux_url_template x),
          te_status = ux_status x, te_duration_ms = ux_duration_ms x, te_error = ux_error x,
          te_request_headers = (if verbose then ux_request_headers x else []),
          te_response_headers = (if verbose then ux_response_headers x else []),
          te_subject = subject,
          te_request_body = (if verbose then truncate_body (ux_request_body x) (pv_body_limit env) else []),
          te_response_body = []\<rparr>)"

text \<open>The virtual server's \<open>handle_request\<close> is the field \<open>pv_openapi\<close>.\<close>

definition serve_openapi ::
  "proxy_env \<Rightarrow> http_request \<Rightarrow> registered_server \<Rightarrow> caller_identity \<Rightarrow> proxy_state
     \<Rightarrow> proxy_state \<times> proxy_result" where
  "serve_openapi env request server caller st =
     (if rq_method request \<noteq> ''POST''
      then (st, Replied (response_of 405 [] [(''Allow'', ''POST'')] None))
      else case pv_openapi env server caller (rq_body request)
                  (header_or_empty (rq_headers request) ''mcp-protocol-version'')
                  (px_tokens st, px_obo st) of
        ((tokens, obo, sent), reply, upstream) \<Rightarrow>
          (let st' = st\<lparr>px_tokens := tokens, px_obo := obo,
                        px_token_requests := px_token_requests st @ sent\<rparr>;
               subject = caller_subject caller;
               entry = (with_request (captured_request env request server)
                          (proxy_entry env request server subject (srv_url server)
                             (oy_status_code reply) (oy_error reply)))
                       \<lparr>te_response_body := (if srv_trace_verbose server
                                             then truncate_body (oy_body reply) (pv_body_limit env) else [])\<rparr>;
               hs = (case pv_settings env of
                       Some auth \<Rightarrow>
                         if oy_needs_authentication reply \<and> auth_kind auth = ''jwt''
                         then [(''WWW-Authenticate'', bearer_challenge request auth)] else []
                     | None \<Rightarrow> []);
               media = (if oy_body reply \<noteq> [] \<and> oy_status_code reply \<noteq> 401
                        then Some ''application/json'' else None)
           in (st'\<lparr>px_trace := px_trace st' @ map (exchange_entry env request server subject) upstream
                               @ [entry]\<rparr>,
               Replied (response_of (oy_status_code reply) (oy_body reply) hs media))))"

section \<open>HTTP backends\<close>

text \<open>The tee of the streamed body: at most \<open>cap\<close> characters of it.\<close>

fun capture_chunks :: "int \<Rightarrow> string \<Rightarrow> string list \<Rightarrow> string" where
  "capture_chunks cap captured [] = captured"
| "capture_chunks cap captured (chunk # cs) =
     capture_chunks cap
       (if int (length captured) < cap
        then captured @ take (nat (cap - int (length captured))) chunk else captured) cs"

definition deliver ::
  "proxy_env \<Rightarrow> http_request \<Rightarrow> registered_server \<Rightarrow> string \<Rightarrow> string \<Rightarrow> backend_response
     \<Rightarrow> proxy_state \<Rightarrow> proxy_state \<times> proxy_result" where
  "deliver env request server subject outbound_url resp st =
     (let verbose = srv_trace_verbose server;
          should_capture = (verbose \<and> (pv_capture_sse env
                              \<or> \<not> is_sse_content_type (header_get (br_headers resp) ''content-type'')));
          entry = proxy_entry env request server subject outbound_url (br_status resp) [];
          captured = capture_chunks (pv_body_limit env + 1) [] (br_chunks resp);
          st1 = (if \<not> verbose then add_trace entry st else st);
          st2 = (if should_capture
                 then add_trace ((with_request (captured_request env request server) entry)
                        \<lparr>te_response_headers := sanitize_headers (br_headers resp),
                         te_response_body := truncate_body captured (pv_body_limit env)\<rparr>) st1
                 else st1)
      in (st2, Streamed (br_status resp) (br_headers resp) (br_chunks resp)))"

text \<open>One attempt: the headers are built with the caches as they are, then the backend is called.
  The result is \<open>Inl\<close> when the attempt already decided the reply.\<close>

definition attempt ::
  "auth_env \<Rightarrow> (backend_call \<Rightarrow> backend_outcome) \<Rightarrow> proxy_env \<Rightarrow> http_request \<Rightarrow> registered_server
     \<Rightarrow> string \<Rightarrow> proxy_state
     \<Rightarrow> proxy_state \<times> registered_server \<times> (auth_error + backend_outcome)" where
  "attempt aenv backend env request server outbound_url st =
     (case build_outbound_headers aenv (pv_loads env) (rq_headers request) (caller_from_request request)
             (rq_body request) server (px_tokens st) (px_obo st) of
        (a, err) \<Rightarrow>
          (let st' = st\<lparr>px_tokens := as_tokens a, px_obo := as_obo a,
                        px_token_requests := px_token_requests st @ as_sent a\<rparr>
           in case err of
                Some e \<Rightarrow> (st', as_server a, Inl e)
              | None \<Rightarrow>
                  (let call = \<lparr>bc_method = rq_method request, bc_url = outbound_url,
                               bc_headers = as_headers a, bc_body = rq_body request\<rparr>
                   in (st'\<lparr>px_calls := px_calls st' @ [call]\<rparr>, as_server a, Inr (backend call)))))"

definition auth_error_reply ::
  "proxy_env \<Rightarrow> http_request \<Rightarrow> registered_server \<Rightarrow> auth_error \<Rightarrow> proxy_state
     \<Rightarrow> proxy_state \<times> proxy_result" where
  "auth_error_reply env request server e st =
     (case e of
        OBOAuthError detail needs \<Rightarrow> obo_failure_response env request server detail needs st
      | Raised exc \<Rightarrow> (st, ProxyRaised))"

definition delegates :: "registered_server \<Rightarrow> bool" where
  "delegates server \<longleftrightarrow> srv_auth_type server = AT_obo \<or> srv_auth_type server = AT_ema"

text \<open>The retry after a backend answered 401 to an exchanged token: drop the cached token,
  exchange once more, call once more.\<close>

definition retry_once ::
  "proxy_env \<Rightarrow> http_request \<Rightarrow> registered_server \<Rightarrow> principal \<Rightarrow> string \<Rightarrow> proxy_state
     \<Rightarrow> proxy_state \<times> proxy_result" where
  "retry_once env request server p outbound_url st =
     (case attempt (pv_auth2 env) (pv_backend2 env) env request server outbound_url
             (st\<lparr>px_obo := invalidate_obo_token server p (px_obo st)\<rparr>) of
        (st', server', Inl e) \<Rightarrow> auth_error_reply env request server' e st'
      | (st', server', Inr (Unreachable e)) \<Rightarrow> (st', Replied (plain_response 502 ''Backend unreachable''))
      | (st', server', Inr Aborted) \<Rightarrow> (st', ProxyRaised)
      | (st', server', Inr (Responded resp)) \<Rightarrow>
          deliver env request server' (pr_subject p) outbound_url resp st')"

definition proxy_http ::
  "proxy_env \<Rightarrow> http_request \<Rightarrow> registered_server \<Rightarrow> proxy_state \<Rightarrow> proxy_state \<times> proxy_result" where
  "proxy_http env request server st =
     (let query = (if rq_query request = [] then None else Some (rq_query request));
          caller = caller_from_request request;
          subject = caller_subject caller
      in case compose_backend_url (pv_brk env) (srv_url server) (rq_path request) query of
           Inl e \<Rightarrow> (st, ProxyRaised)
         | Inr outbound_url \<Rightarrow>
             (case attempt (pv_auth1 env) (pv_backend1 env) env request server outbound_url st of
                (st', server', Inl e) \<Rightarrow> auth_error_reply env request server' e st'
              | (st', server', Inr (Unreachable e)) \<Rightarrow>
                  (add_trace (proxy_entry env request server' subject outbound_url 502 e) st',
                   Replied (plain_response 502 ''Backend unreachable''))
              | (st', server', Inr Aborted) \<Rightarrow> (st', ProxyRaised)
              | (st', server', Inr (Responded resp)) \<Rightarrow>
                  (case caller of
                     PrincipalCaller p \<Rightarrow>
                       if br_status resp = 401 \<and> delegates server'
                       then retry_once env request server' p outbound_url st'
                       else deliver env request server' subject outbound_url resp st'
                   | ServiceIdentity \<Rightarrow> deliver env request server' subject outbound_url resp st')))"

section \<open>The handler\<close>

definition proxy_stdio ::
  "proxy_env \<Rightarrow> http_request \<Rightarrow> registered_server \<Rightarrow> proxy_state \<Rightarrow> proxy_state \<times> proxy_result" where
  "proxy_stdio env request server st =
     (let result = forward_to_stdio (pv_loads env) (pv_dumps env) (pv_stdio env) server (rq_body request);
          entry = (with_request (captured_request env request server)
                     (proxy_entry env request server (caller_subject (caller_from_request request))
                        (srv_url server) (sp_status_code result) (sp_error result)))
                  \<lparr>te_response_body := (if srv_trace_verbose server
                                        then truncate_body (sp_body result) (pv_body_limit env) else [])\<rparr>
      in (add_trace entry st,
          Replied (response_of (sp_status_code result) (sp_body result) []
                     (if sp_body result \<noteq> [] then Some ''application/json'' else None))))"

definition proxy_fault ::
  "proxy_env \<Rightarrow> http_request \<Rightarrow> registered_server \<Rightarrow> http_response \<Rightarrow> proxy_state
     \<Rightarrow> proxy_state \<times> proxy_result" where
  "proxy_fault env request server resp st =
     (let entry = (with_request (captured_request env request server)
                     (proxy_entry env request server (caller_subject (caller_from_request request))
                        [] (hr_status resp) []))
                  \<lparr>te_response_headers := (if srv_trace_verbose server
                                           then sanitize_headers (hr_headers resp) else [])\<rparr>
      in (add_trace entry st, Replied resp))"

definition proxy_authorized ::
  "proxy_env \<Rightarrow> http_request \<Rightarrow> registered_server \<Rightarrow> proxy_state \<Rightarrow> proxy_state \<times> proxy_result" where
  "proxy_authorized env request server st =
     (case apply_fault_injection (pv_loads env) (pv_dumps env)
             \<lparr>fr_headers = rq_headers request, fr_method = rq_method request,
              fr_body = BytesBody (rq_body request)\<rparr> server of
        Some (resp, wait) \<Rightarrow> proxy_fault env request server resp st
      | None \<Rightarrow>
          if is_stdio server then proxy_stdio env request server st
          else if is_openapi server
          then serve_openapi env request server (caller_from_request request) st
          else proxy_http env request server st)"

definition proxy_denied ::
  "proxy_env \<Rightarrow> http_request \<Rightarrow> registered_server \<Rightarrow> http_exception \<Rightarrow> proxy_state
     \<Rightarrow> proxy_state \<times> proxy_result" where
  "proxy_denied env request server exc st =
     (add_trace (proxy_entry env request server (caller_subject (caller_from_request request)) []
                   (he_status exc) (he_detail exc)) st,
      Replied (response_of (he_status exc) (he_detail exc) (he_headers exc) None))"

definition proxy_request ::
  "proxy_env \<Rightarrow> http_request \<Rightarrow> proxy_state \<Rightarrow> proxy_state \<times> proxy_result" where
  "proxy_request env request st =
     (let target_id = header_or_empty (rq_headers request) ''X-MCP-Target-Server''
      in if target_id = [] then (st, Replied (plain_response 400 ''Missing X-MCP-Target-Server header''))
         else case pv_lookup env target_id of
           None \<Rightarrow> (st, Replied (plain_response 404 ''Server not found''))
         | Some server \<Rightarrow>
             (case require_server_access (pv_settings env) request server of
                Some exc \<Rightarrow> proxy_denied env request server exc st
              | None \<Rightarrow> proxy_authorized env request server st))"

section \<open>Lemmas: calls\<close>

lemma px_calls_add_trace [simp]: "px_calls (add_trace e st) = px_calls st"
  by (simp add: add_trace_def)

lemma deliver_calls [simp]: "px_calls (fst (deliver env r s sub url resp st)) = px_calls st"
  by (simp add: deliver_def Let_def)

lemma obo_failure_response_calls [simp]:
  "px_calls (fst (obo_failure_response env r s d n st)) = px_calls st"
  by (simp add: obo_failure_response_def Let_def)

lemma auth_error_reply_calls [simp]: "px_calls (fst (auth_error_reply env r s e st)) = px_calls st"
  by (simp add: auth_error_reply_def split: auth_error.split)

lemma attempt_calls:
  assumes "attempt aenv backend env r s url st = (st', s', res)"
  shows "case res of
           Inl e \<Rightarrow> px_calls st' = px_calls st
         | Inr out \<Rightarrow> \<exists>c. px_calls st' = px_calls st @ [c] \<and> out = backend c \<and> bc_url c = url \<and>
                          bc_method c = rq_method r \<and> bc_body c = rq_body r"
    and "px_trace st' = px_trace st"
  using assms
  by (auto simp: attempt_def Let_def split: prod.splits option.splits)

text \<open>What a backend call of a request looks like.\<close>

definition call_of :: "http_request \<Rightarrow> string \<Rightarrow> backend_call \<Rightarrow> bool" where
  "call_of r url c \<longleftrightarrow> bc_url c = url \<and> bc_method c = rq_method r \<and> bc_body c = rq_body r"

lemma retry_once_calls:
  "\<exists>new. px_calls (fst (retry_once env r s p url st)) = px_calls st @ new \<and> length new \<le> 1 \<and>
         (\<forall>c \<in> set new. call_of r url c)"
proof -
  obtain st' s' res where a: "attempt (pv_auth2 env) (pv_backend2 env) env r s url
      (st\<lparr>px_obo := invalidate_obo_token s p (px_obo st)\<rparr>) = (st', s', res)"
    by (metis surj_pair)
  have "\<exists>new. px_calls st' = px_calls st @ new \<and> length new \<le> 1 \<and> (\<forall>c \<in> set new. call_of r url c)"
    using attempt_calls(1)[OF a] by (auto simp: call_of_def split: sum.splits)
  then show ?thesis
    by (simp add: retry_once_def a split: sum.split backend_outcome.split)
qed

text \<open>The calls of one request: at most two, all to the composed address; a second one only after
  the first was answered 401 by a server that delegates.\<close>

definition calls_ok :: "proxy_env \<Rightarrow> http_request \<Rightarrow> registered_server \<Rightarrow> backend_call list \<Rightarrow> bool" where
  "calls_ok env r s new \<longleftrightarrow>
     new = [] \<or>
     (\<exists>url c rest. new = c # rest \<and> length rest \<le> 1 \<and> (\<forall>x \<in> set new. call_of r url x) \<and>
        compose_backend_url (pv_brk env) (srv_url s) (rq_path r)
          (if rq_query r = [] then None else Some (rq_query r)) = Inr url \<and>
        (rest \<noteq> [] \<longrightarrow> delegates s \<and>
           (\<exists>resp. pv_backend1 env c = Responded resp \<and> br_status resp = 401)))"

lemma cached_fetch_server: "as_server (fst (cached_fetch env k se f st)) = as_server st"
  using cached_fetch_frame[of env k se f st] by (metis prod.collapse)

abbreviation auth_type_of :: "auth_state \<Rightarrow> auth_type" where
  "auth_type_of st \<equiv> srv_auth_type (as_server st)"

lemma auth_type_failure [simp]:
  "auth_type_of (fst (obo_failure d n st)) = auth_type_of st"
  "auth_type_of (fst (ema_failure d n st)) = auth_type_of st"
  by (simp_all add: auth_failure_defs)

lemma obo_exchange_type [simp]: "auth_type_of (fst (obo_exchange env p url act st)) = auth_type_of st"
  using cached_fetch_server[of env "obo_cache_key_for (as_server st) p" "pr_expires_at p"
      "exchange_token (ae_float_text env) (ae_post env) (obo_exchange_request (as_server st) p url act)" st]
  by (simp add: obo_exchange_def Let_def set_header_def split: prod.split sum.split) auto

lemma apply_obo_auth_type [simp]: "auth_type_of (fst (apply_obo_auth env p st)) = auth_type_of st"
  by (simp add: apply_obo_auth_def Let_def split: prod.split sum.split)

lemma ema_result_type:
  "auth_type_of (fst (case cached_fetch env k se f st of
       (st', Inl e) \<Rightarrow> ema_failure (d e) n st'
     | (st', Inr t) \<Rightarrow> ((set_header h (bearer t) st')
          \<lparr>as_server := (as_server st')\<lparr>srv_ema_status := TS_ok, srv_ema_error := []\<rparr>\<rparr>, None)))
   = auth_type_of st"
  using cached_fetch_server[of env k se f st]
  by (simp add: set_header_def split: prod.split sum.split) auto

lemma apply_ema_auth_type [simp]: "auth_type_of (fst (apply_ema_auth env p st)) = auth_type_of st"
  by (simp add: apply_ema_auth_def Let_def ema_result_type split: sum.split)

lemma own_credentials_type [simp]:
  "auth_type_of (fst (apply_api_key st)) = auth_type_of st"
  "auth_type_of (apply_bearer st) = auth_type_of st"
  "auth_type_of (apply_basic env u w st) = auth_type_of st"
  "auth_type_of (apply_oauth env st) = auth_type_of st"
  by (simp_all add: apply_api_key_def apply_bearer_def apply_basic_def apply_oauth_def Let_def
      auth_update_defs split: option.split prod.split sum.split)

lemma apply_server_auth_type:
  "auth_type_of (fst (apply_server_auth env caller st)) = auth_type_of st"
  by (simp add: apply_server_auth_def Let_def split: caller_identity.split)

lemma attempt_server:
  assumes "attempt aenv backend env r s url st = (st', s', res)"
  shows "delegates s' \<longleftrightarrow> delegates s"
proof -
  let ?b = "build_outbound_headers aenv (pv_loads env) (rq_headers r) (caller_from_request r)
              (rq_body r) s (px_tokens st) (px_obo st)"
  have "s' = as_server (fst ?b)"
    using assms by (auto simp: attempt_def Let_def split: prod.splits option.splits)
  then show ?thesis by (simp add: build_outbound_headers_def apply_server_auth_type delegates_def)
qed

lemma proxy_http_calls:
  "\<exists>new. px_calls (fst (proxy_http env r s st)) = px_calls st @ new \<and> calls_ok env r s new"
proof (cases "compose_backend_url (pv_brk env) (srv_url s) (rq_path r)
                (if rq_query r = [] then None else Some (rq_query r))")
  case (Inl e)
  then show ?thesis by (simp add: proxy_http_def calls_ok_def)
next
  case (Inr url)
  obtain st' s' res where a: "attempt (pv_auth1 env) (pv_backend1 env) env r s url st = (st', s', res)"
    by (metis surj_pair)
  note del = attempt_server[OF a]
  show ?thesis
  proof (cases res)
    case (Inl e)
    then show ?thesis
      using Inr a attempt_calls(1)[OF a] by (simp add: proxy_http_def Let_def calls_ok_def)
  next
    case (Inr out)
    then obtain c where c: "px_calls st' = px_calls st @ [c]" "out = pv_backend1 env c" "call_of r url c"
      using attempt_calls(1)[OF a] by (auto simp: call_of_def)
    have one: "calls_ok env r s [c]"
      using c \<open>compose_backend_url _ _ _ _ = Inr url\<close> by (auto simp: calls_ok_def)
    show ?thesis
    proof (cases "\<exists>resp p. out = Responded resp \<and> br_status resp = 401 \<and> delegates s' \<and>
                         caller_from_request r = PrincipalCaller p")
      case True
      then obtain resp p where t: "out = Responded resp" "br_status resp = 401" "delegates s'"
        "caller_from_request r = PrincipalCaller p" by blast
      obtain new where n: "px_calls (fst (retry_once env r s' p url st')) = px_calls st' @ new"
        "length new \<le> 1" "\<forall>c \<in> set new. call_of r url c"
        using retry_once_calls by metis
      have "calls_ok env r s (c # new)"
        using c(1,3) c(2)[symmetric] n t del \<open>compose_backend_url _ _ _ _ = Inr url\<close>
        unfolding calls_ok_def by (intro disjI2 exI[of _ url] exI[of _ c] exI[of _ new]) auto
      moreover have "px_calls (fst (proxy_http env r s st)) = px_calls st @ c # new"
        using \<open>compose_backend_url _ _ _ _ = Inr url\<close> a Inr t n c
        by (simp add: proxy_http_def Let_def)
      ultimately show ?thesis by blast
    next
      case False
      then have "px_calls (fst (proxy_http env r s st)) = px_calls st @ [c]"
        using \<open>compose_backend_url _ _ _ _ = Inr url\<close> a Inr c
        by (simp add: proxy_http_def Let_def split: backend_outcome.split caller_identity.split) blast
      then show ?thesis using one by blast
    qed
  qed
qed

lemma serve_openapi_calls [simp]: "px_calls (fst (serve_openapi env r s caller st)) = px_calls st"
  by (simp add: serve_openapi_def Let_def split: prod.split)

lemma proxy_stdio_calls [simp]: "px_calls (fst (proxy_stdio env r s st)) = px_calls st"
  by (simp add: proxy_stdio_def Let_def)

lemma proxy_fault_calls [simp]: "px_calls (fst (proxy_fault env r s resp st)) = px_calls st"
  by (simp add: proxy_fault_def Let_def)

lemma proxy_denied_calls [simp]: "px_calls (fst (proxy_denied env r s exc st)) = px_calls st"
  by (simp add: proxy_denied_def)

lemma proxy_authorized_calls:
  "\<exists>new. px_calls (fst (proxy_authorized env r s st)) = px_calls st @ new \<and> calls_ok env r s new \<and>
         (new \<noteq> [] \<longrightarrow> \<not> is_stdio s \<and> \<not> is_openapi s \<and>
            apply_fault_injection (pv_loads env) (pv_dumps env)
              \<lparr>fr_headers = rq_headers r, fr_method = rq_method r, fr_body = BytesBody (rq_body r)\<rparr> s = None)"
  using proxy_http_calls[of env r s st]
  by (auto simp: proxy_authorized_def calls_ok_def split: option.split)

text \<open>The server a request is for.\<close>

definition target_server :: "proxy_env \<Rightarrow> http_request \<Rightarrow> registered_server option" where
  "target_server env r =
     (let t = header_or_empty (rq_headers r) ''X-MCP-Target-Server''
      in if t = [] then None else pv_lookup env t)"

lemma proxy_request_cases:
  "proxy_request env r st =
     (case target_server env r of
        None \<Rightarrow> (st, snd (proxy_request env r st))
      | Some s \<Rightarrow> (case require_server_access (pv_settings env) r s of
                     Some exc \<Rightarrow> proxy_denied env r s exc st
                   | None \<Rightarrow> proxy_authorized env r s st))"
  by (auto simp: proxy_request_def target_server_def Let_def split: option.split)

section \<open>Lemmas: headers and traces\<close>

lemma forwarded_headers_drop:
  "(k, v) \<in> set (forwarded_headers hs) \<Longrightarrow>
     (k, v) \<in> set hs \<and> lower k \<noteq> ''authorization'' \<and> lower k \<noteq> ''host''"
  by (auto simp: forwarded_headers_def)

lemma update_keeps:
  "(k, v) \<in> set d \<Longrightarrow> k \<noteq> k' \<Longrightarrow> (k, v) \<in> set (AList.update k' v' d)"
  by (induction d) (auto split: if_splits)

lemma inject_keeps:
  "(k, v) \<in> set hs \<Longrightarrow> k \<noteq> ''Mcp-Method'' \<Longrightarrow> k \<noteq> ''Mcp-Name'' \<Longrightarrow>
     (k, v) \<in> set (inject_stateless_request_headers loads body hs)"
  by (auto simp: inject_stateless_request_headers_def Let_def update_keeps
      split: sum.splits json.splits)

lemma inject_new:
  "(k, v) \<in> set (inject_stateless_request_headers loads body hs) \<Longrightarrow>
     (k, v) \<in> set hs \<or> k = ''Mcp-Method'' \<or> k = ''Mcp-Name''"
  by (auto simp: inject_stateless_request_headers_def Let_def
      dest!: in_update_cases split: sum.splits json.splits if_splits)

lemma unauthenticated_headers_keeps:
  "(k, v) \<in> set (forwarded_headers hs) \<Longrightarrow>
     k \<notin> {''MCP-Protocol-Version'', ''Mcp-Method'', ''Mcp-Name''} \<Longrightarrow>
     (k, v) \<in> set (unauthenticated_headers loads hs server body)"
  by (simp add: unauthenticated_headers_def Let_def inject_keeps update_keeps)

lemma unauthenticated_headers_no_authorization:
  assumes "(k, v) \<in> set (unauthenticated_headers loads hs server body)"
  shows "lower k \<noteq> ''authorization''"
proof -
  have l: "lower ''Mcp-Method'' \<noteq> ''authorization''" "lower ''Mcp-Name'' \<noteq> ''authorization''"
    "lower ''MCP-Protocol-Version'' \<noteq> ''authorization''"
    by code_simp+
  have "(k, v) \<in> set (forwarded_headers hs) \<or> k \<in> {''MCP-Protocol-Version'', ''Mcp-Method'', ''Mcp-Name''}"
    using assms by (auto simp: unauthenticated_headers_def Let_def
        dest!: in_update_cases inject_new split: if_splits)
  then show ?thesis using l by (auto dest: forwarded_headers_drop)
qed

text \<open>The tee keeps a prefix of the body one longer than the limit, which is all that truncation
  can see.\<close>

lemma capture_chunks_take:
  "int (length captured) \<le> cap \<Longrightarrow>
     capture_chunks cap captured cs = take (nat cap) (captured @ concat cs)"
proof (induction cap captured cs rule: capture_chunks.induct)
  case (2 cap captured chunk cs)
  let ?n = "nat cap - length captured"
  have n: "nat (cap - int (length captured)) = ?n" using 2(2) by (simp add: nat_diff_distrib)
  have "int (length (captured @ take ?n chunk)) \<le> cap" using 2(2) by (simp add: min_def) linarith
  then show ?case
    using 2 by (cases "length chunk \<le> ?n") (auto simp: n min_def)
qed simp

lemma truncate_capture:
  assumes "limit \<ge> 0"
  shows "truncate_body (capture_chunks (limit + 1) [] cs) limit = truncate_body (concat cs) limit"
proof -
  have c: "capture_chunks (limit + 1) [] cs = take (nat (limit + 1)) (concat cs)"
    using assms by (simp add: capture_chunks_take)
  show ?thesis
    using assms by (auto simp: c truncate_body_def py_prefix_def min_def nat_add_distrib)
qed

lemma deliver_trace:
  "px_trace (fst (deliver env r s sub url resp st)) = px_trace st @
     (if \<not> srv_trace_verbose s \<or> pv_capture_sse env
         \<or> \<not> is_sse_content_type (header_get (br_headers resp) ''content-type'')
      then [if srv_trace_verbose s
            then (with_request (captured_request env r s) (proxy_entry env r s sub url (br_status resp) []))
                   \<lparr>te_response_headers := sanitize_headers (br_headers resp),
                    te_response_body := truncate_body (capture_chunks (pv_body_limit env + 1) [] (br_chunks resp))
                                          (pv_body_limit env)\<rparr>
            else proxy_entry env r s sub url (br_status resp) []]
      else [])"
  by (simp add: deliver_def Let_def add_trace_def)

end
