(* ===== verification/Ssrf.thy ===== *)
theory Ssrf
  imports Url Http
begin

text \<open>
  \<^verbatim>\<open>utils.py\<close> and \<^verbatim>\<open>mcp/oauth.py\<close>: the address checks before an outbound connection, the pinned
  transport, file-name sanitising, \<open>WWW-Authenticate\<close> challenges and OAuth discovery.

  The module \<open>ipaddress\<close> is the argument \<open>ip_of\<close>, from the text of an address to its
  classification; DNS is the argument \<open>dns\<close>, with \<open>None\<close> for \<open>socket.gaierror\<close>.
\<close>

section \<open>Addresses\<close>

record ip_class =
  ip_loopback :: bool
  ip_private :: bool
  ip_link_local :: bool
  ip_reserved :: bool
  ip_in_private_networks :: bool    \<comment> \<open>member of one of \<open>PRIVATE_NETWORKS\<close>\<close>

type_synonym ip_reader = "string \<Rightarrow> ip_class option"

type_synonym resolver = "string \<Rightarrow> string list option"

definition ip_allowed :: "ip_class \<Rightarrow> bool \<Rightarrow> bool" where
  "ip_allowed ip allow_private_networks \<longleftrightarrow>
     allow_private_networks \<or>
     \<not> (ip_loopback ip \<or> ip_private ip \<or> ip_link_local ip \<or> ip_reserved ip)"

text \<open>The loop over the resolved addresses: one that is refused ends it with \<open>None\<close>.\<close>

fun pin_first :: "ip_reader \<Rightarrow> bool \<Rightarrow> string option \<Rightarrow> string list \<Rightarrow> string option" where
  "pin_first ip_of allow pinned [] = pinned"
| "pin_first ip_of allow pinned (s # ss) =
     (case ip_of s of
        None \<Rightarrow> pin_first ip_of allow pinned ss
      | Some ip \<Rightarrow>
          if \<not> ip_allowed ip allow then None
          else pin_first ip_of allow (case pinned of None \<Rightarrow> Some s | Some p \<Rightarrow> Some p) ss)"

definition resolve_pinned_ip :: "ip_reader \<Rightarrow> resolver \<Rightarrow> bool \<Rightarrow> string \<Rightarrow> string option" where
  "resolve_pinned_ip ip_of dns allow host =
     (case ip_of host of
        Some ip \<Rightarrow> if ip_allowed ip allow then Some host else None
      | None \<Rightarrow>
          (case dns host of
             None \<Rightarrow> None
           | Some resolved \<Rightarrow> pin_first ip_of allow None resolved))"

text \<open>The request the transport below receives: the address connected to, the \<open>Host\<close> header and
  the TLS server name.\<close>

record pinned_request =
  pq_connect :: string
  pq_headers :: headers
  pq_sni :: string

definition handle_async_request ::
  "ip_reader \<Rightarrow> resolver \<Rightarrow> bool \<Rightarrow> string \<Rightarrow> headers \<Rightarrow> string + pinned_request" where
  "handle_async_request ip_of dns allow host hs =
     (case resolve_pinned_ip ip_of dns allow host of
        None \<Rightarrow> Inl (''host '' @ repr_str host
                     @ '' failed SSRF validation (unresolvable or non-public)'')
      | Some ip \<Rightarrow>
          Inr \<lparr>pq_connect = ip, pq_headers = AList.update ''Host'' host hs, pq_sni = host\<rparr>)"

fun discovery_ips :: "ip_reader \<Rightarrow> bool \<Rightarrow> string \<Rightarrow> string list \<Rightarrow> string option" where
  "discovery_ips ip_of allow hostname [] = None"
| "discovery_ips ip_of allow hostname (s # ss) =
     (case ip_of s of
        None \<Rightarrow> Some (''invalid URL: '' @ repr_str s
                      @ '' does not appear to be an IPv4 or IPv6 address'')
      | Some ip \<Rightarrow>
          if allow then discovery_ips ip_of allow hostname ss
          else if ip_loopback ip
          then Some (''invalid URL: '' @ hostname @ '' resolves to loopback IP'')
          else if ip_private ip \<or> ip_link_local ip \<or> ip_reserved ip
          then Some (''invalid URL: '' @ hostname @ '' resolves to private/reserved IP'')
          else discovery_ips ip_of allow hostname ss)"

text \<open>\<open>is_url_safe_for_discovery\<close>; the text after \<open>invalid URL: \<close> of an unexpected exception is
  the exception's.\<close>

definition is_url_safe_for_discovery ::
  "(string \<Rightarrow> bool) \<Rightarrow> ip_reader \<Rightarrow> resolver \<Rightarrow> string \<Rightarrow> bool \<Rightarrow> bool \<Rightarrow> bool \<times> string \<times> string list" where
  "is_url_safe_for_discovery brk ip_of dns url require_reachability allow_private =
     (case urlsplit brk url of
        Inl e \<Rightarrow> (False, ''invalid URL: '' @ exc_text e, [])
      | Inr parsed \<Rightarrow>
          if u_scheme parsed \<notin> {''http'', ''https''}
          then (False, ''invalid URL: only http and https supported'', [])
          else case url_hostname parsed of
            None \<Rightarrow> (False, ''invalid URL: no hostname'', [])
          | Some hostname \<Rightarrow>
              (case (if allow_private then None else ip_of hostname) of
                 Some ip \<Rightarrow>
                   if ip_loopback ip
                   then (False, ''invalid URL: '' @ hostname @ '' is a loopback IP'', [])
                   else if ip_private ip \<or> ip_link_local ip \<or> ip_reserved ip
                   then (False, ''invalid URL: '' @ hostname @ '' is a reserved/private IP'', [])
                   else (case dns hostname of
                           None \<Rightarrow> if require_reachability
                                   then (False, ''invalid URL: cannot resolve '' @ hostname, [])
                                   else (True, [], [])
                         | Some ips \<Rightarrow> (case discovery_ips ip_of allow_private hostname ips of
                                         Some err \<Rightarrow> (False, err, [])
                                       | None \<Rightarrow> (True, [], ips)))
               | None \<Rightarrow>
                   (case dns hostname of
                      None \<Rightarrow> if require_reachability
                              then (False, ''invalid URL: cannot resolve '' @ hostname, [])
                              else (True, [], [])
                    | Some ips \<Rightarrow> (case discovery_ips ip_of allow_private hostname ips of
                                    Some err \<Rightarrow> (False, err, [])
                                  | None \<Rightarrow> (True, [], ips)))))"

section \<open>File names and DOM ids\<close>

fun replace_dots :: "string \<Rightarrow> string" where
  "replace_dots (a # b # s) =
     (if a = CHR ''.'' \<and> b = CHR ''.'' then CHR ''_'' # replace_dots s else a # replace_dots (b # s))"
| "replace_dots s = s"

definition replace_char :: "char \<Rightarrow> char \<Rightarrow> string \<Rightarrow> string" where
  "replace_char a b s = map (\<lambda>c. if c = a then b else c) s"

definition is_control :: "char \<Rightarrow> bool" where
  "is_control c \<longleftrightarrow> (of_char c :: nat) < 32 \<or> (of_char c :: nat) = 127"

definition sanitize_filename :: "string \<Rightarrow> string" where
  "sanitize_filename name =
     map (\<lambda>c. if is_control c then CHR ''_'' else c)
       (replace_dots (replace_char (CHR 0x5C) (CHR ''_'')
         (replace_char (CHR ''/'') (CHR ''_'') (replace_char (CHR 0x00) (CHR ''_'') name))))"

definition dom_id_safe :: "char \<Rightarrow> bool" where
  "dom_id_safe c \<longleftrightarrow> is_ascii_alpha c \<or> is_digit c \<or> c = CHR ''_'' \<or> c = CHR ''-''"

text \<open>\<open>sha1\<close> is the hexadecimal digest.\<close>

definition dom_id :: "(string \<Rightarrow> string) \<Rightarrow> string \<Rightarrow> string" where
  "dom_id sha1 s =
     ''i'' @ map (\<lambda>c. if dom_id_safe c then c else CHR ''-'') s @ ''-'' @ take 8 (sha1 s)"

section \<open>OAuth discovery\<close>

definition oauth_addr_ok :: "ip_reader \<Rightarrow> string \<Rightarrow> bool" where
  "oauth_addr_ok ip_of s = (case ip_of s of None \<Rightarrow> True | Some ip \<Rightarrow> \<not> ip_in_private_networks ip)"

definition is_url_safe :: "(string \<Rightarrow> bool) \<Rightarrow> ip_reader \<Rightarrow> resolver \<Rightarrow> string \<Rightarrow> bool" where
  "is_url_safe brk ip_of dns url =
     (case urlsplit brk url of
        Inl e \<Rightarrow> False
      | Inr parsed \<Rightarrow>
          u_scheme parsed \<in> {''http'', ''https''} \<and> u_netloc parsed \<noteq> [] \<and>
          (case url_hostname parsed of
             None \<Rightarrow> False
           | Some host \<Rightarrow>
               or_empty (url_username parsed) = [] \<and> or_empty (url_password parsed) = [] \<and>
               host \<notin> {''localhost'', ''localhost.'', ''broadcasthost''} \<and>
               (case ip_of host of
                  Some ip \<Rightarrow> \<not> ip_in_private_networks ip
                | None \<Rightarrow> (case dns host of
                             None \<Rightarrow> True
                           | Some results \<Rightarrow> list_all (oauth_addr_ok ip_of) results))))"

definition discovery_candidates :: "url_parts \<Rightarrow> string \<Rightarrow> string \<Rightarrow> string list" where
  "discovery_candidates parsed server_url discovery_url =
     (let scheme = (if u_scheme parsed \<noteq> [] then u_scheme parsed else ''https'');
          host = (if u_netloc parsed \<noteq> [] then u_netloc parsed else server_url);
          base = scheme @ ''://'' @ host
      in if discovery_url \<noteq> [] then [discovery_url]
         else [base @ ''/.well-known/oauth-authorization-server'',
               base @ ''/.well-known/openid-configuration''])"

text \<open>\<open>fetch\<close> is the GET: the status and the decoded body, or \<open>None\<close> for a request error or a
  body that is not JSON.\<close>

fun first_document ::
  "(string \<Rightarrow> bool) \<Rightarrow> (string \<Rightarrow> (int \<times> json) option) \<Rightarrow> string list \<Rightarrow> (string \<times> json \<times> jdict) option" where
  "first_document safe fetch [] = None"
| "first_document safe fetch (c # cs) =
     (if \<not> safe c then first_document safe fetch cs
      else case fetch c of
        Some (status, JObj payload) \<Rightarrow>
          if 200 \<le> status \<and> status < 300
          then Some (c, jget_or payload ''issuer'' (JStr []), payload)
          else first_document safe fetch cs
      | _ \<Rightarrow> first_document safe fetch cs)"

definition discover_oauth_metadata ::
  "(string \<Rightarrow> bool) \<Rightarrow> ip_reader \<Rightarrow> resolver \<Rightarrow> (string \<Rightarrow> (int \<times> json) option) \<Rightarrow> string \<Rightarrow> string
     \<Rightarrow> (string \<times> json \<times> jdict) py" where
  "discover_oauth_metadata brk ip_of dns fetch server_url discovery_url =
     (let safe = is_url_safe brk ip_of dns
      in if \<not> safe server_url then Inl (ValueError ''server_url is not a valid safe URL'')
         else case urlsplit brk server_url of
           Inl e \<Rightarrow> Inl e
         | Inr parsed \<Rightarrow>
             if discovery_url \<noteq> [] \<and> \<not> safe discovery_url
             then Inl (ValueError ''discovery_url is not a valid safe URL'')
             else (case first_document safe fetch (discovery_candidates parsed server_url discovery_url) of
                     Some r \<Rightarrow> Inr r
                   | None \<Rightarrow> Inl (RuntimeError ''no oauth discovery document found'')))"

section \<open>Challenges\<close>

record auth_challenge =
  ac_scheme :: string
  ac_error :: string
  ac_error_description :: string
  ac_scope :: string
  ac_resource :: string
  ac_raw :: string

definition bare_challenge :: "string \<Rightarrow> string \<Rightarrow> auth_challenge" where
  "bare_challenge scheme raw =
     \<lparr>ac_scheme = scheme, ac_error = [], ac_error_description = [], ac_scope = [],
      ac_resource = [], ac_raw = raw\<rparr>"

definition blank :: "char \<Rightarrow> bool" where
  "blank c \<longleftrightarrow> c = CHR '' '' \<or> c = CHR 0x09"

text \<open>One parameter value at the front of the text: quoted up to the next quote, bare up to a
  comma or a blank; with it the rest after the blanks and one comma.\<close>

definition take_value :: "string \<Rightarrow> string \<times> string" where
  "take_value s =
     (if s \<noteq> [] \<and> hd s = char_of (34::nat)
      then (takeWhile (\<lambda>c. c \<noteq> char_of (34::nat)) (tl s),
            drop 1 (dropWhile (\<lambda>c. c \<noteq> char_of (34::nat)) (tl s)))
      else (takeWhile (\<lambda>c. \<not> blank c \<and> c \<noteq> CHR '','') s,
            dropWhile (\<lambda>c. \<not> blank c \<and> c \<noteq> CHR '','') s))"

definition skip_separator :: "string \<Rightarrow> string" where
  "skip_separator s =
     (case dropWhile blank s of [] \<Rightarrow> [] | c # r \<Rightarrow> if c = CHR '','' then r else c # r)"

lemma length_dropWhile_lt: "length (dropWhile P s) \<le> length s"
  by (simp add: length_dropWhile_le)

lemma length_take_value: "length (snd (take_value s)) \<le> length s"
  using length_dropWhile_le[of "\<lambda>c. c \<noteq> char_of (34::nat)" "tl s"]
    length_dropWhile_le[of "\<lambda>c. \<not> blank c \<and> c \<noteq> CHR '',''" s]
  by (auto simp: take_value_def)

lemma length_skip_separator: "length (skip_separator s) \<le> length s"
  using length_dropWhile_le[of blank s] by (auto simp: skip_separator_def split: list.splits)

lemma split_once_shorter: "split_once c s = (k, Some r) \<Longrightarrow> length r < length s"
  by (auto dest: split_once_Some)

function split_params :: "(string, string) dict \<Rightarrow> string \<Rightarrow> (string, string) dict" where
  "split_params acc s =
     (case split_once (CHR ''='') (dropWhile blank s) of
        (_, None) \<Rightarrow> acc
      | (key, Some rest) \<Rightarrow>
          if dropWhile blank rest = [] then acc
          else case take_value (dropWhile blank rest) of
            (v, rest') \<Rightarrow>
              split_params (AList.update (lower (strip key)) v acc) (skip_separator rest'))"
  by pat_completeness auto
termination
proof (relation "measure (\<lambda>(acc, s). length s)", goal_cases)
  case 1
  show ?case by simp
next
  case (2 acc s key y rest v rest')
  have "length rest < length (dropWhile blank s)"
    using split_once_shorter[of "CHR ''=''" "dropWhile blank s" key rest] 2 by simp
  moreover have "length rest' \<le> length (dropWhile blank rest)"
    using length_take_value[of "dropWhile blank rest"] 2 by (metis snd_conv)
  ultimately show ?case
    using length_skip_separator[of rest'] length_dropWhile_lt[of blank s]
      length_dropWhile_lt[of blank rest] by simp
qed

declare split_params.simps [simp del]

definition challenge_field :: "(string, string) dict \<Rightarrow> string \<Rightarrow> string" where
  "challenge_field params k = or_empty (map_of params k)"

definition parse_www_authenticate :: "string \<Rightarrow> auth_challenge option" where
  "parse_www_authenticate header =
     (let raw = strip header
      in case split_ws raw of
           [] \<Rightarrow> None
         | [scheme] \<Rightarrow> Some (bare_challenge scheme raw)
         | scheme # rest \<Rightarrow>
             if scheme \<noteq> ''Bearer'' then Some (bare_challenge scheme raw)
             else
               (let params = split_params [] (join '' '' rest)
                in Some \<lparr>ac_scheme = scheme,
                         ac_error = challenge_field params ''error'',
                         ac_error_description = challenge_field params ''error_description'',
                         ac_scope = challenge_field params ''scope'',
                         ac_resource = challenge_field params ''resource'', ac_raw = raw\<rparr>))"

text \<open>The segments \<open>format_auth_challenge\<close> joins with a bullet; \<open>bullet\<close> is that separator, outside
  the code points of the model.\<close>

definition format_auth_challenge :: "string \<Rightarrow> auth_challenge option \<Rightarrow> string" where
  "format_auth_challenge bullet challenge =
     (case challenge of
        None \<Rightarrow> []
      | Some c \<Rightarrow>
          if ac_error c = [] \<and> ac_scope c = [] \<and> ac_resource c = [] then ac_raw c
          else join bullet
            ((if ac_error c \<noteq> []
              then [if ac_error_description c \<noteq> []
                    then ac_error c @ '': '' @ ac_error_description c else ac_error c] else [])
             @ (if ac_scope c \<noteq> [] then [''scope='' @ ac_scope c] else [])
             @ (if ac_resource c \<noteq> [] then [''resource='' @ ac_resource c] else [])))"

section \<open>Lemmas\<close>

lemma pin_first_Some:
  assumes "pin_first ip_of allow pinned ss = Some a" "\<And>p. pinned = Some p \<Longrightarrow> ip_of p \<noteq> None"
  shows "(pinned = Some a \<or> a \<in> set ss) \<and> ip_of a \<noteq> None \<and>
         (\<forall>s \<in> set ss. \<forall>ip. ip_of s = Some ip \<longrightarrow> ip_allowed ip allow)"
  using assms
  by (induction ip_of allow pinned ss rule: pin_first.induct)
     (fastforce split: option.splits if_splits)+

text \<open>The pinned address is one the resolver answered (or the literal itself), it is an allowed
  address, and so is every other address of the host.\<close>

lemma resolve_pinned_ip_Some:
  assumes "resolve_pinned_ip ip_of dns allow host = Some a"
  shows "\<exists>ip. ip_of a = Some ip \<and> ip_allowed ip allow"
    and "a = host \<and> ip_of host \<noteq> None \<or>
         (\<exists>ips. dns host = Some ips \<and> a \<in> set ips \<and>
                (\<forall>s \<in> set ips. \<forall>ip. ip_of s = Some ip \<longrightarrow> ip_allowed ip allow))"
  using assms pin_first_Some[of ip_of allow None]
  by (fastforce simp: resolve_pinned_ip_def split: option.splits if_splits)+

lemma replace_dots_set: "set (replace_dots s) \<subseteq> set s \<union> {CHR ''_''}"
  by (induction s rule: replace_dots.induct) auto

lemma replace_dots_hd: "s \<noteq> [] \<Longrightarrow> replace_dots s \<noteq> [] \<and> hd (replace_dots s) \<in> {hd s, CHR ''_''}"
  by (cases s rule: replace_dots.cases) auto

fun has_dotdot :: "string \<Rightarrow> bool" where
  "has_dotdot (a # b # s) = (a = CHR ''.'' \<and> b = CHR ''.'' \<or> has_dotdot (b # s))"
| "has_dotdot s = False"

lemma has_dotdot_contains: "has_dotdot s \<longleftrightarrow> contains s ''..''"
  by (induction s rule: has_dotdot.induct) (auto simp: prefix_Cons)

lemma has_dotdot_Cons:
  "has_dotdot (a # s) \<longleftrightarrow> a = CHR ''.'' \<and> s \<noteq> [] \<and> hd s = CHR ''.'' \<or> has_dotdot s"
  by (cases s) auto

lemma replace_dots_no_dotdot: "\<not> has_dotdot (replace_dots s)"
proof (induction s rule: replace_dots.induct)
  case (1 a b s)
  then show ?case
    using replace_dots_hd[of "b # s"] by (auto simp: has_dotdot_Cons)
qed auto

lemma has_dotdot_map:
  "(\<And>c. f c = CHR ''.'' \<longleftrightarrow> c = CHR ''.'') \<Longrightarrow> has_dotdot (map f s) = has_dotdot s"
  by (induction s rule: has_dotdot.induct) auto

lemma sanitize_filename_safe:
  "CHR ''/'' \<notin> set (sanitize_filename s)" "CHR 0x5C \<notin> set (sanitize_filename s)"
  "\<not> contains (sanitize_filename s) ''..''" "\<forall>c \<in> set (sanitize_filename s). \<not> is_control c"
proof -
  let ?r = "replace_char (CHR 0x5C) (CHR ''_'') (replace_char (CHR ''/'') (CHR ''_'')
              (replace_char (CHR 0x00) (CHR ''_'') s))"
  have r: "CHR ''/'' \<notin> set ?r" "CHR 0x5C \<notin> set ?r" by (auto simp: replace_char_def)
  show "CHR ''/'' \<notin> set (sanitize_filename s)" "CHR 0x5C \<notin> set (sanitize_filename s)"
    using replace_dots_set[of ?r] r by (auto simp: sanitize_filename_def split: if_splits)
  show "\<not> contains (sanitize_filename s) ''..''"
    unfolding sanitize_filename_def has_dotdot_contains[symmetric]
    by (subst has_dotdot_map) (auto simp: is_control_def replace_dots_no_dotdot)
  show "\<forall>c \<in> set (sanitize_filename s). \<not> is_control c"
    by (auto simp: sanitize_filename_def is_control_def)
qed

lemma first_document_safe:
  "first_document safe fetch cs = Some (c, i, d) \<Longrightarrow> c \<in> set cs \<and> safe c"
  by (induction safe fetch cs rule: first_document.induct)
     (auto split: if_splits option.splits prod.splits json.splits)

end
