(* ===== verification/Executor.thy ===== *)
theory Executor
  imports Openapi_Model Proxy Ssrf
begin

text \<open>
  \<^verbatim>\<open>openapi/executor.py\<close>: one \<open>tools/call\<close> against the REST API behind an OpenAPI server, and
  \<open>redact_query_params\<close> of \<^verbatim>\<open>trace/recorder.py\<close>.

  What the executor reads from outside is the record \<open>exec_env\<close>. \<open>httpx.URL\<close> is a type of its own,
  \<open>'u\<close>, with the operations of \<open>url_lib\<close>; \<open>None\<close> of an operation that builds a URL is
  \<open>httpx.InvalidURL\<close>. The name server and the network are asked once for each hop, so what they
  answer depends on the hop. \<open>httpx.Headers\<close> is an association list read without regard to case.
  The authentication rules only assign headers, so they run on an empty dictionary whose entries
  are then assigned to the request's headers in order. One deadline covers all hops: it may pass
  while a name is resolved, a request is sent or a body is read.
\<close>

section \<open>\<open>httpx.Headers\<close>\<close>

text \<open>Names compare as lower-case bytes, which changes ASCII letters only.\<close>

definition lower_ascii :: "string \<Rightarrow> string" where
  "lower_ascii s =
     map (\<lambda>c. let n = (of_char c :: nat) in if 65 \<le> n \<and> n \<le> 90 then char_of (n + 32) else c) s"

definition same_name :: "string \<Rightarrow> string \<times> string \<Rightarrow> bool" where
  "same_name name kv \<longleftrightarrow> lower_ascii (fst kv) = lower_ascii name"

text \<open>\<open>headers[name]\<close>: the values of every occurrence, joined.\<close>

definition hx_get :: "headers \<Rightarrow> string \<Rightarrow> string option" where
  "hx_get hs name =
     (case filter (same_name name) hs of [] \<Rightarrow> None | kvs \<Rightarrow> Some (join '', '' (map snd kvs)))"

text \<open>\<open>headers[name] = v\<close>: the first occurrence is replaced and the others removed.\<close>

fun hx_set :: "string \<Rightarrow> string \<Rightarrow> headers \<Rightarrow> headers" where
  "hx_set name v [] = [(name, v)]"
| "hx_set name v (kv # hs) =
     (if same_name name kv then (name, v) # filter (\<lambda>x. \<not> same_name name x) hs
      else kv # hx_set name v hs)"

definition hx_remove :: "string \<Rightarrow> headers \<Rightarrow> headers" where
  "hx_remove name hs = filter (\<lambda>x. \<not> same_name name x) hs"

definition hx_set_all :: "headers \<Rightarrow> headers \<Rightarrow> headers" where
  "hx_set_all kvs hs = foldl (\<lambda>h (k, v). hx_set k v h) hs kvs"

text \<open>\<open>dict(headers)\<close>: lower-case names, once each, with the joined values.\<close>

definition hx_dict :: "headers \<Rightarrow> headers" where
  "hx_dict hs =
     map (\<lambda>k. (k, case hx_get hs k of Some v \<Rightarrow> v | None \<Rightarrow> []))
         (rev (remdups (rev (map (\<lambda>kv. lower_ascii (fst kv)) hs))))"

section \<open>Query strings\<close>

definition hex_digit_val :: "char \<Rightarrow> nat option" where
  "hex_digit_val c =
     (let n = (of_char c :: nat)
      in if 48 \<le> n \<and> n \<le> 57 then Some (n - 48)
         else if 65 \<le> n \<and> n \<le> 70 then Some (n - 55)
         else if 97 \<le> n \<and> n \<le> 102 then Some (n - 87) else None)"

fun unquote_to_bytes :: "string \<Rightarrow> string" where
  "unquote_to_bytes (c # a # b # s) =
     (if c = CHR ''%''
      then (case (hex_digit_val a, hex_digit_val b) of
              (Some x, Some y) \<Rightarrow> char_of (16 * x + y) # unquote_to_bytes s
            | _ \<Rightarrow> c # unquote_to_bytes (a # b # s))
      else c # unquote_to_bytes (a # b # s))"
| "unquote_to_bytes s = s"

text \<open>\<open>urllib.parse.unquote\<close>: the runs of ASCII text are decoded, \<open>dec\<close> being the UTF-8 decoding that
  replaces what is not valid. The second argument is the run so far, in reverse.\<close>

fun unquote_runs :: "(string \<Rightarrow> string) \<Rightarrow> string \<Rightarrow> string \<Rightarrow> string" where
  "unquote_runs dec run [] = dec (unquote_to_bytes (rev run))"
| "unquote_runs dec run (c # s) =
     (if (of_char c :: nat) < 128 then unquote_runs dec (c # run) s
      else dec (unquote_to_bytes (rev run)) @ [c] @ unquote_runs dec [] s)"

definition url_unquote :: "(string \<Rightarrow> string) \<Rightarrow> string \<Rightarrow> string" where
  "url_unquote dec s = (if CHR ''%'' \<in> set s then unquote_runs dec [] s else s)"

definition parse_qsl :: "(string \<Rightarrow> string) \<Rightarrow> string \<Rightarrow> (string \<times> string) list" where
  "parse_qsl dec qs =
     map (\<lambda>piece. case split_once (CHR ''='') piece of
                    (n, v) \<Rightarrow> (url_unquote dec (replace_char (CHR ''+'') (CHR '' '') n),
                               url_unquote dec (replace_char (CHR ''+'') (CHR '' '') (or_empty v))))
         (filter (\<lambda>p. p \<noteq> []) (split_char (CHR ''&'') qs))"

definition quote_plus_safe :: "string \<Rightarrow> string \<Rightarrow> string" where
  "quote_plus_safe safe s = replace_char (CHR '' '') (CHR ''+'') (quote ('' '' @ safe) s)"

definition urlencode_safe :: "string \<Rightarrow> (string \<times> string) list \<Rightarrow> string" where
  "urlencode_safe safe pairs =
     join ''&'' (map (\<lambda>(k, v). quote_plus_safe safe k @ ''='' @ quote_plus_safe safe v) pairs)"

definition redact_query_params ::
  "(string \<Rightarrow> bool) \<Rightarrow> (string \<Rightarrow> string) \<Rightarrow> string \<Rightarrow> string list \<Rightarrow> string py" where
  "redact_query_params brk dec url names =
     (if names = [] then Inr url
      else case urlsplit brk url of
        Inl e \<Rightarrow> Inl e
      | Inr parts \<Rightarrow>
          if u_query parts = [] then Inr url
          else
            (let pairs = parse_qsl dec (u_query parts)
             in if \<not> list_ex (\<lambda>(n, v). n \<in> set names) pairs then Inr url
                else Inr (urlunsplit (parts\<lparr>u_query :=
                       urlencode_safe ''*'' (map (\<lambda>(n, v). (n, if n \<in> set names then ''****'' else v)) pairs)\<rparr>))))"

section \<open>Environment\<close>

record 'u url_lib =
  ul_parse :: "string \<Rightarrow> 'u option"
  ul_join :: "'u \<Rightarrow> string \<Rightarrow> 'u option"
  ul_scheme :: "'u \<Rightarrow> string"
  ul_host :: "'u \<Rightarrow> string"
  ul_port :: "'u \<Rightarrow> int option"
  ul_userinfo :: "'u \<Rightarrow> string"
  ul_params :: "'u \<Rightarrow> (string \<times> string) list"
  ul_with_params :: "'u \<Rightarrow> (string \<times> string) list \<Rightarrow> 'u option"
  ul_text :: "'u \<Rightarrow> string"

text \<open>How reading a body ends: with the body, with an \<open>httpx.HTTPError\<close> (its class and whether it is a
  timeout), at the deadline, or with any other exception.\<close>

datatype body_end = Body_complete | Body_failed string bool | Body_deadline | Body_raised string

record upstream_response =
  ur_status :: int
  ur_headers :: headers
  ur_chunks :: "string list"
  ur_end :: body_end

datatype send_outcome =
    Sent upstream_response
  | Send_failed string bool
  | Send_deadline
  | Send_raised string

record 'u http_call =
  hc_method :: string
  hc_url :: 'u
  hc_headers :: headers
  hc_body :: "string option"

datatype loaded = Loaded json | Load_value_error | Load_raised string

record 'u exec_env =
  ex_urls :: "'u url_lib"
  ex_auth :: auth_env
  ex_iter_errors :: iter_errors
  ex_ellipsis :: string
  ex_float_text :: "rat \<Rightarrow> string"
  ex_compact_dumps :: "json \<Rightarrow> string"
  ex_loads :: "string \<Rightarrow> loaded"
  ex_dumps :: "json \<Rightarrow> string"
  ex_b64 :: "string \<Rightarrow> string"
  ex_charset :: "upstream_response \<Rightarrow> string option"
  ex_decode :: "string \<Rightarrow> string \<Rightarrow> string option"
  ex_utf8 :: "string \<Rightarrow> string"
  ex_brk :: "string \<Rightarrow> bool"
  ex_general :: "rat \<Rightarrow> string"
  ex_ip_of :: ip_reader
  ex_dns :: "nat \<Rightarrow> resolver"
  ex_dns_deadline :: "nat \<Rightarrow> bool"
  ex_send :: "nat \<Rightarrow> 'u http_call \<Rightarrow> send_outcome"
  ex_wire_headers :: "'u http_call \<Rightarrow> headers"
  ex_elapsed :: "nat \<Rightarrow> rat"
  ex_observed :: bool

record call_limits =
  cl_timeout_seconds :: rat
  cl_max_response_bytes :: int
  cl_max_redirects :: int
  cl_allow_private_networks :: bool

record call_result =
  cr_content :: "json list"
  cr_structured :: "jdict option"
  cr_is_error :: bool
  cr_needs_authentication :: bool

definition call_result_to_mcp :: "call_result \<Rightarrow> jdict" where
  "call_result_to_mcp r =
     [(''content'', JList (cr_content r)), (''isError'', JBool (cr_is_error r))]
     @ (case cr_structured r of None \<Rightarrow> [] | Some d \<Rightarrow> [(''structuredContent'', JObj d)])"

definition text_content :: "string \<Rightarrow> json" where
  "text_content t = JObj [(''type'', JStr ''text''), (''text'', JStr t)]"

definition text_result :: "string \<Rightarrow> call_result" where
  "text_result t =
     \<lparr>cr_content = [text_content t], cr_structured = None, cr_is_error = False,
      cr_needs_authentication = False\<rparr>"

definition failure :: "string \<Rightarrow> bool \<Rightarrow> call_result" where
  "failure t needs_authentication =
     \<lparr>cr_content = [text_content t], cr_structured = None, cr_is_error = True,
      cr_needs_authentication = needs_authentication\<rparr>"

text \<open>What one part of the call comes to: a result, an \<open>httpx.HTTPError\<close>, the deadline, or an
  exception \<open>call_tool\<close> does not catch.\<close>

datatype hop_outcome =
    Hop_done call_result
  | Hop_http_error string bool
  | Hop_deadline
  | Hop_raised string

section \<open>Reading the response\<close>

fun read_chunks :: "int \<Rightarrow> string \<Rightarrow> string list \<Rightarrow> string option" where
  "read_chunks limit body [] = Some body"
| "read_chunks limit body (chunk # cs) =
     (let body' = body @ chunk in if int (length body') > limit then None else read_chunks limit body' cs)"

text \<open>\<open>int(text)\<close> refuses more than 4300 digits.\<close>

definition int_text :: "string \<Rightarrow> int option" where
  "int_text s = (if length s > 4300 then None else parse_int s)"

definition read_capped :: "upstream_response \<Rightarrow> int \<Rightarrow> hop_outcome + string option" where
  "read_capped response limit =
     (let declared = or_empty (hx_get (ur_headers response) ''content-length'');
          body = (case read_chunks limit [] (ur_chunks response) of
                    None \<Rightarrow> Inr None
                  | Some b \<Rightarrow>
                      (case ur_end response of
                         Body_complete \<Rightarrow> Inr (Some b)
                       | Body_failed cls timeout \<Rightarrow> Inl (Hop_http_error cls timeout)
                       | Body_deadline \<Rightarrow> Inl Hop_deadline
                       | Body_raised cls \<Rightarrow> Inl (Hop_raised cls)))
      in if py_isdigit declared
         then (case int_text declared of
                 None \<Rightarrow> Inl (Hop_raised ''ValueError'')
               | Some n \<Rightarrow> if n > limit then Inr None else body)
         else body)"

definition decode_body :: "'u exec_env \<Rightarrow> string \<Rightarrow> upstream_response \<Rightarrow> string" where
  "decode_body E body response =
     (let charset = (case ex_charset E response of
                       Some c \<Rightarrow> if c \<noteq> [] then c else ''utf-8'' | None \<Rightarrow> ''utf-8'')
      in case ex_decode E charset body of Some t \<Rightarrow> t | None \<Rightarrow> ex_utf8 E body)"

text \<open>\<open>text.replace(old, new)\<close> for a non-empty \<open>old\<close>.\<close>

function replace_all :: "string \<Rightarrow> string \<Rightarrow> string \<Rightarrow> string" where
  "replace_all old new [] = []"
| "replace_all old new (c # s) =
     (if old \<noteq> [] \<and> prefix old (c # s) then new @ replace_all old new (drop (length old) (c # s))
      else c # replace_all old new s)"
  by pat_completeness auto
termination
  by (relation "measure (\<lambda>(old, new, s). length s)") auto

declare replace_all.simps(2) [simp del]

definition redact_secret :: "string \<Rightarrow> string \<Rightarrow> string" where
  "redact_secret text secret =
     (if strip secret \<noteq> [] then replace_all (strip secret) ''****'' text else text)"

definition redact_secrets :: "string \<Rightarrow> registered_server \<Rightarrow> string" where
  "redact_secrets text server =
     foldl redact_secret text
       [srv_api_key_value server, srv_bearer_token server, srv_basic_password server]"

definition ERROR_BODY_CHARS :: nat where "ERROR_BODY_CHARS = 2000"

definition TEXT_MEDIA :: "string list" where
  "TEXT_MEDIA = [''application/xml'', ''application/x-www-form-urlencoded'', ''application/javascript'']"

definition is_json_media :: "string \<Rightarrow> bool" where
  "is_json_media media \<longleftrightarrow>
     (let base = lower (strip (fst (split_once (CHR '';'') media)))
      in base = ''application/json'' \<or> startswith base ''application/'' \<and> endswith base ''+json'')"

definition json_result :: "'u exec_env \<Rightarrow> string \<Rightarrow> upstream_response \<Rightarrow> tool \<Rightarrow> hop_outcome" where
  "json_result E body response t =
     (case ex_loads E body of
        Load_value_error \<Rightarrow> Hop_done (text_result (decode_body E body response))
      | Load_raised cls \<Rightarrow> Hop_raised cls
      | Loaded v \<Rightarrow>
          (let text = text_result (ex_dumps E v);
               output = rp_output (tl_plan t)
           in case td_output_schema (tl_definition t) of
                None \<Rightarrow> Hop_done text
              | Some schema \<Rightarrow>
                  if output = Out_none then Hop_done text
                  else
                    (case (if output = Out_object then v else JObj [(''result'', v)]) of
                       JObj candidate \<Rightarrow>
                         if argument_error (ex_ellipsis E) (ex_iter_errors E) schema (JObj candidate) \<noteq> None
                         then Hop_done text
                         else Hop_done (text\<lparr>cr_structured := Some candidate\<rparr>)
                     | _ \<Rightarrow> Hop_done text)))"

definition is_success :: "int \<Rightarrow> bool" where
  "is_success status \<longleftrightarrow> 200 \<le> status \<and> status \<le> 299"

definition error_summary :: "int \<Rightarrow> request_plan \<Rightarrow> string" where
  "error_summary status plan =
     ''The upstream API returned HTTP '' @ str_int status @ '' for '' @ rp_method plan @ '' '' @ rp_path plan"

definition error_detail :: "'u exec_env \<Rightarrow> string \<Rightarrow> upstream_response \<Rightarrow> registered_server \<Rightarrow> string" where
  "error_detail E body response server =
     take ERROR_BODY_CHARS (redact_secrets (decode_body E body response) server)"

definition call_response ::
  "'u exec_env \<Rightarrow> upstream_response \<Rightarrow> tool \<Rightarrow> registered_server \<Rightarrow> call_limits \<Rightarrow> hop_outcome" where
  "call_response E response t server limits =
     (case read_capped response (cl_max_response_bytes limits) of
        Inl out \<Rightarrow> out
      | Inr None \<Rightarrow>
          Hop_done (failure (''The upstream response was larger than ''
            @ str_int (cl_max_response_bytes limits) @ '' bytes (openapi.max_response_bytes)'') False)
      | Inr (Some body) \<Rightarrow>
          (let plan = tl_plan t;
               media = lower (strip (fst (split_once (CHR '';'')
                         (or_empty (hx_get (ur_headers response) ''content-type'')))))
           in if \<not> is_success (ur_status response)
              then (let detail = error_detail E body response server;
                        summary = error_summary (ur_status response) plan
                    in Hop_done (failure (if detail \<noteq> [] then summary @ '': '' @ detail else summary) False))
              else if body = []
              then Hop_done (text_result (''HTTP '' @ str_int (ur_status response) @ '' (no content)''))
              else if is_json_media media then json_result E body response t
              else if startswith media ''text/'' \<or> media \<in> set TEXT_MEDIA \<or> endswith media ''+xml''
              then Hop_done (text_result (decode_body E body response))
              else Hop_done
                \<lparr>cr_content =
                   [JObj [(''type'', JStr ''resource''),
                          (''resource'', JObj
                             [(''uri'', JStr (''openapi://'' @ srv_id server @ rp_path plan)),
                              (''mimeType'', JStr (if media \<noteq> [] then media else ''application/octet-stream'')),
                              (''blob'', JStr (ex_b64 E body))])]],
                 cr_structured = None, cr_is_error = False, cr_needs_authentication = False\<rparr>))"

section \<open>Sending\<close>

type_synonym origin = "string \<times> string \<times> int option"

definition default_port :: "string \<Rightarrow> int option" where
  "default_port scheme =
     (if scheme = ''http'' then Some 80 else if scheme = ''https'' then Some 443 else None)"

definition url_origin :: "'u url_lib \<Rightarrow> 'u \<Rightarrow> origin" where
  "url_origin L url =
     (ul_scheme L url, ul_host L url,
      case ul_port L url of
        Some p \<Rightarrow> if p \<noteq> 0 then Some p else default_port (ul_scheme L url)
      | None \<Rightarrow> default_port (ul_scheme L url))"

definition with_auth_params :: "'u url_lib \<Rightarrow> 'u \<Rightarrow> headers \<Rightarrow> 'u option" where
  "with_auth_params L url auth_params =
     (if auth_params = [] then Some url
      else let taken = map (\<lambda>(k, v). lower k) auth_params;
               kept = filter (\<lambda>(k, v). lower k \<notin> set taken) (ul_params L url)
           in ul_with_params L url (kept @ auth_params))"

text \<open>The entry for the trace recorder, when one listens.\<close>

definition observe ::
  "'u exec_env \<Rightarrow> registered_server \<Rightarrow> 'u http_call \<Rightarrow> headers \<Rightarrow> nat \<Rightarrow> int \<Rightarrow> headers \<Rightarrow> string \<Rightarrow> string
     \<Rightarrow> upstream_exchange list py" where
  "observe E server call auth_params hop status response_headers err template =
     (if \<not> ex_observed E then Inr []
      else case redact_query_params (ex_brk E) (ex_utf8 E) (ul_text (ex_urls E) (hc_url call))
                  (map fst auth_params) of
        Inl e \<Rightarrow> Inl e
      | Inr url \<Rightarrow>
          Inr [\<lparr>ux_method = hc_method call, ux_url = url,
                ux_url_template = rstrip_char (CHR ''/'') (srv_openapi_base_url server) @ template,
                ux_status = status, ux_duration_ms = ex_elapsed E hop * 1000, ux_error = err,
                ux_request_headers =
                  sanitize_trace_headers (if srv_api_key_name server \<noteq> [] then [srv_api_key_name server] else [])
                    (hx_dict (ex_wire_headers E call)),
                ux_response_headers = sanitize_trace_headers [] response_headers,
                ux_request_body = or_empty (hc_body call)\<rparr>])"

record 'u hop_state =
  hp_url :: 'u
  hp_method :: string
  hp_body :: "string option"
  hp_headers :: headers

text \<open>After a response: the result of the call, or the target of a redirect to follow.\<close>

definition redirect_target ::
  "'u exec_env \<Rightarrow> tool \<Rightarrow> registered_server \<Rightarrow> headers \<Rightarrow> call_limits \<Rightarrow> origin \<Rightarrow> 'u
     \<Rightarrow> upstream_response \<Rightarrow> hop_outcome + 'u" where
  "redirect_target E t server auth_params limits origin url response =
     (let L = ex_urls E;
          location = or_empty (hx_get (ur_headers response) ''location'')
      in if \<not> (300 \<le> ur_status response \<and> ur_status response < 400 \<and> location \<noteq> [])
         then Inl (call_response E response t server limits)
         else case ul_join L url location of
           None \<Rightarrow> Inl (Hop_raised ''InvalidURL'')
         | Some target \<Rightarrow>
             if ul_userinfo L target \<noteq> []
             then Inl (Hop_done (failure
                    ''The upstream API redirected to a URL with credentials in it; not followed'' False))
             else if url_origin L target \<noteq> origin
             then (case redact_query_params (ex_brk E) (ex_utf8 E) (ul_text L target) (map fst auth_params) of
                     Inl e \<Rightarrow> Inl (Hop_raised ''ValueError'')
                   | Inr shown \<Rightarrow>
                       Inl (Hop_done (failure
                         (''The upstream API redirected to another origin ('' @ shown @ ''); not followed'') False)))
             else Inr target)"

text \<open>The request of the next hop: after 303, and after 301 or 302 to a POST, a GET without a body.\<close>

definition next_hop :: "int \<Rightarrow> 'u \<Rightarrow> 'u hop_state \<Rightarrow> 'u hop_state" where
  "next_hop status url st =
     (if status = 303 \<or> status \<in> {301, 302} \<and> hp_method st = ''POST''
      then \<lparr>hp_url = url, hp_method = ''GET'', hp_body = None,
            hp_headers = hx_remove ''Content-Type'' (hp_headers st)\<rparr>
      else st\<lparr>hp_url := url\<rparr>)"

type_synonym 'u hops = "'u http_call list \<times> upstream_exchange list \<times> hop_outcome"

definition hop_call :: "'u hop_state \<Rightarrow> 'u http_call" where
  "hop_call st =
     \<lparr>hc_method = hp_method st, hc_url = hp_url st, hc_headers = hp_headers st, hc_body = hp_body st\<rparr>"

definition hop_refused :: "string \<Rightarrow> call_result" where
  "hop_refused host =
     failure (''The upstream host '' @ repr_str host @ '' failed SSRF validation, so it was not called'') False"

text \<open>One pass through the loop, up to the test for the last hop: the request sent, if any, and the
  result of the call or the status and target of the redirect to follow.\<close>

definition send_one ::
  "'u exec_env \<Rightarrow> tool \<Rightarrow> registered_server \<Rightarrow> headers \<Rightarrow> call_limits \<Rightarrow> origin \<Rightarrow> nat \<Rightarrow> 'u hop_state
     \<Rightarrow> 'u http_call list \<times> upstream_exchange list \<times> (hop_outcome + int \<times> 'u)" where
  "send_one E t server auth_params limits origin hop st =
     (let host = ul_host (ex_urls E) (hp_url st); call = hop_call st
      in if ex_dns_deadline E hop then ([], [], Inl Hop_deadline)
         else case resolve_pinned_ip (ex_ip_of E) (ex_dns E hop) (cl_allow_private_networks limits) host of
           None \<Rightarrow> ([], [], Inl (Hop_done (hop_refused host)))
         | Some _ \<Rightarrow>
             (case ex_send E hop call of
                Send_deadline \<Rightarrow> ([call], [], Inl Hop_deadline)
              | Send_raised cls \<Rightarrow> ([call], [], Inl (Hop_raised cls))
              | Send_failed cls timeout \<Rightarrow>
                  (case observe E server call auth_params hop 0 [] cls (rp_path (tl_plan t)) of
                     Inl e \<Rightarrow> ([call], [], Inl (Hop_raised ''ValueError''))
                   | Inr xs \<Rightarrow> ([call], xs, Inl (Hop_http_error cls timeout)))
              | Sent response \<Rightarrow>
                  (case observe E server call auth_params hop (ur_status response)
                          (hx_dict (ur_headers response)) [] (rp_path (tl_plan t)) of
                     Inl e \<Rightarrow> ([call], [], Inl (Hop_raised ''ValueError''))
                   | Inr xs \<Rightarrow>
                       ([call], xs,
                        map_sum (\<lambda>out. out) (\<lambda>target. (ur_status response, target))
                          (redirect_target E t server auth_params limits origin (hp_url st) response)))))"

definition too_many_redirects :: "call_limits \<Rightarrow> call_result" where
  "too_many_redirects limits =
     failure (''The upstream API redirected more than '' @ str_int (cl_max_redirects limits) @ '' times'') False"

text \<open>The hops left after this one are \<open>left\<close>; \<open>hop\<close> is the number of this one.\<close>

fun send_hops ::
  "'u exec_env \<Rightarrow> tool \<Rightarrow> registered_server \<Rightarrow> headers \<Rightarrow> call_limits \<Rightarrow> origin \<Rightarrow> nat \<Rightarrow> nat \<Rightarrow> 'u hop_state
     \<Rightarrow> 'u hops" where
  "send_hops E t server auth_params limits origin left hop st =
     (case send_one E t server auth_params limits origin hop st of
        (calls, xs, Inl out) \<Rightarrow> (calls, xs, out)
      | (calls, xs, Inr (status, target)) \<Rightarrow>
          (case left of
             0 \<Rightarrow> (calls, xs, Hop_done (too_many_redirects limits))
           | Suc l \<Rightarrow>
               (case with_auth_params (ex_urls E) target auth_params of
                  None \<Rightarrow> (calls, xs, Hop_raised ''InvalidURL'')
                | Some url \<Rightarrow>
                    (case send_hops E t server auth_params limits origin l (Suc hop)
                            (next_hop status url st) of
                       (calls', xs', out) \<Rightarrow> (calls @ calls', xs @ xs', out)))))"

declare send_hops.simps [simp del]

definition send_request ::
  "'u exec_env \<Rightarrow> tool \<Rightarrow> registered_server \<Rightarrow> prepared_request \<Rightarrow> headers \<Rightarrow> headers \<Rightarrow> call_limits \<Rightarrow> 'u hops" where
  "send_request E t server prepared hs auth_params limits =
     (let L = ex_urls E;
          base = srv_openapi_base_url server
      in case (ul_parse L (rstrip_char (CHR ''/'') base @ pd_path prepared), ul_parse L base) of
           (Some first, Some home) \<Rightarrow>
             if url_origin L first \<noteq> url_origin L home
             then ([], [], Hop_done (failure
                     (''The request URL is not on the base URL'' @ [CHR 0x27]
                      @ ''s origin, so it was not sent'') False))
             else (case ul_with_params L first (pd_query prepared) of
                     None \<Rightarrow> ([], [], Hop_raised ''InvalidURL'')
                   | Some asked \<Rightarrow>
                       (case with_auth_params L asked auth_params of
                          None \<Rightarrow> ([], [], Hop_raised ''InvalidURL'')
                        | Some url \<Rightarrow>
                            if cl_max_redirects limits < 0 then ([], [], Hop_raised ''AssertionError'')
                            else send_hops E t server auth_params limits (url_origin L home)
                                   (nat (cl_max_redirects limits)) 0
                                   \<lparr>hp_url = url, hp_method = pd_method prepared,
                                    hp_body = pd_body prepared, hp_headers = hs\<rparr>))
         | _ \<Rightarrow> ([], [], Hop_raised ''InvalidURL''))"

section \<open>\<open>call_tool\<close>\<close>

record 'u call_run =
  cu_tokens :: token_cache
  cu_obo :: obo_token_cache
  cu_sent :: sent_forms
  cu_server :: registered_server
  cu_calls :: "'u http_call list"
  cu_exchanges :: "upstream_exchange list"
  cu_outcome :: "string + call_result"

definition not_sent ::
  "registered_server \<Rightarrow> token_cache \<times> obo_token_cache \<Rightarrow> string + call_result \<Rightarrow> 'u call_run" where
  "not_sent server caches out =
     \<lparr>cu_tokens = fst caches, cu_obo = snd caches, cu_sent = [], cu_server = server,
      cu_calls = [], cu_exchanges = [], cu_outcome = out\<rparr>"

definition ACCEPT :: string where
  "ACCEPT = ''application/json, text/plain;q=0.9, */*;q=0.8''"

text \<open>The request's own headers, before the server's credentials.\<close>

definition request_headers :: "prepared_request \<Rightarrow> headers" where
  "request_headers prepared =
     (let h1 = hx_set_all (pd_headers prepared)
                 [(''Accept'', ACCEPT), (''Accept-Encoding'', ''identity''), (''User-Agent'', ''k5n-mcp-hub'')]
      in case pd_content_type prepared of
           Some c \<Rightarrow> if c \<noteq> [] then hx_set ''Content-Type'' c h1 else h1
         | None \<Rightarrow> h1)"

definition hop_result :: "'u exec_env \<Rightarrow> call_limits \<Rightarrow> hop_outcome \<Rightarrow> string + call_result" where
  "hop_result E limits out =
     (let timed_out = failure (''The upstream API timed out after ''
                        @ ex_general E (cl_timeout_seconds limits) @ ''s'') False
      in case out of
           Hop_done r \<Rightarrow> Inr r
         | Hop_deadline \<Rightarrow> Inr timed_out
         | Hop_http_error cls timeout \<Rightarrow>
             if timeout then Inr timed_out
             else Inr (failure (''Could not reach the upstream API ('' @ cls @ '')'') False)
         | Hop_raised cls \<Rightarrow> Inl cls)"

definition auth_start :: "registered_server \<Rightarrow> token_cache \<times> obo_token_cache \<Rightarrow> auth_state" where
  "auth_start server caches =
     \<lparr>as_headers = [], as_params = Some [], as_server = server, as_tokens = fst caches,
      as_obo = snd caches, as_sent = []\<rparr>"

definition no_token_message :: string where
  "no_token_message =
     ''Could not obtain a token for the upstream API, so the upstream API was not called''"

definition send_authenticated ::
  "'u exec_env \<Rightarrow> tool \<Rightarrow> prepared_request \<Rightarrow> call_limits \<Rightarrow> auth_state \<times> auth_error option \<Rightarrow> 'u call_run" where
  "send_authenticated E t prepared limits auth =
     (case auth of (a, err) \<Rightarrow>
       (let run = (not_sent (as_server a) (as_tokens a, as_obo a) (Inl []))\<lparr>cu_sent := as_sent a\<rparr>
        in case err of
             Some (OBOAuthError detail needs_authentication) \<Rightarrow>
               run\<lparr>cu_outcome := Inr (failure no_token_message needs_authentication)\<rparr>
           | Some (Raised e) \<Rightarrow> run\<lparr>cu_outcome := Inl (exc_text e)\<rparr>
           | None \<Rightarrow>
               (case send_request E t (as_server a) prepared
                       (hx_set_all (as_headers a) (request_headers prepared))
                       (case as_params a of Some ps \<Rightarrow> ps | None \<Rightarrow> []) limits of
                  (calls, exchanges, out) \<Rightarrow>
                    run\<lparr>cu_calls := calls, cu_exchanges := exchanges,
                        cu_outcome := hop_result E limits out\<rparr>)))"

definition call_tool ::
  "'u exec_env \<Rightarrow> tool \<Rightarrow> jdict \<Rightarrow> registered_server \<Rightarrow> caller_identity \<Rightarrow> call_limits
     \<Rightarrow> token_cache \<times> obo_token_cache \<Rightarrow> 'u call_run" where
  "call_tool E t arguments server caller limits caches =
     (if srv_openapi_base_url server = []
      then not_sent server caches (Inr (failure
             ''This server has no base URL yet, so the call was not sent'' False))
      else case argument_error (ex_ellipsis E) (ex_iter_errors E) (td_input_schema (tl_definition t))
                  (JObj arguments) of
        Some problem \<Rightarrow> not_sent server caches (Inr (failure (''Invalid arguments: '' @ problem) False))
      | None \<Rightarrow>
          (case build_http_request (ex_float_text E) (ex_compact_dumps E) (tl_plan t) arguments of
             Inl (ArgumentProblem problem) \<Rightarrow>
               not_sent server caches (Inr (failure (''Invalid arguments: '' @ problem) False))
           | Inl (BuildRaised e) \<Rightarrow> not_sent server caches (Inl (exc_text e))
           | Inr prepared \<Rightarrow>
               send_authenticated E t prepared limits
                 (apply_server_auth (ex_auth E) caller (auth_start server caches))))"

section \<open>Headers\<close>

lemma same_name_self [simp]: "same_name k (k, v)"
  by (simp add: same_name_def)

lemma filter_hx_set:
  "filter (same_name k) (hx_set k v hs) = [(k, v)]"
  by (induction k v hs rule: hx_set.induct) (auto simp: filter_empty_conv)

lemma filter_hx_set_other:
  "lower_ascii k' \<noteq> lower_ascii k \<Longrightarrow> filter (same_name k') (hx_set k v hs) = filter (same_name k') hs"
  by (induction k v hs rule: hx_set.induct)
     (auto simp: same_name_def intro!: filter_cong)

lemma hx_get_set [simp]: "hx_get (hx_set k v hs) k = Some v"
  by (simp add: hx_get_def filter_hx_set)

lemma hx_get_set_other: "lower_ascii k' \<noteq> lower_ascii k \<Longrightarrow> hx_get (hx_set k v hs) k' = hx_get hs k'"
  by (simp add: hx_get_def filter_hx_set_other)

lemma hx_get_remove_other:
  assumes "lower_ascii k' \<noteq> lower_ascii k"
  shows "hx_get (hx_remove k hs) k' = hx_get hs k'"
proof -
  have "filter (same_name k') (hx_remove k hs) = filter (same_name k') hs"
    using assms by (auto simp: hx_remove_def same_name_def intro!: filter_cong)
  then show ?thesis by (simp add: hx_get_def)
qed

definition names_distinct :: "headers \<Rightarrow> bool" where
  "names_distinct hs \<longleftrightarrow> distinct (map (\<lambda>kv. lower_ascii (fst kv)) hs)"

lemma hx_set_all_keeps:
  "\<forall>kv \<in> set kvs. lower_ascii (fst kv) \<noteq> lower_ascii k \<Longrightarrow> hx_get (hx_set_all kvs hs) k = hx_get hs k"
  by (induction kvs arbitrary: hs) (auto simp: hx_set_all_def hx_get_set_other)

lemma hx_set_all_get:
  "names_distinct kvs \<Longrightarrow> (k, v) \<in> set kvs \<Longrightarrow> hx_get (hx_set_all kvs hs) k = Some v"
proof (induction kvs arbitrary: hs)
  case (Cons kv kvs)
  have step: "hx_set_all (kv # kvs) hs = hx_set_all kvs (hx_set (fst kv) (snd kv) hs)"
    by (simp add: hx_set_all_def case_prod_beta)
  show ?case
  proof (cases "(k, v) \<in> set kvs")
    case True
    then show ?thesis using Cons step by (simp add: names_distinct_def)
  next
    case False
    then have kv: "kv = (k, v)" using Cons.prems by auto
    then have "\<forall>x \<in> set kvs. lower_ascii (fst x) \<noteq> lower_ascii k"
      using Cons.prems(1) by (auto simp: names_distinct_def) (metis image_eqI fst_conv)
    then show ?thesis using step kv by (simp add: hx_set_all_keeps)
  qed
qed simp

section \<open>The hops of a call\<close>

text \<open>What is used of \<open>httpx.URL.copy_with(params=...)\<close>: it changes the query only, which then has the
  given pairs.\<close>

definition url_laws :: "'u url_lib \<Rightarrow> bool" where
  "url_laws L \<longleftrightarrow>
     (\<forall>u ps v. ul_with_params L u ps = Some v \<longrightarrow>
        ul_scheme L v = ul_scheme L u \<and> ul_host L v = ul_host L u \<and> ul_port L v = ul_port L u \<and>
        set (ul_params L v) = set ps)"

lemma url_lawsD:
  assumes "url_laws L" "ul_with_params L u ps = Some v"
  shows "ul_scheme L v = ul_scheme L u" "ul_host L v = ul_host L u" "ul_port L v = ul_port L u"
    "set (ul_params L v) = set ps"
  using assms unfolding url_laws_def by blast+

lemma with_params_origin:
  "url_laws L \<Longrightarrow> ul_with_params L u ps = Some v \<Longrightarrow> url_origin L v = url_origin L u"
  by (simp add: url_origin_def url_lawsD split: option.splits)

lemma with_auth_params_origin:
  "url_laws L \<Longrightarrow> with_auth_params L u ps = Some v \<Longrightarrow> url_origin L v = url_origin L u"
  by (auto simp: with_auth_params_def Let_def with_params_origin split: if_splits)

text \<open>The query parameters that carry the credential have its value and no other.\<close>

definition query_credential :: "'u url_lib \<Rightarrow> headers \<Rightarrow> 'u \<Rightarrow> bool" where
  "query_credential L auth_params u \<longleftrightarrow>
     (auth_params = [] \<or> set auth_params \<subseteq> set (ul_params L u)) \<and>
     (\<forall>(k, v) \<in> set (ul_params L u).
        lower k \<in> (\<lambda>kv. lower (fst kv)) ` set auth_params \<longrightarrow> (k, v) \<in> set auth_params)"

lemma with_auth_params_query:
  assumes "url_laws L" "with_auth_params L u ps = Some v"
  shows "query_credential L ps v"
proof (cases "ps = []")
  case False
  let ?kept = "filter (\<lambda>(k, x). lower k \<notin> set (map (\<lambda>(k, v). lower k) ps)) (ul_params L u)"
  have "ul_with_params L u (?kept @ ps) = Some v"
    using assms(2) False by (simp add: with_auth_params_def Let_def)
  then have "set (ul_params L v) = set ?kept \<union> set ps"
    using url_lawsD(4)[OF assms(1)] by (simp only: set_append)
  moreover have "lower k \<notin> (\<lambda>kv. lower (fst kv)) ` set ps" if "(k, x) \<in> set ?kept" for k x
    using that by (auto simp: case_prod_beta)
  ultimately show ?thesis unfolding query_credential_def by blast
qed (simp add: query_credential_def)

definition header_credential :: "headers \<Rightarrow> headers \<Rightarrow> bool" where
  "header_credential auth_headers hs \<longleftrightarrow>
     (\<forall>(k, v) \<in> set auth_headers. lower_ascii k \<noteq> ''content-type'' \<longrightarrow> hx_get hs k = Some v)"

lemma header_credential_next:
  assumes "header_credential auth_headers (hp_headers st)"
  shows "header_credential auth_headers (hp_headers (next_hop status url st))"
proof -
  have "lower_ascii ''Content-Type'' = ''content-type''" by code_simp
  then have "hx_get (hx_remove ''Content-Type'' hs) k = hx_get hs k"
    if "lower_ascii k \<noteq> ''content-type''" for hs k
    using that by (simp add: hx_get_remove_other)
  then show ?thesis
    using assms unfolding header_credential_def next_hop_def by (simp add: case_prod_beta)
qed

lemma next_hop_url [simp]: "hp_url (next_hop status url st) = url"
  by (simp add: next_hop_def)

lemma redirect_target_origin:
  "redirect_target E t server ap limits origin url response = Inr target \<Longrightarrow>
     url_origin (ex_urls E) target = origin \<and> ul_userinfo (ex_urls E) target = []"
  by (auto simp: redirect_target_def Let_def split: if_splits option.splits sum.splits)

definition hop_checked :: "'u exec_env \<Rightarrow> call_limits \<Rightarrow> nat \<Rightarrow> 'u http_call \<Rightarrow> bool" where
  "hop_checked E limits hop call \<longleftrightarrow>
     resolve_pinned_ip (ex_ip_of E) (ex_dns E hop) (cl_allow_private_networks limits)
       (ul_host (ex_urls E) (hc_url call)) \<noteq> None"

lemma send_one_cases:
  assumes "send_one E t server ap limits origin hop st = (calls, xs, r)"
  shows "calls = [] \<or> calls = [hop_call st] \<and> hop_checked E limits hop (hop_call st)"
    and "r = Inr (status, target) \<Longrightarrow>
         calls = [hop_call st] \<and> url_origin (ex_urls E) target = origin"
proof -
  note D = assms[unfolded send_one_def Let_def]
  show "calls = [] \<or> calls = [hop_call st] \<and> hop_checked E limits hop (hop_call st)"
  proof (cases "ex_dns_deadline E hop \<or> resolve_pinned_ip (ex_ip_of E) (ex_dns E hop)
                  (cl_allow_private_networks limits) (ul_host (ex_urls E) (hp_url st)) = None")
    case True
    then show ?thesis using D by (auto split: if_splits)
  next
    case False
    then have "hop_checked E limits hop (hop_call st)" by (simp add: hop_checked_def hop_call_def)
    then show ?thesis using D False by (simp split: if_splits option.splits send_outcome.splits sum.splits)
  qed
  assume r: "r = Inr (status, target)"
  show "calls = [hop_call st] \<and> url_origin (ex_urls E) target = origin"
  proof (cases "ex_send E hop (hop_call st)")
    case (Sent response)
    show ?thesis
      using D r Sent redirect_target_origin[of E t server ap limits origin "hp_url st" response target]
      by (cases "redirect_target E t server ap limits origin (hp_url st) response")
         (simp_all split: if_splits option.splits sum.splits)
  qed (use D r in \<open>simp_all split: if_splits option.splits sum.splits\<close>)
qed

text \<open>The requests of a call: one for each hop, each in a state that keeps the invariant \<open>I\<close>.\<close>

lemma send_hops_calls:
  assumes step: "\<And>st status target url. I st \<Longrightarrow> url_origin (ex_urls E) target = origin \<Longrightarrow>
      with_auth_params (ex_urls E) target ap = Some url \<Longrightarrow> I (next_hop status url st)"
    and "I st" "send_hops E t server ap limits origin left hop st = (calls, xs, out)"
  shows "length calls \<le> Suc left \<and>
    (\<forall>i < length calls. hop_checked E limits (hop + i) (calls ! i) \<and>
                        (\<exists>s. I s \<and> calls ! i = hop_call s))"
  using assms(2-)
proof (induction left arbitrary: hop st calls xs)
  case 0
  obtain cs ys r where one: "send_one E t server ap limits origin hop st = (cs, ys, r)"
    by (metis prod_cases3)
  then have "calls = cs"
    using 0(2) by (auto simp: send_hops.simps split: sum.splits)
  with 0(1) send_one_cases(1)[OF one] show ?case by auto
next
  case (Suc l)
  obtain cs ys r where one: "send_one E t server ap limits origin hop st = (cs, ys, r)"
    by (metis prod_cases3)
  note sc = send_one_cases[OF one]
  note run = Suc.prems(2)[unfolded send_hops.simps[of _ _ _ _ _ _ "Suc l"] one]
  show ?case
  proof (cases "calls = cs")
    case True
    with Suc.prems(1) sc(1) show ?thesis by auto
  next
    case False
    with run obtain status target url calls' xs' where s: "r = Inr (status, target)"
      "with_auth_params (ex_urls E) target ap = Some url"
      "send_hops E t server ap limits origin l (Suc hop) (next_hop status url st) = (calls', xs', out)"
      "calls = cs @ calls'"
      by (auto split: sum.splits option.splits prod.splits)
    have c: "cs = [hop_call st]" "url_origin (ex_urls E) target = origin" using sc(2)[OF s(1)] by auto
    then have "hop_checked E limits hop (hop_call st)" using sc(1) by auto
    then show ?thesis
      using Suc.IH[OF step[OF Suc.prems(1) c(2) s(2)] s(3)] s(4) c(1) Suc.prems(1)
      by (auto simp: nth_Cons split: nat.splits)
  qed
qed

section \<open>The call\<close>

lemma apply_server_auth_split:
  assumes "\<And>p. P (apply_obo_auth env p st)" "\<And>p. P (apply_ema_auth env p st)"
    and "P (apply_api_key st)" "P (apply_bearer st, None)"
    and "\<And>u w. P (apply_basic env u w st, None)" "P (apply_oauth env st, None)" "P (st, None)"
  shows "P (apply_server_auth env caller st)"
  using assms by (simp add: apply_server_auth_def Let_def split: caller_identity.split)

lemma apply_server_auth_base [simp]:
  "srv_openapi_base_url (as_server (fst (apply_server_auth env caller st)))
     = srv_openapi_base_url (as_server st)"
proof (rule apply_server_auth_split)
  have obo: "srv_openapi_base_url (as_server (fst (obo_exchange env p url act s)))
               = srv_openapi_base_url (as_server s)" for p url act s
    by (auto simp: obo_exchange_def Let_def obo_failure_def set_header_def dest!: cached_fetch_frame
        split: prod.splits sum.splits)
  show "srv_openapi_base_url (as_server (fst (apply_obo_auth env p st))) = srv_openapi_base_url (as_server st)" for p
    by (simp add: apply_obo_auth_def Let_def obo obo_failure_def split: prod.splits sum.splits)
  show "srv_openapi_base_url (as_server (fst (apply_ema_auth env p st))) = srv_openapi_base_url (as_server st)" for p
    by (auto simp: apply_ema_auth_def Let_def ema_failure_def set_header_def dest!: cached_fetch_frame
        split: prod.splits sum.splits)
qed (simp_all add: apply_oauth_def apply_api_key_def apply_bearer_def apply_basic_def Let_def auth_update_defs
      split: prod.splits sum.splits option.splits)

text \<open>Started from nothing, the rules leave at most \<open>Authorization\<close> and \<open>X-MCP-Token\<close>, or one API key.\<close>

definition auth_assigns :: "auth_state \<Rightarrow> bool" where
  "auth_assigns a \<longleftrightarrow>
     as_params a \<noteq> None \<and>
     (as_headers a = [] \<or> (\<exists>k v. as_headers a = [(k, v)]) \<or>
      (\<exists>v w. as_headers a = [(''Authorization'', v), (''X-MCP-Token'', w)]))"

lemma auth_assigns_distinct: "auth_assigns a \<Longrightarrow> names_distinct (as_headers a)"
  by (auto simp: auth_assigns_def names_distinct_def lower_ascii_def)

lemma cached_fetch_assigns:
  "cached_fetch env key se fetch st = (st', r) \<Longrightarrow> as_headers st = [] \<Longrightarrow> as_params st = Some [] \<Longrightarrow>
     as_headers st' = [] \<and> as_params st' = Some []"
  by (auto dest: cached_fetch_frame)

lemma apply_server_auth_assigns:
  assumes "as_headers st = []" "as_params st = Some []"
  shows "auth_assigns (fst (apply_server_auth env caller st))"
proof (rule apply_server_auth_split)
  have obo: "auth_assigns (fst (obo_exchange env p url act s))"
    if "as_headers s = []" "as_params s = Some []" for p url act s
    using that
    by (auto simp: obo_exchange_def Let_def obo_failure_def set_header_def auth_assigns_def
        dest!: cached_fetch_assigns split: prod.splits sum.splits)
  have "auth_assigns (fst (obo_failure d n s))" if "as_headers s = []" "as_params s = Some []" for d n s
    using that by (simp add: obo_failure_def auth_assigns_def)
  moreover have "auth_assigns st" using assms by (simp add: auth_assigns_def)
  ultimately show "auth_assigns (fst (apply_obo_auth env p st))" for p
    using assms obo by (simp add: apply_obo_auth_def Let_def split: prod.splits sum.splits)
  show "auth_assigns (fst (apply_ema_auth env p st))" for p
    using assms
    by (auto simp: apply_ema_auth_def Let_def ema_failure_def set_header_def auth_assigns_def
        dest!: cached_fetch_assigns split: prod.splits sum.splits)
qed (use assms in \<open>simp_all add: apply_oauth_def apply_api_key_def apply_bearer_def apply_basic_def
      Let_def auth_update_defs auth_assigns_def split: prod.splits sum.splits option.splits\<close>)

lemma call_tool_cases:
  assumes "cu_calls (call_tool E t arguments server caller limits caches) \<noteq> []"
  obtains prepared a where
    "argument_error (ex_ellipsis E) (ex_iter_errors E) (td_input_schema (tl_definition t)) (JObj arguments) = None"
    "build_http_request (ex_float_text E) (ex_compact_dumps E) (tl_plan t) arguments = Inr prepared"
    "apply_server_auth (ex_auth E) caller (auth_start server caches) = (a, None)"
    "call_tool E t arguments server caller limits caches
       = send_authenticated E t prepared limits (a, None)"
proof -
  obtain a err where auth: "apply_server_auth (ex_auth E) caller (auth_start server caches) = (a, err)"
    by fastforce
  show thesis
    using assms auth that
    by (cases err)
       (auto simp: call_tool_def not_sent_def send_authenticated_def Let_def
          split: if_splits option.splits sum.splits build_error.splits auth_error.splits)
qed

lemma send_request_calls:
  assumes laws: "url_laws (ex_urls E)" and auth: "header_credential ahs hs"
    and run: "send_request E t server prepared hs ap limits = (calls, xs, out)"
  shows "int (length calls) \<le> max 0 (cl_max_redirects limits + 1) \<and>
    (\<forall>i < length calls. hop_checked E limits i (calls ! i) \<and>
       map_option (url_origin (ex_urls E)) (ul_parse (ex_urls E) (srv_openapi_base_url server))
         = Some (url_origin (ex_urls E) (hc_url (calls ! i))) \<and>
       header_credential ahs (hc_headers (calls ! i)) \<and>
       query_credential (ex_urls E) ap (hc_url (calls ! i)))"
proof (cases "calls = []")
  case False
  let ?L = "ex_urls E"
  obtain first home asked url where u:
    "ul_parse ?L (srv_openapi_base_url server) = Some home" "url_origin ?L first = url_origin ?L home"
    "ul_with_params ?L first (pd_query prepared) = Some asked" "with_auth_params ?L asked ap = Some url"
    "0 \<le> cl_max_redirects limits"
    "send_hops E t server ap limits (url_origin ?L home) (nat (cl_max_redirects limits)) 0
       \<lparr>hp_url = url, hp_method = pd_method prepared, hp_body = pd_body prepared, hp_headers = hs\<rparr>
     = (calls, xs, out)"
    using run False by (auto simp: send_request_def Let_def split: if_splits option.splits)
  let ?I = "\<lambda>s. url_origin ?L (hp_url s) = url_origin ?L home \<and> header_credential ahs (hp_headers s) \<and>
                query_credential ?L ap (hp_url s)"
  have "url_origin ?L url = url_origin ?L home"
    using with_params_origin[OF laws u(3)] with_auth_params_origin[OF laws u(4)] u(2) by simp
  then have start: "?I \<lparr>hp_url = url, hp_method = pd_method prepared, hp_body = pd_body prepared, hp_headers = hs\<rparr>"
    using auth with_auth_params_query[OF laws u(4)] by simp
  have step: "?I (next_hop status v s)"
    if "?I s" "url_origin ?L target = url_origin ?L home" "with_auth_params ?L target ap = Some v"
    for s status target v
    using that with_auth_params_origin[OF laws that(3)] with_auth_params_query[OF laws that(3)]
    by (simp add: header_credential_next)
  have "length calls \<le> Suc (nat (cl_max_redirects limits)) \<and>
    (\<forall>i < length calls. hop_checked E limits (0 + i) (calls ! i) \<and> (\<exists>s. ?I s \<and> calls ! i = hop_call s))"
    by (rule send_hops_calls[OF step start u(6)]) assumption+
  then show ?thesis using u(1,5) by (auto simp: hop_call_def)
qed simp

text \<open>The requests of a call are on the base URL's origin, checked, bounded in number, and carry the
  credentials the authentication rules chose.\<close>

definition call_within ::
  "'u exec_env \<Rightarrow> registered_server \<Rightarrow> call_limits \<Rightarrow> auth_state \<Rightarrow> nat \<Rightarrow> 'u http_call \<Rightarrow> bool" where
  "call_within E server limits a i c \<longleftrightarrow>
     hop_checked E limits i c \<and>
     map_option (url_origin (ex_urls E)) (ul_parse (ex_urls E) (srv_openapi_base_url server))
       = Some (url_origin (ex_urls E) (hc_url c)) \<and>
     header_credential (as_headers a) (hc_headers c) \<and>
     query_credential (ex_urls E) (case as_params a of Some ps \<Rightarrow> ps | None \<Rightarrow> []) (hc_url c)"

lemma call_tool_calls:
  assumes "url_laws (ex_urls E)"
    and a: "a = fst (apply_server_auth (ex_auth E) caller (auth_start server caches))"
    and calls: "calls = cu_calls (call_tool E t arguments server caller limits caches)"
  shows "int (length calls) \<le> max 0 (cl_max_redirects limits + 1) \<and>
         (\<forall>i < length calls. call_within E server limits a i (calls ! i))"
proof (cases "calls = []")
  case False
  then obtain prepared a' where run:
    "apply_server_auth (ex_auth E) caller (auth_start server caches) = (a', None)"
    "call_tool E t arguments server caller limits caches = send_authenticated E t prepared limits (a', None)"
    using calls call_tool_cases[of E t arguments server caller limits caches] by metis
  then have a': "a' = a" using a by simp
  let ?ap = "case as_params a of Some ps \<Rightarrow> ps | None \<Rightarrow> []"
  obtain cs xs out where send: "send_request E t (as_server a) prepared
      (hx_set_all (as_headers a) (request_headers prepared)) ?ap limits = (cs, xs, out)"
    by (metis prod_cases3)
  have "calls = cs" using calls run(2) send a' by (simp add: send_authenticated_def Let_def)
  moreover have "names_distinct (as_headers a)"
    using auth_assigns_distinct apply_server_auth_assigns[of "auth_start server caches"] a
    by (simp add: auth_start_def)
  then have "header_credential (as_headers a) (hx_set_all (as_headers a) (request_headers prepared))"
    by (auto simp: header_credential_def hx_set_all_get)
  moreover have "srv_openapi_base_url (as_server a) = srv_openapi_base_url server"
    using a by (simp add: auth_start_def)
  ultimately show ?thesis
    using send_request_calls[OF assms(1) _ send, of "as_headers a"] by (simp add: call_within_def)
qed simp

section \<open>Secrets in upstream errors\<close>

definition star_free :: "string \<Rightarrow> bool" where
  "star_free p \<longleftrightarrow> p \<noteq> [] \<and> CHR ''*'' \<notin> set p"

lemma prefix_replace_all:
  "CHR ''*'' \<notin> set p \<Longrightarrow> prefix p (replace_all old ''****'' s) \<Longrightarrow> prefix p s"
proof (induction old "''****''" s arbitrary: p rule: replace_all.induct)
  case (2 old c s)
  show ?case
  proof (cases "p = [] \<or> old \<noteq> [] \<and> prefix old (c # s)")
    case True
    then show ?thesis using 2(3,4) by (cases p) (auto simp: replace_all.simps(2))
  next
    case False
    then show ?thesis using 2(2)[of "List.tl p"] 2(3,4) by (cases p) (auto simp: replace_all.simps(2))
  qed
qed simp

lemma sublist_stars: "star_free p \<Longrightarrow> sublist p (''****'' @ r) \<Longrightarrow> sublist p r"
  by (auto simp: star_free_def sublist_Cons_right prefix_Cons)

lemma sublist_replace_all:
  "star_free p \<Longrightarrow> sublist p (replace_all old ''****'' s) \<Longrightarrow> sublist p s"
proof (induction old "''****''" s rule: replace_all.induct)
  case (2 old c s)
  show ?case
  proof (cases "old \<noteq> [] \<and> prefix old (c # s)")
    case True
    then have "sublist p (replace_all old ''****'' (drop (length old) (c # s)))"
      using 2(4) sublist_stars[OF 2(3)] by (simp add: replace_all.simps(2))
    then have "sublist p (drop (length old) (c # s))" using 2(1)[OF True 2(3)] by blast
    then show ?thesis using sublist_order.order.trans suffix_imp_sublist suffix_drop by metis
  next
    case False
    then have "replace_all old ''****'' (c # s) = c # replace_all old ''****'' s"
      by (auto simp: replace_all.simps(2))
    then consider "prefix p (replace_all old ''****'' (c # s))" | "sublist p (replace_all old ''****'' s)"
      using 2(4) by (metis sublist_Cons_right)
    then show ?thesis
      using prefix_replace_all[of p old "c # s"] 2(2)[OF False 2(3)] 2(3)
      by cases (auto simp: star_free_def sublist_Cons_right)
  qed
qed simp

lemma replace_all_removes: "star_free old \<Longrightarrow> \<not> sublist old (replace_all old ''****'' s)"
proof (induction old "''****''" s rule: replace_all.induct)
  case (1 old)
  then show ?case by (simp add: star_free_def)
next
  case (2 old c s)
  show ?case
  proof (cases "prefix old (c # s)")
    case True
    then show ?thesis
      using 2 sublist_stars[OF 2(3)] by (auto simp: replace_all.simps(2) star_free_def)
  next
    case False
    then have "replace_all old ''****'' (c # s) = c # replace_all old ''****'' s"
      by (auto simp: replace_all.simps(2))
    then show ?thesis
      using prefix_replace_all[of old old "c # s"] False 2(2,3)
      by (auto simp: star_free_def sublist_Cons_right)
  qed
qed

lemma redact_secret_removes: "star_free (strip x) \<Longrightarrow> \<not> sublist (strip x) (redact_secret s x)"
  by (simp add: redact_secret_def replace_all_removes star_free_def)

lemma redact_secret_keeps_out:
  assumes "star_free p" "\<not> sublist p s"
  shows "\<not> sublist p (redact_secret s x)"
proof (cases "strip x = []")
  case True
  then have "redact_secret s x = s" by (simp add: redact_secret_def)
  with assms(2) show ?thesis by simp
next
  case False
  then have "redact_secret s x = replace_all (strip x) ''****'' s" by (simp add: redact_secret_def)
  with assms sublist_replace_all[OF assms(1), of "strip x" s] show ?thesis by argo
qed

lemma error_detail_hides:
  assumes "secret \<in> {srv_api_key_value server, srv_bearer_token server, srv_basic_password server}"
    and "star_free (strip secret)"
  shows "\<not> contains (error_detail E body response server) (strip secret)"
proof -
  have "\<not> sublist (strip secret) (redact_secrets x server)" for x
  proof -
    have "redact_secrets x server = redact_secret (redact_secret (redact_secret x (srv_api_key_value server))
            (srv_bearer_token server)) (srv_basic_password server)"
      by (simp add: redact_secrets_def)
    then show ?thesis
      using assms(1) redact_secret_removes[OF assms(2)] redact_secret_keeps_out[OF assms(2)]
      by (elim insertE emptyE) simp_all
  qed
  then show ?thesis
    unfolding contains_sublist error_detail_def
    by (metis prefix_imp_sublist sublist_order.order.trans take_is_prefix)
qed

text \<open>What is read of a body is within the limit.\<close>

lemma read_chunks_bound:
  "read_chunks limit body cs = Some b \<Longrightarrow> int (length body) \<le> limit \<Longrightarrow> int (length b) \<le> limit"
  by (induction limit body cs rule: read_chunks.induct) (auto simp: Let_def split: if_splits)

lemma read_capped_bound: "read_capped response limit = Inr (Some b) \<Longrightarrow> 0 \<le> limit \<Longrightarrow> int (length b) \<le> limit"
  using read_chunks_bound[of limit "[]" "ur_chunks response"]
  by (auto simp: read_capped_def Let_def split: if_splits option.splits body_end.splits)

end
