(* ===== verification/Arguments.thy ===== *)
theory Arguments
  imports Schema_Convert Swagger2 Executor
begin

text \<open>
  \<^verbatim>\<open>openapi/arguments.py\<close>: an operation's parameters and body as tool arguments. The accumulating
  object \<open>Arguments\<close> and the bundler are threaded through. Names, locations and media types of a
  validated document are text; of others the model says that an exception is raised.
\<close>

section \<open>State\<close>

record arguments =
  ag_properties :: jdict
  ag_required :: "string list"
  ag_parameters :: "parameter_plan list"
  ag_body :: "body_plan option"
  ag_unsupported :: "string list"
  ag_dropped :: "string list"

definition no_arguments :: arguments where
  "no_arguments = \<lparr>ag_properties = [], ag_required = [], ag_parameters = [], ag_body = None,
                   ag_unsupported = [], ag_dropped = []\<rparr>"

definition add_unsupported :: "string \<Rightarrow> arguments \<Rightarrow> arguments" where
  "add_unsupported why a = a\<lparr>ag_unsupported := ag_unsupported a @ [why]\<rparr>"

definition add_dropped :: "string \<Rightarrow> arguments \<Rightarrow> arguments" where
  "add_dropped why a = a\<lparr>ag_dropped := ag_dropped a @ [why]\<rparr>"

definition DROPPED_HEADERS :: "string list" where
  "DROPPED_HEADERS =
     [''authorization'', ''proxy-authorization'', ''cookie'', ''host'', ''content-length'', ''content-type'',
      ''transfer-encoding'', ''connection'', ''keep-alive'', ''te'', ''trailer'', ''upgrade'', ''proxy-connection'',
      ''forwarded'', ''x-original-url'', ''x-rewrite-url'', ''x-http-method-override'', ''x-http-method'',
      ''x-method-override'', ''x-real-ip'', ''via'', ''origin'']"

definition dropped_header :: "string \<Rightarrow> bool" where
  "dropped_header name \<longleftrightarrow> lower name \<in> set DROPPED_HEADERS \<or> startswith (lower name) ''x-forwarded-''"

definition default_style :: "param_location \<Rightarrow> string" where
  "default_style loc = (case loc of In_query \<Rightarrow> ''form'' | _ \<Rightarrow> ''simple'')"

definition location_of :: "string \<Rightarrow> param_location option" where
  "location_of l =
     (if l = ''query'' then Some In_query else if l = ''path'' then Some In_path
      else if l = ''header'' then Some In_header else None)"

definition MAX_ALL_OF_DEPTH :: nat where "MAX_ALL_OF_DEPTH = 32"

abbreviation lift :: "'a py \<Rightarrow> 'a run" where "lift m \<equiv> Some m"

section \<open>Parameters\<close>

text \<open>Path-level parameters first; an operation parameter with the same name and location replaces.\<close>

definition merge_parameter ::
  "(string \<Rightarrow> string) \<Rightarrow> json \<Rightarrow> json \<Rightarrow> ((string \<times> string), jdict) dict \<Rightarrow> ((string \<times> string), jdict) dict run" where
  "merge_parameter unquote document param merged =
     bind_run (deref unquote document param) (\<lambda>resolved.
     bind_run (lift (as_obj resolved)) (\<lambda>p.
     bind_run (lift (bind_py (item_of p ''name'') as_text)) (\<lambda>name.
     bind_run (lift (bind_py (item_of p ''in'') as_text)) (\<lambda>location.
       ret (AList.update (name, location) p merged)))))"

definition merged_parameters ::
  "(string \<Rightarrow> string) \<Rightarrow> json \<Rightarrow> jdict \<Rightarrow> jdict \<Rightarrow> ((string \<times> string) \<times> jdict) list run" where
  "merged_parameters unquote document path_item operation =
     bind_run (lift (as_list (jget_or path_item ''parameters'' (JList [])))) (\<lambda>shared.
     bind_run (lift (as_list (jget_or operation ''parameters'' (JList [])))) (\<lambda>own.
       fold_run (merge_parameter unquote document) (shared @ own) []))"

definition is_object :: "jdict \<Rightarrow> bool" where
  "is_object schema \<longleftrightarrow>
     jget schema ''type'' = JStr ''object'' \<or> jget schema ''type'' = JNull \<and> has_key schema ''properties''"

definition is_array :: "json \<Rightarrow> bool" where
  "is_array schema \<longleftrightarrow> (case schema of JObj d \<Rightarrow> jget d ''type'' = JStr ''array'' | _ \<Rightarrow> False)"

definition parameter_problem ::
  "(rat \<Rightarrow> string) \<Rightarrow> (string \<Rightarrow> string) \<Rightarrow> json \<Rightarrow> string \<Rightarrow> string \<Rightarrow> param_location \<Rightarrow> jdict \<Rightarrow> string option run" where
  "parameter_problem fr unquote document name location loc param =
     (let place = location @ '' parameter '' @ quoted name;
          style = jget_or param ''style'' (JStr (default_style loc))
      in if has_key param ''content'' \<or> \<not> has_key param ''schema''
         then ret (Some (place @ '' uses content serialization, which is not supported''))
         else if style \<noteq> JStr (default_style loc)
         then ret (Some (place @ '' uses style '' @ quoted (py_str fr style) @ '', which is not supported''))
         else bind_run (deref unquote document (jget param ''schema'')) (\<lambda>v.
           case v of
             JObj d \<Rightarrow>
               if is_object d then ret (Some (place @ '' has an object value, which is not supported''))
               else if jget d ''type'' \<noteq> JStr ''array'' then ret None
               else bind_run (deref unquote document (jget d ''items'')) (\<lambda>items.
                 ret (if is_array items
                      then Some (place @ '' is an array of arrays, which is not supported'') else None))
           | _ \<Rightarrow> ret None))"

definition with_description :: "jdict \<Rightarrow> json \<Rightarrow> json" where
  "with_description param schema =
     (case schema of
        JObj d \<Rightarrow> if has_key param ''description'' \<and> \<not> has_key d ''description''
                  then JObj (AList.update ''description'' (jget param ''description'') d) else schema
      | _ \<Rightarrow> schema)"

type_synonym build = "bundler \<times> arguments"

definition accept_parameter :: "string \<Rightarrow> param_location \<Rightarrow> jdict \<Rightarrow> build \<Rightarrow> build" where
  "accept_parameter name loc param st =
     (case st of (b, a) \<Rightarrow>
       (let style = default_style loc;
            explode = truthy (jget_or param ''explode'' (JBool (style = ''form'')));
            (b1, schema) = convert (jget param ''schema'') b
        in (b1, a\<lparr>ag_properties := AList.update name (with_description param schema) (ag_properties a),
                  ag_required := ag_required a @ (if loc = In_path \<or> truthy (jget param ''required'') then [name] else []),
                  ag_parameters := ag_parameters a
                    @ [\<lparr>pp_argument = name, pp_name = name, pp_location = loc, pp_style = style,
                        pp_explode = explode\<rparr>]\<rparr>)))"

definition add_parameter ::
  "(rat \<Rightarrow> string) \<Rightarrow> (string \<Rightarrow> string) \<Rightarrow> json \<Rightarrow> (string \<times> string) \<times> jdict \<Rightarrow> build \<Rightarrow> build run" where
  "add_parameter fr unquote document entry st =
     (case (entry, st) of (((name, location), param), (b, a)) \<Rightarrow>
        if location = ''cookie''
        then ret (b, add_dropped (''cookie parameter '' @ quoted name @ '' (the hub never sends cookies)'') a)
        else case location_of location of
          None \<Rightarrow> ret (b, add_unsupported (''parameter '' @ quoted name @ '' is in: '' @ location
                            @ '', which is not supported'') a)
        | Some loc \<Rightarrow>
            if loc = In_header \<and> dropped_header name
            then ret (b, add_dropped (''header '' @ quoted name
                   @ '' (credentials and transport headers come from the hub, never from tool arguments)'') a)
            else bind_run (parameter_problem fr unquote document name location loc param) (\<lambda>problem.
              case problem of
                Some why \<Rightarrow> ret (b, add_unsupported why a)
              | None \<Rightarrow>
                  if has_key (ag_properties a) name
                  then ret (b, add_unsupported (''two parameters are both named '' @ quoted name) a)
                  else ret (accept_parameter name loc param (b, a))))"

section \<open>Bodies\<close>

definition extend_new :: "json list \<Rightarrow> json list \<Rightarrow> json list" where
  "extend_new required news = foldl (\<lambda>acc r. if r \<in> set acc then acc else acc @ [r]) required news"

definition whole_only :: "jdict \<Rightarrow> bool" where
  "whole_only d \<longleftrightarrow>
     list_ex (has_key d) [''oneOf'', ''anyOf'', ''not'', ''if'', ''patternProperties''] \<or>
     jget d ''additionalProperties'' = JBool True \<or> is_obj (jget d ''additionalProperties'') \<or>
     jget d ''type'' \<notin> {JNull, JStr ''object''} \<or> jget d ''nullable'' = JBool True"

text \<open>The first argument counts the levels left: it is zero where \<open>depth > _MAX_ALL_OF_DEPTH\<close>.\<close>

primrec object_fields ::
  "nat \<Rightarrow> (string \<Rightarrow> string) \<Rightarrow> json \<Rightarrow> json \<Rightarrow> (jdict \<times> json list) option run" where
  "object_fields 0 unquote document schema =
     bind_run (deref unquote document schema) (\<lambda>resolved. ret None)"
| "object_fields (Suc n) unquote document schema =
     bind_run (deref unquote document schema) (\<lambda>resolved.
       case resolved of
         JObj d \<Rightarrow>
           if whole_only d then ret None
           else
             bind_run (lift (as_list (jget_or d ''allOf'' (JList [])))) (\<lambda>members.
             bind_run (fold_run (\<lambda>m acc.
                 case acc of
                   None \<Rightarrow> ret None
                 | Some (props, req) \<Rightarrow>
                     bind_run (object_fields n unquote document m) (\<lambda>flds.
                       ret (map_option (\<lambda>(ps, rs). (dict_merge props ps, extend_new req rs)) flds)))
               members (Some ([], []))) (\<lambda>acc.
               case acc of
                 None \<Rightarrow> ret None
               | Some (props, req) \<Rightarrow>
                   if \<not> has_key d ''allOf'' \<and> \<not> has_key d ''properties'' \<and> jget d ''type'' \<noteq> JStr ''object''
                   then ret None
                   else bind_run (lift (as_obj (jget_or d ''properties'' (JObj [])))) (\<lambda>own.
                        bind_run (lift (as_list (jget_or d ''required'' (JList [])))) (\<lambda>own_required.
                          ret (Some (dict_merge props own, extend_new req own_required))))))
       | _ \<Rightarrow> ret None)"

text \<open>\<open>_body_argument\<close>: the name of the argument, or the reason there is none.\<close>

definition body_argument :: "arguments \<Rightarrow> string \<Rightarrow> string list \<Rightarrow> string + string" where
  "body_argument a name body_properties =
     (let renamed = ''body_'' @ name
      in if \<not> has_key (ag_properties a) name then Inr name
         else if has_key (ag_properties a) renamed \<or> renamed \<in> set body_properties
         then Inl (''body property '' @ quoted name @ '' collides with a parameter, and its renamed form ''
                   @ quoted renamed @ '' is taken too'')
         else Inr renamed)"

definition add_whole_body :: "json \<Rightarrow> string \<Rightarrow> bool \<Rightarrow> build \<Rightarrow> build" where
  "add_whole_body schema media required st =
     (case st of (b, a) \<Rightarrow>
        case body_argument a ''body'' [] of
          Inl why \<Rightarrow> (b, add_unsupported why a)
        | Inr argument \<Rightarrow>
            (let (b1, converted) = convert schema b
             in (b1, a\<lparr>ag_properties := AList.update argument converted (ag_properties a),
                       ag_required := ag_required a @ (if required then [argument] else []),
                       ag_body := Some \<lparr>bp_media_type = media, bp_mode = Whole, bp_fields = [(argument, [])],
                                        bp_required = required\<rparr>\<rparr>)))"

fun rename_all :: "arguments \<Rightarrow> string list \<Rightarrow> string list \<Rightarrow> string + (string \<times> string) list" where
  "rename_all a body_properties [] = Inr []"
| "rename_all a body_properties (p # ps) =
     (case body_argument a p body_properties of
        Inl why \<Rightarrow> Inl why
      | Inr argument \<Rightarrow> map_sum (\<lambda>w. w) (\<lambda>rs. (argument, p) # rs) (rename_all a body_properties ps))"

definition add_body_property :: "jdict \<Rightarrow> build \<Rightarrow> string \<times> string \<Rightarrow> build" where
  "add_body_property properties st rename =
     (case (st, rename) of ((b, a), (argument, prop)) \<Rightarrow>
        (let (b1, converted) = convert (jget properties prop) b
         in (b1, a\<lparr>ag_properties := AList.update argument converted (ag_properties a)\<rparr>)))"

definition add_merged_body :: "jdict \<times> json list \<Rightarrow> string \<Rightarrow> bool \<Rightarrow> build \<Rightarrow> build" where
  "add_merged_body flds media required st =
     (case (flds, st) of ((properties, body_required), (b, a)) \<Rightarrow>
        case rename_all a (map fst properties) (map fst properties) of
          Inl why \<Rightarrow> (b, add_unsupported why a)
        | Inr renamed \<Rightarrow>
            (let (b1, a1) = foldl (add_body_property properties) (b, a) renamed;
                 needed = concat (map (\<lambda>r. case r of
                            JStr prop \<Rightarrow> (case map_of (map (\<lambda>(x, p). (p, x)) renamed) prop of
                                           Some argument \<Rightarrow> [argument] | None \<Rightarrow> [])
                          | _ \<Rightarrow> []) body_required)
             in (b1, a1\<lparr>ag_required := ag_required a1 @ (if required then needed else []),
                        ag_body := Some \<lparr>bp_media_type = media, bp_mode = Merged, bp_fields = renamed,
                                         bp_required = required\<rparr>\<rparr>)))"

definition body_media :: "jdict \<Rightarrow> string option" where
  "body_media content =
     (case find is_json_media (map fst content) of
        Some m \<Rightarrow> Some m
      | None \<Rightarrow> if has_key content FORM_MEDIA then Some FORM_MEDIA else None)"

definition add_body ::
  "(string \<Rightarrow> string) \<Rightarrow> json \<Rightarrow> json \<Rightarrow> build \<Rightarrow> build run" where
  "add_body unquote document request_body st =
     bind_run (deref unquote document request_body) (\<lambda>resolved.
     bind_run (lift (as_obj resolved)) (\<lambda>body.
     bind_run (lift (as_obj (jget_or body ''content'' (JObj [])))) (\<lambda>content.
       case st of (b, a) \<Rightarrow>
         case body_media content of
           None \<Rightarrow>
             ret (b, add_unsupported (''request body type(s) ''
               @ (let offered = join '', '' (map fst content) in if offered \<noteq> [] then offered else ''none'')
               @ '' are not supported (only JSON and application/x-www-form-urlencoded)'') a)
         | Some media \<Rightarrow>
             bind_run (lift (as_obj (jget content media))) (\<lambda>entry.
               if \<not> has_key entry ''schema''
               then ret (b, add_unsupported (''the '' @ media @ '' request body has no schema'') a)
               else
                 let schema = jget entry ''schema''; required = truthy (jget body ''required'')
                 in bind_run (object_fields (Suc MAX_ALL_OF_DEPTH) unquote document schema) (\<lambda>flds.
                      case flds of
                        Some f \<Rightarrow> ret (add_merged_body f media required (b, a))
                      | None \<Rightarrow>
                          if media = FORM_MEDIA
                          then ret (b, add_unsupported ''a form-urlencoded request body must be an object'' a)
                          else ret (add_whole_body schema media required (b, a)))))))"

section \<open>An operation\<close>

text \<open>The matches of \<open>\{([^}]+)\}\<close>, as the request builder finds them.\<close>

definition path_variables :: "string \<Rightarrow> string list" where
  "path_variables path =
     concat (map (\<lambda>p. case p of Variable v \<Rightarrow> [v] | Literal t \<Rightarrow> []) (path_parts path []))"

definition path_problems :: "string \<Rightarrow> parameter_plan list \<Rightarrow> string list" where
  "path_problems path params =
     (let declared = map pp_name (filter (\<lambda>p. pp_location p = In_path) params)
      in (if startswith path ''/'' then []
          else [''path '' @ repr_str path @ '' does not start with '' @ quoted ''/''])
         @ (if list_ex (\<lambda>s. s = ''.'' \<or> s = ''..'') (split_char (CHR ''/'') path)
            then [''path '' @ repr_str path @ '' contains a '' @ quoted ''.'' @ '' or '' @ quoted ''..'' @ '' segment'']
            else [])
         @ (if CHR ''%'' \<in> set path \<or> CHR 0x5C \<in> set path
            then [''path '' @ repr_str path @ '' contains percent-encoding or a backslash''] else [])
         @ concat (map (\<lambda>v. if v \<in> set declared then []
                            else [''path variable {'' @ v @ ''} has no declared path parameter''])
                       (path_variables path)))"

definition operation_arguments ::
  "(rat \<Rightarrow> string) \<Rightarrow> (string \<Rightarrow> string) \<Rightarrow> json \<Rightarrow> string \<Rightarrow> jdict \<Rightarrow> jdict \<Rightarrow> bundler \<Rightarrow> build run" where
  "operation_arguments fr unquote document path path_item operation b =
     bind_run (merged_parameters unquote document path_item operation) (\<lambda>params.
     bind_run (fold_run (add_parameter fr unquote document) params (b, no_arguments)) (\<lambda>(b1, a1).
       let a2 = a1\<lparr>ag_unsupported := ag_unsupported a1 @ path_problems path (ag_parameters a1)\<rparr>
       in if has_key operation ''requestBody''
          then add_body unquote document (jget operation ''requestBody'') (b1, a2)
          else ret (b1, a2)))"

section \<open>Responses\<close>

definition content_of :: "json \<Rightarrow> jdict py" where
  "content_of resolved =
     (case resolved of JObj d \<Rightarrow> as_obj (jget_or d ''content'' (JObj [])) | _ \<Rightarrow> Inr [])"

text \<open>\<open>JNull\<close> is \<open>None\<close>: the response has no JSON body.\<close>

definition resolve_media_schema :: "(string \<Rightarrow> string) \<Rightarrow> json \<Rightarrow> json \<Rightarrow> json run" where
  "resolve_media_schema unquote document response =
     bind_run (deref unquote document response) (\<lambda>resolved.
     bind_run (lift (content_of resolved)) (\<lambda>content.
       case find is_json_media (map fst content) of
         None \<Rightarrow> ret JNull
       | Some media \<Rightarrow> lift (py_get (jget content media) ''schema'' JNull)))"

definition streams :: "jdict \<Rightarrow> string list" where
  "streams content =
     concat (map (\<lambda>(media, v). case v of JObj d \<Rightarrow> if has_key d ''itemSchema'' then [media] else [] | _ \<Rightarrow> []) content)"

definition response_streams ::
  "(string \<Rightarrow> string) \<Rightarrow> json \<Rightarrow> string \<times> json \<Rightarrow> string list \<Rightarrow> string list run" where
  "response_streams unquote document entry reasons =
     (case entry of (code, response) \<Rightarrow>
        bind_run (deref unquote document response) (\<lambda>resolved.
        bind_run (lift (content_of resolved)) (\<lambda>content.
          ret (reasons @ map (\<lambda>media. ''the '' @ code @ '' '' @ media
                                       @ '' response streams (itemSchema), which is not supported'')
                             (streams content)))))"

definition streaming_media :: "(string \<Rightarrow> string) \<Rightarrow> json \<Rightarrow> jdict \<Rightarrow> string list run" where
  "streaming_media unquote document operation =
     bind_run
       (if has_key operation ''requestBody''
        then bind_run (deref unquote document (jget operation ''requestBody'')) (\<lambda>body.
             bind_run (lift (content_of body)) (\<lambda>content.
               ret (map (\<lambda>media. ''the '' @ media @ '' request body streams (itemSchema), which is not supported'')
                        (streams content))))
        else ret []) (\<lambda>reasons.
     bind_run (lift (as_obj (jget_or operation ''responses'' (JObj [])))) (\<lambda>responses.
       fold_run (response_streams unquote document) responses reasons))"

section \<open>What the plan of a supported operation satisfies\<close>

text \<open>No parameter is a header the hub keeps for itself, and the body can be encoded.\<close>

definition headers_kept :: "parameter_plan list \<Rightarrow> bool" where
  "headers_kept ps \<longleftrightarrow> (\<forall>p \<in> set ps. pp_location p = In_header \<longrightarrow> \<not> dropped_header (pp_name p))"

definition body_encodable :: "body_plan option \<Rightarrow> bool" where
  "body_encodable body \<longleftrightarrow>
     (case body of
        None \<Rightarrow> True
      | Some bp \<Rightarrow> bp_mode bp = Whole \<longrightarrow> (\<exists>x. bp_fields bp = [x]) \<and> bp_media_type bp \<noteq> FORM_MEDIA)"

definition plan_ok :: "arguments \<Rightarrow> bool" where
  "plan_ok a \<longleftrightarrow> headers_kept (ag_parameters a) \<and> body_encodable (ag_body a)"

lemma add_unsupported_sel [simp]:
  "ag_parameters (add_unsupported w a) = ag_parameters a" "ag_body (add_unsupported w a) = ag_body a"
  "ag_unsupported (add_unsupported w a) = ag_unsupported a @ [w]"
  "ag_parameters (add_dropped w a) = ag_parameters a" "ag_body (add_dropped w a) = ag_body a"
  "ag_unsupported (add_dropped w a) = ag_unsupported a"
  by (simp_all add: add_unsupported_def add_dropped_def)

lemma accept_parameter_ok:
  assumes "accept_parameter name loc param (b, a) = (b', a')" "plan_ok a" "loc = In_header \<longrightarrow> \<not> dropped_header name"
  shows "plan_ok a'"
  using assms by (auto simp: accept_parameter_def plan_ok_def headers_kept_def Let_def split: prod.splits)

lemma add_parameter_ok:
  assumes "add_parameter fr unquote document entry st = ret st'" "plan_ok (snd st)"
  shows "plan_ok (snd st')"
proof -
  obtain name location param b a where e: "entry = ((name, location), param)" "st = (b, a)"
    by (metis prod.exhaust)
  obtain b' a' where st': "st' = (b', a')" by fastforce
  show ?thesis
  proof (cases "a' = a \<or> (\<exists>w. a' = add_unsupported w a) \<or> (\<exists>w. a' = add_dropped w a)")
    case True
    then show ?thesis using assms(2) e st' by (auto simp: plan_ok_def)
  next
    case False
    then obtain loc where "accept_parameter name loc param (b, a) = (b', a')" "loc = In_header \<longrightarrow> \<not> dropped_header name"
      using assms(1) e st'
      by (auto simp: add_parameter_def bind_run_ret split: if_splits option.splits)
    then show ?thesis using accept_parameter_ok assms(2) e st' by simp
  qed
qed

lemma add_merged_body_ok:
  assumes "add_merged_body f media required (b, a) = (b', a')"
  shows "ag_parameters a' = ag_parameters a \<and> set (ag_unsupported a) \<subseteq> set (ag_unsupported a') \<and>
         (body_encodable (ag_body a) \<longrightarrow> body_encodable (ag_body a'))"
proof -
  have frame: "ag_parameters (snd (foldl (add_body_property ps) st rs)) = ag_parameters (snd st) \<and>
      ag_unsupported (snd (foldl (add_body_property ps) st rs)) = ag_unsupported (snd st)" for ps st rs
    by (induction rs arbitrary: st) (auto simp: add_body_property_def Let_def split: prod.splits)
  obtain ps br where f: "f = (ps, br)" by fastforce
  show ?thesis
  proof (cases "rename_all a (map fst ps) (map fst ps)")
    case (Inl w)
    then show ?thesis using assms f by (auto simp: add_merged_body_def)
  next
    case (Inr rs)
    obtain b1 a1 where r: "foldl (add_body_property ps) (b, a) rs = (b1, a1)" by fastforce
    then show ?thesis
      using assms f Inr frame[of ps "(b, a)" rs]
      by (auto simp: add_merged_body_def Let_def body_encodable_def)
  qed
qed

lemma add_whole_body_ok:
  assumes "add_whole_body schema media required (b, a) = (b', a')" "media \<noteq> FORM_MEDIA"
  shows "ag_parameters a' = ag_parameters a \<and> set (ag_unsupported a) \<subseteq> set (ag_unsupported a') \<and>
         (body_encodable (ag_body a) \<longrightarrow> body_encodable (ag_body a'))"
  using assms
  by (auto simp: add_whole_body_def Let_def body_encodable_def split: sum.splits prod.splits)

lemma add_body_ok:
  assumes "add_body unquote document request_body (b, a) = ret (b', a')"
  shows "ag_parameters a' = ag_parameters a \<and> set (ag_unsupported a) \<subseteq> set (ag_unsupported a') \<and>
         (body_encodable (ag_body a) \<longrightarrow> body_encodable (ag_body a'))"
proof -
  consider (unsup) w where "a' = add_unsupported w a"
    | (merged) f media required where "add_merged_body f media required (b, a) = (b', a')"
    | (whole) schema media required where "add_whole_body schema media required (b, a) = (b', a')"
        "media \<noteq> FORM_MEDIA"
    using assms by (auto simp: add_body_def bind_run_ret Let_def split: if_splits option.splits)
  then show ?thesis
  proof cases
    case unsup
    then show ?thesis by auto
  next
    case merged
    then show ?thesis by (rule add_merged_body_ok)
  next
    case whole
    then show ?thesis by (rule add_whole_body_ok)
  qed
qed

lemma operation_arguments_ok:
  assumes "operation_arguments fr unquote document path item operation b0 = ret (b, a)" "ag_unsupported a = []"
  shows "plan_ok a" "path_problems path (ag_parameters a) = []"
proof -
  from assms(1) obtain params b1 a1 where
    loop: "fold_run (add_parameter fr unquote document) params (b0, no_arguments) = ret (b1, a1)"
    and rest: "(let a2 = a1\<lparr>ag_unsupported := ag_unsupported a1 @ path_problems path (ag_parameters a1)\<rparr>
       in if has_key operation ''requestBody''
          then add_body unquote document (jget operation ''requestBody'') (b1, a2)
          else ret (b1, a2)) = ret (b, a)"
    by (auto simp: operation_arguments_def bind_run_ret)
  have "plan_ok (snd (b0, no_arguments))"
    by (simp add: plan_ok_def no_arguments_def headers_kept_def body_encodable_def)
  then have "plan_ok (snd (b1, a1))"
    using fold_run_invariant[where I = "\<lambda>st. plan_ok (snd st)", OF _ loop] add_parameter_ok by blast
  then have a1: "headers_kept (ag_parameters a1)" "body_encodable (ag_body a1)" by (simp_all add: plan_ok_def)
  let ?a2 = "a1\<lparr>ag_unsupported := ag_unsupported a1 @ path_problems path (ag_parameters a1)\<rparr>"
  have "ag_parameters a = ag_parameters ?a2 \<and> set (ag_unsupported ?a2) \<subseteq> set (ag_unsupported a) \<and>
        (body_encodable (ag_body ?a2) \<longrightarrow> body_encodable (ag_body a))"
  proof (cases "has_key operation ''requestBody''")
    case True
    then show ?thesis using rest add_body_ok[of unquote document _ b1 ?a2 b a] by (simp add: Let_def)
  next
    case False
    then show ?thesis using rest by (auto simp: Let_def)
  qed
  then show "plan_ok a" "path_problems path (ag_parameters a) = []"
    using a1 assms(2) by (auto simp: plan_ok_def)
qed

end
