(* ===== verification/Mapping_Tools.thy ===== *)
theory Mapping_Tools
  imports Arguments
begin

text \<open>
  \<^verbatim>\<open>openapi/mapping.py\<close>: the operations of a document as tools. A \<open>frozenset\<close> of operation keys is a
  list used for membership only, and the overrides are an association list. \<open>ell\<close> is the ellipsis.
\<close>

section \<open>Names and descriptions\<close>

definition METHODS :: "string list" where
  "METHODS = [''get'', ''put'', ''post'', ''delete'', ''options'', ''head'', ''patch'', ''trace'']"

definition MAX_NAME :: nat where "MAX_NAME = 128"

definition tool_name_ok :: "string \<Rightarrow> bool" where
  "tool_name_ok s \<longleftrightarrow> s \<noteq> [] \<and> length s \<le> MAX_NAME \<and> list_all name_char s"

definition ANNOTATIONS :: "(string, jdict) dict" where
  "ANNOTATIONS =
     [(''GET'', [(''readOnlyHint'', JBool True)]), (''HEAD'', [(''readOnlyHint'', JBool True)]),
      (''DELETE'', [(''destructiveHint'', JBool True)]), (''PUT'', [(''idempotentHint'', JBool True)])]"

definition normalize :: "json \<Rightarrow> string" where
  "normalize raw =
     (case raw of
        JStr s \<Rightarrow> strip_underscores (take MAX_NAME (strip_underscores (safe_name s)))
      | _ \<Rightarrow> [])"

definition fallback_name :: "operation_key \<Rightarrow> string" where
  "fallback_name key =
     (let segments = map (\<lambda>s. normalize (JStr s)) (split_char (CHR ''/'') (ok_path key))
      in take MAX_NAME (join ''_'' (lower (ok_method key) # filter (\<lambda>s. s \<noteq> []) segments)))"

definition tool_name :: "operation_key \<Rightarrow> jdict \<Rightarrow> override option \<Rightarrow> string \<times> string option" where
  "tool_name key operation override =
     (let own = normalize (jget operation ''operationId'');
          derived = (if own \<noteq> [] then own else fallback_name key)
      in case override of
           None \<Rightarrow> (derived, None)
         | Some o1 \<Rightarrow>
             (case od_name o1 of
                None \<Rightarrow> (derived, None)
              | Some name \<Rightarrow>
                  if tool_name_ok name then (name, None)
                  else (derived, Some (''override name '' @ repr_str name @ '' is not a valid MCP tool name ''
                                       @ ''(1-128 characters of A-Z a-z 0-9 _ - .)''))))"

definition description_parts :: "jdict \<Rightarrow> string list" where
  "description_parts operation =
     concat (map (\<lambda>f. case jget operation f of
                        JStr s \<Rightarrow> if strip s \<noteq> [] then [strip s] else []
                      | _ \<Rightarrow> []) [''summary'', ''description''])"

definition description_of :: "string \<Rightarrow> operation_key \<Rightarrow> jdict \<Rightarrow> override option \<Rightarrow> int \<Rightarrow> string" where
  "description_of ell key operation override limit =
     (let joined = join [CHR 0x0A, CHR 0x0A] (description_parts operation);
          own = (if joined \<noteq> [] then joined else key_text key);
          text' = (case override of
                     Some o1 \<Rightarrow> (case od_description o1 of Some d \<Rightarrow> d | None \<Rightarrow> own)
                   | None \<Rightarrow> own)
      in if int (length text') \<le> limit then text' else py_prefix (limit - 1) text' @ ell)"

section \<open>Output schemas\<close>

text \<open>\<open>_is_object_root\<close> of every schema still to be looked at, the members of an \<open>allOf\<close> in front.\<close>

partial_function (option) object_roots :: "(string \<Rightarrow> string) \<Rightarrow> json \<Rightarrow> json list \<Rightarrow> bool run" where
  "object_roots unquote document stack =
     (if stack = [] then ret True
      else case deref unquote document (hd stack) of
        None \<Rightarrow> None
      | Some (Inl e) \<Rightarrow> Some (Inl e)
      | Some (Inr (JObj d)) \<Rightarrow>
          if jget d ''nullable'' = JBool True then ret False
          else if jget d ''type'' = JStr ''object'' then object_roots unquote document (List.tl stack)
          else if jget d ''type'' \<noteq> JNull then ret False
          else if has_key d ''properties'' then object_roots unquote document (List.tl stack)
          else (case jget d ''allOf'' of
                  JList ms \<Rightarrow> if ms = [] then ret False else object_roots unquote document (ms @ List.tl stack)
                | _ \<Rightarrow> ret False)
      | Some (Inr v) \<Rightarrow> ret False)"

declare object_roots.simps [code]

definition response_codes :: "jdict \<Rightarrow> string list" where
  "response_codes responses =
     sort (filter (\<lambda>c. length c = 3 \<and> py_isdigit c \<and> startswith c ''2'') (map fst responses))
     @ filter (has_key responses) [''2XX'', ''2xx'']"

definition output_schema ::
  "(string \<Rightarrow> string) \<Rightarrow> json \<Rightarrow> dialect \<Rightarrow> jdict \<Rightarrow> (jdict option \<times> output_kind) run" where
  "output_schema unquote document dia operation =
     bind_run (lift (as_obj (jget_or operation ''responses'' (JObj [])))) (\<lambda>responses.
       case response_codes responses of
         [] \<Rightarrow> ret (None, Out_none)
       | code # _ \<Rightarrow>
           bind_run (resolve_media_schema unquote document (jget responses code)) (\<lambda>schema.
             if schema = JNull then ret (None, Out_none)
             else
               bind_run (deref unquote document schema) (\<lambda>resolved.
               bind_run (object_roots unquote document [resolved]) (\<lambda>is_root.
                 if is_root
                 then (case convert resolved (new_bundler document dia) of
                         (b, JObj root1) \<Rightarrow>
                           bind_run (finish unquote (if has_key root1 ''type'' then root1
                                                     else (''type'', JStr ''object'') # root1) b)
                             (\<lambda>s. ret (Some s, Out_object))
                       | (b, v) \<Rightarrow> Some (Inl (TypeError ''the root is no object'')))
                 else (case convert schema (new_bundler document dia) of
                         (b, v) \<Rightarrow>
                           bind_run (finish unquote
                               [(''type'', JStr ''object''), (''properties'', JObj [(''result'', v)]),
                                (''required'', JList [JStr ''result''])] b)
                             (\<lambda>s. ret (Some s, Out_wrapped)))))))"

section \<open>One operation\<close>

definition not_mapped :: "operation_key \<Rightarrow> string list \<Rightarrow> string list \<Rightarrow> bool \<Rightarrow> mapped_operation" where
  "not_mapped key unsupported dropped selected =
     \<lparr>mo_key = key, mo_tool = None, mo_plan = None, mo_unsupported = unsupported, mo_dropped = dropped,
      mo_selected = selected, mo_name_problem = None, mo_conflicts = [], mo_notes = []\<rparr>"

definition trace_reason :: string where
  "trace_reason = ''TRACE echoes the request back, including the credential the hub adds, so it ''
                  @ ''is never exposed''"

definition pattern_note :: "string \<Rightarrow> string" where
  "pattern_note p = ''pattern '' @ quoted p @ '' cannot be checked by the hub (backreferences and lookaround ''
                    @ ''are not supported); the API itself will enforce it''"

record map_env =
  me_float_text :: "rat \<Rightarrow> string"
  me_unquote :: "string \<Rightarrow> string"
  me_ellipsis :: string
  me_re2 :: re2

definition input_root :: "arguments \<Rightarrow> jdict" where
  "input_root a =
     [(''type'', JStr ''object''), (''properties'', JObj (ag_properties a))]
     @ (if ag_required a \<noteq> [] then [(''required'', JList (map JStr (ag_required a)))] else [])
     @ [(''additionalProperties'', JBool False)]"

definition map_supported ::
  "map_env \<Rightarrow> json \<Rightarrow> dialect \<Rightarrow> operation_key \<Rightarrow> jdict \<Rightarrow> override option \<Rightarrow> int \<Rightarrow> bool \<Rightarrow> build
     \<Rightarrow> mapped_operation run" where
  "map_supported M document dia key operation override limit selected st =
     (case st of (b, a) \<Rightarrow>
        (let (name, name_problem) = tool_name key operation override
         in bind_run (output_schema (me_unquote M) document dia operation) (\<lambda>(out_schema, out_kind).
            bind_run (finish (me_unquote M) (input_root a) b) (\<lambda>input_schema.
              ret \<lparr>mo_key = key,
                   mo_tool = Some \<lparr>td_name = name,
                                   td_description = description_of (me_ellipsis M) key operation override limit,
                                   td_input_schema = input_schema, td_output_schema = out_schema,
                                   td_annotations = (case map_of ANNOTATIONS (ok_method key) of
                                                       Some d \<Rightarrow> d | None \<Rightarrow> [])\<rparr>,
                   mo_plan = Some \<lparr>rp_method = ok_method key, rp_path = ok_path key,
                                   rp_parameters = ag_parameters a, rp_body = ag_body a, rp_output = out_kind\<rparr>,
                   mo_unsupported = [], mo_dropped = ag_dropped a, mo_selected = selected,
                   mo_name_problem = name_problem, mo_conflicts = [],
                   mo_notes = map pattern_note (unchecked_patterns (me_re2 M) (JObj input_schema))\<rparr>))))"

definition map_operation ::
  "map_env \<Rightarrow> json \<Rightarrow> dialect \<Rightarrow> (operation_key, override) dict \<Rightarrow> int \<Rightarrow> operation_key list
     \<Rightarrow> operation_key \<times> jdict \<times> jdict \<times> string \<Rightarrow> mapped_operation run" where
  "map_operation M document dia overrides limit selection entry =
     (case entry of (key, item, operation, why) \<Rightarrow>
        (let selected = (key \<in> set selection)
         in if why \<noteq> [] then ret (not_mapped key [why] [] selected)
            else
              bind_run (operation_arguments (me_float_text M) (me_unquote M) document (ok_path key) item operation
                          (new_bundler document dia)) (\<lambda>(b, a).
              bind_run (lift (bind_py (as_list (jget_or operation UNSUPPORTED (JList []))) (map_py as_text)))
                (\<lambda>marked.
              bind_run (streaming_media (me_unquote M) document operation) (\<lambda>streaming.
                let unsupported = (if ok_method key = ''TRACE'' then [trace_reason] else [])
                                  @ marked @ ag_unsupported a @ streaming
                in if unsupported \<noteq> [] then ret (not_mapped key unsupported (ag_dropped a) selected)
                   else map_supported M document dia key operation (map_of overrides key) limit selected (b, a))))))"

section \<open>Every operation\<close>

definition query_reason :: string where
  "query_reason = ''the QUERY method (OpenAPI 3.2: a safe method with a request body) is not supported''"

definition custom_reason :: "string \<Rightarrow> string" where
  "custom_reason method = upper method @ '' is a custom method (additionalOperations); only the ''
                          @ ''standard methods are called''"

definition methods_of :: "(string \<times> json) list \<Rightarrow> string list \<Rightarrow> (string \<times> jdict) list" where
  "methods_of item ms =
     concat (map (\<lambda>m. case jget item m of JObj op \<Rightarrow> [(m, op)] | _ \<Rightarrow> []) ms)"

text \<open>The operations of one path: those of the standard methods, then those that cannot be tools.\<close>

definition standard_operations :: "string \<Rightarrow> jdict \<Rightarrow> (operation_key \<times> jdict \<times> jdict \<times> string) list" where
  "standard_operations path item =
     map (\<lambda>(m, op). (mk_key m path, item, op, [])) (methods_of item METHODS)"

definition other_operations :: "string \<Rightarrow> jdict \<Rightarrow> (operation_key \<times> jdict \<times> jdict \<times> string) list" where
  "other_operations path item =
     map (\<lambda>(m, op). (mk_key ''QUERY'' path, item, op, query_reason)) (methods_of item [''query''])
     @ (case jget item ''additionalOperations'' of
          JObj extra \<Rightarrow>
            map (\<lambda>(m, op). (mk_key m path, item, op, custom_reason m))
                (concat (map (\<lambda>(m, v). case v of JObj op \<Rightarrow> [(m, op)] | _ \<Rightarrow> []) extra))
        | _ \<Rightarrow> [])"

definition path_operations ::
  "(string \<Rightarrow> string) \<Rightarrow> json \<Rightarrow> string \<times> json \<Rightarrow> (operation_key \<times> jdict \<times> jdict \<times> string) list py" where
  "path_operations unquote document entry =
     (case entry of (path, item_json) \<Rightarrow>
        if startswith path ''x-'' \<or> \<not> is_obj item_json then Inr []
        else
          bind_py (case jget (obj_or_empty item_json) ''$ref'' of
                     JStr ref \<Rightarrow> bind_py (resolve_local unquote document ref) as_obj
                   | _ \<Rightarrow> Inr (obj_or_empty item_json)) (\<lambda>item.
            Inr (standard_operations path item @ other_operations path item)))"

fun map_all :: "('a \<Rightarrow> 'b run) \<Rightarrow> 'a list \<Rightarrow> 'b list run" where
  "map_all f [] = ret []"
| "map_all f (x # xs) = bind_run (f x) (\<lambda>y. bind_run (map_all f xs) (\<lambda>ys. ret (y # ys)))"

definition with_conflicts :: "mapped_operation list \<Rightarrow> mapped_operation list" where
  "with_conflicts ms =
     (let names = concat (map (\<lambda>m. case mo_tool m of Some t \<Rightarrow> [(td_name t, mo_key m)] | None \<Rightarrow> []) ms)
      in map (\<lambda>m. case mo_tool m of
                    None \<Rightarrow> m
                  | Some t \<Rightarrow> m\<lparr>mo_conflicts :=
                      map snd (filter (\<lambda>(n, k). n = td_name t \<and> k \<noteq> mo_key m) names)\<rparr>) ms)"

definition openapi_document :: "map_env \<Rightarrow> jdict \<Rightarrow> dialect \<Rightarrow> (jdict \<times> dialect) py" where
  "openapi_document M document dia =
     (if dia = D20
      then bind_py (swagger2_to_openapi3 (me_float_text M) (me_unquote M) document) (\<lambda>d. Inr (d, D30))
      else Inr (document, dia))"

definition preview ::
  "map_env \<Rightarrow> jdict \<Rightarrow> dialect \<Rightarrow> (operation_key, override) dict \<Rightarrow> int \<Rightarrow> operation_key list
     \<Rightarrow> mapped_operation list run" where
  "preview M document dia overrides limit selection =
     bind_run (lift (openapi_document M document dia)) (\<lambda>(doc, dia3).
     bind_run (lift (as_obj (jget_or doc ''paths'' (JObj [])))) (\<lambda>paths.
     bind_run (map_all (\<lambda>entry.
         bind_run (lift (path_operations (me_unquote M) (JObj doc) entry))
           (map_all (map_operation M (JObj doc) dia3 overrides limit selection))) paths) (\<lambda>mapped.
       ret (with_conflicts (concat mapped)))))"

definition choice_problems :: "mapped_operation list \<Rightarrow> string list" where
  "choice_problems chosen =
     concat (map (\<lambda>m. case mo_tool m of
                        None \<Rightarrow> [key_text (mo_key m) @ '' cannot be enabled: '' @ join ''; '' (mo_unsupported m)]
                      | Some t \<Rightarrow> (case mo_name_problem m of
                                    Some p \<Rightarrow> if p \<noteq> [] then [key_text (mo_key m) @ '': '' @ p] else []
                                  | None \<Rightarrow> [])) chosen)"

definition conflict_problems :: "mapped_operation list \<Rightarrow> string list" where
  "conflict_problems ms =
     concat (map (\<lambda>m. if mo_plan m \<noteq> None \<and> mo_conflicts m \<noteq> []
                      then [key_text (mo_key m) @ '': '' @ last (mapped_problems m)] else []) ms)"

definition tools_of :: "mapped_operation list \<Rightarrow> tool list" where
  "tools_of ms =
     concat (map (\<lambda>m. case (mo_tool m, mo_plan m) of
                        (Some t, Some p) \<Rightarrow> [\<lparr>tl_key = mo_key m, tl_definition = t, tl_plan = p\<rparr>]
                      | _ \<Rightarrow> []) ms)"

text \<open>\<open>Inl\<close> is \<open>MappingError\<close> with its problems.\<close>

definition build_tools ::
  "map_env \<Rightarrow> jdict \<Rightarrow> dialect \<Rightarrow> operation_key list \<Rightarrow> (operation_key, override) dict \<Rightarrow> int
     \<Rightarrow> (string list + tool list) run" where
  "build_tools M document dia selection overrides limit =
     bind_run (preview M document dia overrides limit selection) (\<lambda>mapped.
       let chosen = filter mo_selected mapped;
           servable = with_conflicts (filter (\<lambda>m. mo_tool m \<noteq> None) chosen);
           problems = choice_problems chosen @ conflict_problems servable
       in ret (if problems \<noteq> [] then Inl problems else Inr (tools_of servable)))"

section \<open>Names are valid\<close>

lemma squash_chars: "c \<in> set (squash dropping s) \<Longrightarrow> name_char c"
proof (induction dropping s rule: squash.induct)
  case (2 dropping c' s)
  have "name_char (CHR ''_'')" by code_simp
  with 2 show ?case by (auto split: if_splits)
qed simp

lemma normalize_chars: "c \<in> set (normalize v) \<Longrightarrow> name_char c"
proof (cases v)
  case (JStr s)
  assume "c \<in> set (normalize v)"
  then have "c \<in> set (take MAX_NAME (strip_underscores (safe_name s)))"
    using set_strip_if[of "\<lambda>c. c = CHR ''_''" "take MAX_NAME (strip_underscores (safe_name s))"] JStr
    by (auto simp: normalize_def)
  then have "c \<in> set (safe_name s)"
    using set_strip_if[of "\<lambda>c. c = CHR ''_''" "safe_name s"] by (meson in_set_takeD subsetD)
  then show ?thesis by (simp add: safe_name_def squash_chars)
qed (simp_all add: normalize_def)

lemma length_strip_if: "length (strip_if P s) \<le> length s"
  by (simp add: strip_if_def lstrip_if_def rstrip_if_def)
     (metis length_dropWhile_le length_rev order_trans)

lemma normalize_ok: "normalize v \<noteq> [] \<Longrightarrow> tool_name_ok (normalize v)"
proof -
  have "length (normalize v) \<le> MAX_NAME"
    by (cases v)
       (auto simp: normalize_def intro: order_trans[OF length_strip_if])
  moreover have "list_all name_char (normalize v)" using normalize_chars by (simp add: list_all_iff)
  ultimately show "normalize v \<noteq> [] \<Longrightarrow> tool_name_ok (normalize v)" by (simp add: tool_name_ok_def)
qed

lemma methods_upper_lower: "\<forall>m \<in> set METHODS. lower (upper m) = m \<and> m \<noteq> [] \<and> list_all name_char m"
  by code_simp

lemma fallback_name_ok:
  assumes "m \<in> set METHODS"
  shows "tool_name_ok (fallback_name (mk_key m path))"
proof -
  let ?segs = "filter (\<lambda>s. s \<noteq> []) (map (\<lambda>s. normalize (JStr s)) (split_char (CHR ''/'') path))"
  have m: "lower (upper m) = m" "m \<noteq> []" "list_all name_char m" using methods_upper_lower assms by auto
  have u: "name_char (CHR ''_'')" by code_simp
  have "name_char c" if "c \<in> set (join ''_'' (m # ?segs))" for c
  proof -
    from join_chars[OF that] consider "c = CHR ''_''" | "c \<in> set m" | s where "s \<in> set ?segs" "c \<in> set s" by auto
    then show ?thesis
    proof cases
      case 3
      then show ?thesis using normalize_chars by auto
    qed (use u m(3) in \<open>auto simp: list_all_iff\<close>)
  qed
  moreover have "join ''_'' (m # ?segs) \<noteq> []" using m(2) by (cases ?segs) auto
  ultimately show ?thesis
    by (auto simp: fallback_name_def mk_key_def m(1) tool_name_ok_def list_all_iff MAX_NAME_def dest: in_set_takeD)
qed

lemma tool_name_valid:
  assumes "m \<in> set METHODS" "tool_name (mk_key m path) operation override = (name, problem)"
  shows "tool_name_ok name"
  using assms fallback_name_ok normalize_ok
  by (auto simp: tool_name_def Let_def split: option.splits if_splits)

section \<open>The tools that are served\<close>

definition entry_ok :: "operation_key \<times> jdict \<times> jdict \<times> string \<Rightarrow> bool" where
  "entry_ok entry \<longleftrightarrow>
     (case entry of (key, item, operation, why) \<Rightarrow>
        why = [] \<longrightarrow> (\<exists>m path. m \<in> set METHODS \<and> key = mk_key m path))"

definition plan_safe :: "request_plan \<Rightarrow> bool" where
  "plan_safe plan \<longleftrightarrow>
     headers_kept (rp_parameters plan) \<and> body_encodable (rp_body plan) \<and>
     path_problems (rp_path plan) (rp_parameters plan) = []"

definition mapped_ok :: "mapped_operation \<Rightarrow> bool" where
  "mapped_ok m \<longleftrightarrow>
     (case mo_tool m of
        None \<Rightarrow> True
      | Some t \<Rightarrow> tool_name_ok (td_name t) \<and>
                  (\<exists>plan. mo_plan m = Some plan \<and> plan_safe plan \<and> rp_method plan \<noteq> ''TRACE'' \<and>
                          rp_method plan = ok_method (mo_key m) \<and> rp_path plan = ok_path (mo_key m)))"

definition mapped_in :: "operation_key list \<Rightarrow> mapped_operation \<Rightarrow> bool" where
  "mapped_in selection m \<longleftrightarrow> mapped_ok m \<and> (mo_selected m \<longleftrightarrow> mo_key m \<in> set selection)"

lemma map_operation_ok:
  assumes run: "map_operation M document dia overrides limit selection entry = ret m" and e: "entry_ok entry"
  shows "mapped_ok m" "mo_key m = fst entry" "mo_tool m \<noteq> None \<Longrightarrow> snd (snd (snd entry)) = []"
    "mo_selected m = (fst entry \<in> set selection)"
proof -
  obtain key item operation why where entry: "entry = (key, item, operation, why)" by (metis prod_cases4)
  let ?sel = "key \<in> set selection"
  consider (no) u dr where "m = not_mapped key u dr ?sel"
    | (yes) b a where "why = []" "ok_method key \<noteq> ''TRACE''" "ag_unsupported a = []"
        "operation_arguments (me_float_text M) (me_unquote M) document (ok_path key) item operation
           (new_bundler document dia) = ret (b, a)"
        "map_supported M document dia key operation (map_of overrides key) limit ?sel (b, a) = ret m"
    using run unfolding entry map_operation_def
    by (auto simp: bind_run_ret Let_def split: if_splits)
  then have "mapped_ok m \<and> mo_key m = key \<and> (mo_tool m \<noteq> None \<longrightarrow> why = []) \<and> mo_selected m = ?sel"
  proof cases
    case no
    then show ?thesis by (simp add: not_mapped_def mapped_ok_def)
  next
    case yes
    obtain mth path where k: "mth \<in> set METHODS" "key = mk_key mth path"
      using e yes(1) entry by (auto simp: entry_ok_def)
    obtain name problem where tn: "tool_name key operation (map_of overrides key) = (name, problem)" by fastforce
    note valid = tool_name_valid[OF k(1) tn[unfolded k(2)]]
    note ok = operation_arguments_ok[OF yes(4,3)]
    show ?thesis
      using yes(1,2,5) tn valid ok
      by (auto simp: map_supported_def bind_run_ret Let_def mapped_ok_def plan_safe_def plan_ok_def)
  qed
  then show "mapped_ok m" "mo_key m = fst entry" "mo_tool m \<noteq> None \<Longrightarrow> snd (snd (snd entry)) = []"
    "mo_selected m = (fst entry \<in> set selection)" by (simp_all add: entry)
qed

lemma map_all_ret: "map_all f xs = ret ys \<longleftrightarrow> list_all2 (\<lambda>x y. f x = ret y) xs ys"
proof (induction xs arbitrary: ys)
  case (Cons x xs)
  then show ?case by (cases ys) (auto simp: bind_run_ret)
qed auto

definition tool_keys :: "mapped_operation list \<Rightarrow> operation_key list" where
  "tool_keys ms = map mo_key (filter (\<lambda>m. mo_tool m \<noteq> None) ms)"

lemma tool_keys_append [simp]: "tool_keys (ms @ ns) = tool_keys ms @ tool_keys ns"
  by (simp add: tool_keys_def)

definition open_keys :: "(operation_key \<times> jdict \<times> jdict \<times> string) list \<Rightarrow> operation_key list" where
  "open_keys es = map fst (filter (\<lambda>(k, i, op, why). why = []) es)"

lemma tool_keys_mapped:
  assumes "list_all2 (\<lambda>e m. map_operation M document dia overrides limit selection e = ret m) es ms"
    and "list_all entry_ok es"
  shows "subseq (tool_keys ms) (open_keys es)" "list_all (mapped_in selection) ms"
  using assms
proof (induction rule: list_all2_induct)
  case (Cons e es m ms)
  { case 1
    note ok = map_operation_ok[OF Cons.hyps(1)]
    have "entry_ok e" using 1 by simp
    with ok(2,3) Cons.IH(1) 1 show ?case
      by (cases e) (auto simp: tool_keys_def open_keys_def)
  next
    case 2
    then show ?case using map_operation_ok(1,2,4)[OF Cons.hyps(1)] Cons.IH(2) by (simp add: mapped_in_def)
  }
qed (simp_all add: tool_keys_def)

lemma methods_of_fst: "set (map fst (methods_of item ms)) \<subseteq> set ms"
  "distinct ms \<Longrightarrow> distinct (map fst (methods_of item ms))"
proof -
  have a: "set (map fst (methods_of item ms)) \<subseteq> set ms" for ms
    by (auto simp: methods_of_def split: json.splits)
  then show "set (map fst (methods_of item ms)) \<subseteq> set ms" .
  show "distinct ms \<Longrightarrow> distinct (map fst (methods_of item ms))"
  proof (induction ms)
    case (Cons m ms)
    then show ?case using a[of ms] by (auto simp: methods_of_def split: json.splits)
  qed (simp add: methods_of_def)
qed

lemma path_operations_ok:
  assumes "path_operations unquote document (path, item_json) = Inr es"
  shows "list_all entry_ok es" "distinct (open_keys es)" "\<forall>k \<in> set (open_keys es). ok_path k = path"
proof -
  obtain item where es: "es = [] \<or> es = standard_operations path item @ other_operations path item"
    using assms by (auto simp: path_operations_def bind_py_Inr split: if_splits)
  let ?rest = "other_operations path item"
  have closed: "\<forall>(k, i, op, why) \<in> set ?rest. why \<noteq> []"
    by (auto simp: other_operations_def query_reason_def custom_reason_def split: json.splits)
  have rest: "open_keys ?rest = []" "list_all entry_ok ?rest"
    using closed by (auto simp: open_keys_def filter_empty_conv list_all_iff entry_ok_def)
  let ?ms = "map fst (methods_of item METHODS)"
  have keys: "open_keys (map (\<lambda>(m, op). (mk_key m path, item, op, [])) xs) = map (\<lambda>m. mk_key m path) (map fst xs)" for xs
    by (induction xs) (auto simp: open_keys_def)
  then have ok: "es = [] \<or> open_keys es = map (\<lambda>m. mk_key m path) ?ms"
    using es rest(1) by (auto simp: open_keys_def standard_operations_def)
  have "distinct METHODS" "distinct (map upper METHODS)" by code_simp+
  then have "inj_on upper (set METHODS)" by (simp add: distinct_map)
  then have "inj_on (\<lambda>m. mk_key m path) (set ?ms)"
    using methods_of_fst(1)[of item METHODS] by (auto simp: inj_on_def mk_key_def)
  then have "distinct (map (\<lambda>m. mk_key m path) ?ms)"
    using methods_of_fst(2)[OF \<open>distinct METHODS\<close>] by (simp only: distinct_map)
  then show "distinct (open_keys es)" using ok by (auto simp: open_keys_def)
  have "\<forall>k \<in> set (map (\<lambda>m. mk_key m path) ?ms). ok_path k = path" by (auto simp: mk_key_def)
  then show "\<forall>k \<in> set (open_keys es). ok_path k = path"
    using ok by (metis empty_iff empty_set list.map_disc_iff filter.simps(1) open_keys_def)
  have "list_all entry_ok (map (\<lambda>(m, op). (mk_key m path, item, op, [])) (methods_of item METHODS))"
    using methods_of_fst(1)[of item METHODS] by (fastforce simp: list_all_iff entry_ok_def)
  then show "list_all entry_ok es" using es rest(2) by (auto simp: standard_operations_def)
qed

lemma subseq_keeps: "subseq xs ys \<Longrightarrow> set xs \<subseteq> set ys \<and> (distinct ys \<longrightarrow> distinct xs)"
  by (induction rule: list_emb.induct) auto

lemma tool_keys_paths:
  assumes "list_all2 (\<lambda>entry ms. bind_run (lift (path_operations unquote document entry))
             (map_all (map_operation M document dia overrides limit selection)) = ret ms) paths mss"
  shows "distinct (map fst paths) \<Longrightarrow> distinct (tool_keys (concat mss))"
    and "\<forall>k \<in> set (tool_keys (concat mss)). ok_path k \<in> fst ` set paths"
    and "list_all (mapped_in selection) (concat mss)"
  using assms
proof (induction rule: list_all2_induct)
  case (Cons entry paths ms mss)
  obtain path item where entry: "entry = (path, item)" by fastforce
  from Cons.hyps(1) obtain es where es: "path_operations unquote document (path, item) = Inr es"
    "list_all2 (\<lambda>e m. map_operation M document dia overrides limit selection e = ret m) es ms"
    by (auto simp: bind_run_ret map_all_ret entry)
  note po = path_operations_ok[OF es(1)] and tk = tool_keys_mapped[OF es(2) path_operations_ok(1)[OF es(1)]]
  have here: "distinct (tool_keys ms)" "\<forall>k \<in> set (tool_keys ms). ok_path k = path"
    using subseq_keeps[OF tk(1)] po(2,3) by auto
  { case 1
    have "set (tool_keys ms) \<inter> set (tool_keys (concat mss)) = {}"
      using here(2) Cons.IH(2) 1 entry by fastforce
    then show ?case using here(1) Cons.IH(1) 1 by simp
  next
    case 2
    then show ?case using here(2) Cons.IH(2) entry by auto
  next
    case 3
    then show ?case using tk(2) Cons.IH(3) by simp
  }
qed (simp_all add: tool_keys_def)

lemma with_conflicts_map:
  obtains f where "with_conflicts ms = map f ms"
    "\<And>m. mo_key (f m) = mo_key m \<and> mo_tool (f m) = mo_tool m \<and> mo_plan (f m) = mo_plan m"
proof -
  let ?f = "\<lambda>names m. case mo_tool m of
                    None \<Rightarrow> m
                  | Some t \<Rightarrow> m\<lparr>mo_conflicts :=
                      map snd (filter (\<lambda>(n, k). n = td_name t \<and> k \<noteq> mo_key m) names)\<rparr>"
  have "mo_key (?f ns m) = mo_key m \<and> mo_tool (?f ns m) = mo_tool m \<and> mo_plan (?f ns m) = mo_plan m" for ns m
    by (simp split: option.splits)
  then show thesis using that[of "?f _"] unfolding with_conflicts_def Let_def by blast
qed

lemma tool_keys_with_conflicts: "tool_keys (with_conflicts ms) = tool_keys ms"
  by (rule with_conflicts_map[of ms]) (simp add: tool_keys_def filter_map comp_def)

lemma with_conflicts_member:
  assumes "m' \<in> set (with_conflicts ms)"
  obtains m where "m \<in> set ms" "mo_key m' = mo_key m" "mo_tool m' = mo_tool m" "mo_plan m' = mo_plan m"
    "mapped_in selection m' = mapped_in selection m"
proof -
  from assms obtain m where "m \<in> set ms" "m' = m \<or> (\<exists>cs. m' = m\<lparr>mo_conflicts := cs\<rparr>)"
    by (fastforce simp: with_conflicts_def Let_def split: option.splits)
  then show thesis using that by (fastforce simp: mapped_in_def mapped_ok_def split: option.splits)
qed

text \<open>No conflict is left: the same name is the same operation.\<close>

lemma with_conflicts_none:
  assumes "\<forall>m' \<in> set (with_conflicts ms). mo_tool m' \<noteq> None \<longrightarrow> mo_conflicts m' = []"
    and m: "m1 \<in> set ms" "mo_tool m1 = Some t1" "m2 \<in> set ms" "mo_tool m2 = Some t2" "td_name t1 = td_name t2"
  shows "mo_key m1 = mo_key m2"
proof (rule ccontr)
  assume ne: "mo_key m1 \<noteq> mo_key m2"
  let ?names = "concat (map (\<lambda>m. case mo_tool m of Some t \<Rightarrow> [(td_name t, mo_key m)] | None \<Rightarrow> []) ms)"
  let ?cs = "map snd (filter (\<lambda>(n, k). n = td_name t1 \<and> k \<noteq> mo_key m1) ?names)"
  have "(td_name t2, mo_key m2) \<in> set ?names" using m(3,4) by force
  then have "mo_key m2 \<in> set ?cs" using m(5) ne by force
  moreover have "m1\<lparr>mo_conflicts := ?cs\<rparr> \<in> set (with_conflicts ms)"
    using m(1,2) by (force simp: with_conflicts_def Let_def)
  then have "?cs = []" using assms(1) m(2) by fastforce
  ultimately show False by simp
qed

lemma as_obj_Inr: "as_obj v = Inr d \<longleftrightarrow> v = JObj d"
  by (cases v) (auto simp: as_obj_def py_items_def)

lemma preview_ret:
  assumes "preview M document dia overrides limit selection = ret ms"
  obtains doc dia3 paths mss where
    "openapi_document M document dia = Inr (doc, dia3)" "jget_or doc ''paths'' (JObj []) = JObj paths"
    "list_all2 (\<lambda>entry ms. bind_run (lift (path_operations (me_unquote M) (JObj doc) entry))
       (map_all (map_operation M (JObj doc) dia3 overrides limit selection)) = ret ms) paths mss"
    "ms = with_conflicts (concat mss)"
  using assms unfolding preview_def
  by (auto simp: bind_run_ret[of "Some _"] as_obj_Inr bind_run_ret[of "map_all _ _"] map_all_ret[of _ _ "_ :: mapped_operation list list"])

lemma conflict_problems_none:
  "conflict_problems ms = [] \<Longrightarrow> m \<in> set ms \<Longrightarrow> mo_plan m \<noteq> None \<Longrightarrow> mo_conflicts m = []"
  by (induction ms) (auto simp: conflict_problems_def split: if_splits)

definition distinct_paths :: "map_env \<Rightarrow> jdict \<Rightarrow> dialect \<Rightarrow> bool" where
  "distinct_paths M document dia \<longleftrightarrow>
     (case openapi_document M document dia of
        Inr (doc, _) \<Rightarrow> distinct (map fst (obj_or_empty (jget doc ''paths'')))
      | Inl _ \<Rightarrow> True)"

lemma build_tools_ret:
  assumes "build_tools M document dia selection overrides limit = ret (Inr tools)"
    and "distinct_paths M document dia"
  shows "distinct (map (\<lambda>t. td_name (tl_definition t)) tools)"
    and "\<forall>t \<in> set tools. tool_name_ok (td_name (tl_definition t)) \<and> plan_safe (tl_plan t) \<and>
           rp_method (tl_plan t) \<noteq> ''TRACE'' \<and> tl_key t \<in> set selection"
proof -
  from assms(1) obtain mapped where prev: "preview M document dia overrides limit selection = ret mapped"
    and none: "choice_problems (filter mo_selected mapped) = []"
      "conflict_problems (with_conflicts (filter (\<lambda>m. mo_tool m \<noteq> None) (filter mo_selected mapped))) = []"
    and tools: "tools = tools_of (with_conflicts (filter (\<lambda>m. mo_tool m \<noteq> None) (filter mo_selected mapped)))"
    by (auto simp: build_tools_def bind_run_ret Let_def split: if_splits)
  let ?l = "filter (\<lambda>m. mo_tool m \<noteq> None) (filter mo_selected mapped)"
  from prev obtain doc dia3 paths mss where p:
    "openapi_document M document dia = Inr (doc, dia3)" "jget_or doc ''paths'' (JObj []) = JObj paths"
    "list_all2 (\<lambda>entry ms. bind_run (lift (path_operations (me_unquote M) (JObj doc) entry))
       (map_all (map_operation M (JObj doc) dia3 overrides limit selection)) = ret ms) paths mss"
    "mapped = with_conflicts (concat mss)" by (rule preview_ret)
  have "distinct (map fst paths)"
    using assms(2) p(1,2) by (auto simp: distinct_paths_def jget_or_def jget_def split: option.splits)
  then have keys: "distinct (tool_keys mapped)"
    using tool_keys_paths(1)[OF p(3)] by (simp add: p(4) tool_keys_with_conflicts)
  then have lkeys: "distinct (map mo_key ?l)"
  proof -
    have "?l = filter mo_selected (filter (\<lambda>m. mo_tool m \<noteq> None) mapped)" by (simp add: conj_commute)
    then show ?thesis using keys distinct_map_filter unfolding tool_keys_def by metis
  qed
  have ok: "mapped_in selection m" if "m \<in> set mapped" for m
    using that tool_keys_paths(3)[OF p(3)] with_conflicts_member[of m "concat mss"] unfolding p(4)
    by (metis list_all_iff)
  then have plan: "\<exists>pl. mo_plan m = Some pl" if "m \<in> set ?l" for m
    using that by (fastforce simp: mapped_in_def mapped_ok_def split: option.splits)
  obtain f where f: "with_conflicts ?l = map f ?l"
    "\<And>m. mo_key (f m) = mo_key m \<and> mo_tool (f m) = mo_tool m \<and> mo_plan (f m) = mo_plan m"
    using with_conflicts_map[of ?l] by blast
  have tools_of_map: "tools_of (map f ms) =
      map (\<lambda>m. \<lparr>tl_key = mo_key m, tl_definition = the (mo_tool m), tl_plan = the (mo_plan m)\<rparr>) ms"
    if "\<forall>m \<in> set ms. mo_tool m \<noteq> None \<and> (\<exists>pl. mo_plan m = Some pl)" for ms
    using that by (induction ms) (auto simp: tools_of_def f(2))
  have tools': "tools = map (\<lambda>m. \<lparr>tl_key = mo_key m, tl_definition = the (mo_tool m), tl_plan = the (mo_plan m)\<rparr>) ?l"
    unfolding tools f(1) using plan by (intro tools_of_map) auto
  have quiet: "mo_conflicts (f m) = []" if "m \<in> set ?l" for m
    using conflict_problems_none[OF none(2)[unfolded f(1)], of "f m"] plan[OF that] that f(2)[of m] by simp
  have "inj_on (\<lambda>m. td_name (the (mo_tool m))) (set ?l)"
  proof (rule inj_onI)
    fix m1 m2 assume m: "m1 \<in> set ?l" "m2 \<in> set ?l" "td_name (the (mo_tool m1)) = td_name (the (mo_tool m2))"
    obtain t1 t2 where t: "mo_tool m1 = Some t1" "mo_tool m2 = Some t2" using m by auto
    have "mo_key m1 = mo_key m2"
      using with_conflicts_none[of ?l m1 t1 m2 t2] quiet m t unfolding f(1) by auto
    then show "m1 = m2" using lkeys m(1,2) by (meson distinct_map inj_onD)
  qed
  moreover have "distinct ?l" using lkeys by (simp add: distinct_map)
  ultimately show "distinct (map (\<lambda>t. td_name (tl_definition t)) tools)"
    unfolding tools' by (simp add: distinct_map comp_def)
  show "\<forall>t \<in> set tools. tool_name_ok (td_name (tl_definition t)) \<and> plan_safe (tl_plan t) \<and>
           rp_method (tl_plan t) \<noteq> ''TRACE'' \<and> tl_key t \<in> set selection"
    unfolding tools' using ok by (fastforce simp: mapped_in_def mapped_ok_def split: option.splits)
qed

section \<open>A request of a served tool can be built\<close>

lemma find_param_declared:
  "find_param ps loc name = None \<longleftrightarrow> \<not> (\<exists>p \<in> set ps. pp_location p = loc \<and> pp_name p = name)"
  by (induction ps loc name rule: find_param.induct) (auto split: option.splits)

lemma collect_params_no_raise: "collect_params fr dumps arguments ps \<noteq> Inl (BuildRaised e)"
proof (induction ps)
  case (Cons p ps)
  show ?case
  proof (cases "collect_params fr dumps arguments ps")
    case (Inl x)
    then show ?thesis
      using Cons by (auto simp: Let_def header_value_def split: param_location.splits if_splits)
  next
    case (Inr x)
    then show ?thesis
      by (auto simp: Let_def header_value_def split: param_location.splits if_splits)
  qed
qed simp

lemma path_value_no_raise: "path_value fr dumps p arguments \<noteq> Inl (BuildRaised e)"
  by (auto simp: path_value_def Let_def split: json.splits)

lemma render_path_no_raise:
  "\<forall>v. Variable v \<in> set parts \<longrightarrow> find_param ps In_path v \<noteq> None \<Longrightarrow>
     render_path fr dumps ps arguments parts \<noteq> Inl (BuildRaised e)"
proof (induction fr dumps ps arguments parts rule: render_path.induct)
  case (2 fr dumps ps arguments t parts)
  then show ?case by (cases "render_path fr dumps ps arguments parts") auto
next
  case (3 fr dumps ps arguments name parts)
  then show ?case
    using path_value_no_raise[of fr dumps _ arguments e]
    by (cases "render_path fr dumps ps arguments parts") (fastforce split: option.splits sum.splits)+
qed simp

lemma build_body_no_raise: "body_encodable body \<Longrightarrow> build_body fr dumps body arguments \<noteq> Inl (BuildRaised e)"
  by (auto simp: build_body_def body_encodable_def encode_payload_def Let_def
      split: option.splits body_mode.splits if_splits)

lemma plan_safe_variables:
  assumes "plan_safe plan" "Variable v \<in> set (path_parts (rp_path plan) [])"
  shows "find_param (rp_parameters plan) In_path v \<noteq> None"
proof -
  let ?declared = "map pp_name (filter (\<lambda>p. pp_location p = In_path) (rp_parameters plan))"
  have "v \<in> set (path_variables (rp_path plan))"
    using assms(2) by (force simp: path_variables_def)
  moreover have "u \<in> set ?declared" if "u \<in> set (path_variables (rp_path plan))" for u
  proof -
    have "concat (map (\<lambda>v. if v \<in> set ?declared then []
             else [''path variable {'' @ v @ ''} has no declared path parameter'']) (path_variables (rp_path plan))) = []"
      using assms(1) by (simp add: plan_safe_def path_problems_def Let_def)
    then have "(if u \<in> set ?declared then []
             else [''path variable {'' @ u @ ''} has no declared path parameter'']) = []"
      using that by (simp only: concat_eq_Nil_conv set_map image_iff) blast
    then show ?thesis by (simp split: if_splits)
  qed
  ultimately show ?thesis by (auto simp: find_param_declared)
qed

lemma plan_safe_builds:
  assumes "plan_safe plan"
  shows "build_http_request fr dumps plan arguments \<noteq> Inl (BuildRaised e)"
proof -
  have "build_path fr dumps (rp_path plan) (rp_parameters plan) arguments \<noteq> Inl (BuildRaised e)"
    unfolding build_path_def using plan_safe_variables[OF assms] by (intro render_path_no_raise) blast
  moreover have "build_body fr dumps (rp_body plan) arguments \<noteq> Inl (BuildRaised e)"
    using assms build_body_no_raise by (simp add: plan_safe_def)
  ultimately show ?thesis
    using collect_params_no_raise[of fr dumps arguments "rp_parameters plan" e]
    by (auto simp: build_http_request_def split: sum.splits prod.splits)
qed

end
