(* ===== verification/Trimmed_Spec.thy ===== *)
theory Trimmed_Spec
  imports Mapping_Tools
begin

text \<open>
  \<^verbatim>\<open>openapi/trimmed_spec.py\<close>: the document an OpenAPI server serves as its resource. A set of container
  entries is a list used for membership. \<open>_drop_dangling_refs\<close> deletes keys of the document it is
  looking things up in, so its stack holds the places of the nodes and each deletion changes the
  document for what follows; tops of stacks come first.
\<close>

section \<open>Allowlists\<close>

definition OPERATION_FIELDS :: "string list" where
  "OPERATION_FIELDS =
     [''operationId'', ''summary'', ''description'', ''tags'', ''deprecated'', ''parameters'', ''requestBody'',
      ''responses'', ''consumes'', ''produces'']"

definition RESPONSE_FIELDS :: "string list" where
  "RESPONSE_FIELDS = [''description'', ''content'', ''headers'', ''schema'', ''examples'', ''$ref'']"

definition INFO_FIELDS :: "string list" where "INFO_FIELDS = [''title'', ''version'', ''summary'']"

definition CONTAINERS_20 :: "string list" where "CONTAINERS_20 = [''definitions'', ''parameters'', ''responses'']"

definition NAME_MAPS :: "string list" where "NAME_MAPS = [''properties'', ''patternProperties'']"

section \<open>Operations\<close>

definition trimmed_response :: "json \<Rightarrow> json" where
  "trimmed_response response = (case response of JObj d \<Rightarrow> JObj (pick RESPONSE_FIELDS d) | _ \<Rightarrow> response)"

definition trimmed_operation :: "jdict \<Rightarrow> jdict" where
  "trimmed_operation operation =
     (let kept = pick OPERATION_FIELDS operation
      in case jget kept ''responses'' of
           JObj responses \<Rightarrow>
             AList.update ''responses''
               (JObj (map (\<lambda>(code, r). (code, trimmed_response r))
                          (filter (\<lambda>(code, r). \<not> startswith code ''x-'') responses))) kept
         | _ \<Rightarrow> kept)"

definition trimmed_item :: "operation_key list \<Rightarrow> string \<Rightarrow> jdict \<Rightarrow> jdict" where
  "trimmed_item selection path item =
     (let kept = map (\<lambda>(m, op). (m, JObj (trimmed_operation op)))
                     (filter (\<lambda>(m, op). mk_key m path \<in> set selection) (methods_of item METHODS))
      in if kept = [] then []
         else (if has_key item ''parameters'' then [(''parameters'', jget item ''parameters'')] else []) @ kept)"

definition trimmed_path ::
  "(string \<Rightarrow> string) \<Rightarrow> json \<Rightarrow> operation_key list \<Rightarrow> string \<times> json \<Rightarrow> jdict py" where
  "trimmed_path unquote document selection entry =
     (case entry of (path, item_json) \<Rightarrow>
        if startswith path ''x-'' \<or> \<not> is_obj item_json then Inr []
        else
          bind_py (case jget (obj_or_empty item_json) ''$ref'' of
                     JStr ref \<Rightarrow> bind_py (resolve_local unquote document ref) as_obj
                   | _ \<Rightarrow> Inr (obj_or_empty item_json)) (\<lambda>item.
            let kept = trimmed_item selection path item
            in Inr (if kept \<noteq> [] then [(path, JObj kept)] else [])))"

definition operations_of :: "json \<Rightarrow> jdict list" where
  "operations_of item = map snd (methods_of (obj_or_empty item) METHODS)"

section \<open>Containers\<close>

definition container_entry :: "(string \<Rightarrow> string) \<Rightarrow> string \<Rightarrow> string list option py" where
  "container_entry unquote ref =
     (if \<not> startswith ref ''#/'' then Inr None
      else bind_py (decode_pointer (unquote (drop 1 ref))) (\<lambda>parts.
        Inr (if take 1 parts = [''components''] \<and> length parts \<ge> 3 then Some (take 3 parts)
             else if parts \<noteq> [] \<and> hd parts \<in> set CONTAINERS_20 \<and> length parts \<ge> 2 then Some (take 2 parts)
             else None)))"

text \<open>What a node adds to the entries reached, and what is then looked at before its values.\<close>

definition reach_node ::
  "(string \<Rightarrow> string) \<Rightarrow> json \<Rightarrow> jdict \<Rightarrow> string list list \<Rightarrow> (string list list \<times> json list) py" where
  "reach_node unquote document d reached =
     (case jget d ''$ref'' of
        JStr ref \<Rightarrow>
          bind_py (container_entry unquote ref) (\<lambda>entry.
            case entry of
              None \<Rightarrow> Inr (reached, [])
            | Some e \<Rightarrow>
                if e \<in> set reached then Inr (reached, [])
                else bind_py (resolve_local unquote document (''#'' @ encode_pointer e)) (\<lambda>target.
                       Inr (reached @ [e],
                            [if e ! (length e - 2) = ''responses'' then trimmed_response target else target])))
      | _ \<Rightarrow> Inr (reached, []))"

partial_function (option) reach ::
  "(string \<Rightarrow> string) \<Rightarrow> json \<Rightarrow> json list \<Rightarrow> string list list \<Rightarrow> string list list run" where
  "reach unquote document stack reached =
     (if stack = [] then ret reached
      else case hd stack of
        JObj d \<Rightarrow>
          (case reach_node unquote document d reached of
             Inl e \<Rightarrow> Some (Inl e)
           | Inr (reached', found) \<Rightarrow>
               reach unquote document (rev (map snd d) @ found @ List.tl stack) reached')
      | JList xs \<Rightarrow> reach unquote document (rev xs @ List.tl stack) reached
      | _ \<Rightarrow> reach unquote document (List.tl stack) reached)"

declare reach.simps [code]

definition kept_entries :: "string list list \<Rightarrow> string list \<Rightarrow> bool \<Rightarrow> jdict \<Rightarrow> jdict" where
  "kept_entries reached prefix_path trim d =
     map (\<lambda>(n, v). (n, if trim then trimmed_response v else v))
         (filter (\<lambda>(n, v). prefix_path @ [n] \<in> set reached) d)"

definition containers_20 :: "jdict \<Rightarrow> string list list \<Rightarrow> jdict py" where
  "containers_20 document reached =
     bind_py (map_py (\<lambda>c. bind_py (as_obj (jget_or document c (JObj []))) (\<lambda>d.
         let entries = kept_entries reached [c] (c = ''responses'') d
         in Inr (if entries \<noteq> [] then [(c, JObj entries)] else []))) CONTAINERS_20)
       (\<lambda>parts. Inr (concat parts))"

definition containers_3 :: "jdict \<Rightarrow> string list list \<Rightarrow> jdict py" where
  "containers_3 document reached =
     bind_py (as_obj (jget_or document ''components'' (JObj []))) (\<lambda>kinds.
       let components = concat (map (\<lambda>(kind, v). case v of
             JObj d \<Rightarrow> (let kept = kept_entries reached [''components'', kind] (kind = ''responses'') d
                        in if kept \<noteq> [] then [(kind, JObj kept)] else [])
           | _ \<Rightarrow> []) kinds)
       in Inr (if components \<noteq> [] then [(''components'', JObj components)] else []))"

definition reachable_containers ::
  "(string \<Rightarrow> string) \<Rightarrow> jdict \<Rightarrow> dialect \<Rightarrow> json \<Rightarrow> jdict run" where
  "reachable_containers unquote document dia roots =
     bind_run (reach unquote (JObj document) [roots] []) (\<lambda>reached.
       lift (if dia = D20 then containers_20 document reached else containers_3 document reached))"

section \<open>Extensions and dangling references\<close>

fun strip_extensions :: "bool \<Rightarrow> json \<Rightarrow> json"
  and strip_items :: "bool \<Rightarrow> (string \<times> json) list \<Rightarrow> jdict"
  and strip_list :: "json list \<Rightarrow> json list" where
  "strip_extensions names (JObj d) = JObj (strip_items names d)"
| "strip_extensions names (JList xs) = JList (strip_list xs)"
| "strip_extensions names v = v"
| "strip_items names [] = []"
| "strip_items names ((k, v) # d) =
     (if names \<or> \<not> startswith k ''x-''
      then [(k, strip_extensions (k \<in> set NAME_MAPS \<and> \<not> names) v)] else []) @ strip_items names d"
| "strip_list [] = []"
| "strip_list (v # vs) = strip_extensions False v # strip_list vs"

definition resolves :: "(string \<Rightarrow> string) \<Rightarrow> json \<Rightarrow> string \<Rightarrow> bool" where
  "resolves unquote document ref \<longleftrightarrow>
     startswith ref ''#/'' \<and> (case resolve_local unquote document ref of Inr v \<Rightarrow> True | Inl e \<Rightarrow> False)"

datatype place_step = At_key string | At_index nat

fun node_at :: "json \<Rightarrow> place_step list \<Rightarrow> json" where
  "node_at v [] = v"
| "node_at (JObj d) (At_key k # ps) = node_at (jget d k) ps"
| "node_at (JList xs) (At_index i # ps) = (if i < length xs then node_at (xs ! i) ps else JNull)"
| "node_at v ps = JNull"

fun delete_ref :: "json \<Rightarrow> place_step list \<Rightarrow> json" where
  "delete_ref (JObj d) [] = JObj (AList.delete ''$ref'' d)"
| "delete_ref (JObj d) (At_key k # ps) = JObj (AList.update k (delete_ref (jget d k) ps) d)"
| "delete_ref (JList xs) (At_index i # ps) =
     JList (if i < length xs then xs[i := delete_ref (xs ! i) ps] else xs)"
| "delete_ref v ps = v"

definition is_dangling :: "(string \<Rightarrow> string) \<Rightarrow> json \<Rightarrow> jdict \<Rightarrow> bool" where
  "is_dangling unquote document d \<longleftrightarrow>
     (case jget d ''$ref'' of JStr ref \<Rightarrow> \<not> resolves unquote document ref | _ \<Rightarrow> False)"

partial_function (option) drop_dangling ::
  "(string \<Rightarrow> string) \<Rightarrow> json \<Rightarrow> place_step list list \<Rightarrow> json run" where
  "drop_dangling unquote document stack =
     (if stack = [] then ret document
      else let place = hd stack in
        case node_at document place of
          JObj d \<Rightarrow>
            (let gone = is_dangling unquote document d;
                 d' = (if gone then AList.delete ''$ref'' d else d)
             in drop_dangling unquote (if gone then delete_ref document place else document)
                  (rev (map (\<lambda>(k, v). place @ [At_key k]) d') @ List.tl stack))
        | JList xs \<Rightarrow>
            drop_dangling unquote document
              (rev (map (\<lambda>i. place @ [At_index i]) [0..<length xs]) @ List.tl stack)
        | _ \<Rightarrow> drop_dangling unquote document (List.tl stack))"

declare drop_dangling.simps [code]

section \<open>The trimmed document\<close>

definition trimmed_tags :: "jdict \<Rightarrow> jdict \<Rightarrow> json list py" where
  "trimmed_tags document paths =
     bind_py (map_py (\<lambda>op. as_list (jget_or op ''tags'' (JList [])))
                (concat (map (\<lambda>(p, item). operations_of item) paths))) (\<lambda>used.
     bind_py (as_list (jget_or document ''tags'' (JList []))) (\<lambda>tags.
       Inr (concat (map (\<lambda>t. case t of
              JObj d \<Rightarrow> if jget d ''name'' \<in> set (concat used) then [JObj (pick [''name'', ''description''] d)] else []
            | _ \<Rightarrow> []) tags))))"

definition trimmed_head :: "jdict \<Rightarrow> jdict \<Rightarrow> jdict py" where
  "trimmed_head document paths =
     bind_py (as_obj (jget_or document ''info'' (JObj []))) (\<lambda>info.
       Inr (pick [''openapi'', ''swagger''] document
            @ [(''info'', JObj (pick INFO_FIELDS info)), (''paths'', JObj paths)]))"

definition trimmed_paths :: "(string \<Rightarrow> string) \<Rightarrow> jdict \<Rightarrow> operation_key list \<Rightarrow> jdict py" where
  "trimmed_paths unquote document selection =
     bind_py (as_obj (jget_or document ''paths'' (JObj []))) (\<lambda>paths.
     bind_py (map_py (trimmed_path unquote (JObj document) selection) paths) (\<lambda>kept. Inr (concat kept)))"

definition trimmed_spec ::
  "(string \<Rightarrow> string) \<Rightarrow> jdict \<Rightarrow> dialect \<Rightarrow> operation_key list \<Rightarrow> json run" where
  "trimmed_spec unquote document dia selection =
     bind_run (lift (trimmed_paths unquote document selection)) (\<lambda>paths.
     bind_run (lift (trimmed_head document paths)) (\<lambda>head.
     bind_run (reachable_containers unquote document dia (JObj paths)) (\<lambda>containers.
     bind_run (lift (trimmed_tags document paths)) (\<lambda>tags.
       let out = dict_merge head containers @ (if tags \<noteq> [] then [(''tags'', JList tags)] else [])
       in drop_dangling unquote (strip_extensions False (JObj out)) [[]]))))"

section \<open>Only selected operations are left\<close>

text \<open>Trimming removes: an object of the result is at a place where the input has one.\<close>

lemma node_at_JNull [simp]: "\<not> is_obj (node_at JNull ps)"
  by (cases ps) auto

lemma node_at_delete_ref: "is_obj (node_at (delete_ref v q) ps) \<Longrightarrow> is_obj (node_at v ps)"
proof (induction v q arbitrary: ps rule: delete_ref.induct)
  case (1 d)
  show ?case
  proof (cases ps)
    case (Cons p ps')
    then show ?thesis using 1 by (cases p) (auto simp: jget_def map_of_delete split: if_splits option.splits)
  qed simp
next
  case (2 d k q)
  show ?case
  proof (cases ps)
    case (Cons p ps')
    then show ?thesis using 2 by (cases p) (auto simp: jget_update split: if_splits)
  qed simp
next
  case (3 xs i q)
  show ?case
  proof (cases ps)
    case (Cons p ps')
    then show ?thesis using 3 by (cases p) (auto simp: nth_list_update split: if_splits)
  qed (use 3 in simp)
qed simp_all

definition shape_within :: "json \<Rightarrow> json py \<Rightarrow> bool" where
  "shape_within document r \<longleftrightarrow>
     (case r of Inr v \<Rightarrow> \<forall>ps. is_obj (node_at v ps) \<longrightarrow> is_obj (node_at document ps) | Inl e \<Rightarrow> True)"

lemma shape_within_delete: "shape_within (delete_ref document q) r \<Longrightarrow> shape_within document r"
  using node_at_delete_ref by (auto simp: shape_within_def split: sum.splits)

lemma drop_dangling_shape:
  assumes "drop_dangling unquote document stack = Some r"
  shows "shape_within document r"
proof (rule drop_dangling.raw_induct[OF _ assms], goal_cases)
  case (1 drop_dangling unquote document stack r)
  show ?case
  proof (cases "stack = []")
    case True
    then show ?thesis using 1(2) by (auto simp: shape_within_def)
  next
    case False
    show ?thesis
      using 1(2) False
      by (cases "node_at document (hd stack)")
         (auto simp: Let_def split: if_splits dest!: 1(1) intro: shape_within_delete)
  qed
qed

lemma jget_Cons: "jget ((k, v) # d) k' = (if k = k' then v else jget d k')"
  by (simp add: jget_def)

lemma jget_strip_items:
  "jget (strip_items names d) k = (if names \<or> \<not> startswith k ''x-''
     then strip_extensions (k \<in> set NAME_MAPS \<and> \<not> names) (jget d k) else JNull)"
proof (induction d)
  case (Cons kv d)
  obtain k' v where "kv = (k', v)" by fastforce
  then show ?case using Cons by (cases names) (auto simp: jget_Cons)
qed (simp add: jget_def)

lemma node_at_strip: "is_obj (node_at (strip_extensions names v) (map At_key ks)) \<Longrightarrow> is_obj (node_at v (map At_key ks))"
proof (induction ks arbitrary: names v)
  case Nil
  then show ?case by (cases v) auto
next
  case (Cons k ks)
  then show ?case
    by (cases v) (auto simp: jget_strip_items split: if_splits)
qed

lemma jget_methods:
  assumes "m \<in> set METHODS" "is_obj (jget (trimmed_item selection path item) m)"
  shows "mk_key m path \<in> set selection"
proof -
  let ?kept = "map (\<lambda>(m, op). (m, JObj (trimmed_operation op)))
                   (filter (\<lambda>(m, op). mk_key m path \<in> set selection) (methods_of item METHODS))"
  have "\<forall>m \<in> set METHODS. m \<noteq> ''parameters''" by code_simp
  then have "jget (trimmed_item selection path item) m = jget ?kept m"
    using assms(1) by (auto simp: trimmed_item_def Let_def jget_def)
  then have "has_key ?kept m" using assms(2) jget_absent by fastforce
  then show ?thesis by (auto simp: has_key_iff)
qed

lemma trimmed_path_cases:
  assumes "trimmed_path unquote document selection (path, item_json) = Inr d"
  shows "d = [] \<or> (\<exists>item. d = [(path, JObj (trimmed_item selection path item))])"
  using assms by (auto simp: trimmed_path_def bind_py_Inr Let_def split: if_splits)

lemma map_py_Inr: "map_py f xs = Inr ys \<longleftrightarrow> list_all2 (\<lambda>x y. f x = Inr y) xs ys"
proof (induction xs arbitrary: ys)
  case (Cons x xs)
  then show ?case by (cases ys) (auto simp: bind_py_Inr)
qed auto

lemma trimmed_paths_selected:
  assumes "trimmed_paths unquote document selection = Inr paths"
    and "is_obj (node_at (JObj paths) [At_key path, At_key m])" "m \<in> set METHODS"
  shows "mk_key m path \<in> set selection"
proof -
  from assms(1) obtain ps kept where
    "list_all2 (\<lambda>x y. trimmed_path unquote (JObj document) selection x = Inr y) ps kept" "paths = concat kept"
    by (auto simp: trimmed_paths_def bind_py_Inr map_py_Inr)
  then have "\<forall>(p, v) \<in> set paths. \<exists>item. v = JObj (trimmed_item selection p item)"
  proof (induction arbitrary: paths rule: list_all2_induct)
    case (Cons x xs y ys)
    obtain p j where "x = (p, j)" by fastforce
    then show ?case using trimmed_path_cases[of unquote "JObj document" selection p j y] Cons by auto
  qed simp
  moreover obtain d where d: "jget paths path = JObj d" using assms(2) by (cases "jget paths path") auto
  moreover from d have "(path, JObj d) \<in> set paths"
    by (auto simp: jget_def split: option.splits dest: map_of_SomeD)
  ultimately obtain item where "d = trimmed_item selection path item" by auto
  then show ?thesis using assms(2) d by (intro jget_methods[OF assms(3)]) simp
qed

lemma map_of_dict_merge: "k \<notin> fst ` set e \<Longrightarrow> map_of (dict_merge d e) k = map_of d k"
  unfolding dict_merge_def by (induction e arbitrary: d) (auto simp: map_of_update)

lemma reachable_containers_keys:
  assumes "reachable_containers unquote document dia roots = ret containers"
  shows "''paths'' \<notin> fst ` set containers"
proof -
  have "''paths'' \<notin> fst ` set d" if run: "containers_20 document reached = Inr d" for reached d
  proof -
    from run have "fst ` set d \<subseteq> set CONTAINERS_20"
      by (auto simp: containers_20_def CONTAINERS_20_def bind_py_Inr Let_def split: if_splits)
    moreover have "''paths'' \<notin> set CONTAINERS_20" by code_simp
    ultimately show ?thesis by blast
  qed
  moreover have "''paths'' \<notin> fst ` set d" if "containers_3 document reached = Inr d" for reached d
    using that by (auto simp: containers_3_def bind_py_Inr Let_def split: if_splits)
  moreover obtain r where "containers_20 document r = Inr containers \<or> containers_3 document r = Inr containers"
    using assms by (auto simp: reachable_containers_def bind_run_ret split: if_splits)
  ultimately show ?thesis by blast
qed

lemma trimmed_head_paths: "trimmed_head document paths = Inr head \<Longrightarrow> map_of head ''paths'' = Some (JObj paths)"
  by (auto simp: trimmed_head_def bind_py_Inr pick_def split: option.splits)

lemma trimmed_spec_selected:
  assumes run: "trimmed_spec unquote document dia selection = ret v"
    and op: "is_obj (node_at v [At_key ''paths'', At_key path, At_key m])" "m \<in> set METHODS"
  shows "mk_key m path \<in> set selection"
proof -
  from run obtain paths head containers out where p: "trimmed_paths unquote document selection = Inr paths"
    "trimmed_head document paths = Inr head" "reachable_containers unquote document dia (JObj paths) = ret containers"
    "drop_dangling unquote (strip_extensions False (JObj (dict_merge head containers @ out))) [[]] = ret v"
    by (auto simp: trimmed_spec_def bind_run_ret Let_def)
  let ?ks = "map At_key [''paths'', path, m]"
  have "is_obj (node_at (strip_extensions False (JObj (dict_merge head containers @ out))) ?ks)"
    using drop_dangling_shape[OF p(4)] op(1) by (simp add: shape_within_def del: strip_extensions.simps node_at.simps)
  then have obj: "is_obj (node_at (JObj (dict_merge head containers @ out)) ?ks)" by (rule node_at_strip)
  have "map_of (dict_merge head containers) ''paths'' = Some (JObj paths)"
    using map_of_dict_merge[of "''paths''" containers head] reachable_containers_keys[OF p(3)]
      trimmed_head_paths[OF p(2)] by auto
  then have "jget (dict_merge head containers @ out) ''paths'' = JObj paths"
    by (simp add: jget_def map_add_def)
  then have "is_obj (node_at (JObj paths) [At_key path, At_key m])" using obj by simp
  from trimmed_paths_selected[OF p(1) this op(2)] show ?thesis .
qed

end
