(* ===== verification/Server_Tools.thy ===== *)
theory Server_Tools
  imports Trimmed_Spec
begin

text \<open>
  \<^verbatim>\<open>openapi/server_tools.py\<close>: a server's OpenAPI choices as tools, and the bounded cache in front of
  the mapping. The cache is an \<open>OrderedDict\<close>, oldest entry first. The lookup and the store are
  separate critical sections of one lock, with the mapping between them.
\<close>

section \<open>Choices\<close>

definition selection_of :: "registered_server \<Rightarrow> operation_key list" where
  "selection_of server = map ref_key (srv_openapi_selection server)"

definition override_of :: "operation_override \<Rightarrow> override" where
  "override_of r = \<lparr>od_name = ov_name r, od_description = ov_description r\<rparr>"

definition overrides_from :: "operation_override list \<Rightarrow> (operation_key, override) dict" where
  "overrides_from rs = foldl (\<lambda>d r. AList.update (ref_key r) (override_of r) d) [] rs"

definition overrides_of :: "registered_server \<Rightarrow> (operation_key, override) dict" where
  "overrides_of server = overrides_from (srv_openapi_overrides server)"

type_synonym tools_result = "string list + tool list"

definition openapi_tools ::
  "map_env \<Rightarrow> registered_server \<Rightarrow> int \<Rightarrow> openapi_snapshot option \<Rightarrow> tools_result run" where
  "openapi_tools M server limit proposed =
     (case (case proposed of Some s \<Rightarrow> Some s | None \<Rightarrow> srv_openapi_snapshot server) of
        None \<Rightarrow> ret (Inr [])
      | Some s \<Rightarrow>
          build_tools M (os_document s) (os_dialect s) (selection_of server) (overrides_of server) limit)"

definition openapi_preview :: "map_env \<Rightarrow> registered_server \<Rightarrow> int \<Rightarrow> mapped_operation list run" where
  "openapi_preview M server limit =
     (case srv_openapi_snapshot server of
        None \<Rightarrow> ret []
      | Some s \<Rightarrow>
          preview M (os_document s) (os_dialect s) (overrides_of server) limit (selection_of server))"

section \<open>The cache\<close>

definition CACHE_SIZE :: nat where "CACHE_SIZE = 32"

definition ref_place :: "('z) operation_ref_scheme \<Rightarrow> string \<times> string" where
  "ref_place r = (or_method r, or_path r)"

type_synonym tools_key =
  "string \<times> dialect \<times> (string \<times> string) list \<times> operation_override list \<times> int"

definition tools_key :: "registered_server \<Rightarrow> openapi_snapshot \<Rightarrow> int \<Rightarrow> tools_key" where
  "tools_key server s limit =
     (os_sha256 s, os_dialect s, sort (map ref_place (srv_openapi_selection server)),
      sort_key ref_place (srv_openapi_overrides server), limit)"

type_synonym tools_cache = "(tools_key, tools_result) dict"

text \<open>\<open>move_to_end\<close> of a key that is present.\<close>

definition touch :: "'k \<Rightarrow> ('k, 'v) dict \<Rightarrow> ('k, 'v) dict" where
  "touch k d = (case map_of d k of Some v \<Rightarrow> AList.delete k d @ [(k, v)] | None \<Rightarrow> d)"

text \<open>The assignment and the loop that pops the oldest entries.\<close>

definition put_bounded :: "nat \<Rightarrow> 'k \<Rightarrow> 'v \<Rightarrow> ('k, 'v) dict \<Rightarrow> ('k, 'v) dict" where
  "put_bounded n k v d = (let d' = AList.update k v d in drop (length d' - n) d')"

definition cached_openapi_tools ::
  "map_env \<Rightarrow> registered_server \<Rightarrow> int \<Rightarrow> tools_cache \<Rightarrow> (tools_cache \<times> tools_result py) option" where
  "cached_openapi_tools M server limit cache =
     (case srv_openapi_snapshot server of
        None \<Rightarrow> Some (cache, Inr (Inr []))
      | Some s \<Rightarrow>
          (let key = tools_key server s limit
           in case map_of cache key of
                Some r \<Rightarrow> Some (touch key cache, Inr r)
              | None \<Rightarrow>
                  (case openapi_tools M server limit None of
                     None \<Rightarrow> None
                   | Some (Inl e) \<Rightarrow> Some (cache, Inl e)
                   | Some (Inr r) \<Rightarrow> Some (put_bounded CACHE_SIZE key r cache, Inr r))))"

section \<open>Bounded dictionaries\<close>

locale bounded_cache =
  fixes bound :: nat
    and valid :: "'k \<Rightarrow> 'v \<Rightarrow> bool"
begin

definition holds :: "('k, 'v) dict \<Rightarrow> bool" where
  "holds d \<longleftrightarrow> length d \<le> bound \<and> distinct (map fst d) \<and> (\<forall>(k, v) \<in> set d. valid k v)"

lemma empty_holds: "holds []"
  by (simp add: holds_def)

lemma hit_valid: "holds d \<Longrightarrow> map_of d k = Some v \<Longrightarrow> valid k v"
  using map_of_SomeD by (fastforce simp: holds_def)

lemma touch_holds: "holds d \<Longrightarrow> holds (touch k d)"
proof (cases "map_of d k")
  case (Some v)
  assume d: "holds d"
  have "(k, v) \<in> set d" using Some by (rule map_of_SomeD)
  then have "length (AList.delete k d) < length d"
    unfolding AList.delete_eq by (intro length_filter_less[of "(k, v)"]) auto
  moreover have "distinct (map fst (AList.delete k d))" "set (AList.delete k d) \<subseteq> set d" "k \<notin> fst ` set (AList.delete k d)"
    using d by (auto simp: holds_def in_delete_iff)
  ultimately show ?thesis using d Some \<open>(k, v) \<in> set d\<close> by (auto simp: touch_def holds_def)
qed (simp add: touch_def)

lemma put_holds:
  assumes "holds d" "valid k v"
  shows "holds (put_bounded bound k v d)"
proof -
  let ?d = "AList.update k v d"
  have "distinct (map fst ?d)" using assms(1) by (auto simp: holds_def)
  then have "distinct (map fst (drop n ?d))" for n by (metis distinct_drop drop_map)
  moreover have "valid k' v'" if "(k', v') \<in> set (drop n ?d)" for k' v' n
    using in_update_cases[OF in_set_dropD[OF that]] assms by (auto simp: holds_def)
  ultimately show ?thesis unfolding holds_def put_bounded_def Let_def by auto
qed

end

section \<open>Serving from the cache changes nothing\<close>

text \<open>Methods are in upper case, as the model validator leaves them.\<close>

definition upper_refs :: "registered_server \<Rightarrow> bool" where
  "upper_refs server \<longleftrightarrow>
     (\<forall>r \<in> set (srv_openapi_selection server). upper (or_method r) = or_method r) \<and>
     (\<forall>r \<in> set (srv_openapi_overrides server). upper (or_method r) = or_method r)"

lemma map_operation_selection:
  assumes sel: "set sel = set sel'" and ov: "map_of ov = map_of ov'"
  shows "map_operation M document dia ov limit sel = map_operation M document dia ov' limit sel'"
  by (rule ext) (unfold map_operation_def sel ov, rule refl)

lemma build_tools_selection:
  "set sel = set sel' \<Longrightarrow> map_of ov = map_of ov' \<Longrightarrow>
     build_tools M document dia sel ov limit = build_tools M document dia sel' ov' limit"
  by (simp add: build_tools_def preview_def map_operation_selection[of sel sel' ov ov'])

lemma overrides_from_map:
  "map_of (overrides_from rs) k = map_option override_of (find (\<lambda>r. ref_key r = k) (rev rs))"
proof (induction rs rule: rev_induct)
  case (snoc r rs)
  have "overrides_from (rs @ [r]) = AList.update (ref_key r) (override_of r) (overrides_from rs)"
    by (simp add: overrides_from_def)
  then show ?case using snoc by (auto simp: map_of_update)
qed (simp add: overrides_from_def)

lemma find_filter: "find P xs = (case filter P xs of [] \<Rightarrow> None | x # _ \<Rightarrow> Some x)"
  by (induction xs) auto

lemma overrides_sorted:
  assumes "\<forall>r \<in> set rs. upper (or_method r) = or_method r"
  shows "map_of (overrides_from (sort_key ref_place rs)) = map_of (overrides_from rs)"
proof
  fix k
  have eq: "ref_key r = k \<longleftrightarrow> ref_place r = (ok_method k, ok_path k)" if "r \<in> set rs" for r
    using that assms by (cases k) (auto simp: ref_key_def mk_key_def ref_place_def)
  have "filter (\<lambda>r. ref_key r = k) (sort_key ref_place rs)
      = filter (\<lambda>r. ref_place r = (ok_method k, ok_path k)) (sort_key ref_place rs)"
    using eq by (intro filter_cong) simp_all
  also have "\<dots> = filter (\<lambda>r. ref_place r = (ok_method k, ok_path k)) rs" by (rule sort_key_stable)
  also have "\<dots> = filter (\<lambda>r. ref_key r = k) rs" using eq by (intro filter_cong) simp_all
  finally show "map_of (overrides_from (sort_key ref_place rs)) k = map_of (overrides_from rs) k"
    by (simp add: overrides_from_map find_filter rev_filter[symmetric])
qed

lemma selection_sorted:
  fixes xs ys :: "operation_ref list"
  assumes "sort (map ref_place xs) = sort (map ref_place ys)"
    and "\<forall>r \<in> set xs. upper (or_method r) = or_method r" "\<forall>r \<in> set ys. upper (or_method r) = or_method r"
  shows "set (map ref_key xs) = set (map ref_key ys)"
proof -
  have key: "ref_key r = \<lparr>ok_method = fst (ref_place r), ok_path = snd (ref_place r)\<rparr>"
    if "upper (or_method r) = or_method r" for r :: operation_ref
    using that by (simp add: ref_key_def mk_key_def ref_place_def)
  have "ref_place ` set xs = ref_place ` set ys" using arg_cong[OF assms(1), of set] by simp
  then have "(\<lambda>p. \<lparr>ok_method = fst p, ok_path = snd p\<rparr>) ` ref_place ` set xs
           = (\<lambda>p. \<lparr>ok_method = fst p, ok_path = snd p\<rparr>) ` ref_place ` set ys" by simp
  moreover have "ref_key ` set rs = (\<lambda>p. \<lparr>ok_method = fst p, ok_path = snd p\<rparr>) ` ref_place ` set rs"
    if "\<forall>r \<in> set rs. upper (or_method r) = or_method r" for rs :: "operation_ref list"
    unfolding image_image by (rule image_cong[OF refl]) (rule key, use that in blast)
  ultimately show ?thesis using assms(2,3) by simp
qed

text \<open>The snapshots of \<open>S\<close> are told apart by their hash.\<close>

definition hash_identifies :: "openapi_snapshot set \<Rightarrow> bool" where
  "hash_identifies S \<longleftrightarrow> (\<forall>s \<in> S. \<forall>s' \<in> S. os_sha256 s = os_sha256 s' \<longrightarrow> os_document s = os_document s')"

lemma tools_key_determines:
  assumes "hash_identifies S" "s \<in> S" "s' \<in> S" "upper_refs server" "upper_refs server'"
    and "srv_openapi_snapshot server = Some s" "srv_openapi_snapshot server' = Some s'"
    and key: "tools_key server s limit = tools_key server' s' limit'"
  shows "openapi_tools M server limit None = openapi_tools M server' limit' None"
proof -
  have "os_document s = os_document s'" "os_dialect s = os_dialect s'" "limit = limit'"
  proof -
    have "os_sha256 s = os_sha256 s'" "os_dialect s = os_dialect s'" "limit = limit'"
      using key by (simp_all add: tools_key_def)
    moreover from this(1) assms(1-3) have "os_document s = os_document s'"
      unfolding hash_identifies_def by blast
    ultimately show "os_document s = os_document s'" "os_dialect s = os_dialect s'" "limit = limit'"
      by blast+
  qed
  moreover have "set (selection_of server) = set (selection_of server')"
    unfolding selection_of_def
  proof (rule selection_sorted)
    show "sort (map ref_place (srv_openapi_selection server)) = sort (map ref_place (srv_openapi_selection server'))"
      using key by (simp add: tools_key_def)
  qed (use assms(4,5) in \<open>simp_all add: upper_refs_def\<close>)
  moreover have "sort_key ref_place (srv_openapi_overrides server) = sort_key ref_place (srv_openapi_overrides server')"
    using key by (simp add: tools_key_def)
  then have "map_of (overrides_of server) = map_of (overrides_of server')"
  proof -
    have own: "map_of (overrides_of sv) = map_of (overrides_from (sort_key ref_place (srv_openapi_overrides sv)))"
      if "upper_refs sv" for sv
      unfolding overrides_of_def
      by (rule overrides_sorted[symmetric]) (use that in \<open>unfold upper_refs_def, blast\<close>)
    assume "sort_key ref_place (srv_openapi_overrides server) = sort_key ref_place (srv_openapi_overrides server')"
    then show ?thesis unfolding own[OF assms(4)] own[OF assms(5)] by (simp only:)
  qed
  ultimately have "build_tools M (os_document s) (os_dialect s) (selection_of server) (overrides_of server) limit
      = build_tools M (os_document s') (os_dialect s') (selection_of server') (overrides_of server') limit'"
    using build_tools_selection[of "selection_of server" "selection_of server'"
        "overrides_of server" "overrides_of server'"] by (simp only:)
  then show ?thesis unfolding openapi_tools_def assms(6,7) by simp
qed

text \<open>What an entry of the cache has to be: the result of some server with that key.\<close>

definition tools_entry :: "map_env \<Rightarrow> openapi_snapshot set \<Rightarrow> tools_key \<Rightarrow> tools_result \<Rightarrow> bool" where
  "tools_entry M S k r \<longleftrightarrow>
     (\<exists>server s limit. s \<in> S \<and> upper_refs server \<and> srv_openapi_snapshot server = Some s \<and>
        k = tools_key server s limit \<and> openapi_tools M server limit None = ret r)"

interpretation tc: bounded_cache CACHE_SIZE "tools_entry M S" for M S
  .

lemma cached_tools_transparent:
  assumes "hash_identifies S" "tc.holds M S cache" "upper_refs server" "set_option (srv_openapi_snapshot server) \<subseteq> S"
  shows "map_option snd (cached_openapi_tools M server limit cache) = openapi_tools M server limit None"
    and "cached_openapi_tools M server limit cache = Some (cache', r) \<Longrightarrow> tc.holds M S cache'"
proof -
  have both: "map_option snd (cached_openapi_tools M server limit cache) = openapi_tools M server limit None \<and>
     (\<forall>cache' r. cached_openapi_tools M server limit cache = Some (cache', r) \<longrightarrow> tc.holds M S cache')"
  proof (cases "srv_openapi_snapshot server")
    case None
    then show ?thesis using assms(2) by (simp add: cached_openapi_tools_def openapi_tools_def)
  next
    case (Some s)
    let ?key = "tools_key server s limit"
    have s: "s \<in> S" using assms(4) Some by simp
    show ?thesis
    proof (cases "map_of cache ?key")
      case hit: (Some r)
      then have run: "cached_openapi_tools M server limit cache = Some (touch ?key cache, Inr r)"
        using Some by (simp add: cached_openapi_tools_def)
      from tc.hit_valid[OF assms(2) hit] obtain server' s' limit' where
        "s' \<in> S" "upper_refs server'" "srv_openapi_snapshot server' = Some s'"
        "?key = tools_key server' s' limit'" "openapi_tools M server' limit' None = ret r"
        unfolding tools_entry_def by blast
      with tools_key_determines[OF assms(1) s _ assms(3) _ Some] have "openapi_tools M server limit None = ret r"
        by metis
      then show ?thesis using run tc.touch_holds[OF assms(2)] by simp
    next
      case miss: None
      show ?thesis
      proof (cases "\<exists>r. openapi_tools M server limit None = ret r")
        case True
        then obtain r where r: "openapi_tools M server limit None = ret r" by blast
        then have "cached_openapi_tools M server limit cache = Some (put_bounded CACHE_SIZE ?key r cache, Inr r)"
          using Some miss by (simp add: cached_openapi_tools_def)
        moreover have "tools_entry M S ?key r"
          unfolding tools_entry_def using s assms(3) Some r by blast
        ultimately show ?thesis using r tc.put_holds[OF assms(2)] by simp
      next
        case False
        then show ?thesis
          using Some miss assms(2)
          by (auto simp: cached_openapi_tools_def split: option.splits sum.splits)
      qed
    qed
  qed
  then show "map_option snd (cached_openapi_tools M server limit cache) = openapi_tools M server limit None" by simp
  show "cached_openapi_tools M server limit cache = Some (cache', r) \<Longrightarrow> tc.holds M S cache'"
    using both by simp
qed

end
