(* ===== verification/Storage.thy ===== *)
theory Storage
  imports Server_Model
begin

text \<open>
  \<^verbatim>\<open>storage/\<close>: the \<open>StorageStrategy\<close> protocol and its two implementations, the in-memory one
  and the JSON file, and the fixture store.

  The protocol is the record \<open>storage_ops\<close> of its operations, once for servers and once for
  agents; \<open>keyed_storage\<close> is the contract the registry relies on, and both implementations are
  interpretations of it. An operation that writes takes the outcome of writing the file (\<open>io\<close>,
  \<open>False\<close> for an \<open>OSError\<close>), which the in-memory storage ignores, and the two clock readings
  \<open>save\<close> may make. The pydantic codec of the file is a parameter of the JSON storage. The file
  is the JSON value it holds; \<open>os.replace\<close> makes a failed write leave it as it was.
\<close>

section \<open>The protocol\<close>

record ('v, 's) storage_ops =
  op_save :: "bool \<Rightarrow> timestamp \<times> timestamp \<Rightarrow> 'v \<Rightarrow> 's \<Rightarrow> 'v py \<times> 's"
  op_unregister :: "bool \<Rightarrow> string \<Rightarrow> 's \<Rightarrow> unit py \<times> 's"
  op_get :: "'s \<Rightarrow> string \<Rightarrow> 'v option"
  op_list :: "'s \<Rightarrow> 'v list"

record store =
  st_data :: "(string, registered_server) dict"
  st_agents :: "(string, registered_agent) dict"

definition empty_store :: store where
  "empty_store = \<lparr>st_data = [], st_agents = []\<rparr>"

text \<open>The times \<open>save\<close> puts on a record: the stored \<open>created_at\<close> survives.\<close>

definition stamp_server ::
  "timestamp \<times> timestamp \<Rightarrow> registered_server option \<Rightarrow> registered_server \<Rightarrow> registered_server" where
  "stamp_server ts existing server =
     (case existing of
        Some e \<Rightarrow> server\<lparr>srv_created_at := srv_created_at e, srv_updated_at := Some (fst ts)\<rparr>
      | None \<Rightarrow> server\<lparr>srv_created_at := Some (fst ts), srv_updated_at := Some (snd ts)\<rparr>)"

definition stamp_agent ::
  "timestamp \<times> timestamp \<Rightarrow> registered_agent option \<Rightarrow> registered_agent \<Rightarrow> registered_agent" where
  "stamp_agent ts existing agent =
     (case existing of
        Some e \<Rightarrow> agent\<lparr>ag_created_at := ag_created_at e, ag_updated_at := Some (fst ts)\<rparr>
      | None \<Rightarrow> agent\<lparr>ag_created_at := Some (fst ts), ag_updated_at := Some (snd ts)\<rparr>)"

section \<open>InMemoryStorage\<close>

definition mem_save ::
  "timestamp \<times> timestamp \<Rightarrow> registered_server \<Rightarrow> store \<Rightarrow> registered_server \<times> store" where
  "mem_save ts server st =
     (let server' = stamp_server ts (map_of (st_data st) (srv_id server)) server
      in (server', st\<lparr>st_data := AList.update (srv_id server) server' (st_data st)\<rparr>))"

definition mem_unregister :: "string \<Rightarrow> store \<Rightarrow> unit py \<times> store" where
  "mem_unregister server_id st =
     (if map_of (st_data st) server_id = None then (Inl (KeyError server_id), st)
      else (Inr (), st\<lparr>st_data := AList.delete server_id (st_data st)\<rparr>))"

definition mem_get :: "store \<Rightarrow> string \<Rightarrow> registered_server option" where
  "mem_get st server_id = map_of (st_data st) server_id"

definition mem_list :: "store \<Rightarrow> registered_server list" where
  "mem_list st = map snd (st_data st)"

definition mem_save_agent ::
  "timestamp \<times> timestamp \<Rightarrow> registered_agent \<Rightarrow> store \<Rightarrow> registered_agent \<times> store" where
  "mem_save_agent ts agent st =
     (let agent' = stamp_agent ts (map_of (st_agents st) (ag_id agent)) agent
      in (agent', st\<lparr>st_agents := AList.update (ag_id agent) agent' (st_agents st)\<rparr>))"

definition mem_unregister_agent :: "string \<Rightarrow> store \<Rightarrow> unit py \<times> store" where
  "mem_unregister_agent agent_id st =
     (if map_of (st_agents st) agent_id = None then (Inl (KeyError agent_id), st)
      else (Inr (), st\<lparr>st_agents := AList.delete agent_id (st_agents st)\<rparr>))"

definition mem_get_agent :: "store \<Rightarrow> string \<Rightarrow> registered_agent option" where
  "mem_get_agent st agent_id = map_of (st_agents st) agent_id"

definition mem_list_agents :: "store \<Rightarrow> registered_agent list" where
  "mem_list_agents st = map snd (st_agents st)"

definition mem_server_ops :: "(registered_server, store) storage_ops" where
  "mem_server_ops =
     \<lparr>op_save = (\<lambda>io ts server st. case mem_save ts server st of (v, st') \<Rightarrow> (Inr v, st')),
      op_unregister = (\<lambda>io. mem_unregister), op_get = mem_get, op_list = mem_list\<rparr>"

definition mem_agent_ops :: "(registered_agent, store) storage_ops" where
  "mem_agent_ops =
     \<lparr>op_save = (\<lambda>io ts agent st. case mem_save_agent ts agent st of (v, st') \<Rightarrow> (Inr v, st')),
      op_unregister = (\<lambda>io. mem_unregister_agent), op_get = mem_get_agent,
      op_list = mem_list_agents\<rparr>"

section \<open>JSONFileStorage\<close>

text \<open>The codec pydantic provides: \<open>model_dump(mode="json")\<close> and \<open>model_validate\<close>.\<close>

record codec =
  dump_server :: "registered_server \<Rightarrow> json"
  validate_server :: "json \<Rightarrow> registered_server py"
  dump_agent :: "registered_agent \<Rightarrow> json"
  validate_agent :: "json \<Rightarrow> registered_agent py"

record json_store =
  js_mem :: store
  js_file :: "json option"

definition os_error :: py_exc where
  "os_error = RuntimeError ''OSError''"

definition persist_payload :: "codec \<Rightarrow> store \<Rightarrow> json" where
  "persist_payload cd st =
     JObj [(''version'', JInt 1),
           (''servers'',
              JList (map (\<lambda>p. dump_server cd (sanitize_for_persistence (snd p))) (st_data st))),
           (''agents'',
              JList (map (\<lambda>p. dump_agent cd (agent_sanitize_for_persistence (snd p)))
                (st_agents st)))]"

text \<open>\<open>_persist_locked\<close>: the temporary file replaces the old one, or nothing changes.\<close>

definition persist_locked :: "codec \<Rightarrow> bool \<Rightarrow> json_store \<Rightarrow> unit py \<times> json_store" where
  "persist_locked cd io js =
     (if io then (Inr (), js\<lparr>js_file := Some (persist_payload cd (js_mem js))\<rparr>)
      else (Inl os_error, js))"

fun load_servers :: "codec \<Rightarrow> json list \<Rightarrow> (string, registered_server) dict \<Rightarrow>
    (string, registered_server) dict py" where
  "load_servers cd [] acc = Inr acc"
| "load_servers cd (j # js) acc =
     (case validate_server cd j of
        Inl e \<Rightarrow> Inl e
      | Inr s \<Rightarrow> load_servers cd js (AList.update (srv_id s) s acc))"

fun load_agents :: "codec \<Rightarrow> json list \<Rightarrow> (string, registered_agent) dict \<Rightarrow>
    (string, registered_agent) dict py" where
  "load_agents cd [] acc = Inr acc"
| "load_agents cd (j # js) acc =
     (case validate_agent cd j of
        Inl e \<Rightarrow> Inl e
      | Inr a \<Rightarrow> load_agents cd js (AList.update (ag_id a) a acc))"

definition servers_data :: "json \<Rightarrow> json" where
  "servers_data content =
     (case content of
        JObj d \<Rightarrow> if has_key d ''servers'' then jget d ''servers'' else JList []
      | JList xs \<Rightarrow> JList xs
      | _ \<Rightarrow> JList [])"

definition agents_data :: "json \<Rightarrow> json" where
  "agents_data content =
     (case content of
        JObj d \<Rightarrow> if has_key d ''agents'' then jget d ''agents'' else JList []
      | _ \<Rightarrow> JList [])"

definition json_init :: "codec \<Rightarrow> json option \<Rightarrow> json_store py" where
  "json_init cd file =
     (case file of
        None \<Rightarrow> Inr \<lparr>js_mem = empty_store, js_file = None\<rparr>
      | Some content \<Rightarrow>
          (case py_iter (servers_data content) of
             Inl e \<Rightarrow> Inl e
           | Inr ss \<Rightarrow>
               (case load_servers cd ss [] of
                  Inl e \<Rightarrow> Inl e
                | Inr data \<Rightarrow>
                    (case py_iter (agents_data content) of
                       Inl e \<Rightarrow> Inl e
                     | Inr as \<Rightarrow>
                         (case load_agents cd as [] of
                            Inl e \<Rightarrow> Inl e
                          | Inr agents \<Rightarrow>
                              Inr \<lparr>js_mem = \<lparr>st_data = data, st_agents = agents\<rparr>,
                                   js_file = Some content\<rparr>)))))"

definition json_save ::
  "codec \<Rightarrow> bool \<Rightarrow> timestamp \<times> timestamp \<Rightarrow> registered_server \<Rightarrow> json_store \<Rightarrow>
     registered_server py \<times> json_store" where
  "json_save cd io ts server js =
     (let (server', st') = mem_save ts server (js_mem js);
          (r, js') = persist_locked cd io (js\<lparr>js_mem := st'\<rparr>)
      in (map_sum (\<lambda>e. e) (\<lambda>_. server') r, js'))"

definition json_unregister :: "codec \<Rightarrow> bool \<Rightarrow> string \<Rightarrow> json_store \<Rightarrow> unit py \<times> json_store" where
  "json_unregister cd io server_id js =
     (case mem_unregister server_id (js_mem js) of
        (Inl e, _) \<Rightarrow> (Inl e, js)
      | (Inr _, st') \<Rightarrow> persist_locked cd io (js\<lparr>js_mem := st'\<rparr>))"

definition json_save_agent ::
  "codec \<Rightarrow> bool \<Rightarrow> timestamp \<times> timestamp \<Rightarrow> registered_agent \<Rightarrow> json_store \<Rightarrow>
     registered_agent py \<times> json_store" where
  "json_save_agent cd io ts agent js =
     (let (agent', st') = mem_save_agent ts agent (js_mem js);
          (r, js') = persist_locked cd io (js\<lparr>js_mem := st'\<rparr>)
      in (map_sum (\<lambda>e. e) (\<lambda>_. agent') r, js'))"

definition json_unregister_agent ::
  "codec \<Rightarrow> bool \<Rightarrow> string \<Rightarrow> json_store \<Rightarrow> unit py \<times> json_store" where
  "json_unregister_agent cd io agent_id js =
     (case mem_unregister_agent agent_id (js_mem js) of
        (Inl e, _) \<Rightarrow> (Inl e, js)
      | (Inr _, st') \<Rightarrow> persist_locked cd io (js\<lparr>js_mem := st'\<rparr>))"

definition json_get :: "json_store \<Rightarrow> string \<Rightarrow> registered_server option" where
  "json_get js server_id = mem_get (js_mem js) server_id"

definition json_list :: "json_store \<Rightarrow> registered_server list" where
  "json_list js = mem_list (js_mem js)"

definition json_get_agent :: "json_store \<Rightarrow> string \<Rightarrow> registered_agent option" where
  "json_get_agent js agent_id = mem_get_agent (js_mem js) agent_id"

definition json_list_agents :: "json_store \<Rightarrow> registered_agent list" where
  "json_list_agents js = mem_list_agents (js_mem js)"

definition json_server_ops :: "codec \<Rightarrow> (registered_server, json_store) storage_ops" where
  "json_server_ops cd =
     \<lparr>op_save = json_save cd, op_unregister = json_unregister cd, op_get = json_get,
      op_list = json_list\<rparr>"

definition json_agent_ops :: "codec \<Rightarrow> (registered_agent, json_store) storage_ops" where
  "json_agent_ops cd =
     \<lparr>op_save = json_save_agent cd, op_unregister = json_unregister_agent cd,
      op_get = json_get_agent, op_list = json_list_agents\<rparr>"

section \<open>FixtureStore\<close>

type_synonym fixtures = "(string, (string, string) dict) dict"

definition agent_fixtures :: "fixtures \<Rightarrow> string \<Rightarrow> (string, string) dict" where
  "agent_fixtures fx agent_id = (case map_of fx agent_id of None \<Rightarrow> [] | Some d \<Rightarrow> d)"

definition list_fixtures :: "fixtures \<Rightarrow> string \<Rightarrow> string list" where
  "list_fixtures fx agent_id = sort (map fst (agent_fixtures fx agent_id))"

definition get_fixture :: "fixtures \<Rightarrow> string \<Rightarrow> string \<Rightarrow> string option" where
  "get_fixture fx agent_id name = map_of (agent_fixtures fx agent_id) name"

definition save_fixture :: "fixtures \<Rightarrow> string \<Rightarrow> string \<Rightarrow> string \<Rightarrow> fixtures" where
  "save_fixture fx agent_id name body =
     AList.update agent_id (AList.update name body (agent_fixtures fx agent_id)) fx"

definition delete_fixture :: "fixtures \<Rightarrow> string \<Rightarrow> string \<Rightarrow> fixtures py" where
  "delete_fixture fx agent_id name =
     (case map_of fx agent_id of
        None \<Rightarrow> Inl (KeyError (''Fixture '' @ name @ '' not found for agent '' @ agent_id))
      | Some d \<Rightarrow>
          if map_of d name = None
          then Inl (KeyError (''Fixture '' @ name @ '' not found for agent '' @ agent_id))
          else Inr (AList.update agent_id (AList.delete name d) fx))"

section \<open>The contract\<close>

locale keyed_storage =
  fixes ops :: "('v, 's) storage_ops"
    and key :: "'v \<Rightarrow> string"
    and stamp :: "timestamp \<times> timestamp \<Rightarrow> 'v option \<Rightarrow> 'v \<Rightarrow> 'v"
    and inv :: "'s \<Rightarrow> bool"
    and abs :: "'s \<Rightarrow> string \<rightharpoonup> 'v"
  assumes key_stamp: "key (stamp ts e v) = key v"
    and get_abs: "inv s \<Longrightarrow> op_get ops s k = abs s k"
    and list_abs: "inv s \<Longrightarrow> set (op_list ops s) = ran (abs s)"
    and abs_key: "inv s \<Longrightarrow> abs s k = Some v \<Longrightarrow> key v = k"
    and save_abs: "inv s \<Longrightarrow> op_save ops io ts v s = (r, s') \<Longrightarrow>
      inv s' \<and> abs s' = (abs s)(key v \<mapsto> stamp ts (abs s (key v)) v)"
    and save_result: "inv s \<Longrightarrow> op_save ops io ts v s = (Inr x, s') \<Longrightarrow>
      x = stamp ts (abs s (key v)) v"
    and save_ok: "inv s \<Longrightarrow>
      fst (op_save ops True ts v s) = Inr (stamp ts (abs s (key v)) v)"
    and unregister_absent: "inv s \<Longrightarrow> abs s k = None \<Longrightarrow>
      op_unregister ops io k s = (Inl (KeyError k), s)"
    and unregister_abs: "inv s \<Longrightarrow> abs s k = Some v \<Longrightarrow> op_unregister ops io k s = (u, s') \<Longrightarrow>
      inv s' \<and> abs s' = (abs s)(k := None) \<and> (io \<longrightarrow> u = Inr ())"
begin

lemma save_inv: "inv s \<Longrightarrow> inv (snd (op_save ops io ts v s))"
  by (metis prod.collapse save_abs)

lemma unregister_inv: "inv s \<Longrightarrow> inv (snd (op_unregister ops io k s))"
  by (metis not_None_eq prod.collapse snd_conv unregister_abs unregister_absent)

lemma get_after_save:
  "inv s \<Longrightarrow> op_save ops io ts v s = (r, s') \<Longrightarrow>
     op_get ops s' k = (if k = key v then Some (stamp ts (abs s (key v)) v) else op_get ops s k)"
  using save_abs [of s io ts v r s'] by (simp add: get_abs)

lemma get_after_unregister:
  "inv s \<Longrightarrow> op_unregister ops io k s = (u, s') \<Longrightarrow>
     op_get ops s' k' = (if k' = k then None else op_get ops s k')"
  using unregister_abs [of s k _ io u s'] unregister_absent [of s k io]
  by (cases "abs s k") (auto simp: get_abs)

lemma unregister_error_iff:
  assumes "inv s"
  shows "isl (fst (op_unregister ops True k s)) \<longleftrightarrow> op_get ops s k = None"
proof (cases "abs s k")
  case None
  with assms show ?thesis by (simp add: get_abs unregister_absent)
next
  case (Some v)
  then have "fst (op_unregister ops True k s) = Inr ()"
    using unregister_abs [OF assms Some, of True] by (metis prod.collapse)
  with Some assms show ?thesis by (simp add: get_abs)
qed

lemma list_complete: "inv s \<Longrightarrow> v \<in> set (op_list ops s) \<longleftrightarrow> op_get ops s (key v) = Some v"
  by (auto simp: list_abs get_abs ran_def dest: abs_key)

end

section \<open>Both implementations satisfy it\<close>

definition store_ok :: "store \<Rightarrow> bool" where
  "store_ok st \<longleftrightarrow>
     distinct (map fst (st_data st)) \<and> (\<forall>(k, v) \<in> set (st_data st). srv_id v = k) \<and>
     distinct (map fst (st_agents st)) \<and> (\<forall>(k, v) \<in> set (st_agents st). ag_id v = k)"

lemma store_ok_empty: "store_ok empty_store"
  by (simp add: store_ok_def empty_store_def)

lemma stamp_server_id [simp]: "srv_id (stamp_server ts e v) = srv_id v"
  by (simp add: stamp_server_def split: option.splits)

lemma stamp_agent_id [simp]: "ag_id (stamp_agent ts e v) = ag_id v"
  by (simp add: stamp_agent_def split: option.splits)

lemma store_ok_save: "store_ok st \<Longrightarrow> store_ok (snd (mem_save ts v st))"
  by (auto simp: store_ok_def mem_save_def Let_def distinct_update dest!: in_update_cases)

lemma store_ok_unregister: "store_ok st \<Longrightarrow> store_ok (snd (mem_unregister k st))"
  by (auto simp: store_ok_def mem_unregister_def in_delete_iff)

lemma store_ok_save_agent: "store_ok st \<Longrightarrow> store_ok (snd (mem_save_agent ts v st))"
  by (auto simp: store_ok_def mem_save_agent_def Let_def distinct_update dest!: in_update_cases)

lemma store_ok_unregister_agent: "store_ok st \<Longrightarrow> store_ok (snd (mem_unregister_agent k st))"
  by (auto simp: store_ok_def mem_unregister_agent_def in_delete_iff)

lemma store_ok_ran:
  "store_ok st \<Longrightarrow> set (mem_list st) = ran (map_of (st_data st))"
  "store_ok st \<Longrightarrow> set (mem_list_agents st) = ran (map_of (st_agents st))"
  by (simp_all add: store_ok_def mem_list_def mem_list_agents_def ran_distinct)

lemma store_ok_key:
  "store_ok st \<Longrightarrow> map_of (st_data st) k = Some v \<Longrightarrow> srv_id v = k"
  "store_ok st \<Longrightarrow> map_of (st_agents st) k = Some a \<Longrightarrow> ag_id a = k"
  by (auto simp: store_ok_def dest: map_of_SomeD)

lemmas store_ok_ops =
  store_ok_save store_ok_unregister store_ok_save_agent store_ok_unregister_agent

lemmas mem_op_defs =
  mem_save_def mem_unregister_def mem_save_agent_def mem_unregister_agent_def
  mem_get_def mem_get_agent_def

interpretation mem_servers: keyed_storage
  mem_server_ops srv_id stamp_server store_ok "\<lambda>st. map_of (st_data st)"
proof (unfold_locales, goal_cases)
  case (5 s io ts v r s')
  then show ?case
    using store_ok_save [of s ts v]
    by (auto simp: mem_server_ops_def mem_save_def Let_def update_conv')
next
  case (9 s k v io r s')
  then show ?case
    using store_ok_unregister [of s k]
    by (auto simp: mem_server_ops_def mem_unregister_def delete_conv')
qed (auto simp: mem_server_ops_def mem_op_defs store_ok_ran Let_def dest: store_ok_key)

interpretation mem_agents: keyed_storage
  mem_agent_ops ag_id stamp_agent store_ok "\<lambda>st. map_of (st_agents st)"
proof (unfold_locales, goal_cases)
  case (5 s io ts v r s')
  then show ?case
    using store_ok_save_agent [of s ts v]
    by (auto simp: mem_agent_ops_def mem_save_agent_def Let_def update_conv')
next
  case (9 s k v io r s')
  then show ?case
    using store_ok_unregister_agent [of s k]
    by (auto simp: mem_agent_ops_def mem_unregister_agent_def delete_conv')
qed (auto simp: mem_agent_ops_def mem_op_defs store_ok_ran Let_def dest: store_ok_key)

lemma persist_locked_mem [simp]:
  "js_mem (snd (persist_locked cd io js)) = js_mem js"
  by (simp add: persist_locked_def)

lemma json_save_mem: "js_mem (snd (json_save cd io ts v js)) = snd (mem_save ts v (js_mem js))"
  by (simp add: json_save_def Let_def persist_locked_def split: prod.splits)

lemma json_save_agent_mem:
  "js_mem (snd (json_save_agent cd io ts v js)) = snd (mem_save_agent ts v (js_mem js))"
  by (simp add: json_save_agent_def Let_def persist_locked_def split: prod.splits)

lemma json_unregister_mem:
  "js_mem (snd (json_unregister cd io k js)) = snd (mem_unregister k (js_mem js))"
  by (simp add: json_unregister_def mem_unregister_def)

lemma json_unregister_agent_mem:
  "js_mem (snd (json_unregister_agent cd io k js)) = snd (mem_unregister_agent k (js_mem js))"
  by (simp add: json_unregister_agent_def mem_unregister_agent_def)

lemmas json_mem_simps =
  json_save_mem json_save_agent_mem json_unregister_mem json_unregister_agent_mem

lemmas json_op_defs =
  json_save_def json_unregister_def json_save_agent_def json_unregister_agent_def
  json_get_def json_get_agent_def json_list_def json_list_agents_def persist_locked_def

abbreviation json_ok :: "json_store \<Rightarrow> bool" where
  "json_ok js \<equiv> store_ok (js_mem js)"

interpretation json_servers: keyed_storage
  "json_server_ops cd" srv_id stamp_server json_ok "\<lambda>js. map_of (st_data (js_mem js))"
  for cd :: codec
proof (unfold_locales, goal_cases)
  case (5 s io ts v r s')
  then have "js_mem s' = snd (mem_save ts v (js_mem s))"
    using json_save_mem [of cd io ts v s] by (simp add: json_server_ops_def)
  with 5 show ?case
    using store_ok_save [of "js_mem s" ts v] by (simp add: mem_save_def Let_def update_conv')
next
  case (9 s k v io r s')
  then have "js_mem s' = snd (mem_unregister k (js_mem s))"
    using json_unregister_mem [of cd io k s] by (simp add: json_server_ops_def)
  with 9 show ?case
    using store_ok_unregister [of "js_mem s" k]
    by (auto simp: json_server_ops_def json_op_defs mem_unregister_def delete_conv')
qed (auto simp: json_server_ops_def json_op_defs mem_op_defs store_ok_ran Let_def
      split: if_splits dest: store_ok_key)

interpretation json_agents: keyed_storage
  "json_agent_ops cd" ag_id stamp_agent json_ok "\<lambda>js. map_of (st_agents (js_mem js))"
  for cd :: codec
proof (unfold_locales, goal_cases)
  case (5 s io ts v r s')
  then have "js_mem s' = snd (mem_save_agent ts v (js_mem s))"
    using json_save_agent_mem [of cd io ts v s] by (simp add: json_agent_ops_def)
  with 5 show ?case
    using store_ok_save_agent [of "js_mem s" ts v]
    by (simp add: mem_save_agent_def Let_def update_conv')
next
  case (9 s k v io r s')
  then have "js_mem s' = snd (mem_unregister_agent k (js_mem s))"
    using json_unregister_agent_mem [of cd io k s] by (simp add: json_agent_ops_def)
  with 9 show ?case
    using store_ok_unregister_agent [of "js_mem s" k]
    by (auto simp: json_agent_ops_def json_op_defs mem_unregister_agent_def delete_conv')
qed (auto simp: json_agent_ops_def json_op_defs mem_op_defs store_ok_ran Let_def
      split: if_splits dest: store_ok_key)

section \<open>What a restart recovers\<close>

text \<open>The documented round trip of the codec, on the records the storage writes.\<close>

definition server_codec_ok :: "codec \<Rightarrow> registered_server \<Rightarrow> bool" where
  "server_codec_ok cd s \<longleftrightarrow>
     validate_server cd (dump_server cd (sanitize_for_persistence s)) = Inr (sanitize_for_persistence s)"

definition agent_codec_ok :: "codec \<Rightarrow> registered_agent \<Rightarrow> bool" where
  "agent_codec_ok cd a \<longleftrightarrow>
     validate_agent cd (dump_agent cd (agent_sanitize_for_persistence a)) = Inr (agent_sanitize_for_persistence a)"

definition codec_ok :: "codec \<Rightarrow> store \<Rightarrow> bool" where
  "codec_ok cd st \<longleftrightarrow>
     (\<forall>(k, s) \<in> set (st_data st). server_codec_ok cd s)
     \<and> (\<forall>(k, a) \<in> set (st_agents st). agent_codec_ok cd a)"

definition restarted :: "store \<Rightarrow> store" where
  "restarted st =
     \<lparr>st_data = map (\<lambda>(k, s). (k, sanitize_for_persistence s)) (st_data st),
      st_agents = map (\<lambda>(k, a). (k, agent_sanitize_for_persistence a)) (st_agents st)\<rparr>"

lemma load_servers_dump:
  assumes "\<forall>(k, s) \<in> set d. server_codec_ok cd s" and "distinct (map fst (acc @ d))"
    and "\<forall>(k, s) \<in> set d. srv_id s = k"
  shows "load_servers cd
           (map (\<lambda>p. dump_server cd (sanitize_for_persistence (snd p))) d) acc
         = Inr (acc @ map (\<lambda>(k, s). (k, sanitize_for_persistence s)) d)"
  using assms
proof (induction d arbitrary: acc)
  case (Cons p d)
  obtain k s where p: "p = (k, s)" by fastforce
  with Cons.prems have "AList.update k (sanitize_for_persistence s) acc
      = acc @ [(k, sanitize_for_persistence s)]"
    by (intro update_new) auto
  with Cons.prems p show ?case
    using Cons.IH [of "acc @ [(k, sanitize_for_persistence s)]"]
    by (auto simp: server_codec_ok_def)
qed simp

lemma load_agents_dump:
  assumes "\<forall>(k, a) \<in> set d. agent_codec_ok cd a" and "distinct (map fst (acc @ d))"
    and "\<forall>(k, a) \<in> set d. ag_id a = k"
  shows "load_agents cd
           (map (\<lambda>p. dump_agent cd (agent_sanitize_for_persistence (snd p))) d) acc
         = Inr (acc @ map (\<lambda>(k, a). (k, agent_sanitize_for_persistence a)) d)"
  using assms
proof (induction d arbitrary: acc)
  case (Cons p d)
  obtain k a where p: "p = (k, a)" by fastforce
  with Cons.prems have "AList.update k (agent_sanitize_for_persistence a) acc
      = acc @ [(k, agent_sanitize_for_persistence a)]"
    by (intro update_new) auto
  with Cons.prems p show ?case
    using Cons.IH [of "acc @ [(k, agent_sanitize_for_persistence a)]"]
    by (auto simp: agent_codec_ok_def)
qed simp

lemma persist_payload_data:
  "servers_data (persist_payload cd st)
     = JList (map (\<lambda>p. dump_server cd (sanitize_for_persistence (snd p))) (st_data st))"
  "agents_data (persist_payload cd st)
     = JList (map (\<lambda>p. dump_agent cd (agent_sanitize_for_persistence (snd p))) (st_agents st))"
  by (simp_all add: persist_payload_def servers_data_def agents_data_def has_key_def jget_def)

lemma json_init_persisted:
  assumes "codec_ok cd st" and "store_ok st"
  shows "json_init cd (Some (persist_payload cd st))
         = Inr \<lparr>js_mem = restarted st, js_file = Some (persist_payload cd st)\<rparr>"
  using assms load_servers_dump [of "st_data st" cd "[]"] load_agents_dump [of "st_agents st" cd "[]"]
  by (simp add: json_init_def persist_payload_data store_ok_def restarted_def codec_ok_def)

lemma json_save_file:
  "json_save cd io ts v js = (Inr x, js') \<Longrightarrow>
     js_file js' = Some (persist_payload cd (js_mem js'))"
  by (auto simp: json_save_def persist_locked_def Let_def split: prod.splits if_splits)

lemma json_save_failed_file:
  "json_save cd io ts v js = (Inl e, js') \<Longrightarrow> js_file js' = js_file js"
  by (auto simp: json_save_def persist_locked_def Let_def split: prod.splits if_splits)

lemma json_unregister_file:
  "json_unregister cd io k js = (Inr u, js') \<Longrightarrow>
     js_file js' = Some (persist_payload cd (js_mem js'))"
  by (auto simp: json_unregister_def persist_locked_def split: prod.splits sum.splits if_splits)

section \<open>Fixtures\<close>

lemma get_save_fixture:
  "get_fixture (save_fixture fx a n b) a' n'
     = (if a' = a \<and> n' = n then Some b else get_fixture fx a' n')"
  by (simp add: get_fixture_def save_fixture_def agent_fixtures_def dict_simps)

lemma delete_fixture_cases:
  "delete_fixture fx a n = Inr fx' \<Longrightarrow>
     get_fixture fx a n \<noteq> None \<and>
     get_fixture fx' a' n' = (if a' = a \<and> n' = n then None else get_fixture fx a' n')"
  by (auto simp: get_fixture_def delete_fixture_def agent_fixtures_def dict_simps
      split: option.splits if_splits)

end
