(* ===== verification/Registry.thy ===== *)
theory Registry
  imports Storage
begin

text \<open>
  \<^verbatim>\<open>registry/service.py\<close>: \<open>Registry\<close> and \<open>AgentRegistry\<close>, written over the operations of
  whichever storage the hub was configured with (\<open>storage_ops\<close>). \<open>now\<close> is the registry's own
  clock reading; \<open>io\<close> and \<open>ts\<close> are passed on to the storage. A read-modify-write operation
  raises \<open>KeyError\<close> for an unknown id and then changes nothing.
\<close>

section \<open>Registry\<close>

text \<open>\<open>(new is None or len(new) == 0) and existing\<close>.\<close>

definition keep_list :: "json list option \<Rightarrow> json list option \<Rightarrow> json list option" where
  "keep_list new existing =
     (if (new = None \<or> new = Some []) \<and> existing \<noteq> None \<and> existing \<noteq> Some []
      then existing else new)"

definition keep_capabilities ::
  "registered_server option \<Rightarrow> registered_server \<Rightarrow> registered_server" where
  "keep_capabilities existing server =
     (case existing of
        Some e \<Rightarrow>
          if \<not> is_openapi server
          then server\<lparr>srv_tools := keep_list (srv_tools server) (srv_tools e),
                      srv_prompts := keep_list (srv_prompts server) (srv_prompts e),
                      srv_resources := keep_list (srv_resources server) (srv_resources e)\<rparr>
          else server
      | None \<Rightarrow> server)"

definition inherit_created_at ::
  "registered_server option \<Rightarrow> registered_server \<Rightarrow> registered_server" where
  "inherit_created_at existing server =
     (case existing of
        Some e \<Rightarrow> if srv_created_at server = None
                  then server\<lparr>srv_created_at := srv_created_at e\<rparr> else server
      | None \<Rightarrow> server)"

definition reg_register ::
  "(registered_server, 's) storage_ops \<Rightarrow> bool \<Rightarrow> timestamp \<Rightarrow> timestamp \<times> timestamp \<Rightarrow>
     registered_server \<Rightarrow> 's \<Rightarrow> registered_server py \<times> 's" where
  "reg_register ops io now ts server s =
     (let existing = op_get ops s (srv_id server);
          s1 = (inherit_created_at existing server)\<lparr>srv_updated_at := Some now\<rparr>
      in op_save ops io ts (keep_capabilities existing s1) s)"

definition reg_unregister ::
  "(registered_server, 's) storage_ops \<Rightarrow> bool \<Rightarrow> string \<Rightarrow> 's \<Rightarrow> unit py \<times> 's" where
  "reg_unregister ops io server_id s = op_unregister ops io server_id s"

definition reg_get ::
  "(registered_server, 's) storage_ops \<Rightarrow> 's \<Rightarrow> string \<Rightarrow> registered_server option" where
  "reg_get ops s server_id = op_get ops s server_id"

definition reg_list :: "(registered_server, 's) storage_ops \<Rightarrow> 's \<Rightarrow> registered_server list" where
  "reg_list ops s = op_list ops s"

text \<open>The shape the update operations share: read, raise \<open>KeyError\<close>, change, save.\<close>

definition modify_server ::
  "(registered_server, 's) storage_ops \<Rightarrow> bool \<Rightarrow> timestamp \<times> timestamp \<Rightarrow> string \<Rightarrow>
     (registered_server \<Rightarrow> registered_server) \<Rightarrow> 's \<Rightarrow> unit py \<times> 's" where
  "modify_server ops io ts server_id f s =
     (case op_get ops s server_id of
        None \<Rightarrow> (Inl (KeyError server_id), s)
      | Some server \<Rightarrow>
          (case op_save ops io ts (f server) s of (r, s') \<Rightarrow> (map_sum (\<lambda>e. e) (\<lambda>_. ()) r, s')))"

definition reg_update_health ::
  "(registered_server, 's) storage_ops \<Rightarrow> bool \<Rightarrow> timestamp \<Rightarrow> timestamp \<times> timestamp \<Rightarrow> string \<Rightarrow>
     bool \<Rightarrow> int \<Rightarrow> 's \<Rightarrow> unit py \<times> 's" where
  "reg_update_health ops io now ts server_id healthy fails =
     modify_server ops io ts server_id
       (\<lambda>srv. srv\<lparr>srv_healthy := healthy, srv_consecutive_fails := fails,
                  srv_last_checked := Some now\<rparr>)"

definition health_fields ::
  "timestamp \<Rightarrow> bool \<Rightarrow> int \<Rightarrow> bool \<Rightarrow> registered_server \<Rightarrow> registered_server" where
  "health_fields now healthy fails rate_limited srv =
     (let since = (if healthy
                   then (case srv_healthy_since srv of None \<Rightarrow> Some now | Some t \<Rightarrow> Some t)
                   else None);
          uptime = (case since of None \<Rightarrow> 0 | Some t \<Rightarrow> of_int (now - t) / 1000000)
      in srv\<lparr>srv_healthy_since := since, srv_uptime_seconds := uptime, srv_healthy := healthy,
             srv_rate_limited := rate_limited, srv_consecutive_fails := fails,
             srv_last_checked := Some now\<rparr>)"

definition reg_update_health_and_uptime ::
  "(registered_server, 's) storage_ops \<Rightarrow> bool \<Rightarrow> timestamp \<Rightarrow> timestamp \<times> timestamp \<Rightarrow> string \<Rightarrow>
     bool \<Rightarrow> int \<Rightarrow> bool \<Rightarrow> 's \<Rightarrow> unit py \<times> 's" where
  "reg_update_health_and_uptime ops io now ts server_id healthy fails rate_limited =
     modify_server ops io ts server_id (health_fields now healthy fails rate_limited)"

definition reg_set_supports_health_endpoint ::
  "(registered_server, 's) storage_ops \<Rightarrow> bool \<Rightarrow> timestamp \<times> timestamp \<Rightarrow> string \<Rightarrow> bool \<Rightarrow> 's \<Rightarrow>
     unit py \<times> 's" where
  "reg_set_supports_health_endpoint ops io ts server_id supports =
     modify_server ops io ts server_id (\<lambda>srv. srv\<lparr>srv_supports_health_endpoint := Some supports\<rparr>)"

section \<open>AgentRegistry\<close>

definition areg_register_agent ::
  "(registered_agent, 's) storage_ops \<Rightarrow> bool \<Rightarrow> timestamp \<Rightarrow> timestamp \<times> timestamp \<Rightarrow>
     registered_agent \<Rightarrow> 's \<Rightarrow> registered_agent py \<times> 's" where
  "areg_register_agent ops io now ts agent s =
     (let a1 = (case op_get ops s (ag_id agent) of
                  Some e \<Rightarrow> if ag_created_at agent = None
                            then agent\<lparr>ag_created_at := ag_created_at e\<rparr> else agent
                | None \<Rightarrow> agent)
      in op_save ops io ts (a1\<lparr>ag_updated_at := Some now\<rparr>) s)"

definition areg_unregister_agent ::
  "(registered_agent, 's) storage_ops \<Rightarrow> bool \<Rightarrow> string \<Rightarrow> 's \<Rightarrow> unit py \<times> 's" where
  "areg_unregister_agent ops io agent_id s = op_unregister ops io agent_id s"

definition areg_update_agent_card ::
  "(registered_agent, 's) storage_ops \<Rightarrow> bool \<Rightarrow> timestamp \<Rightarrow> timestamp \<times> timestamp \<Rightarrow> string \<Rightarrow>
     agent_card option \<Rightarrow> timestamp option \<Rightarrow> bool option \<Rightarrow> string list \<Rightarrow> 's \<Rightarrow> unit py \<times> 's" where
  "areg_update_agent_card ops io now ts agent_id last_card checked valid issues s =
     (case op_get ops s agent_id of
        None \<Rightarrow> (Inl (KeyError agent_id), s)
      | Some a \<Rightarrow>
          (case op_save ops io ts
                  (a\<lparr>ag_last_card := last_card, ag_last_card_checked := checked, ag_card_valid := valid,
                     ag_card_issues := issues, ag_updated_at := Some now\<rparr>) s of
             (r, s') \<Rightarrow> (map_sum (\<lambda>e. e) (\<lambda>_. ()) r, s')))"

section \<open>The registry over any storage that keeps its contract\<close>

lemma keep_capabilities_id [simp]: "srv_id (keep_capabilities e s) = srv_id s"
  by (simp add: keep_capabilities_def split: option.splits)

lemma inherit_created_at_id [simp]: "srv_id (inherit_created_at e s) = srv_id s"
  by (simp add: inherit_created_at_def split: option.splits)

lemma health_fields_id [simp]: "srv_id (health_fields n h f r s) = srv_id s"
  by (simp add: health_fields_def Let_def)

text \<open>What the registry stores for a registration, given what it held for that id.\<close>

definition registered_as ::
  "timestamp \<Rightarrow> timestamp \<times> timestamp \<Rightarrow> registered_server option \<Rightarrow> registered_server \<Rightarrow>
     registered_server" where
  "registered_as now ts existing server =
     stamp_server ts existing
       (keep_capabilities existing
          ((inherit_created_at existing server)\<lparr>srv_updated_at := Some now\<rparr>))"

lemma registered_as_id [simp]: "srv_id (registered_as now ts e s) = srv_id s"
  by (simp add: registered_as_def)

lemma registered_as_created_at:
  "srv_created_at (registered_as now ts e s)
     = (case e of Some e' \<Rightarrow> srv_created_at e' | None \<Rightarrow> Some (fst ts))"
  by (simp add: registered_as_def stamp_server_def split: option.splits)

lemma registered_as_tools:
  "srv_tools (registered_as now ts e s) =
     (case e of
        Some e' \<Rightarrow> if is_openapi s then srv_tools s else keep_list (srv_tools s) (srv_tools e')
      | None \<Rightarrow> srv_tools s)"
  by (simp add: registered_as_def stamp_server_def keep_capabilities_def inherit_created_at_def
      is_openapi_def split: option.splits)

lemma registered_as_capabilities:
  "srv_prompts (registered_as now ts e s) =
     (case e of
        Some e' \<Rightarrow> if is_openapi s then srv_prompts s else keep_list (srv_prompts s) (srv_prompts e')
      | None \<Rightarrow> srv_prompts s)"
  "srv_resources (registered_as now ts e s) =
     (case e of
        Some e' \<Rightarrow> if is_openapi s then srv_resources s
                  else keep_list (srv_resources s) (srv_resources e')
      | None \<Rightarrow> srv_resources s)"
  by (simp_all add: registered_as_def stamp_server_def keep_capabilities_def
      inherit_created_at_def is_openapi_def split: option.splits)

locale server_registry = keyed_storage ops srv_id stamp_server inv abs
  for ops :: "(registered_server, 's) storage_ops" and inv :: "'s \<Rightarrow> bool"
    and abs :: "'s \<Rightarrow> string \<rightharpoonup> registered_server"
begin

lemma register_abs:
  assumes "inv s" and "reg_register ops io now ts server s = (r, s')"
  shows "inv s'"
    and "abs s' = (abs s)(srv_id server \<mapsto> registered_as now ts (abs s (srv_id server)) server)"
  using assms save_abs
  unfolding reg_register_def Let_def
  by (fastforce simp: get_abs registered_as_def)+

lemma register_get:
  assumes "inv s" and "reg_register ops io now ts server s = (r, s')"
  shows "reg_get ops s' k =
    (if k = srv_id server then Some (registered_as now ts (reg_get ops s k) server)
     else reg_get ops s k)"
  using register_abs [OF assms] assms(1) by (simp add: reg_get_def get_abs)

lemma register_returns_stored:
  assumes "inv s" and "reg_register ops io now ts server s = (Inr v, s')"
  shows "reg_get ops s' (srv_id server) = Some v"
proof -
  have "v = registered_as now ts (abs s (srv_id server)) server"
    using assms save_result unfolding reg_register_def Let_def
    by (fastforce simp: get_abs registered_as_def)
  with register_get [OF assms] assms(1) show ?thesis
    by (simp add: reg_get_def get_abs)
qed

lemma modify_absent:
  "inv s \<Longrightarrow> reg_get ops s k = None \<Longrightarrow> modify_server ops io ts k f s = (Inl (KeyError k), s)"
  by (simp add: modify_server_def reg_get_def)

lemma modify_inv: "inv s \<Longrightarrow> inv (snd (modify_server ops io ts k f s))"
  by (simp add: modify_server_def split: option.split prod.split) (metis save_inv snd_conv)

lemma modify_get:
  assumes "inv s" and "reg_get ops s k = Some srv" and "srv_id (f srv) = srv_id srv"
    and "modify_server ops io ts k f s = (r, s')"
  shows "reg_get ops s' k' =
    (if k' = k then Some (stamp_server ts (Some srv) (f srv)) else reg_get ops s k')"
proof -
  have k: "srv_id srv = k"
    using assms(1,2) abs_key by (auto simp: reg_get_def get_abs)
  obtain r1 where "op_save ops io ts (f srv) s = (r1, s')"
    using assms(2,4) by (auto simp: modify_server_def reg_get_def split: prod.splits)
  from get_after_save [OF assms(1) this] show ?thesis
    using assms(1-3) k by (simp add: reg_get_def get_abs)
qed

lemma modify_succeeds:
  assumes "inv s" and "reg_get ops s k = Some srv"
  shows "fst (modify_server ops True ts k f s) = Inr ()"
  using assms save_ok [of s ts "f srv"]
  by (auto simp: modify_server_def reg_get_def split: prod.splits)

lemma update_health_get:
  assumes "inv s" and "reg_get ops s k = Some srv"
    and "reg_update_health_and_uptime ops io now ts k h f rl s = (r, s')"
  shows "reg_get ops s' k =
    Some ((health_fields now h f rl srv)\<lparr>srv_updated_at := Some (fst ts)\<rparr>)"
  using modify_get [OF assms(1,2) _ assms(3) [unfolded reg_update_health_and_uptime_def]]
  by (simp add: stamp_server_def health_fields_def Let_def)

end

interpretation mem_registry: server_registry
  mem_server_ops store_ok "\<lambda>st. map_of (st_data st)"
  by unfold_locales

interpretation json_registry: server_registry
  "json_server_ops cd" json_ok "\<lambda>js. map_of (st_data (js_mem js))" for cd :: codec
  by unfold_locales

section \<open>Uptime\<close>

text \<open>
  The fields written together by a health update agree: a server is healthy exactly when it
  has a start of its healthy period, the uptime is measured from it, and it never lies after
  the check that computed it.
\<close>

definition health_consistent :: "registered_server \<Rightarrow> bool" where
  "health_consistent srv \<longleftrightarrow>
     (srv_healthy srv \<longleftrightarrow> srv_healthy_since srv \<noteq> None) \<and>
     (\<forall>t. srv_healthy_since srv = Some t \<longrightarrow>
        (\<exists>c. srv_last_checked srv = Some c \<and> srv_uptime_seconds srv = of_int (c - t) / 1000000)) \<and>
     (srv_healthy_since srv = None \<longrightarrow> srv_uptime_seconds srv = 0)"

lemma health_fields_sel [simp]:
  "srv_healthy (health_fields now h f rl srv) = h" "srv_rate_limited (health_fields now h f rl srv) = rl"
  "srv_last_checked (health_fields now h f rl srv) = Some now"
  "srv_consecutive_fails (health_fields now h f rl srv) = f"
  by (simp_all add: health_fields_def Let_def)

lemma health_fields_consistent: "health_consistent (health_fields now h f rl srv)"
  by (auto simp: health_consistent_def health_fields_def Let_def split: option.splits)

lemma health_fields_uptime_nonneg:
  "(case srv_healthy_since srv of None \<Rightarrow> True | Some t \<Rightarrow> t \<le> now) \<Longrightarrow>
     0 \<le> srv_uptime_seconds (health_fields now h f rl srv)"
  by (auto simp: health_fields_def Let_def split: option.splits)

end
