(* ===== verification/Tool_Schemas.thy ===== *)
theory Tool_Schemas
  imports Json
begin

text \<open>
  \<^verbatim>\<open>mcp/validation.py\<close> and \<^verbatim>\<open>mcp/schema_refs.py\<close>: the conformance checks on advertised tools and
  the local \<open>$ref\<close> resolution of their input schemas. Python iterates the frozen set
  \<open>MERGE_KEYS\<close> in an unspecified order; the model uses the order of the source, and the lemmas
  speak of what a key holds, not of its position.
\<close>

section \<open>Tool names and schemas\<close>

definition name_char_ok :: "char \<Rightarrow> bool" where
  "name_char_ok c \<longleftrightarrow>
     c \<in> {CHR ''_'', CHR ''-'', CHR ''.''} \<or>
     (let n = (of_char c :: nat) in (97 \<le> n \<and> n \<le> 122) \<or> (48 \<le> n \<and> n \<le> 57))"

definition validate_tool_name :: "string \<Rightarrow> string list" where
  "validate_tool_name name =
     (if strip name = [] then [''is empty'']
      else (if length name > 64
            then [''is longer than 64 chars ('' @ str_nat (length name) @ '')''] else [])
           @ (if CHR '' '' \<in> set name then [''contains spaces''] else [])
           @ map (\<lambda>c. ''contains invalid character '' @ repr_str [c])
               (filter (\<lambda>c. c \<noteq> CHR '' '' \<and> \<not> name_char_ok c) name))"

definition quoted :: "string \<Rightarrow> string" where
  "quoted s = [CHR 0x22] @ s @ [CHR 0x22]"

text \<open>The loop over \<open>required\<close>; \<open>req_field not in properties\<close> may raise.\<close>

fun required_issues ::
  "(rat \<Rightarrow> string) \<Rightarrow> string \<Rightarrow> json \<Rightarrow> json list \<Rightarrow> string list py" where
  "required_issues fr label properties [] = Inr []"
| "required_issues fr label properties (r # rs) =
     (case py_in r properties of
        Inl e \<Rightarrow> Inl e
      | Inr present \<Rightarrow>
          (case required_issues fr label properties rs of
             Inl e \<Rightarrow> Inl e
           | Inr iss \<Rightarrow>
               Inr ((if present then []
                     else [label @ '' required field '' @ quoted (py_str fr r) @ '' missing from properties'']) @ iss)))"

definition or_default :: "json \<Rightarrow> json \<Rightarrow> json" where
  "or_default v d = (if truthy v then v else d)"

definition schema_issues :: "(rat \<Rightarrow> string) \<Rightarrow> string \<Rightarrow> json \<Rightarrow> string list py" where
  "schema_issues fr label schema =
     (case schema of
        JObj s \<Rightarrow>
          (let schema_type = jget s ''type'';
               properties = or_default (jget s ''properties'') (JObj []);
               required = or_default (jget s ''required'') (JList []);
               i1 = (if truthy properties \<and> truthy schema_type \<and> schema_type \<noteq> JStr ''object''
                     then [label @ '' schema type '' @ quoted (py_str fr schema_type) @ '' with properties''] else []);
               i2 = (if truthy required \<and> \<not> truthy properties
                     then [label @ '' required list without properties''] else [])
           in case py_iter required of
                Inl e \<Rightarrow> Inl e
              | Inr rs \<Rightarrow> map_sum (\<lambda>e. e) (\<lambda>i3. i1 @ i2 @ i3) (required_issues fr label properties rs))
      | _ \<Rightarrow> Inl (AttributeError ''object has no attribute get''))"

text \<open>The issues of the tool at index \<open>idx\<close>; a name that is not text has no \<open>strip\<close>.\<close>

definition tool_issues :: "(rat \<Rightarrow> string) \<Rightarrow> nat \<Rightarrow> jdict \<Rightarrow> string list py" where
  "tool_issues fr idx tool =
     (let name = jget tool ''name'';
          label = (if truthy name then py_str fr name else str_nat idx);
          i0 = (if truthy name then [] else [''tool['' @ str_nat idx @ ''] missing name'']);
          i1 = (if \<not> truthy name then Inr []
                else case name of
                  JStr n \<Rightarrow> Inr (map (\<lambda>i. label @ '' name '' @ i) (validate_tool_name n))
                | _ \<Rightarrow> Inl (AttributeError ''object has no attribute strip''))
      in case i1 of
           Inl e \<Rightarrow> Inl e
         | Inr ni \<Rightarrow> map_sum (\<lambda>e. e) (\<lambda>si. i0 @ ni @ si)
                       (schema_issues fr label (jget_or tool ''inputSchema'' (JObj []))))"

fun all_tool_issues :: "(rat \<Rightarrow> string) \<Rightarrow> nat \<Rightarrow> jdict list \<Rightarrow> string list py" where
  "all_tool_issues fr idx [] = Inr []"
| "all_tool_issues fr idx (t # ts) =
     (case tool_issues fr idx t of
        Inl e \<Rightarrow> Inl e
      | Inr i \<Rightarrow> map_sum (\<lambda>e. e) (\<lambda>is. i @ is) (all_tool_issues fr (Suc idx) ts))"

definition validate_tool_schemas :: "(rat \<Rightarrow> string) \<Rightarrow> jdict list \<Rightarrow> (bool \<times> string list) py" where
  "validate_tool_schemas fr tools =
     map_sum (\<lambda>e. e) (\<lambda>is. (length is = 0, is)) (all_tool_issues fr 0 tools)"

section \<open>Local references\<close>

definition MAX_REF_DEPTH :: int where "MAX_REF_DEPTH = 8"

definition MERGE_KEYS :: "string list" where
  "MERGE_KEYS =
     [''type'', ''title'', ''description'', ''default'', ''enum'', ''oneOf'', ''anyOf'', ''items'',
      ''properties'', ''required'']"

definition get_defs :: "jdict \<Rightarrow> json option" where
  "get_defs schema =
     (if has_key schema ''$defs'' then Some (jget schema ''$defs'')
      else if has_key schema ''definitions'' then Some (jget schema ''definitions'') else None)"

definition ref_name :: "string \<Rightarrow> string option" where
  "ref_name ref =
     (if startswith ref ''#/$defs/'' then Some (drop 8 ref)
      else if startswith ref ''#/definitions/'' then Some (drop 14 ref) else None)"

definition merge_fields :: "jdict \<Rightarrow> jdict" where
  "merge_fields defn =
     map (\<lambda>k. (k, jget defn k)) (filter (\<lambda>k. has_key defn k) MERGE_KEYS)"

text \<open>\<open>for key, value in nested.items(): if key not in resolved\<close>.\<close>

definition add_missing :: "jdict \<Rightarrow> jdict \<Rightarrow> jdict" where
  "add_missing nested resolved = resolved @ filter (\<lambda>(k, v). \<not> has_key resolved k) nested"

function resolve_ref :: "jdict \<Rightarrow> json \<Rightarrow> int \<Rightarrow> jdict option" where
  "resolve_ref defs ref depth =
     (if depth > MAX_REF_DEPTH then None
      else case ref of
        JStr r \<Rightarrow>
          (case ref_name r of
             None \<Rightarrow> None
           | Some def_name \<Rightarrow>
               (case jget defs def_name of
                  JObj defn \<Rightarrow>
                    (let resolved = merge_fields defn
                     in if has_key defn ''$ref''
                        then (case resolve_ref defs (jget defn ''$ref'') (depth + 1) of
                                None \<Rightarrow> Some resolved
                              | Some nested \<Rightarrow> Some (add_missing nested resolved))
                        else Some resolved)
                | _ \<Rightarrow> None))
      | _ \<Rightarrow> None)"
  by pat_completeness auto
termination
  by (relation "measure (\<lambda>(defs, ref, depth). nat (MAX_REF_DEPTH + 1 - depth))") auto

declare resolve_ref.simps [simp del]

definition merge_into_property :: "jdict \<Rightarrow> jdict \<Rightarrow> jdict" where
  "merge_into_property property_dict resolved =
     property_dict @ map (\<lambda>k. (k, jget resolved k))
       (filter (\<lambda>k. has_key resolved k \<and> \<not> has_key property_dict k) MERGE_KEYS)"

text \<open>One property of a schema. A \<open>$defs\<close> that is not an object has no \<open>get\<close>.\<close>

definition resolve_property :: "json \<Rightarrow> json \<Rightarrow> json py" where
  "resolve_property defs prop_value =
     (case prop_value of
        JObj p \<Rightarrow>
          (case jget p ''$ref'' of
             JStr ref \<Rightarrow>
               if ref_name ref = None then Inr prop_value
               else (case defs of
                       JObj ds \<Rightarrow>
                         (case resolve_ref ds (JStr ref) 1 of
                            None \<Rightarrow> Inr prop_value
                          | Some resolved \<Rightarrow> Inr (JObj (merge_into_property p resolved)))
                     | _ \<Rightarrow> Inl (AttributeError ''object has no attribute get''))
           | _ \<Rightarrow> Inr prop_value)
      | _ \<Rightarrow> Inr prop_value)"

fun resolve_properties :: "json \<Rightarrow> jdict \<Rightarrow> jdict py" where
  "resolve_properties defs [] = Inr []"
| "resolve_properties defs ((k, v) # ps) =
     (case resolve_property defs v of
        Inl e \<Rightarrow> Inl e
      | Inr v' \<Rightarrow> map_sum (\<lambda>e. e) (\<lambda>ps'. (k, v') # ps') (resolve_properties defs ps))"

definition resolve_tool :: "jdict \<Rightarrow> jdict py" where
  "resolve_tool tool =
     (case jget tool ''inputSchema'' of
        JObj schema \<Rightarrow>
          (case get_defs schema of
             None \<Rightarrow> Inr tool
           | Some defs \<Rightarrow>
               (case jget schema ''properties'' of
                  JObj properties \<Rightarrow>
                    map_sum (\<lambda>e. e)
                      (\<lambda>ps. AList.update ''inputSchema''
                              (JObj (AList.update ''properties'' (JObj ps) schema)) tool)
                      (resolve_properties defs properties)
                | _ \<Rightarrow> Inr tool))
      | _ \<Rightarrow> Inr tool)"

fun resolve_tool_schema_refs :: "jdict list \<Rightarrow> jdict list py" where
  "resolve_tool_schema_refs [] = Inr []"
| "resolve_tool_schema_refs (t # ts) =
     (case resolve_tool t of
        Inl e \<Rightarrow> Inl e
      | Inr t' \<Rightarrow> map_sum (\<lambda>e. e) (\<lambda>ts'. t' # ts') (resolve_tool_schema_refs ts))"

section \<open>Lemmas\<close>

lemma validate_tool_name_ok:
  "validate_tool_name name = [] \<longleftrightarrow> name \<noteq> [] \<and> length name \<le> 64 \<and> (\<forall>c \<in> set name. name_char_ok c)"
proof -
  have sp: "\<not> name_char_ok (CHR '' '')" by code_simp
  have ok: "strip name = name" if "\<forall>c \<in> set name. name_char_ok c"
  proof -
    have "\<not> py_space c" if "name_char_ok c" for c
      using that by (auto simp: name_char_ok_def py_space_def Let_def)
    then have "\<forall>c \<in> set name. \<not> py_space c" using that by blast
    then have "dropWhile py_space name = name" "dropWhile py_space (rev name) = rev name"
      using hd_in_set[of name] hd_in_set[of "rev name"] by (auto simp: dropWhile_eq_self_iff)
    then show ?thesis by (simp add: strip_if_def lstrip_if_def rstrip_if_def)
  qed
  show ?thesis
  proof (cases "\<forall>c \<in> set name. name_char_ok c")
    case True
    have "CHR '' '' \<notin> set name" using True sp by blast
    moreover have "filter (\<lambda>c. c \<noteq> CHR '' '' \<and> \<not> name_char_ok c) name = []"
      using True by (simp add: filter_empty_conv)
    ultimately show ?thesis
      unfolding validate_tool_name_def ok[OF True] using True by simp
  next
    case False
    then obtain c where c: "c \<in> set name" "\<not> name_char_ok c" by blast
    have "validate_tool_name name \<noteq> []"
    proof (cases "CHR '' '' \<in> set name")
      case True
      then show ?thesis by (simp add: validate_tool_name_def)
    next
      case False
      then have "c \<in> set (filter (\<lambda>c. c \<noteq> CHR '' '' \<and> \<not> name_char_ok c) name)"
        using c by (cases "c = CHR '' ''") simp_all
      then have "filter (\<lambda>c. c \<noteq> CHR '' '' \<and> \<not> name_char_ok c) name \<noteq> []" by (metis list.set_cases list.simps(3))
      then show ?thesis unfolding validate_tool_name_def by simp
    qed
    then show ?thesis using False by blast
  qed
qed

lemma has_key_append: "has_key (d @ e) k \<longleftrightarrow> has_key d k \<or> has_key e k"
  by (auto simp: has_key_iff)

lemma jget_append: "jget (d @ e) k = (if has_key d k then jget d k else jget e k)"
  by (auto simp: jget_def has_key_def map_add_def split: option.splits)

lemma keys_merge_fields: "has_key (merge_fields d) k \<longleftrightarrow> has_key d k \<and> k \<in> set MERGE_KEYS"
  by (auto simp: merge_fields_def has_key_iff image_iff)

lemma jget_map_keys: "k \<in> set ks \<Longrightarrow> jget (map (\<lambda>k. (k, f k)) ks) k = f k"
  by (induction ks) (auto simp: jget_def)

lemma jget_merge_fields: "has_key (merge_fields d) k \<Longrightarrow> jget (merge_fields d) k = jget d k"
  using keys_merge_fields[of d k] by (simp add: merge_fields_def jget_map_keys)

lemma has_key_add_missing: "has_key (add_missing n r) k \<longleftrightarrow> has_key r k \<or> has_key n k"
proof -
  have "has_key (filter (\<lambda>(k, v). \<not> has_key r k) n) k \<longleftrightarrow> has_key n k \<and> \<not> has_key r k"
    by (induction n) (auto simp: has_key_def)
  then show ?thesis by (auto simp: add_missing_def has_key_append)
qed

lemma resolve_ref_keys:
  "resolve_ref defs ref depth = Some r \<Longrightarrow> has_key r k \<Longrightarrow> k \<in> set MERGE_KEYS"
proof (induction defs ref depth arbitrary: r rule: resolve_ref.induct)
  case (1 defs ref depth)
  show ?case
    using "1.prems" "1.IH"
    by (subst (asm) resolve_ref.simps)
       (auto simp: keys_merge_fields has_key_add_missing Let_def
         split: if_splits json.splits option.splits)
qed

text \<open>The keys a definition has itself win over those of the definition it refers to.\<close>

lemma resolve_ref_own_keys:
  assumes "resolve_ref defs (JStr ref) depth = Some r" "ref_name ref = Some n"
    "jget defs n = JObj d" "has_key d k" "k \<in> set MERGE_KEYS"
  shows "jget r k = jget d k"
proof -
  have k: "has_key (merge_fields d) k" using assms(4,5) by (simp add: keys_merge_fields)
  show ?thesis
    using assms(1-3) k
    by (subst (asm) resolve_ref.simps)
       (auto simp: Let_def add_missing_def jget_append jget_merge_fields split: if_splits option.splits)
qed

text \<open>Resolving never changes a key the property already has.\<close>

lemma merge_into_property_keeps: "has_key p k \<Longrightarrow> jget (merge_into_property p r) k = jget p k"
  by (simp add: merge_into_property_def jget_append)

lemma merge_into_property_adds:
  "\<not> has_key p k \<Longrightarrow> k \<in> set MERGE_KEYS \<Longrightarrow> has_key r k \<Longrightarrow> jget (merge_into_property p r) k = jget r k"
  by (simp add: merge_into_property_def jget_append jget_map_keys)

lemma resolve_properties_keys:
  "resolve_properties defs ps = Inr qs \<Longrightarrow> map fst qs = map fst ps"
  by (induction defs ps arbitrary: qs rule: resolve_properties.induct)
     (auto split: sum.splits simp: map_sum_def)

end
