(* ===== verification/Discovery.thy ===== *)
theory Discovery
  imports Sdk_Client Server_Tools Registry Tool_Schemas
begin

text \<open>
  \<^verbatim>\<open>mcp/discovery.py\<close>: asking a server for its tools, prompts and resources, and storing what it lists without undoing what
  another task has written meanwhile. The MCP clients are those of \<^verbatim>\<open>Stateless\<close> and \<^verbatim>\<open>Sdk_Client\<close>, by the address of the server;
  the pool of stdio sessions is an argument.
\<close>

section \<open>Reading a list result\<close>

definition advertises :: "jdict option \<Rightarrow> string \<Rightarrow> bool" where
  "advertises capabilities kind =
     (case capabilities of None \<Rightarrow> True | Some d \<Rightarrow> d = [] \<or> has_key d kind)"

definition first_list :: "jdict \<Rightarrow> json list option" where
  "first_list d = (case find is_list (map snd d) of Some (JList xs) \<Rightarrow> Some xs | _ \<Rightarrow> None)"

definition is_error_reply :: "jdict \<Rightarrow> bool" where
  "is_error_reply d = (case jget d ''error'' of JObj e \<Rightarrow> jget e ''code'' \<noteq> JNull | _ \<Rightarrow> False)"

text \<open>A result that was never obtained is \<open>JNull\<close>.\<close>

definition extract_list_payload :: "json \<Rightarrow> string \<Rightarrow> json list option" where
  "extract_list_payload raw kind =
     (case raw of
        JList xs \<Rightarrow> Some xs
      | JObj d \<Rightarrow>
          if is_error_reply d then None
          else (case (jget d kind, jget d ''result'', jget d ''data'') of
                  (JList xs, _, _) \<Rightarrow> Some xs
                | (_, JList xs, _) \<Rightarrow> Some xs
                | (_, _, JList xs) \<Rightarrow> Some xs
                | (_, JObj r, _) \<Rightarrow>
                    (case jget r kind of
                       JList xs \<Rightarrow> Some xs
                     | _ \<Rightarrow> (case first_list r of Some xs \<Rightarrow> Some xs | None \<Rightarrow> first_list d))
                | _ \<Rightarrow> first_list d)
      | _ \<Rightarrow> None)"

definition extract_ttl_ms :: "json \<Rightarrow> rat option" where
  "extract_ttl_ms raw =
     (case raw of
        JObj d \<Rightarrow>
          (case jget d ''ttlMs'' of
             JInt i \<Rightarrow> if i \<ge> 0 then Some (of_int i) else None
           | JFloat r \<Rightarrow> if r \<ge> 0 then Some r else None
           | _ \<Rightarrow> None)
      | _ \<Rightarrow> None)"

section \<open>The service\<close>

record 's discovery_state =
  ds_registry :: 's
  ds_not_before :: "(string, rat) dict"
  ds_tokens :: token_cache
  ds_obo :: obo_token_cache

text \<open>A stdio session, or why there is none; with it, what the server said it supports.\<close>

record 's discovery_env =
  dv_ops :: "(registered_server, 's) storage_ops"
  dv_io :: bool
  dv_now :: timestamp
  dv_stamps :: "timestamp \<times> timestamp"
  dv_clock :: rat
  dv_map :: map_env
  dv_description_limit :: int
  dv_float_text :: "rat \<Rightarrow> string"
  dv_stdio :: "(registered_server \<Rightarrow> sdk_exc + jdict option) option"
  dv_sdk :: "string \<Rightarrow> sdk_env"
  dv_stateless :: "string \<Rightarrow> stateless_env"

datatype discovery_error = DE_client client_failure | DE_raised py_exc | DE_sdk sdk_exc

type_synonym 's discovered = "discovery_error option \<times> 's discovery_state"

definition store_server ::
  "'s discovery_env \<Rightarrow> registered_server \<Rightarrow> 's discovery_state \<Rightarrow> 's discovered" where
  "store_server env server st =
     (case reg_register (dv_ops env) (dv_io env) (dv_now env) (dv_stamps env) server (ds_registry st) of
        (r, s') \<Rightarrow> (case r of Inl e \<Rightarrow> Some (DE_raised e) | Inr _ \<Rightarrow> None, st\<lparr>ds_registry := s'\<rparr>))"

text \<open>The fields another task may have written while the server was asked.\<close>

definition keep_health :: "registered_server \<Rightarrow> registered_server \<Rightarrow> registered_server" where
  "keep_health current server =
     server\<lparr>srv_healthy := srv_healthy current, srv_healthy_since := srv_healthy_since current,
            srv_consecutive_fails := srv_consecutive_fails current,
            srv_uptime_seconds := srv_uptime_seconds current, srv_last_checked := srv_last_checked current,
            srv_rate_limited := srv_rate_limited current,
            srv_supports_health_endpoint := srv_supports_health_endpoint current\<rparr>"

definition save_preserving_health ::
  "'s discovery_env \<Rightarrow> registered_server \<Rightarrow> 's discovery_state \<Rightarrow> 's discovered" where
  "save_preserving_health env server st =
     (case reg_get (dv_ops env) (ds_registry st) (srv_id server) of
        None \<Rightarrow> (None, st)
      | Some current \<Rightarrow> store_server env (keep_health current server) st)"

text \<open>The items of a list are the server's; one that is not an object has no \<open>get\<close>.\<close>

definition validated_tools :: "(rat \<Rightarrow> string) \<Rightarrow> json list \<Rightarrow> (bool \<times> string list) py" where
  "validated_tools fr tools =
     (let objects = takeWhile is_obj tools
      in case validate_tool_schemas fr (map obj_or_empty objects) of
           Inl e \<Rightarrow> Inl e
         | Inr r \<Rightarrow> if length objects = length tools then Inr r
                    else Inl (AttributeError ''object has no attribute get''))"

definition with_conformance ::
  "(rat \<Rightarrow> string) \<Rightarrow> json list option \<Rightarrow> string list \<Rightarrow> registered_server \<Rightarrow> registered_server py" where
  "with_conformance fr tools client_issues server =
     (case (case tools of
              None \<Rightarrow> Inr (None, [])
            | Some ts \<Rightarrow> map_sum (\<lambda>e. e) (\<lambda>(ok, issues). (Some ok, issues)) (validated_tools fr ts)) of
        Inl e \<Rightarrow> Inl e
      | Inr (conformant, issues) \<Rightarrow>
          Inr (if client_issues \<noteq> []
               then server\<lparr>srv_schema_conformant := Some False,
                           srv_schema_issues := issues @ filter (\<lambda>i. i \<notin> set issues) client_issues\<rparr>
               else server\<lparr>srv_schema_conformant := conformant, srv_schema_issues := issues\<rparr>))"

definition nothing_listed :: "json list option \<Rightarrow> bool" where
  "nothing_listed xs \<longleftrightarrow> xs = None \<or> xs = Some []"

definition store_capabilities ::
  "'s discovery_env \<Rightarrow> registered_server \<Rightarrow> json \<Rightarrow> json \<Rightarrow> json \<Rightarrow> string list \<Rightarrow> 's discovery_state \<Rightarrow> 's discovered" where
  "store_capabilities env server tools_raw prompts_raw resources_raw client_issues st =
     (let tools = extract_list_payload tools_raw ''tools'';
          prompts = extract_list_payload prompts_raw ''prompts'';
          resources = extract_list_payload resources_raw ''resources''
      in case with_conformance (dv_float_text env) tools client_issues server of
           Inl e \<Rightarrow> (Some (DE_raised e), st)
         | Inr checked \<Rightarrow>
             (case save_preserving_health env
                     (checked\<lparr>srv_tools := tools, srv_prompts := prompts, srv_resources := resources,
                              srv_last_capability_sync := Some (dv_now env)\<rparr>) st of
                (Some e, st') \<Rightarrow> (Some e, st')
              | (None, st') \<Rightarrow>
                  (if nothing_listed tools \<and> nothing_listed prompts \<and> nothing_listed resources
                   then Some (DE_raised (RuntimeError ''discovery completed but no capabilities were found'')) else None,
                   st')))"

definition forget_pacing :: "string \<Rightarrow> 's discovery_state \<Rightarrow> 's discovery_state" where
  "forget_pacing server_id st = st\<lparr>ds_not_before := AList.delete server_id (ds_not_before st)\<rparr>"

section \<open>The stateless revision\<close>

text \<open>A list that fails is logged and left out.\<close>

definition stateless_attempt :: "stateless_env \<Rightarrow> string \<Rightarrow> stateless_client \<Rightarrow> json \<times> stateless_client" where
  "stateless_attempt env meth c =
     (case stateless_list env meth c of (r, c') \<Rightarrow> (case r of Inl e \<Rightarrow> JNull | Inr v \<Rightarrow> v, c'))"

definition pace ::
  "rat \<Rightarrow> string \<Rightarrow> json list \<Rightarrow> 's discovery_state \<Rightarrow> 's discovery_state" where
  "pace clock server_id raws st =
     (case List.map_filter extract_ttl_ms raws of
        [] \<Rightarrow> forget_pacing server_id st
      | t # ts \<Rightarrow> st\<lparr>ds_not_before := AList.update server_id (clock + foldl min t ts / 1000) (ds_not_before st)\<rparr>)"

text \<open>The result is the flag, an error that escapes, or the end of the discovery.\<close>

datatype stateless_outcome = Not_stateless | Stateless_done "discovery_error option"

definition discover_stateless ::
  "'s discovery_env \<Rightarrow> registered_server \<Rightarrow> 's discovery_state \<Rightarrow> stateless_outcome \<times> registered_server \<times> 's discovery_state" where
  "discover_stateless env server st =
     (let senv = dv_stateless env (srv_url server);
          c = \<lparr>sl_counter = 0, sl_server = Some server, sl_tokens = ds_tokens st, sl_obo = ds_obo st, sl_posts = []\<rparr>;
          back = (\<lambda>c. st\<lparr>ds_tokens := sl_tokens c, ds_obo := sl_obo c\<rparr>);
          own = (\<lambda>c. case sl_server c of Some s \<Rightarrow> s | None \<Rightarrow> server)
      in case stateless_discover senv c of
           (Inl (ClientError e), c1) \<Rightarrow> (Not_stateless, own c1, back c1)
         | (Inl (AuthFailed e), c1) \<Rightarrow> (Stateless_done (Some (DE_client (AuthFailed e))), own c1, back c1)
         | (Inr d, c1) \<Rightarrow>
             (let c2 = c1\<lparr>sl_server := Some (fst (record_protocol_metadata (own c1)
                              (Some (dr_protocol_version d)) (Some MT_sse)))\<rparr>;
                  (tools_raw, c3) = stateless_attempt senv ''tools/list'' c2;
                  (prompts_raw, c4) = stateless_attempt senv ''prompts/list'' c3;
                  (resources_raw, c5) = stateless_attempt senv ''resources/list'' c4;
                  st' = pace (dv_clock env) (srv_id server) [tools_raw, prompts_raw, resources_raw] (back c5);
                  (err, st'') = store_capabilities env (own c5) tools_raw prompts_raw resources_raw [] st'
              in (Stateless_done err, own c5, st'')))"

section \<open>The handshake revisions and stdio\<close>

definition DISCOVERY_TIMEOUT :: rat where "DISCOVERY_TIMEOUT = 30"

definition sdk_attempt ::
  "sdk_env \<Rightarrow> rat \<Rightarrow> jdict option \<Rightarrow> string \<Rightarrow> mcp_client \<Rightarrow> json \<times> mcp_client" where
  "sdk_attempt env timeout capabilities kind c =
     (if advertises capabilities kind
      then (case client_list env (kind @ ''/list'') timeout c of
              (r, c') \<Rightarrow> (case r of Inl e \<Rightarrow> JNull | Inr items \<Rightarrow> JList (map JObj items), c'))
      else (JNull, c))"

text \<open>What both have in common: ask for the lists and store them.\<close>

definition list_and_store ::
  "'s discovery_env \<Rightarrow> sdk_env \<Rightarrow> rat \<Rightarrow> jdict option \<Rightarrow> registered_server \<Rightarrow> mcp_client \<Rightarrow> 's discovery_state
     \<Rightarrow> 's discovered \<times> mcp_client" where
  "list_and_store env senv timeout capabilities server c st =
     (let (tools_raw, c1) = sdk_attempt senv timeout capabilities ''tools'' c;
          (prompts_raw, c2) = sdk_attempt senv timeout capabilities ''prompts'' c1;
          (resources_raw, c3) = sdk_attempt senv timeout capabilities ''resources'' c2
      in (store_capabilities env server tools_raw prompts_raw resources_raw (sc_schema_issues c3) st, c3))"

definition discover_stdio ::
  "'s discovery_env \<Rightarrow> rat \<Rightarrow> registered_server \<Rightarrow> 's discovery_state \<Rightarrow> 's discovered" where
  "discover_stdio env timeout server st =
     (case dv_stdio env of
        None \<Rightarrow> (Some (DE_raised (RuntimeError (''server '' @ repr_str (srv_id server)
                   @ '' is a stdio server but this hub has no stdio pool; stdio.enabled is probably false''))), st)
      | Some session \<Rightarrow>
          (let st1 = forget_pacing (srv_id server) st
           in case session server of
                Inl e \<Rightarrow> (Some (DE_sdk e), st1)
              | Inr capabilities \<Rightarrow>
                  fst (list_and_store env (dv_sdk env (srv_url server)) timeout capabilities
                         (fst (record_protocol_metadata server (Some PROTOCOL_VERSION) (Some MT_stdio)))
                         (wrapping (srv_url server) capabilities (ds_tokens st1) (ds_obo st1) []) st1)))"

definition close_after ::
  "sdk_env \<Rightarrow> 's discovered \<times> mcp_client \<Rightarrow> 's discovered" where
  "close_after senv r =
     (case r of ((err, st), c) \<Rightarrow>
        (case close_transport senv c of
           (Inl e, c') \<Rightarrow> (Some (DE_sdk e), st)
         | (Inr _, c') \<Rightarrow> (err, st)))"

definition discover_handshake ::
  "'s discovery_env \<Rightarrow> rat \<Rightarrow> registered_server \<Rightarrow> 's discovery_state \<Rightarrow> 's discovered" where
  "discover_handshake env timeout server st =
     (let st1 = forget_pacing (srv_id server) st;
          senv = dv_sdk env (srv_url server);
          back = (\<lambda>c. st1\<lparr>ds_tokens := sc_tokens c, ds_obo := sc_obo c\<rparr>);
          own = (\<lambda>c. case sc_server c of Some s \<Rightarrow> s | None \<Rightarrow> server)
      in case open_transport senv (new_client (srv_url server) (Some server) (ds_tokens st1) (ds_obo st1) []) of
           (Inl e, c) \<Rightarrow> (Some (DE_client e), back c)
         | (Inr _, c) \<Rightarrow>
             close_after senv
               (case handshake senv timeout c of
                  (Inl e, c1) \<Rightarrow> ((Some (DE_client e), back c1), c1)
                | (Inr r, c1) \<Rightarrow>
                    list_and_store env senv timeout (ir_capabilities r)
                      (fst (record_protocol_metadata (own c1) (Some (ir_protocol_version r)) (Some (ir_transport r))))
                      c1 (back c1)))"

section \<open>OpenAPI servers\<close>

definition served_tools :: "tools_result \<Rightarrow> json list" where
  "served_tools r = (case r of Inl problems \<Rightarrow> [] | Inr ts \<Rightarrow> map (\<lambda>t. JObj (tool_def_to_mcp (tl_definition t))) ts)"

definition with_openapi_tools :: "timestamp \<Rightarrow> tools_result \<Rightarrow> registered_server \<Rightarrow> registered_server" where
  "with_openapi_tools now r server =
     server\<lparr>srv_tools := Some (served_tools r), srv_prompts := Some [], srv_resources := Some [],
            srv_schema_conformant := Some True, srv_schema_issues := [],
            srv_last_capability_sync := Some now, srv_mcp_transport := MT_openapi\<rparr>"

definition discover_openapi ::
  "'s discovery_env \<Rightarrow> registered_server \<Rightarrow> 's discovery_state \<Rightarrow> 's discovered option" where
  "discover_openapi env server st =
     (let st1 = forget_pacing (srv_id server) st
      in case reg_get (dv_ops env) (ds_registry st1) (srv_id server) of
           None \<Rightarrow> Some (None, st1)
         | Some current \<Rightarrow>
             (case openapi_tools (dv_map env) current (dv_description_limit env) None of
                None \<Rightarrow> None
              | Some (Inl e) \<Rightarrow> Some (Some (DE_raised e), st1)
              | Some (Inr r) \<Rightarrow> Some (store_server env (with_openapi_tools (dv_now env) r current) st1)))"

section \<open>\<open>discover_immediately\<close> and the poll\<close>

definition discover_immediately ::
  "'s discovery_env \<Rightarrow> rat \<Rightarrow> registered_server \<Rightarrow> 's discovery_state \<Rightarrow> 's discovered option" where
  "discover_immediately env timeout server st =
     (if is_stdio server then Some (discover_stdio env timeout server st)
      else if is_openapi server then discover_openapi env server st
      else if strip (srv_mcp_protocol_version server) \<in> {[], STATELESS_PROTOCOL_VERSION}
      then (case discover_stateless env server st of
              (Stateless_done err, server', st') \<Rightarrow> Some (err, st')
            | (Not_stateless, server', st') \<Rightarrow> Some (discover_handshake env timeout server' st'))
      else Some (discover_handshake env timeout server st))"

definition due :: "rat \<Rightarrow> 's discovery_state \<Rightarrow> registered_server \<Rightarrow> bool" where
  "due now st server \<longleftrightarrow> (case map_of (ds_not_before st) (srv_id server) of None \<Rightarrow> 0 | Some t \<Rightarrow> t) \<le> now"

text \<open>One server of a poll: what a failed discovery raises is logged, and what \<open>needs_user_identity\<close> raises ends the poll
  once the others are done.\<close>

definition discover_server ::
  "'s discovery_env \<Rightarrow> registered_server \<Rightarrow> py_exc option \<times> 's discovery_state
     \<Rightarrow> (py_exc option \<times> 's discovery_state) option" where
  "discover_server env server acc =
     (case acc of (failed, st) \<Rightarrow>
        (case needs_user_identity server of
           Inl e \<Rightarrow> Some (if failed = None then Some e else failed, st)
         | Inr needs \<Rightarrow>
             if needs \<and> \<not> is_openapi server then Some (failed, st)
             else (case discover_immediately env DISCOVERY_TIMEOUT server st of
                     None \<Rightarrow> None
                   | Some (err, st') \<Rightarrow> Some (failed, st'))))"

fun discover_servers ::
  "'s discovery_env \<Rightarrow> registered_server list \<Rightarrow> py_exc option \<times> 's discovery_state
     \<Rightarrow> (py_exc option \<times> 's discovery_state) option" where
  "discover_servers env [] acc = Some acc"
| "discover_servers env (server # servers) acc =
     (case discover_server env server acc of None \<Rightarrow> None | Some acc' \<Rightarrow> discover_servers env servers acc')"

definition poll_once :: "'s discovery_env \<Rightarrow> 's discovery_state \<Rightarrow> (py_exc option \<times> 's discovery_state) option" where
  "poll_once env st =
     (let servers = reg_list (dv_ops env) (ds_registry st);
          st1 = st\<lparr>ds_not_before := filter (\<lambda>(k, t). k \<in> set (map srv_id servers)) (ds_not_before st)\<rparr>
      in discover_servers env (filter (due (dv_clock env) st1) servers) (None, st1))"


section \<open>What discovery reports\<close>

text \<open>A list that had to be repaired is reported: the server is not conformant, and every issue is shown.\<close>

lemma with_conformance_reported:
  "with_conformance fr tools issues server = Inr s \<Longrightarrow> issues \<noteq> [] \<Longrightarrow>
     srv_schema_conformant s = Some False \<and> set issues \<subseteq> set (srv_schema_issues s)"
  by (auto simp: with_conformance_def split: option.splits sum.splits)

text \<open>A server that promised freshness is not polled before it ends.\<close>

lemma paced_not_due:
  assumes "List.map_filter extract_ttl_ms raws = t # ts"
  shows "due now (pace clock (srv_id server) raws st) server \<longleftrightarrow> clock + foldl min t ts / 1000 \<le> now"
  using assms by (simp add: due_def pace_def map_of_update)

section \<open>Discovery leaves health alone\<close>

definition health_view ::
  "registered_server \<Rightarrow> bool \<times> timestamp option \<times> int \<times> rat \<times> timestamp option \<times> bool \<times> bool option" where
  "health_view s =
     (srv_healthy s, srv_healthy_since s, srv_consecutive_fails s, srv_uptime_seconds s, srv_last_checked s,
      srv_rate_limited s, srv_supports_health_endpoint s)"

lemma health_view_keep [simp]: "health_view (keep_health current server) = health_view current"
  by (simp add: health_view_def keep_health_def)

lemma keep_health_id [simp]: "srv_id (keep_health current server) = srv_id server"
  by (simp add: keep_health_def)

lemma health_view_registered [simp]: "health_view (registered_as now ts e s) = health_view s"
  by (simp add: health_view_def registered_as_def stamp_server_def keep_capabilities_def inherit_created_at_def
      split: option.split)

lemma health_view_openapi [simp]: "health_view (with_openapi_tools now r s) = health_view s"
  by (simp add: health_view_def with_openapi_tools_def)

lemma with_openapi_tools_id [simp]: "srv_id (with_openapi_tools now r s) = srv_id s"
  by (simp add: with_openapi_tools_def)

section \<open>Discovery leaves documents alone\<close>

text \<open>What kind of server it is and the documents it serves.\<close>

definition doc_view where
  "doc_view s = (srv_transport_kind s, srv_openapi_snapshot s, srv_openapi_pending s)"

lemma auth_failure_docs [simp]:
  "doc_view (as_server (fst (obo_failure d n st))) = doc_view (as_server st)"
  "doc_view (as_server (fst (ema_failure d n st))) = doc_view (as_server st)"
  by (simp_all add: obo_failure_def ema_failure_def doc_view_def)

lemma cached_fetch_keeps_server [simp]: "as_server (fst (cached_fetch env key se fetch st)) = as_server st"
  using cached_fetch_frame by (metis prod.collapse)

lemma obo_exchange_docs [simp]: "doc_view (as_server (fst (obo_exchange env p url a st))) = doc_view (as_server st)"
proof -
  obtain st' r where c: "cached_fetch env (obo_cache_key_for (as_server st) p) (pr_expires_at p)
      (exchange_token (ae_float_text env) (ae_post env) (obo_exchange_request (as_server st) p url a)) st = (st', r)"
    by fastforce
  from cached_fetch_frame[OF c] have "as_server st' = as_server st" by blast
  then show ?thesis
    using c by (cases r) (simp_all add: obo_exchange_def Let_def, simp add: set_header_def doc_view_def)
qed

lemma apply_obo_docs: "doc_view (as_server (fst (apply_obo_auth env p st))) = doc_view (as_server st)"
proof -
  have upd: "as_server (st\<lparr>as_tokens := t, as_sent := s\<rparr>) = as_server st" for t s by simp
  show ?thesis
    by (simp add: apply_obo_auth_def Let_def upd split: sum.split prod.split)
qed

lemma apply_ema_docs: "doc_view (as_server (fst (apply_ema_auth env p st))) = doc_view (as_server st)"
proof -
  have ok: "doc_view (as_server (fst (case cached_fetch env key se fetch st of
          (st', Inl e) \<Rightarrow> ema_failure (id_jag_summary e) False st'
        | (st', Inr t) \<Rightarrow> ((set_header ''Authorization'' (bearer t) st')
             \<lparr>as_server := (as_server st')\<lparr>srv_ema_status := TS_ok, srv_ema_error := []\<rparr>\<rparr>, None)))) = doc_view (as_server st)"
    for key se fetch
  proof -
    obtain st' r where c: "cached_fetch env key se fetch st = (st', r)" by fastforce
    from cached_fetch_frame[OF c] have "as_server st' = as_server st" by blast
    then show ?thesis using c by (cases r) (simp_all, simp add: set_header_def doc_view_def)
  qed
  show ?thesis
    by (simp add: apply_ema_auth_def Let_def ok split: sum.split)
qed

lemma own_credentials_docs:
  "doc_view (as_server (fst (apply_api_key st))) = doc_view (as_server st)"
  "doc_view (as_server (apply_bearer st)) = doc_view (as_server st)"
  "doc_view (as_server (apply_basic env u w st)) = doc_view (as_server st)"
  "doc_view (as_server (apply_oauth env st)) = doc_view (as_server st)"
  by (simp_all add: apply_api_key_def apply_bearer_def apply_basic_def apply_oauth_def auth_update_defs doc_view_def Let_def
      split: option.split prod.split sum.split)

lemma apply_server_auth_docs: "doc_view (as_server (fst (apply_server_auth env c st))) = doc_view (as_server st)"
  by (simp add: apply_server_auth_def Let_def apply_obo_docs apply_ema_docs own_credentials_docs
      split: caller_identity.split)

lemma collect_pages_keeps:
  assumes "\<And>c s. m (snd (fetch c s)) = m s"
  shows "m (snd (collect_pages fetch merge nxt s)) = m s"
proof -
  have loop: "m (snd (pages_loop fetch merge nxt n cursor acc s)) = m s" for n cursor acc s
  proof (induction n arbitrary: cursor acc s)
    case (Suc n)
    obtain r s' where f: "fetch (Some cursor) s = (r, s')" by fastforce
    with assms[of "Some cursor" s] have "m s' = m s" by simp
    then show ?case using Suc.IH f by (auto split: sum.split option.split)
  qed simp
  obtain r s' where f: "fetch None s = (r, s')" by fastforce
  with assms[of None s] have "m s' = m s" by simp
  then show ?thesis using loop f by (auto simp: collect_pages_def Let_def split: sum.split option.split)
qed

text \<open>No client changes the documents of the record it carries.\<close>

definition client_docs where "client_docs c = map_option doc_view (sl_server c)"

lemma stateless_post_docs: "client_docs (snd (stateless_post env meth params kind c)) = client_docs c"
proof (cases "sl_server c")
  case None
  then show ?thesis by (simp add: stateless_post_def Let_def client_docs_def)
next
  case (Some s)
  let ?a = "\<lparr>as_headers = stateless_headers meth, as_params = None, as_server = s,
     as_tokens = sl_tokens c, as_obo = sl_obo c, as_sent = []\<rparr>"
  obtain a e where a: "apply_server_auth (se_auth env) (se_caller env) ?a = (a, e)" by fastforce
  with apply_server_auth_docs[of "se_auth env" "se_caller env" ?a] have "doc_view (as_server a) = doc_view s" by simp
  then show ?thesis
    using Some a by (simp add: stateless_post_def Let_def client_docs_def split: option.split)
qed

lemma stateless_docs:
  "client_docs (snd (stateless_discover env c)) = client_docs c"
  "client_docs (snd (stateless_list env meth c)) = client_docs c"
  "client_docs (snd (stateless_attempt env meth c)) = client_docs c"
proof -
  show "client_docs (snd (stateless_discover env c)) = client_docs c"
    using stateless_post_docs by (simp add: stateless_discover_def case_prod_beta)
  show list: "client_docs (snd (stateless_list env meth c)) = client_docs c"
    unfolding stateless_list_def Let_def case_prod_beta snd_conv
    by (rule collect_pages_keeps) (rule stateless_post_docs)
  show "client_docs (snd (stateless_attempt env meth c)) = client_docs c"
    using list by (simp add: stateless_attempt_def case_prod_beta)
qed

lemma sdk_docs:
  "map_option doc_view (sc_server (snd (open_transport env c))) = map_option doc_view (sc_server c)"
  "sc_server (snd (initialize_session env seconds c)) = sc_server c"
  "map_option doc_view (sc_server (snd (handshake env seconds c))) = map_option doc_view (sc_server c)"
proof -
  show opened: "map_option doc_view (sc_server (snd (open_transport env c))) = map_option doc_view (sc_server c)" for c
  proof (cases "sc_server c")
    case None
    then show ?thesis by (simp add: open_transport_def Let_def called_def split: option.split)
  next
    case (Some s)
    let ?a = "\<lparr>as_headers = [], as_params = None, as_server = s, as_tokens = sc_tokens c, as_obo = sc_obo c, as_sent = []\<rparr>"
    obtain a e where a: "apply_server_auth (sk_auth env) (sk_caller env) ?a = (a, e)" by fastforce
    with apply_server_auth_docs[of "sk_auth env" "sk_caller env" ?a] have "doc_view (as_server a) = doc_view s" by simp
    then show ?thesis
      using Some a by (simp add: open_transport_def Let_def called_def split: option.split)
  qed
  show init: "sc_server (snd (initialize_session env seconds c)) = sc_server c" for c
    by (simp add: initialize_session_def Let_def called_def split: sum.split option.split)
  show "map_option doc_view (sc_server (snd (handshake env seconds c))) = map_option doc_view (sc_server c)"
  proof (cases "sc_session c")
    case True
    then show ?thesis by (simp add: handshake_def init)
  next
    case False
    obtain r c1 where "open_transport env c = (r, c1)" by fastforce
    with opened[of c] show ?thesis using False by (cases r) (simp_all add: handshake_def init)
  qed
qed

lemma discovery_docs [simp]:
  "doc_view (fst (record_protocol_metadata s pv tr)) = doc_view s"
  "doc_view (keep_health current s) = doc_view s"
  "doc_view (with_openapi_tools now r s) = doc_view s"
  "doc_view (registered_as now ts e s) = doc_view s"
  "doc_view (s\<lparr>srv_tools := t, srv_prompts := p, srv_resources := rs, srv_last_capability_sync := ls\<rparr>) = doc_view s"
  by (simp_all add: doc_view_def record_protocol_metadata_def keep_health_def with_openapi_tools_def registered_as_def
      stamp_server_def keep_capabilities_def inherit_created_at_def Let_def split: option.split prod.split if_splits)

lemma with_conformance_docs: "with_conformance fr tools issues s = Inr s' \<Longrightarrow> doc_view s' = doc_view s"
  by (auto simp: with_conformance_def doc_view_def split: option.splits sum.splits)

context server_registry
begin

text \<open>The registry holds the same servers with the same health, and each has the documents it had or those of \<open>V\<close>.\<close>

definition health_kept where
  "health_kept V s s' \<longleftrightarrow>
     inv s' \<and> (\<forall>k. map_option health_view (reg_get ops s' k) = map_option health_view (reg_get ops s k) \<and>
       (map_option doc_view (reg_get ops s' k) = map_option doc_view (reg_get ops s k) \<or>
        map_option doc_view (reg_get ops s' k) \<in> Some ` V))"

lemma health_kept_refl: "inv s \<Longrightarrow> health_kept V s s"
  by (simp add: health_kept_def)

lemma health_kept_trans: "health_kept V s s' \<Longrightarrow> health_kept V s' s'' \<Longrightarrow> health_kept V s s''"
  unfolding health_kept_def by metis

lemma health_kept_inv: "health_kept V s s' \<Longrightarrow> inv s'"
  by (simp add: health_kept_def)

lemma store_server_kept:
  assumes "dv_ops env = ops" "inv (ds_registry st)" "store_server env server st = (e, st')"
    and "map_option health_view (reg_get ops (ds_registry st) (srv_id server)) = Some (health_view server)"
    and "doc_view server \<in> V \<or> map_option doc_view (reg_get ops (ds_registry st) (srv_id server)) = Some (doc_view server)"
  shows "health_kept V (ds_registry st) (ds_registry st')"
proof -
  obtain r s' where reg: "reg_register ops (dv_io env) (dv_now env) (dv_stamps env) server (ds_registry st) = (r, s')"
    by fastforce
  then have st': "ds_registry st' = s'" using assms(1,3) by (auto simp: store_server_def)
  have get: "reg_get ops s' k = (if k = srv_id server
      then Some (registered_as (dv_now env) (dv_stamps env) (reg_get ops (ds_registry st) k) server)
      else reg_get ops (ds_registry st) k)" for k
    by (rule register_get[OF assms(2) reg])
  show ?thesis
    unfolding st' health_kept_def
    using register_abs(1)[OF assms(2) reg] assms(4,5) by (auto simp: get)
qed

lemma save_preserving_health_kept:
  assumes "dv_ops env = ops" "inv (ds_registry st)" "save_preserving_health env server st = (e, st')" "doc_view server \<in> V"
  shows "health_kept V (ds_registry st) (ds_registry st')"
proof (cases "reg_get ops (ds_registry st) (srv_id server)")
  case None
  then show ?thesis using assms by (simp add: save_preserving_health_def health_kept_refl)
next
  case (Some current)
  then show ?thesis
    using assms store_server_kept[OF assms(1,2), of "keep_health current server"]
    by (simp add: save_preserving_health_def)
qed

lemma store_capabilities_kept:
  assumes "dv_ops env = ops" "inv (ds_registry st)" "doc_view server \<in> V"
  shows "health_kept V (ds_registry st) (ds_registry (snd (store_capabilities env server t p r issues st)))"
proof -
  have "health_kept V (ds_registry st) (ds_registry (snd (save_preserving_health env server' st)))"
    if "doc_view server' = doc_view server" for server'
    using save_preserving_health_kept[OF assms(1,2), of server' _ _ V] assms(3) that by (metis prod.collapse)
  then have "health_kept V (ds_registry st) (ds_registry st')"
    if "with_conformance (dv_float_text env) tools issues server = Inr checked"
      "save_preserving_health env (checked\<lparr>srv_tools := t, srv_prompts := p, srv_resources := rs,
         srv_last_capability_sync := ls\<rparr>) st = (e, st')" for tools checked t p rs ls e st'
    using with_conformance_docs[OF that(1)] that(2) by (metis discovery_docs(5) snd_conv)
  then show ?thesis
    using health_kept_refl[OF assms(2)]
    by (auto simp: store_capabilities_def Let_def split: sum.split prod.split option.split)
qed

lemma discover_stateless_kept:
  assumes "dv_ops env = ops" "inv (ds_registry st)" "discover_stateless env server st = (out, server', st')"
    and "doc_view server \<in> V"
  shows "health_kept V (ds_registry st) (ds_registry st')" and "doc_view server' = doc_view server"
proof -
  let ?senv = "dv_stateless env (srv_url server)"
  let ?own = "\<lambda>c. case sl_server c of Some s \<Rightarrow> s | None \<Rightarrow> server"
  have own: "doc_view (?own c) = doc_view server" if "client_docs c = Some (doc_view server)" for c
    using that by (auto simp: client_docs_def)
  obtain r c1 where d: "stateless_discover ?senv \<lparr>sl_counter = 0, sl_server = Some server, sl_tokens = ds_tokens st,
      sl_obo = ds_obo st, sl_posts = []\<rparr> = (r, c1)" by fastforce
  have c1: "client_docs c1 = Some (doc_view server)"
    using stateless_docs(1)[of ?senv "\<lparr>sl_counter = 0, sl_server = Some server, sl_tokens = ds_tokens st,
      sl_obo = ds_obo st, sl_posts = []\<rparr>"] d by (simp add: client_docs_def)
  have both: "health_kept V (ds_registry st) (ds_registry st') \<and> doc_view server' = doc_view server"
  proof (cases r)
    case (Inl e)
    then show ?thesis
      using assms(3) d own[OF c1] health_kept_refl[OF assms(2)]
      by (auto simp: discover_stateless_def Let_def split: client_failure.splits)
  next
    case (Inr dr)
    define c2 where "c2 = c1\<lparr>sl_server := Some (fst (record_protocol_metadata (?own c1)
                              (Some (dr_protocol_version dr)) (Some MT_sse)))\<rparr>"
    obtain t c3 where c3: "stateless_attempt ?senv ''tools/list'' c2 = (t, c3)" by fastforce
    obtain p c4 where c4: "stateless_attempt ?senv ''prompts/list'' c3 = (p, c4)" by fastforce
    obtain rs c5 where c5: "stateless_attempt ?senv ''resources/list'' c4 = (rs, c5)" by fastforce
    have "client_docs c2 = Some (doc_view server)" using own[OF c1] by (simp add: c2_def client_docs_def)
    then have c5d: "client_docs c5 = Some (doc_view server)"
      using stateless_docs(3) c3 c4 c5 by (metis snd_conv)
    let ?st1 = "pace (dv_clock env) (srv_id server) [t, p, rs] (st\<lparr>ds_tokens := sl_tokens c5, ds_obo := sl_obo c5\<rparr>)"
    have same: "ds_registry ?st1 = ds_registry st"
      by (simp add: pace_def forget_pacing_def split: list.split)
    have run: "server' = ?own c5" "st' = snd (store_capabilities env (?own c5) t p rs [] ?st1)"
      using assms(3) d c3 c4 c5 unfolding discover_stateless_def Let_def Inr c2_def[symmetric]
      by (auto simp: c2_def case_prod_beta)
    have "health_kept V (ds_registry ?st1) (ds_registry (snd (store_capabilities env (?own c5) t p rs [] ?st1)))"
      by (rule store_capabilities_kept[OF assms(1)]) (use assms(2,4) same own[OF c5d] in simp_all)
    then show ?thesis using run own[OF c5d] same by simp
  qed
  then show "health_kept V (ds_registry st) (ds_registry st')" "doc_view server' = doc_view server" by blast+
qed

lemma list_and_store_kept:
  assumes "dv_ops env = ops" "inv (ds_registry st)" "doc_view server \<in> V"
  shows "health_kept V (ds_registry st) (ds_registry (snd (fst (list_and_store env senv timeout caps server c st))))"
  using store_capabilities_kept[OF assms] by (simp add: list_and_store_def Let_def case_prod_beta)

lemma discover_stdio_kept:
  assumes "dv_ops env = ops" "inv (ds_registry st)" "discover_stdio env timeout server st = (e, st')" "doc_view server \<in> V"
  shows "health_kept V (ds_registry st) (ds_registry st')"
proof -
  let ?st1 = "forget_pacing (srv_id server) st"
  have same: "ds_registry ?st1 = ds_registry st" by (simp add: forget_pacing_def)
  have "health_kept V (ds_registry st) (ds_registry (snd (fst (list_and_store env senv timeout caps sv c ?st1))))"
    if "doc_view sv = doc_view server" for senv caps sv c
    using list_and_store_kept[OF assms(1), of ?st1 sv V] assms(2,4) same that by simp
  then show ?thesis
    using assms(3) health_kept_refl[OF assms(2)] same
    by (auto simp: discover_stdio_def Let_def split: option.splits sum.splits) (metis discovery_docs(1) snd_conv)
qed

lemma discover_handshake_kept:
  assumes "dv_ops env = ops" "inv (ds_registry st)" "discover_handshake env timeout server st = (e, st')"
    and "doc_view server \<in> V"
  shows "health_kept V (ds_registry st) (ds_registry st')"
proof -
  let ?senv = "dv_sdk env (srv_url server)"
  let ?st1 = "forget_pacing (srv_id server) st"
  let ?c0 = "new_client (srv_url server) (Some server) (ds_tokens ?st1) (ds_obo ?st1) []"
  have close: "snd (close_after senv r) = snd (fst r)" for senv and r :: "'s discovered \<times> mcp_client"
    by (cases r) (auto simp: close_after_def split: prod.splits sum.splits)
  have listed: "health_kept V (ds_registry st) (ds_registry (snd (fst (list_and_store env senv timeout caps sv c st1))))"
    if "ds_registry st1 = ds_registry st" "doc_view sv = doc_view server" for senv caps sv c st1
    using list_and_store_kept[OF assms(1), of st1 sv V] assms(2,4) that by simp
  obtain r c where opened: "open_transport ?senv ?c0 = (r, c)" by fastforce
  obtain r' c1 where shaken: "handshake ?senv timeout c = (r', c1)" by fastforce
  have "map_option doc_view (sc_server c) = Some (doc_view server)"
    using sdk_docs(1)[of ?senv ?c0] opened by (simp add: new_client_def)
  then have "map_option doc_view (sc_server c1) = Some (doc_view server)"
    using sdk_docs(3)[of ?senv timeout c] shaken by simp
  then have own: "doc_view (case sc_server c1 of Some s \<Rightarrow> s | None \<Rightarrow> server) = doc_view server"
    by (auto split: option.split)
  have "health_kept V (ds_registry st) (ds_registry (snd (discover_handshake env timeout server st)))"
    using health_kept_refl[OF assms(2)] opened shaken own
    by (simp add: discover_handshake_def Let_def close listed forget_pacing_def split: sum.split)
  then show ?thesis using assms(3) by simp
qed

lemma discover_openapi_kept:
  assumes "dv_ops env = ops" "inv (ds_registry st)" "discover_openapi env server st = Some (e, st')"
  shows "health_kept V (ds_registry st) (ds_registry st')"
proof (cases "reg_get ops (ds_registry st) (srv_id server)")
  case None
  then show ?thesis
    using assms(3) health_kept_refl[OF assms(2)] unfolding discover_openapi_def assms(1)
    by (auto simp: forget_pacing_def Let_def)
next
  case (Some current)
  have "srv_id current = srv_id server"
    using Some assms(2) abs_key by (auto simp: reg_get_def get_abs)
  then have "health_kept V (ds_registry st) (ds_registry st'')"
    if "store_server env (with_openapi_tools now r current) (forget_pacing i st) = (e', st'')" for now r i e' st''
    using store_server_kept[OF assms(1) _ that] assms(2) Some by (simp add: forget_pacing_def)
  then show ?thesis
    using assms(3) Some health_kept_refl[OF assms(2)] unfolding discover_openapi_def assms(1)
    by (auto simp: Let_def forget_pacing_def split: option.splits sum.splits)
qed

lemma discover_immediately_kept:
  assumes "dv_ops env = ops" "inv (ds_registry st)" "discover_immediately env timeout server st = Some (e, st')"
    and "doc_view server \<in> V"
  shows "health_kept V (ds_registry st) (ds_registry st')"
proof -
  have probed: "health_kept V (ds_registry st) (ds_registry st')"
    if "discover_stateless env server st = (Not_stateless, server', st1)" "discover_handshake env timeout server' st1 = (e, st')"
    for server' st1
  proof -
    note d = discover_stateless_kept[OF assms(1,2) that(1) assms(4)]
    have "health_kept V (ds_registry st1) (ds_registry st')"
      by (rule discover_handshake_kept[OF assms(1) health_kept_inv[OF d(1)] that(2)]) (simp add: d(2) assms(4))
    with d(1) show ?thesis by (rule health_kept_trans)
  qed
  show ?thesis
    using assms(3) probed discover_stdio_kept[OF assms(1,2) _ assms(4)] discover_openapi_kept[OF assms(1,2)]
      discover_stateless_kept(1)[OF assms(1,2) _ assms(4)] discover_handshake_kept[OF assms(1,2) _ assms(4)]
    unfolding discover_immediately_def
    by (simp split: if_splits prod.splits stateless_outcome.splits; blast)
qed

lemma discover_servers_kept:
  assumes "dv_ops env = ops" "inv (ds_registry st)" "discover_servers env servers (failed, st) = Some (failed', st')"
    and "doc_view ` set servers \<subseteq> V"
  shows "health_kept V (ds_registry st) (ds_registry st')"
  using assms(2-4)
proof (induction servers arbitrary: failed st)
  case Nil
  then show ?case by (simp add: health_kept_refl)
next
  case (Cons server servers)
  then obtain f1 st1 where one: "discover_server env server (failed, st) = Some (f1, st1)"
    and rest: "discover_servers env servers (f1, st1) = Some (failed', st')"
    by (auto split: option.splits)
  have "doc_view server \<in> V" using Cons.prems(3) by simp
  then have "health_kept V (ds_registry st) (ds_registry st1)"
    using one Cons.prems(1) discover_immediately_kept[OF assms(1) Cons.prems(1)] health_kept_refl[OF Cons.prems(1)]
    by (auto simp: discover_server_def split: sum.splits if_splits option.splits)
  with Cons.IH[OF _ rest] Cons.prems(3) health_kept_inv health_kept_trans show ?case by (metis image_insert insert_subset list.simps(15))
qed

lemma poll_once_kept:
  assumes "dv_ops env = ops" "inv (ds_registry st)" "poll_once env st = Some (failed, st')"
  shows "health_kept (doc_view ` set (reg_list ops (ds_registry st))) (ds_registry st) (ds_registry st')"
proof -
  let ?servers = "reg_list ops (ds_registry st)"
  let ?st1 = "st\<lparr>ds_not_before := filter (\<lambda>(k, t). k \<in> set (map srv_id ?servers)) (ds_not_before st)\<rparr>"
  have run: "discover_servers env (filter (due (dv_clock env) ?st1) ?servers) (None, ?st1) = Some (failed, st')"
    using assms(3) unfolding poll_once_def assms(1) Let_def .
  have "health_kept (doc_view ` set ?servers) (ds_registry ?st1) (ds_registry st')"
    by (rule discover_servers_kept[OF assms(1) _ run]) (use assms(2) in auto)
  then show ?thesis by simp
qed

end

end
