(* ===== verification/Json_Text.thy ===== *)
theory Json_Text
  imports Py_Object
begin

text \<open>
  What \<open>json.loads\<close> hands to its hooks. The parser itself is an argument of the theories that parse; its result is the
  tree of the values in the order of the text, with the numbers that are not integers as text and
  a failure of type \<open>'e\<close> at the place where the parser gives up.
\<close>

datatype 'e raw_json =
    Raw_null
  | Raw_bool bool
  | Raw_int int
  | Raw_float string
  | Raw_constant string
  | Raw_str string
  | Raw_list "'e raw_json list"
  | Raw_obj "(string \<times> 'e raw_json) list"
  | Raw_error 'e

text \<open>The first key of the pairs that was there before.\<close>

fun repeated_key :: "string list \<Rightarrow> (string \<times> 'a) list \<Rightarrow> string option" where
  "repeated_key seen [] = None"
| "repeated_key seen ((k, v) # ps) = (if k \<in> set seen then Some k else repeated_key (k # seen) ps)"

lemma repeated_key_None:
  "repeated_key seen ps = None \<longleftrightarrow> distinct (map fst ps) \<and> set seen \<inter> fst ` set ps = {}"
  by (induction seen ps rule: repeated_key.induct) auto

lemma not_repeated: "map fst qs = map fst ps \<Longrightarrow> distinct (map fst ps) \<Longrightarrow> repeated_key [] qs = Some k \<Longrightarrow> False"
  using repeated_key_None[of "[]" qs] by simp

end
