(* ===== verification/Spec_Parse.thy ===== *)
theory Spec_Parse
  imports Json_Text
begin

text \<open>
  \<^verbatim>\<open>openapi/errors.py\<close> and \<^verbatim>\<open>openapi/parse.py\<close>: bytes to a plain JSON document whose size is bounded.

  A parsed document is a heap of containers, because YAML aliases share objects: a value is a scalar or
  the number of its container. The JSON parser (up to its hooks) and \<open>yaml.load\<close> are arguments. \<open>_flat_pairs\<close>, which the YAML
  loader calls, runs over a heap of YAML nodes. A \<open>SpecError\<close> is the constructor of that name of \<open>ref_error\<close>,
  with its message already capped; any other exception is a \<open>RefRaised\<close>.
\<close>

section \<open>Errors\<close>

definition MAX_MESSAGE_CHARS :: nat where "MAX_MESSAGE_CHARS = 500"

definition capped_message :: "string \<Rightarrow> string \<Rightarrow> string" where
  "capped_message ellipsis message =
     (if length message > MAX_MESSAGE_CHARS then take (MAX_MESSAGE_CHARS - 1) message @ ellipsis else message)"

definition spec_error :: "string \<Rightarrow> string \<Rightarrow> string \<Rightarrow> ref_error" where
  "spec_error ellipsis message ptr = SpecError (capped_message ellipsis message) ptr"

definition spec_error_text :: "string \<Rightarrow> string \<Rightarrow> string" where
  "spec_error_text message ptr = (if ptr \<noteq> [] then message @ '' (at '' @ ptr @ '')'' else message)"

section \<open>Documents as objects\<close>

definition MAX_NODES :: nat where "MAX_NODES = 2000000"
definition MAX_DEPTH :: nat where "MAX_DEPTH = 128"

datatype pvalue =
    P_null
  | P_bool bool
  | P_int int
  | P_float rat
  | P_infinite string                  \<comment> \<open>\<open>inf\<close>, \<open>-inf\<close> or \<open>nan\<close>\<close>
  | P_str string
  | P_other string                     \<comment> \<open>any other object, with the name of its type\<close>
  | P_ref nat

datatype cell = Dict "(string \<times> pvalue) list" | Seq "pvalue list"

type_synonym heap = "cell list"

definition cell_at :: "heap \<Rightarrow> nat \<Rightarrow> cell" where
  "cell_at h i = (if i < length h then h ! i else Seq [])"

text \<open>\<open>value.items()\<close> or \<open>enumerate(value)\<close>, with the part each item adds to a pointer.\<close>

definition cell_items :: "cell \<Rightarrow> (string \<times> pvalue) list" where
  "cell_items c = (case c of Dict ps \<Rightarrow> ps | Seq xs \<Rightarrow> map (\<lambda>(i, x). (str_nat i, x)) (enumerate 0 xs))"

definition cell_values :: "cell \<Rightarrow> pvalue list" where
  "cell_values c = (case c of Dict ps \<Rightarrow> map snd ps | Seq xs \<Rightarrow> xs)"

definition cell_json :: "cell \<Rightarrow> json list \<Rightarrow> json" where
  "cell_json c js = (case c of Dict ps \<Rightarrow> JObj (zip (map fst ps) js) | Seq xs \<Rightarrow> JList js)"

text \<open>The tree that the heap describes, when it has at most \<open>n\<close> levels of containers and only JSON scalars.\<close>

fun expand :: "heap \<Rightarrow> nat \<Rightarrow> pvalue \<Rightarrow> json option" where
  "expand h n P_null = Some JNull"
| "expand h n (P_bool b) = Some (JBool b)"
| "expand h n (P_int i) = Some (JInt i)"
| "expand h n (P_float r) = Some (JFloat r)"
| "expand h n (P_str s) = Some (JStr s)"
| "expand h n (P_infinite t) = None"
| "expand h n (P_other t) = None"
| "expand h 0 (P_ref i) = None"
| "expand h (Suc n) (P_ref i) =
     map_option (cell_json (cell_at h i)) (those (map (expand h n) (cell_values (cell_at h i))))"

section \<open>\<open>_check_plain_json\<close>\<close>

definition check_scalar :: "string \<Rightarrow> pvalue \<Rightarrow> pointer \<Rightarrow> ref_error + unit" where
  "check_scalar ell v path =
     (case v of
        P_infinite t \<Rightarrow> Inl (spec_error ell (''Spec contains '' @ t @ '', which is not a JSON number'') (encode_pointer path))
      | P_other t \<Rightarrow> Inl (spec_error ell (''Spec contains a '' @ t @ '' value, which JSON cannot represent'')
                            (encode_pointer path))
      | _ \<Rightarrow> Inr ())"

definition too_deep :: "string \<Rightarrow> pointer \<Rightarrow> ref_error" where
  "too_deep ell path =
     spec_error ell (''Spec is nested too deeply (more than '' @ str_nat MAX_DEPTH @ '' levels)'') (encode_pointer path)"

definition too_many :: "string \<Rightarrow> pointer \<Rightarrow> ref_error" where
  "too_many ell path =
     spec_error ell (''Spec is too large once expanded: more than '' @ str_nat MAX_NODES
        @ '' values (each use of a YAML alias counts)'') (encode_pointer path)"

text \<open>Per container, the values of its expanded subtree and the height of that subtree.\<close>

type_synonym expanded = "(nat, nat \<times> int) dict"

fun measured :: "expanded \<Rightarrow> pvalue \<Rightarrow> (nat \<times> int) py" where
  "measured e (P_ref i) = (case map_of e i of Some m \<Rightarrow> Inr m | None \<Rightarrow> Inl (KeyError (str_nat i)))"
| "measured e v = Inr (1, - 1)"

fun add_sizes :: "expanded \<Rightarrow> pvalue list \<Rightarrow> nat \<Rightarrow> int \<Rightarrow> (nat \<times> int) py" where
  "add_sizes e [] sz height = Inr (sz, height)"
| "add_sizes e (v # vs) sz height =
     bind_py (measured e v) (\<lambda>(s, h). add_sizes e vs (sz + s) (max height (h + 1)))"

text \<open>The second visit of a container, when its children are done.\<close>

definition finish_cell ::
  "string \<Rightarrow> heap \<Rightarrow> nat \<Rightarrow> pointer \<Rightarrow> expanded \<Rightarrow> ref_error + expanded" where
  "finish_cell ell h i path e =
     (case add_sizes e (cell_values (cell_at h i)) 1 0 of
        Inl exc \<Rightarrow> Inl (RefRaised exc)
      | Inr (sz, height) \<Rightarrow>
          if sz > MAX_NODES then Inl (too_many ell path)
          else if int (length path) + height > int MAX_DEPTH then Inl (too_deep ell path)
          else Inr (AList.update i (sz, height) e))"

type_synonym visit = "pvalue \<times> pointer \<times> bool"

definition child_visits :: "heap \<Rightarrow> nat \<Rightarrow> pointer \<Rightarrow> visit list" where
  "child_visits h i path = map (\<lambda>(k, v). (v, path @ [k], False)) (cell_items (cell_at h i))"

text \<open>The measure of the loop: the size of the tree down to the depth that is still allowed.\<close>

fun tree_size :: "heap \<Rightarrow> nat \<Rightarrow> pvalue \<Rightarrow> nat" where
  "tree_size h (Suc n) (P_ref i) = Suc (sum_list (map (\<lambda>p. tree_size h n (snd p)) (cell_items (cell_at h i))))"
| "tree_size h n v = 1"

definition visit_weight :: "heap \<Rightarrow> visit \<Rightarrow> nat" where
  "visit_weight h w =
     (case w of (v, path, done_flag) \<Rightarrow> if done_flag then 1 else 2 * tree_size h (Suc MAX_DEPTH - length path) v)"

lemma tree_size_pos: "Suc 0 \<le> tree_size h n v"
  by (cases "(h, n, v)" rule: tree_size.cases) auto

lemma child_visits_weight:
  assumes "length path \<le> MAX_DEPTH"
  shows "sum_list (map (visit_weight h) (rev (child_visits h i path))) + 1 < visit_weight h (P_ref i, path, False)"
proof -
  let ?n = "MAX_DEPTH - length path"
  have n: "Suc MAX_DEPTH - length path = Suc ?n" using assms by simp
  have "sum_list (map (visit_weight h) (child_visits h i path))
      = 2 * sum_list (map (\<lambda>p. tree_size h ?n (snd p)) (cell_items (cell_at h i)))"
    by (simp add: child_visits_def visit_weight_def o_def case_prod_beta sum_list_const_mult)
  moreover have "visit_weight h (P_ref i, path, False) = 2 * tree_size h (Suc ?n) (P_ref i)"
    by (simp only: visit_weight_def n prod.case if_False)
  ultimately show ?thesis by (simp add: rev_map[symmetric] sum_list_rev)
qed

lemma visit_weight_pos: "0 < visit_weight h w"
  using tree_size_pos by (auto simp: visit_weight_def Suc_le_eq split: prod.split)

lemma visit_weight_done: "visit_weight h (v, path, True) = 1"
  by (simp add: visit_weight_def)

function check_loop :: "string \<Rightarrow> heap \<Rightarrow> visit list \<Rightarrow> expanded \<Rightarrow> ref_error + expanded" where
  "check_loop ell h [] e = Inr e"
| "check_loop ell h ((v, path, done_flag) # st) e =
     (case v of
        P_ref i \<Rightarrow>
          if map_of e i \<noteq> None then check_loop ell h st e
          else if length path > MAX_DEPTH then Inl (too_deep ell path)
          else if \<not> done_flag
          then check_loop ell h (rev (child_visits h i path) @ (P_ref i, path, True) # st) e
          else (case finish_cell ell h i path e of Inl err \<Rightarrow> Inl err | Inr e' \<Rightarrow> check_loop ell h st e')
      | _ \<Rightarrow> (case check_scalar ell v path of Inl err \<Rightarrow> Inl err | Inr _ \<Rightarrow> check_loop ell h st e))"
  by pat_completeness auto
termination check_loop
proof (relation "measure (\<lambda>(ell, h, st, e). sum_list (map (visit_weight h) st))")
  have push: "sum_list (map (visit_weight h) (rev (child_visits h i path) @ (P_ref i, path, True) # st))
      < sum_list (map (visit_weight h) ((P_ref i, path, False) # st))" if "length path \<le> MAX_DEPTH" for h i path st
    using child_visits_weight[OF that, of h i] by (simp add: visit_weight_done)
  show "((ell, h, rev (child_visits h i path) @ (P_ref i, path, True) # st, e), ell, h, (v, path, done_flag) # st, e)
      \<in> measure (\<lambda>(ell, h, st, e). sum_list (map (visit_weight h) st))"
    if "v = P_ref i" "\<not> map_of e i \<noteq> None" "\<not> length path > MAX_DEPTH" "\<not> done_flag" for ell h v path done_flag st e i
    using push[of path h i st] that by simp
qed (auto simp: visit_weight_pos)

definition check_plain_json :: "string \<Rightarrow> heap \<Rightarrow> nat \<Rightarrow> ref_error + unit" where
  "check_plain_json ell h i = map_sum id (\<lambda>e. ()) (check_loop ell h [(P_ref i, [], False)] [])"

section \<open>YAML mappings\<close>

text \<open>The nodes of the composed document, each with its tag; aliases are shared numbers. \<open>_flattening\<close> is the chain of
  calls in progress: an entry is added on the way in and discarded on the way out, and an exception ends the load.\<close>

definition MERGE_TAG :: string where "MERGE_TAG = ''tag:yaml.org,2002:merge''"

datatype ynode = Y_scalar string string | Y_seq string "nat list" | Y_map string "(nat \<times> nat) list"

definition node_of :: "ynode list \<Rightarrow> nat \<Rightarrow> ynode" where
  "node_of N i = (if i < length N then N ! i else Y_scalar [] [])"

fun node_tag :: "ynode \<Rightarrow> string" where
  "node_tag (Y_scalar t v) = t" | "node_tag (Y_seq t xs) = t" | "node_tag (Y_map t ps) = t"

text \<open>\<open>ConstructorError\<close>: the problem and the node whose mark it carries.\<close>

type_synonym yaml_problem = "string \<times> nat"

type_synonym flat = "(string, nat \<times> nat) dict"

record flat_state =
  fs_done :: "(nat, flat) dict"
  fs_keys :: nat

definition merge_sources :: "ynode list \<Rightarrow> nat \<Rightarrow> yaml_problem + nat list" where
  "merge_sources N v =
     (let sources = (case node_of N v of Y_seq t xs \<Rightarrow> xs | _ \<Rightarrow> [v])
      in case find (\<lambda>i. case node_of N i of Y_map t ps \<Rightarrow> False | _ \<Rightarrow> True) sources of
           Some i \<Rightarrow> Inl (''a merge key (<<) must name a mapping or a list of mappings'', i)
         | None \<Rightarrow> Inr sources)"

definition scalar_key :: "ynode list \<Rightarrow> nat \<Rightarrow> yaml_problem + string" where
  "scalar_key N k =
     (case node_of N k of
        Y_scalar t v \<Rightarrow> Inr v
      | _ \<Rightarrow> Inl (''mapping keys must be plain strings'', k))"

definition dict_update :: "('k, 'v) dict \<Rightarrow> ('k, 'v) dict \<Rightarrow> ('k, 'v) dict" where
  "dict_update d new = fold (\<lambda>(k, v). AList.update k v) new d"

definition store_flat :: "nat \<Rightarrow> flat \<Rightarrow> flat_state \<Rightarrow> yaml_problem + flat \<times> flat_state" where
  "store_flat i merged st =
     (let keys = fs_keys st + length merged
      in if keys > MAX_NODES
         then Inl (''merge keys (<<) expand to more than '' @ str_nat MAX_NODES @ '' keys'', i)
         else Inr (merged, st\<lparr>fs_keys := keys, fs_done := AList.update i merged (fs_done st)\<rparr>))"

function (sequential)
  flat_pairs :: "ynode list \<Rightarrow> nat list \<Rightarrow> nat \<Rightarrow> flat_state \<Rightarrow> yaml_problem + flat \<times> flat_state"
  and flat_entries :: "ynode list \<Rightarrow> nat list \<Rightarrow> (nat \<times> nat) list \<Rightarrow> flat \<Rightarrow> flat \<Rightarrow> flat_state
        \<Rightarrow> yaml_problem + (flat \<times> flat) \<times> flat_state"
  and flat_sources :: "ynode list \<Rightarrow> nat list \<Rightarrow> nat list \<Rightarrow> flat \<Rightarrow> flat_state \<Rightarrow> yaml_problem + flat \<times> flat_state"
where
  "flat_pairs N busy i st =
     (case map_of (fs_done st) i of
        Some p \<Rightarrow> Inr (p, st)
      | None \<Rightarrow>
          if i \<in> set busy then Inl (''a merge key (<<) merges a mapping into itself'', i)
          else if i < length N
          then (case flat_entries N (i # busy) (case N ! i of Y_map t ps \<Rightarrow> ps | _ \<Rightarrow> []) [] [] st of
                  Inl e \<Rightarrow> Inl e
                | Inr ((merged, own), st') \<Rightarrow> store_flat i (dict_update merged own) st')
          else Inl (''expected a mapping'', i))"
| "flat_entries N busy [] merged own st = Inr ((merged, own), st)"
| "flat_entries N busy ((k, v) # ps) merged own st =
     (if node_tag (node_of N k) = MERGE_TAG
      then (case merge_sources N v of
              Inl e \<Rightarrow> Inl e
            | Inr sources \<Rightarrow>
                (case flat_sources N busy (rev sources) merged st of
                   Inl e \<Rightarrow> Inl e
                 | Inr (merged', st') \<Rightarrow> flat_entries N busy ps merged' own st'))
      else (case scalar_key N k of
              Inl e \<Rightarrow> Inl e
            | Inr key \<Rightarrow>
                if map_of own key \<noteq> None then Inl (''duplicate key '' @ repr_str key, k)
                else flat_entries N busy ps merged (own @ [(key, k, v)]) st))"
| "flat_sources N busy [] merged st = Inr (merged, st)"
| "flat_sources N busy (s # ss) merged st =
     (case flat_pairs N busy s st of
        Inl e \<Rightarrow> Inl e
      | Inr (p, st') \<Rightarrow> flat_sources N busy ss (dict_update merged p) st')"
  by pat_completeness auto

abbreviation idle :: "ynode list \<Rightarrow> nat list \<Rightarrow> nat" where
  "idle N busy \<equiv> card ({..<length N} - set busy)"

lemma idle_decreases: "i < length N \<Longrightarrow> i \<notin> set busy \<Longrightarrow> idle N (i # busy) < idle N busy"
  by (intro psubset_card_mono) auto

termination flat_pairs
proof (relation "inv_image (less_than <*lex*> less_than <*lex*> less_than) (\<lambda>call. case call of
      Inl (N, busy, i, st) \<Rightarrow> (idle N busy, 0, 0)
    | Inr (Inl (N, busy, ps, merged, own, st)) \<Rightarrow> (idle N busy, 2, length ps)
    | Inr (Inr (N, busy, ss, merged, st)) \<Rightarrow> (idle N busy, 1, length ss))", goal_cases)
  case (2 N busy i st)
  then show ?case using idle_decreases[of i N busy] by auto
qed auto

declare flat_pairs.simps [simp del]

definition no_flat :: flat_state where "no_flat = \<lparr>fs_done = [], fs_keys = 0\<rparr>"

section \<open>\<open>parse_document\<close>\<close>

datatype json_failure = Json_syntax string nat nat | Json_number string | Json_recursion

datatype yaml_outcome =
    Yaml_value heap pvalue
  | Yaml_marked string string "(nat \<times> nat) option" "(nat \<times> nat) option"    \<comment> \<open>problem, context and their marks\<close>
  | Yaml_error string
  | Yaml_number string
  | Yaml_recursion

record parse_env =
  pe_ellipsis :: string
  pe_utf8 :: "string \<Rightarrow> nat + string"                \<comment> \<open>the text, or the byte at which decoding fails\<close>
  pe_json :: "string \<Rightarrow> json_failure raw_json"
  pe_float :: "string \<Rightarrow> string + rat"                \<comment> \<open>\<open>float(text)\<close>, or the text of an infinite value\<close>
  pe_yaml :: "string \<Rightarrow> yaml_outcome"

definition UTF8_BOM :: string where "UTF8_BOM = [CHR 0xEF, CHR 0xBB, CHR 0xBF]"

definition decode_spec :: "parse_env \<Rightarrow> string \<Rightarrow> ref_error + string" where
  "decode_spec P bytes =
     (case pe_utf8 P (if prefix UTF8_BOM bytes then drop (length UTF8_BOM) bytes else bytes) of
        Inr t \<Rightarrow> Inr t
      | Inl pos \<Rightarrow> Inl (spec_error (pe_ellipsis P) (''Spec is not valid UTF-8 (byte '' @ str_nat pos @ '')'') []))"

definition reject_duplicates :: "string \<Rightarrow> (string \<times> pvalue) list \<Rightarrow> heap \<Rightarrow> ref_error + pvalue \<times> heap" where
  "reject_duplicates ell pairs h =
     (case repeated_key [] pairs of
        Some k \<Rightarrow> Inl (spec_error ell (''Spec has a duplicate key '' @ repr_str k) [])
      | None \<Rightarrow> Inr (P_ref (length h), h @ [Dict pairs]))"

definition reject_constant :: "string \<Rightarrow> string \<Rightarrow> ref_error" where
  "reject_constant ell name = spec_error ell (''Spec contains '' @ name @ '', which is not a JSON number'') []"

definition nested_message :: string where
  "nested_message = ''Spec is nested too deeply (more than '' @ str_nat MAX_DEPTH @ '' levels)''"

fun json_failed :: "string \<Rightarrow> json_failure \<Rightarrow> ref_error" where
  "json_failed ell (Json_syntax msg line col) =
     spec_error ell (''Spec is not valid JSON: '' @ msg @ '' at line '' @ str_nat line @ '', column '' @ str_nat col) []"
| "json_failed ell (Json_number t) = spec_error ell (''Spec contains a number that cannot be read: '' @ t) []"
| "json_failed ell Json_recursion = spec_error ell nested_message []"

text \<open>Each container of the text becomes an object of its own.\<close>

fun json_value :: "parse_env \<Rightarrow> json_failure raw_json \<Rightarrow> heap \<Rightarrow> ref_error + pvalue \<times> heap"
  and json_values :: "parse_env \<Rightarrow> json_failure raw_json list \<Rightarrow> heap \<Rightarrow> ref_error + pvalue list \<times> heap"
  and json_pairs :: "parse_env \<Rightarrow> (string \<times> json_failure raw_json) list \<Rightarrow> heap
        \<Rightarrow> ref_error + (string \<times> pvalue) list \<times> heap"
where
  "json_value P Raw_null h = Inr (P_null, h)"
| "json_value P (Raw_bool b) h = Inr (P_bool b, h)"
| "json_value P (Raw_int i) h = Inr (P_int i, h)"
| "json_value P (Raw_float t) h = Inr (case pe_float P t of Inr r \<Rightarrow> P_float r | Inl s \<Rightarrow> P_infinite s, h)"
| "json_value P (Raw_constant t) h = Inl (reject_constant (pe_ellipsis P) t)"
| "json_value P (Raw_str s) h = Inr (P_str s, h)"
| "json_value P (Raw_list xs) h =
     (case json_values P xs h of Inl e \<Rightarrow> Inl e | Inr (vs, h') \<Rightarrow> Inr (P_ref (length h'), h' @ [Seq vs]))"
| "json_value P (Raw_obj ps) h =
     (case json_pairs P ps h of Inl e \<Rightarrow> Inl e | Inr (qs, h') \<Rightarrow> reject_duplicates (pe_ellipsis P) qs h')"
| "json_value P (Raw_error f) h = Inl (json_failed (pe_ellipsis P) f)"
| "json_values P [] h = Inr ([], h)"
| "json_values P (x # xs) h =
     (case json_value P x h of
        Inl e \<Rightarrow> Inl e
      | Inr (v, h') \<Rightarrow> (case json_values P xs h' of Inl e \<Rightarrow> Inl e | Inr (vs, h'') \<Rightarrow> Inr (v # vs, h'')))"
| "json_pairs P [] h = Inr ([], h)"
| "json_pairs P ((k, x) # ps) h =
     (case json_value P x h of
        Inl e \<Rightarrow> Inl e
      | Inr (v, h') \<Rightarrow> (case json_pairs P ps h' of Inl e \<Rightarrow> Inl e | Inr (qs, h'') \<Rightarrow> Inr ((k, v) # qs, h'')))"

definition parse_json_spec :: "parse_env \<Rightarrow> string \<Rightarrow> ref_error + heap \<times> pvalue" where
  "parse_json_spec P t =
     (case json_value P (pe_json P t) [] of Inl e \<Rightarrow> Inl e | Inr (v, h) \<Rightarrow> Inr (h, v))"

definition parse_yaml :: "parse_env \<Rightarrow> string \<Rightarrow> ref_error + heap \<times> pvalue" where
  "parse_yaml P t =
     (let ell = pe_ellipsis P
      in case pe_yaml P t of
           Yaml_value h v \<Rightarrow> Inr (h, v)
         | Yaml_marked problem ctx pmark cmark \<Rightarrow>
             (let where_text = (case (case pmark of Some m \<Rightarrow> Some m | None \<Rightarrow> cmark) of
                             Some (l, c) \<Rightarrow> '' at line '' @ str_nat (l + 1) @ '', column '' @ str_nat (c + 1)
                           | None \<Rightarrow> []);
                  what = (if problem \<noteq> [] then problem else if ctx \<noteq> [] then ctx else ''invalid YAML'')
              in Inl (spec_error ell (''Spec is not valid YAML: '' @ what @ where_text) []))
         | Yaml_error e \<Rightarrow> Inl (spec_error ell (''Spec is not valid YAML: '' @ e) [])
         | Yaml_number e \<Rightarrow> Inl (spec_error ell (''Spec contains a number that cannot be read: '' @ e) [])
         | Yaml_recursion \<Rightarrow> Inl (spec_error ell nested_message []))"

definition parse_text :: "parse_env \<Rightarrow> string \<Rightarrow> ref_error + heap \<times> pvalue" where
  "parse_text P t = (if startswith (lstrip_if py_space t) ''{'' then parse_json_spec P t else parse_yaml P t)"

text \<open>The document is the number of its container.\<close>

definition parse_document :: "parse_env \<Rightarrow> string \<Rightarrow> ref_error + heap \<times> nat" where
  "parse_document P bytes =
     (case decode_spec P bytes of
        Inl e \<Rightarrow> Inl e
      | Inr t \<Rightarrow>
          if strip t = [] then Inl (spec_error (pe_ellipsis P) ''Spec is empty'' [])
          else (case parse_text P t of
                  Inl e \<Rightarrow> Inl e
                | Inr (h, v) \<Rightarrow>
                    (case v of
                       P_ref i \<Rightarrow>
                         (case cell_at h i of
                            Dict ps \<Rightarrow> (case check_plain_json (pe_ellipsis P) h i of Inl e \<Rightarrow> Inl e | Inr _ \<Rightarrow> Inr (h, i))
                          | Seq xs \<Rightarrow> Inl (spec_error (pe_ellipsis P)
                                         ''Spec must be an object (a mapping) at the top level'' []))
                     | _ \<Rightarrow> Inl (spec_error (pe_ellipsis P)
                                    ''Spec must be an object (a mapping) at the top level'' []))))"

end
