(* ===== verification/Spec_Bounds.thy ===== *)
theory Spec_Bounds
  imports Spec_Parse
begin

text \<open>
  What \<^verbatim>\<open>openapi/parse.py\<close> accepts: the memoized walk over shared objects is equivalent to a bound on the tree they
  describe, it always ends, and every refusal is a \<open>SpecError\<close>.
\<close>

section \<open>The loop as a recursion\<close>

fun fold_sum :: "('a \<Rightarrow> 's \<Rightarrow> 'e + 's) \<Rightarrow> 'a list \<Rightarrow> 's \<Rightarrow> 'e + 's" where
  "fold_sum f [] s = Inr s"
| "fold_sum f (x # xs) s = (case f x s of Inl e \<Rightarrow> Inl e | Inr s' \<Rightarrow> fold_sum f xs s')"

fun descend :: "string \<Rightarrow> heap \<Rightarrow> nat \<Rightarrow> visit \<Rightarrow> expanded \<Rightarrow> ref_error + expanded" where
  "descend ell h n (P_ref i, path, f) e =
     (if map_of e i \<noteq> None then Inr e
      else case n of
        0 \<Rightarrow> Inl (too_deep ell path)
      | Suc m \<Rightarrow>
          (case fold_sum (descend ell h m) (rev (child_visits h i path)) e of
             Inl err \<Rightarrow> Inl err
           | Inr e' \<Rightarrow> if map_of e' i \<noteq> None then Inr e' else finish_cell ell h i path e'))"
| "descend ell h n (v, path, f) e = (case check_scalar ell v path of Inl err \<Rightarrow> Inl err | Inr _ \<Rightarrow> Inr e)"

declare descend.simps [simp del]

lemma check_loop_list:
  assumes "\<And>w st e. w \<in> set ws \<Longrightarrow> check_loop ell h (w # st) e =
     (case descend ell h m w e of Inl err \<Rightarrow> Inl err | Inr e' \<Rightarrow> check_loop ell h st e')"
  shows "check_loop ell h (ws @ st) e =
     (case fold_sum (descend ell h m) ws e of Inl err \<Rightarrow> Inl err | Inr e' \<Rightarrow> check_loop ell h st e')"
  using assms by (induction ws arbitrary: e) (auto split: sum.splits)

lemma check_loop_descend:
  "n = Suc MAX_DEPTH - length path \<Longrightarrow>
     check_loop ell h ((v, path, False) # st) e =
       (case descend ell h n (v, path, False) e of Inl err \<Rightarrow> Inl err | Inr e' \<Rightarrow> check_loop ell h st e')"
proof (induction n arbitrary: v path st e)
  case 0
  then show ?case by (cases v) (auto simp: descend.simps split: sum.splits)
next
  case (Suc m)
  show ?case
  proof (cases v)
    case (P_ref i)
    have m: "m = Suc MAX_DEPTH - length (path @ [k])" "\<not> length path > MAX_DEPTH" for k
      using Suc.prems by auto
    have "check_loop ell h (rev (child_visits h i path) @ st) e = (case fold_sum (descend ell h m)
        (rev (child_visits h i path)) e of Inl err \<Rightarrow> Inl err | Inr e' \<Rightarrow> check_loop ell h st e')" for st e
    proof (rule check_loop_list)
      show "check_loop ell h (w # st) e =
         (case descend ell h m w e of Inl err \<Rightarrow> Inl err | Inr e' \<Rightarrow> check_loop ell h st e')"
        if "w \<in> set (rev (child_visits h i path))" for w st e
        using that Suc.IH[OF m(1)] by (auto simp: child_visits_def)
    qed
    then show ?thesis
      using P_ref m(2) by (auto simp: descend.simps split: sum.splits)
  qed (auto simp: descend.simps split: sum.splits)
qed

section \<open>Sizes and heights\<close>

fun jheight :: "json \<Rightarrow> nat" and jheights :: "json list \<Rightarrow> nat" and jheight_items :: "(string \<times> json) list \<Rightarrow> nat" where
  "jheight (JList xs) = Suc (jheights xs)"
| "jheight (JObj d) = Suc (jheight_items d)"
| "jheight v = 0"
| "jheights [] = 0"
| "jheights (x # xs) = max (jheight x) (jheights xs)"
| "jheight_items [] = 0"
| "jheight_items ((k, v) # d) = max (jheight v) (jheight_items d)"

lemma jheight_zip: "length ks = length js \<Longrightarrow> jheight_items (zip ks js) = jheights js"
  by (induction ks js rule: list_induct2) auto

lemma jsize_zip: "length ks = length js \<Longrightarrow> jsize_items (zip ks js) = jsizes js"
  by (induction ks js rule: list_induct2) auto

lemma length_cell_values: "map snd (cell_items c) = cell_values c"
  by (cases c) (simp_all add: cell_items_def cell_values_def case_prod_beta o_def)

lemma those_Some: "those xs = Some ys \<longleftrightarrow> list_all2 (\<lambda>x y. x = Some y) xs ys"
  by (induction xs arbitrary: ys) (auto simp: list_all2_Cons1 split: option.splits)

lemma cell_json_size:
  assumes "length js = length (cell_values c)"
  shows "jsize (cell_json c js) = Suc (jsizes js)" "jheight (cell_json c js) = Suc (jheights js)"
  using assms by (auto simp: cell_json_def cell_values_def jheight_zip jsize_zip split: cell.splits)

lemma expand_ref:
  "expand h (Suc n) (P_ref i) = Some j \<longleftrightarrow>
     (\<exists>js. list_all2 (\<lambda>v j. expand h n v = Some j) (cell_values (cell_at h i)) js \<and> j = cell_json (cell_at h i) js)"
  by (auto simp: those_Some list.rel_map)

lemma expand_mono: "expand h n v = Some j \<Longrightarrow> n \<le> m \<Longrightarrow> expand h m v = Some j"
proof (induction h n v arbitrary: m j rule: expand.induct)
  case (9 h n i)
  from 9(3) obtain m' where m: "m = Suc m'" "n \<le> m'" by (cases m) auto
  from 9(2) obtain js where "list_all2 (\<lambda>v j. expand h n v = Some j) (cell_values (cell_at h i)) js"
    "j = cell_json (cell_at h i) js" unfolding expand_ref by blast
  moreover from this(1) have "list_all2 (\<lambda>v j. expand h m' v = Some j) (cell_values (cell_at h i)) js"
    by (rule list.rel_mono_strong) (use 9(1) m(2) in blast)
  ultimately show ?case unfolding m(1) expand_ref by blast
qed simp_all

lemma expand_unique: "expand h n v = Some j \<Longrightarrow> expand h m v = Some j' \<Longrightarrow> j = j'"
  using expand_mono[of h n v j "max n m"] expand_mono[of h m v j' "max n m"] by simp

lemma list_all2_jheights: "list_all2 P vs js \<Longrightarrow> \<forall>v \<in> set vs. \<forall>j. P v j \<longrightarrow> jheight j \<le> n \<Longrightarrow> jheights js \<le> n"
  by (induction vs js rule: list_all2_induct) auto

lemma jheights_ge: "j \<in> set js \<Longrightarrow> jheight j \<le> jheights js"
  by (induction js) auto

lemma jsizes_ge: "j \<in> set js \<Longrightarrow> jsize j \<le> jsizes js"
  by (induction js) auto

lemma expand_height:
  "expand h n v = Some j \<Longrightarrow> jheight j \<le> n \<and> expand h (jheight j) v = Some j"
proof (induction h n v arbitrary: j rule: expand.induct)
  case (9 h n i)
  from 9(2) obtain js where js: "list_all2 (\<lambda>v j. expand h n v = Some j) (cell_values (cell_at h i)) js"
    and j: "j = cell_json (cell_at h i) js" unfolding expand_ref by blast
  have ht: "jheight j = Suc (jheights js)" unfolding j by (rule cell_json_size) (use js in \<open>simp add: list_all2_lengthD\<close>)
  have "list_all2 (\<lambda>v j. expand h (jheights js) v = Some j) (cell_values (cell_at h i)) js"
    using js by (rule list.rel_mono_strong) (use 9(1) expand_mono jheights_ge in blast)
  then have "expand h (Suc (jheights js)) (P_ref i) = Some j" unfolding expand_ref j by blast
  moreover have "jheights js \<le> n" using js by (rule list_all2_jheights) (use 9(1) in blast)
  ultimately show ?case unfolding ht by simp
qed simp_all

section \<open>What the check accepts\<close>

text \<open>What is known of a value once it has been visited: it expands to a tree, with this size and this height.\<close>

definition known :: "heap \<Rightarrow> expanded \<Rightarrow> pvalue \<Rightarrow> json \<Rightarrow> bool" where
  "known h e v j \<longleftrightarrow> (\<exists>m. expand h m v = Some j) \<and> measured e v = Inr (jsize j, int (jheight j) - 1)"

definition sound :: "heap \<Rightarrow> expanded \<Rightarrow> bool" where
  "sound h e \<longleftrightarrow> (\<forall>i m. map_of e i = Some m \<longrightarrow> (\<exists>j. known h e (P_ref i) j \<and> jsize j \<le> MAX_NODES))"

definition extended :: "nat \<Rightarrow> expanded \<Rightarrow> expanded \<Rightarrow> bool" where
  "extended len e e' \<longleftrightarrow>
     (\<forall>i m. map_of e i = Some m \<longrightarrow> map_of e' i = Some m) \<and>
     (\<forall>i sz ht. map_of e i = None \<longrightarrow> map_of e' i = Some (sz, ht) \<longrightarrow> int len + ht \<le> int MAX_DEPTH)"

lemma extended_refl: "extended len e e"
  by (simp add: extended_def)

lemma extended_trans: "extended len e e' \<Longrightarrow> extended len e' e'' \<Longrightarrow> extended len e e''"
  unfolding extended_def by (metis not_None_eq)

lemma extendedD: "extended len e e' \<Longrightarrow> map_of e i = Some m \<Longrightarrow> map_of e' i = Some m"
  unfolding extended_def by blast

lemma extended_deeper:
  assumes "extended (Suc len) e e'"
  shows "extended len e e'"
  unfolding extended_def
proof (intro conjI allI impI)
  show "map_of e' i = Some m" if "map_of e i = Some m" for i m using extendedD[OF assms that] .
  show "int len + ht \<le> int MAX_DEPTH" if "map_of e i = None" "map_of e' i = Some (sz, ht)" for i sz ht
  proof -
    have "int (Suc len) + ht \<le> int MAX_DEPTH" using assms that unfolding extended_def by blast
    then show ?thesis by simp
  qed
qed

lemma known_extended:
  assumes "extended len e e'" "known h e v j"
  shows "known h e' v j"
proof -
  have "measured e' v = Inr m" if "measured e v = Inr m" for m
  proof (cases v)
    case (P_ref i)
    then have "map_of e i = Some m" using that by (simp split: option.splits)
    then show ?thesis using extendedD[OF assms(1)] P_ref by simp
  qed (use that in simp_all)
  then show ?thesis using assms(2) by (simp add: known_def)
qed

lemma soundD: "sound h e \<Longrightarrow> map_of e i = Some m \<Longrightarrow> \<exists>j. known h e (P_ref i) j"
  unfolding sound_def by blast

lemma add_sizes_known:
  "list_all2 (known h e) vs js \<Longrightarrow> 0 \<le> ht \<Longrightarrow>
     add_sizes e vs sz ht = Inr (sz + jsizes js, max ht (int (jheights js)))"
proof (induction vs js arbitrary: sz ht rule: list_all2_induct)
  case (Cons v vs j js)
  have "measured e v = Inr (jsize j, int (jheight j) - 1)" using Cons.hyps(1) by (simp add: known_def)
  moreover have "0 \<le> max ht (int (jheight j))" using Cons.prems by simp
  ultimately show ?case using Cons.IH by (simp add: max.assoc add.assoc)
qed simp

lemma scalar_known:
  assumes "\<nexists>i. v = P_ref i" "check_scalar ell v path = Inr ()"
  shows "\<exists>j. known h e v j"
  using assms by (cases v) (auto simp: known_def check_scalar_def)

lemma scalar_bad:
  assumes "\<nexists>i. v = P_ref i" "check_scalar ell v path = Inl err"
  shows "expand h n v = None \<and> (\<exists>m p. err = SpecError m p)"
  using assms by (cases v) (auto simp: check_scalar_def spec_error_def)

lemma known_cell:
  assumes js: "list_all2 (known h e) (cell_values (cell_at h i)) js"
  shows "\<exists>m. expand h m (P_ref i) = Some (cell_json (cell_at h i) js)"
    and "jsize (cell_json (cell_at h i) js) = Suc (jsizes js)" "jheight (cell_json (cell_at h i) js) = Suc (jheights js)"
proof -
  show "jsize (cell_json (cell_at h i) js) = Suc (jsizes js)" "jheight (cell_json (cell_at h i) js) = Suc (jheights js)"
    using js by (simp_all add: cell_json_size list_all2_lengthD)
  have "list_all2 (\<lambda>v j. expand h (jheights js) v = Some j) (cell_values (cell_at h i)) js"
    using js
  proof (rule list.rel_mono_strong)
    show "expand h (jheights js) v = Some j" if "j \<in> set js" "known h e v j" for v j
      using that expand_height[of h _ v j] expand_mono jheights_ge unfolding known_def by blast
  qed
  then have "expand h (Suc (jheights js)) (P_ref i) = Some (cell_json (cell_at h i) js)" unfolding expand_ref by blast
  then show "\<exists>m. expand h m (P_ref i) = Some (cell_json (cell_at h i) js)" by blast
qed

lemma finish_cell_known:
  assumes js: "list_all2 (known h e) (cell_values (cell_at h i)) js" and "sound h e" "map_of e i = None"
    and run: "finish_cell ell h i path e = Inr e'"
  shows "sound h e' \<and> extended (length path) e e' \<and> (\<exists>j. known h e' (P_ref i) j)"
proof -
  let ?j = "cell_json (cell_at h i) js"
  note K = known_cell[OF js]
  have e': "e' = AList.update i (jsize ?j, int (jheight ?j) - 1) e" and sz: "jsize ?j \<le> MAX_NODES"
    and ht: "int (length path) + (int (jheight ?j) - 1) \<le> int MAX_DEPTH"
    using run add_sizes_known[OF js, of 0 1] K(2,3) by (auto simp: finish_cell_def split: if_splits)
  have ext: "extended (length path) e e'"
    using assms(3) ht by (auto simp: e' extended_def map_of_update split: if_splits)
  have "known h e' (P_ref i) ?j" using K(1) by (simp add: known_def e' map_of_update)
  moreover have "sound h e'"
    unfolding sound_def
  proof (intro allI impI)
    fix k m assume m: "map_of e' k = Some m"
    show "\<exists>j. known h e' (P_ref k) j \<and> jsize j \<le> MAX_NODES"
    proof (cases "k = i")
      case True
      then show ?thesis using \<open>known h e' (P_ref i) ?j\<close> sz by blast
    next
      case False
      then have "map_of e k = Some m" using m by (simp add: e' map_of_update)
      then show ?thesis using assms(2) known_extended[OF ext] unfolding sound_def by blast
    qed
  qed
  ultimately show ?thesis using ext by blast
qed

lemma fold_sum_known:
  assumes "\<And>w e e'. w \<in> set ws \<Longrightarrow> sound h e \<Longrightarrow> f w e = Inr e' \<Longrightarrow>
      sound h e' \<and> extended len e e' \<and> (\<exists>j. known h e' (fst w) j)"
    and "sound h e" "fold_sum f ws e = Inr e'"
  shows "sound h e' \<and> extended len e e' \<and> (\<forall>w \<in> set ws. \<exists>j. known h e' (fst w) j)"
  using assms
proof (induction ws arbitrary: e)
  case (Cons w ws)
  from Cons.prems(3) obtain e1 where e1: "f w e = Inr e1" "fold_sum f ws e1 = Inr e'" by (auto split: sum.splits)
  have w: "sound h e1 \<and> extended len e e1 \<and> (\<exists>j. known h e1 (fst w) j)"
    using Cons.prems(1)[OF _ Cons.prems(2) e1(1)] by simp
  have rest: "sound h e' \<and> extended len e1 e' \<and> (\<forall>w \<in> set ws. \<exists>j. known h e' (fst w) j)"
  proof (rule Cons.IH)
    show "sound h b' \<and> extended len b b' \<and> (\<exists>j. known h b' (fst x) j)"
      if "x \<in> set ws" "sound h b" "f x b = Inr b'" for x b b'
      using Cons.prems(1)[OF _ that(2,3)] that(1) by simp
  qed (use w e1(2) in blast)+
  then have "\<exists>j. known h e' (fst w) j" using w known_extended by blast
  then show ?case using rest w extended_trans[of len e e1 e'] by simp
qed (simp add: extended_refl)

lemma known_list: "\<forall>v \<in> set vs. \<exists>j. known h e v j \<Longrightarrow> \<exists>js. list_all2 (known h e) vs js"
  by (induction vs) (auto intro: list_all2_Cons1[THEN iffD2])

lemma child_visits_values: "fst ` set (rev (child_visits h i path)) = set (cell_values (cell_at h i))"
  unfolding length_cell_values[symmetric] by (force simp: child_visits_def)

lemma descend_known:
  "sound h e \<Longrightarrow> descend ell h n (v, path, f) e = Inr e' \<Longrightarrow>
     sound h e' \<and> extended (length path) e e' \<and> (\<exists>j. known h e' v j)"
proof (induction n arbitrary: v path f e e')
  case 0
  show ?case
  proof (cases v)
    case (P_ref i)
    then obtain m where "map_of e i = Some m" "e' = e" using 0(2) by (auto simp: descend.simps split: if_splits)
    then show ?thesis using 0(1) soundD P_ref extended_refl by blast
  qed (use 0 scalar_known[of v ell path h e] in \<open>auto simp: descend.simps extended_refl split: sum.splits\<close>)
next
  case (Suc m)
  show ?case
  proof (cases v)
    case (P_ref i)
    show ?thesis
    proof (cases "map_of e i")
      case (Some x)
      then have "e' = e" using Suc.prems(2) P_ref by (simp add: descend.simps)
      then show ?thesis using Suc.prems(1) Some P_ref soundD extended_refl by blast
    next
      case None
      then obtain e1 where fold: "fold_sum (descend ell h m) (rev (child_visits h i path)) e = Inr e1"
        and fin: "(if map_of e1 i \<noteq> None then Inr e1 else finish_cell ell h i path e1) = Inr e'"
        using Suc.prems(2) P_ref by (auto simp: descend.simps split: sum.splits)
      have "sound h b' \<and> extended (Suc (length path)) b b' \<and> (\<exists>j. known h b' (fst w) j)"
        if w: "w \<in> set (rev (child_visits h i path))" "sound h b" "descend ell h m w b = Inr b'" for w b b'
      proof -
        from w(1) obtain k u where "w = (u, path @ [k], False)" by (auto simp: child_visits_def)
        then show ?thesis using Suc.IH[OF w(2), of u "path @ [k]" False b'] w(3) by simp
      qed
      from fold_sum_known[OF this Suc.prems(1) fold]
      have "sound h e1" "extended (Suc (length path)) e e1"
        "\<forall>v \<in> fst ` set (rev (child_visits h i path)). \<exists>j. known h e1 v j" by blast+
      then have e1: "sound h e1" "extended (length path) e e1" "\<forall>v \<in> set (cell_values (cell_at h i)). \<exists>j. known h e1 v j"
        unfolding child_visits_values using extended_deeper by blast+
      show ?thesis
      proof (cases "map_of e1 i")
        case None
        then have "finish_cell ell h i path e1 = Inr e'" using fin by simp
        from known_list[OF e1(3)] obtain js where "list_all2 (known h e1) (cell_values (cell_at h i)) js" by blast
        from finish_cell_known[OF this e1(1) None \<open>finish_cell ell h i path e1 = Inr e'\<close>] show ?thesis
          using e1(2) extended_trans P_ref by blast
      next
        case (Some x)
        then have "e' = e1" using fin by simp
        then show ?thesis using e1 Some P_ref soundD by blast
      qed
    qed
  qed (use Suc scalar_known[of v ell path h e] in \<open>auto simp: descend.simps extended_refl split: sum.splits\<close>)
qed

lemma fold_sum_bad:
  assumes "\<And>w e e'. w \<in> set ws \<Longrightarrow> sound h e \<Longrightarrow> f w e = Inr e' \<Longrightarrow> sound h e'"
    and "sound h e" "fold_sum f ws e = Inl err"
  shows "\<exists>w \<in> set ws. \<exists>b. sound h b \<and> f w b = Inl err"
  using assms
proof (induction ws arbitrary: e)
  case (Cons w ws)
  show ?case
  proof (cases "f w e")
    case (Inl x)
    then show ?thesis using Cons.prems by auto
  next
    case (Inr e1)
    then have "sound h e1" using Cons.prems(1)[OF _ Cons.prems(2) Inr] by simp
    moreover have "fold_sum f ws e1 = Inl err" using Cons.prems(3) Inr by simp
    moreover have "sound h b'" if "x \<in> set ws" "sound h b" "f x b = Inr b'" for x b b'
      using Cons.prems(1)[OF _ that(2,3)] that(1) by simp
    ultimately show ?thesis using Cons.IH[of e1] by simp
  qed
qed simp

text \<open>A value that is refused has no expansion to the depth that is left, or one with too many values.\<close>

definition oversized :: "heap \<Rightarrow> nat \<Rightarrow> pvalue \<Rightarrow> bool" where
  "oversized h n v \<longleftrightarrow> (\<forall>j. expand h n v = Some j \<longrightarrow> MAX_NODES < jsize j)"

lemma oversized_child:
  assumes "u \<in> set (cell_values (cell_at h i))" "oversized h m u"
  shows "oversized h (Suc m) (P_ref i)"
  unfolding oversized_def
proof (intro allI impI)
  fix j assume "expand h (Suc m) (P_ref i) = Some j"
  then obtain js where js: "list_all2 (\<lambda>v j. expand h m v = Some j) (cell_values (cell_at h i)) js"
    and j: "j = cell_json (cell_at h i) js" unfolding expand_ref by blast
  obtain ju where ju: "ju \<in> set js" "expand h m u = Some ju"
  proof -
    from assms(1) obtain k where k: "k < length (cell_values (cell_at h i))" "cell_values (cell_at h i) ! k = u"
      by (auto simp: in_set_conv_nth)
    have "expand h m u = Some (js ! k)" using list_all2_nthD[OF js k(1)] k(2) by simp
    moreover have "js ! k \<in> set js" using k(1) list_all2_lengthD[OF js] by simp
    ultimately show thesis using that by blast
  qed
  then have "MAX_NODES < jsizes js" using assms(2) jsizes_ge unfolding oversized_def by (meson less_le_trans)
  moreover have "jsize j = Suc (jsizes js)" unfolding j by (rule cell_json_size) (use js in \<open>simp add: list_all2_lengthD\<close>)
  ultimately show "MAX_NODES < jsize j" by simp
qed

lemma finish_cell_bad:
  assumes js: "list_all2 (known h e) (cell_values (cell_at h i)) js"
    and n: "n = Suc MAX_DEPTH - length path" "length path \<le> Suc MAX_DEPTH"
    and run: "finish_cell ell h i path e = Inl err"
  shows "oversized h n (P_ref i) \<and> (\<exists>m p. err = SpecError m p)"
proof -
  let ?j = "cell_json (cell_at h i) js"
  note K = known_cell[OF js]
  obtain k where k: "expand h k (P_ref i) = Some ?j" using K(1) by blast
  have bad: "MAX_NODES < jsize ?j \<or> int MAX_DEPTH < int (length path) + (int (jheight ?j) - 1)"
    "\<exists>m p. err = SpecError m p"
    using run add_sizes_known[OF js, of 0 1] K(2,3)
    by (auto simp: finish_cell_def too_many_def too_deep_def spec_error_def split: if_splits)
  have "MAX_NODES < jsize j" if j: "expand h n (P_ref i) = Some j" for j
  proof -
    have "j = ?j" using expand_unique[OF j k] .
    moreover have "jheight j \<le> n" using expand_height[OF j] by simp
    ultimately show ?thesis using bad(1) n by auto
  qed
  then show ?thesis using bad(2) by (simp add: oversized_def)
qed

lemma descend_bad:
  "sound h e \<Longrightarrow> n = Suc MAX_DEPTH - length path \<Longrightarrow> length path \<le> Suc MAX_DEPTH \<Longrightarrow>
     descend ell h n (v, path, f) e = Inl err \<Longrightarrow> oversized h n v \<and> (\<exists>m p. err = SpecError m p)"
proof (induction n arbitrary: v path f e)
  case 0
  show ?case
  proof (cases v)
    case (P_ref i)
    then show ?thesis using 0
      by (auto simp: descend.simps too_deep_def spec_error_def oversized_def split: if_splits)
  qed (use 0 scalar_bad[of v ell path err h 0] in \<open>auto simp: descend.simps oversized_def split: sum.splits\<close>)
next
  case (Suc m)
  show ?case
  proof (cases v)
    case (P_ref i)
    have none: "map_of e i = None"
      using Suc.prems(4) P_ref by (cases "map_of e i") (simp_all add: descend.simps)
    have kids: "sound h b' \<and> extended (Suc (length path)) b b' \<and> (\<exists>j. known h b' (fst w) j)"
      if w: "w \<in> set (rev (child_visits h i path))" "sound h b" "descend ell h m w b = Inr b'" for w b b'
    proof -
      from w(1) obtain k u where "w = (u, path @ [k], False)" by (auto simp: child_visits_def)
      then show ?thesis using descend_known[OF w(2), of ell m u "path @ [k]" False b'] w(3) by simp
    qed
    show ?thesis
    proof (cases "fold_sum (descend ell h m) (rev (child_visits h i path)) e")
      case (Inl x)
      then have "x = err" using Suc.prems(4) none P_ref by (simp add: descend.simps)
      then obtain w b where w: "w \<in> set (rev (child_visits h i path))" "sound h b" "descend ell h m w b = Inl err"
        using fold_sum_bad[OF _ Suc.prems(1) Inl] kids by blast
      from w(1) obtain k u where u: "w = (u, path @ [k], False)" by (auto simp: child_visits_def)
      have "m = Suc MAX_DEPTH - length (path @ [k])" "length (path @ [k]) \<le> Suc MAX_DEPTH" using Suc.prems(2) by simp_all
      from Suc.IH[OF w(2) this w(3)[unfolded u]] have "oversized h m u \<and> (\<exists>m p. err = SpecError m p)" .
      moreover have "fst w \<in> set (cell_values (cell_at h i))"
        using imageI[OF w(1), of fst] unfolding child_visits_values .
      then have "u \<in> set (cell_values (cell_at h i))" using u by simp
      ultimately show ?thesis using oversized_child P_ref by blast
    next
      case (Inr e1)
      from fold_sum_known[OF kids Suc.prems(1) Inr]
      have "\<forall>v \<in> fst ` set (rev (child_visits h i path)). \<exists>j. known h e1 v j" by blast
      then obtain js where "list_all2 (known h e1) (cell_values (cell_at h i)) js"
        using known_list unfolding child_visits_values by blast
      moreover have "finish_cell ell h i path e1 = Inl err"
        using Suc.prems(4) none Inr P_ref by (auto simp: descend.simps split: if_splits)
      ultimately show ?thesis using finish_cell_bad[OF _ Suc.prems(2,3)] P_ref by blast
    qed
  qed (use Suc.prems scalar_bad[of v ell path err h "Suc m"] in \<open>auto simp: descend.simps oversized_def split: sum.splits\<close>)
qed

text \<open>The check accepts exactly the documents that expand, however much is shared, to a plain JSON tree with the allowed depth
  and number of values; it always returns, and refuses with a \<open>SpecError\<close>.\<close>

lemma check_plain_json_iff:
  "check_plain_json ell h i = Inr () \<longleftrightarrow>
     (\<exists>j. expand h (Suc MAX_DEPTH) (P_ref i) = Some j \<and> jsize j \<le> MAX_NODES)"
  and check_plain_json_error: "check_plain_json ell h i = Inl err \<Longrightarrow> \<exists>m p. err = SpecError m p"
proof -
  have start: "sound h []" by (simp add: sound_def)
  have run: "check_plain_json ell h i = map_sum id (\<lambda>e. ()) (descend ell h (Suc MAX_DEPTH) (P_ref i, [], False) [])"
    using check_loop_descend[of "Suc MAX_DEPTH" "[]" ell h "P_ref i" "[]" "[]"]
    by (auto simp: check_plain_json_def split: sum.splits)
  have good: "\<exists>j. expand h (Suc MAX_DEPTH) (P_ref i) = Some j \<and> jsize j \<le> MAX_NODES"
    if "descend ell h (Suc MAX_DEPTH) (P_ref i, [], False) [] = Inr e" for e
  proof -
    from descend_known[OF start that] obtain j where s: "sound h e" and ext: "extended 0 [] e" and j: "known h e (P_ref i) j"
      by auto
    from j have m: "map_of e i = Some (jsize j, int (jheight j) - 1)" by (auto simp: known_def split: option.splits)
    then have "int (jheight j) - 1 \<le> int MAX_DEPTH" using ext unfolding extended_def by fastforce
    then have "jheight j \<le> Suc MAX_DEPTH" by simp
    moreover obtain k where k: "expand h k (P_ref i) = Some j" using j by (auto simp: known_def)
    ultimately have "expand h (Suc MAX_DEPTH) (P_ref i) = Some j" using expand_height[OF k] expand_mono by blast
    moreover have "jsize j \<le> MAX_NODES"
    proof -
      from s m obtain j' where j': "known h e (P_ref i) j'" "jsize j' \<le> MAX_NODES" unfolding sound_def by blast
      then have "j' = j" using expand_unique k unfolding known_def by blast
      then show ?thesis using j'(2) by simp
    qed
    ultimately show ?thesis by blast
  qed
  have bad: "oversized h (Suc MAX_DEPTH) (P_ref i) \<and> (\<exists>m p. x = SpecError m p)"
    if "descend ell h (Suc MAX_DEPTH) (P_ref i, [], False) [] = Inl x" for x
    using descend_bad[OF start _ _ that] by simp
  show "check_plain_json ell h i = Inr () \<longleftrightarrow>
     (\<exists>j. expand h (Suc MAX_DEPTH) (P_ref i) = Some j \<and> jsize j \<le> MAX_NODES)"
    unfolding run using good bad
    by (cases "descend ell h (Suc MAX_DEPTH) (P_ref i, [], False) []") (auto simp: oversized_def not_less[symmetric])
  show "check_plain_json ell h i = Inl err \<Longrightarrow> \<exists>m p. err = SpecError m p"
    unfolding run using bad by (cases "descend ell h (Suc MAX_DEPTH) (P_ref i, [], False) []") auto
qed

section \<open>What is parsed\<close>

lemma parse_document_plain:
  assumes "parse_document P bytes = Inr (h, i)"
  shows "\<exists>d. expand h (Suc MAX_DEPTH) (P_ref i) = Some (JObj d) \<and> jsize (JObj d) \<le> MAX_NODES"
proof -
  from assms obtain ps where c: "cell_at h i = Dict ps" "check_plain_json (pe_ellipsis P) h i = Inr ()"
    by (auto simp: parse_document_def split: sum.splits if_splits pvalue.splits cell.splits)
  then obtain j where "expand h (Suc MAX_DEPTH) (P_ref i) = Some j" "jsize j \<le> MAX_NODES"
    unfolding check_plain_json_iff by blast
  moreover from this(1) c(1) obtain js where "j = JObj (zip (map fst ps) js)"
    unfolding expand_ref by (auto simp: cell_json_def)
  ultimately show ?thesis by blast
qed

text \<open>Every refusal is a \<open>SpecError\<close>.\<close>

definition refused :: "ref_error \<Rightarrow> bool" where
  "refused e \<longleftrightarrow> (\<exists>m p. e = SpecError m p)"

lemma refused_spec_error [simp]: "refused (spec_error ell m p)"
  by (simp add: refused_def spec_error_def)

lemma refused_json_failed [simp]: "refused (json_failed ell f)"
  by (cases f) simp_all

lemma json_value_refused:
  "json_value P v h = Inl e \<Longrightarrow> refused e"
  "json_values P vs h = Inl e \<Longrightarrow> refused e"
  "json_pairs P ps h = Inl e \<Longrightarrow> refused e"
  by (induction P v h and P vs h and P ps h arbitrary: e and e and e rule: json_value_json_values_json_pairs.induct)
     (auto simp: reject_duplicates_def reject_constant_def split: sum.splits option.splits)

lemma parse_document_refused:
  assumes "parse_document P bytes = Inl e"
  shows "refused e"
  using assms check_plain_json_error json_value_refused(1)
  by (auto simp: parse_document_def decode_spec_def parse_text_def parse_json_spec_def parse_yaml_def Let_def
      refused_def[symmetric] split: sum.splits if_splits pvalue.splits cell.splits yaml_outcome.splits)

section \<open>Merge keys\<close>

lemma map_of_dict_update: "map_of (dict_update d new) k = (case map_of (rev new) k of Some v \<Rightarrow> Some v | None \<Rightarrow> map_of d k)"
  by (induction new arbitrary: d) (auto simp: dict_update_def map_of_update map_add_def split: option.splits)

text \<open>What \<open>flat_pairs\<close> stores for a node is counted against the bound.\<close>

definition flat_ok :: "flat_state \<Rightarrow> bool" where
  "flat_ok st \<longleftrightarrow> fs_keys st \<le> MAX_NODES \<and> sum_list (map (\<lambda>p. length (snd p)) (fs_done st)) \<le> fs_keys st"

lemma update_length_sum:
  "sum_list (map (\<lambda>p. length (snd p)) (AList.update i v d)) \<le> sum_list (map (\<lambda>p. length (snd p)) d) + length v"
  by (induction d) auto

lemma flat_ok_store:
  assumes "store_flat i merged st = Inr (p, st')" "flat_ok st"
  shows "flat_ok st'"
proof -
  have "st' = st\<lparr>fs_keys := fs_keys st + length merged, fs_done := AList.update i merged (fs_done st)\<rparr>"
    "fs_keys st + length merged \<le> MAX_NODES"
    using assms(1) by (auto simp: store_flat_def Let_def split: if_splits)
  then show ?thesis
    using assms(2) update_length_sum[of i merged "fs_done st"] by (auto simp: flat_ok_def)
qed

lemma flat_pairs_ok:
  "flat_pairs N busy i st = Inr (p, st') \<Longrightarrow> flat_ok st \<Longrightarrow> flat_ok st'"
  "flat_entries N busy ps merged own st = Inr (q, st') \<Longrightarrow> flat_ok st \<Longrightarrow> flat_ok st'"
  "flat_sources N busy ss merged st = Inr (p, st') \<Longrightarrow> flat_ok st \<Longrightarrow> flat_ok st'"
proof (induction N busy i st and N busy ps merged own st and N busy ss merged st
    arbitrary: p st' and q st' and p st' rule: flat_pairs_flat_entries_flat_sources.induct)
  case (1 N busy i st)
  show ?case
  proof (cases "map_of (fs_done st) i")
    case None
    then obtain m o' st1 where "flat_entries N (i # busy) (case N ! i of Y_map t ps \<Rightarrow> ps | _ \<Rightarrow> []) [] [] st = Inr ((m, o'), st1)"
      "store_flat i (dict_update m o') st1 = Inr (p, st')" "i \<notin> set busy" "i < length N"
      using 1(2) by (auto simp: flat_pairs.simps[of N busy i st] split: if_splits sum.splits)
    then show ?thesis using 1(1)[OF None] 1(3) flat_ok_store by blast
  qed (use 1 in \<open>simp add: flat_pairs.simps[of N busy i st]\<close>)
qed (auto split: if_splits sum.splits)

text \<open>A mapping's own keys win over the merged ones: each keeps its own value.\<close>

lemma flat_entries_own:
  "flat_entries N busy ps merged own st = Inr ((merged', own'), st') \<Longrightarrow>
     \<exists>new. own' = own @ new \<and> (distinct (map fst own) \<longrightarrow> distinct (map fst own')) \<and>
       map snd new = filter (\<lambda>(k, v). node_tag (node_of N k) \<noteq> MERGE_TAG) ps"
proof (induction ps arbitrary: merged own st)
  case (Cons kv ps)
  obtain k v where kv: "kv = (k, v)" by (cases kv)
  show ?case
  proof (cases "node_tag (node_of N k) = MERGE_TAG")
    case True
    then obtain m st1 where "flat_entries N busy ps m own st1 = Inr ((merged', own'), st')"
      using Cons.prems kv by (auto split: sum.splits)
    from Cons.IH[OF this] show ?thesis using True kv by simp
  next
    case False
    then obtain key where "scalar_key N k = Inr key"
      using Cons.prems kv by (cases "scalar_key N k") simp_all
    then have key: "map_of own key = None"
      and rest: "flat_entries N busy ps merged (own @ [(key, k, v)]) st = Inr ((merged', own'), st')"
      using Cons.prems kv False by (cases "map_of own key"; simp)+
    from Cons.IH[OF rest] key show ?thesis using False kv by (auto simp: map_of_eq_None_iff)
  qed
qed simp

end
