(* ===== verification/Spec_Loader.thy ===== *)
theory Spec_Loader
  imports Spec_Bounds Executor
begin

text \<open>
  \<^verbatim>\<open>openapi/loader.py\<close> and \<^verbatim>\<open>openapi/isolation.py\<close>: from the bytes or the URL of a document to a validated
  snapshot. \<open>openapi-spec-validator\<close>, the hash and the HTTP client are arguments, and so is what becomes of the
  child process.
\<close>

section \<open>Dialects\<close>

definition SUPPORTED :: string where
  "SUPPORTED = ''supported versions are Swagger 2.0 and OpenAPI 3.0, 3.1 and 3.2''"

definition suffix_char :: "char \<Rightarrow> bool" where
  "suffix_char c \<longleftrightarrow> is_digit c \<or> is_ascii_alpha c \<or> c = CHR ''.'' \<or> c = CHR ''-''"

text \<open>\<open>3.(minor).patch\<close> with an optional suffix, matched as a whole.\<close>

definition version_minor :: "string \<Rightarrow> string option" where
  "version_minor v =
     (let rest = drop 2 v;
          minor = takeWhile is_digit rest;
          r2 = dropWhile is_digit rest;
          patch = takeWhile is_digit (drop 1 r2);
          r3 = dropWhile is_digit (drop 1 r2)
      in if startswith v ''3.'' \<and> minor \<noteq> [] \<and> startswith r2 ''.'' \<and> patch \<noteq> [] \<and>
            (r3 = [] \<or> (startswith r3 ''-'' \<and> drop 1 r3 \<noteq> [] \<and> list_all suffix_char (drop 1 r3)))
         then Some minor else None)"

definition MINOR_DIALECTS :: "(string \<times> dialect) list" where
  "MINOR_DIALECTS = [(''0'', D30), (''1'', D31), (''2'', D32)]"

definition detect_dialect ::
  "(rat \<Rightarrow> string) \<Rightarrow> string \<Rightarrow> jdict \<Rightarrow> ref_error + jdict \<times> dialect" where
  "detect_dialect fr ell document =
     (case map_of document ''swagger'' of
        Some swagger \<Rightarrow>
          if swagger = JStr ''2.0'' \<or> swagger = JFloat 2
          then Inr (AList.update ''swagger'' (JStr ''2.0'') document, D20)
          else Inl (spec_error ell (''Unsupported Swagger version '' @ py_repr fr swagger @ '': '' @ SUPPORTED) ''/swagger'')
      | None \<Rightarrow>
          (case map_of document ''openapi'' of
             None \<Rightarrow> Inl (spec_error ell
               (''Not an OpenAPI document: it has no `openapi` or `swagger` version field'') [])
           | Some version \<Rightarrow>
               (case (case version of JStr v \<Rightarrow> version_minor v | _ \<Rightarrow> None) of
                  None \<Rightarrow> Inl (spec_error ell
                    (''Unsupported OpenAPI version '' @ py_repr fr version @ '' (expected a string such as ''
                     @ [CHR 0x27] @ ''3.1.0'' @ [CHR 0x27] @ ''): '' @ SUPPORTED) ''/openapi'')
                | Some minor \<Rightarrow>
                    (case map_of MINOR_DIALECTS minor of
                       None \<Rightarrow> Inl (spec_error ell
                         (''Unsupported OpenAPI version '' @ py_repr fr version @ '': '' @ SUPPORTED) ''/openapi'')
                     | Some dia \<Rightarrow> Inr (document, dia)))))"

definition dialect_text :: "dialect \<Rightarrow> string" where
  "dialect_text dia = (case dia of D20 \<Rightarrow> ''2.0'' | D30 \<Rightarrow> ''3.0'' | D31 \<Rightarrow> ''3.1'' | D32 \<Rightarrow> ''3.2'')"

definition dialect_name :: "dialect \<Rightarrow> string" where
  "dialect_name dia = (if dia = D20 then ''Swagger 2.0'' else ''OpenAPI '' @ dialect_text dia)"

section \<open>Loading bytes\<close>

record loaded_spec =
  ls_document :: jdict
  ls_dialect :: dialect
  ls_sha256 :: string

text \<open>The first error of the validator, or that it raised.\<close>

datatype validator_outcome = Valid | Invalid string pointer | Validator_recursion | Validator_raised py_exc

record loader_env =
  ld_parse :: parse_env
  ld_unquote :: "string \<Rightarrow> string"
  ld_float_text :: "rat \<Rightarrow> string"
  ld_validator :: "dialect \<Rightarrow> jdict \<Rightarrow> validator_outcome"
  ld_sha256 :: "jdict \<Rightarrow> py_exc + string"        \<comment> \<open>of the canonical text, which may not be encodable\<close>

definition recap :: "string \<Rightarrow> ref_error \<Rightarrow> ref_error" where
  "recap ell e = (case e of SpecError m p \<Rightarrow> spec_error ell m p | RefRaised x \<Rightarrow> RefRaised x)"

definition validate_spec :: "loader_env \<Rightarrow> jdict \<Rightarrow> dialect \<Rightarrow> ref_error + unit" where
  "validate_spec L document dia =
     (let ell = pe_ellipsis (ld_parse L)
      in case ld_validator L dia document of
           Valid \<Rightarrow> Inr ()
         | Invalid message path \<Rightarrow>
             Inl (spec_error ell (''Spec is not a valid '' @ dialect_name dia @ '' document: '' @ message) (encode_pointer path))
         | Validator_recursion \<Rightarrow> Inl (spec_error ell ''Spec is too deeply self-referential to validate'' [])
         | Validator_raised x \<Rightarrow> Inl (RefRaised x))"

definition too_large :: "string \<Rightarrow> int \<Rightarrow> ref_error" where
  "too_large ell max_bytes =
     spec_error ell (''Spec is too large: the limit is '' @ str_int max_bytes @ '' bytes (openapi.max_spec_bytes)'') []"

text \<open>A parsed document is read as the tree it describes.\<close>

definition document_of :: "heap \<Rightarrow> nat \<Rightarrow> jdict" where
  "document_of h i = (case expand h (Suc MAX_DEPTH) (P_ref i) of Some (JObj d) \<Rightarrow> d | _ \<Rightarrow> [])"

definition load_document :: "loader_env \<Rightarrow> jdict \<Rightarrow> ref_error + loaded_spec" where
  "load_document L parsed =
     (case detect_dialect (ld_float_text L) (pe_ellipsis (ld_parse L)) parsed of
        Inl e \<Rightarrow> Inl e
      | Inr (document, dia) \<Rightarrow>
          (case check_refs (ld_unquote L) (JObj document) of
             Inl e \<Rightarrow> Inl (recap (pe_ellipsis (ld_parse L)) e)
           | Inr _ \<Rightarrow>
               (case validate_spec L document dia of
                  Inl e \<Rightarrow> Inl e
                | Inr _ \<Rightarrow>
                    (case ld_sha256 L document of
                       Inl x \<Rightarrow> Inl (RefRaised x)
                     | Inr sha \<Rightarrow> Inr \<lparr>ls_document = document, ls_dialect = dia, ls_sha256 = sha\<rparr>))))"

definition load_spec_unsandboxed :: "loader_env \<Rightarrow> string \<Rightarrow> int \<Rightarrow> ref_error + loaded_spec" where
  "load_spec_unsandboxed L bytes max_bytes =
     (if int (length bytes) > max_bytes then Inl (too_large (pe_ellipsis (ld_parse L)) max_bytes)
      else case parse_document (ld_parse L) bytes of
        Inl e \<Rightarrow> Inl e
      | Inr (h, i) \<Rightarrow> load_document L (document_of h i))"

section \<open>Fetching\<close>

text \<open>The client's answer, or its failure: the text of the exception and whether it is a timeout.\<close>

datatype fetch_outcome = Fetch_response upstream_response | Fetch_failed string bool | Fetch_deadline

definition IDENTITY_ENCODINGS :: "string list" where "IDENTITY_ENCODINGS = [[], ''identity'']"

datatype read_outcome = Read_body string | Read_refused ref_error | Read_failed string bool | Read_deadline

definition capped_read :: "string \<Rightarrow> int \<Rightarrow> upstream_response \<Rightarrow> read_outcome" where
  "capped_read ell max_bytes response =
     (case read_chunks max_bytes [] (ur_chunks response) of
        None \<Rightarrow> Read_refused (too_large ell max_bytes)
      | Some b \<Rightarrow>
          (case ur_end response of
             Body_complete \<Rightarrow> Read_body b
           | Body_failed exc timeout \<Rightarrow> Read_failed exc timeout
           | Body_deadline \<Rightarrow> Read_deadline
           | Body_raised exc \<Rightarrow> Read_refused (RefRaised (RuntimeError exc))))"

definition read_spec :: "string \<Rightarrow> int \<Rightarrow> upstream_response \<Rightarrow> read_outcome" where
  "read_spec ell max_bytes response =
     (let status = ur_status response;
          header = (\<lambda>n. or_empty (hx_get (ur_headers response) n));
          encoding = lower (strip (header ''content-encoding''));
          declared = header ''content-length''
      in if 300 \<le> status \<and> status < 400
         then Read_refused (spec_error ell
                (''The spec URL redirected (HTTP '' @ str_int status @ '') to '' @ repr_str (header ''location'')
                 @ ''. Redirects are not followed; import from the final URL instead'') [])
         else if \<not> is_success status
         then Read_refused (spec_error ell (''Fetching the spec returned HTTP '' @ str_int status) [])
         else if encoding \<notin> set IDENTITY_ENCODINGS
         then Read_refused (spec_error ell
                (''The spec server sent a compressed response (Content-Encoding: '' @ encoding
                 @ '') although none was requested. Compressed specs are refused so the size limit holds'') [])
         else if py_isdigit declared
         then (case int_text declared of
                 None \<Rightarrow> Read_refused (RefRaised (ValueError declared))
               | Some n \<Rightarrow> if n > max_bytes then Read_refused (too_large ell max_bytes)
                           else capped_read ell max_bytes response)
         else capped_read ell max_bytes response)"

record fetch_env =
  fe_brk :: "string \<Rightarrow> bool"
  fe_ellipsis :: string
  fe_float_text :: "rat \<Rightarrow> string"
  fe_get :: "string \<Rightarrow> fetch_outcome"

definition fetch_timed_out :: "fetch_env \<Rightarrow> rat \<Rightarrow> ref_error" where
  "fetch_timed_out F seconds =
     spec_error (fe_ellipsis F) (''Fetching the spec timed out after '' @ fe_float_text F seconds @ ''s'') []"

definition fetch_failed :: "fetch_env \<Rightarrow> rat \<Rightarrow> string \<Rightarrow> bool \<Rightarrow> ref_error" where
  "fetch_failed F seconds exc timeout =
     (if timeout then fetch_timed_out F seconds
      else spec_error (fe_ellipsis F) (''Could not fetch the spec: '' @ exc) [])"

definition fetch_spec_bytes :: "fetch_env \<Rightarrow> string \<Rightarrow> int \<Rightarrow> rat \<Rightarrow> ref_error + string" where
  "fetch_spec_bytes F url max_bytes seconds =
     (case urlsplit (fe_brk F) url of
        Inl x \<Rightarrow> Inl (RefRaised x)
      | Inr u \<Rightarrow>
          if u_scheme u \<notin> {''http'', ''https''} \<or> or_empty (url_hostname u) = []
          then Inl (spec_error (fe_ellipsis F) (''Spec URL must be an absolute http(s) URL, got '' @ repr_str url) [])
          else (case fe_get F url of
                  Fetch_deadline \<Rightarrow> Inl (fetch_timed_out F seconds)
                | Fetch_failed exc timeout \<Rightarrow> Inl (fetch_failed F seconds exc timeout)
                | Fetch_response response \<Rightarrow>
                    (case read_spec (fe_ellipsis F) max_bytes response of
                       Read_body b \<Rightarrow> Inr b
                     | Read_refused e \<Rightarrow> Inl e
                     | Read_failed exc timeout \<Rightarrow> Inl (fetch_failed F seconds exc timeout)
                     | Read_deadline \<Rightarrow> Inl (fetch_timed_out F seconds))))"

section \<open>The child process\<close>

record spec_limits =
  sl_max_bytes :: int
  sl_fetch_timeout :: rat
  sl_validate_timeout :: rat
  sl_memory_mb :: int

text \<open>What becomes of the child: it runs to the end, runs out of memory while loading or while answering, is still
  running at the deadline, or dies with an exit code.\<close>

datatype child_fate = Child_ran | Child_out_of_memory | Child_cannot_answer | Child_late | Child_died "int option"

datatype child_message = Message_ok loaded_spec | Message_error string string

definition child_main :: "loader_env \<Rightarrow> spec_limits \<Rightarrow> child_fate \<Rightarrow> string \<Rightarrow> child_message" where
  "child_main L limits fate bytes =
     (if fate = Child_cannot_answer
      then Message_error ''Loading the spec ran out of memory (openapi.validate_memory_mb)'' []
      else if fate = Child_out_of_memory
      then Message_error (''Loading the spec needed more than '' @ str_int (sl_memory_mb limits)
             @ '' MB of memory (openapi.validate_memory_mb)'') []
      else case load_spec_unsandboxed L bytes (sl_max_bytes limits) of
        Inr spec \<Rightarrow> Message_ok spec
      | Inl (SpecError m p) \<Rightarrow> Message_error m p
      | Inl (RefRaised x) \<Rightarrow> Message_error (''Spec could not be loaded: '' @ exc_name x @ '': '' @ exc_text x) [])"

definition crash_message :: "int option \<Rightarrow> string" where
  "crash_message exitcode =
     (let how = (case exitcode of
                   Some c \<Rightarrow> if c < 0 then ''signal '' @ str_int (- c) else ''exit '' @ str_int c
                 | None \<Rightarrow> ''exit None'')
      in ''The spec parser crashed ('' @ how @ '') and the spec was refused. Very deeply nested ''
         @ ''YAML is the usual cause'')"

definition load_in_child ::
  "loader_env \<Rightarrow> (rat \<Rightarrow> string) \<Rightarrow> spec_limits \<Rightarrow> child_fate \<Rightarrow> string \<Rightarrow> ref_error + loaded_spec" where
  "load_in_child L general limits fate bytes =
     (let ell = pe_ellipsis (ld_parse L)
      in case fate of
           Child_late \<Rightarrow> Inl (spec_error ell (''Loading the spec took longer than ''
               @ general (sl_validate_timeout limits) @ ''s and was stopped (openapi.validate_timeout_seconds)'') [])
         | Child_died exitcode \<Rightarrow> Inl (spec_error ell (crash_message exitcode) [])
         | _ \<Rightarrow> (case child_main L limits fate bytes of
                   Message_ok spec \<Rightarrow> Inr spec
                 | Message_error m p \<Rightarrow> Inl (spec_error ell m p)))"

definition load_spec ::
  "loader_env \<Rightarrow> (rat \<Rightarrow> string) \<Rightarrow> spec_limits \<Rightarrow> child_fate \<Rightarrow> string \<Rightarrow> ref_error + loaded_spec" where
  "load_spec L general limits fate bytes =
     (if int (length bytes) > sl_max_bytes limits
      then Inl (too_large (pe_ellipsis (ld_parse L)) (sl_max_bytes limits))
      else load_in_child L general limits fate bytes)"

definition load_spec_from_url ::
  "loader_env \<Rightarrow> fetch_env \<Rightarrow> (rat \<Rightarrow> string) \<Rightarrow> spec_limits \<Rightarrow> child_fate \<Rightarrow> string \<Rightarrow> ref_error + loaded_spec" where
  "load_spec_from_url L F general limits fate url =
     (case fetch_spec_bytes F url (sl_max_bytes limits) (sl_fetch_timeout limits) of
        Inl e \<Rightarrow> Inl e
      | Inr bytes \<Rightarrow> load_spec L general limits fate bytes)"

section \<open>What a snapshot is\<close>

text \<open>A document that was loaded: parsed within the bounds, of the dialect it declares, with safe references, valid and
  hashed.\<close>

definition spec_loaded :: "loader_env \<Rightarrow> loaded_spec \<Rightarrow> bool" where
  "spec_loaded L spec \<longleftrightarrow>
     (\<exists>parsed. jsize (JObj parsed) \<le> MAX_NODES \<and> jheight (JObj parsed) \<le> Suc MAX_DEPTH \<and>
        detect_dialect (ld_float_text L) (pe_ellipsis (ld_parse L)) parsed = Inr (ls_document spec, ls_dialect spec)) \<and>
     check_refs (ld_unquote L) (JObj (ls_document spec)) = Inr () \<and>
     ld_validator L (ls_dialect spec) (ls_document spec) = Valid \<and>
     ld_sha256 L (ls_document spec) = Inr (ls_sha256 spec)"

lemma load_document_ok:
  assumes "load_document L parsed = Inr spec"
  shows "detect_dialect (ld_float_text L) (pe_ellipsis (ld_parse L)) parsed = Inr (ls_document spec, ls_dialect spec)"
    "check_refs (ld_unquote L) (JObj (ls_document spec)) = Inr ()"
    "ld_validator L (ls_dialect spec) (ls_document spec) = Valid"
    "ld_sha256 L (ls_document spec) = Inr (ls_sha256 spec)"
  using assms
  by (auto simp: load_document_def validate_spec_def Let_def split: sum.splits validator_outcome.splits)

lemma load_spec_ok:
  assumes "load_spec L general limits fate bytes = Inr spec"
  shows "int (length bytes) \<le> sl_max_bytes limits \<and> spec_loaded L spec"
proof -
  from assms have small: "int (length bytes) \<le> sl_max_bytes limits"
    and "load_spec_unsandboxed L bytes (sl_max_bytes limits) = Inr spec"
    by (auto simp: load_spec_def load_in_child_def child_main_def Let_def
        split: if_splits child_fate.splits child_message.splits sum.splits ref_error.splits)
  then obtain h i where p: "parse_document (ld_parse L) bytes = Inr (h, i)" "load_document L (document_of h i) = Inr spec"
    by (auto simp: load_spec_unsandboxed_def split: if_splits sum.splits)
  from parse_document_plain[OF p(1)] obtain d where d: "expand h (Suc MAX_DEPTH) (P_ref i) = Some (JObj d)"
    "jsize (JObj d) \<le> MAX_NODES" by blast
  then have "document_of h i = d" by (simp add: document_of_def del: expand.simps)
  then show ?thesis
    using small load_document_ok[OF p(2)] d(2) expand_height[OF d(1)] unfolding spec_loaded_def by blast
qed

text \<open>A failed load is always a \<open>SpecError\<close>, whatever the document and whatever happens to the child.\<close>

lemma load_spec_refused: "load_spec L general limits fate bytes = Inl e \<Longrightarrow> refused e"
  by (auto simp: load_spec_def load_in_child_def too_large_def Let_def
      split: if_splits child_fate.splits child_message.splits)

text \<open>What is fetched has at most the allowed size.\<close>

lemma read_chunks_limit: "read_chunks limit body cs = Some b \<Longrightarrow> cs \<noteq> [] \<or> int (length body) \<le> limit \<Longrightarrow> int (length b) \<le> limit"
  by (induction limit body cs rule: read_chunks.induct) (auto simp: Let_def split: if_splits)

lemma fetch_spec_bound:
  assumes "fetch_spec_bytes F url max_bytes seconds = Inr b" "0 \<le> max_bytes"
  shows "int (length b) \<le> max_bytes"
  using assms read_chunks_limit[of max_bytes "[]"]
  by (auto simp: fetch_spec_bytes_def read_spec_def capped_read_def Let_def
      split: sum.splits if_splits fetch_outcome.splits read_outcome.splits option.splits body_end.splits)

end
