(* ===== verification/Import_Jobs.thy ===== *)
theory Import_Jobs
  imports Json
begin

text \<open>
  \<^verbatim>\<open>openapi/jobs.py\<close>: the in-memory store of OpenAPI import jobs. The fresh hexadecimal id of a job,
  the wall clock and the monotonic clock are arguments. \<open>_run\<close> is two steps, taking a slot and
  finishing, which the step relation \<open>job_step\<close> interleaves with submissions and polls.
\<close>

section \<open>Jobs\<close>

datatype job_status = Queued | Running | Succeeded | Failed

definition finished :: "job_status \<Rightarrow> bool" where
  "finished s \<longleftrightarrow> s = Succeeded \<or> s = Failed"

record import_job =
  ij_id :: string
  ij_server_id :: string
  ij_status :: job_status
  ij_created_at :: timestamp
  ij_finished_at :: "timestamp option"
  ij_outcome :: "string option"
  ij_error :: "string option"
  ij_pointer :: string
  ij_problems :: "string list"

text \<open>What the work of a job ends with.\<close>

datatype work_result =
    Work_ok string
  | Work_spec_error string string            \<comment> \<open>message and pointer\<close>
  | Work_mapping_error "string list"
  | Work_rejected string "string list"
  | Work_crashed

record job_store =
  jb_max_running :: nat
  jb_max_queued :: nat
  jb_retention :: rat
  jb_max_finished :: nat
  jb_jobs :: "(string, import_job) dict"
  jb_finished_at :: "(string, rat) dict"
  jb_slots_used :: nat

definition new_job_store :: "nat \<Rightarrow> nat \<Rightarrow> rat \<Rightarrow> nat \<Rightarrow> job_store" where
  "new_job_store max_running max_queued retention max_finished =
     \<lparr>jb_max_running = max_running, jb_max_queued = max_queued, jb_retention = retention,
      jb_max_finished = max_finished, jb_jobs = [], jb_finished_at = [], jb_slots_used = 0\<rparr>"

text \<open>The ids to forget: expired ones, and the oldest beyond the number kept. \<open>sorted\<close> is stable,
  and so is \<open>sort_key\<close>.\<close>

definition pruned_ids :: "rat \<Rightarrow> job_store \<Rightarrow> string list" where
  "pruned_ids now s =
     (let expired = map fst (filter (\<lambda>(jid, t). now - t > jb_retention s) (jb_finished_at s));
          oldest_first = map fst (sort_key snd (jb_finished_at s));
          excess = take (length oldest_first - jb_max_finished s) oldest_first
      in expired @ excess)"

definition prune :: "rat \<Rightarrow> job_store \<Rightarrow> job_store" where
  "prune now s =
     (let gone = set (pruned_ids now s)
      in s\<lparr>jb_jobs := filter (\<lambda>(k, v). k \<notin> gone) (jb_jobs s),
           jb_finished_at := filter (\<lambda>(k, v). k \<notin> gone) (jb_finished_at s)\<rparr>)"

definition waiting :: "job_store \<Rightarrow> nat" where
  "waiting s = length (filter (\<lambda>(k, j). \<not> finished (ij_status j)) (jb_jobs s))"

definition new_job :: "string \<Rightarrow> string \<Rightarrow> timestamp \<Rightarrow> import_job" where
  "new_job jid server_id now =
     \<lparr>ij_id = jid, ij_server_id = server_id, ij_status = Queued, ij_created_at = now,
      ij_finished_at = None, ij_outcome = None, ij_error = None, ij_pointer = [], ij_problems = []\<rparr>"

text \<open>\<open>submit\<close>; \<open>None\<close> stands for \<open>JobQueueFull\<close>.\<close>

definition submit ::
  "string \<Rightarrow> timestamp \<Rightarrow> rat \<Rightarrow> string \<Rightarrow> job_store \<Rightarrow> import_job option \<times> job_store" where
  "submit jid now clock server_id s =
     (let s1 = prune clock s
      in if waiting s1 \<ge> jb_max_queued s1 then (None, s1)
         else (Some (new_job jid server_id now),
               s1\<lparr>jb_jobs := AList.update jid (new_job jid server_id now) (jb_jobs s1)\<rparr>))"

definition job_get :: "rat \<Rightarrow> string \<Rightarrow> job_store \<Rightarrow> import_job option \<times> job_store" where
  "job_get clock jid s = (let s1 = prune clock s in (map_of (jb_jobs s1) jid, s1))"

definition update_job :: "string \<Rightarrow> (import_job \<Rightarrow> import_job) \<Rightarrow> job_store \<Rightarrow> job_store" where
  "update_job jid f s =
     (case map_of (jb_jobs s) jid of
        None \<Rightarrow> s
      | Some j \<Rightarrow> s\<lparr>jb_jobs := AList.update jid (f j) (jb_jobs s)\<rparr>)"

definition finish_job ::
  "timestamp \<Rightarrow> rat \<Rightarrow> string option \<Rightarrow> string option \<Rightarrow> string \<Rightarrow> string list \<Rightarrow> string
     \<Rightarrow> job_store \<Rightarrow> job_store" where
  "finish_job now clock outcome err pointer problems jid s =
     (let s1 = update_job jid
                 (\<lambda>j. j\<lparr>ij_status := (if err \<noteq> None then Failed else Succeeded), ij_finished_at := Some now,
                        ij_outcome := outcome, ij_error := err, ij_pointer := pointer,
                        ij_problems := problems\<rparr>) s
      in s1\<lparr>jb_finished_at := AList.update jid clock (jb_finished_at s1)\<rparr>)"

text \<open>Taking a slot, which the semaphore grants only while one is free.\<close>

definition start_job :: "string \<Rightarrow> job_store \<Rightarrow> job_store option" where
  "start_job jid s =
     (if jb_slots_used s < jb_max_running s
      then Some ((update_job jid (\<lambda>j. j\<lparr>ij_status := Running\<rparr>) s)\<lparr>jb_slots_used := Suc (jb_slots_used s)\<rparr>)
      else None)"

definition end_job :: "timestamp \<Rightarrow> rat \<Rightarrow> string \<Rightarrow> work_result \<Rightarrow> job_store \<Rightarrow> job_store" where
  "end_job now clock jid result s =
     (let s1 = (case result of
                  Work_ok outcome \<Rightarrow> finish_job now clock (Some outcome) None [] [] jid s
                | Work_spec_error m p \<Rightarrow> finish_job now clock None (Some m) p [] jid s
                | Work_mapping_error ps \<Rightarrow>
                    finish_job now clock None (Some ''The selection cannot be served'') [] ps jid s
                | Work_rejected m ps \<Rightarrow> finish_job now clock None (Some m) [] ps jid s
                | Work_crashed \<Rightarrow>
                    finish_job now clock None (Some ''The import failed unexpectedly; see the hub log'') [] [] jid s)
      in s1\<lparr>jb_slots_used := jb_slots_used s1 - 1\<rparr>)"

section \<open>Interleaved jobs\<close>

inductive job_step :: "job_store \<Rightarrow> job_store \<Rightarrow> bool" where
  submit: "map_of (jb_jobs s) jid = None \<Longrightarrow> map_of (jb_finished_at s) jid = None \<Longrightarrow>
    submit jid now clock server_id s = (r, s') \<Longrightarrow> job_step s s'"
| poll: "job_get clock jid s = (r, s') \<Longrightarrow> job_step s s'"
| start: "map_of (jb_jobs s) jid = Some j \<Longrightarrow> ij_status j = Queued \<Longrightarrow> start_job jid s = Some s' \<Longrightarrow>
    job_step s s'"
| finish: "map_of (jb_jobs s) jid = Some j \<Longrightarrow> ij_status j = Running \<Longrightarrow> job_step s (end_job now clock jid result s)"

inductive job_reachable :: "job_store \<Rightarrow> job_store \<Rightarrow> bool" for s0 where
  start: "job_reachable s0 s0"
| step: "job_reachable s0 s \<Longrightarrow> job_step s s' \<Longrightarrow> job_reachable s0 s'"

section \<open>Invariant\<close>

definition running :: "job_store \<Rightarrow> nat" where
  "running s = length (filter (\<lambda>(k, j). ij_status j = Running) (jb_jobs s))"

text \<open>Keys are unique, finished jobs and only those carry a finishing time, the slots in use are the
  running jobs, and both bounds hold.\<close>

definition jobs_ok :: "job_store \<Rightarrow> bool" where
  "jobs_ok s \<longleftrightarrow>
     distinct (map fst (jb_jobs s)) \<and> distinct (map fst (jb_finished_at s)) \<and>
     (\<forall>k j. map_of (jb_jobs s) k = Some j \<longrightarrow>
        (finished (ij_status j) \<longleftrightarrow> map_of (jb_finished_at s) k \<noteq> None)) \<and>
     (\<forall>k. map_of (jb_finished_at s) k \<noteq> None \<longrightarrow> map_of (jb_jobs s) k \<noteq> None) \<and>
     jb_slots_used s = running s \<and> running s \<le> jb_max_running s \<and> waiting s \<le> jb_max_queued s"

section \<open>Counting\<close>

definition count_vals :: "('v \<Rightarrow> bool) \<Rightarrow> ('k, 'v) dict \<Rightarrow> nat" where
  "count_vals P d = length (filter (\<lambda>(k, v). P v) d)"

lemma waiting_count: "waiting s = count_vals (\<lambda>j. \<not> finished (ij_status j)) (jb_jobs s)"
  by (simp add: waiting_def count_vals_def)

lemma running_count: "running s = count_vals (\<lambda>j. ij_status j = Running) (jb_jobs s)"
  by (simp add: running_def count_vals_def)

lemma count_update_new:
  "map_of d k = None \<Longrightarrow> count_vals P (AList.update k v d) = count_vals P d + (if P v then 1 else 0)"
  by (induction d) (auto simp: count_vals_def split: if_splits)

lemma count_update_old:
  "map_of d k = Some w \<Longrightarrow>
     count_vals P (AList.update k v d) + (if P w then 1 else 0) = count_vals P d + (if P v then 1 else 0)"
  by (induction d) (auto simp: count_vals_def split: if_splits)

lemma count_filter_le: "count_vals P (filter Q d) \<le> count_vals P d"
  by (induction d) (auto simp: count_vals_def)

lemma count_filter_eq: "(\<And>k v. (k, v) \<in> set d \<Longrightarrow> P v \<Longrightarrow> Q (k, v)) \<Longrightarrow> count_vals P (filter Q d) = count_vals P d"
  by (induction d) (auto simp: count_vals_def)

lemma distinct_keys_filter: "distinct (map fst d) \<Longrightarrow> distinct (map fst (filter Q d))"
  by (induction d) auto

section \<open>Every step keeps the invariant\<close>

lemma jobs_ok_new: "jobs_ok (new_job_store a b c d)"
  by (simp add: jobs_ok_def new_job_store_def running_def waiting_def)

lemma pruned_ids_finished: "k \<in> set (pruned_ids now s) \<Longrightarrow> map_of (jb_finished_at s) k \<noteq> None"
proof -
  assume "k \<in> set (pruned_ids now s)"
  then have "k \<in> fst ` set (jb_finished_at s)"
    unfolding pruned_ids_def Let_def set_append by (force dest!: in_set_takeD)
  then show ?thesis by (simp add: map_of_eq_None_iff)
qed

lemma jobs_okD:
  assumes "jobs_ok s"
  shows "distinct (map fst (jb_jobs s))" "distinct (map fst (jb_finished_at s))"
    "map_of (jb_jobs s) k = Some j \<Longrightarrow> finished (ij_status j) \<longleftrightarrow> map_of (jb_finished_at s) k \<noteq> None"
    "map_of (jb_finished_at s) k \<noteq> None \<Longrightarrow> map_of (jb_jobs s) k \<noteq> None"
    "jb_slots_used s = running s" "running s \<le> jb_max_running s" "waiting s \<le> jb_max_queued s"
  using assms unfolding jobs_ok_def by blast+

lemma jobs_okI:
  assumes "distinct (map fst (jb_jobs s))" "distinct (map fst (jb_finished_at s))"
    "\<And>k j. map_of (jb_jobs s) k = Some j \<Longrightarrow> finished (ij_status j) \<longleftrightarrow> map_of (jb_finished_at s) k \<noteq> None"
    "\<And>k. map_of (jb_finished_at s) k \<noteq> None \<Longrightarrow> map_of (jb_jobs s) k \<noteq> None"
    "jb_slots_used s = running s" "running s \<le> jb_max_running s" "waiting s \<le> jb_max_queued s"
  shows "jobs_ok s"
  using assms unfolding jobs_ok_def by blast

lemma map_of_filter_keys:
  "map_of (filter (\<lambda>(k, v). k \<notin> g) d) k = (if k \<in> g then None else map_of d k)"
  by (induction d) auto

lemma prune_frame [simp]:
  "jb_max_running (prune c s) = jb_max_running s" "jb_max_queued (prune c s) = jb_max_queued s"
  "jb_slots_used (prune c s) = jb_slots_used s" "jb_max_finished (prune c s) = jb_max_finished s"
  "jb_retention (prune c s) = jb_retention s"
  by (simp_all add: prune_def Let_def)

lemma prune_sel:
  "map_of (jb_jobs (prune c s)) k = (if k \<in> set (pruned_ids c s) then None else map_of (jb_jobs s) k)"
  "map_of (jb_finished_at (prune c s)) k =
     (if k \<in> set (pruned_ids c s) then None else map_of (jb_finished_at s) k)"
  by (simp_all add: prune_def Let_def map_of_filter_keys)

text \<open>Pruning forgets finished jobs only.\<close>

lemma prune_keeps_unfinished:
  assumes "jobs_ok s"
  shows "waiting (prune c s) = waiting s" "running (prune c s) = running s"
proof -
  have keep: "k \<notin> set (pruned_ids c s)" if "(k, j) \<in> set (jb_jobs s)" "\<not> finished (ij_status j)" for k j
  proof -
    have "map_of (jb_jobs s) k = Some j" using that(1) jobs_okD(1)[OF assms] by (rule map_of_is_SomeI[rotated])
    then have "map_of (jb_finished_at s) k = None" using that(2) jobs_okD(3)[OF assms] by blast
    then show ?thesis using pruned_ids_finished by fastforce
  qed
  have p: "jb_jobs (prune c s) = filter (\<lambda>(k, v). k \<notin> set (pruned_ids c s)) (jb_jobs s)"
    by (simp add: prune_def Let_def)
  show "waiting (prune c s) = waiting s"
    unfolding waiting_count p by (rule count_filter_eq) (use keep in auto)
  show "running (prune c s) = running s"
    unfolding running_count p by (rule count_filter_eq) (use keep in \<open>auto simp: finished_def\<close>)
qed

lemma prune_distinct:
  "jobs_ok s \<Longrightarrow> distinct (map fst (jb_jobs (prune c s))) \<and> distinct (map fst (jb_finished_at (prune c s)))"
  by (simp add: jobs_ok_def prune_def Let_def distinct_keys_filter)

lemma prune_ok:
  assumes "jobs_ok s"
  shows "jobs_ok (prune c s)"
proof (rule jobs_okI)
  show "finished (ij_status j) \<longleftrightarrow> map_of (jb_finished_at (prune c s)) k \<noteq> None"
    if "map_of (jb_jobs (prune c s)) k = Some j" for k j
    using that jobs_okD(3)[OF assms] unfolding prune_sel by (metis option.distinct(1))
  show "map_of (jb_jobs (prune c s)) k \<noteq> None" if "map_of (jb_finished_at (prune c s)) k \<noteq> None" for k
    using that jobs_okD(4)[OF assms] unfolding prune_sel by metis
qed (use prune_distinct[OF assms, of c] prune_keeps_unfinished[OF assms, of c] jobs_okD(5-7)[OF assms] in auto)

text \<open>Writing one job, with or without a finishing time.\<close>

lemma jobs_ok_write:
  assumes "jobs_ok s"
    and "s' = s\<lparr>jb_jobs := AList.update k j (jb_jobs s), jb_finished_at := f, jb_slots_used := n\<rparr>"
    and "f = (if finished (ij_status j) then AList.update k t (jb_finished_at s) else jb_finished_at s)"
    and "\<not> finished (ij_status j) \<longrightarrow> map_of (jb_finished_at s) k = None"
    and "n = running s'" "running s' \<le> jb_max_running s" "waiting s' \<le> jb_max_queued s"
  shows "jobs_ok s'"
proof (rule jobs_okI)
  have c: "jb_slots_used s' = n" "jb_max_running s' = jb_max_running s" "jb_max_queued s' = jb_max_queued s"
    by (simp_all add: assms(2))
  show "jb_slots_used s' = running s'" "running s' \<le> jb_max_running s'" "waiting s' \<le> jb_max_queued s'"
    using assms(5-7) c by simp_all
  have j: "jb_jobs s' = AList.update k j (jb_jobs s)" and f: "jb_finished_at s' = f"
    using assms(2) by simp_all
  show "distinct (map fst (jb_jobs s'))" "distinct (map fst (jb_finished_at s'))"
    using jobs_okD(1,2)[OF assms(1)] assms(3) by (auto simp: j f)
  show "finished (ij_status j') \<longleftrightarrow> map_of (jb_finished_at s') k' \<noteq> None"
    if "map_of (jb_jobs s') k' = Some j'" for k' j'
    using that jobs_okD(3)[OF assms(1), of k' j'] assms(3,4) unfolding j f map_of_update
    by (cases "k' = k") (auto simp: map_of_update)
  show "map_of (jb_jobs s') k' \<noteq> None" if "map_of (jb_finished_at s') k' \<noteq> None" for k'
    using that jobs_okD(4)[OF assms(1), of k'] assms(3) unfolding j f map_of_update
    by (cases "k' = k") (auto simp: map_of_update split: if_splits)
qed

lemma submit_ok:
  assumes "jobs_ok s" "map_of (jb_jobs s) jid = None" "map_of (jb_finished_at s) jid = None"
    and "submit jid now clock sid s = (r, s')"
  shows "jobs_ok s'"
proof -
  let ?p = "prune clock s" and ?j = "new_job jid sid now"
  have p: "jobs_ok ?p" using assms(1) by (rule prune_ok)
  have none: "map_of (jb_jobs ?p) jid = None" "map_of (jb_finished_at ?p) jid = None"
    using assms(2,3) by (simp_all add: prune_sel)
  show ?thesis
  proof (cases "waiting ?p \<ge> jb_max_queued ?p")
    case True
    then show ?thesis using assms(4) p by (simp add: submit_def Let_def)
  next
    case False
    then have s': "s' = ?p\<lparr>jb_jobs := AList.update jid ?j (jb_jobs ?p)\<rparr>"
      using assms(4) by (simp add: submit_def Let_def)
    have "running s' = running ?p" "waiting s' = Suc (waiting ?p)"
      using count_update_new[OF none(1)] by (simp_all add: s' running_count waiting_count new_job_def finished_def)
    then show ?thesis
      using False none jobs_okD(5-7)[OF p]
      by (intro jobs_ok_write[OF p, where k = jid and j = ?j and f = "jb_finished_at ?p" and n = "jb_slots_used ?p"])
         (simp_all add: s' new_job_def finished_def)
  qed
qed

lemma start_ok:
  assumes "jobs_ok s" "map_of (jb_jobs s) jid = Some j" "ij_status j = Queued" "start_job jid s = Some s'"
  shows "jobs_ok s'"
proof -
  let ?j = "j\<lparr>ij_status := Running\<rparr>"
  have s': "s' = s\<lparr>jb_jobs := AList.update jid ?j (jb_jobs s), jb_slots_used := Suc (jb_slots_used s)\<rparr>"
    and lt: "jb_slots_used s < jb_max_running s"
    using assms(2,4) by (auto simp: start_job_def update_job_def split: if_splits)
  have none: "map_of (jb_finished_at s) jid = None"
    using jobs_okD(3)[OF assms(1,2)] assms(3) by (simp add: finished_def)
  have "running s' = Suc (running s)" "waiting s' = waiting s"
    using count_update_old[OF assms(2), of "\<lambda>j. ij_status j = Running" ?j] assms(3)
      count_update_old[OF assms(2), of "\<lambda>j. \<not> finished (ij_status j)" ?j]
    by (simp_all add: s' running_count waiting_count finished_def)
  then show ?thesis
    using jobs_okD(5-7)[OF assms(1)] lt none
    by (intro jobs_ok_write[OF assms(1), where k = jid and j = ?j and f = "jb_finished_at s"
          and n = "Suc (jb_slots_used s)"])
       (simp_all add: s' finished_def)
qed

definition ended :: "timestamp \<Rightarrow> work_result \<Rightarrow> import_job \<Rightarrow> import_job" where
  "ended now result j =
     (case result of
        Work_ok outcome \<Rightarrow> j\<lparr>ij_status := Succeeded, ij_finished_at := Some now,
          ij_outcome := Some outcome, ij_error := None, ij_pointer := [], ij_problems := []\<rparr>
      | Work_spec_error m p \<Rightarrow> j\<lparr>ij_status := Failed, ij_finished_at := Some now,
          ij_outcome := None, ij_error := Some m, ij_pointer := p, ij_problems := []\<rparr>
      | Work_mapping_error ps \<Rightarrow> j\<lparr>ij_status := Failed, ij_finished_at := Some now,
          ij_outcome := None, ij_error := Some ''The selection cannot be served'', ij_pointer := [],
          ij_problems := ps\<rparr>
      | Work_rejected m ps \<Rightarrow> j\<lparr>ij_status := Failed, ij_finished_at := Some now,
          ij_outcome := None, ij_error := Some m, ij_pointer := [], ij_problems := ps\<rparr>
      | Work_crashed \<Rightarrow> j\<lparr>ij_status := Failed, ij_finished_at := Some now,
          ij_outcome := None, ij_error := Some ''The import failed unexpectedly; see the hub log'',
          ij_pointer := [], ij_problems := []\<rparr>)"

lemma finished_ended: "finished (ij_status (ended now result j))"
  by (cases result) (simp_all add: ended_def finished_def)

lemma end_job_eq:
  assumes "map_of (jb_jobs s) jid = Some j"
  shows "end_job now clock jid result s =
       s\<lparr>jb_jobs := AList.update jid (ended now result j) (jb_jobs s),
         jb_finished_at := AList.update jid clock (jb_finished_at s),
         jb_slots_used := jb_slots_used s - 1\<rparr>"
  using assms by (cases result) (simp_all add: end_job_def finish_job_def update_job_def Let_def ended_def)

lemma end_ok:
  assumes "jobs_ok s" "map_of (jb_jobs s) jid = Some j" "ij_status j = Running"
  shows "jobs_ok (end_job now clock jid result s)"
proof -
  define j' where "j' = ended now result j"
  have j': "finished (ij_status j')" by (simp add: j'_def finished_ended)
  have e: "end_job now clock jid result s =
       s\<lparr>jb_jobs := AList.update jid j' (jb_jobs s),
         jb_finished_at := AList.update jid clock (jb_finished_at s),
         jb_slots_used := jb_slots_used s - 1\<rparr>" (is "_ = ?s'")
    using end_job_eq[OF assms(2)] by (simp add: j'_def)
  have c: "Suc (running ?s') = running s" "waiting ?s' \<le> waiting s"
    using count_update_old[OF assms(2), of "\<lambda>j. ij_status j = Running" j'] assms(3) j'
      count_update_old[OF assms(2), of "\<lambda>j. \<not> finished (ij_status j)" j']
    by (auto simp: running_count waiting_count finished_def)
  have r: "jb_slots_used s = running s" "running s \<le> jb_max_running s" "waiting s \<le> jb_max_queued s"
    using assms(1) by (simp_all add: jobs_ok_def)
  have "jobs_ok ?s'"
    by (rule jobs_ok_write[OF assms(1) refl]) (use c r j' in simp_all)
  then show ?thesis by (simp add: e)
qed

lemma job_step_ok: "job_step s s' \<Longrightarrow> jobs_ok s \<Longrightarrow> jobs_ok s'"
  by (induction rule: job_step.induct)
     (auto intro: submit_ok start_ok end_ok prune_ok simp: job_get_def Let_def)

lemma job_reachable_ok: "job_reachable s0 s \<Longrightarrow> jobs_ok s0 \<Longrightarrow> jobs_ok s"
  by (induction rule: job_reachable.induct) (auto intro: job_step_ok)

text \<open>After pruning, at most the configured number of finished jobs is remembered.\<close>

lemma prune_bound:
  assumes "distinct (map fst (jb_finished_at s))"
  shows "length (jb_finished_at (prune c s)) \<le> jb_max_finished s"
proof -
  let ?f = "jb_finished_at s" and ?m = "jb_max_finished s"
  let ?o = "map fst (sort_key snd ?f)"
  let ?kept = "filter (\<lambda>(k, v). k \<notin> set (pruned_ids c s)) ?f"
  have "set (map fst ?kept) \<subseteq> set (drop (length ?o - ?m) ?o)"
  proof
    fix k assume "k \<in> set (map fst ?kept)"
    then have "k \<in> fst ` set ?f" "k \<notin> set (take (length ?o - ?m) ?o)"
      by (auto simp: pruned_ids_def Let_def)
    moreover have "k \<in> set ?o" using calculation(1) by simp
    ultimately show "k \<in> set (drop (length ?o - ?m) ?o)"
      by (metis Un_iff append_take_drop_id set_append)
  qed
  then have "card (set (map fst ?kept)) \<le> length (drop (length ?o - ?m) ?o)"
    by (meson List.finite_set card_length card_mono le_trans)
  moreover have "card (set (map fst ?kept)) = length ?kept"
    using assms distinct_keys_filter distinct_card by (metis length_map)
  ultimately show ?thesis by (simp add: prune_def Let_def)
qed

text \<open>A job submitted by a reachable store is found by the next poll.\<close>

lemma submit_then_get:
  assumes "jobs_ok s" "map_of (jb_finished_at s) jid = None"
    and "submit jid now c1 sid s = (Some j, s')"
  shows "fst (job_get c2 jid s') = Some j"
proof -
  have s': "s' = (prune c1 s)\<lparr>jb_jobs := AList.update jid j (jb_jobs (prune c1 s))\<rparr>"
    using assms(3) by (auto simp: submit_def Let_def split: if_splits)
  have "map_of (jb_finished_at s') jid = None" using assms(2) by (simp add: s' prune_sel)
  then have "jid \<notin> set (pruned_ids c2 s')" using pruned_ids_finished by fastforce
  then show ?thesis by (simp add: job_get_def Let_def prune_sel) (simp add: s' map_of_update)
qed

end
