(* ===== verification/Importer.thy ===== *)
theory Importer
  imports Discovery Spec_Loader Import_Jobs
begin

text \<open>
  \<^verbatim>\<open>openapi/importer.py\<close>, with the fields \<^verbatim>\<open>models/register_request.py\<close> keeps on a re-registration: what an import job does and
  the rules for changing a server's tools. A request is a record of its fields after pydantic has read them, with the names of the fields
  that were sent; the validators of the two models are functions on it. \<open>model_copy\<close> is a record update. The lock of a server
  makes the read-modify-write one step.
\<close>

section \<open>Requests\<close>

record server_settings =
  st_base_url :: string
  st_name :: string
  st_description :: string
  st_tags :: "string list option"
  st_required_scope :: string
  st_auth_type :: auth_type
  st_bearer_token :: string
  st_basic_username :: string
  st_basic_password :: string
  st_oauth_token_url :: string
  st_oauth_client_id :: string
  st_oauth_client_secret :: string
  st_oauth_scope :: string
  st_oauth_resource :: string
  st_obo_audience :: string
  st_obo_resource :: string
  st_obo_scope :: string
  st_obo_actor_token_source :: actor_token_source
  st_ema_resource_as_issuer :: string
  st_ema_resource_as_token_url :: string
  st_ema_resource_id :: string
  st_ema_subject_token_type :: subject_token_type
  st_api_key_name :: string
  st_api_key_in :: string
  st_api_key_value :: string
  st_sent :: "string list"

record import_request = server_settings +
  rq_id :: string
  rq_spec :: string
  rq_spec_url :: string
  rq_selection :: "operation_ref list option"
  rq_overrides :: "operation_override list option"
  rq_health_probe :: "operation_ref option"

definition sent :: "('z) server_settings_scheme \<Rightarrow> string \<Rightarrow> bool" where
  "sent r field \<longleftrightarrow> field \<in> set (st_sent r)"

definition header_token_char :: "char \<Rightarrow> bool" where
  "header_token_char c \<longleftrightarrow> is_digit c \<or> is_ascii_alpha c \<or> c \<in> set ([CHR 0x27, CHR 0x60] @ ''!#$%&*+.^_|~-'')"

definition validate_base_url :: "(string \<Rightarrow> bool) \<Rightarrow> string \<Rightarrow> string + unit" where
  "validate_base_url brk url =
     (case urlsplit brk url of
        Inl e \<Rightarrow> Inl (exc_text e)
      | Inr u \<Rightarrow>
          if u_scheme u \<notin> {''http'', ''https''} \<or> url_hostname u = None
          then Inl ''base_url must be an absolute http(s) URL''
          else if url_username u \<noteq> None \<or> url_password u \<noteq> None
          then Inl ''base_url must not contain credentials; use the auth fields''
          else if u_query u \<noteq> [] \<or> u_fragment u \<noteq> [] \<or> endswith url ''?'' \<or> endswith url ''#''
          then Inl ''base_url must not have a query or fragment''
          else Inr ())"

definition validate_api_key :: "('z) server_settings_scheme \<Rightarrow> string + unit" where
  "validate_api_key r =
     (let name = st_api_key_name r
      in if name = [] then Inl ''auth_type api_key needs api_key_name''
         else if st_api_key_in r \<notin> {''header'', ''query''} then Inl (''api_key_in must be '' @ repr_str ''header'' @ '' or '' @ repr_str ''query'')
         else if st_api_key_in r = ''header'' \<and>
                 (\<not> list_all header_token_char name \<or> lower name \<in> set DROPPED_HEADERS - {''authorization''})
         then Inl (''api_key_name '' @ repr_str name @ '' cannot carry an API key header'')
         else if list_ex (\<lambda>c. (of_char c :: nat) < 0x20 \<or> of_char c = (0x7F :: nat)) (st_api_key_value r)
         then Inl ''api_key_value must not contain control characters''
         else Inr ())"

definition validate_settings :: "(string \<Rightarrow> bool) \<Rightarrow> ('z) server_settings_scheme \<Rightarrow> string + unit" where
  "validate_settings brk r =
     (case (if st_base_url r \<noteq> [] then validate_base_url brk (st_base_url r) else Inr ()) of
        Inl e \<Rightarrow> Inl e
      | Inr _ \<Rightarrow>
          (case (if st_auth_type r = AT_api_key \<or> st_api_key_name r \<noteq> [] \<or> st_api_key_in r \<noteq> []
                 then validate_api_key r else Inr ()) of
             Inl e \<Rightarrow> Inl e
           | Inr _ \<Rightarrow>
               if st_auth_type r = AT_oauth \<and> st_oauth_token_url r = []
               then Inl ''auth_type oauth needs oauth_token_url for an OpenAPI server'' else Inr ()))"

definition strip_settings :: "('z) server_settings_scheme \<Rightarrow> ('z) server_settings_scheme" where
  "strip_settings r = r\<lparr>st_base_url := strip (st_base_url r)\<rparr>"

definition read_settings :: "(string \<Rightarrow> bool) \<Rightarrow> server_settings \<Rightarrow> string + server_settings" where
  "read_settings brk r = map_sum (\<lambda>e. e) (\<lambda>_. strip_settings r) (validate_settings brk (strip_settings r))"

definition validate_spec_source :: "import_request \<Rightarrow> string + unit" where
  "validate_spec_source r =
     (if (rq_spec r \<noteq> []) = (rq_spec_url r \<noteq> []) then Inl ''send exactly one of spec (the document) or spec_url''
      else Inr ())"

definition read_import :: "(string \<Rightarrow> bool) \<Rightarrow> import_request \<Rightarrow> string + import_request" where
  "read_import brk raw =
     (let r = (strip_settings raw)\<lparr>rq_id := strip (rq_id raw), rq_spec_url := strip (rq_spec_url raw)\<rparr>
      in if rq_id r = [] then Inl ''id is required''
         else case validate_settings brk r of
           Inl e \<Rightarrow> Inl e
         | Inr _ \<Rightarrow> map_sum (\<lambda>e. e) (\<lambda>_. r) (validate_spec_source r))"

section \<open>Settings that keep what is stored\<close>

definition KEPT_ON_REREGISTRATION :: "string list" where
  "KEPT_ON_REREGISTRATION =
     [''auth_type'', ''obo_audience'', ''obo_resource'', ''obo_scope'', ''obo_actor_token_source'',
      ''ema_resource_as_issuer'', ''ema_resource_as_token_url'', ''ema_resource_id'', ''ema_subject_token_type'',
      ''required_scope'', ''bearer_token'', ''basic_username'', ''basic_password'', ''oauth_discovery_url'',
      ''oauth_token_url'', ''oauth_client_id'', ''oauth_client_secret'', ''oauth_scope'', ''oauth_resource'']"

definition KEPT_HERE :: "string list" where
  "KEPT_HERE = [''api_key_name'', ''api_key_in'', ''api_key_value'', ''openapi_base_url'', ''name'', ''description'']"

definition key_place :: "string \<Rightarrow> api_key_in" where
  "key_place s = (if s = ''header'' then KI_header else if s = ''query'' then KI_query else KI_unset)"

text \<open>A field of a request that is copied to the server: its name, whether its value is true, and the assignment.\<close>

type_synonym 'r field_copy = "string \<times> ('r \<Rightarrow> bool) \<times> ('r \<Rightarrow> registered_server \<Rightarrow> registered_server)"

definition CREDENTIAL_FIELDS :: "('z) server_settings_scheme field_copy list" where
  "CREDENTIAL_FIELDS =
     [(''required_scope'', \<lambda>r. st_required_scope r \<noteq> [], \<lambda>r s. s\<lparr>srv_required_scope := st_required_scope r\<rparr>),
      (''auth_type'', \<lambda>r. st_auth_type r \<noteq> AT_unset, \<lambda>r s. s\<lparr>srv_auth_type := st_auth_type r\<rparr>),
      (''bearer_token'', \<lambda>r. st_bearer_token r \<noteq> [], \<lambda>r s. s\<lparr>srv_bearer_token := st_bearer_token r\<rparr>),
      (''basic_username'', \<lambda>r. st_basic_username r \<noteq> [], \<lambda>r s. s\<lparr>srv_basic_username := st_basic_username r\<rparr>),
      (''basic_password'', \<lambda>r. st_basic_password r \<noteq> [], \<lambda>r s. s\<lparr>srv_basic_password := st_basic_password r\<rparr>),
      (''oauth_token_url'', \<lambda>r. st_oauth_token_url r \<noteq> [], \<lambda>r s. s\<lparr>srv_oauth_token_url := st_oauth_token_url r\<rparr>),
      (''oauth_client_id'', \<lambda>r. st_oauth_client_id r \<noteq> [], \<lambda>r s. s\<lparr>srv_oauth_client_id := st_oauth_client_id r\<rparr>),
      (''oauth_client_secret'', \<lambda>r. st_oauth_client_secret r \<noteq> [],
         \<lambda>r s. s\<lparr>srv_oauth_client_secret := st_oauth_client_secret r\<rparr>),
      (''oauth_scope'', \<lambda>r. st_oauth_scope r \<noteq> [], \<lambda>r s. s\<lparr>srv_oauth_scope := st_oauth_scope r\<rparr>),
      (''oauth_resource'', \<lambda>r. st_oauth_resource r \<noteq> [], \<lambda>r s. s\<lparr>srv_oauth_resource := st_oauth_resource r\<rparr>),
      (''obo_audience'', \<lambda>r. st_obo_audience r \<noteq> [], \<lambda>r s. s\<lparr>srv_obo_audience := st_obo_audience r\<rparr>),
      (''obo_resource'', \<lambda>r. st_obo_resource r \<noteq> [], \<lambda>r s. s\<lparr>srv_obo_resource := st_obo_resource r\<rparr>),
      (''obo_scope'', \<lambda>r. st_obo_scope r \<noteq> [], \<lambda>r s. s\<lparr>srv_obo_scope := st_obo_scope r\<rparr>),
      (''obo_actor_token_source'', \<lambda>r. True, \<lambda>r s. s\<lparr>srv_obo_actor_token_source := st_obo_actor_token_source r\<rparr>),
      (''ema_resource_as_issuer'', \<lambda>r. st_ema_resource_as_issuer r \<noteq> [],
         \<lambda>r s. s\<lparr>srv_ema_resource_as_issuer := st_ema_resource_as_issuer r\<rparr>),
      (''ema_resource_as_token_url'', \<lambda>r. st_ema_resource_as_token_url r \<noteq> [],
         \<lambda>r s. s\<lparr>srv_ema_resource_as_token_url := st_ema_resource_as_token_url r\<rparr>),
      (''ema_resource_id'', \<lambda>r. st_ema_resource_id r \<noteq> [], \<lambda>r s. s\<lparr>srv_ema_resource_id := st_ema_resource_id r\<rparr>),
      (''ema_subject_token_type'', \<lambda>r. True, \<lambda>r s. s\<lparr>srv_ema_subject_token_type := st_ema_subject_token_type r\<rparr>),
      (''api_key_name'', \<lambda>r. st_api_key_name r \<noteq> [], \<lambda>r s. s\<lparr>srv_api_key_name := st_api_key_name r\<rparr>),
      (''api_key_in'', \<lambda>r. st_api_key_in r \<noteq> [], \<lambda>r s. s\<lparr>srv_api_key_in := key_place (st_api_key_in r)\<rparr>),
      (''api_key_value'', \<lambda>r. st_api_key_value r \<noteq> [], \<lambda>r s. s\<lparr>srv_api_key_value := st_api_key_value r\<rparr>)]"

definition SETTINGS_FIELDS :: "('z) server_settings_scheme field_copy list" where
  "SETTINGS_FIELDS =
     CREDENTIAL_FIELDS @
     [(''openapi_base_url'', \<lambda>r. st_base_url r \<noteq> [], \<lambda>r s. s\<lparr>srv_openapi_base_url := st_base_url r\<rparr>),
      (''name'', \<lambda>r. st_name r \<noteq> [], \<lambda>r s. s\<lparr>srv_name := st_name r\<rparr>),
      (''description'', \<lambda>r. st_description r \<noteq> [], \<lambda>r s. s\<lparr>srv_description := st_description r\<rparr>)]"

definition copy_fields :: "'r field_copy list \<Rightarrow> 'r \<Rightarrow> registered_server \<Rightarrow> registered_server" where
  "copy_fields copies r s = fold (\<lambda>(name, isset, assign) s. assign r s) copies s"

text \<open>The server with the fields a request changes on it.\<close>

definition settings_update :: "('z) server_settings_scheme \<Rightarrow> registered_server \<Rightarrow> registered_server" where
  "settings_update r existing =
     (let kept = KEPT_ON_REREGISTRATION @ KEPT_HERE;
          updated = copy_fields (filter (\<lambda>(name, isset, assign). isset r \<or> name \<notin> set kept) SETTINGS_FIELDS) r existing
      in case st_tags r of Some tags \<Rightarrow> updated\<lparr>srv_tags := tags\<rparr> | None \<Rightarrow> updated)"

section \<open>Choices\<close>

definition plain_path :: "string \<Rightarrow> bool" where
  "plain_path p \<longleftrightarrow> startswith p ''/'' \<and> CHR ''?'' \<notin> set p \<and> CHR ''#'' \<notin> set p"

definition join_texts :: "json \<Rightarrow> string py" where
  "join_texts v =
     bind_py (py_iter v) (\<lambda>xs. if list_all is_str xs
        then Inr (join '', '' (map (\<lambda>x. case x of JStr s \<Rightarrow> s | _ \<Rightarrow> []) xs))
        else Inl (TypeError ''sequence item: expected str instance''))"

definition mapped_at :: "operation_key \<Rightarrow> mapped_operation list \<Rightarrow> mapped_operation option" where
  "mapped_at k ms = find (\<lambda>m. mo_key m = k) (rev ms)"

definition probe_tool_problem :: "string \<Rightarrow> mapped_operation option \<Rightarrow> string option py" where
  "probe_tool_problem label operation =
     (case operation of
        None \<Rightarrow> Inr (Some (label @ '' is not in the spec''))
      | Some m \<Rightarrow>
          (case mo_tool m of
             None \<Rightarrow> Inr (Some (label @ '' cannot be used: '' @ join ''; '' (mo_unsupported m)))
           | Some t \<Rightarrow>
               (let required = jget_or (td_input_schema t) ''required'' (JList [])
                in if truthy required
                   then bind_py (join_texts required) (\<lambda>names.
                          Inr (Some (label @ '' has required parameters ('' @ names @ ''), so it cannot run on its own'')))
                   else Inr None)))"

definition health_probe_problem ::
  "map_env \<Rightarrow> registered_server \<Rightarrow> operation_ref \<Rightarrow> int \<Rightarrow> string option run" where
  "health_probe_problem M server probe limit =
     (let label = ''health probe '' @ or_method probe @ '' '' @ or_path probe;
          path = or_path probe
      in if or_method probe \<noteq> ''GET'' then ret (Some (label @ '': the health probe must be a GET operation''))
         else if \<not> plain_path path \<or> contains (path @ ''/'') ''/../'' \<or> contains (path @ ''/'') ''/./''
         then ret (Some (label @ '': the health probe must be a plain path (no '' @ [CHR 0x27] @ ''..'' @ [CHR 0x27]
                @ '', '' @ [CHR 0x27] @ ''.'' @ [CHR 0x27] @ '', '' @ [CHR 0x27] @ ''?'' @ [CHR 0x27] @ '' or ''
                @ [CHR 0x27] @ ''#'' @ [CHR 0x27] @ '')''))
         else bind_run (openapi_preview M server limit) (\<lambda>ms.
                Some (probe_tool_problem label (mapped_at (ref_key probe) ms))))"

definition base_url_problems :: "registered_server \<Rightarrow> string list" where
  "base_url_problems server =
     (if srv_openapi_base_url server = [] \<and>
         (srv_openapi_selection server \<noteq> [] \<or> srv_openapi_health_probe server \<noteq> None)
      then [''set a base URL (PATCH /v1/openapi/servers/{id}/settings) before enabling tools or a health probe'']
      else [])"

text \<open>The problems of \<open>MappingError\<close>; none when the choices can be served.\<close>

definition check_choices :: "map_env \<Rightarrow> registered_server \<Rightarrow> int \<Rightarrow> string list run" where
  "check_choices M server limit =
     bind_run (openapi_tools M server limit None) (\<lambda>r.
     bind_run (case srv_openapi_health_probe server of
                 None \<Rightarrow> ret None
               | Some probe \<Rightarrow> health_probe_problem M server probe limit) (\<lambda>probe_problem.
       ret (base_url_problems server
            @ (case r of Inl problems \<Rightarrow> problems | Inr _ \<Rightarrow> [])
            @ (case probe_problem of Some p \<Rightarrow> if p \<noteq> [] then [p] else [] | None \<Rightarrow> []))))"

text \<open>A checked server, or the problems of \<open>MappingError\<close>.\<close>

definition checked :: "map_env \<Rightarrow> int \<Rightarrow> registered_server \<Rightarrow> (string list + registered_server) run" where
  "checked M limit candidate =
     bind_run (check_choices M candidate limit) (\<lambda>problems.
       ret (if problems \<noteq> [] then Inl problems else Inr candidate))"

definition apply_settings ::
  "map_env \<Rightarrow> registered_server \<Rightarrow> server_settings \<Rightarrow> int \<Rightarrow> (string list + registered_server) run" where
  "apply_settings M existing r limit = checked M limit (settings_update r existing)"

definition or_none :: "'a list option \<Rightarrow> 'a list" where
  "or_none xs = (case xs of Some ys \<Rightarrow> ys | None \<Rightarrow> [])"

definition with_choices ::
  "(string \<Rightarrow> bool) \<Rightarrow> operation_ref list option \<Rightarrow> operation_override list option \<Rightarrow> operation_ref option
     \<Rightarrow> registered_server \<Rightarrow> registered_server" where
  "with_choices was_sent selection overrides probe s =
     (let s1 = (if was_sent ''selection'' then s\<lparr>srv_openapi_selection := or_none selection\<rparr> else s);
          s2 = (if was_sent ''overrides'' then s1\<lparr>srv_openapi_overrides := or_none overrides\<rparr> else s1)
      in if was_sent ''health_probe'' then s2\<lparr>srv_openapi_health_probe := probe\<rparr> else s2)"

definition apply_choices ::
  "map_env \<Rightarrow> registered_server \<Rightarrow> operation_ref list option \<Rightarrow> operation_override list option \<Rightarrow> operation_ref option
     \<Rightarrow> string list \<Rightarrow> int \<Rightarrow> (string list + registered_server) run" where
  "apply_choices M server selection overrides probe sent_fields limit =
     checked M limit (with_choices (\<lambda>f. f \<in> set sent_fields) selection overrides probe server)"

section \<open>The job\<close>

definition new_openapi_server :: "timestamp \<Rightarrow> import_request \<Rightarrow> openapi_snapshot \<Rightarrow> registered_server" where
  "new_openapi_server now r snapshot =
     synthesize_stdio_url
       (copy_fields CREDENTIAL_FIELDS r
         ((new_server (rq_id r) [])
            \<lparr>srv_transport_kind := TK_openapi, srv_mcp_transport := MT_openapi, srv_openapi_base_url := st_base_url r,
             srv_openapi_snapshot := Some snapshot, srv_openapi_selection := or_none (rq_selection r),
             srv_openapi_overrides := or_none (rq_overrides r), srv_openapi_health_probe := rq_health_probe r,
             srv_name := st_name r, srv_description := st_description r, srv_tags := or_none (st_tags r),
             srv_registration_type := RT_manual, srv_healthy := True, srv_last_checked := Some now\<rparr>))"

definition updated_server ::
  "registered_server \<Rightarrow> import_request \<Rightarrow> openapi_snapshot \<Rightarrow> registered_server \<times> string" where
  "updated_server existing r snapshot =
     (let s = with_choices (sent r) (rq_selection r) (rq_overrides r) (rq_health_probe r) (settings_update r existing)
      in case srv_openapi_snapshot existing of
           None \<Rightarrow> (s\<lparr>srv_openapi_snapshot := Some snapshot\<rparr>, ''created'')
         | Some accepted \<Rightarrow>
             if os_sha256 accepted = os_sha256 snapshot then (s, ''spec_unchanged'')
             else (s\<lparr>srv_openapi_pending := Some snapshot\<rparr>, ''revision_pending''))"

datatype import_error =
    Import_spec ref_error
  | Import_mapping "string list"
  | Import_rejected string "string list"
  | Import_raised py_exc
  | Import_discovery discovery_error

record 's import_env =
  im_loader :: loader_env
  im_fetch :: fetch_env
  im_general :: "rat \<Rightarrow> string"
  im_limits :: spec_limits
  im_fate :: child_fate
  im_discovery :: "'s discovery_env"

definition encode_utf8 :: "string \<Rightarrow> string" where
  "encode_utf8 s = map char_of (concat (map utf8 s))"

definition load_request :: "'s import_env \<Rightarrow> import_request \<Rightarrow> ref_error + loaded_spec" where
  "load_request E r =
     (if rq_spec_url r \<noteq> []
      then load_spec_from_url (im_loader E) (im_fetch E) (im_general E) (im_limits E) (im_fate E) (rq_spec_url r)
      else load_spec (im_loader E) (im_general E) (im_limits E) (im_fate E) (encode_utf8 (rq_spec r)))"

definition snapshot_of :: "timestamp \<Rightarrow> string \<Rightarrow> loaded_spec \<Rightarrow> openapi_snapshot" where
  "snapshot_of now source_url spec =
     \<lparr>os_document = ls_document spec, os_dialect = ls_dialect spec, os_sha256 = ls_sha256 spec,
      os_source_url = source_url, os_loaded_at = Some now\<rparr>"

text \<open>The locked part: check, store and discover.\<close>

definition register_checked ::
  "'s discovery_env \<Rightarrow> registered_server \<Rightarrow> string \<Rightarrow> 's discovery_state
     \<Rightarrow> ((import_error + string) \<times> 's discovery_state) option" where
  "register_checked D server outcome st =
     (case check_choices (dv_map D) server (dv_description_limit D) of
        None \<Rightarrow> None
      | Some (Inl e) \<Rightarrow> Some (Inl (Import_raised e), st)
      | Some (Inr problems) \<Rightarrow>
          if problems \<noteq> [] then Some (Inl (Import_mapping problems), st)
          else (case store_server D server st of
                  (Some e, st1) \<Rightarrow> Some (Inl (Import_discovery e), st1)
                | (None, st1) \<Rightarrow>
                    (case discover_immediately D DISCOVERY_TIMEOUT server st1 of
                       None \<Rightarrow> None
                     | Some (Some e, st2) \<Rightarrow> Some (Inl (Import_discovery e), st2)
                     | Some (None, st2) \<Rightarrow> Some (Inr outcome, st2))))"

definition store_import ::
  "'s discovery_env \<Rightarrow> import_request \<Rightarrow> openapi_snapshot \<Rightarrow> 's discovery_state
     \<Rightarrow> ((import_error + string) \<times> 's discovery_state) option" where
  "store_import D r snapshot st =
     (case reg_get (dv_ops D) (ds_registry st) (rq_id r) of
        None \<Rightarrow> register_checked D (new_openapi_server (dv_now D) r snapshot) ''created'' st
      | Some existing \<Rightarrow>
          if \<not> is_openapi existing
          then Some (Inl (Import_rejected (repr_str (rq_id r) @ '' is already registered as a non-OpenAPI server'') []), st)
          else (case updated_server existing r snapshot of
                  (server, outcome) \<Rightarrow> register_checked D server outcome st))"

definition run_import ::
  "'s import_env \<Rightarrow> import_request \<Rightarrow> 's discovery_state \<Rightarrow> ((import_error + string) \<times> 's discovery_state) option" where
  "run_import E r st =
     (case load_request E r of
        Inl e \<Rightarrow> Some (Inl (Import_spec e), st)
      | Inr spec \<Rightarrow>
          store_import (im_discovery E) r (snapshot_of (dv_now (im_discovery E)) (rq_spec_url r) spec) st)"

text \<open>What the job store makes of it.\<close>

fun import_work :: "import_error + string \<Rightarrow> work_result" where
  "import_work (Inr outcome) = Work_ok outcome"
| "import_work (Inl (Import_spec (SpecError m p))) = Work_spec_error m p"
| "import_work (Inl (Import_mapping problems)) = Work_mapping_error problems"
| "import_work (Inl (Import_rejected m problems)) = Work_rejected m problems"
| "import_work (Inl e) = Work_crashed"

end
