(* ===== verification/Import_Facts.thy ===== *)
theory Import_Facts
  imports Importer
begin

text \<open>
  Facts of \<^verbatim>\<open>Importer\<close>: what an update of the settings leaves alone, what a stored server was checked for, and what an import
  does to the registry.
\<close>

section \<open>Copied fields\<close>

lemma copies_keep:
  assumes "set copies \<subseteq> set all" "\<forall>c \<in> set all. \<forall>s. g (snd (snd c) r s) = g s"
  shows "g (copy_fields copies r s) = g s"
  using assms unfolding copy_fields_def
  by (induction copies arbitrary: s) (auto simp: case_prod_beta)

text \<open>What a request's settings cannot touch.\<close>

definition spec_view where
  "spec_view s = (srv_id s, srv_url s, srv_transport_kind s, srv_openapi_snapshot s, srv_openapi_pending s, health_view s)"

definition choice_view where
  "choice_view s = (srv_openapi_selection s, srv_openapi_overrides s, srv_openapi_health_probe s)"

lemma settings_fields_keep:
  "\<forall>c \<in> set SETTINGS_FIELDS. \<forall>s. spec_view (snd (snd c) r s) = spec_view s"
  "\<forall>c \<in> set SETTINGS_FIELDS. \<forall>s. choice_view (snd (snd c) r s) = choice_view s"
  by (simp_all add: SETTINGS_FIELDS_def CREDENTIAL_FIELDS_def spec_view_def choice_view_def health_view_def)

lemma settings_update_keeps:
  "spec_view (settings_update r s) = spec_view s"
  "choice_view (settings_update r s) = choice_view s"
proof -
  let ?fs = "filter (\<lambda>(name, isset, assign). isset r \<or> name \<notin> set (KEPT_ON_REREGISTRATION @ KEPT_HERE)) SETTINGS_FIELDS"
  have "spec_view (copy_fields ?fs r s) = spec_view s" "choice_view (copy_fields ?fs r s) = choice_view s"
    by (rule copies_keep[OF filter_is_subset], rule settings_fields_keep)+
  then show "spec_view (settings_update r s) = spec_view s" "choice_view (settings_update r s) = choice_view s"
    by (auto simp: settings_update_def Let_def spec_view_def choice_view_def health_view_def split: option.split)
qed

text \<open>A request that sends nothing but an address keeps every setting except the two whose default is not empty.\<close>

definition blank_settings :: "('z) server_settings_scheme \<Rightarrow> bool" where
  "blank_settings r \<longleftrightarrow>
     list_all (\<lambda>(name, isset, assign). isset r \<longrightarrow> name \<in> {''obo_actor_token_source'', ''ema_subject_token_type''})
       SETTINGS_FIELDS \<and> st_tags r = None"

lemma blank_settings_update:
  "blank_settings r \<Longrightarrow>
     settings_update r s = s\<lparr>srv_obo_actor_token_source := st_obo_actor_token_source r,
                             srv_ema_subject_token_type := st_ema_subject_token_type r\<rparr>"
  by (simp add: blank_settings_def settings_update_def copy_fields_def SETTINGS_FIELDS_def CREDENTIAL_FIELDS_def
      KEPT_ON_REREGISTRATION_def KEPT_HERE_def)

text \<open>A secret that is sent empty is kept, and one that is sent replaces the stored one.\<close>

definition credential_view where
  "credential_view s =
     (srv_bearer_token s, srv_basic_password s, srv_oauth_client_secret s, srv_api_key_value s)"

definition sent_or :: "string \<Rightarrow> string \<Rightarrow> string" where
  "sent_or new old = (if new \<noteq> [] then new else old)"

lemma copy_fields_append: "copy_fields (xs @ ys) r s = copy_fields ys r (copy_fields xs r s)"
  by (simp add: copy_fields_def)

lemma copied_field:
  assumes "copies = xs @ c # ys" "\<forall>c \<in> set ys. \<forall>s. g (snd (snd c) r s) = g s" "\<forall>c \<in> set xs. \<forall>s. g (snd (snd c) r s) = g s"
    and "\<And>s. g (snd (snd c) r s) = v"
  shows "g (copy_fields (filter P copies) r s) = (if P c then v else g s)"
proof -
  have ys: "g (copy_fields (filter P ys) r s) = g s" for s
    by (rule copies_keep[OF filter_is_subset assms(2)])
  have xs: "g (copy_fields (filter P xs) r s) = g s" for s
    by (rule copies_keep[OF filter_is_subset assms(3)])
  have "copy_fields [c] r s = snd (snd c) r s" for s by (simp add: copy_fields_def case_prod_beta)
  moreover have "filter P copies = filter P xs @ (if P c then [c] else []) @ filter P ys" by (simp add: assms(1))
  moreover have "copy_fields [] r s = s" for s by (simp add: copy_fields_def)
  ultimately show ?thesis by (simp add: copy_fields_append ys xs assms(4))
qed

lemma settings_field:
  assumes "n < length (SETTINGS_FIELDS :: ('z) server_settings_scheme field_copy list)" "SETTINGS_FIELDS ! n = (name, isset, assign)"
    and "list_all (\<lambda>c. \<forall>s. g (snd (snd c) r s) = g s) (take n SETTINGS_FIELDS @ drop (Suc n) SETTINGS_FIELDS)"
    and "\<And>s. g (assign r s) = v" "name \<in> set (KEPT_ON_REREGISTRATION @ KEPT_HERE)" "\<And>s tags. g (s\<lparr>srv_tags := tags\<rparr>) = g s"
  shows "g (settings_update (r :: ('z) server_settings_scheme) s) = (if isset r then v else g s)"
proof -
  let ?kept = "\<lambda>(name, isset, assign). isset r \<or> name \<notin> set (KEPT_ON_REREGISTRATION @ KEPT_HERE)"
  have "SETTINGS_FIELDS = take n SETTINGS_FIELDS @ (name, isset, assign) # drop (Suc n) SETTINGS_FIELDS"
    using id_take_nth_drop[OF assms(1)] assms(2) by simp
  then have "g (copy_fields (filter ?kept SETTINGS_FIELDS) r s) = (if ?kept (name, isset, assign) then v else g s)"
    by (rule copied_field) (use assms(3,4) in \<open>auto simp: list_all_iff\<close>)
  then show ?thesis using assms(5,6) by (auto simp: settings_update_def Let_def split: option.split)
qed

lemma settings_update_credentials:
  "credential_view (settings_update r s) =
     (sent_or (st_bearer_token r) (srv_bearer_token s), sent_or (st_basic_password r) (srv_basic_password s),
      sent_or (st_oauth_client_secret r) (srv_oauth_client_secret s),
      sent_or (st_api_key_value r) (srv_api_key_value s))"
proof -
  note fields = SETTINGS_FIELDS_def CREDENTIAL_FIELDS_def KEPT_ON_REREGISTRATION_def KEPT_HERE_def
  have "srv_bearer_token (settings_update r s) = sent_or (st_bearer_token r) (srv_bearer_token s)"
    unfolding sent_or_def by (rule settings_field[where n = 2 and name = "''bearer_token''" and
        isset = "\<lambda>r. st_bearer_token r \<noteq> []" and assign = "\<lambda>r s. s\<lparr>srv_bearer_token := st_bearer_token r\<rparr>"]) (simp_all add: fields)
  moreover have "srv_basic_password (settings_update r s) = sent_or (st_basic_password r) (srv_basic_password s)"
    unfolding sent_or_def by (rule settings_field[where n = 4 and name = "''basic_password''" and
        isset = "\<lambda>r. st_basic_password r \<noteq> []" and assign = "\<lambda>r s. s\<lparr>srv_basic_password := st_basic_password r\<rparr>"]) (simp_all add: fields)
  moreover have "srv_oauth_client_secret (settings_update r s) = sent_or (st_oauth_client_secret r) (srv_oauth_client_secret s)"
    unfolding sent_or_def by (rule settings_field[where n = 7 and name = "''oauth_client_secret''" and
        isset = "\<lambda>r. st_oauth_client_secret r \<noteq> []" and assign = "\<lambda>r s. s\<lparr>srv_oauth_client_secret := st_oauth_client_secret r\<rparr>"]) (simp_all add: fields)
  moreover have "srv_api_key_value (settings_update r s) = sent_or (st_api_key_value r) (srv_api_key_value s)"
    unfolding sent_or_def by (rule settings_field[where n = 20 and name = "''api_key_value''" and
        isset = "\<lambda>r. st_api_key_value r \<noteq> []" and assign = "\<lambda>r s. s\<lparr>srv_api_key_value := st_api_key_value r\<rparr>"]) (simp_all add: fields)
  ultimately show ?thesis by (simp add: credential_view_def)
qed


section \<open>Choices are checked before they are stored\<close>

text \<open>What serving depends on.\<close>

definition served_view where
  "served_view s = (srv_id s, srv_transport_kind s, srv_openapi_base_url s, srv_openapi_snapshot s, srv_openapi_pending s,
     choice_view s)"

lemma served_view_stored [simp]:
  "served_view (registered_as now ts e s) = served_view s"
  "served_view (with_openapi_tools now r s) = served_view s"
  by (simp_all add: served_view_def choice_view_def registered_as_def stamp_server_def keep_capabilities_def
      inherit_created_at_def with_openapi_tools_def split: option.split)

lemma openapi_tools_view:
  "served_view s = served_view t \<Longrightarrow> openapi_tools M s limit proposed = openapi_tools M t limit proposed"
  unfolding openapi_tools_def selection_of_def overrides_of_def
  by (auto simp: served_view_def choice_view_def split: option.split)

lemma check_choices_served:
  assumes "check_choices M s limit = ret []"
  shows "\<exists>ts. openapi_tools M s limit None = ret (Inr ts)"
    and "srv_openapi_base_url s = [] \<Longrightarrow> srv_openapi_selection s = [] \<and> srv_openapi_health_probe s = None"
proof -
  show "\<exists>ts. openapi_tools M s limit None = ret (Inr ts)"
  proof (cases "openapi_tools M s limit None")
    case (Some r)
    show ?thesis
    proof (cases r)
      case (Inr tr)
      have "tr \<noteq> Inl problems" for problems
      proof
        assume "tr = Inl problems"
        moreover have "problems \<noteq> []"
          using Some Inr \<open>tr = Inl problems\<close>
          by (auto simp: openapi_tools_def build_tools_def bind_run_def Let_def split: option.splits sum.splits if_splits)
        ultimately show False
          using assms Some Inr by (auto simp: check_choices_def bind_run_def split: option.splits sum.splits if_splits)
      qed
      then show ?thesis using Some Inr by (cases tr) auto
    qed (use assms Some in \<open>simp add: check_choices_def bind_run_def\<close>)
  qed (use assms in \<open>simp add: check_choices_def bind_run_def\<close>)
  show "srv_openapi_selection s = [] \<and> srv_openapi_health_probe s = None" if "srv_openapi_base_url s = []"
    using assms that
    by (auto simp: check_choices_def bind_run_def base_url_problems_def split: option.splits sum.splits if_splits)
qed

lemma checked_result:
  "checked M limit candidate = ret (Inr s) \<Longrightarrow> s = candidate \<and> check_choices M candidate limit = ret []"
  by (auto simp: checked_def bind_run_def split: option.splits sum.splits if_splits)

lemma with_choices_keeps: "spec_view (with_choices was_sent sel ov probe s) = spec_view s"
  by (simp add: with_choices_def spec_view_def health_view_def Let_def)

lemma updated_server_view:
  assumes "updated_server existing r snapshot = (s, outcome)"
  shows "srv_id s = srv_id existing" and "srv_transport_kind s = srv_transport_kind existing"
    and "(case srv_openapi_snapshot existing of
            None \<Rightarrow> outcome = ''created'' \<and> srv_openapi_snapshot s = Some snapshot
          | Some accepted \<Rightarrow>
              srv_openapi_snapshot s = Some accepted \<and>
              (if os_sha256 accepted = os_sha256 snapshot
               then outcome = ''spec_unchanged'' \<and> srv_openapi_pending s = srv_openapi_pending existing
               else outcome = ''revision_pending'' \<and> srv_openapi_pending s = Some snapshot))"
proof -
  let ?u = "with_choices (sent r) (rq_selection r) (rq_overrides r) (rq_health_probe r) (settings_update r existing)"
  have "spec_view ?u = spec_view existing" by (simp only: with_choices_keeps settings_update_keeps)
  then have u: "srv_id ?u = srv_id existing" "srv_transport_kind ?u = srv_transport_kind existing"
    "srv_openapi_snapshot ?u = srv_openapi_snapshot existing" "srv_openapi_pending ?u = srv_openapi_pending existing"
    unfolding spec_view_def by simp_all
  show "srv_id s = srv_id existing" "srv_transport_kind s = srv_transport_kind existing"
    "(case srv_openapi_snapshot existing of
            None \<Rightarrow> outcome = ''created'' \<and> srv_openapi_snapshot s = Some snapshot
          | Some accepted \<Rightarrow>
              srv_openapi_snapshot s = Some accepted \<and>
              (if os_sha256 accepted = os_sha256 snapshot
               then outcome = ''spec_unchanged'' \<and> srv_openapi_pending s = srv_openapi_pending existing
               else outcome = ''revision_pending'' \<and> srv_openapi_pending s = Some snapshot))"
    using assms u by (auto simp: updated_server_def Let_def split: option.splits if_splits)
qed

lemma new_openapi_server_view:
  "srv_id (new_openapi_server now r snapshot) = rq_id r"
  "is_openapi (new_openapi_server now r snapshot)"
  "srv_openapi_snapshot (new_openapi_server now r snapshot) = Some snapshot"
  "srv_openapi_pending (new_openapi_server now r snapshot) = None"
proof -
  have syn: "srv_id (synthesize_stdio_url s) = srv_id s" "srv_transport_kind (synthesize_stdio_url s) = srv_transport_kind s"
    "srv_openapi_snapshot (synthesize_stdio_url s) = srv_openapi_snapshot s"
    "srv_openapi_pending (synthesize_stdio_url s) = srv_openapi_pending s" for s
    by (simp_all add: synthesize_stdio_url_def Let_def)
  have "set CREDENTIAL_FIELDS \<subseteq> set SETTINGS_FIELDS" by (auto simp: SETTINGS_FIELDS_def)
  then have "spec_view (copy_fields CREDENTIAL_FIELDS r s) = spec_view s" for s
    by (rule copies_keep) (rule settings_fields_keep)
  then have copy: "srv_id (copy_fields CREDENTIAL_FIELDS r s) = srv_id s"
    "srv_transport_kind (copy_fields CREDENTIAL_FIELDS r s) = srv_transport_kind s"
    "srv_openapi_snapshot (copy_fields CREDENTIAL_FIELDS r s) = srv_openapi_snapshot s"
    "srv_openapi_pending (copy_fields CREDENTIAL_FIELDS r s) = srv_openapi_pending s" for s
    unfolding spec_view_def by (metis Pair_inject)+
  show "srv_id (new_openapi_server now r snapshot) = rq_id r" "is_openapi (new_openapi_server now r snapshot)"
    "srv_openapi_snapshot (new_openapi_server now r snapshot) = Some snapshot"
    "srv_openapi_pending (new_openapi_server now r snapshot) = None"
    by (simp_all add: new_openapi_server_def is_openapi_def syn copy new_server_def)
qed

context server_registry
begin

text \<open>At most the named server changes, and only to a record that serves what \<open>server\<close> does.\<close>

definition stores_only :: "registered_server \<Rightarrow> 's \<Rightarrow> 's \<Rightarrow> bool" where
  "stores_only server s s' \<longleftrightarrow>
     inv s' \<and> (\<forall>k. reg_get ops s' k = reg_get ops s k \<or>
                  k = srv_id server \<and> (\<exists>e. reg_get ops s' k = Some e \<and> served_view e = served_view server))"

lemma store_server_get:
  assumes "dv_ops D = ops" "inv (ds_registry st)" "store_server D server st = (e, st')"
  shows "inv (ds_registry st')"
    and "reg_get ops (ds_registry st') k =
      (if k = srv_id server
       then Some (registered_as (dv_now D) (dv_stamps D) (reg_get ops (ds_registry st) k) server)
       else reg_get ops (ds_registry st) k)"
proof -
  obtain r s' where reg: "reg_register ops (dv_io D) (dv_now D) (dv_stamps D) server (ds_registry st) = (r, s')"
    by fastforce
  then have st': "ds_registry st' = s'" using assms(1,3) by (auto simp: store_server_def)
  show "inv (ds_registry st')" unfolding st' by (rule register_abs(1)[OF assms(2) reg])
  show "reg_get ops (ds_registry st') k =
      (if k = srv_id server
       then Some (registered_as (dv_now D) (dv_stamps D) (reg_get ops (ds_registry st) k) server)
       else reg_get ops (ds_registry st) k)"
    unfolding st' by (rule register_get[OF assms(2) reg])
qed

lemma stores_only_refl: "inv s \<Longrightarrow> stores_only server s s"
  by (simp add: stores_only_def)

lemma discover_openapi_stored:
  assumes "dv_ops D = ops" "inv (ds_registry st)" "discover_openapi D server st = Some (e, st')"
    and "reg_get ops (ds_registry st) (srv_id server) = Some current"
    and "openapi_tools (dv_map D) current (dv_description_limit D) None = ret r"
  shows "inv (ds_registry st')"
    and "reg_get ops (ds_registry st') k =
      (if k = srv_id server
       then Some (registered_as (dv_now D) (dv_stamps D) (Some current) (with_openapi_tools (dv_now D) r current))
       else reg_get ops (ds_registry st) k)"
proof -
  let ?st = "forget_pacing (srv_id server) st"
  have same: "ds_registry ?st = ds_registry st" by (simp add: forget_pacing_def)
  have key: "srv_id current = srv_id server"
    using assms(2,4) abs_key by (auto simp: reg_get_def get_abs)
  have run: "store_server D (with_openapi_tools (dv_now D) r current) ?st = (e, st')"
    using assms(3,4,5) unfolding discover_openapi_def assms(1) by (simp add: Let_def same)
  show "inv (ds_registry st')" using store_server_get(1)[OF assms(1) _ run] assms(2) same by simp
  show "reg_get ops (ds_registry st') k =
      (if k = srv_id server
       then Some (registered_as (dv_now D) (dv_stamps D) (Some current) (with_openapi_tools (dv_now D) r current))
       else reg_get ops (ds_registry st) k)"
    using store_server_get(2)[OF assms(1) _ run, of k] assms(2,4) same key by simp
qed

lemma register_checked_stores:
  assumes "dv_ops D = ops" "inv (ds_registry st)" "is_openapi server" "register_checked D server outcome st = Some (res, st')"
  shows "stores_only server (ds_registry st) (ds_registry st')"
    and "res = Inr outcome' \<Longrightarrow>
      outcome' = outcome \<and> check_choices (dv_map D) server (dv_description_limit D) = ret [] \<and>
      (\<exists>e ts. reg_get ops (ds_registry st') (srv_id server) = Some e \<and> served_view e = served_view server \<and>
         openapi_tools (dv_map D) server (dv_description_limit D) None = ret (Inr ts) \<and>
         srv_tools e = Some (served_tools (Inr ts)))"
proof -
  have both: "stores_only server (ds_registry st) (ds_registry st') \<and>
    (res = Inr outcome' \<longrightarrow> outcome' = outcome \<and> check_choices (dv_map D) server (dv_description_limit D) = ret [] \<and>
      (\<exists>e ts. reg_get ops (ds_registry st') (srv_id server) = Some e \<and> served_view e = served_view server \<and>
         openapi_tools (dv_map D) server (dv_description_limit D) None = ret (Inr ts) \<and>
         srv_tools e = Some (served_tools (Inr ts))))"
  proof (cases "check_choices (dv_map D) server (dv_description_limit D) = ret []")
    case False
    then show ?thesis
      using assms(4) stores_only_refl[OF assms(2)]
      by (auto simp: register_checked_def split: option.splits sum.splits if_splits)
  next
    case True
    from check_choices_served(1)[OF True] obtain ts
      where ts: "openapi_tools (dv_map D) server (dv_description_limit D) None = ret (Inr ts)" by blast
    obtain e1 st1 where store: "store_server D server st = (e1, st1)" by fastforce
    let ?e = "registered_as (dv_now D) (dv_stamps D) (reg_get ops (ds_registry st) (srv_id server)) server"
    have inv1: "inv (ds_registry st1)" by (rule store_server_get(1)[OF assms(1,2) store])
    have get1: "reg_get ops (ds_registry st1) k = (if k = srv_id server then Some ?e else reg_get ops (ds_registry st) k)" for k
      using store_server_get(2)[OF assms(1,2) store, of k] by auto
    have only1: "stores_only server (ds_registry st) (ds_registry st1)"
      unfolding stores_only_def using inv1 get1 by auto
    show ?thesis
    proof (cases e1)
      case (Some err)
      then show ?thesis using assms(4) True store only1 by (auto simp: register_checked_def)
    next
      case None
      have "discover_immediately D DISCOVERY_TIMEOUT server st1 = discover_openapi D server st1"
        using assms(3) by (simp add: discover_immediately_def is_openapi_def is_stdio_def)
      then obtain e2 where disc: "discover_openapi D server st1 = Some (e2, st')"
        and res: "res = (case e2 of Some err \<Rightarrow> Inl (Import_discovery err) | None \<Rightarrow> Inr outcome)"
        using assms(4) True store None by (auto simp: register_checked_def split: option.splits)
      have tools: "openapi_tools (dv_map D) ?e (dv_description_limit D) None = ret (Inr ts)"
        using openapi_tools_view[of ?e server] ts by simp
      have "reg_get ops (ds_registry st1) (srv_id server) = Some ?e" by (simp add: get1)
      note stored = discover_openapi_stored[OF assms(1) inv1 disc this tools]
      have "stores_only server (ds_registry st) (ds_registry st')"
        unfolding stores_only_def using stored get1 by auto
      moreover have "srv_tools (registered_as now tm (Some e) (with_openapi_tools now r e)) = Some (served_tools r)"
        if "is_openapi e" for now tm e r
        using that by (simp add: registered_as_tools with_openapi_tools_def is_openapi_def)
      moreover have "is_openapi ?e"
        using assms(3) served_view_stored(1)[of "dv_now D" "dv_stamps D" "reg_get ops (ds_registry st) (srv_id server)" server]
        unfolding served_view_def is_openapi_def by (metis Pair_inject)
      ultimately show ?thesis
        using res stored(2)[of "srv_id server"] True ts by (auto split: option.splits)
    qed
  qed
  show "stores_only server (ds_registry st) (ds_registry st')" using both by blast
  show "outcome' = outcome \<and> check_choices (dv_map D) server (dv_description_limit D) = ret [] \<and>
      (\<exists>e ts. reg_get ops (ds_registry st') (srv_id server) = Some e \<and> served_view e = served_view server \<and>
         openapi_tools (dv_map D) server (dv_description_limit D) None = ret (Inr ts) \<and>
         srv_tools e = Some (served_tools (Inr ts)))" if "res = Inr outcome'"
    using both that by blast
qed

lemma stores_only_live:
  assumes "stores_only server s s'" "srv_id server = i"
  shows "inv s'" and "k \<noteq> i \<Longrightarrow> reg_get ops s' k = reg_get ops s k"
    and "reg_get ops s i = Some e \<Longrightarrow> srv_openapi_snapshot e = Some a \<Longrightarrow> srv_openapi_snapshot server = Some a \<Longrightarrow>
      \<exists>e'. reg_get ops s' i = Some e' \<and> srv_openapi_snapshot e' = Some a"
proof -
  show "inv s'" using assms(1) by (simp add: stores_only_def)
  show "k \<noteq> i \<Longrightarrow> reg_get ops s' k = reg_get ops s k" using assms by (auto simp: stores_only_def)
  assume old: "reg_get ops s i = Some e" "srv_openapi_snapshot e = Some a" "srv_openapi_snapshot server = Some a"
  from assms have "reg_get ops s' i = reg_get ops s i \<or> (\<exists>e'. reg_get ops s' i = Some e' \<and> served_view e' = served_view server)"
    by (auto simp: stores_only_def)
  then show "\<exists>e'. reg_get ops s' i = Some e' \<and> srv_openapi_snapshot e' = Some a"
    using old by (auto simp: served_view_def)
qed

text \<open>An import changes the named server at most, never the document its tools are served from.\<close>

lemma run_import_effect:
  assumes "dv_ops (im_discovery E) = ops" "inv (ds_registry st)" "run_import E r st = Some (res, st')"
  shows "inv (ds_registry st')"
    and "k \<noteq> rq_id r \<Longrightarrow> reg_get ops (ds_registry st') k = reg_get ops (ds_registry st) k"
    and "reg_get ops (ds_registry st) (rq_id r) = Some e \<Longrightarrow> srv_openapi_snapshot e = Some accepted \<Longrightarrow>
      \<exists>e'. reg_get ops (ds_registry st') (rq_id r) = Some e' \<and> srv_openapi_snapshot e' = Some accepted"
proof -
  let ?D = "im_discovery E"
  have both: "inv (ds_registry st') \<and>
    (k \<noteq> rq_id r \<longrightarrow> reg_get ops (ds_registry st') k = reg_get ops (ds_registry st) k) \<and>
    (reg_get ops (ds_registry st) (rq_id r) = Some e \<longrightarrow> srv_openapi_snapshot e = Some accepted \<longrightarrow>
      (\<exists>e'. reg_get ops (ds_registry st') (rq_id r) = Some e' \<and> srv_openapi_snapshot e' = Some accepted))"
    for k e accepted
  proof -
    have stored: ?thesis
      if "is_openapi server" "srv_id server = rq_id r" "register_checked ?D server outcome st = Some (res, st')"
        "\<And>e a. reg_get ops (ds_registry st) (rq_id r) = Some e \<Longrightarrow> srv_openapi_snapshot e = Some a \<Longrightarrow>
           srv_openapi_snapshot server = Some a"
      for server outcome
    proof -
      have "stores_only server (ds_registry st) (ds_registry st')"
        by (rule register_checked_stores(1)[OF assms(1,2) that(1,3)])
      from stores_only_live[OF this that(2)] that(4) show ?thesis by blast
    qed
    show ?thesis
    proof (cases "load_request E r")
      case (Inl err)
      then show ?thesis using assms(2,3) by (simp add: run_import_def)
    next
      case (Inr spec)
      let ?snap = "snapshot_of (dv_now ?D) (rq_spec_url r) spec"
      have run: "store_import ?D r ?snap st = Some (res, st')" using assms(3) Inr by (simp add: run_import_def)
      show ?thesis
      proof (cases "reg_get ops (ds_registry st) (rq_id r)")
        case None
        with run assms(1) have "register_checked ?D (new_openapi_server (dv_now ?D) r ?snap) ''created'' st = Some (res, st')"
          by (simp add: store_import_def)
        then show ?thesis by (rule stored[OF new_openapi_server_view(2,1)]) (simp add: None)
      next
        case (Some existing)
        have key: "srv_id existing = rq_id r" using Some assms(2) abs_key by (auto simp: reg_get_def get_abs)
        show ?thesis
        proof (cases "is_openapi existing")
          case False
          then show ?thesis using run Some assms(1,2) by (simp add: store_import_def)
        next
          case True
          obtain server outcome where upd: "updated_server existing r ?snap = (server, outcome)" by fastforce
          note view = updated_server_view[OF upd]
          have "register_checked ?D server outcome st = Some (res, st')"
            using run Some assms(1) True upd by (simp add: store_import_def)
          moreover have "srv_openapi_snapshot server = Some a"
            if "reg_get ops (ds_registry st) (rq_id r) = Some e" "srv_openapi_snapshot e = Some a" for e a
            using view(3) that Some by simp
          ultimately show ?thesis
            using stored[of server outcome] view(1,2) key True by (simp add: is_openapi_def)
        qed
      qed
    qed
  qed
  show "inv (ds_registry st')" using both by blast
  show "k \<noteq> rq_id r \<Longrightarrow> reg_get ops (ds_registry st') k = reg_get ops (ds_registry st) k" using both by blast
  show "reg_get ops (ds_registry st) (rq_id r) = Some e \<Longrightarrow> srv_openapi_snapshot e = Some accepted \<Longrightarrow>
      \<exists>e'. reg_get ops (ds_registry st') (rq_id r) = Some e' \<and> srv_openapi_snapshot e' = Some accepted"
    using both by blast
qed

text \<open>What a successful import has checked and stored.\<close>

definition import_stored :: "'s import_env \<Rightarrow> loaded_spec \<Rightarrow> string \<Rightarrow> openapi_snapshot \<Rightarrow> registered_server \<Rightarrow> bool" where
  "import_stored E spec outcome snapshot e \<longleftrightarrow>
     (\<exists>ts. openapi_tools (dv_map (im_discovery E)) e (dv_description_limit (im_discovery E)) None = ret (Inr ts) \<and>
           srv_tools e = Some (served_tools (Inr ts))) \<and>
     (srv_openapi_base_url e = [] \<longrightarrow> srv_openapi_selection e = []) \<and>
     (if outcome = ''revision_pending'' then srv_openapi_pending e = Some snapshot
      else (\<exists>live. srv_openapi_snapshot e = Some live \<and> os_sha256 live = ls_sha256 spec))"

lemma run_import_stored:
  assumes "dv_ops (im_discovery E) = ops" "inv (ds_registry st)" "run_import E r st = Some (Inr outcome, st')"
  shows "\<exists>spec e. load_request E r = Inr spec \<and> reg_get ops (ds_registry st') (rq_id r) = Some e \<and>
    import_stored E spec outcome (snapshot_of (dv_now (im_discovery E)) (rq_spec_url r) spec) e"
proof -
  let ?D = "im_discovery E"
  from assms(3) obtain spec where spec: "load_request E r = Inr spec"
    by (auto simp: run_import_def split: sum.splits)
  let ?snap = "snapshot_of (dv_now ?D) (rq_spec_url r) spec"
  have run: "store_import ?D r ?snap st = Some (Inr outcome, st')" using assms(3) spec by (simp add: run_import_def)
  have stored: ?thesis
    if "is_openapi server" "srv_id server = rq_id r" "register_checked ?D server out st = Some (Inr outcome, st')"
      "if out = ''revision_pending'' then srv_openapi_pending server = Some ?snap
       else \<exists>live. srv_openapi_snapshot server = Some live \<and> os_sha256 live = os_sha256 ?snap"
    for server out
  proof -
    from register_checked_stores(2)[OF assms(1,2) that(1,3) refl] obtain e ts where e:
      "outcome = out" "check_choices (dv_map ?D) server (dv_description_limit ?D) = ret []"
      "reg_get ops (ds_registry st') (srv_id server) = Some e" "served_view e = served_view server"
      "openapi_tools (dv_map ?D) server (dv_description_limit ?D) None = ret (Inr ts)"
      "srv_tools e = Some (served_tools (Inr ts))" by blast
    have "openapi_tools (dv_map ?D) e (dv_description_limit ?D) None = ret (Inr ts)"
      using e(5) openapi_tools_view[OF e(4)] by simp
    moreover have "srv_openapi_base_url e = [] \<longrightarrow> srv_openapi_selection e = []"
      using check_choices_served(2)[OF e(2)] e(4) by (simp add: served_view_def choice_view_def)
    moreover have "os_sha256 ?snap = ls_sha256 spec" by (simp add: snapshot_of_def)
    ultimately have "import_stored E spec outcome ?snap e"
      unfolding import_stored_def using e(1,4,6) that(4) by (auto simp: served_view_def)
    then show ?thesis using spec e(3) that(2) by auto
  qed
  show ?thesis
  proof (cases "reg_get ops (ds_registry st) (rq_id r)")
    case None
    with run assms(1) have "register_checked ?D (new_openapi_server (dv_now ?D) r ?snap) ''created'' st = Some (Inr outcome, st')"
      by (simp add: store_import_def)
    then show ?thesis by (rule stored[OF new_openapi_server_view(2,1)]) (simp add: new_openapi_server_view)
  next
    case (Some existing)
    have key: "srv_id existing = rq_id r" using Some assms(2) abs_key by (auto simp: reg_get_def get_abs)
    have open': "is_openapi existing" using run Some assms(1) by (auto simp: store_import_def split: if_splits)
    obtain server out where upd: "updated_server existing r ?snap = (server, out)" by fastforce
    note view = updated_server_view[OF upd]
    have reg: "register_checked ?D server out st = Some (Inr outcome, st')"
      using run Some assms(1) open' upd by (simp add: store_import_def)
    show ?thesis
    proof (rule stored[OF _ _ reg])
      show "is_openapi server" "srv_id server = rq_id r" using view(1,2) key open' by (simp_all add: is_openapi_def)
      show "if out = ''revision_pending'' then srv_openapi_pending server = Some ?snap
       else \<exists>live. srv_openapi_snapshot server = Some live \<and> os_sha256 live = os_sha256 ?snap"
        using view(3) by (auto split: option.splits if_splits)
    qed
  qed
qed

end

end
