(* ===== verification/Revision.thy ===== *)
theory Revision
  imports Import_Facts
begin

text \<open>
  \<^verbatim>\<open>openapi/revision.py\<close>: what a pending document would change, and accepting it. A dictionary of mapped operations is an
  association list by their keys; \<open>MappingError\<close> is its list of problems.
\<close>

section \<open>Comparing two documents\<close>

record operation_change =
  oc_key :: operation_key
  oc_changes :: "string list"

record revision_diff =
  rd_added :: "mapped_operation list"
  rd_removed :: "mapped_operation list"
  rd_changed :: "operation_change list"
  rd_servers :: "(json list \<times> json list) option"
  rd_orphaned_selection :: "operation_ref list"
  rd_orphaned_overrides :: "operation_override list"
  rd_orphaned_health_probe :: "operation_ref option"
  rd_problems :: "string list"

record accept_report =
  ar_dropped_selection :: "operation_ref list"
  ar_dropped_overrides :: "operation_override list"
  ar_dropped_health_probe :: "operation_ref option"

definition diff_is_empty :: "revision_diff \<Rightarrow> bool" where
  "diff_is_empty d \<longleftrightarrow> rd_added d = [] \<and> rd_removed d = [] \<and> rd_changed d = [] \<and> rd_servers d = None"

definition ref_json :: "('z) operation_ref_scheme \<Rightarrow> json" where
  "ref_json r = JObj [(''method'', JStr (or_method r)), (''path'', JStr (or_path r))]"

definition probe_json :: "operation_ref option \<Rightarrow> json" where
  "probe_json p = (case p of Some r \<Rightarrow> ref_json r | None \<Rightarrow> JNull)"

definition report_json :: "accept_report \<Rightarrow> json" where
  "report_json r =
     JObj [(''selection'', JList (map ref_json (ar_dropped_selection r))),
           (''overrides'', JList (map ref_json (ar_dropped_overrides r))),
           (''health_probe'', probe_json (ar_dropped_health_probe r))]"

definition key_json :: "operation_key \<Rightarrow> jdict" where
  "key_json k = [(''method'', JStr (ok_method k)), (''path'', JStr (ok_path k))]"

definition diff_json :: "revision_diff \<Rightarrow> json" where
  "diff_json d =
     JObj [(''added'', JList (map (\<lambda>m. JObj (key_json (mo_key m)
              @ [(''tool'', case mo_tool m of Some t \<Rightarrow> JStr (td_name t) | None \<Rightarrow> JNull),
                 (''unsupported'', JList (map JStr (mo_unsupported m)))])) (rd_added d))),
           (''removed'', JList (map (\<lambda>m. JObj (key_json (mo_key m))) (rd_removed d))),
           (''changed'', JList (map (\<lambda>c. JObj (key_json (oc_key c) @ [(''changes'', JList (map JStr (oc_changes c)))]))
              (rd_changed d))),
           (''servers'', case rd_servers d of
              Some (before, after) \<Rightarrow> JObj [(''before'', JList before), (''after'', JList after)] | None \<Rightarrow> JNull),
           (''orphaned_selection'', JList (map ref_json (rd_orphaned_selection d))),
           (''orphaned_overrides'', JList (map ref_json (rd_orphaned_overrides d))),
           (''orphaned_health_probe'', probe_json (rd_orphaned_health_probe d)),
           (''problems'', JList (map JStr (rd_problems d)))]"

type_synonym mapped_operations = "(operation_key, mapped_operation) dict"

definition mapped_dict :: "mapped_operation list \<Rightarrow> mapped_operations" where
  "mapped_dict ms = foldl (\<lambda>d m. AList.update (mo_key m) m d) [] ms"

definition mapped_snapshot :: "map_env \<Rightarrow> openapi_snapshot \<Rightarrow> registered_server \<Rightarrow> int \<Rightarrow> mapped_operations run" where
  "mapped_snapshot M snapshot server limit =
     bind_run (preview M (os_document snapshot) (os_dialect snapshot) [] limit (selection_of server)) (\<lambda>ms.
       ret (mapped_dict ms))"

definition server_urls :: "map_env \<Rightarrow> openapi_snapshot \<Rightarrow> json list py" where
  "server_urls M snapshot =
     bind_py (if os_dialect snapshot = D20
              then swagger2_to_openapi3 (me_float_text M) (me_unquote M) (os_document snapshot)
              else Inr (os_document snapshot)) (\<lambda>document.
     bind_py (py_iter (jget_or document ''servers'' (JList []))) (\<lambda>xs.
       Inr (map (\<lambda>s. jget_or (obj_or_empty s) ''url'' (JStr [])) (filter is_obj xs))))"

definition same_schema :: "jdict option \<Rightarrow> jdict option \<Rightarrow> bool" where
  "same_schema a b =
     (case (a, b) of
        (None, None) \<Rightarrow> True
      | (Some d, Some e) \<Rightarrow> py_eq (JObj d) (JObj e)
      | _ \<Rightarrow> False)"

definition operation_changes :: "mapped_operation \<Rightarrow> mapped_operation \<Rightarrow> string list" where
  "operation_changes before after =
     (case (mo_tool before, mo_tool after) of
        (Some _, None) \<Rightarrow> [''now unsupported: '' @ join ''; '' (mo_unsupported after)]
      | (None, Some _) \<Rightarrow> [''now supported'']
      | (None, None) \<Rightarrow> []
      | (Some b, Some a) \<Rightarrow>
          (if td_name b \<noteq> td_name a then [''tool name''] else [])
          @ (if \<not> py_eq (JObj (td_input_schema b)) (JObj (td_input_schema a)) then [''input schema''] else [])
          @ (if \<not> same_schema (td_output_schema b) (td_output_schema a) then [''output schema''] else [])
          @ (if td_description b \<noteq> td_description a then [''description''] else []))"

definition changed_operations :: "mapped_operations \<Rightarrow> mapped_operations \<Rightarrow> operation_change list" where
  "changed_operations before after =
     concat (map (\<lambda>(k, m). case map_of before k of
                             None \<Rightarrow> []
                           | Some b \<Rightarrow> let cs = operation_changes b m
                                       in if cs \<noteq> [] then [\<lparr>oc_key = k, oc_changes = cs\<rparr>] else []) after)"

section \<open>Carrying the choices over\<close>

definition pending_of :: "registered_server \<Rightarrow> openapi_snapshot py" where
  "pending_of server =
     (case (srv_openapi_pending server, srv_openapi_snapshot server) of
        (Some pending, Some accepted) \<Rightarrow> Inr pending
      | _ \<Rightarrow> Inl (ValueError (''server '' @ repr_str (srv_id server) @ '' has no pending revision'')))"

definition servable :: "mapped_operations \<Rightarrow> ('z) operation_ref_scheme \<Rightarrow> bool" where
  "servable after r = (case map_of after (ref_key r) of Some m \<Rightarrow> mo_tool m \<noteq> None | None \<Rightarrow> False)"

definition on_pending :: "mapped_operations \<Rightarrow> registered_server \<Rightarrow> registered_server" where
  "on_pending after server =
     server\<lparr>srv_openapi_snapshot := srv_openapi_pending server, srv_openapi_pending := None,
            srv_openapi_selection := filter (servable after) (srv_openapi_selection server),
            srv_openapi_overrides := filter (servable after) (srv_openapi_overrides server)\<rparr>"

definition carried ::
  "map_env \<Rightarrow> registered_server \<Rightarrow> mapped_operations \<Rightarrow> int \<Rightarrow> (registered_server \<times> accept_report) run" where
  "carried M server after limit =
     (let candidate = on_pending after server;
          report = (\<lambda>dropped_probe.
            \<lparr>ar_dropped_selection = filter (\<lambda>r. \<not> servable after r) (srv_openapi_selection server),
             ar_dropped_overrides = filter (\<lambda>r. \<not> servable after r) (srv_openapi_overrides server),
             ar_dropped_health_probe = dropped_probe\<rparr>)
      in case srv_openapi_health_probe server of
           None \<Rightarrow> ret (candidate, report None)
         | Some probe \<Rightarrow>
             bind_run (health_probe_problem M candidate probe limit) (\<lambda>problem.
               ret (if or_empty problem \<noteq> []
                    then (candidate\<lparr>srv_openapi_health_probe := None\<rparr>, report (Some probe))
                    else (candidate, report None))))"

text \<open>\<open>Inl\<close> is \<open>MappingError\<close>.\<close>

definition accept_revision ::
  "map_env \<Rightarrow> registered_server \<Rightarrow> int \<Rightarrow> (string list + registered_server \<times> accept_report) run" where
  "accept_revision M server limit =
     bind_run (lift (pending_of server)) (\<lambda>pending.
     bind_run (mapped_snapshot M pending server limit) (\<lambda>after.
     bind_run (carried M server after limit) (\<lambda>(candidate, report).
     bind_run (checked M limit candidate) (\<lambda>r.
       ret (map_sum (\<lambda>problems. problems) (\<lambda>s. (s, report)) r)))))"

definition diff_revision :: "map_env \<Rightarrow> registered_server \<Rightarrow> int \<Rightarrow> revision_diff run" where
  "diff_revision M server limit =
     bind_run (lift (pending_of server)) (\<lambda>pending.
     (case srv_openapi_snapshot server of
        None \<Rightarrow> Some (Inl (ValueError []))
      | Some accepted \<Rightarrow>
          bind_run (mapped_snapshot M accepted server limit) (\<lambda>before.
          bind_run (mapped_snapshot M pending server limit) (\<lambda>after.
          bind_run (lift (server_urls M accepted)) (\<lambda>old_servers.
          bind_run (lift (server_urls M pending)) (\<lambda>new_servers.
          bind_run (carried M server after limit) (\<lambda>(candidate, report).
          bind_run (accept_revision M server limit) (\<lambda>accepted_result.
            ret \<lparr>rd_added = map snd (filter (\<lambda>(k, m). \<not> k \<in> fst ` set before) after),
                 rd_removed = map snd (filter (\<lambda>(k, m). \<not> k \<in> fst ` set after) before),
                 rd_changed = changed_operations before after,
                 rd_servers = (if py_eq_list old_servers new_servers then None else Some (old_servers, new_servers)),
                 rd_orphaned_selection = ar_dropped_selection report,
                 rd_orphaned_overrides = ar_dropped_overrides report,
                 rd_orphaned_health_probe = ar_dropped_health_probe report,
                 rd_problems = (case accepted_result of Inl problems \<Rightarrow> problems | Inr _ \<Rightarrow> [])\<rparr>)))))) ))"

section \<open>Lemmas\<close>

lemma accept_revision_steps:
  assumes "accept_revision M server limit = ret res"
  obtains pending after candidate report r where "pending_of server = Inr pending"
    "mapped_snapshot M pending server limit = ret after" "carried M server after limit = ret (candidate, report)"
    "checked M limit candidate = ret r" "res = map_sum (\<lambda>problems. problems) (\<lambda>s. (s, report)) r"
  using assms by (auto simp: accept_revision_def bind_run_ret)

lemma carried_choices:
  assumes "carried M server after limit = ret (candidate, report)"
  shows "srv_openapi_pending candidate = None" and "srv_openapi_snapshot candidate = srv_openapi_pending server"
    and "srv_id candidate = srv_id server"
    and "srv_openapi_selection candidate = filter (servable after) (srv_openapi_selection server)"
    and "srv_openapi_overrides candidate = filter (servable after) (srv_openapi_overrides server)"
    and "ar_dropped_selection report = filter (\<lambda>r. \<not> servable after r) (srv_openapi_selection server)"
    and "ar_dropped_overrides report = filter (\<lambda>r. \<not> servable after r) (srv_openapi_overrides server)"
    and "srv_openapi_health_probe candidate \<noteq> None \<or> srv_openapi_health_probe server = ar_dropped_health_probe report"
  using assms
  by (auto simp: carried_def on_pending_def Let_def bind_run_def split: option.splits sum.splits if_splits)

text \<open>What is accepted was checked, serves nothing that was not selected, and says what it dropped.\<close>

definition accepted_from :: "registered_server \<Rightarrow> registered_server \<Rightarrow> accept_report \<Rightarrow> bool" where
  "accepted_from server s report \<longleftrightarrow>
     srv_id s = srv_id server \<and> srv_openapi_snapshot s = srv_openapi_pending server \<and> srv_openapi_pending s = None \<and>
     set (srv_openapi_selection server) = set (srv_openapi_selection s) \<union> set (ar_dropped_selection report) \<and>
     set (srv_openapi_selection s) \<inter> set (ar_dropped_selection report) = {} \<and>
     set (srv_openapi_overrides server) = set (srv_openapi_overrides s) \<union> set (ar_dropped_overrides report)"

lemma accept_revision_checked:
  assumes "accept_revision M server limit = ret (Inr (s, report))"
  shows "check_choices M s limit = ret [] \<and> accepted_from server s report"
proof -
  from accept_revision_steps[OF assms] obtain after candidate rep r where c:
    "carried M server after limit = ret (candidate, rep)" "checked M limit candidate = ret r"
    "Inr (s, report) = map_sum (\<lambda>problems. problems) (\<lambda>s. (s, rep)) r" .
  then have "checked M limit candidate = ret (Inr s)" "report = rep" by (cases r; simp)+
  with checked_result[OF this(1)] carried_choices[OF c(1)] show ?thesis
    by (auto simp: accepted_from_def)
qed

lemma accept_revision_kind:
  assumes "accept_revision M server limit = ret (Inr (s, report))"
  shows "srv_transport_kind s = srv_transport_kind server"
proof -
  from accept_revision_steps[OF assms] obtain after candidate rep r where c:
    "carried M server after limit = ret (candidate, rep)" "checked M limit candidate = ret r"
    "Inr (s, report) = map_sum (\<lambda>problems. problems) (\<lambda>s. (s, rep)) r" .
  then have "checked M limit candidate = ret (Inr s)" by (cases r; simp)
  then have "s = candidate" by (simp add: checked_result)
  then show ?thesis
    using c(1) by (auto simp: carried_def on_pending_def Let_def bind_run_def split: option.splits sum.splits if_splits)
qed

text \<open>The problems of a diff are exactly what keeps the revision from being accepted.\<close>

lemma build_tools_problems: "build_tools M document dia sel ov limit = ret (Inl problems) \<Longrightarrow> problems \<noteq> []"
  by (auto simp: build_tools_def bind_run_def Let_def split: option.splits sum.splits if_splits)

lemma checked_problems: "checked M limit candidate = ret (Inl problems) \<Longrightarrow> problems \<noteq> []"
  by (auto simp: checked_def bind_run_def split: option.splits sum.splits if_splits)

lemma accept_revision_problems:
  assumes "accept_revision M server limit = ret (Inl problems)"
  shows "problems \<noteq> []"
proof -
  from accept_revision_steps[OF assms] obtain candidate report r where c: "checked M limit candidate = ret r"
    "Inl problems = map_sum (\<lambda>problems. problems) (\<lambda>s :: registered_server. (s, report :: accept_report)) r" .
  then show ?thesis using checked_problems by (cases r) auto
qed

lemma diff_revision_predicts:
  assumes "diff_revision M server limit = ret d"
  shows "\<exists>r. accept_revision M server limit = ret r \<and> (rd_problems d = [] \<longleftrightarrow> (\<exists>s report. r = Inr (s, report) \<and>
           ar_dropped_selection report = rd_orphaned_selection d \<and> ar_dropped_overrides report = rd_orphaned_overrides d \<and>
           ar_dropped_health_probe report = rd_orphaned_health_probe d))"
proof -
  from assms obtain pending accepted before after olds news candidate report r where run:
    "pending_of server = Inr pending" "mapped_snapshot M pending server limit = ret after"
    "carried M server after limit = ret (candidate, report)" "accept_revision M server limit = ret r"
    and d: "rd_problems d = (case r of Inl problems \<Rightarrow> problems | Inr _ \<Rightarrow> [])"
      "rd_orphaned_selection d = ar_dropped_selection report" "rd_orphaned_overrides d = ar_dropped_overrides report"
      "rd_orphaned_health_probe d = ar_dropped_health_probe report"
    unfolding diff_revision_def
    by (auto dest!: bind_run_ret[THEN iffD1] split: option.splits)
  show ?thesis
  proof (cases r)
    case (Inl problems)
    then show ?thesis using run(4) d(1) accept_revision_problems by fastforce
  next
    case (Inr p)
    then obtain s rep where p: "r = Inr (s, rep)" by (cases p) auto
    have "rep = report"
    proof -
      from accept_revision_steps[OF run(4)] obtain pending' after' candidate' report' r' where
        "pending_of server = Inr pending'" "mapped_snapshot M pending' server limit = ret after'"
        "carried M server after' limit = ret (candidate', report')" "checked M limit candidate' = ret r'"
        "r = map_sum (\<lambda>problems. problems) (\<lambda>s. (s, report')) r'" .
      then show ?thesis using run(1,2,3) p by (cases r') auto
    qed
    then show ?thesis using run(4) d p by auto
  qed
qed

end
