(* ===== verification/Hints.thy ===== *)
theory Hints
  imports Server_Tools Url
begin

text \<open>
  \<^verbatim>\<open>openapi/hints.py\<close>: what a document suggests about configuring its server. \<open>urljoin\<close> is the one of \<open>urllib.parse\<close>.
\<close>

section \<open>\<open>urljoin\<close>\<close>

definition uses_relative :: "string list" where
  "uses_relative =
     [[], ''ftp'', ''http'', ''gopher'', ''nntp'', ''imap'', ''wais'', ''file'', ''https'', ''shttp'', ''mms'',
      ''prospero'', ''rtsp'', ''rtsps'', ''rtspu'', ''sftp'', ''svn'', ''svn+ssh'', ''ws'', ''wss'']"

text \<open>The path and the parameters of its last segment, for the schemes that have them.\<close>

definition url_params_split :: "string \<Rightarrow> string \<Rightarrow> string \<times> string" where
  "url_params_split scheme path =
     (let seg = last_segment path
      in if scheme \<in> set uses_params \<and> CHR '';'' \<in> set seg
         then (take (length path - length seg) path @ fst (split_once (CHR '';'') seg),
               or_empty (snd (split_once (CHR '';'') seg)))
         else (path, []))"

definition unparse :: "string \<Rightarrow> string \<Rightarrow> string \<Rightarrow> string \<Rightarrow> string \<Rightarrow> string \<Rightarrow> string" where
  "unparse scheme netloc path params query fragment =
     urlunsplit \<lparr>u_scheme = scheme, u_netloc = netloc,
       u_path = (if params \<noteq> [] then path @ '';'' @ params else path), u_query = query, u_fragment = fragment\<rparr>"

definition resolve_segment :: "string list \<Rightarrow> string \<Rightarrow> string list" where
  "resolve_segment resolved seg =
     (if seg = ''..'' then butlast resolved else if seg = ''.'' then resolved else resolved @ [seg])"

definition join_segments :: "string \<Rightarrow> string \<Rightarrow> string list" where
  "join_segments base_path path =
     (let parts = split_char (CHR ''/'') base_path;
          base = (if last parts \<noteq> [] then butlast parts else parts);
          segments = base @ split_char (CHR ''/'') path
      in if startswith path ''/'' then split_char (CHR ''/'') path
         else if length segments \<le> 2 then segments
         else hd segments # filter (\<lambda>s. s \<noteq> []) (butlast (tl segments)) @ [last segments])"

definition resolve_path :: "string list \<Rightarrow> string" where
  "resolve_path segments =
     (let resolved = foldl resolve_segment [] segments;
          joined = join ''/'' (if last segments \<in> {''.'', ''..''} then resolved @ [[]] else resolved)
      in if joined \<noteq> [] then joined else ''/'')"

definition urljoin :: "(string \<Rightarrow> bool) \<Rightarrow> string \<Rightarrow> string \<Rightarrow> string py" where
  "urljoin brk base url =
     (if base = [] then Inr url else if url = [] then Inr base
      else bind_py (urlsplit brk base) (\<lambda>b. bind_py (urlsplit brk url) (\<lambda>u.
        let scheme = (if u_scheme u = [] then u_scheme b else u_scheme u);
            (path, params) = url_params_split scheme (u_path u);
            (bpath, bparams) = url_params_split (u_scheme b) (u_path b)
        in Inr (if scheme \<noteq> u_scheme b \<or> scheme \<notin> set uses_relative then url
                else if scheme \<in> set uses_netloc \<and> u_netloc u \<noteq> []
                then unparse scheme (u_netloc u) path params (u_query u) (u_fragment u)
                else (let netloc = (if scheme \<in> set uses_netloc then u_netloc b else u_netloc u)
                      in if path = [] \<and> params = []
                         then unparse scheme netloc bpath bparams
                                (if u_query u = [] then u_query b else u_query u) (u_fragment u)
                         else unparse scheme netloc (resolve_path (join_segments bpath path)) params (u_query u)
                                (u_fragment u))))))"

section \<open>Base URLs\<close>

definition as_3x :: "map_env \<Rightarrow> openapi_snapshot \<Rightarrow> jdict py" where
  "as_3x M snapshot =
     (if os_dialect snapshot = D20 then swagger2_to_openapi3 (me_float_text M) (me_unquote M) (os_document snapshot)
      else Inr (os_document snapshot))"

text \<open>The default of a variable, or the text as written.\<close>

definition variable_default :: "map_env \<Rightarrow> jdict \<Rightarrow> string \<Rightarrow> string" where
  "variable_default M variables name =
     (case jget_or variables name (JObj []) of
        JObj v \<Rightarrow> (if jget v ''default'' \<noteq> JNull then py_str (me_float_text M) (jget v ''default'')
                   else ''{'' @ name @ ''}'')
      | _ \<Rightarrow> ''{'' @ name @ ''}'')"

text \<open>The matches of a brace, one or more characters that are not a closing brace, and a closing brace.\<close>

function expand_variables :: "(string \<Rightarrow> string) \<Rightarrow> string \<Rightarrow> string" where
  "expand_variables f [] = []"
| "expand_variables f (c # s) =
     (let name = takeWhile (\<lambda>d. d \<noteq> CHR ''}'') s; rest = dropWhile (\<lambda>d. d \<noteq> CHR ''}'') s
      in if c = CHR ''{'' \<and> name \<noteq> [] \<and> rest \<noteq> [] then f name @ expand_variables f (tl rest)
         else c # expand_variables f s)"
  by pat_completeness auto
termination expand_variables
proof (relation "measure (\<lambda>(f, s). length s)")
  show "((f, tl rest), f, c # s) \<in> measure (\<lambda>(f, s). length s)"
    if "rest = dropWhile (\<lambda>d. d \<noteq> CHR ''}'') s" for f c s rest
    using length_dropWhile_le[of "\<lambda>d. d \<noteq> CHR ''}''" s] that by simp
qed auto

definition base_url_of :: "map_env \<Rightarrow> (string \<Rightarrow> bool) \<Rightarrow> string \<Rightarrow> json \<Rightarrow> string option py" where
  "base_url_of M brk source server =
     (case server of
        JObj d \<Rightarrow>
          (case jget d ''url'' of
             JStr raw \<Rightarrow>
               (let url = expand_variables (variable_default M (obj_or_empty (jget d ''variables''))) raw
                in bind_py (urlsplit brk url) (\<lambda>u.
                     if u_scheme u = [] \<and> (startswith source ''http://'' \<or> startswith source ''https://'')
                     then bind_py (urljoin brk source url) (\<lambda>j. Inr (Some j))
                     else Inr (Some url)))
           | _ \<Rightarrow> Inr None)
      | _ \<Rightarrow> Inr None)"

definition suggested_base_urls :: "map_env \<Rightarrow> (string \<Rightarrow> bool) \<Rightarrow> openapi_snapshot \<Rightarrow> string list py" where
  "suggested_base_urls M brk snapshot =
     bind_py (as_3x M snapshot) (\<lambda>document.
     bind_py (py_iter (jget_or document ''servers'' (JList []))) (\<lambda>servers.
     bind_py (map_py (base_url_of M brk (os_source_url snapshot)) servers) (\<lambda>urls.
       Inr (foldl (\<lambda>acc u. case u of Some url \<Rightarrow> if url \<in> set acc then acc else acc @ [url] | None \<Rightarrow> acc) [] urls))))"

section \<open>Credentials\<close>

definition token_flow :: "jdict \<Rightarrow> string \<Rightarrow> json" where
  "token_flow flows flow = (case jget flows flow of JObj f \<Rightarrow> jget f ''tokenUrl'' | _ \<Rightarrow> JNull)"

definition security_suggestion :: "map_env \<Rightarrow> jdict \<Rightarrow> jdict option" where
  "security_suggestion M scheme =
     (let fr = me_float_text M; kind = jget scheme ''type''
      in if kind = JStr ''apiKey'' \<and> jget scheme ''in'' \<in> {JStr ''header'', JStr ''query''} \<and> truthy (jget scheme ''name'')
         then Some [(''auth_type'', JStr ''api_key''), (''api_key_name'', JStr (py_str fr (jget scheme ''name''))),
                    (''api_key_in'', jget scheme ''in'')]
         else if kind = JStr ''http''
         then (let http_scheme = lower (py_str fr (jget_or scheme ''scheme'' (JStr [])))
               in if http_scheme = ''basic'' then Some [(''auth_type'', JStr ''basic'')]
                  else if http_scheme = ''bearer'' then Some [(''auth_type'', JStr ''bearer'')] else None)
         else if kind = JStr ''oauth2''
         then (case find truthy (map (token_flow (obj_or_empty (jget scheme ''flows'')))
                      [''clientCredentials'', ''authorizationCode'', ''password'']) of
                 Some url \<Rightarrow> Some [(''auth_type'', JStr ''oauth''), (''oauth_token_url'', JStr (py_str fr url))]
               | None \<Rightarrow> None)
         else None)"

definition scheme_hint :: "map_env \<Rightarrow> string \<times> json \<Rightarrow> jdict list" where
  "scheme_hint M entry =
     (case entry of
        (name, JObj scheme) \<Rightarrow>
          [[(''name'', JStr name), (''type'', jget_or scheme ''type'' (JStr [])),
            (''description'', jget_or scheme ''description'' (JStr [])),
            (''suggest'', case security_suggestion M scheme of Some s \<Rightarrow> JObj s | None \<Rightarrow> JNull)]]
      | _ \<Rightarrow> [])"

definition security_scheme_hints :: "map_env \<Rightarrow> openapi_snapshot \<Rightarrow> jdict list py" where
  "security_scheme_hints M snapshot =
     bind_py (as_3x M snapshot) (\<lambda>document.
     bind_py (as_obj (jget_or document ''components'' (JObj []))) (\<lambda>components.
     bind_py (as_obj (jget_or components ''securitySchemes'' (JObj []))) (\<lambda>schemes.
       Inr (concat (map (scheme_hint M) schemes)))))"

section \<open>Tags\<close>

definition tags_value :: "map_env \<Rightarrow> jdict \<Rightarrow> string list" where
  "tags_value M operation =
     (case jget_or operation ''tags'' (JList []) of JList ts \<Rightarrow> map (py_str (me_float_text M)) ts | _ \<Rightarrow> [])"

definition path_tags :: "map_env \<Rightarrow> string \<times> json \<Rightarrow> (operation_key \<times> string list) list" where
  "path_tags M entry =
     (case entry of
        (path, JObj item) \<Rightarrow>
          if startswith path ''x-'' then []
          else concat (map (\<lambda>meth. case jget item meth of
                                     JObj operation \<Rightarrow> [(mk_key meth path, tags_value M operation)]
                                   | _ \<Rightarrow> []) METHODS)
      | _ \<Rightarrow> [])"

definition operation_tags :: "map_env \<Rightarrow> openapi_snapshot \<Rightarrow> (operation_key, string list) dict py" where
  "operation_tags M snapshot =
     bind_py (as_obj (jget_or (os_document snapshot) ''paths'' (JObj []))) (\<lambda>paths.
       Inr (foldl (\<lambda>d (k, ts). AList.update k ts d) [] (concat (map (path_tags M) paths))))"

section \<open>Lemmas\<close>

text \<open>Suggestions are offered once, in the order of the document.\<close>

lemma suggested_base_urls_distinct: "suggested_base_urls M brk snapshot = Inr urls \<Longrightarrow> distinct urls"
proof -
  have "distinct (foldl (\<lambda>acc u. case u of Some url \<Rightarrow> if url \<in> set acc then acc else acc @ [url] | None \<Rightarrow> acc) acc us)"
    if "distinct acc" for acc and us :: "string option list"
    using that by (induction us arbitrary: acc) (auto split: option.split)
  then show "suggested_base_urls M brk snapshot = Inr urls \<Longrightarrow> distinct urls"
    by (auto simp: suggested_base_urls_def bind_py_def split: sum.splits)
qed

text \<open>A URL without variables is suggested as it is written.\<close>

lemma expand_variables_none: "CHR ''{'' \<notin> set s \<Longrightarrow> expand_variables f s = s"
  by (induction f s rule: expand_variables.induct) (auto simp: Let_def)

lemma expand_variables_examples:
  "expand_variables (\<lambda>n. ''v1'') ''https://x/{version}/a'' = ''https://x/v1/a''"
  "expand_variables (\<lambda>n. ''v1'') ''a{}b{c'' = ''a{}b{c''"
  by code_simp+

lemma urljoin_examples:
  "urljoin (\<lambda>h. True) ''https://x.org/a/b/spec.json'' ''../v2'' = Inr ''https://x.org/a/v2''"
  "urljoin (\<lambda>h. True) ''https://x.org/a/spec.json'' ''/v2/'' = Inr ''https://x.org/v2/''"
  "urljoin (\<lambda>h. True) ''https://x.org/a/spec.json?q=1'' ''#top'' = Inr ''https://x.org/a/spec.json?q=1#top''"
  by code_simp+

end
