(* ===== verification/Openapi_Routes.thy ===== *)
theory Openapi_Routes
  imports Revision Hints Ssrf
begin

text \<open>
  \<^verbatim>\<open>routes/openapi.py\<close>: the administration of OpenAPI servers. A handler takes the request as the authentication dependency leaves it,
  and returns its reply with the new state; a job that was submitted is kept with its work until it runs. Reading a body as JSON
  and as one of the models (up to the validators of the models) is an argument, as is the dump of a record.
\<close>

section \<open>State and replies\<close>

datatype 'a parse_outcome = Not_json | Not_valid string | Parse_raised py_exc | Parsed 'a

record tool_choices =
  tc_selection :: "operation_ref list option"
  tc_overrides :: "operation_override list option"
  tc_health_probe :: "operation_ref option"
  tc_sent :: "string list"

record 's openapi_app =
  ap_discovery :: "'s discovery_state"
  ap_jobs :: job_store
  ap_works :: "(string \<times> import_request) list"

record 's openapi_env =
  oe_auth :: "auth_config option"
  oe_import :: "'s import_env"
  oe_allow_private :: bool
  oe_brk :: "string \<Rightarrow> bool"
  oe_ip :: ip_reader
  oe_dns :: resolver
  oe_parse_import :: "string \<Rightarrow> import_request parse_outcome"
  oe_parse_settings :: "string \<Rightarrow> server_settings parse_outcome"
  oe_parse_choices :: "string \<Rightarrow> tool_choices parse_outcome"
  oe_parse_revision :: "string \<Rightarrow> string parse_outcome"
  oe_invalid_body :: "string \<Rightarrow> string"
  oe_isoformat :: "timestamp \<Rightarrow> string"
  oe_dump :: "registered_server \<Rightarrow> json"
  oe_job_id :: string
  oe_clock :: rat

datatype route_result = Reply int json headers | Denied http_exception | Route_failed py_exc

type_synonym 's handled = "(route_result \<times> 's openapi_app) option"

definition error_reply :: "int \<Rightarrow> string \<Rightarrow> jdict \<Rightarrow> route_result" where
  "error_reply status message extra = Reply status (JObj ((''error'', JStr message) # extra)) []"

abbreviation discovery_of :: "'s openapi_env \<Rightarrow> 's discovery_env" where
  "discovery_of E \<equiv> im_discovery (oe_import E)"

definition max_spec_bytes :: "'s openapi_env \<Rightarrow> int" where
  "max_spec_bytes E = sl_max_bytes (im_limits (oe_import E))"

definition description_limit :: "'s openapi_env \<Rightarrow> int" where
  "description_limit E = dv_description_limit (discovery_of E)"

definition ENVELOPE_BYTES :: int where "ENVELOPE_BYTES = 64 * 1024"
definition TOOLS_BODY_BYTES :: int where "TOOLS_BODY_BYTES = 1024 * 1024"
definition CHOICE_BODY_BYTES :: int where "CHOICE_BODY_BYTES = 1024"

text \<open>\<open>_read_capped\<close>: however the body is cut into chunks, it is refused once it is longer than the limit.\<close>

definition capped_body :: "http_request \<Rightarrow> int \<Rightarrow> string option py" where
  "capped_body request limit =
     (let declared = header_or_empty (rq_headers request) ''content-length'';
          body = (if int (length (rq_body request)) > limit then None else Some (rq_body request))
      in if py_isdigit declared
         then (case int_text declared of
                 None \<Rightarrow> Inl (ValueError declared)
               | Some n \<Rightarrow> if n > limit then Inr None else Inr body)
         else Inr body)"

text \<open>The shape the handlers share: the administrator's scope, then the body.\<close>

definition as_admin :: "'s openapi_env \<Rightarrow> http_request \<Rightarrow> 's openapi_app \<Rightarrow> 's handled \<Rightarrow> 's handled" where
  "as_admin E request app k =
     (case require_admin (oe_auth E) request of Some exc \<Rightarrow> Some (Denied exc, app) | None \<Rightarrow> k)"

definition with_body ::
  "http_request \<Rightarrow> int \<Rightarrow> string \<Rightarrow> 's openapi_app \<Rightarrow> (string \<Rightarrow> 's handled) \<Rightarrow> 's handled" where
  "with_body request limit message app k =
     (case capped_body request limit of
        Inl e \<Rightarrow> Some (Route_failed e, app)
      | Inr None \<Rightarrow> Some (error_reply 413 message [], app)
      | Inr (Some body) \<Rightarrow> k body)"

definition or_braces :: "string \<Rightarrow> string" where
  "or_braces raw = (if raw \<noteq> [] then raw else ''{}'')"

definition invalid_value :: "string \<Rightarrow> string" where
  "invalid_value message = (if message = ''id is required'' then ''id: '' else []) @ ''Value error, '' @ message"

definition url_safe :: "'s openapi_env \<Rightarrow> string \<Rightarrow> bool \<Rightarrow> bool" where
  "url_safe E url require_reachability \<longleftrightarrow>
     fst (is_url_safe_for_discovery (oe_brk E) (oe_ip E) (oe_dns E) url require_reachability (oe_allow_private E))"

definition stored_server :: "'s openapi_env \<Rightarrow> string \<Rightarrow> 's openapi_app \<Rightarrow> registered_server option" where
  "stored_server E server_id app = reg_get (dv_ops (discovery_of E)) (ds_registry (ap_discovery app)) server_id"

definition openapi_server :: "'s openapi_env \<Rightarrow> string \<Rightarrow> 's openapi_app \<Rightarrow> registered_server option" where
  "openapi_server E server_id app =
     (case stored_server E server_id app of Some s \<Rightarrow> if is_openapi s then Some s else None | None \<Rightarrow> None)"

definition no_server :: route_result where "no_server = error_reply 404 ''no such OpenAPI server'' []"

section \<open>Jobs\<close>

definition status_text :: "job_status \<Rightarrow> string" where
  "status_text s =
     (case s of Queued \<Rightarrow> ''queued'' | Running \<Rightarrow> ''running'' | Succeeded \<Rightarrow> ''succeeded'' | Failed \<Rightarrow> ''failed'')"

definition optional_text :: "string option \<Rightarrow> json" where
  "optional_text t = (case t of Some s \<Rightarrow> JStr s | None \<Rightarrow> JNull)"

definition job_json :: "(timestamp \<Rightarrow> string) \<Rightarrow> import_job \<Rightarrow> jdict" where
  "job_json show_time j =
     [(''job_id'', JStr (ij_id j)), (''server_id'', JStr (ij_server_id j)), (''status'', JStr (status_text (ij_status j))),
      (''created_at'', JStr (show_time (ij_created_at j))), (''finished_at'', optional_text (map_option show_time (ij_finished_at j))),
      (''outcome'', optional_text (ij_outcome j)), (''error'', optional_text (ij_error j)),
      (''pointer'', JStr (ij_pointer j)), (''problems'', JList (map JStr (ij_problems j)))]"

definition submit_import :: "'s openapi_env \<Rightarrow> import_request \<Rightarrow> 's openapi_app \<Rightarrow> route_result \<times> 's openapi_app" where
  "submit_import E r app =
     (case submit (oe_job_id E) (dv_now (discovery_of E)) (oe_clock E) (rq_id r) (ap_jobs app) of
        (None, jobs) \<Rightarrow>
          (error_reply 429 (str_nat (waiting jobs) @ '' OpenAPI imports are already in progress'') [], app\<lparr>ap_jobs := jobs\<rparr>)
      | (Some job, jobs) \<Rightarrow>
          (let location = ''/v1/openapi/imports/'' @ ij_id job
           in (Reply 202 (JObj (job_json (oe_isoformat E) job @ [(''status_url'', JStr location)])) [(''Location'', location)],
               app\<lparr>ap_jobs := jobs, ap_works := ap_works app @ [(ij_id job, r)]\<rparr>)))"

definition start_import :: "'s openapi_env \<Rightarrow> http_request \<Rightarrow> 's openapi_app \<Rightarrow> 's handled" where
  "start_import E request app =
     as_admin E request app
       (with_body request (max_spec_bytes E + ENVELOPE_BYTES) ''request too large (openapi.max_spec_bytes)'' app (\<lambda>body.
          case oe_parse_import E body of
            Parse_raised e \<Rightarrow> Some (Route_failed e, app)
          | Not_json \<Rightarrow> Some (error_reply 400 ''invalid json'' [], app)
          | Not_valid message \<Rightarrow> Some (error_reply 400 message [], app)
          | Parsed raw \<Rightarrow>
              (case read_import (oe_brk E) raw of
                 Inl message \<Rightarrow> Some (error_reply 400 (invalid_value message) [], app)
               | Inr r \<Rightarrow>
                   if int (length (encode_utf8 (rq_spec r))) > max_spec_bytes E
                   then Some (error_reply 413 ''spec too large (openapi.max_spec_bytes)'' [], app)
                   else if (case stored_server E (rq_id r) app of Some e \<Rightarrow> \<not> is_openapi e | None \<Rightarrow> False)
                   then Some (error_reply 409 (repr_str (rq_id r) @ '' is already registered as a non-OpenAPI server'') [], app)
                   else if (st_base_url r \<noteq> [] \<and> \<not> url_safe E (st_base_url r) True) \<or>
                           (rq_spec_url r \<noteq> [] \<and> \<not> url_safe E (rq_spec_url r) False)
                   then Some (error_reply 400 ''URL validation failed'' [], app)
                   else Some (submit_import E r app))))"

definition get_import :: "'s openapi_env \<Rightarrow> string \<Rightarrow> http_request \<Rightarrow> 's openapi_app \<Rightarrow> 's handled" where
  "get_import E job_id request app =
     as_admin E request app
       (case job_get (oe_clock E) job_id (ap_jobs app) of
          (None, jobs) \<Rightarrow> Some (error_reply 404 ''no such import job (finished jobs are kept for an hour)'' [], app\<lparr>ap_jobs := jobs\<rparr>)
        | (Some job, jobs) \<Rightarrow> Some (Reply 200 (JObj (job_json (oe_isoformat E) job)) [], app\<lparr>ap_jobs := jobs\<rparr>))"

text \<open>A submitted job, once it has a slot.\<close>

definition run_job :: "'s openapi_env \<Rightarrow> string \<Rightarrow> 's openapi_app \<Rightarrow> 's openapi_app option" where
  "run_job E job_id app =
     (case (map_of (ap_works app) job_id, start_job job_id (ap_jobs app)) of
        (Some r, Some jobs) \<Rightarrow>
          map_option (\<lambda>(result, d).
              app\<lparr>ap_discovery := d, ap_works := AList.delete job_id (ap_works app),
                  ap_jobs := end_job (dv_now (discovery_of E)) (oe_clock E) job_id (import_work result) jobs\<rparr>)
            (run_import (oe_import E) r (ap_discovery app))
      | _ \<Rightarrow> Some app)"

section \<open>Operations and choices\<close>

definition operation_json :: "mapped_operation \<Rightarrow> string list \<Rightarrow> json" where
  "operation_json m tags =
     JObj [(''method'', JStr (ok_method (mo_key m))), (''path'', JStr (ok_path (mo_key m))),
           (''tags'', JList (map JStr tags)), (''selected'', JBool (mo_selected m)),
           (''tool'', case mo_tool m of Some t \<Rightarrow> JObj (tool_def_to_mcp t) | None \<Rightarrow> JNull),
           (''unsupported'', JList (map JStr (mo_unsupported m))), (''dropped'', JList (map JStr (mo_dropped m))),
           (''problems'', JList (map JStr (mapped_problems m))), (''notes'', JList (map JStr (mo_notes m)))]"

definition loaded_json :: "'s openapi_env \<Rightarrow> openapi_snapshot \<Rightarrow> json" where
  "loaded_json E s = optional_text (map_option (oe_isoformat E) (os_loaded_at s))"

definition operations_json ::
  "'s openapi_env \<Rightarrow> registered_server \<Rightarrow> mapped_operation list \<Rightarrow> (operation_key, string list) dict \<Rightarrow> string list
     \<Rightarrow> jdict list \<Rightarrow> json" where
  "operations_json E server operations tags urls hints =
     JObj [(''server_id'', JStr (srv_id server)), (''base_url'', JStr (srv_openapi_base_url server)),
           (''sha256'', optional_text (map_option os_sha256 (srv_openapi_snapshot server))),
           (''pending'', case srv_openapi_pending server of
              Some p \<Rightarrow> JObj [(''sha256'', JStr (os_sha256 p)), (''loaded_at'', loaded_json E p)] | None \<Rightarrow> JNull),
           (''health_probe'', probe_json (srv_openapi_health_probe server)),
           (''suggested_base_urls'', JList (map JStr urls)), (''security_schemes'', JList (map JObj hints)),
           (''operations'', JList (map (\<lambda>m. operation_json m (case map_of tags (mo_key m) of Some ts \<Rightarrow> ts | None \<Rightarrow> []))
              operations))]"

definition get_operations :: "'s openapi_env \<Rightarrow> string \<Rightarrow> http_request \<Rightarrow> 's openapi_app \<Rightarrow> 's handled" where
  "get_operations E server_id request app =
     as_admin E request app
       (case openapi_server E server_id app of
          None \<Rightarrow> Some (no_server, app)
        | Some server \<Rightarrow>
            (let M = dv_map (discovery_of E)
             in case bind_run (openapi_preview M server (description_limit E)) (\<lambda>operations.
                     bind_run (lift (case srv_openapi_snapshot server of
                                       None \<Rightarrow> Inr [] | Some s \<Rightarrow> operation_tags M s)) (\<lambda>tags.
                     bind_run (lift (case srv_openapi_snapshot server of
                                       None \<Rightarrow> Inr [] | Some s \<Rightarrow> suggested_base_urls M (oe_brk E) s)) (\<lambda>urls.
                     bind_run (lift (case srv_openapi_snapshot server of
                                       None \<Rightarrow> Inr [] | Some s \<Rightarrow> security_scheme_hints M s)) (\<lambda>hints.
                       ret (operations_json E server operations tags urls hints))))) of
                  None \<Rightarrow> None
                | Some (Inl e) \<Rightarrow> Some (Route_failed e, app)
                | Some (Inr content) \<Rightarrow> Some (Reply 200 content [], app)))"

text \<open>\<open>register\<close> and \<open>discover_immediately\<close> of a changed record, then the reply from what is stored.\<close>

definition store_and_reply ::
  "'s openapi_env \<Rightarrow> string \<Rightarrow> registered_server \<Rightarrow> (registered_server \<Rightarrow> json py) \<Rightarrow> 's openapi_app \<Rightarrow> 's handled" where
  "store_and_reply E server_id updated reply app =
     (let D = discovery_of E
      in case store_server D updated (ap_discovery app) of
           (Some e, d) \<Rightarrow> Some (Route_failed (case e of DE_raised x \<Rightarrow> x | _ \<Rightarrow> RuntimeError []), app\<lparr>ap_discovery := d\<rparr>)
         | (None, d) \<Rightarrow>
             (case discover_immediately D DISCOVERY_TIMEOUT updated d of
                None \<Rightarrow> None
              | Some (Some e, d') \<Rightarrow>
                  Some (Route_failed (case e of DE_raised x \<Rightarrow> x | _ \<Rightarrow> RuntimeError []), app\<lparr>ap_discovery := d'\<rparr>)
              | Some (None, d') \<Rightarrow>
                  (let app' = app\<lparr>ap_discovery := d'\<rparr>
                   in case stored_server E server_id app' of
                        None \<Rightarrow> Some (Route_failed (AttributeError ''object has no attribute''), app')
                      | Some stored \<Rightarrow>
                          (case reply stored of
                             Inl e \<Rightarrow> Some (Route_failed e, app')
                           | Inr content \<Rightarrow> Some (Reply 200 content [], app')))))"

definition tool_names :: "registered_server \<Rightarrow> json py" where
  "tool_names stored =
     map_sum (\<lambda>e. e) JList
       (map_py (\<lambda>t. case t of
                      JObj d \<Rightarrow> (case map_of d ''name'' of Some n \<Rightarrow> Inr n | None \<Rightarrow> Inl (KeyError ''name''))
                    | _ \<Rightarrow> Inl (TypeError ''indices must be integers''))
          (or_none (srv_tools stored)))"

text \<open>The result of a checked change: an exception, its problems, or the record to store.\<close>

definition served_or_problems ::
  "string \<Rightarrow> (string list + 'b) run \<Rightarrow> 's openapi_app \<Rightarrow> ('b \<Rightarrow> 's handled) \<Rightarrow> 's handled" where
  "served_or_problems message result app k =
     (case result of
        None \<Rightarrow> None
      | Some (Inl e) \<Rightarrow> Some (Route_failed e, app)
      | Some (Inr (Inl problems)) \<Rightarrow> Some (error_reply 400 message [(''problems'', JList (map JStr problems))], app)
      | Some (Inr (Inr x)) \<Rightarrow> k x)"

definition put_tools :: "'s openapi_env \<Rightarrow> string \<Rightarrow> http_request \<Rightarrow> 's openapi_app \<Rightarrow> 's handled" where
  "put_tools E server_id request app =
     as_admin E request app
       (with_body request TOOLS_BODY_BYTES ''request too large'' app (\<lambda>raw.
          case oe_parse_choices E (or_braces raw) of
            Parse_raised e \<Rightarrow> Some (Route_failed e, app)
          | Not_json \<Rightarrow> Some (error_reply 400 (''invalid body: '' @ oe_invalid_body E raw) [], app)
          | Not_valid message \<Rightarrow> Some (error_reply 400 (''invalid body: '' @ message) [], app)
          | Parsed c \<Rightarrow>
              (case openapi_server E server_id app of
                 None \<Rightarrow> Some (no_server, app)
               | Some server \<Rightarrow>
                   served_or_problems ''these choices cannot be served''
                     (apply_choices (dv_map (discovery_of E)) server (tc_selection c) (tc_overrides c) (tc_health_probe c)
                        (tc_sent c) (description_limit E)) app (\<lambda>updated.
                     store_and_reply E server_id updated
                       (\<lambda>stored. map_sum (\<lambda>e. e) (\<lambda>names. JObj [(''tools'', names)]) (tool_names stored)) app))))"

definition patch_settings :: "'s openapi_env \<Rightarrow> string \<Rightarrow> http_request \<Rightarrow> 's openapi_app \<Rightarrow> 's handled" where
  "patch_settings E server_id request app =
     as_admin E request app
       (with_body request TOOLS_BODY_BYTES ''request too large'' app (\<lambda>raw.
          case oe_parse_settings E (or_braces raw) of
            Parse_raised e \<Rightarrow> Some (Route_failed e, app)
          | Not_json \<Rightarrow> Some (error_reply 400 ''invalid json'' [], app)
          | Not_valid message \<Rightarrow> Some (error_reply 400 message [], app)
          | Parsed sent_settings \<Rightarrow>
              (case read_settings (oe_brk E) sent_settings of
                 Inl message \<Rightarrow> Some (error_reply 400 (invalid_value message) [], app)
               | Inr r \<Rightarrow>
                   if st_base_url r \<noteq> [] \<and> \<not> url_safe E (st_base_url r) True
                   then Some (error_reply 400 ''URL validation failed'' [], app)
                   else (case openapi_server E server_id app of
                           None \<Rightarrow> Some (no_server, app)
                         | Some server \<Rightarrow>
                             served_or_problems ''these settings cannot serve the current choices''
                               (apply_settings (dv_map (discovery_of E)) server r (description_limit E)) app (\<lambda>updated.
                               store_and_reply E server_id updated
                                 (\<lambda>stored. Inr (JObj [(''server'', oe_dump E (sanitize_for_api stored))])) app)))))"

section \<open>Revisions\<close>

definition snapshot_json :: "'s openapi_env \<Rightarrow> openapi_snapshot option \<Rightarrow> json" where
  "snapshot_json E snapshot =
     (case snapshot of
        None \<Rightarrow> JNull
      | Some s \<Rightarrow> JObj [(''sha256'', JStr (os_sha256 s)), (''dialect'', JStr (dialect_text (os_dialect s))),
                      (''source_url'', JStr (os_source_url s)), (''loaded_at'', loaded_json E s)])"

text \<open>The pending document's address, or the accepted one's.\<close>

definition refresh_source :: "registered_server \<Rightarrow> string" where
  "refresh_source server =
     (case find (\<lambda>u. u \<noteq> []) (map os_source_url
              (List.map_filter id [srv_openapi_pending server, srv_openapi_snapshot server])) of
        Some u \<Rightarrow> u
      | None \<Rightarrow> [])"

text \<open>\<open>OpenAPIImportRequest(id=..., spec_url=...)\<close>: every other field at its default.\<close>

definition refetch_request :: "string \<Rightarrow> string \<Rightarrow> import_request" where
  "refetch_request server_id source =
     \<lparr>st_base_url = [], st_name = [], st_description = [], st_tags = None, st_required_scope = [], st_auth_type = AT_unset,
      st_bearer_token = [], st_basic_username = [], st_basic_password = [], st_oauth_token_url = [], st_oauth_client_id = [],
      st_oauth_client_secret = [], st_oauth_scope = [], st_oauth_resource = [], st_obo_audience = [], st_obo_resource = [],
      st_obo_scope = [], st_obo_actor_token_source = AS_none, st_ema_resource_as_issuer = [],
      st_ema_resource_as_token_url = [], st_ema_resource_id = [], st_ema_subject_token_type = ST_id_token,
      st_api_key_name = [], st_api_key_in = [], st_api_key_value = [], st_sent = [''id'', ''spec_url''],
      rq_id = server_id, rq_spec = [], rq_spec_url = source, rq_selection = None, rq_overrides = None,
      rq_health_probe = None\<rparr>"

definition refresh :: "'s openapi_env \<Rightarrow> string \<Rightarrow> http_request \<Rightarrow> 's openapi_app \<Rightarrow> 's handled" where
  "refresh E server_id request app =
     as_admin E request app
       (case openapi_server E server_id app of
          None \<Rightarrow> Some (no_server, app)
        | Some server \<Rightarrow>
            (let source = refresh_source server
             in if source = []
                then Some (error_reply 400 (''this server''  @ [CHR 0x27] @ ''s spec was uploaded, not fetched; upload a new one ''
                             @ ''through POST /v1/openapi/imports'') [], app)
                else if \<not> url_safe E source False then Some (error_reply 400 ''URL validation failed'' [], app)
                else (case read_import (oe_brk E) (refetch_request server_id source) of
                        Inl message \<Rightarrow> Some (Route_failed (ValueError message), app)
                      | Inr r \<Rightarrow> Some (submit_import E r app))))"

definition get_revision :: "'s openapi_env \<Rightarrow> string \<Rightarrow> http_request \<Rightarrow> 's openapi_app \<Rightarrow> 's handled" where
  "get_revision E server_id request app =
     as_admin E request app
       (case openapi_server E server_id app of
          None \<Rightarrow> Some (error_reply 404 ''no pending revision'' [], app)
        | Some server \<Rightarrow>
            if srv_openapi_pending server = None then Some (error_reply 404 ''no pending revision'' [], app)
            else (case diff_revision (dv_map (discovery_of E)) server (description_limit E) of
                    None \<Rightarrow> None
                  | Some (Inl e) \<Rightarrow> Some (Route_failed e, app)
                  | Some (Inr d) \<Rightarrow>
                      Some (Reply 200 (JObj [(''accepted'', snapshot_json E (srv_openapi_snapshot server)),
                              (''pending'', snapshot_json E (srv_openapi_pending server)), (''diff'', diff_json d)]) [], app)))"

text \<open>The server whose pending revision is the one that was reviewed, or the refusal.\<close>

definition reviewed_revision ::
  "'s openapi_env \<Rightarrow> http_request \<Rightarrow> string \<Rightarrow> 's openapi_app \<Rightarrow> route_result + registered_server \<times> openapi_snapshot" where
  "reviewed_revision E request server_id app =
     (let malformed = error_reply 400 (''send {'' @ [CHR 0x22] @ ''sha256'' @ [CHR 0x22] @ '': <the pending revision''
            @ [CHR 0x27] @ ''s sha256>}'') []
      in case capped_body request CHOICE_BODY_BYTES of
           Inl e \<Rightarrow> Inl (Route_failed e)
         | Inr None \<Rightarrow> Inl (error_reply 413 ''request too large'' [])
         | Inr (Some raw) \<Rightarrow>
             (case oe_parse_revision E (or_braces raw) of
                Parse_raised e \<Rightarrow> Inl (Route_failed e)
              | Not_json \<Rightarrow> Inl malformed
              | Not_valid message \<Rightarrow> Inl malformed
              | Parsed sha256 \<Rightarrow>
                  (case openapi_server E server_id app of
                     None \<Rightarrow> Inl (error_reply 404 ''no pending revision'' [])
                   | Some server \<Rightarrow>
                       (case srv_openapi_pending server of
                          None \<Rightarrow> Inl (error_reply 404 ''no pending revision'' [])
                        | Some pending \<Rightarrow>
                            if os_sha256 pending \<noteq> sha256
                            then Inl (error_reply 409 ''the pending revision has changed since it was reviewed; read it again''
                                        [(''pending'', snapshot_json E (Some pending))])
                            else Inr (server, pending)))))"

definition accept :: "'s openapi_env \<Rightarrow> string \<Rightarrow> http_request \<Rightarrow> 's openapi_app \<Rightarrow> 's handled" where
  "accept E server_id request app =
     as_admin E request app
       (case reviewed_revision E request server_id app of
          Inl refusal \<Rightarrow> Some (refusal, app)
        | Inr (server, pending) \<Rightarrow>
            served_or_problems (''the revision cannot be served with the current choices; fix them ''
                @ ''(for example with an override) and accept again'')
              (accept_revision (dv_map (discovery_of E)) server (description_limit E)) app (\<lambda>(updated, report).
              store_and_reply E server_id updated
                (\<lambda>stored. map_sum (\<lambda>e. e) (\<lambda>names. JObj [(''accepted'', snapshot_json E (srv_openapi_snapshot stored)),
                   (''tools'', names), (''dropped'', report_json report)]) (tool_names stored)) app))"

definition reject :: "'s openapi_env \<Rightarrow> string \<Rightarrow> http_request \<Rightarrow> 's openapi_app \<Rightarrow> 's handled" where
  "reject E server_id request app =
     as_admin E request app
       (case reviewed_revision E request server_id app of
          Inl refusal \<Rightarrow> Some (refusal, app)
        | Inr (server, pending) \<Rightarrow>
            (case store_server (discovery_of E) (server\<lparr>srv_openapi_pending := None\<rparr>) (ap_discovery app) of
               (Some e, d) \<Rightarrow> Some (Route_failed (case e of DE_raised x \<Rightarrow> x | _ \<Rightarrow> RuntimeError []), app\<lparr>ap_discovery := d\<rparr>)
             | (None, d) \<Rightarrow>
                 Some (Reply 200 (JObj [(''rejected'', JStr (os_sha256 pending))]) [], app\<lparr>ap_discovery := d\<rparr>)))"

section \<open>The routes\<close>

datatype openapi_route =
    Start_import | Get_import string | Get_operations string | Put_tools string | Refresh string
  | Get_revision string | Accept_revision string | Reject_revision string | Patch_settings string

fun handle_route :: "'s openapi_env \<Rightarrow> openapi_route \<Rightarrow> http_request \<Rightarrow> 's openapi_app \<Rightarrow> 's handled" where
  "handle_route E Start_import request app = start_import E request app"
| "handle_route E (Get_import i) request app = get_import E i request app"
| "handle_route E (Get_operations i) request app = get_operations E i request app"
| "handle_route E (Put_tools i) request app = put_tools E i request app"
| "handle_route E (Refresh i) request app = refresh E i request app"
| "handle_route E (Get_revision i) request app = get_revision E i request app"
| "handle_route E (Accept_revision i) request app = accept E i request app"
| "handle_route E (Reject_revision i) request app = reject E i request app"
| "handle_route E (Patch_settings i) request app = patch_settings E i request app"

section \<open>Lemmas\<close>

text \<open>Without the administrator's scope nothing is read, changed or submitted.\<close>

lemmas route_defs =
  start_import_def get_import_def get_operations_def put_tools_def refresh_def get_revision_def accept_def reject_def
  patch_settings_def

lemma handle_route_denied:
  "require_admin (oe_auth E) request = Some exc \<Longrightarrow> handle_route E route request app = Some (Denied exc, app)"
  by (cases route) (simp_all add: route_defs as_admin_def)

text \<open>A refresh sends an address only. It resets the two settings whose default is not empty.\<close>

lemma refetch_settings:
  "settings_update (refetch_request server_id source) s =
     s\<lparr>srv_obo_actor_token_source := AS_none, srv_ema_subject_token_type := ST_id_token\<rparr>"
proof -
  have "blank_settings (refetch_request server_id source)"
    by (simp add: blank_settings_def refetch_request_def SETTINGS_FIELDS_def CREDENTIAL_FIELDS_def)
  from blank_settings_update[OF this] show ?thesis by (simp add: refetch_request_def)
qed

lemma checked_ok: "apply_choices M server sel ov probe sent_fields limit = ret (Inr s) \<Longrightarrow>
    s = with_choices (\<lambda>f. f \<in> set sent_fields) sel ov probe server \<and> check_choices M s limit = ret []"
  "apply_settings M server r limit = ret (Inr s) \<Longrightarrow> s = settings_update r server \<and> check_choices M s limit = ret []"
  using checked_result by (fastforce simp: apply_choices_def apply_settings_def)+

context server_registry
begin

lemma store_and_reply_stores:
  assumes "dv_ops (discovery_of E) = ops" "inv (ds_registry (ap_discovery app))"
    and "is_openapi updated" "srv_id updated = server_id"
    and "check_choices (dv_map (discovery_of E)) updated (dv_description_limit (discovery_of E)) = ret []"
    and "store_and_reply E server_id updated reply app = Some (Reply 200 content hs, app')"
  shows "\<exists>e. stored_server E server_id app' = Some e \<and> served_view e = served_view updated"
proof -
  let ?D = "discovery_of E"
  from assms(6) obtain d d' where store: "store_server ?D updated (ap_discovery app) = (None, d)"
    and disc: "discover_immediately ?D DISCOVERY_TIMEOUT updated d = Some (None, d')" and app': "app' = app\<lparr>ap_discovery := d'\<rparr>"
    by (auto simp: store_and_reply_def Let_def split: prod.splits option.splits sum.splits)
  have "register_checked ?D updated [] (ap_discovery app) = Some (Inr [], d')"
    using store disc assms(5) by (simp add: register_checked_def)
  from register_checked_stores(2)[OF assms(1,2,3) this refl] show ?thesis
    using app' assms(1,4) by (auto simp: stored_server_def)
qed

text \<open>What a successful acceptance stores is the revision that was reviewed.\<close>

lemma accept_stores_reviewed:
  assumes "dv_ops (discovery_of E) = ops" "inv (ds_registry (ap_discovery app))"
    and "accept E server_id request app = Some (Reply 200 content hs, app')"
  shows "\<exists>server pending e. openapi_server E server_id app = Some server \<and> srv_openapi_pending server = Some pending \<and>
     oe_parse_revision E (or_braces (rq_body request)) = Parsed (os_sha256 pending) \<and>
     stored_server E server_id app' = Some e \<and> srv_openapi_snapshot e = Some pending \<and> srv_openapi_pending e = None \<and>
     set (srv_openapi_selection e) \<subseteq> set (srv_openapi_selection server)"
proof -
  from assms(3) obtain server pending updated report where
    reviewed: "reviewed_revision E request server_id app = Inr (server, pending)"
    and acc: "accept_revision (dv_map (discovery_of E)) server (description_limit E) = ret (Inr (updated, report))"
    and stored: "store_and_reply E server_id updated
        (\<lambda>stored. map_sum (\<lambda>e. e) (\<lambda>names. JObj [(''accepted'', snapshot_json E (srv_openapi_snapshot stored)),
           (''tools'', names), (''dropped'', report_json report)]) (tool_names stored)) app = Some (Reply 200 content hs, app')"
    by (auto simp: accept_def as_admin_def served_or_problems_def error_reply_def reviewed_revision_def Let_def
        split: option.splits sum.splits parse_outcome.splits if_splits prod.splits)
  from reviewed have server: "openapi_server E server_id app = Some server" "srv_openapi_pending server = Some pending"
    "oe_parse_revision E (or_braces (rq_body request)) = Parsed (os_sha256 pending)"
    by (auto simp: reviewed_revision_def Let_def capped_body_def error_reply_def
        split: option.splits sum.splits parse_outcome.splits if_splits)
  then have "reg_get ops (ds_registry (ap_discovery app)) server_id = Some server" and op: "is_openapi server"
    by (auto simp: openapi_server_def stored_server_def assms(1) split: option.splits if_splits)
  then have key: "srv_id server = server_id" using assms(2) abs_key by (auto simp: reg_get_def get_abs)
  note from_server = accept_revision_checked[OF acc]
  have "srv_transport_kind updated = srv_transport_kind server"
    by (rule accept_revision_kind[OF acc])
  with from_server op key have "is_openapi updated" "srv_id updated = server_id"
    by (simp_all add: accepted_from_def is_openapi_def)
  from store_and_reply_stores[OF assms(1,2) this _ stored] from_server obtain e where
    "stored_server E server_id app' = Some e" "served_view e = served_view updated"
    by (auto simp: description_limit_def)
  then show ?thesis
    using server from_server by (auto simp: accepted_from_def served_view_def choice_view_def)
qed

end

end
