(* ===== verification/Registry_Exchange.thy ===== *)
theory Registry_Exchange
  imports Server_Model Request_Builder Ssrf Py_Object
begin

text \<open>
  \<^verbatim>\<open>mcp/registry_client.py\<close>, \<^verbatim>\<open>mcp/registry_import.py\<close> and \<^verbatim>\<open>mcp/registry_export.py\<close>: reading the public registry, turning one
  of its records into a registration, and a registered server into a document to publish. The GET of the registry is an argument: an
  exception, or the decoded body.
\<close>

section \<open>Records\<close>

record registry_record =
  rr_name :: string
  rr_version :: string
  rr_description :: string
  rr_title :: string
  rr_repository_url :: string
  rr_remotes :: "jdict list"
  rr_packages :: "jdict list"
  rr_schema_url :: string
  rr_is_latest :: "bool option"

definition is_remote :: "registry_record \<Rightarrow> bool" where
  "is_remote r \<longleftrightarrow> rr_remotes r \<noteq> []"

definition needs_stdio :: "registry_record \<Rightarrow> bool" where
  "needs_stdio r \<longleftrightarrow> rr_remotes r = [] \<and> rr_packages r \<noteq> []"

definition list_of_dicts :: "json \<Rightarrow> jdict list" where
  "list_of_dicts v = (case v of JList xs \<Rightarrow> map obj_or_empty (filter is_obj xs) | _ \<Rightarrow> [])"

definition official_is_latest :: "jdict \<Rightarrow> bool option" where
  "official_is_latest entry =
     (case jget entry ''_meta'' of
        JObj meta \<Rightarrow>
          (case jget meta ''io.modelcontextprotocol.registry/official'' of
             JObj official \<Rightarrow> (case jget official ''isLatest'' of JBool b \<Rightarrow> Some b | _ \<Rightarrow> None)
           | _ \<Rightarrow> None)
      | _ \<Rightarrow> None)"

definition repository_url :: "jdict \<Rightarrow> string" where
  "repository_url server =
     (case jget server ''repository'' of
        JObj r \<Rightarrow> (case jget r ''url'' of JStr u \<Rightarrow> u | _ \<Rightarrow> [])
      | _ \<Rightarrow> [])"

definition record_from :: "(rat \<Rightarrow> string) \<Rightarrow> json \<Rightarrow> registry_record option" where
  "record_from fr entry =
     (case entry of
        JObj e \<Rightarrow>
          (case jget e ''server'' of
             JObj server \<Rightarrow>
               (case jget server ''name'' of
                  JStr name \<Rightarrow>
                    if name = [] then None
                    else Some \<lparr>rr_name = name, rr_version = str_or_empty fr (jget server ''version''),
                           rr_description = str_or_empty fr (jget server ''description''),
                           rr_title = str_or_empty fr (jget server ''title''),
                           rr_repository_url = repository_url server,
                           rr_remotes = list_of_dicts (jget server ''remotes''),
                           rr_packages = list_of_dicts (jget server ''packages''),
                           rr_schema_url = str_or_empty fr (jget server ''$schema''),
                           rr_is_latest = official_is_latest e\<rparr>
                | _ \<Rightarrow> None)
           | _ \<Rightarrow> None)
      | _ \<Rightarrow> None)"

definition parse_registry_page :: "(rat \<Rightarrow> string) \<Rightarrow> json \<Rightarrow> registry_record list \<times> string option" where
  "parse_registry_page fr payload =
     (case payload of
        JObj p \<Rightarrow>
          ((case jget p ''servers'' of JList entries \<Rightarrow> List.map_filter (record_from fr) entries | _ \<Rightarrow> []),
           (case jget p ''metadata'' of
              JObj m \<Rightarrow> (case jget m ''nextCursor'' of JStr c \<Rightarrow> if c \<noteq> [] then Some c else None | _ \<Rightarrow> None)
            | _ \<Rightarrow> None))
      | _ \<Rightarrow> ([], None))"

section \<open>The client\<close>

text \<open>The answers depend on the requests that were sent; a 404 of a single record has no payload.\<close>

type_synonym registry_request = "string \<times> (string \<times> string) list"

record registry_env =
  ry_base_url :: string
  ry_float_text :: "rat \<Rightarrow> string"
  ry_get :: "registry_request list \<Rightarrow> py_exc + json"
  ry_get_one :: "registry_request list \<Rightarrow> py_exc + json option"

definition API_PREFIX :: string where "API_PREFIX = ''/v0.1''"
definition REGISTRY_MAX_PAGES :: nat where "REGISTRY_MAX_PAGES = 50"

definition registry_base :: "registry_env \<Rightarrow> string" where
  "registry_base R = rstrip_char (CHR ''/'') (ry_base_url R)"

definition servers_url :: "registry_env \<Rightarrow> string" where
  "servers_url R = registry_base R @ API_PREFIX @ ''/servers''"

definition registry_get ::
  "registry_env \<Rightarrow> string \<Rightarrow> json \<Rightarrow> registry_request list \<Rightarrow> registry_record option py \<times> registry_request list" where
  "registry_get R name version reqs =
     (case version of
        JStr v \<Rightarrow>
          (let reqs' = reqs @ [(registry_base R @ API_PREFIX @ ''/servers/'' @ quote [] name @ ''/versions/'' @ quote [] v, [])]
           in (case ry_get_one R reqs' of
                 Inl e \<Rightarrow> Inl e
               | Inr None \<Rightarrow> Inr None
               | Inr (Some payload) \<Rightarrow> Inr (record_from (ry_float_text R) payload), reqs'))
      | _ \<Rightarrow> (Inl (TypeError ''quote_from_bytes() expected bytes''), reqs))"

definition search_params :: "string \<Rightarrow> int \<Rightarrow> string option \<Rightarrow> (string \<times> string) list" where
  "search_params query limit cursor =
     [(''limit'', str_int limit), (''version'', ''latest'')]
     @ (if query \<noteq> [] then [(''search'', query)] else [])
     @ (case cursor of Some c \<Rightarrow> if c \<noteq> [] then [(''cursor'', c)] else [] | None \<Rightarrow> [])"

definition registry_page ::
  "registry_env \<Rightarrow> string \<Rightarrow> int \<Rightarrow> string option \<Rightarrow> registry_request list
     \<Rightarrow> (registry_record list \<times> string option) py \<times> registry_request list" where
  "registry_page R query limit cursor reqs =
     (let reqs' = reqs @ [(servers_url R, search_params query limit cursor)]
      in (map_sum (\<lambda>e. e) (parse_registry_page (ry_float_text R)) (ry_get R reqs'), reqs'))"

definition search ::
  "registry_env \<Rightarrow> string \<Rightarrow> int \<Rightarrow> registry_request list \<Rightarrow> registry_record list py \<times> registry_request list" where
  "search R query limit reqs =
     (case registry_page R query limit None reqs of (r, reqs') \<Rightarrow> (map_sum (\<lambda>e. e) fst r, reqs'))"

fun list_pages ::
  "nat \<Rightarrow> registry_env \<Rightarrow> string \<Rightarrow> int \<Rightarrow> string option \<Rightarrow> registry_record list \<Rightarrow> registry_request list
     \<Rightarrow> registry_record list py \<times> registry_request list" where
  "list_pages 0 R query limit cursor collected reqs = (Inr collected, reqs)"
| "list_pages (Suc n) R query limit cursor collected reqs =
     (case registry_page R query limit cursor reqs of
        (Inl e, reqs') \<Rightarrow> (Inl e, reqs')
      | (Inr (records, next_cursor), reqs') \<Rightarrow>
          if next_cursor = None then (Inr (collected @ records), reqs')
          else list_pages n R query limit next_cursor (collected @ records) reqs')"

definition list_all_records ::
  "registry_env \<Rightarrow> string \<Rightarrow> int \<Rightarrow> nat \<Rightarrow> registry_request list \<Rightarrow> registry_record list py \<times> registry_request list" where
  "list_all_records R query limit max_pages reqs = list_pages max_pages R query limit None [] reqs"

section \<open>Import\<close>

definition id_char :: "char \<Rightarrow> bool" where
  "id_char c \<longleftrightarrow> is_ascii_alpha c \<or> is_digit c \<or> c = CHR ''_'' \<or> c = CHR ''.'' \<or> c = CHR ''-''"

text \<open>Runs of a character become one.\<close>

fun collapse_runs :: "char \<Rightarrow> string \<Rightarrow> string" where
  "collapse_runs c (a # b # s) =
     (if a = c \<and> b = c then collapse_runs c (b # s) else a # collapse_runs c (b # s))"
| "collapse_runs c s = s"

definition derive_server_id :: "string \<Rightarrow> string py" where
  "derive_server_id registry_name =
     (let name = strip registry_name;
          dotted = replace_char (CHR ''/'') (CHR ''.'') name;
          cleaned = map (\<lambda>c. if id_char c then c else CHR ''-'') dotted;
          candidate = strip_if (\<lambda>c. c = CHR ''.'' \<or> c = CHR ''-'')
                        (collapse_runs (CHR ''.'') (collapse_runs (CHR ''-'') cleaned))
      in if name = [] then Inl (ValueError ''a registry record needs a name to derive a server id from'')
         else if candidate = [] then Inl (ValueError (''cannot derive a usable server id from '' @ repr_str registry_name))
         else Inr candidate)"

record remote_option =
  ro_url :: string
  ro_transport :: string
  ro_index :: nat

definition remote_options :: "(rat \<Rightarrow> string) \<Rightarrow> registry_record \<Rightarrow> remote_option list" where
  "remote_options fr r =
     concat (map (\<lambda>(i, remote). case jget remote ''url'' of
                    JStr u \<Rightarrow> if u \<noteq> [] then [\<lparr>ro_url = u, ro_transport = str_or_empty fr (jget remote ''type''), ro_index = i\<rparr>]
                             else []
                  | _ \<Rightarrow> []) (enumerate 0 (rr_remotes r)))"

record credential_hint =
  ch_name :: string
  ch_description :: string
  ch_is_required :: bool
  ch_is_secret :: bool

definition credential_of :: "(rat \<Rightarrow> string) \<Rightarrow> json \<Rightarrow> credential_hint list" where
  "credential_of fr header =
     (case header of
        JObj h \<Rightarrow>
          (case jget h ''name'' of
             JStr n \<Rightarrow> if n = [] then []
                      else [\<lparr>ch_name = n, ch_description = str_or_empty fr (jget h ''description''),
                             ch_is_required = truthy (jget h ''isRequired''), ch_is_secret = truthy (jget h ''isSecret'')\<rparr>]
           | _ \<Rightarrow> [])
      | _ \<Rightarrow> [])"

definition required_credentials :: "(rat \<Rightarrow> string) \<Rightarrow> jdict \<Rightarrow> credential_hint list py" where
  "required_credentials fr remote =
     (let headers = jget remote ''headers''
      in map_sum (\<lambda>e. e) (\<lambda>hs. concat (map (credential_of fr) hs)) (py_iter (if truthy headers then headers else JList [])))"

definition RUNNERS :: "(string \<times> string) list" where
  "RUNNERS = [(''npm'', ''npx -y ''), (''pypi'', ''uvx ''), (''oci'', ''docker run --rm -i ''), (''nuget'', ''dnx '')]"

record command_suggestion =
  su_command_hint :: string
  su_instruction :: string

definition suggestion_text :: "registry_record \<Rightarrow> string \<Rightarrow> string \<Rightarrow> string list \<Rightarrow> string" where
  "suggestion_text r registry_type server_id words =
     (let nl = [CHR 0x0A]
      in rr_name r @ '' is distributed as a '' @ (if registry_type \<noteq> [] then registry_type else ''package'')
         @ '' program, not a URL. To use it, add an entry to stdio.allowed_commands in your config and ''
         @ ''register that entry by name:'' @ nl @ nl @ ''    stdio:'' @ nl @ ''      allowed_commands:'' @ nl
         @ ''        '' @ server_id @ '':'' @ nl @ ''          command: '' @ hd words @ nl
         @ ''          args: '' @ py_repr (\<lambda>q. []) (JList (map JStr (tl words))) @ nl @ nl
         @ ''The hub will not add this for you: commands come from your configuration, ''
         @ ''never from a registry record. See ADR 0007.'')"

definition stdio_suggestion :: "(rat \<Rightarrow> string) \<Rightarrow> registry_record \<Rightarrow> command_suggestion option py" where
  "stdio_suggestion fr r =
     (if \<not> needs_stdio r then Inr None
      else (let package = hd (rr_packages r);
                identifier = (if truthy (jget package ''identifier'') then py_str fr (jget package ''identifier'') else rr_name r);
                registry_type = lower (str_or_empty fr (jget package ''registryType''));
                command_hint = (case map_of RUNNERS registry_type of Some run \<Rightarrow> run | None \<Rightarrow> []) @ identifier;
                words = split_ws command_hint
            in case derive_server_id (rr_name r) of
                 Inl e \<Rightarrow> Inl e
               | Inr server_id \<Rightarrow>
                   if words = [] then Inl (IndexError ''list index out of range'')
                   else Inr (Some \<lparr>su_command_hint = command_hint,
                          su_instruction = suggestion_text r registry_type server_id words\<rparr>)))"

definition to_register_payload :: "(rat \<Rightarrow> string) \<Rightarrow> registry_record \<Rightarrow> int \<Rightarrow> jdict py" where
  "to_register_payload fr r remote_index =
     (let options = remote_options fr r
      in if options = []
         then Inl (ValueError (repr_str (rr_name r) @ '' has no remote endpoint to register; it is a package-based ''
                     @ ''server (see stdio_suggestion)''))
         else if \<not> (0 \<le> remote_index \<and> remote_index < int (length options))
         then Inl (ValueError (''no remote at index '' @ str_int remote_index @ '' for '' @ repr_str (rr_name r)))
         else map_sum (\<lambda>e. e) (\<lambda>server_id.
                [(''id'', JStr server_id), (''url'', JStr (ro_url (options ! nat remote_index))),
                 (''name'', JStr (if rr_title r \<noteq> [] then rr_title r else rr_name r)),
                 (''description'', JStr (rr_description r)), (''registration_type'', JStr ''manual'')])
                (derive_server_id (rr_name r)))"

section \<open>Export\<close>

definition SERVER_JSON_SCHEMA_URL :: string where
  "SERVER_JSON_SCHEMA_URL = ''https://static.modelcontextprotocol.io/schemas/2025-12-11/server.schema.json''"

definition UNOWNED_NAMESPACE :: string where "UNOWNED_NAMESPACE = ''com.example''"

definition TRANSPORT_TO_REGISTRY :: "(mcp_transport \<times> string) list" where
  "TRANSPORT_TO_REGISTRY =
     [(MT_sse, ''streamable-http''), (MT_http, ''streamable-http''), (MT_unset, ''streamable-http'')]"

definition AUTH_HEADER :: "(auth_type \<times> string \<times> string) list" where
  "AUTH_HEADER =
     [(AT_bearer, ''Authorization'', ''Bearer token for this server''),
      (AT_basic, ''Authorization'', ''HTTP Basic credentials for this server''),
      (AT_oauth, ''Authorization'', ''OAuth access token for this server''),
      (AT_obo, ''Authorization'', ''Access token for the calling user''),
      (AT_ema, ''Authorization'', ''Access token issued by the resource'' @ [CHR 0x27] @ ''s own authorization server'')]"

definition first_of :: "string list \<Rightarrow> string" where
  "first_of xs = (case filter (\<lambda>x. x \<noteq> []) xs of [] \<Rightarrow> (if xs = [] then [] else last xs) | x # _ \<Rightarrow> x)"

definition published_name :: "registered_server \<Rightarrow> string" where
  "published_name server =
     (if srv_registry_name server \<noteq> [] then srv_registry_name server
      else if CHR ''/'' \<in> set (srv_id server) then srv_id server
      else UNOWNED_NAMESPACE @ ''/'' @ srv_id server)"

definition published_version :: "registered_server \<Rightarrow> string" where
  "published_version server = (if srv_version server \<noteq> [] then srv_version server else ''0.0.0'')"

definition package_for :: "registered_server \<Rightarrow> jdict" where
  "package_for server =
     [(''registryType'', JStr ''npm''),
      (''identifier'', JStr (if srv_stdio_command_name server \<noteq> [] then srv_stdio_command_name server else srv_id server)),
      (''version'', JStr (published_version server)), (''transport'', JObj [(''type'', JStr ''stdio'')])]"

definition remote_for :: "registered_server \<Rightarrow> jdict" where
  "remote_for server =
     [(''type'', JStr (case map_of TRANSPORT_TO_REGISTRY (srv_mcp_transport server) of
                         Some t \<Rightarrow> t | None \<Rightarrow> ''streamable-http'')),
      (''url'', JStr (srv_url server))]
     @ (case map_of AUTH_HEADER (srv_auth_type server) of
          Some (name, description) \<Rightarrow>
            [(''headers'', JList [JObj [(''name'', JStr name), (''description'', JStr description),
               (''isRequired'', JBool True), (''isSecret'', JBool True)]])]
        | None \<Rightarrow> [])"

definition to_server_json :: "registered_server \<Rightarrow> jdict py" where
  "to_server_json server =
     (if is_openapi server
      then Inl (ValueError (repr_str (srv_id server) @ '' is an OpenAPI server: the hub serves it itself, so there is ''
                  @ ''no MCP endpoint or package to export''))
      else Inr ([(''$schema'', JStr SERVER_JSON_SCHEMA_URL), (''name'', JStr (published_name server)),
                 (''description'', JStr (first_of [srv_description server, srv_name server, srv_id server])),
                 (''version'', JStr (published_version server))]
                @ (if is_stdio server then [(''packages'', JList [JObj (package_for server)])]
                   else [(''remotes'', JList [JObj (remote_for server)])])))"

definition host_warning :: "(string \<Rightarrow> bool) \<Rightarrow> ip_reader \<Rightarrow> string \<Rightarrow> string option py" where
  "host_warning brk ip_of url =
     bind_py (urlsplit brk url) (\<lambda>u.
       let host = strip (or_empty (url_hostname u))
       in Inr (if host = [] then None
               else case ip_of host of
                 None \<Rightarrow>
                   if CHR ''.'' \<notin> set host \<and> host \<noteq> ''localhost''
                   then Some (repr_str url @ '' uses the bare hostname '' @ repr_str host
                                @ '', which usually resolves only inside your network'')
                   else if host = ''localhost''
                   then Some (repr_str url @ '' points at localhost and will not resolve for anyone else'') else None
               | Some ip \<Rightarrow>
                   if ip_loopback ip
                   then Some (repr_str url @ '' points at loopback ('' @ host @ '') and will not resolve for anyone else'')
                   else if ip_private ip \<or> ip_link_local ip \<or> ip_reserved ip
                   then Some (repr_str url @ '' points at the private address '' @ host
                                @ '', which discloses internal topology'')
                   else None))"

definition export_warnings :: "(string \<Rightarrow> bool) \<Rightarrow> ip_reader \<Rightarrow> registered_server \<Rightarrow> string list py" where
  "export_warnings brk ip_of server =
     map_sum (\<lambda>e. e) (\<lambda>host.
         (case host of Some w \<Rightarrow> [w] | None \<Rightarrow> [])
         @ (if srv_required_scope server \<noteq> []
            then [''required_scope '' @ repr_str (srv_required_scope server) @ '' is this hub'' @ [CHR 0x27]
                  @ ''s authorization policy, not a property of the server. It is not exported, but check the description ''
                  @ ''does not describe your internal access model either.''] else [])
         @ (if is_stdio server
            then [''This is a stdio server. The exported package identifier is a placeholder: ''
                  @ ''the hub knows the allowlist entry you named, not the program behind it ''
                  @ ''(commands live in your config, by design). Fill in registryType, identifier ''
                  @ ''and version before publishing.''] else [])
         @ (if srv_registry_name server = []
            then [''The name was generated as '' @ repr_str (published_name server)
                  @ ''. The registry requires a reverse-DNS namespace you can prove you own (via DNS, GitHub, or OIDC), so ''
                  @ ''replace it with yours before publishing.''] else [])
         @ (if srv_description server = []
            then [''No description: the export fell back to the server'' @ [CHR 0x27] @ ''s name.''] else []))
       (if is_stdio server then Inr None else host_warning brk ip_of (srv_url server))"

section \<open>Lemmas\<close>

lemma collapse_runs_set: "set (collapse_runs c s) \<subseteq> set s"
  by (induction c s rule: collapse_runs.induct) auto

lemma collapse_runs_hd: "s \<noteq> [] \<Longrightarrow> collapse_runs c s \<noteq> [] \<and> hd (collapse_runs c s) = hd s"
  by (induction c s rule: collapse_runs.induct) auto

text \<open>Two of \<open>c\<close> in a row.\<close>

fun has_run :: "char \<Rightarrow> string \<Rightarrow> bool" where
  "has_run c (a # b # s) \<longleftrightarrow> (a = c \<and> b = c) \<or> has_run c (b # s)"
| "has_run c s \<longleftrightarrow> False"

lemma has_run_Cons: "has_run c (a # s) \<longleftrightarrow> (s \<noteq> [] \<and> a = c \<and> hd s = c) \<or> has_run c s"
  by (cases s) auto

lemma collapse_runs_none: "\<not> has_run c (collapse_runs c s)"
proof (induction c s rule: collapse_runs.induct)
  case (1 c a b s)
  then show ?case using collapse_runs_hd[of "b # s" c] by (auto simp: has_run_Cons)
qed auto

lemma has_run_append: "has_run c xs \<Longrightarrow> has_run c (ys @ xs @ zs)"
proof -
  have right: "has_run c xs \<Longrightarrow> has_run c (xs @ zs)" for xs
    by (induction c xs rule: has_run.induct) auto
  have left: "has_run c xs \<Longrightarrow> has_run c (ys @ xs)" for xs
    by (induction ys) (auto simp: has_run_Cons)
  assume "has_run c xs"
  then show ?thesis by (intro left right)
qed

lemma collapse_runs_other: "c \<noteq> d \<Longrightarrow> \<not> has_run d s \<Longrightarrow> \<not> has_run d (collapse_runs c s)"
proof (induction c s rule: collapse_runs.induct)
  case (1 c a b s)
  then show ?case using collapse_runs_hd[of "b # s" c] by (auto simp: has_run_Cons)
qed auto

lemma strip_if_infix: "\<exists>p q. s = p @ strip_if f s @ q"
proof -
  have l: "s = takeWhile f s @ lstrip_if f s" for s by (simp add: lstrip_if_def)
  have r: "\<exists>q. s = rstrip_if f s @ q" for s
    using takeWhile_dropWhile_id[of f "rev s"] unfolding rstrip_if_def
    by (metis rev_append rev_rev_ident)
  show ?thesis
    using l r unfolding strip_if_def by metis
qed

text \<open>A derived id is made of characters every route accepts and has no two dots or dashes in a row.\<close>

lemma derive_server_id_safe:
  assumes "derive_server_id n = Inr i"
  shows "i \<noteq> []" and "list_all id_char i" and "\<not> has_run (CHR ''.'') i" and "\<not> has_run (CHR ''-'') i"
proof -
  let ?cleaned = "map (\<lambda>c. if id_char c then c else CHR ''-'') (replace_char (CHR ''/'') (CHR ''.'') (strip n))"
  let ?c = "collapse_runs (CHR ''.'') (collapse_runs (CHR ''-'') ?cleaned)"
  have i: "i = strip_if (\<lambda>c. c = CHR ''.'' \<or> c = CHR ''-'') ?c" "i \<noteq> []"
    using assms by (auto simp: derive_server_id_def Let_def split: if_splits)
  then obtain p q where c: "?c = p @ i @ q" using strip_if_infix by blast
  have "id_char (CHR ''-'')" by code_simp
  then have "list_all id_char ?cleaned" by (auto simp: list_all_iff)
  moreover have "set ?c \<subseteq> set ?cleaned" by (rule subset_trans[OF collapse_runs_set collapse_runs_set])
  ultimately have "\<forall>x \<in> set ?c. id_char x" by (simp only: list_all_iff) blast
  then show "list_all id_char i" unfolding c by (simp add: list_all_iff)
  show "i \<noteq> []" by (rule i(2))
  show "\<not> has_run (CHR ''.'') i"
    using collapse_runs_none[of "CHR ''.''" "collapse_runs (CHR ''-'') ?cleaned"] has_run_append[of "CHR ''.''" i p q] c by auto
  have "\<not> has_run (CHR ''-'') ?c" by (rule collapse_runs_other) (simp_all add: collapse_runs_none)
  then show "\<not> has_run (CHR ''-'') i" using has_run_append[of "CHR ''-''" i p q] c by auto
qed

text \<open>The index an option shows is its place in the record, and the one that is registered its place among the options:
  they differ when a remote without an address comes first.\<close>

lemma remote_index_mismatch:
  fixes fr :: "rat \<Rightarrow> string"
  defines "r \<equiv> \<lparr>rr_name = ''org.example/a'', rr_version = [], rr_description = [], rr_title = [], rr_repository_url = [],
    rr_remotes = [[(''type'', JStr ''sse'')], [(''url'', JStr ''https://one.example'')], [(''url'', JStr ''https://two.example'')]],
    rr_packages = [], rr_schema_url = [], rr_is_latest = None\<rparr>"
  shows "map (\<lambda>o'. (ro_url o', ro_index o')) (remote_options fr r) = [(''https://one.example'', 1), (''https://two.example'', 2)]"
    and "map_sum (\<lambda>e. e) (\<lambda>d. jget d ''url'') (to_register_payload fr r 1) = Inr (JStr ''https://two.example'')"
proof -
  show "map (\<lambda>o'. (ro_url o', ro_index o')) (remote_options fr r) = [(''https://one.example'', 1), (''https://two.example'', 2)]"
    by (simp add: r_def remote_options_def jget_def)
  have "derive_server_id ''org.example/a'' = Inr ''org.example.a''" by code_simp
  then show "map_sum (\<lambda>e. e) (\<lambda>d. jget d ''url'') (to_register_payload fr r 1) = Inr (JStr ''https://two.example'')"
    by (simp add: r_def to_register_payload_def remote_options_def jget_def)
qed

lemma list_pages_requests: "length (snd (list_pages n R query limit cursor collected reqs)) \<le> length reqs + n"
proof (induction n arbitrary: cursor collected reqs)
  case (Suc n)
  obtain r reqs' where page: "registry_page R query limit cursor reqs = (r, reqs')" by fastforce
  then have "length reqs' = length reqs + 1" by (auto simp: registry_page_def Let_def)
  then show ?case
    using Suc.IH[of "snd (projr r)" "collected @ fst (projr r)" reqs'] page
    by (auto split: sum.split prod.split)
qed simp

text \<open>An exported document does not depend on a credential, the required scope or the state of the server.\<close>

definition export_view where
  "export_view s =
     (srv_id s, srv_url s, srv_transport_kind s, srv_stdio_command_name s, srv_registry_name s, srv_name s, srv_version s,
      srv_description s, srv_mcp_transport s, srv_auth_type s)"

lemma to_server_json_view: "export_view s = export_view t \<Longrightarrow> to_server_json s = to_server_json t"
  by (simp add: export_view_def to_server_json_def published_name_def published_version_def package_for_def remote_for_def
      is_openapi_def is_stdio_def)

end
