(* ===== verification/Registration.thy ===== *)
theory Registration
  imports Openapi_Routes Registry_Exchange
begin

text \<open>
  \<^verbatim>\<open>models/register_request.py\<close>, \<^verbatim>\<open>routes/v1.py\<close> and \<^verbatim>\<open>routes/registry_api.py\<close>: registering, importing, exporting, listing and
  removing servers. Pydantic's reading of the fields is an argument, which reports the faulty fields or
  gives the record before its own validators. Between reading the stored server and storing the new one the handler waits for name
  resolution and for OAuth metadata, so a registration is two steps: \<open>prepare_registration\<close> and
  \<open>commit_registration\<close>; the discovery that follows is a task of its own.
\<close>

section \<open>The request\<close>

datatype register_kind = Kind_http | Kind_stdio

record register_request =
  rg_id :: string
  rg_url :: string
  rg_transport_kind :: register_kind
  rg_stdio_command_name :: string
  rg_registry_source :: string
  rg_registry_name :: string
  rg_registry_version :: string
  rg_name :: string
  rg_version :: string
  rg_description :: string
  rg_tags :: "string list"
  rg_registration_type :: registration_type
  rg_mcp_protocol_version :: string
  rg_mcp_transport :: mcp_transport
  rg_auth_type :: auth_type
  rg_bearer_token :: string
  rg_basic_username :: string
  rg_basic_password :: string
  rg_oauth_discovery_url :: string
  rg_oauth_token_url :: string
  rg_oauth_client_id :: string
  rg_oauth_client_secret :: string
  rg_oauth_scope :: string
  rg_oauth_resource :: string
  rg_obo_audience :: string
  rg_obo_resource :: string
  rg_obo_scope :: string
  rg_obo_actor_token_source :: actor_token_source
  rg_ema_resource_as_issuer :: string
  rg_ema_resource_as_token_url :: string
  rg_ema_resource_id :: string
  rg_ema_subject_token_type :: subject_token_type
  rg_required_scope :: string
  rg_trace_verbose :: bool

text \<open>An error of pydantic: \<open>loc\<close>, \<open>type\<close> and \<open>msg\<close>. With the faulty fields comes the id, when it was text.\<close>

record field_error =
  fe_loc :: "string list"
  fe_type :: string
  fe_msg :: string

type_synonym read_request = "(string option \<times> field_error list) + register_request"

definition value_error :: "string list \<Rightarrow> string \<Rightarrow> field_error" where
  "value_error loc message = \<lparr>fe_loc = loc, fe_type = ''value_error'', fe_msg = ''Value error, '' @ message\<rparr>"

definition blank_id_errors :: "string \<Rightarrow> field_error list" where
  "blank_id_errors i = (if strip i = [] then [value_error [''id''] ''id is required''] else [])"

definition auth_type_text :: "auth_type \<Rightarrow> string" where
  "auth_type_text t =
     (case t of AT_bearer \<Rightarrow> ''bearer'' | AT_basic \<Rightarrow> ''basic'' | AT_oauth \<Rightarrow> ''oauth'' | AT_obo \<Rightarrow> ''obo''
      | AT_ema \<Rightarrow> ''ema'' | AT_api_key \<Rightarrow> ''api_key'' | AT_unset \<Rightarrow> [])"

definition validate_transport :: "register_request \<Rightarrow> field_error list" where
  "validate_transport r =
     (if rg_transport_kind r = Kind_stdio
      then if strip (rg_stdio_command_name r) = []
           then [value_error [] ''stdio_command_name is required for a stdio server'']
           else if rg_auth_type r \<in> {AT_obo, AT_ema}
           then [value_error [] (''auth_type '' @ repr_str (auth_type_text (rg_auth_type r))
                   @ '' is not available for a stdio server: one shared process cannot act on behalf of individual callers. ''
                   @ ''Use a service credential, and required_scope to control who may reach it.'')]
           else []
      else if rg_url r = [] then [value_error [] ''url is required''] else [])"

definition strip_whitespace :: "register_request \<Rightarrow> register_request" where
  "strip_whitespace r = r\<lparr>rg_id := strip (rg_id r), rg_url := strip (rg_url r)\<rparr>"

text \<open>\<open>RegisterRequest.model_validate\<close>. The validator of the model runs when every field is good.\<close>

definition model_validate :: "read_request \<Rightarrow> field_error list + register_request" where
  "model_validate raw =
     (case raw of
        Inl (i, errors) \<Rightarrow> Inl ((case i of Some t \<Rightarrow> blank_id_errors t | None \<Rightarrow> []) @ errors)
      | Inr r0 \<Rightarrow>
          (let r = strip_whitespace r0
           in if blank_id_errors (rg_id r) \<noteq> [] then Inl (blank_id_errors (rg_id r))
              else if validate_transport r \<noteq> [] then Inl (validate_transport r) else Inr r))"

section \<open>Replies and environment\<close>

datatype v1_reply =
    Plain int string
  | Json int json headers
  | Forbidden http_exception
  | Crashed py_exc

record 's v1_env =
  v1_auth :: "auth_config option"
  v1_discovery :: "'s discovery_env"
  v1_allow_private :: bool
  v1_brk :: "string \<Rightarrow> bool"
  v1_ip :: ip_reader
  v1_dns :: resolver
  v1_fetch :: "string \<Rightarrow> (int \<times> json) option"
  v1_issuer :: "json \<Rightarrow> string"                       \<comment> \<open>the record's text for an issuer that is not text\<close>
  v1_stdio :: "(bool \<times> string list) option"          \<comment> \<open>\<open>stdio.enabled\<close> and the names of \<open>stdio.allowed_commands\<close>\<close>
  v1_loads :: "string \<Rightarrow> json parse_outcome"
  v1_read :: "jdict \<Rightarrow> read_request"
  v1_dump :: "registered_server \<Rightarrow> json"
  v1_float_text :: "rat \<Rightarrow> string"
  v1_registry_client :: "registry_env option"
  v1_registry_base :: string

definition MAX_REQUEST_BODY_SIZE :: int where "MAX_REQUEST_BODY_SIZE = 1024 * 1024"

definition validation_reply :: "field_error list \<Rightarrow> v1_reply" where
  "validation_reply errors =
     (case errors of
        [] \<Rightarrow> Plain 400 ''validation error''
      | e # es \<Rightarrow>
          if list_ex (\<lambda>e. (''id'' \<in> set (fe_loc e) \<or> ''url'' \<in> set (fe_loc e) \<or> contains (fe_msg e) ''url is required'') \<and>
                          (fe_type e = ''missing'' \<or> contains (fe_msg e) ''is required'')) errors
          then Plain 400 ''id and url required''
          else Plain 400 (join ''.'' (fe_loc e) @ '': '' @ fe_msg e))"

definition url_refused :: v1_reply where
  "url_refused = Json 400 (JObj [(''error'', JStr ''URL validation failed'')]) []"

definition safe_url :: "'s v1_env \<Rightarrow> string \<Rightarrow> bool \<Rightarrow> bool" where
  "safe_url V url require_reachability \<longleftrightarrow>
     fst (is_url_safe_for_discovery (v1_brk V) (v1_ip V) (v1_dns V) url require_reachability (v1_allow_private V))"

definition stdio_not_allowed :: "'s v1_env \<Rightarrow> register_request \<Rightarrow> v1_reply option" where
  "stdio_not_allowed V r =
     (if rg_transport_kind r \<noteq> Kind_stdio then None
      else case v1_stdio V of
        Some (True, allowed) \<Rightarrow>
          if rg_stdio_command_name r \<in> set allowed then None
          else Some (Plain 400 (repr_str (rg_stdio_command_name r) @ '' is not an allowed stdio command. Allowlisted entries: ''
                 @ (if allowed = [] then ''(none configured)'' else join '', '' (sort allowed))))
      | _ \<Rightarrow> Some (Plain 400 (''stdio servers are disabled: set stdio.enabled (and see ADR 0007 for ''
                 @ ''why it also requires authenticated registration)'')))"

section \<open>The record to store\<close>

fun server_kind :: "register_kind \<Rightarrow> transport_kind" where
  "server_kind Kind_http = TK_http" | "server_kind Kind_stdio = TK_stdio"

definition request_url :: "register_request \<Rightarrow> string" where
  "request_url r = (if rg_transport_kind r = Kind_stdio then ''stdio:'' @ rg_stdio_command_name r else rg_url r)"

definition requested_server :: "timestamp \<Rightarrow> register_request \<Rightarrow> registered_server" where
  "requested_server now r =
     synthesize_stdio_url
       ((new_server (rg_id r) (strip (request_url r)))
          \<lparr>srv_transport_kind := server_kind (rg_transport_kind r), srv_stdio_command_name := rg_stdio_command_name r,
           srv_registry_source := rg_registry_source r, srv_registry_name := rg_registry_name r,
           srv_registry_version := rg_registry_version r,
           srv_imported_at := (if rg_registry_name r \<noteq> [] then Some now else None),
           srv_healthy := True, srv_consecutive_fails := 0, srv_last_checked := Some now,
           srv_registration_type := rg_registration_type r, srv_auth_type := rg_auth_type r,
           srv_bearer_token := rg_bearer_token r, srv_basic_username := rg_basic_username r,
           srv_basic_password := rg_basic_password r, srv_oauth_discovery_url := rg_oauth_discovery_url r,
           srv_oauth_token_url := rg_oauth_token_url r, srv_oauth_client_id := rg_oauth_client_id r,
           srv_oauth_client_secret := rg_oauth_client_secret r, srv_oauth_scope := rg_oauth_scope r,
           srv_oauth_resource := rg_oauth_resource r, srv_obo_audience := rg_obo_audience r,
           srv_obo_resource := rg_obo_resource r, srv_obo_scope := rg_obo_scope r,
           srv_obo_actor_token_source := rg_obo_actor_token_source r,
           srv_ema_resource_as_issuer := rg_ema_resource_as_issuer r,
           srv_ema_resource_as_token_url := rg_ema_resource_as_token_url r,
           srv_ema_resource_id := rg_ema_resource_id r, srv_ema_subject_token_type := rg_ema_subject_token_type r,
           srv_required_scope := rg_required_scope r, srv_name := rg_name r, srv_version := rg_version r,
           srv_description := rg_description r, srv_tags := rg_tags r,
           srv_mcp_protocol_version := rg_mcp_protocol_version r, srv_mcp_transport := rg_mcp_transport r,
           srv_trace_verbose := rg_trace_verbose r\<rparr>)"

text \<open>The type a registration ends with: its own, the stored one's, or \<open>manual\<close>.\<close>

definition effective_type :: "registered_server option \<Rightarrow> registration_type \<Rightarrow> registration_type" where
  "effective_type existing t =
     (if t \<noteq> RT_unset then t
      else case existing of
        Some e \<Rightarrow> if srv_registration_type e \<noteq> RT_unset then srv_registration_type e else RT_manual
      | None \<Rightarrow> RT_manual)"

definition infer_auth_type :: "registered_server \<Rightarrow> registered_server" where
  "infer_auth_type s =
     (if srv_auth_type s \<noteq> AT_unset then s
      else if srv_bearer_token s \<noteq> [] then s\<lparr>srv_auth_type := AT_bearer\<rparr>
      else if srv_basic_username s \<noteq> [] \<or> srv_basic_password s \<noteq> [] then s\<lparr>srv_auth_type := AT_basic\<rparr>
      else if srv_oauth_discovery_url s \<noteq> [] \<or> srv_oauth_token_url s \<noteq> [] then s\<lparr>srv_auth_type := AT_oauth\<rparr>
      else s)"

text \<open>The fields of \<open>KEPT_ON_REREGISTRATION\<close>: whether one is true in a record, and its copy from the stored one. The two
  with a closed set of values (\<open>none\<close>, \<open>id_token\<close> and so on) are true whatever they are.\<close>

definition KEPT_COPIES ::
  "(string \<times> (registered_server \<Rightarrow> bool) \<times> (registered_server \<Rightarrow> registered_server \<Rightarrow> registered_server)) list" where
  "KEPT_COPIES =
     [(''auth_type'', \<lambda>s. srv_auth_type s \<noteq> AT_unset, \<lambda>e s. s\<lparr>srv_auth_type := srv_auth_type e\<rparr>),
      (''obo_audience'', \<lambda>s. srv_obo_audience s \<noteq> [], \<lambda>e s. s\<lparr>srv_obo_audience := srv_obo_audience e\<rparr>),
      (''obo_resource'', \<lambda>s. srv_obo_resource s \<noteq> [], \<lambda>e s. s\<lparr>srv_obo_resource := srv_obo_resource e\<rparr>),
      (''obo_scope'', \<lambda>s. srv_obo_scope s \<noteq> [], \<lambda>e s. s\<lparr>srv_obo_scope := srv_obo_scope e\<rparr>),
      (''obo_actor_token_source'', \<lambda>s. True, \<lambda>e s. s\<lparr>srv_obo_actor_token_source := srv_obo_actor_token_source e\<rparr>),
      (''ema_resource_as_issuer'', \<lambda>s. srv_ema_resource_as_issuer s \<noteq> [],
         \<lambda>e s. s\<lparr>srv_ema_resource_as_issuer := srv_ema_resource_as_issuer e\<rparr>),
      (''ema_resource_as_token_url'', \<lambda>s. srv_ema_resource_as_token_url s \<noteq> [],
         \<lambda>e s. s\<lparr>srv_ema_resource_as_token_url := srv_ema_resource_as_token_url e\<rparr>),
      (''ema_resource_id'', \<lambda>s. srv_ema_resource_id s \<noteq> [], \<lambda>e s. s\<lparr>srv_ema_resource_id := srv_ema_resource_id e\<rparr>),
      (''ema_subject_token_type'', \<lambda>s. True, \<lambda>e s. s\<lparr>srv_ema_subject_token_type := srv_ema_subject_token_type e\<rparr>),
      (''required_scope'', \<lambda>s. srv_required_scope s \<noteq> [], \<lambda>e s. s\<lparr>srv_required_scope := srv_required_scope e\<rparr>),
      (''bearer_token'', \<lambda>s. srv_bearer_token s \<noteq> [], \<lambda>e s. s\<lparr>srv_bearer_token := srv_bearer_token e\<rparr>),
      (''basic_username'', \<lambda>s. srv_basic_username s \<noteq> [], \<lambda>e s. s\<lparr>srv_basic_username := srv_basic_username e\<rparr>),
      (''basic_password'', \<lambda>s. srv_basic_password s \<noteq> [], \<lambda>e s. s\<lparr>srv_basic_password := srv_basic_password e\<rparr>),
      (''oauth_discovery_url'', \<lambda>s. srv_oauth_discovery_url s \<noteq> [],
         \<lambda>e s. s\<lparr>srv_oauth_discovery_url := srv_oauth_discovery_url e\<rparr>),
      (''oauth_token_url'', \<lambda>s. srv_oauth_token_url s \<noteq> [], \<lambda>e s. s\<lparr>srv_oauth_token_url := srv_oauth_token_url e\<rparr>),
      (''oauth_client_id'', \<lambda>s. srv_oauth_client_id s \<noteq> [], \<lambda>e s. s\<lparr>srv_oauth_client_id := srv_oauth_client_id e\<rparr>),
      (''oauth_client_secret'', \<lambda>s. srv_oauth_client_secret s \<noteq> [],
         \<lambda>e s. s\<lparr>srv_oauth_client_secret := srv_oauth_client_secret e\<rparr>),
      (''oauth_scope'', \<lambda>s. srv_oauth_scope s \<noteq> [], \<lambda>e s. s\<lparr>srv_oauth_scope := srv_oauth_scope e\<rparr>),
      (''oauth_resource'', \<lambda>s. srv_oauth_resource s \<noteq> [], \<lambda>e s. s\<lparr>srv_oauth_resource := srv_oauth_resource e\<rparr>)]"

definition keep_field where
  "keep_field e c s = (case c of (name, isset, assign) \<Rightarrow> if isset s then s else assign e s)"

definition keep_stored :: "registered_server \<Rightarrow> registered_server \<Rightarrow> registered_server" where
  "keep_stored e server = fold (keep_field e) KEPT_COPIES server"

definition merged_server :: "timestamp \<Rightarrow> registered_server option \<Rightarrow> register_request \<Rightarrow> registered_server" where
  "merged_server now existing r =
     (let s = (requested_server now r)\<lparr>srv_registration_type := effective_type existing (rg_registration_type r)\<rparr>;
          t = infer_auth_type s
      in case existing of Some e \<Rightarrow> keep_stored e t | None \<Rightarrow> t)"

text \<open>OAuth metadata, when the server asks for it; \<open>None\<close> is a failed discovery.\<close>

definition with_oauth_metadata :: "'s v1_env \<Rightarrow> registered_server \<Rightarrow> registered_server option" where
  "with_oauth_metadata V s =
     (if srv_auth_type s \<noteq> AT_oauth \<and> srv_oauth_discovery_url s = [] then Some s
      else case discover_oauth_metadata (v1_brk V) (v1_ip V) (v1_dns V) (v1_fetch V) (srv_url s) (srv_oauth_discovery_url s) of
        Inl e \<Rightarrow> None
      | Inr (disc_url, issuer, metadata) \<Rightarrow>
          if \<not> safe_url V disc_url True then Some s
          else (let s1 = s\<lparr>srv_oauth_discovery_url := disc_url,
                           srv_oauth_issuer := (case issuer of JStr t \<Rightarrow> t | v \<Rightarrow> v1_issuer V v),
                           srv_oauth_metadata := Some metadata, srv_oauth_last_checked := Some (dv_now (v1_discovery V))\<rparr>
                in if srv_oauth_token_url s1 \<noteq> [] then Some s1
                   else case token_endpoint_from_metadata (Some metadata) of
                     Inl e \<Rightarrow> None
                   | Inr t \<Rightarrow> Some (s1\<lparr>srv_oauth_token_url := t\<rparr>)))"

section \<open>\<open>register_from_data\<close>\<close>

text \<open>Refused, or ready to be stored.\<close>

definition prepare_registration ::
  "'s v1_env \<Rightarrow> (string \<Rightarrow> registered_server option) \<Rightarrow> read_request \<Rightarrow> v1_reply + registered_server" where
  "prepare_registration V stored raw =
     (case model_validate raw of
        Inl errors \<Rightarrow> Inl (validation_reply errors)
      | Inr r \<Rightarrow>
          (case stdio_not_allowed V r of
             Some refusal \<Rightarrow> Inl refusal
           | None \<Rightarrow>
               (let existing = stored (rg_id r);
                    reach = (effective_type existing (rg_registration_type r) \<noteq> RT_self)
                in if (case existing of Some e \<Rightarrow> is_openapi e | None \<Rightarrow> False)
                   then Inl (Json 409 (JObj [(''error'', JStr (repr_str (rg_id r)
                          @ '' is an OpenAPI server; manage it through /v1/openapi/imports and /v1/openapi/servers/{id}/tools''))]) [])
                   else if rg_transport_kind r \<noteq> Kind_stdio \<and> \<not> safe_url V (request_url r) reach then Inl url_refused
                   else if rg_oauth_discovery_url r \<noteq> [] \<and> \<not> safe_url V (rg_oauth_discovery_url r) reach
                   then Inl url_refused
                   else (let s = merged_server (dv_now (v1_discovery V)) existing r
                         in if srv_registration_type s = RT_self then Inr s
                            else case with_oauth_metadata V s of
                              None \<Rightarrow> Inl (Json 400 (JObj [(''error'', JStr ''oauth discovery failed'')]) [])
                            | Some s' \<Rightarrow> Inr s'))))"

text \<open>Storing it. The second result is the server that a background task will ask for its tools.\<close>

definition commit_registration ::
  "'s v1_env \<Rightarrow> registered_server \<Rightarrow> 's \<Rightarrow> v1_reply \<times> registered_server option \<times> 's" where
  "commit_registration V server s =
     (let D = v1_discovery V
      in case reg_register (dv_ops D) (dv_io D) (dv_now D) (dv_stamps D) server s of
           (Inl e, s') \<Rightarrow> (Crashed e, None, s')
         | (Inr registered, s') \<Rightarrow>
             (Json 201 (v1_dump V (sanitize_for_api registered)) [],
              if srv_registration_type registered = RT_self then None else Some registered, s'))"

definition background_discover ::
  "'s v1_env \<Rightarrow> registered_server \<Rightarrow> 's discovery_state \<Rightarrow> 's discovery_state option" where
  "background_discover V server st = map_option snd (discover_immediately (v1_discovery V) 20 server st)"

text \<open>What a request asks to be registered, or the reply that refuses it.\<close>

definition register_body :: "'s v1_env \<Rightarrow> http_request \<Rightarrow> v1_reply + jdict" where
  "register_body V request =
     (case require_admin (v1_auth V) request of
        Some exc \<Rightarrow> Inl (Forbidden exc)
      | None \<Rightarrow>
          if int (length (rq_body request)) > MAX_REQUEST_BODY_SIZE then Inl (Plain 400 ''request body too large'')
          else (case v1_loads V (rq_body request) of
                  Parse_raised e \<Rightarrow> Inl (Crashed e)
                | Parsed (JObj data) \<Rightarrow> Inr data
                | Parsed v \<Rightarrow> Inl (Plain 400 ''id and url required'')
                | _ \<Rightarrow> Inl (Plain 400 ''invalid json'')))"

definition import_index :: "jdict \<Rightarrow> int py" where
  "import_index body = py_int (if truthy (jget body ''remote_index'') then jget body ''remote_index'' else JInt 0)"

definition import_payload :: "'s v1_env \<Rightarrow> jdict \<Rightarrow> registry_record \<Rightarrow> v1_reply + jdict" where
  "import_payload V body record =
     (case stdio_suggestion (v1_float_text V) record of
        Inl e \<Rightarrow> Inl (Crashed e)
      | Inr (Some suggestion) \<Rightarrow> Inl (Plain 400 (su_instruction suggestion))
      | Inr None \<Rightarrow>
          (case bind_py (import_index body) (to_register_payload (v1_float_text V) record) of
             Inl e \<Rightarrow> Inl (Plain 400 (exc_text e))
           | Inr payload \<Rightarrow>
               Inr (payload @ [(''registry_source'', JStr (v1_registry_base V)), (''registry_name'', JStr (rr_name record)),
                               (''registry_version'', JStr (rr_version record))])))"

definition import_body :: "'s v1_env \<Rightarrow> http_request \<Rightarrow> v1_reply + jdict" where
  "import_body V request =
     (case require_admin (v1_auth V) request of
        Some exc \<Rightarrow> Inl (Forbidden exc)
      | None \<Rightarrow>
          (case v1_loads V (rq_body request) of
             Parse_raised e \<Rightarrow> Inl (Crashed e)
           | Parsed (JObj body) \<Rightarrow>
               (case jget body ''name'' of
                  JStr name \<Rightarrow>
                    if strip name = [] then Inl (Plain 400 ''name required'')
                    else (case v1_registry_client V of
                            None \<Rightarrow> Inl (Plain 503 ''registry client unavailable'')
                          | Some R \<Rightarrow>
                              (case fst (registry_get R (strip name)
                                      (if truthy (jget body ''version'') then jget body ''version'' else JStr ''latest'') []) of
                                 Inl e \<Rightarrow> Inl (Plain 502 (''registry lookup failed: '' @ exc_text e))
                               | Inr None \<Rightarrow> Inl (Plain 404 (''no registry record named '' @ repr_str name))
                               | Inr (Some record) \<Rightarrow> import_payload V body record))
                | _ \<Rightarrow> Inl (Plain 400 ''name required''))
           | Parsed v \<Rightarrow> Inl (Plain 400 ''name required'')
           | _ \<Rightarrow> Inl (Plain 400 ''invalid json'')))"

datatype registration_route = Register | Import_from_registry

definition requested_data :: "'s v1_env \<Rightarrow> registration_route \<Rightarrow> http_request \<Rightarrow> v1_reply + jdict" where
  "requested_data V route request =
     (case route of Register \<Rightarrow> register_body V request | Import_from_registry \<Rightarrow> import_body V request)"

definition prepare_route ::
  "'s v1_env \<Rightarrow> registration_route \<Rightarrow> http_request \<Rightarrow> 's \<Rightarrow> v1_reply + registered_server" where
  "prepare_route V route request s =
     (case requested_data V route request of
        Inl reply \<Rightarrow> Inl reply
      | Inr data \<Rightarrow> prepare_registration V (reg_get (dv_ops (v1_discovery V)) s) (v1_read V data))"

section \<open>The other routes\<close>

definition list_servers :: "'s v1_env \<Rightarrow> 's \<Rightarrow> registered_server list" where
  "list_servers V s = map sanitize_for_api (reg_list (dv_ops (v1_discovery V)) s)"

definition get_server_handler :: "'s v1_env \<Rightarrow> string \<Rightarrow> 's \<Rightarrow> v1_reply" where
  "get_server_handler V i s =
     (if strip i = [] then Plain 400 ''id is required''
      else case reg_get (dv_ops (v1_discovery V)) s (strip i) of
        None \<Rightarrow> Plain 404 ''not found''
      | Some server \<Rightarrow> Json 200 (v1_dump V (sanitize_for_api server)) [])"

definition unregister_server :: "'s v1_env \<Rightarrow> string \<Rightarrow> http_request \<Rightarrow> 's \<Rightarrow> v1_reply \<times> 's" where
  "unregister_server V i request s =
     (case require_admin (v1_auth V) request of
        Some exc \<Rightarrow> (Forbidden exc, s)
      | None \<Rightarrow>
          if strip i = [] then (Plain 400 ''id is required'', s)
          else (case reg_unregister (dv_ops (v1_discovery V)) (dv_io (v1_discovery V)) (strip i) s of
                  (Inl e, s') \<Rightarrow> (Plain 500 (''unregister failed: '' @ exc_text e), s')
                | (Inr _, s') \<Rightarrow> (Plain 204 [], s')))"

definition export_server_json :: "'s v1_env \<Rightarrow> string \<Rightarrow> http_request \<Rightarrow> 's \<Rightarrow> v1_reply" where
  "export_server_json V i request s =
     (case require_admin (v1_auth V) request of
        Some exc \<Rightarrow> Forbidden exc
      | None \<Rightarrow>
          (case reg_get (dv_ops (v1_discovery V)) s i of
             None \<Rightarrow> Plain 404 ''Server not found''
           | Some server \<Rightarrow>
               if is_openapi server
               then Json 400 (JObj [(''error'', JStr (''OpenAPI servers are served by this hub itself and have no MCP ''
                       @ ''endpoint to export (ADR 0011)''))]) []
               else (case bind_py (to_server_json server) (\<lambda>document.
                            bind_py (export_warnings (v1_brk V) (v1_ip V) server) (\<lambda>warnings. Inr (document, warnings))) of
                       Inl e \<Rightarrow> Crashed e
                     | Inr (document, warnings) \<Rightarrow>
                         Json 200 (JObj [(''server'', JObj document), (''warnings'', JList (map JStr warnings))])
                           ([(''Content-Disposition'', ''attachment; filename='' @ [CHR 0x22] @ sanitize_filename i
                                @ ''.server.json'' @ [CHR 0x22])]
                            @ (if warnings \<noteq> [] then [(''X-Export-Warnings'', str_nat (length warnings))] else [])))))"

section \<open>Lemmas\<close>

lemma kept_names: "map fst KEPT_COPIES = KEPT_ON_REREGISTRATION"
  by (simp add: KEPT_COPIES_def KEPT_ON_REREGISTRATION_def)

text \<open>A text field of the result: the request's, or the stored one when the request has none.\<close>

definition kept_text :: "(registered_server \<Rightarrow> string) \<Rightarrow> registered_server \<Rightarrow> registered_server \<Rightarrow> string" where
  "kept_text field e s = (if field s = [] then field e else field s)"

lemma keep_fields_frame:
  "\<forall>c \<in> set copies. \<forall>s. g (keep_field e c s) = g s \<Longrightarrow> g (fold (keep_field e) copies s) = g s"
  by (induction copies arbitrary: s) auto

lemma keep_stored_field:
  assumes "n < length KEPT_COPIES"
    and "list_all (\<lambda>c. \<forall>s. g (snd (snd c) e s) = g s) (take n KEPT_COPIES @ drop (Suc n) KEPT_COPIES)"
    and "\<And>s. g (snd (snd (KEPT_COPIES ! n)) e s) = g e" "\<And>s. fst (snd (KEPT_COPIES ! n)) s = P (g s)"
  shows "g (keep_stored e s) = (if P (g s) then g s else g e)"
proof -
  have keep: "g (keep_field e c s) = g s" if "\<forall>s. g (snd (snd c) e s) = g s" for c s
    using that by (simp add: keep_field_def case_prod_beta)
  have other: "g (fold (keep_field e) (take n KEPT_COPIES) s) = g s" "g (fold (keep_field e) (drop (Suc n) KEPT_COPIES) s) = g s"
    for s
  proof -
    have "\<forall>c \<in> set (take n KEPT_COPIES) \<union> set (drop (Suc n) KEPT_COPIES). \<forall>s. g (keep_field e c s) = g s"
      using assms(2) keep unfolding list_all_iff set_append by blast
    then show "g (fold (keep_field e) (take n KEPT_COPIES) s) = g s" "g (fold (keep_field e) (drop (Suc n) KEPT_COPIES) s) = g s"
      by (simp_all add: keep_fields_frame)
  qed
  have one: "g (keep_field e (KEPT_COPIES ! n) s) = (if P (g s) then g s else g e)" for s
    using assms(3,4) by (simp add: keep_field_def case_prod_beta)
  have "fold (keep_field e) KEPT_COPIES s =
      fold (keep_field e) (drop (Suc n) KEPT_COPIES) (keep_field e (KEPT_COPIES ! n) (fold (keep_field e) (take n KEPT_COPIES) s))"
    by (subst id_take_nth_drop[OF assms(1)]) simp
  then show ?thesis by (simp add: keep_stored_def other one)
qed

lemma keep_stored_secrets:
  "srv_bearer_token (keep_stored e s) = kept_text srv_bearer_token e s"
  "srv_basic_password (keep_stored e s) = kept_text srv_basic_password e s"
  "srv_oauth_client_secret (keep_stored e s) = kept_text srv_oauth_client_secret e s"
  "srv_required_scope (keep_stored e s) = kept_text srv_required_scope e s"
  "srv_auth_type (keep_stored e s) = (if srv_auth_type s = AT_unset then srv_auth_type e else srv_auth_type s)"
proof -
  show "srv_bearer_token (keep_stored e s) = kept_text srv_bearer_token e s"
    by (subst keep_stored_field[where n = 10 and P = "\<lambda>t. t \<noteq> []"]) (simp_all add: KEPT_COPIES_def kept_text_def)
  show "srv_basic_password (keep_stored e s) = kept_text srv_basic_password e s"
    by (subst keep_stored_field[where n = 12 and P = "\<lambda>t. t \<noteq> []"]) (simp_all add: KEPT_COPIES_def kept_text_def)
  show "srv_oauth_client_secret (keep_stored e s) = kept_text srv_oauth_client_secret e s"
    by (subst keep_stored_field[where n = 16 and P = "\<lambda>t. t \<noteq> []"]) (simp_all add: KEPT_COPIES_def kept_text_def)
  show "srv_required_scope (keep_stored e s) = kept_text srv_required_scope e s"
    by (subst keep_stored_field[where n = 9 and P = "\<lambda>t. t \<noteq> []"]) (simp_all add: KEPT_COPIES_def kept_text_def)
  show "srv_auth_type (keep_stored e s) = (if srv_auth_type s = AT_unset then srv_auth_type e else srv_auth_type s)"
    by (subst keep_stored_field[where n = 0 and P = "\<lambda>t. t \<noteq> AT_unset"]) (simp_all add: KEPT_COPIES_def)
qed

text \<open>What the merge leaves as the request has it.\<close>

definition request_view where
  "request_view s =
     (srv_id s, srv_url s, srv_transport_kind s, srv_stdio_command_name s, srv_openapi_snapshot s, srv_openapi_pending s,
      srv_registration_type s, srv_obo_actor_token_source s)"

lemma keep_stored_frame: "request_view (keep_stored e s) = request_view s"
  unfolding keep_stored_def by (rule keep_fields_frame) (simp add: KEPT_COPIES_def request_view_def keep_field_def)

text \<open>A record that may be stored has passed every check: it does not replace an OpenAPI server, its program is on the list of
  the operator, or its address is one the hub may connect to.\<close>

lemma requested_server_view:
  "request_view (requested_server now r) =
     (rg_id r, strip (request_url r), server_kind (rg_transport_kind r), rg_stdio_command_name r, None, None,
      rg_registration_type r, rg_obo_actor_token_source r)"
proof -
  have "rstrip_if py_space (c # t) = c # rstrip_if py_space t" if "\<not> py_space c" for c t
    using that by (simp add: rstrip_if_def dropWhile_append3)
  then have "startswith (strip (''stdio:'' @ n)) ''stdio:''" for n
    by (simp add: strip_if_def lstrip_if_def py_space_def)
  then show ?thesis
    by (cases "rg_transport_kind r")
      (simp_all add: request_view_def requested_server_def synthesize_stdio_url_def is_stdio_def is_openapi_def
         new_server_def request_url_def Let_def)
qed

lemma infer_auth_type_view: "request_view (infer_auth_type s) = request_view s"
  by (simp add: infer_auth_type_def request_view_def)

lemma merged_server_view:
  "request_view (merged_server now existing r) =
     (rg_id r, strip (request_url r), server_kind (rg_transport_kind r), rg_stdio_command_name r, None, None,
      effective_type existing (rg_registration_type r), rg_obo_actor_token_source r)"
proof -
  let ?s = "(requested_server now r)\<lparr>srv_registration_type := effective_type existing (rg_registration_type r)\<rparr>"
  have "request_view ?s = (rg_id r, strip (request_url r), server_kind (rg_transport_kind r), rg_stdio_command_name r, None,
      None, effective_type existing (rg_registration_type r), rg_obo_actor_token_source r)"
    using requested_server_view[of now r] by (simp add: request_view_def)
  then show ?thesis
    by (cases existing) (simp_all add: merged_server_def Let_def infer_auth_type_view keep_stored_frame)
qed

lemma with_oauth_metadata_view: "with_oauth_metadata V s = Some s' \<Longrightarrow> request_view s' = request_view s"
  by (auto simp: with_oauth_metadata_def request_view_def Let_def split: if_splits sum.splits)

text \<open>The record of a request that was refused nothing, with what was checked.\<close>

definition registration_checked ::
  "'s v1_env \<Rightarrow> (string \<Rightarrow> registered_server option) \<Rightarrow> register_request \<Rightarrow> registered_server \<Rightarrow> bool" where
  "registration_checked V stored r s \<longleftrightarrow>
     srv_id s = rg_id r \<and> srv_id s \<noteq> [] \<and> (\<forall>e. stored (srv_id s) = Some e \<longrightarrow> \<not> is_openapi e) \<and>
     (if rg_transport_kind r = Kind_stdio
      then is_stdio s \<and> srv_url s = strip (''stdio:'' @ srv_stdio_command_name s) \<and> rg_auth_type r \<notin> {AT_obo, AT_ema} \<and>
           (\<exists>allowed. v1_stdio V = Some (True, allowed) \<and> srv_stdio_command_name s \<in> set allowed)
      else srv_transport_kind s = TK_http \<and> safe_url V (srv_url s) (srv_registration_type s \<noteq> RT_self))"

lemma model_validate_ok:
  assumes "model_validate raw = Inr r"
  shows "rg_id r \<noteq> []" "strip (rg_url r) = rg_url r" "validate_transport r = []"
  using assms by (auto simp: model_validate_def Let_def strip_whitespace_def blank_id_errors_def split: sum.splits if_splits)

lemma prepare_registration_checked:
  assumes "prepare_registration V stored raw = Inr s"
  shows "\<exists>r. model_validate raw = Inr r \<and> registration_checked V stored r s"
    and "srv_openapi_snapshot s = None" "srv_openapi_pending s = None" "\<not> is_openapi s"
proof -
  from assms obtain r where r: "model_validate raw = Inr r" and stdio: "stdio_not_allowed V r = None"
    and fresh: "\<not> (case stored (rg_id r) of Some e \<Rightarrow> is_openapi e | None \<Rightarrow> False)"
    and url: "rg_transport_kind r = Kind_stdio \<or>
        safe_url V (request_url r) (effective_type (stored (rg_id r)) (rg_registration_type r) \<noteq> RT_self)"
    and s: "request_view s = request_view (merged_server (dv_now (v1_discovery V)) (stored (rg_id r)) r)"
    by (auto simp: prepare_registration_def Let_def dest!: with_oauth_metadata_view
        split: sum.splits option.splits if_splits)
  note v = model_validate_ok[OF r]
  have view: "srv_id s = rg_id r" "srv_url s = strip (request_url r)" "srv_transport_kind s = server_kind (rg_transport_kind r)"
    "srv_stdio_command_name s = rg_stdio_command_name r"
    "srv_registration_type s = effective_type (stored (rg_id r)) (rg_registration_type r)"
    and docs: "srv_openapi_snapshot s = None" "srv_openapi_pending s = None"
    using s unfolding merged_server_view by (simp_all add: request_view_def)
  show "srv_openapi_snapshot s = None" "srv_openapi_pending s = None" by (fact docs)+
  show "\<not> is_openapi s" using view(3) by (cases "rg_transport_kind r") (simp_all add: is_openapi_def)
  have "registration_checked V stored r s"
  proof (cases "rg_transport_kind r")
    case Kind_http
    then show ?thesis
      using view v fresh url by (auto simp: registration_checked_def request_url_def split: option.splits)
  next
    case Kind_stdio
    then show ?thesis
      using view v fresh stdio
      by (auto simp: registration_checked_def request_url_def is_stdio_def stdio_not_allowed_def validate_transport_def
          split: option.splits if_splits bool.splits)
  qed
  with r show "\<exists>r. model_validate raw = Inr r \<and> registration_checked V stored r s" by blast
qed

text \<open>Registering a stored per-user server again as a stdio server, with no \<open>auth_type\<close>, keeps \<open>obo\<close> on it: the check of
  the request does not see what the merge brings in.\<close>

lemma stdio_server_keeps_obo:
  assumes "srv_auth_type e = AT_obo" "rg_auth_type r = AT_unset" "rg_transport_kind r = Kind_stdio"
    and "rg_bearer_token r = []" "rg_basic_username r = []" "rg_basic_password r = []"
    and "rg_oauth_discovery_url r = []" "rg_oauth_token_url r = []"
  shows "is_stdio (merged_server now (Some e) r) \<and> srv_auth_type (merged_server now (Some e) r) = AT_obo"
proof -
  have "srv_auth_type (requested_server now r) = AT_unset" "srv_bearer_token (requested_server now r) = []"
    "srv_basic_username (requested_server now r) = []" "srv_basic_password (requested_server now r) = []"
    "srv_oauth_discovery_url (requested_server now r) = []" "srv_oauth_token_url (requested_server now r) = []"
    using assms by (simp_all add: requested_server_def synthesize_stdio_url_def Let_def)
  then have "srv_auth_type (merged_server now (Some e) r) = AT_obo"
    by (simp add: merged_server_def infer_auth_type_def keep_stored_secrets assms(1))
  moreover have "srv_transport_kind (merged_server now (Some e) r) = TK_stdio"
    using merged_server_view[of now "Some e" r] assms(3) by (simp add: request_view_def)
  ultimately show ?thesis by (simp add: is_stdio_def)
qed

end
