(* ===== verification/Jwt_Auth.thy ===== *)
theory Jwt_Auth
  imports Principal_Auth
begin

text \<open>
  \<^verbatim>\<open>auth/jwt_bearer.py\<close> and \<open>build_authenticator\<close> of \<^verbatim>\<open>auth/__init__.py\<close>: the JWKS cache with
  its refresh limits, the bearer strategy with the optional identity assertion, and the choice
  of a strategy from the configuration.

  PyJWT is a parameter (\<open>jwt_lib\<close>): reading an unverified header (which refuses a \<open>kid\<close> that is
  not text), verifying a token, and building a key from a JWKS entry. One use of the cache
  takes what the outside world answers (\<open>jwks_env\<close>): the clock before and after the fetch
  and the fetched document, \<open>None\<close> when the fetch failed. Monotonic time is rational seconds.
\<close>

section \<open>Parameters\<close>

record 'k jwt_lib =
  unverified_header :: "string \<Rightarrow> jdict option"
  jwt_decode :: "string \<Rightarrow> 'k \<Rightarrow> string list \<Rightarrow> string option \<Rightarrow> string \<Rightarrow> rat \<Rightarrow> string list \<Rightarrow>
    jdict option"
  pyjwk_key :: "jdict \<Rightarrow> 'k option"

record jwks_env =
  je_now :: rat
  je_after :: rat
  je_document :: "json option"

section \<open>Scopes\<close>

definition scopes_from_claims :: "(rat \<Rightarrow> string) \<Rightarrow> jdict \<Rightarrow> string list" where
  "scopes_from_claims fr claims =
     (case jget claims ''scope'' of
        JStr raw \<Rightarrow> split_ws raw
      | _ \<Rightarrow>
          (case jget claims ''scp'' of
             JStr scp \<Rightarrow> split_ws scp
           | JList items \<Rightarrow> map (py_str fr) items
           | _ \<Rightarrow> []))"

section \<open>JWKSCache\<close>

record 'k jwks_cache =
  jc_min_refresh_interval :: rat
  jc_keys :: "(string, 'k) dict"
  jc_last_attempt :: rat
  jc_last_rotation_refresh :: rat

definition new_jwks_cache :: "rat \<Rightarrow> 'k jwks_cache" where
  "new_jwks_cache interval =
     \<lparr>jc_min_refresh_interval = interval, jc_keys = [], jc_last_attempt = 0,
      jc_last_rotation_refresh = 0\<rparr>"

definition jwks_lookup :: "'k jwks_cache \<Rightarrow> string option \<Rightarrow> 'k option" where
  "jwks_lookup c kid =
     (if kid \<noteq> None \<and> kid \<noteq> Some [] then map_of (jc_keys c) (the kid)
      else (case jc_keys c of [(_, k)] \<Rightarrow> Some k | _ \<Rightarrow> None))"

definition may_refresh :: "rat \<Rightarrow> 'k jwks_cache \<Rightarrow> bool" where
  "may_refresh now c =
     (if jc_last_attempt c = 0 then True
      else if jc_keys c = [] then jc_min_refresh_interval c \<le> now - jc_last_attempt c
      else if jc_last_rotation_refresh c = 0 then True
      else jc_min_refresh_interval c \<le> now - jc_last_rotation_refresh c)"

text \<open>One entry of the JWKS: an RSA key without \<open>alg\<close> counts as RS256; bad entries are skipped.\<close>

definition parse_entry ::
  "(rat \<Rightarrow> string) \<Rightarrow> 'k jwt_lib \<Rightarrow> (string, 'k) dict \<Rightarrow> json \<Rightarrow> (string, 'k) dict" where
  "parse_entry fr lib keys entry =
     (case entry of
        JObj d \<Rightarrow>
          let candidate = (if \<not> has_key d ''alg'' \<and> jget d ''kty'' = JStr ''RSA''
                           then AList.update ''alg'' (JStr ''RS256'') d else d)
          in (case pyjwk_key lib candidate of
                None \<Rightarrow> keys
              | Some k \<Rightarrow> AList.update (str_or_empty fr (jget candidate ''kid'')) k keys)
      | _ \<Rightarrow> keys)"

definition jwks_parse :: "(rat \<Rightarrow> string) \<Rightarrow> 'k jwt_lib \<Rightarrow> jdict \<Rightarrow> (string, 'k) dict" where
  "jwks_parse fr lib document =
     (case jget document ''keys'' of
        JList entries \<Rightarrow> foldl (parse_entry fr lib) [] entries
      | _ \<Rightarrow> [])"

definition jwks_refresh ::
  "(rat \<Rightarrow> string) \<Rightarrow> 'k jwt_lib \<Rightarrow> jwks_env \<Rightarrow> 'k jwks_cache \<Rightarrow> 'k jwks_cache" where
  "jwks_refresh fr lib env c =
     (let had_keys = (jc_keys c \<noteq> []);
          c1 = c\<lparr>jc_last_attempt := je_after env\<rparr>;
          c2 = (if had_keys then c1\<lparr>jc_last_rotation_refresh := je_after env\<rparr> else c1)
      in (case je_document env of
            Some (JObj document) \<Rightarrow>
              let parsed = jwks_parse fr lib document
              in if parsed \<noteq> [] then c2\<lparr>jc_keys := parsed\<rparr> else c2
          | _ \<Rightarrow> c2))"

text \<open>Whether the call reaches the network, and \<open>key_for\<close> itself.\<close>

definition refreshes :: "'k jwks_cache \<Rightarrow> jwks_env \<Rightarrow> string option \<Rightarrow> bool" where
  "refreshes c env kid \<longleftrightarrow> jwks_lookup c kid = None \<and> may_refresh (je_now env) c"

definition key_for ::
  "(rat \<Rightarrow> string) \<Rightarrow> 'k jwt_lib \<Rightarrow> jwks_env \<Rightarrow> string option \<Rightarrow> 'k jwks_cache \<Rightarrow>
     'k option \<times> 'k jwks_cache" where
  "key_for fr lib env kid c =
     (case jwks_lookup c kid of
        Some k \<Rightarrow> (Some k, c)
      | None \<Rightarrow>
          if \<not> may_refresh (je_now env) c then (None, c)
          else let c' = jwks_refresh fr lib env c in (jwks_lookup c' kid, c'))"

section \<open>JWTBearerStrategy\<close>

definition DEFAULT_ALGORITHMS :: "string list" where
  "DEFAULT_ALGORITHMS =
     [''RS256'', ''RS384'', ''RS512'', ''PS256'', ''PS384'', ''PS512'', ''ES256'', ''ES384'',
      ''ES512'']"

definition ASYMMETRIC_PREFIXES :: "string list" where
  "ASYMMETRIC_PREFIXES = [''RS'', ''PS'', ''ES'', ''ED'']"

definition IDENTITY_ASSERTION_HEADER :: string where
  "IDENTITY_ASSERTION_HEADER = ''X-MCP-Identity-Assertion''"

record jwt_strategy =
  js_issuer :: string
  js_audience :: string
  js_algorithms :: "string list"
  js_required_scopes :: "string list"
  js_leeway :: rat

definition is_asymmetric :: "string \<Rightarrow> bool" where
  "is_asymmetric alg \<longleftrightarrow> list_ex (\<lambda>p. startswith (upper alg) p) ASYMMETRIC_PREFIXES"

definition new_jwt_strategy ::
  "string \<Rightarrow> string \<Rightarrow> string list \<Rightarrow> string list \<Rightarrow> rat \<Rightarrow> jwt_strategy py" where
  "new_jwt_strategy issuer audience algorithms required_scopes leeway =
     (let rejected = sort (filter (\<lambda>a. \<not> is_asymmetric a) algorithms)
      in if rejected \<noteq> []
         then Inl (ValueError (''JWT algorithms must be asymmetric; refusing ''
                    @ py_repr (\<lambda>_. []) (JList (map JStr rejected))))
         else if algorithms = [] then Inl (ValueError ''at least one JWT algorithm must be configured'')
         else Inr \<lparr>js_issuer = issuer, js_audience = audience, js_algorithms = algorithms,
                   js_required_scopes = required_scopes, js_leeway = leeway\<rparr>)"

text \<open>\<open>_expiry_from_claims\<close>: the range is that of \<open>datetime\<close>, years 1 to 9999.\<close>

definition expiry_from_claims :: "jdict \<Rightarrow> timestamp option" where
  "expiry_from_claims claims =
     (if \<not> has_key claims ''exp'' then None
      else (case py_int (jget claims ''exp'') of
              Inl _ \<Rightarrow> None
            | Inr s \<Rightarrow> if -62135596800 \<le> s \<and> s \<le> 253402300799 then Some (microseconds s) else None))"

definition header_kid :: "jdict \<Rightarrow> string option" where
  "header_kid header = (case jget header ''kid'' of JStr s \<Rightarrow> Some s | _ \<Rightarrow> None)"

definition identity_assertion_for ::
  "(rat \<Rightarrow> string) \<Rightarrow> 'k jwt_lib \<Rightarrow> jwt_strategy \<Rightarrow> jwks_env \<Rightarrow> http_request \<Rightarrow> string \<Rightarrow>
     'k jwks_cache \<Rightarrow> string \<times> 'k jwks_cache" where
  "identity_assertion_for fr lib st env request subject c =
     (let assertion = strip (header_or_empty (rq_headers request) IDENTITY_ASSERTION_HEADER)
      in if assertion = [] then ([], c)
         else
           (case unverified_header lib assertion of
              None \<Rightarrow> ([], c)
            | Some header \<Rightarrow>
                (case key_for fr lib env (header_kid header) c of
                   (None, c') \<Rightarrow> ([], c')
                 | (Some key, c') \<Rightarrow>
                     (case jwt_decode lib assertion key (js_algorithms st) None (js_issuer st)
                             (js_leeway st) [''exp'', ''iss'', ''sub''] of
                        None \<Rightarrow> ([], c')
                      | Some claims \<Rightarrow>
                          if str_or_empty fr (jget claims ''sub'') \<noteq> subject then ([], c')
                          else (assertion, c')))))"

definition jwt_authenticate ::
  "(rat \<Rightarrow> string) \<Rightarrow> 'k jwt_lib \<Rightarrow> jwt_strategy \<Rightarrow> jwks_env \<Rightarrow> jwks_env \<Rightarrow> 'k jwks_cache \<Rightarrow>
     http_request \<Rightarrow> principal option py \<times> 'k jwks_cache" where
  "jwt_authenticate fr lib st env1 env2 c request =
     (let auth_header = header_or_empty (rq_headers request) ''Authorization''
      in if \<not> startswith auth_header ''Bearer '' then (Inr None, c)
         else
           let token = strip (drop 7 auth_header)
           in if token = [] then (Inr None, c)
              else
                (case unverified_header lib token of
                   None \<Rightarrow> (Inr None, c)
                 | Some header \<Rightarrow>
                     (case key_for fr lib env1 (header_kid header) c of
                        (None, c1) \<Rightarrow> (Inr None, c1)
                      | (Some key, c1) \<Rightarrow>
                          (case jwt_decode lib token key (js_algorithms st) (Some (js_audience st))
                                  (js_issuer st) (js_leeway st) [''exp'', ''iss'', ''aud'', ''sub''] of
                             None \<Rightarrow> (Inr None, c1)
                           | Some claims \<Rightarrow>
                               let subject = str_or_empty fr (jget claims ''sub'');
                                   scopes = scopes_from_claims fr claims
                               in if subject = [] then (Inr None, c1)
                                  else if filter (\<lambda>s. s \<notin> set scopes) (js_required_scopes st) \<noteq> []
                                  then (Inr None, c1)
                                  else
                                    (case identity_assertion_for fr lib st env2 request subject c1 of
                                       (id_token, c2) \<Rightarrow>
                                         (Inr (Some
                                            \<lparr>pr_subject = subject,
                                             pr_issuer = str_or_empty fr (jget claims ''iss''),
                                             pr_scopes = scopes, pr_token = token,
                                             pr_is_anonymous = False, pr_id_token = id_token,
                                             pr_expires_at = expiry_from_claims claims\<rparr>), c2))))))"

section \<open>build_authenticator\<close>

datatype strategy =
    NoAuthStrategy
  | BasicAuthStrategy string string
  | JWTBearerStrategy string jwt_strategy

definition missing_jwt_fields :: "auth_config \<Rightarrow> string list" where
  "missing_jwt_fields auth =
     map fst (filter (\<lambda>p. strip (snd p) = [])
       [(''auth.jwt.issuer'', jwt_issuer auth), (''auth.jwt.audience'', jwt_audience auth),
        (''auth.jwt.jwks_uri'', jwt_jwks_uri auth)])"

definition build_authenticator :: "auth_config \<Rightarrow> strategy py" where
  "build_authenticator auth =
     (if auth_kind auth = ''none'' \<or> auth_kind auth = ''noauth'' then Inr NoAuthStrategy
      else if auth_kind auth = ''jwt'' then
        (if missing_jwt_fields auth \<noteq> []
         then Inl (ValueError (''auth.type is jwt but '' @ join '', '' (missing_jwt_fields auth)
                               @ '' is not set.''))
         else
           (case new_jwt_strategy (strip (jwt_issuer auth)) (strip (jwt_audience auth))
                   (if jwt_algorithms auth \<noteq> [] then jwt_algorithms auth else DEFAULT_ALGORITHMS)
                   (jwt_required_scopes auth) (jwt_leeway_seconds auth) of
              Inl e \<Rightarrow> Inl e
            | Inr st \<Rightarrow> Inr (JWTBearerStrategy (strip (jwt_jwks_uri auth)) st)))
      else if auth_kind auth = ''basic'' \<or> auth_kind auth = [] then
        (if basic_register_pass auth = []
         then Inl (ValueError ''auth.type is basic but no password is set.'')
         else Inr (BasicAuthStrategy (basic_register_user auth) (basic_register_pass auth)))
      else Inl (ValueError (''Unknown auth type: '' @ auth_kind auth)))"

section \<open>What an authenticated principal is\<close>

lemma jwt_authenticate_Some:
  assumes "jwt_authenticate fr lib st env1 env2 c request = (Inr (Some p), c')"
  obtains key claims where
    "presented_bearer request = Some (pr_token p)"
    "jwt_decode lib (pr_token p) key (js_algorithms st) (Some (js_audience st)) (js_issuer st)
       (js_leeway st) [''exp'', ''iss'', ''aud'', ''sub''] = Some claims"
    "pr_subject p = str_or_empty fr (jget claims ''sub'')" "pr_subject p \<noteq> []"
    "pr_issuer p = str_or_empty fr (jget claims ''iss'')"
    "set (js_required_scopes st) \<subseteq> set (pr_scopes p)"
    "pr_scopes p = scopes_from_claims fr claims"
    "\<not> pr_is_anonymous p"
  using assms
  by (fastforce simp: jwt_authenticate_def presented_bearer_def Let_def filter_empty_conv
      split: if_splits option.splits prod.splits)

lemma identity_assertion_subject:
  assumes "identity_assertion_for fr lib st env request subject c = (a, c')" and "a \<noteq> []"
  shows "a = strip (header_or_empty (rq_headers request) IDENTITY_ASSERTION_HEADER)"
    and "\<exists>key claims. jwt_decode lib a key (js_algorithms st) None (js_issuer st) (js_leeway st)
           [''exp'', ''iss'', ''sub''] = Some claims \<and> str_or_empty fr (jget claims ''sub'') = subject"
  using assms
  by (auto simp: identity_assertion_for_def Let_def split: if_splits option.splits prod.splits)

lemma jwt_authenticate_assertion:
  assumes "jwt_authenticate fr lib st env1 env2 c request = (Inr (Some p), c')"
  shows "\<exists>c1. identity_assertion_for fr lib st env2 request (pr_subject p) c1 = (pr_id_token p, c')"
  using assms
  by (auto simp: jwt_authenticate_def Let_def split: if_splits option.splits prod.splits)

interpretation jwt: authenticator "jwt_authenticate fr lib st env1 env2"
  for fr :: "rat \<Rightarrow> string" and lib :: "'k jwt_lib" and st env1 env2
proof (unfold_locales, goal_cases)
  case (1 s request p s')
  then show ?case by (elim jwt_authenticate_Some) simp
next
  case (2 s request p s')
  then show ?case by (elim jwt_authenticate_Some) simp
next
  case (3 s request p s')
  then show ?case
    by (elim jwt_authenticate_Some) (auto simp: presented_bearer_def Let_def split: if_splits)
qed

section \<open>Refreshes are rate limited\<close>

text \<open>A run of cache uses, counting those that reach the network.\<close>

fun jwks_run ::
  "(rat \<Rightarrow> string) \<Rightarrow> 'k jwt_lib \<Rightarrow> (jwks_env \<times> string option) list \<Rightarrow> 'k jwks_cache \<Rightarrow>
     nat \<times> 'k jwks_cache" where
  "jwks_run fr lib [] c = (0, c)"
| "jwks_run fr lib ((env, kid) # calls) c =
     (case jwks_run fr lib calls (snd (key_for fr lib env kid c)) of
        (n, c') \<Rightarrow> ((if refreshes c env kid then 1 else 0) + n, c'))"

text \<open>How many refreshes a window that opens at \<open>t\<close> can still see.\<close>

definition refresh_budget :: "rat \<Rightarrow> 'k jwks_cache \<Rightarrow> nat" where
  "refresh_budget t c =
     (if jc_keys c = [] then (if jc_last_attempt c = 0 \<or> jc_last_attempt c < t then 2 else 0)
      else if jc_last_rotation_refresh c = 0 \<or> jc_last_rotation_refresh c < t then 1 else 0)"

lemma jwks_refresh_fields [simp]:
  "jc_min_refresh_interval (jwks_refresh fr lib env c) = jc_min_refresh_interval c"
  "jc_last_attempt (jwks_refresh fr lib env c) = je_after env"
  "jc_last_rotation_refresh (jwks_refresh fr lib env c) =
     (if jc_keys c \<noteq> [] then je_after env else jc_last_rotation_refresh c)"
  by (simp_all add: jwks_refresh_def Let_def split: option.split json.split)

lemma jwks_refresh_keeps_keys: "jc_keys c \<noteq> [] \<Longrightarrow> jc_keys (jwks_refresh fr lib env c) \<noteq> []"
  by (simp add: jwks_refresh_def Let_def split: option.split json.split)

lemma key_for_cache:
  "snd (key_for fr lib env kid c) = (if refreshes c env kid then jwks_refresh fr lib env c else c)"
  by (simp add: key_for_def refreshes_def Let_def split: option.split)

lemma refresh_spends_budget:
  assumes "refreshes c env kid" and "0 < t" and "t \<le> je_after env"
    and "je_now env < t + jc_min_refresh_interval c" and "jc_last_attempt c = 0 \<longrightarrow> jc_keys c = []"
  shows "refresh_budget t (jwks_refresh fr lib env c) < refresh_budget t c"
  using assms jwks_refresh_keeps_keys [of c fr lib env]
  by (auto simp: refreshes_def refresh_budget_def may_refresh_def split: if_splits)

lemma jwks_run_bounded:
  assumes "0 < t" and "jc_last_attempt c = 0 \<longrightarrow> jc_keys c = []"
    and "\<forall>(env, kid) \<in> set calls. t \<le> je_after env \<and> je_now env < t + jc_min_refresh_interval c"
  shows "fst (jwks_run fr lib calls c) \<le> refresh_budget t c"
  using assms(2,3)
proof (induction calls arbitrary: c)
  case (Cons call calls)
  obtain env kid where call: "call = (env, kid)" by fastforce
  let ?c = "snd (key_for fr lib env kid c)"
  have ok: "jc_last_attempt ?c = 0 \<longrightarrow> jc_keys ?c = []"
    using Cons.prems call assms(1) by (auto simp: key_for_cache)
  have "fst (jwks_run fr lib calls ?c) \<le> refresh_budget t ?c"
    using Cons.prems(2) by (intro Cons.IH [OF ok]) (auto simp: key_for_cache)
  moreover have "refresh_budget t ?c + (if refreshes c env kid then 1 else 0) \<le> refresh_budget t c"
    using refresh_spends_budget [of c env kid t fr lib] Cons.prems call assms(1)
    by (auto simp: key_for_cache)
  ultimately show ?case
    by (auto simp: call split: prod.splits)
qed simp

lemma refresh_budget_le: "refresh_budget t c \<le> 2"
  by (simp add: refresh_budget_def)

section \<open>Configuration lemmas\<close>

lemma sort_Nil_iff: "sort xs = [] \<longleftrightarrow> xs = []"
  by (metis length_0_conv length_sort)

lemma new_jwt_strategy_asymmetric:
  "new_jwt_strategy i a algs rs l = Inr st \<Longrightarrow>
     js_algorithms st \<noteq> [] \<and> (\<forall>alg \<in> set (js_algorithms st). is_asymmetric alg)"
  by (auto simp: new_jwt_strategy_def Let_def sort_Nil_iff filter_empty_conv split: if_splits)

lemma build_authenticator_jwt:
  assumes "build_authenticator auth = Inr (JWTBearerStrategy uri st)"
  shows "uri \<noteq> [] \<and> js_issuer st \<noteq> [] \<and> js_audience st \<noteq> [] \<and>
         js_algorithms st \<noteq> [] \<and> (\<forall>alg \<in> set (js_algorithms st). is_asymmetric alg)"
  using assms
  by (auto simp: build_authenticator_def missing_jwt_fields_def new_jwt_strategy_def Let_def
      sort_Nil_iff filter_empty_conv split: if_splits sum.splits)

lemma build_authenticator_basic:
  "build_authenticator auth = Inr (BasicAuthStrategy u p) \<Longrightarrow> p \<noteq> []"
  by (auto simp: build_authenticator_def split: if_splits sum.splits)

end
