(* ===== verification/Hub_Config.thy ===== *)
theory Hub_Config
  imports Registration Jwt_Auth
begin

text \<open>
  \<^verbatim>\<open>config.py\<close>, \<^verbatim>\<open>__main__.py\<close> and what \<^verbatim>\<open>app.py\<close> decides from the settings: reading the configuration from the defaults, the
  file and the environment, and starting the hub with the options of the command line.

  Opening and parsing a YAML file and pydantic's conversion of one value to the type of a field are arguments; the validators of
  the classes are definitions. A \<open>ValidationError\<close> is a \<open>ValueError\<close>, and a \<open>NotImplementedError\<close> a \<open>RuntimeError\<close>, as in Python. Every
  section is passed to \<open>Settings\<close>, so its own reading of the environment adds nothing.
\<close>

section \<open>Reading values\<close>

record field_reader =
  fr_text :: "json \<Rightarrow> string option"
  fr_int :: "json \<Rightarrow> int option"
  fr_bool :: "json \<Rightarrow> bool option"
  fr_float :: "json \<Rightarrow> rat option"
  fr_texts :: "json \<Rightarrow> string list option"
  fr_text_map :: "json \<Rightarrow> headers option"
  fr_brk :: "string \<Rightarrow> bool"

definition invalid_config :: "'a py" where "invalid_config = Inl (ValueError ''validation error'')"

definition field_or :: "(json \<Rightarrow> 'a option) \<Rightarrow> jdict \<Rightarrow> string \<Rightarrow> 'a \<Rightarrow> 'a py" where
  "field_or read d name dflt =
     (case map_of d name of
        None \<Rightarrow> Inr dflt
      | Some v \<Rightarrow> (case read v of None \<Rightarrow> invalid_config | Some x \<Rightarrow> Inr x))"

definition sub_model :: "(jdict \<Rightarrow> 'a py) \<Rightarrow> json option \<Rightarrow> 'a py" where
  "sub_model read v = (case v of None \<Rightarrow> read [] | Some (JObj d) \<Rightarrow> read d | Some _ \<Rightarrow> invalid_config)"

definition config_int :: "json \<Rightarrow> int option" where
  "config_int v =
     (case v of JStr s \<Rightarrow> int_text s
      | _ \<Rightarrow> (case py_int v of Inl e \<Rightarrow> None | Inr n \<Rightarrow> Some n))"

definition coerce_positive_int :: "json \<Rightarrow> int \<Rightarrow> int" where
  "coerce_positive_int v dflt =
     (if v = JNull then dflt
      else case config_int v of None \<Rightarrow> dflt | Some n \<Rightarrow> if n > 0 then n else dflt)"

definition positive_or :: "jdict \<Rightarrow> string \<Rightarrow> int \<Rightarrow> int" where
  "positive_or d name dflt =
     (case map_of d name of None \<Rightarrow> dflt | Some v \<Rightarrow> coerce_positive_int v dflt)"

text \<open>An absolute URL of \<open>http\<close> or \<open>https\<close> without its trailing slashes, or nothing.\<close>

definition absolute_http_url :: "(string \<Rightarrow> bool) \<Rightarrow> string \<Rightarrow> string py" where
  "absolute_http_url brk v =
     (let url = rstrip_char (CHR ''/'') (strip v)
      in if url = [] then Inr []
         else bind_py (urlsplit brk url) (\<lambda>parsed.
           if u_scheme parsed \<notin> {''http'', ''https''} \<or> u_netloc parsed = []
           then Inl (ValueError ''must be an absolute http(s) URL'') else Inr url))"

section \<open>The sections\<close>

record server_config =
  sv_http_host :: string
  sv_http_port :: int
  sv_admin_ui :: bool
  sv_public_base_url :: string

definition default_server_config :: server_config where
  "default_server_config =
     \<lparr>sv_http_host = ''127.0.0.1'', sv_http_port = 8080, sv_admin_ui = True, sv_public_base_url = []\<rparr>"

definition dump_server_config :: "server_config \<Rightarrow> jdict" where
  "dump_server_config c =
     [(''http_host'', JStr (sv_http_host c)), (''http_port'', JInt (sv_http_port c)), (''admin_ui'', JBool (sv_admin_ui c)),
      (''public_base_url'', JStr (sv_public_base_url c))]"

definition validate_public_base_url :: "field_reader \<Rightarrow> string \<Rightarrow> string py" where
  "validate_public_base_url R v = absolute_http_url (fr_brk R) v"

definition read_server_config :: "field_reader \<Rightarrow> jdict \<Rightarrow> server_config py" where
  "read_server_config R d =
     bind_py (field_or (fr_text R) d ''http_host'' ''127.0.0.1'') (\<lambda>host.
     bind_py (field_or (fr_int R) d ''http_port'' 8080) (\<lambda>port.
     bind_py (field_or (fr_bool R) d ''admin_ui'' True) (\<lambda>ui.
     bind_py (field_or (fr_text R) d ''public_base_url'' []) (\<lambda>url.
     bind_py (if has_key d ''public_base_url'' then validate_public_base_url R url else Inr url) (\<lambda>base.
       Inr \<lparr>sv_http_host = host, sv_http_port = port, sv_admin_ui = ui, sv_public_base_url = base\<rparr>)))))"

datatype storage_kind = Store_inmemory | Store_json | Store_redis

record redis_config =
  rd_addr :: string
  rd_password :: string
  rd_db :: int
  rd_ttl_seconds :: int

record storage_config =
  so_kind :: storage_kind
  so_redis :: redis_config
  so_json_path :: string

definition read_redis_config :: "field_reader \<Rightarrow> jdict \<Rightarrow> redis_config py" where
  "read_redis_config R d =
     bind_py (field_or (fr_text R) d ''addr'' []) (\<lambda>addr.
     bind_py (field_or (fr_text R) d ''password'' []) (\<lambda>password.
     bind_py (field_or (fr_int R) d ''db'' 0) (\<lambda>db.
     bind_py (field_or (fr_int R) d ''ttl_seconds'' 0) (\<lambda>ttl.
       Inr \<lparr>rd_addr = addr, rd_password = password, rd_db = db, rd_ttl_seconds = ttl\<rparr>))))"

definition default_storage_config :: storage_config where
  "default_storage_config =
     \<lparr>so_kind = Store_inmemory, so_redis = \<lparr>rd_addr = [], rd_password = [], rd_db = 0, rd_ttl_seconds = 0\<rparr>,
      so_json_path = ''mcp_servers.json''\<rparr>"

fun storage_kind_text :: "storage_kind \<Rightarrow> string" where
  "storage_kind_text Store_inmemory = ''inmemory''"
| "storage_kind_text Store_json = ''json''"
| "storage_kind_text Store_redis = ''redis''"

text \<open>\<open>model_dump\<close> names the JSON section by its field, \<open>json_\<close>; a file names it by its alias, which wins.\<close>

definition dump_storage_config :: "storage_config \<Rightarrow> jdict" where
  "dump_storage_config c =
     [(''type'', JStr (storage_kind_text (so_kind c))),
      (''redis'', JObj [(''addr'', JStr (rd_addr (so_redis c))), (''password'', JStr (rd_password (so_redis c))),
         (''db'', JInt (rd_db (so_redis c))), (''ttl_seconds'', JInt (rd_ttl_seconds (so_redis c)))]),
      (''json_'', JObj [(''path'', JStr (so_json_path c))])]"

definition normalize_storage_type :: "json \<Rightarrow> string py" where
  "normalize_storage_type v =
     (case v of
        JNull \<Rightarrow> Inr ''inmemory''
      | JStr s \<Rightarrow> Inr (if lower s \<in> {''json'', ''jsonfile'', ''file''} then ''json'' else lower s)
      | _ \<Rightarrow> Inl (AttributeError ''lower''))"

definition storage_kind_of :: "string \<Rightarrow> storage_kind py" where
  "storage_kind_of s =
     (if s = ''inmemory'' then Inr Store_inmemory else if s = ''json'' then Inr Store_json
      else if s = ''redis'' then Inr Store_redis else invalid_config)"

definition read_storage_config :: "field_reader \<Rightarrow> jdict \<Rightarrow> storage_config py" where
  "read_storage_config R d =
     bind_py (case map_of d ''type'' of None \<Rightarrow> Inr Store_inmemory
              | Some v \<Rightarrow> bind_py (normalize_storage_type v) storage_kind_of) (\<lambda>kind.
     bind_py (sub_model (read_redis_config R) (map_of d ''redis'')) (\<lambda>redis.
     bind_py (sub_model (\<lambda>j. field_or (fr_text R) j ''path'' ''mcp_servers.json'')
                (case map_of d ''json'' of Some v \<Rightarrow> Some v | None \<Rightarrow> map_of d ''json_'')) (\<lambda>path.
       Inr \<lparr>so_kind = kind, so_redis = redis, so_json_path = path\<rparr>)))"

text \<open>The authentication section is the record \<open>auth_config\<close> of \<^verbatim>\<open>Principal_Auth\<close>.\<close>

definition AUTH_TYPES :: "string list" where "AUTH_TYPES = [''basic'', ''jwt'', ''none'', ''noauth'', []]"

definition validate_type :: "string \<Rightarrow> string py" where
  "validate_type v = (if v \<in> set AUTH_TYPES then Inr v else Inl (ValueError (''Invalid auth type: '' @ v)))"

definition dump_auth_config :: "auth_config \<Rightarrow> jdict" where
  "dump_auth_config c =
     [(''type'', JStr (auth_kind c)),
      (''basic_auth'', JObj [(''register_user'', JStr (basic_register_user c)), (''register_pass'', JStr (basic_register_pass c))]),
      (''jwt'', JObj [(''issuer'', JStr (jwt_issuer c)), (''audience'', JStr (jwt_audience c)), (''jwks_uri'', JStr (jwt_jwks_uri c)),
         (''algorithms'', JList (map JStr (jwt_algorithms c))), (''required_scopes'', JList (map JStr (jwt_required_scopes c))),
         (''leeway_seconds'', JFloat (jwt_leeway_seconds c)), (''resource'', JStr (jwt_resource c)),
         (''admin_scope'', JStr (jwt_admin_scope c))])]"

definition read_basic_auth :: "field_reader \<Rightarrow> auth_config \<Rightarrow> jdict \<Rightarrow> auth_config py" where
  "read_basic_auth R c d =
     bind_py (field_or (fr_text R) d ''register_user'' ''admin'') (\<lambda>user.
     bind_py (field_or (fr_text R) d ''register_pass'' []) (\<lambda>pass.
       Inr (c\<lparr>basic_register_user := user, basic_register_pass := pass\<rparr>)))"

definition read_jwt_auth :: "field_reader \<Rightarrow> auth_config \<Rightarrow> jdict \<Rightarrow> auth_config py" where
  "read_jwt_auth R c d =
     bind_py (field_or (fr_text R) d ''issuer'' []) (\<lambda>issuer.
     bind_py (field_or (fr_text R) d ''audience'' []) (\<lambda>audience.
     bind_py (field_or (fr_text R) d ''jwks_uri'' []) (\<lambda>jwks_uri.
     bind_py (field_or (fr_texts R) d ''algorithms'' []) (\<lambda>algorithms.
     bind_py (field_or (fr_texts R) d ''required_scopes'' []) (\<lambda>scopes.
     bind_py (field_or (fr_float R) d ''leeway_seconds'' 0) (\<lambda>leeway.
     bind_py (field_or (fr_text R) d ''resource'' []) (\<lambda>resource.
     bind_py (field_or (fr_text R) d ''admin_scope'' []) (\<lambda>scope.
       Inr (c\<lparr>jwt_issuer := issuer, jwt_audience := audience, jwt_jwks_uri := jwks_uri, jwt_algorithms := algorithms,
              jwt_required_scopes := scopes, jwt_leeway_seconds := leeway, jwt_resource := resource,
              jwt_admin_scope := scope\<rparr>)))))))))"

definition read_auth_config :: "field_reader \<Rightarrow> jdict \<Rightarrow> auth_config py" where
  "read_auth_config R d =
     bind_py (field_or (fr_text R) d ''type'' ''none'') (\<lambda>t.
     bind_py (if has_key d ''type'' then validate_type t else Inr t) (\<lambda>kind.
     bind_py (sub_model (read_basic_auth R (default_auth_config\<lparr>auth_kind := kind\<rparr>)) (map_of d ''basic_auth'')) (\<lambda>c.
       sub_model (read_jwt_auth R c) (map_of d ''jwt''))))"

record health_config =
  hc_enabled :: bool
  hc_interval_seconds :: int
  hc_timeout_seconds :: int
  hc_failure_threshold :: int
  hc_auto_unregister :: bool
  hc_status_field :: string
  hc_uptime_field :: string

definition default_health_config :: health_config where
  "default_health_config =
     \<lparr>hc_enabled = True, hc_interval_seconds = 30, hc_timeout_seconds = 5, hc_failure_threshold = 3, hc_auto_unregister = False,
      hc_status_field = ''status'', hc_uptime_field = ''uptime_seconds''\<rparr>"

definition dump_health_config :: "health_config \<Rightarrow> jdict" where
  "dump_health_config c =
     [(''enabled'', JBool (hc_enabled c)), (''interval_seconds'', JInt (hc_interval_seconds c)),
      (''timeout_seconds'', JInt (hc_timeout_seconds c)), (''failure_threshold'', JInt (hc_failure_threshold c)),
      (''auto_unregister'', JBool (hc_auto_unregister c)),
      (''response_fields'', JObj [(''status'', JStr (hc_status_field c)), (''uptime_seconds'', JStr (hc_uptime_field c))])]"

definition read_response_fields :: "field_reader \<Rightarrow> jdict \<Rightarrow> (string \<times> string) py" where
  "read_response_fields R d =
     bind_py (field_or (fr_text R) d ''status'' ''status'') (\<lambda>status.
     bind_py (field_or (fr_text R) d ''uptime_seconds'' ''uptime_seconds'') (\<lambda>uptime. Inr (status, uptime)))"

definition read_health_config :: "field_reader \<Rightarrow> jdict \<Rightarrow> health_config py" where
  "read_health_config R d =
     bind_py (field_or (fr_bool R) d ''enabled'' True) (\<lambda>enabled.
     bind_py (field_or (fr_bool R) d ''auto_unregister'' False) (\<lambda>auto.
     bind_py (sub_model (read_response_fields R) (map_of d ''response_fields'')) (\<lambda>(status, uptime).
       Inr \<lparr>hc_enabled = enabled, hc_interval_seconds = positive_or d ''interval_seconds'' 30,
            hc_timeout_seconds = positive_or d ''timeout_seconds'' 5,
            hc_failure_threshold = positive_or d ''failure_threshold'' 3, hc_auto_unregister = auto,
            hc_status_field = status, hc_uptime_field = uptime\<rparr>)))"

record discovery_config =
  dc_enabled :: bool
  dc_interval_seconds :: int

definition MCP_DISCOVERY_INTERVAL_SECONDS :: int where "MCP_DISCOVERY_INTERVAL_SECONDS = 30"

definition dump_discovery_config :: "discovery_config \<Rightarrow> jdict" where
  "dump_discovery_config c = [(''enabled'', JBool (dc_enabled c)), (''interval_seconds'', JInt (dc_interval_seconds c))]"

definition read_discovery_config :: "field_reader \<Rightarrow> jdict \<Rightarrow> discovery_config py" where
  "read_discovery_config R d =
     bind_py (field_or (fr_bool R) d ''enabled'' True) (\<lambda>enabled.
       Inr \<lparr>dc_enabled = enabled, dc_interval_seconds = positive_or d ''interval_seconds'' MCP_DISCOVERY_INTERVAL_SECONDS\<rparr>)"

record stdio_command =
  sc_command :: string
  sc_args :: "string list"
  sc_env :: headers
  sc_cwd :: string

record stdio_config =
  sd_enabled :: bool
  sd_allowed_commands :: "(string, stdio_command) dict"
  sd_trusted_network :: bool

definition read_stdio_command :: "field_reader \<Rightarrow> jdict \<Rightarrow> stdio_command py" where
  "read_stdio_command R d =
     bind_py (case map_of d ''command'' of None \<Rightarrow> invalid_config
              | Some v \<Rightarrow> (case fr_text R v of None \<Rightarrow> invalid_config | Some t \<Rightarrow> Inr t)) (\<lambda>command.
     bind_py (field_or (fr_texts R) d ''args'' []) (\<lambda>args.
     bind_py (field_or (fr_text_map R) d ''env'' []) (\<lambda>env.
     bind_py (field_or (fr_text R) d ''cwd'' []) (\<lambda>cwd.
       if strip command = [] then Inl (ValueError ''stdio.allowed_commands entries need a command'')
       else Inr \<lparr>sc_command = strip command, sc_args = args, sc_env = env, sc_cwd = cwd\<rparr>))))"

definition read_commands :: "field_reader \<Rightarrow> json option \<Rightarrow> (string, stdio_command) dict py" where
  "read_commands R v =
     (case v of
        None \<Rightarrow> Inr []
      | Some (JObj d) \<Rightarrow>
          map_py (\<lambda>(name, c). bind_py (sub_model (read_stdio_command R) (Some c)) (\<lambda>command. Inr (name, command))) d
      | Some _ \<Rightarrow> invalid_config)"

definition dump_stdio_command :: "stdio_command \<Rightarrow> json" where
  "dump_stdio_command c =
     JObj [(''command'', JStr (sc_command c)), (''args'', JList (map JStr (sc_args c))),
           (''env'', JObj (map (\<lambda>(k, v). (k, JStr v)) (sc_env c))), (''cwd'', JStr (sc_cwd c))]"

definition dump_stdio_config :: "stdio_config \<Rightarrow> jdict" where
  "dump_stdio_config c =
     [(''enabled'', JBool (sd_enabled c)),
      (''allowed_commands'', JObj (map (\<lambda>(k, v). (k, dump_stdio_command v)) (sd_allowed_commands c))),
      (''trusted_network'', JBool (sd_trusted_network c))]"

definition read_stdio_config :: "field_reader \<Rightarrow> jdict \<Rightarrow> stdio_config py" where
  "read_stdio_config R d =
     bind_py (field_or (fr_bool R) d ''enabled'' False) (\<lambda>enabled.
     bind_py (read_commands R (map_of d ''allowed_commands'')) (\<lambda>commands.
     bind_py (field_or (fr_bool R) d ''trusted_network'' False) (\<lambda>trusted.
       Inr \<lparr>sd_enabled = enabled, sd_allowed_commands = commands, sd_trusted_network = trusted\<rparr>)))"

record registry_config =
  rc_base_url :: string

definition DEFAULT_REGISTRY_BASE_URL :: string where
  "DEFAULT_REGISTRY_BASE_URL = ''https://registry.modelcontextprotocol.io''"

definition read_registry_config :: "field_reader \<Rightarrow> jdict \<Rightarrow> registry_config py" where
  "read_registry_config R d =
     bind_py (field_or (fr_text R) d ''base_url'' DEFAULT_REGISTRY_BASE_URL) (\<lambda>url. Inr \<lparr>rc_base_url = url\<rparr>)"

record openapi_config =
  oc_max_spec_bytes :: int
  oc_fetch_timeout_seconds :: int
  oc_validate_timeout_seconds :: int
  oc_validate_memory_mb :: int
  oc_max_description_chars :: int
  oc_call_timeout_seconds :: int
  oc_max_response_bytes :: int
  oc_max_redirects :: int

definition default_openapi_config :: openapi_config where
  "default_openapi_config =
     \<lparr>oc_max_spec_bytes = 5 * 1024 * 1024, oc_fetch_timeout_seconds = 30, oc_validate_timeout_seconds = 120,
      oc_validate_memory_mb = 1024, oc_max_description_chars = 1024, oc_call_timeout_seconds = 30,
      oc_max_response_bytes = 1024 * 1024, oc_max_redirects = 5\<rparr>"

definition dump_openapi_config :: "openapi_config \<Rightarrow> jdict" where
  "dump_openapi_config c =
     [(''max_spec_bytes'', JInt (oc_max_spec_bytes c)), (''fetch_timeout_seconds'', JInt (oc_fetch_timeout_seconds c)),
      (''validate_timeout_seconds'', JInt (oc_validate_timeout_seconds c)),
      (''validate_memory_mb'', JInt (oc_validate_memory_mb c)),
      (''max_description_chars'', JInt (oc_max_description_chars c)),
      (''call_timeout_seconds'', JInt (oc_call_timeout_seconds c)), (''max_response_bytes'', JInt (oc_max_response_bytes c)),
      (''max_redirects'', JInt (oc_max_redirects c))]"

text \<open>No redirects at all is a choice, unlike a limit of zero elsewhere.\<close>

definition validate_max_redirects :: "json \<Rightarrow> int" where
  "validate_max_redirects v =
     (case config_int v of
        None \<Rightarrow> oc_max_redirects default_openapi_config
      | Some n \<Rightarrow> if n \<ge> 0 then n else oc_max_redirects default_openapi_config)"

definition read_openapi_config :: "jdict \<Rightarrow> openapi_config" where
  "read_openapi_config d =
     (let D = default_openapi_config
      in \<lparr>oc_max_spec_bytes = positive_or d ''max_spec_bytes'' (oc_max_spec_bytes D),
          oc_fetch_timeout_seconds = positive_or d ''fetch_timeout_seconds'' (oc_fetch_timeout_seconds D),
          oc_validate_timeout_seconds = positive_or d ''validate_timeout_seconds'' (oc_validate_timeout_seconds D),
          oc_validate_memory_mb = positive_or d ''validate_memory_mb'' (oc_validate_memory_mb D),
          oc_max_description_chars = positive_or d ''max_description_chars'' (oc_max_description_chars D),
          oc_call_timeout_seconds = positive_or d ''call_timeout_seconds'' (oc_call_timeout_seconds D),
          oc_max_response_bytes = positive_or d ''max_response_bytes'' (oc_max_response_bytes D),
          oc_max_redirects = (case map_of d ''max_redirects'' of None \<Rightarrow> oc_max_redirects D
                              | Some v \<Rightarrow> validate_max_redirects v)\<rparr>)"

record otel_config =
  ot_enabled :: bool
  ot_endpoint :: string
  ot_service_name :: string
  ot_headers :: headers
  ot_include_subject :: bool

definition default_otel_config :: otel_config where
  "default_otel_config =
     \<lparr>ot_enabled = False, ot_endpoint = [], ot_service_name = ''k5n-mcp-hub'', ot_headers = [], ot_include_subject = False\<rparr>"

definition dump_otel_config :: "otel_config \<Rightarrow> jdict" where
  "dump_otel_config c =
     [(''enabled'', JBool (ot_enabled c)), (''endpoint'', JStr (ot_endpoint c)), (''service_name'', JStr (ot_service_name c)),
      (''headers'', JObj (map (\<lambda>(k, v). (k, JStr v)) (ot_headers c))), (''include_subject'', JBool (ot_include_subject c))]"

definition validate_endpoint :: "field_reader \<Rightarrow> string \<Rightarrow> string py" where
  "validate_endpoint R v = absolute_http_url (fr_brk R) v"

definition validate_endpoint_present :: "otel_config \<Rightarrow> otel_config py" where
  "validate_endpoint_present c =
     (if ot_enabled c \<and> ot_endpoint c = []
      then Inl (ValueError ''otel.enabled is true but otel.endpoint is not set.'') else Inr c)"

definition read_otel_config :: "field_reader \<Rightarrow> jdict \<Rightarrow> otel_config py" where
  "read_otel_config R d =
     bind_py (field_or (fr_bool R) d ''enabled'' False) (\<lambda>enabled.
     bind_py (field_or (fr_text R) d ''endpoint'' []) (\<lambda>text.
     bind_py (if has_key d ''endpoint'' then validate_endpoint R text else Inr text) (\<lambda>endpoint.
     bind_py (field_or (fr_text R) d ''service_name'' ''k5n-mcp-hub'') (\<lambda>name.
     bind_py (field_or (fr_text_map R) d ''headers'' []) (\<lambda>headers.
     bind_py (field_or (fr_bool R) d ''include_subject'' False) (\<lambda>subject.
       validate_endpoint_present
         \<lparr>ot_enabled = enabled, ot_endpoint = endpoint, ot_service_name = name, ot_headers = headers,
          ot_include_subject = subject\<rparr>))))))"

record trace_config =
  tr_body_limit :: int
  tr_capture_sse :: bool

definition read_trace_config :: "field_reader \<Rightarrow> jdict \<Rightarrow> trace_config py" where
  "read_trace_config R d =
     bind_py (field_or (fr_int R) d ''body_limit'' 10000) (\<lambda>limit.
     bind_py (field_or (fr_bool R) d ''capture_sse'' False) (\<lambda>sse. Inr \<lparr>tr_body_limit = limit, tr_capture_sse = sse\<rparr>))"

definition read_security_config :: "field_reader \<Rightarrow> jdict \<Rightarrow> bool py" where
  "read_security_config R d = field_or (fr_bool R) d ''allow_private_networks'' False"

record hub_settings =
  cg_server :: server_config
  cg_storage :: storage_config
  cg_auth :: auth_config
  cg_healthcheck :: health_config
  cg_discovery :: discovery_config
  cg_stdio :: stdio_config
  cg_registry :: registry_config
  cg_openapi :: openapi_config
  cg_otel :: otel_config
  cg_trace :: trace_config
  cg_allow_private_networks :: bool

definition CONFIG_LOOPBACK_HOSTS :: "string list" where
  "CONFIG_LOOPBACK_HOSTS = [''127.0.0.1'', ''::1'', ''localhost'']"

definition loopback_host :: "string \<Rightarrow> bool" where
  "loopback_host host \<longleftrightarrow> lower (strip host) \<in> set CONFIG_LOOPBACK_HOSTS"

definition validate_stdio_gate :: "hub_settings \<Rightarrow> hub_settings py" where
  "validate_stdio_gate s =
     (if \<not> sd_enabled (cg_stdio s) then Inr s
      else if auth_kind (cg_auth s) = ''jwt'' \<or> loopback_host (sv_http_host (cg_server s)) \<or> sd_trusted_network (cg_stdio s)
      then Inr s
      else Inl (ValueError ''stdio.enabled is true, but anyone who can reach this hub may register a server''))"

definition from_defaults :: hub_settings where
  "from_defaults =
     \<lparr>cg_server = default_server_config, cg_storage = default_storage_config, cg_auth = default_auth_config,
      cg_healthcheck = default_health_config,
      cg_discovery = \<lparr>dc_enabled = True, dc_interval_seconds = MCP_DISCOVERY_INTERVAL_SECONDS\<rparr>,
      cg_stdio = \<lparr>sd_enabled = False, sd_allowed_commands = [], sd_trusted_network = False\<rparr>,
      cg_registry = \<lparr>rc_base_url = DEFAULT_REGISTRY_BASE_URL\<rparr>, cg_openapi = default_openapi_config,
      cg_otel = default_otel_config, cg_trace = \<lparr>tr_body_limit = 10000, tr_capture_sse = False\<rparr>,
      cg_allow_private_networks = False\<rparr>"

section \<open>The file and the environment\<close>

text \<open>What a path holds: nothing, what reading it raises, or the parsed document.\<close>

record config_env =
  ce_files :: "string \<Rightarrow> json py option"
  ce_cwd :: string
  ce_environ :: "(string, string) dict"
  ce_reader :: field_reader
  ce_telemetry_sdk :: bool

definition load_yaml_config :: "config_env \<Rightarrow> string option \<Rightarrow> json py" where
  "load_yaml_config C path =
     (case ce_files C (case path of None \<Rightarrow> ce_cwd C @ ''/config.yaml'' | Some p \<Rightarrow> p) of
        None \<Rightarrow> Inr (JObj [])
      | Some (Inl e) \<Rightarrow> Inl e
      | Some (Inr v) \<Rightarrow> Inr (if truthy v then v else JObj []))"

fun deep_merge :: "jdict \<Rightarrow> jdict \<Rightarrow> jdict" where
  "deep_merge base [] = base"
| "deep_merge base ((k, v) # rest) =
     deep_merge
       (AList.update k
          (case v of
             JObj new \<Rightarrow> (case map_of base k of Some (JObj old) \<Rightarrow> JObj (deep_merge old new) | _ \<Rightarrow> v)
           | _ \<Rightarrow> v) base)
       rest"

text \<open>The parts of a variable's name. \<open>split\<close> finds the separators from the left.\<close>

fun split_dunder :: "string \<Rightarrow> string \<Rightarrow> string list" where
  "split_dunder w (c1 # c2 # s) =
     (if c1 = CHR ''_'' \<and> c2 = CHR ''_'' then rev w # split_dunder [] s else split_dunder (c1 # w) (c2 # s))"
| "split_dunder w s = [rev w @ s]"

definition ENV_PREFIX :: string where "ENV_PREFIX = ''MCPHUB_''"

definition env_parts :: "string \<Rightarrow> string list option" where
  "env_parts env_key =
     (if prefix ENV_PREFIX env_key \<and> env_key \<noteq> ENV_PREFIX
      then Some (split_dunder [] (lower (drop (length ENV_PREFIX) env_key))) else None)"

text \<open>Storing a value under its parts. A text on the way is no dictionary, and Python refuses to index it.\<close>

fun put_parts :: "jdict \<Rightarrow> string list \<Rightarrow> string \<Rightarrow> jdict py" where
  "put_parts current [] value = Inr current"
| "put_parts current [part] value = Inr (AList.update part (JStr value) current)"
| "put_parts current (part # next # parts) value =
     (case map_of current part of
        None \<Rightarrow> map_sum (\<lambda>e. e) (\<lambda>d. AList.update part (JObj d) current) (put_parts [] (next # parts) value)
      | Some (JObj d) \<Rightarrow> map_sum (\<lambda>e. e) (\<lambda>d'. AList.update part (JObj d') current) (put_parts d (next # parts) value)
      | Some _ \<Rightarrow> Inl (TypeError ''not a dictionary''))"

fun collect_from :: "(string, string) dict \<Rightarrow> jdict \<Rightarrow> jdict py" where
  "collect_from [] result = Inr result"
| "collect_from ((env_key, env_value) # environ) result =
     (case env_parts env_key of
        None \<Rightarrow> collect_from environ result
      | Some parts \<Rightarrow> bind_py (put_parts result parts env_value) (collect_from environ))"

definition collect_nested_env_vars :: "(string, string) dict \<Rightarrow> jdict py" where
  "collect_nested_env_vars environ = collect_from environ []"

text \<open>One section: the defaults, under the file's values, under the environment's.\<close>

definition merge_with :: "jdict \<Rightarrow> json option \<Rightarrow> jdict py" where
  "merge_with base override =
     (case override of
        None \<Rightarrow> Inr base
      | Some (JObj d) \<Rightarrow> Inr (deep_merge base d)
      | Some _ \<Rightarrow> Inl (AttributeError ''items''))"

definition section_dict :: "jdict \<Rightarrow> jdict \<Rightarrow> string \<Rightarrow> jdict \<Rightarrow> jdict py" where
  "section_dict yaml env name defaults =
     bind_py (merge_with defaults (map_of yaml name)) (\<lambda>d. merge_with d (map_of env name))"

definition merged_sections :: "jdict \<Rightarrow> jdict \<Rightarrow> (string, jdict) dict py" where
  "merged_sections yaml env =
     (let D = from_defaults
      in map_py (\<lambda>(name, defaults). bind_py (section_dict yaml env name defaults) (\<lambda>d. Inr (name, d)))
           [(''server'', dump_server_config (cg_server D)), (''storage'', dump_storage_config (cg_storage D)),
            (''auth'', dump_auth_config (cg_auth D)), (''healthcheck'', dump_health_config (cg_healthcheck D)),
            (''discovery'', dump_discovery_config (cg_discovery D)), (''stdio'', dump_stdio_config (cg_stdio D)),
            (''registry'', [(''base_url'', JStr (rc_base_url (cg_registry D)))]),
            (''openapi'', dump_openapi_config (cg_openapi D)), (''otel'', dump_otel_config (cg_otel D)),
            (''trace'', [(''body_limit'', JInt (tr_body_limit (cg_trace D))),
                         (''capture_sse'', JBool (tr_capture_sse (cg_trace D)))]),
            (''security'', [(''allow_private_networks'', JBool (cg_allow_private_networks D))])])"

definition section_of :: "(string, jdict) dict \<Rightarrow> string \<Rightarrow> jdict" where
  "section_of ss name = (case map_of ss name of None \<Rightarrow> [] | Some d \<Rightarrow> d)"

definition settings_of_sections :: "field_reader \<Rightarrow> (string, jdict) dict \<Rightarrow> hub_settings py" where
  "settings_of_sections R ss =
     bind_py (read_server_config R (section_of ss ''server'')) (\<lambda>server.
     bind_py (read_storage_config R (section_of ss ''storage'')) (\<lambda>storage.
     bind_py (read_auth_config R (section_of ss ''auth'')) (\<lambda>auth.
     bind_py (read_health_config R (section_of ss ''healthcheck'')) (\<lambda>health.
     bind_py (read_discovery_config R (section_of ss ''discovery'')) (\<lambda>discovery.
     bind_py (read_stdio_config R (section_of ss ''stdio'')) (\<lambda>stdio.
     bind_py (read_registry_config R (section_of ss ''registry'')) (\<lambda>registry.
     bind_py (read_otel_config R (section_of ss ''otel'')) (\<lambda>otel.
     bind_py (read_trace_config R (section_of ss ''trace'')) (\<lambda>trace.
     bind_py (read_security_config R (section_of ss ''security'')) (\<lambda>private.
       validate_stdio_gate
         \<lparr>cg_server = server, cg_storage = storage, cg_auth = auth, cg_healthcheck = health, cg_discovery = discovery,
          cg_stdio = stdio, cg_registry = registry, cg_openapi = read_openapi_config (section_of ss ''openapi''),
          cg_otel = otel, cg_trace = trace, cg_allow_private_networks = private\<rparr>))))))))))"

text \<open>The last word on the port is the bare variable, unless it is zero.\<close>

definition bare_port :: "(string, string) dict \<Rightarrow> hub_settings \<Rightarrow> hub_settings py" where
  "bare_port environ s =
     (case map_of environ ''SERVER_HTTP_PORT'' of
        None \<Rightarrow> Inr s
      | Some t \<Rightarrow>
          if t = [] then Inr s
          else (case int_text t of
                  None \<Rightarrow> Inl (ValueError ''invalid literal for int()'')
                | Some n \<Rightarrow> Inr (if n = 0 then s else s\<lparr>cg_server := (cg_server s)\<lparr>sv_http_port := n\<rparr>\<rparr>)))"

definition load_settings :: "config_env \<Rightarrow> string option \<Rightarrow> hub_settings py" where
  "load_settings C path =
     bind_py (load_yaml_config C path) (\<lambda>yaml.
     bind_py (collect_nested_env_vars (ce_environ C)) (\<lambda>env.
     bind_py (case yaml of JObj d \<Rightarrow> Inr d | _ \<Rightarrow> Inl (AttributeError ''get'')) (\<lambda>config.
     bind_py (merged_sections config env) (\<lambda>ss.
     bind_py (settings_of_sections (ce_reader C) ss) (bare_port (ce_environ C))))))"

section \<open>Starting the hub\<close>

record cli =
  cl_config :: "string option"
  cl_host :: "string option"
  cl_port :: "int option"
  cl_dev :: bool

definition resolve_settings :: "config_env \<Rightarrow> string option \<Rightarrow> string option \<Rightarrow> int option \<Rightarrow> hub_settings py" where
  "resolve_settings C path host port =
     map_sum (\<lambda>e. e)
       (\<lambda>s. s\<lparr>cg_server := (cg_server s)
          \<lparr>sv_http_host := (case host of None \<Rightarrow> sv_http_host (cg_server s) | Some h \<Rightarrow> h),
           sv_http_port := (case port of None \<Rightarrow> sv_http_port (cg_server s) | Some p \<Rightarrow> p)\<rparr>\<rparr>)
       (load_settings C path)"

definition HOST_ENV :: string where "HOST_ENV = ''MCPHUB_SERVER__HTTP_HOST''"
definition PORT_ENV :: string where "PORT_ENV = ''MCPHUB_SERVER__HTTP_PORT''"
definition DEV_MODE_ENV :: string where "DEV_MODE_ENV = ''MCPHUB_SECURITY__ALLOW_PRIVATE_NETWORKS''"

definition export_cli_overrides :: "string option \<Rightarrow> int option \<Rightarrow> (string, string) dict \<Rightarrow> (string, string) dict" where
  "export_cli_overrides host port environ =
     (let with_host = (case host of None \<Rightarrow> environ | Some h \<Rightarrow> AList.update HOST_ENV h environ)
      in case port of None \<Rightarrow> with_host | Some p \<Rightarrow> AList.update PORT_ENV (str_int p) with_host)"

text \<open>The settings of uvicorn are changed too, but it was only ever handed the address.\<close>

definition apply_dev_mode :: "(string, string) dict \<Rightarrow> (string, string) dict" where
  "apply_dev_mode environ = AList.update DEV_MODE_ENV ''true'' environ"

text \<open>The application reads its settings itself, from the working directory and the environment. Of the rest of the function, only what
  may refuse to start depends on them.\<close>

definition create_app :: "config_env \<Rightarrow> (hub_settings \<times> strategy) py" where
  "create_app C =
     bind_py (load_settings C None) (\<lambda>s.
       if so_kind (cg_storage s) = Store_redis then Inl (RuntimeError ''redis storage not implemented in v1'')
       else bind_py (build_authenticator (cg_auth s)) (\<lambda>authenticator.
         if ot_enabled (cg_otel s) \<and> \<not> ce_telemetry_sdk C then Inl (RuntimeError ''the telemetry SDK is not installed'')
         else Inr (s, authenticator)))"

definition main :: "config_env \<Rightarrow> cli \<Rightarrow> (string \<times> int \<times> hub_settings \<times> strategy) py" where
  "main C args =
     bind_py (resolve_settings C (cl_config args) (cl_host args) (cl_port args)) (\<lambda>s.
       let exported = export_cli_overrides (cl_host args) (cl_port args) (ce_environ C);
           environ = (if cl_dev args then apply_dev_mode exported else exported)
       in bind_py (create_app (C\<lparr>ce_environ := environ\<rparr>)) (\<lambda>(app_settings, authenticator).
            Inr (sv_http_host (cg_server s), sv_http_port (cg_server s), app_settings, authenticator)))"

text \<open>The warnings at startup.\<close>

datatype exposure = No_authentication | Private_networks

definition APP_LOOPBACK_HOSTS :: "string list" where
  "APP_LOOPBACK_HOSTS = [''127.0.0.1'', ''localhost'', ''::1'', []]"

definition warn_about_exposure :: "hub_settings \<Rightarrow> exposure list" where
  "warn_about_exposure s =
     (if sv_http_host (cg_server s) \<in> set APP_LOOPBACK_HOSTS then []
      else (if auth_kind (cg_auth s) \<in> {''none'', ''noauth'', []} then [No_authentication] else []) @
           (if cg_allow_private_networks s then [Private_networks] else []))"
end
