(* ===== verification/Config_Facts.thy ===== *)
theory Config_Facts
  imports Hub_Config
begin

text \<open>
  Facts of \<^verbatim>\<open>Hub_Config\<close>: which source a setting comes from, what the validators guarantee, and that the application believes the
  address it is bound to.
\<close>

section \<open>Merging\<close>

definition merge_value :: "json option \<Rightarrow> json \<Rightarrow> json" where
  "merge_value old v =
     (case v of JObj new \<Rightarrow> (case old of Some (JObj d) \<Rightarrow> JObj (deep_merge d new) | _ \<Rightarrow> v) | _ \<Rightarrow> v)"

lemma deep_merge_Cons:
  "deep_merge base ((k, v) # rest) = deep_merge (AList.update k (merge_value (map_of base k) v) base) rest"
  by (simp add: merge_value_def cong: json.case_cong option.case_cong)

declare deep_merge.simps(2) [simp del] deep_merge_Cons [simp]

lemma map_of_deep_merge:
  assumes "distinct (map fst override)"
  shows "map_of (deep_merge base override) k =
    (case map_of override k of None \<Rightarrow> map_of base k | Some v \<Rightarrow> Some (merge_value (map_of base k) v))"
  using assms
proof (induction override arbitrary: base)
  case (Cons p rest)
  obtain k' v where p: "p = (k', v)" by fastforce
  have "map_of rest k' = None" using Cons.prems p by (simp add: map_of_eq_None_iff)
  then show ?case using Cons p by (auto simp: dict_simps split: option.splits)
qed simp

fun at_path :: "json option \<Rightarrow> string list \<Rightarrow> json option" where
  "at_path v [] = v"
| "at_path (Some (JObj d)) (p # ps) = at_path (map_of d p) ps"
| "at_path _ _ = None"

lemma at_path_None [simp]: "at_path None ps = None"
  by (cases ps) auto

lemma at_path_leaf: "\<not> is_obj v \<Longrightarrow> at_path (Some v) (p # ps) = None"
  by (cases v) auto

text \<open>Whether a dictionary says anything about a path: at it or at a place above it.\<close>

fun says :: "jdict \<Rightarrow> string list \<Rightarrow> bool" where
  "says d [] = True"
| "says d (p # ps) = (case map_of d p of None \<Rightarrow> False | Some (JObj e) \<Rightarrow> says e ps | Some _ \<Rightarrow> True)"

text \<open>No dictionary on the path has a key twice.\<close>

fun keys_distinct :: "json \<Rightarrow> bool" where
  "keys_distinct (JObj d) = (distinct (map fst d) \<and> list_all (\<lambda>(k, v). keys_distinct v) d)"
| "keys_distinct _ = True"

lemma keys_distinct_map_of: "list_all (\<lambda>(k, v). keys_distinct v) d \<Longrightarrow> map_of d k = Some v \<Longrightarrow> keys_distinct v"
  by (auto simp: list_all_iff dest: map_of_SomeD)

lemma at_path_unsaid: "\<not> says d q \<Longrightarrow> at_path (Some (JObj d)) q = None"
proof (induction d q rule: says.induct)
  case (2 d p ps)
  then show ?case by (cases "map_of d p") (auto split: json.splits)
qed simp

lemma merge_keeps:
  assumes "keys_distinct (JObj override)" "\<not> says override q"
  shows "at_path (Some (JObj (deep_merge base override))) q = at_path (Some (JObj base)) q"
  using assms
proof (induction q arbitrary: base override)
  case (Cons p ps)
  show ?case
  proof (cases "map_of override p")
    case None
    then show ?thesis using Cons.prems(1) by (simp add: map_of_deep_merge)
  next
    case (Some v)
    then obtain e where v: "v = JObj e" "\<not> says e ps" using Cons.prems(2) by (auto split: json.splits)
    then have e: "keys_distinct (JObj e)" using Cons.prems(1) Some keys_distinct_map_of by fastforce
    have merged: "at_path (Some (JObj (deep_merge base override))) (p # ps) = at_path (Some (merge_value (map_of base p) (JObj e))) ps"
      using Cons.prems(1) Some v by (simp add: map_of_deep_merge)
    show ?thesis
    proof (cases "\<exists>d. map_of base p = Some (JObj d)")
      case True
      then show ?thesis using merged Cons.IH[OF e v(2)] by (auto simp: merge_value_def)
    next
      case False
      have "ps \<noteq> []" using v(2) by auto
      then have "at_path (map_of base p) ps = None"
        using False by (cases ps; cases "map_of base p") (auto intro!: at_path_leaf elim: is_obj.elims)
      moreover have "merge_value (map_of base p) (JObj e) = JObj e"
        using False by (auto simp: merge_value_def split: option.splits json.splits)
      ultimately show ?thesis using merged at_path_unsaid[OF v(2)] by simp
    qed
  qed
qed simp

lemma merge_overrides:
  assumes "keys_distinct (JObj override)" "at_path (Some (JObj override)) q = Some v" "\<not> is_obj v"
  shows "at_path (Some (JObj (deep_merge base override))) q = Some v"
  using assms
proof (induction q arbitrary: base override)
  case Nil
  then show ?case by auto
next
  case (Cons p ps)
  then obtain w where w: "map_of override p = Some w" "at_path (Some w) ps = Some v" by (cases "map_of override p") auto
  have merged: "at_path (Some (JObj (deep_merge base override))) (p # ps) = at_path (Some (merge_value (map_of base p) w)) ps"
    using Cons.prems(1) w by (simp add: map_of_deep_merge)
  show ?case
  proof (cases "\<exists>e d. w = JObj e \<and> map_of base p = Some (JObj d)")
    case True
    then obtain e d where e: "w = JObj e" "map_of base p = Some (JObj d)" by blast
    then have "keys_distinct (JObj e)" using Cons.prems(1) w keys_distinct_map_of by fastforce
    then show ?thesis using merged Cons.IH[of e d] w e Cons.prems(3) by (simp add: merge_value_def)
  next
    case False
    then have "merge_value (map_of base p) w = w" by (auto simp: merge_value_def split: option.splits json.splits)
    then show ?thesis using merged w by simp
  qed
qed

text \<open>One source over another, at a path of its dictionary.\<close>

lemma merge_with_keeps:
  assumes "merge_with base (map_of source name) = Inr d" "keys_distinct (JObj source)" "\<not> says source (name # q)"
  shows "at_path (Some (JObj d)) q = at_path (Some (JObj base)) q"
proof (cases "map_of source name")
  case None
  then show ?thesis using assms(1) by (simp add: merge_with_def)
next
  case (Some v)
  then obtain e where e: "v = JObj e" "d = deep_merge base e" using assms(1) by (cases v) (auto simp: merge_with_def)
  then have "keys_distinct (JObj e)" using assms(2) Some keys_distinct_map_of by fastforce
  then show ?thesis using merge_keeps assms(3) Some e by simp
qed

lemma merge_with_overrides:
  assumes "merge_with base (map_of source name) = Inr d" "keys_distinct (JObj source)"
    and "at_path (Some (JObj source)) (name # q) = Some v" "\<not> is_obj v"
  shows "at_path (Some (JObj d)) q = Some v"
proof -
  obtain w where w: "map_of source name = Some w" "at_path (Some w) q = Some v" using assms(3) by (cases "map_of source name") auto
  then obtain e where e: "w = JObj e" "d = deep_merge base e" using assms(1) by (cases w) (auto simp: merge_with_def)
  then have "keys_distinct (JObj e)" using assms(2) w keys_distinct_map_of by fastforce
  then show ?thesis using merge_overrides[OF _ _ assms(4)] w e by simp
qed

lemma section_dict_precedence:
  assumes "section_dict yaml env name defaults = Inr d" "keys_distinct (JObj yaml)" "keys_distinct (JObj env)"
  shows "at_path (Some (JObj env)) (name # q) = Some v \<Longrightarrow> \<not> is_obj v \<Longrightarrow> at_path (Some (JObj d)) q = Some v"
    and "\<not> says env (name # q) \<Longrightarrow> at_path (Some (JObj yaml)) (name # q) = Some v \<Longrightarrow> \<not> is_obj v \<Longrightarrow>
      at_path (Some (JObj d)) q = Some v"
    and "\<not> says env (name # q) \<Longrightarrow> \<not> says yaml (name # q) \<Longrightarrow>
      at_path (Some (JObj d)) q = at_path (Some (JObj defaults)) q"
proof -
  obtain m where m: "merge_with defaults (map_of yaml name) = Inr m" "merge_with m (map_of env name) = Inr d"
    using assms(1) by (auto simp: section_dict_def bind_py_Inr)
  show "at_path (Some (JObj env)) (name # q) = Some v \<Longrightarrow> \<not> is_obj v \<Longrightarrow> at_path (Some (JObj d)) q = Some v"
    using merge_with_overrides[OF m(2) assms(3)] .
  show "\<not> says env (name # q) \<Longrightarrow> at_path (Some (JObj yaml)) (name # q) = Some v \<Longrightarrow> \<not> is_obj v \<Longrightarrow>
      at_path (Some (JObj d)) q = Some v"
    using merge_with_keeps[OF m(2) assms(3)] merge_with_overrides[OF m(1) assms(2)] by simp
  show "\<not> says env (name # q) \<Longrightarrow> \<not> says yaml (name # q) \<Longrightarrow>
      at_path (Some (JObj d)) q = at_path (Some (JObj defaults)) q"
    using merge_with_keeps[OF m(2) assms(3)] merge_with_keeps[OF m(1) assms(2)] by simp
qed

section \<open>The environment\<close>

lemma put_parts_deepI:
  "map_of D p = None \<and> d = [] \<or> map_of D p = Some (JObj d) \<Longrightarrow> put_parts d (q # ps) v = Inr d' \<Longrightarrow>
    put_parts D (p # q # ps) v = Inr (AList.update p (JObj d') D)"
  by auto

lemma put_parts_deep:
  assumes "put_parts D (p # q # ps) v = Inr D'"
  obtains d d' where "map_of D p = None \<and> d = [] \<or> map_of D p = Some (JObj d)" "put_parts d (q # ps) v = Inr d'"
    "D' = AList.update p (JObj d') D"
proof (cases "map_of D p")
  case None
  then show ?thesis using assms that[of "[]"] by (cases "put_parts [] (q # ps) v") auto
next
  case (Some w)
  then obtain d where d: "w = JObj d" using assms by (cases w) auto
  then show ?thesis using assms Some that[of d] by (cases "put_parts d (q # ps) v") auto
qed

lemma put_parts_distinct:
  "put_parts D parts v = Inr D' \<Longrightarrow> keys_distinct (JObj D) \<Longrightarrow> keys_distinct (JObj D')"
proof (induction parts arbitrary: D D')
  case (Cons p rest)
  have upd: "keys_distinct (JObj (AList.update p w D))" if "keys_distinct w" for w
    using Cons.prems(2) that by (auto simp: list_all_iff dest!: in_update_cases intro: distinct_keys_update)
  show ?case
  proof (cases rest)
    case Nil
    then show ?thesis using Cons.prems(1) upd[of "JStr v"] by auto
  next
    case (Cons q ps)
    from Cons.prems(1)[unfolded Cons] obtain d d' where d: "map_of D p = None \<and> d = [] \<or> map_of D p = Some (JObj d)"
      "put_parts d (q # ps) v = Inr d'" "D' = AList.update p (JObj d') D" by (rule put_parts_deep)
    have "keys_distinct (JObj d)" using d(1) Cons.prems(2) keys_distinct_map_of by fastforce
    then show ?thesis using Cons.IH[of d d'] d Cons upd by auto
  qed
qed simp

lemma collect_distinct: "collect_from E D = Inr R \<Longrightarrow> keys_distinct (JObj D) \<Longrightarrow> keys_distinct (JObj R)"
proof (induction E D rule: collect_from.induct)
  case (2 k v E D)
  then show ?case
    by (cases "env_parts k"; cases "put_parts D (the (env_parts k)) v") (auto dest: put_parts_distinct)
qed simp

text \<open>What the environment says of the host: the section is no dictionary, or what it holds.\<close>

definition host_view :: "jdict \<Rightarrow> json + json option" where
  "host_view D =
     (case map_of D ''server'' of
        None \<Rightarrow> Inr None | Some (JObj d) \<Rightarrow> Inr (map_of d ''http_host'') | Some v \<Rightarrow> Inl v)"

definition on_host :: "string list \<Rightarrow> bool" where
  "on_host ps \<longleftrightarrow> ps = [''server''] \<or> prefix [''server'', ''http_host''] ps"

definition host_dict :: "jdict \<Rightarrow> jdict \<Rightarrow> bool" where
  "host_dict D d \<longleftrightarrow> map_of D ''server'' = None \<and> d = [] \<or> map_of D ''server'' = Some (JObj d)"

lemma host_view_dict: "host_dict D d \<Longrightarrow> host_view D = Inr (map_of d ''http_host'')"
  by (auto simp: host_dict_def host_view_def)

lemma host_view_Inr: "host_view D = Inr x \<Longrightarrow> \<exists>d. host_dict D d \<and> map_of d ''http_host'' = x"
  by (auto simp: host_dict_def host_view_def split: option.splits json.splits)

lemma host_view_update:
  "host_view (AList.update k w D) =
    (if k = ''server'' then (case w of JObj d \<Rightarrow> Inr (map_of d ''http_host'') | _ \<Rightarrow> Inl w) else host_view D)"
  by (cases w) (simp_all add: host_view_def dict_simps)

lemma put_parts_host:
  assumes "put_parts D parts v = Inr D'" "parts \<noteq> []"
  obtains (other) "\<not> on_host parts" "host_view D' = host_view D"
  | (whole) "parts = [''server'']" "host_view D' = Inl (JStr v)"
  | (host) x where "parts = [''server'', ''http_host'']" "host_view D = Inr x" "host_view D' = Inr (Some (JStr v))"
  | (below) x ps d e where "parts = ''server'' # ''http_host'' # ps" "ps \<noteq> []" "host_view D = Inr x"
      "x = None \<and> d = [] \<or> x = Some (JObj d)" "put_parts d ps v = Inr e" "host_view D' = Inr (Some (JObj e))"
proof -
  obtain p rest where parts: "parts = p # rest" using assms(2) by (cases parts) auto
  show ?thesis
  proof (cases rest)
    case Nil
    then have D': "D' = AList.update p (JStr v) D" using assms(1) parts by simp
    show ?thesis
    proof (cases "p = ''server''")
      case True
      then show ?thesis using whole parts Nil D' by (simp add: host_view_update)
    next
      case False
      then show ?thesis using other parts Nil D' by (simp add: on_host_def host_view_update)
    qed
  next
    case (Cons q ps)
    from assms(1)[unfolded parts Cons] obtain d d' where d: "map_of D p = None \<and> d = [] \<or> map_of D p = Some (JObj d)"
      "put_parts d (q # ps) v = Inr d'" "D' = AList.update p (JObj d') D" by (rule put_parts_deep)
    consider "p \<noteq> ''server''" | "p = ''server''" "q \<noteq> ''http_host''" | "p = ''server''" "q = ''http_host''" "ps = []"
      | "p = ''server''" "q = ''http_host''" "ps \<noteq> []" by blast
    then show ?thesis
    proof cases
      case 1
      then show ?thesis using other parts Cons d(3) by (simp add: on_host_def host_view_update)
    next
      case 2
      have "map_of d' ''http_host'' = map_of d ''http_host''"
      proof (cases ps)
        case Nil
        then show ?thesis using d(2) 2 by (auto simp: dict_simps)
      next
        case (Cons r rs)
        obtain f e where "d' = AList.update q (JObj f) e" "map_of e ''http_host'' = map_of d ''http_host''"
          using d(2)[unfolded Cons] by (rule put_parts_deep) blast
        then show ?thesis using 2 by (simp add: dict_simps)
      qed
      then show ?thesis using other parts Cons d 2 host_view_dict[of D d]
        by (auto simp: on_host_def host_view_update host_dict_def)
    next
      case 3
      then show ?thesis using host parts Cons d host_view_dict[of D d] by (auto simp: host_view_update host_dict_def dict_simps)
    next
      case 4
      then obtain r rs where ps: "ps = r # rs" by (cases ps) auto
      from d(2)[unfolded ps 4(2)] obtain f e where f: "map_of d ''http_host'' = None \<and> f = [] \<or> map_of d ''http_host'' = Some (JObj f)"
        "put_parts f (r # rs) v = Inr e" "d' = AList.update ''http_host'' (JObj e) d" by (rule put_parts_deep)
      show ?thesis using below[of ps "map_of d ''http_host''" f e] parts Cons d 4 f ps host_view_dict[of D d]
        by (auto simp: host_view_update host_dict_def dict_simps)
    qed
  qed
qed

text \<open>What a variable does to the view depends on the view alone.\<close>

lemma put_parts_host_same:
  assumes "put_parts D parts v = Inr D'" "on_host parts" "host_view D = host_view E"
  shows "\<exists>E'. put_parts E parts v = Inr E' \<and> host_view E' = host_view D'"
proof -
  have "parts \<noteq> []" using assms(2) by (auto simp: on_host_def)
  from assms(1) this show ?thesis
  proof (cases rule: put_parts_host)
    case other
    then show ?thesis using assms(2) by simp
  next
    case whole
    then show ?thesis by (simp add: host_view_update)
  next
    case (host x)
    then obtain e where e: "host_dict E e" using assms(3) host_view_Inr[of E x] by auto
    then have "put_parts E parts v = Inr (AList.update ''server'' (JObj (AList.update ''http_host'' (JStr v) e)) E)"
      unfolding host(1) by (intro put_parts_deepI) (auto simp: host_dict_def)
    then show ?thesis using host by (auto simp: host_view_update dict_simps)
  next
    case (below x ps d f)
    then obtain e where e: "host_dict E e" "map_of e ''http_host'' = x" using assms(3) host_view_Inr[of E x] by auto
    obtain r rs where ps: "ps = r # rs" using below(2) by (cases ps) auto
    have inner: "put_parts e (''http_host'' # ps) v = Inr (AList.update ''http_host'' (JObj f) e)"
      unfolding ps by (rule put_parts_deepI[of _ _ d]) (use below e ps in auto)
    have "put_parts E parts v = Inr (AList.update ''server'' (JObj (AList.update ''http_host'' (JObj f) e)) E)"
      unfolding below(1) by (rule put_parts_deepI[OF _ inner]) (use e in \<open>auto simp: host_dict_def\<close>)
    then show ?thesis using below by (auto simp: host_view_update dict_simps)
  qed
qed

definition host_variable :: "string \<times> string \<Rightarrow> bool" where
  "host_variable kv \<longleftrightarrow> (case env_parts (fst kv) of None \<Rightarrow> False | Some ps \<Rightarrow> on_host ps)"

lemma env_parts_not_Nil: "env_parts k = Some ps \<Longrightarrow> ps \<noteq> []"
proof -
  have "split_dunder w s \<noteq> []" for w s by (induction w s rule: split_dunder.induct) auto
  then show "env_parts k = Some ps \<Longrightarrow> ps \<noteq> []" by (auto simp: env_parts_def split: if_splits)
qed

text \<open>Only the variables that name the host or its section matter to the view.\<close>

lemma collect_host:
  assumes "collect_from environ D = Inr R" "host_view D = host_view D2"
  shows "\<exists>R2. collect_from (filter host_variable environ) D2 = Inr R2 \<and> host_view R2 = host_view R"
  using assms
proof (induction environ arbitrary: D D2)
  case (Cons kv environ)
  obtain k v where kv: "kv = (k, v)" by fastforce
  show ?case
  proof (cases "env_parts k")
    case None
    then show ?thesis using Cons.IH[of D D2] Cons.prems by (simp add: kv host_variable_def)
  next
    case (Some ps)
    then obtain D' where D': "put_parts D ps v = Inr D'" "collect_from environ D' = Inr R"
      using Cons.prems(1) kv by (cases "put_parts D ps v") auto
    show ?thesis
    proof (cases "on_host ps")
      case True
      obtain E' where "put_parts D2 ps v = Inr E'" "host_view E' = host_view D'"
        using put_parts_host_same[OF D'(1) True Cons.prems(2)] by blast
      then show ?thesis using Cons.IH[OF D'(2), of E'] True Some by (simp add: kv host_variable_def)
    next
      case False
      have "host_view D' = host_view D"
        using D'(1) env_parts_not_Nil[OF Some] by (rule put_parts_host) (use False in \<open>auto simp: on_host_def\<close>)
      then show ?thesis using Cons.IH[OF D'(2), of D2] Cons.prems(2) False Some by (simp add: kv host_variable_def)
    qed
  qed
qed simp

lemma collect_same_host:
  assumes "collect_nested_env_vars E = Inr R" "collect_nested_env_vars E' = Inr R'"
    and "filter host_variable E = filter host_variable E'"
  shows "host_view R = host_view R'"
  using collect_host[OF assms(1)[unfolded collect_nested_env_vars_def], of "[]"]
    collect_host[OF assms(2)[unfolded collect_nested_env_vars_def], of "[]"] assms(3) by auto

text \<open>The host that is exported is the host that is read, when no variable of another spelling names it.\<close>

lemma collect_exported_host:
  assumes "collect_from environ D = Inr R"
    and "\<And>k v. (k, v) \<in> set environ \<Longrightarrow> env_parts k = Some [''server'', ''http_host''] \<Longrightarrow> v = h"
    and "(\<exists>k v. (k, v) \<in> set environ \<and> env_parts k = Some [''server'', ''http_host'']) \<or>
      host_view D = Inr (Some (JStr h)) \<or> (\<exists>w. host_view D = Inl w)"
  shows "host_view R = Inr (Some (JStr h)) \<or> (\<exists>w. host_view R = Inl w)"
  using assms
proof (induction environ arbitrary: D)
  case (Cons kv environ)
  obtain k v where kv: "kv = (k, v)" by fastforce
  show ?case
  proof (cases "env_parts k")
    case None
    then show ?thesis using Cons.IH[of D] Cons.prems kv by auto
  next
    case (Some ps)
    then obtain D' where D': "put_parts D ps v = Inr D'" "collect_from environ D' = Inr R"
      using Cons.prems(1) kv by (cases "put_parts D ps v") auto
    have vals: "w = h" if "(j, w) \<in> set environ" "env_parts j = Some [''server'', ''http_host'']" for j w
      using Cons.prems(2) that by auto
    have own: "v = h" if "ps = [''server'', ''http_host'']" using Cons.prems(2)[of k v] Some that kv by simp
    have "(\<exists>j w. (j, w) \<in> set environ \<and> env_parts j = Some [''server'', ''http_host'']) \<or>
        host_view D' = Inr (Some (JStr h)) \<or> (\<exists>w. host_view D' = Inl w)"
      using D'(1) env_parts_not_Nil[OF Some]
      by (rule put_parts_host) (use own Cons.prems(3) Some kv in \<open>auto simp: on_host_def\<close>)
    with Cons.IH[OF D'(2)] vals show ?thesis by blast
  qed
qed simp

section \<open>Loading\<close>

lemma load_settings_steps:
  assumes "load_settings C path = Inr s"
  obtains yaml env ss s0 where "load_yaml_config C path = Inr (JObj yaml)" "collect_nested_env_vars (ce_environ C) = Inr env"
    "merged_sections yaml env = Inr ss" "settings_of_sections (ce_reader C) ss = Inr s0" "bare_port (ce_environ C) s0 = Inr s"
proof -
  obtain v env config ss s0 where v: "load_yaml_config C path = Inr v" "collect_nested_env_vars (ce_environ C) = Inr env"
    "(case v of JObj d \<Rightarrow> Inr d | _ \<Rightarrow> Inl (AttributeError ''get'')) = Inr config" "merged_sections config env = Inr ss"
    "settings_of_sections (ce_reader C) ss = Inr s0" "bare_port (ce_environ C) s0 = Inr s"
    using assms unfolding load_settings_def bind_py_Inr by blast
  then have "v = JObj config" by (cases v) auto
  then show thesis using v that by blast
qed

lemma bare_port_keeps:
  assumes "bare_port environ s0 = Inr s"
  shows "sv_http_host (cg_server s) = sv_http_host (cg_server s0)" "cg_auth s = cg_auth s0" "cg_stdio s = cg_stdio s0"
    "cg_healthcheck s = cg_healthcheck s0" "cg_discovery s = cg_discovery s0" "cg_openapi s = cg_openapi s0"
    "cg_otel s = cg_otel s0" "sv_public_base_url (cg_server s) = sv_public_base_url (cg_server s0)"
  using assms by (auto simp: bare_port_def split: option.splits if_splits)

lemma settings_from_sections:
  assumes "settings_of_sections R ss = Inr s"
  shows "read_server_config R (section_of ss ''server'') = Inr (cg_server s)"
    "read_auth_config R (section_of ss ''auth'') = Inr (cg_auth s)"
    "read_health_config R (section_of ss ''healthcheck'') = Inr (cg_healthcheck s)"
    "read_discovery_config R (section_of ss ''discovery'') = Inr (cg_discovery s)"
    "read_otel_config R (section_of ss ''otel'') = Inr (cg_otel s)"
    "cg_openapi s = read_openapi_config (section_of ss ''openapi'')"
    "sd_enabled (cg_stdio s) \<longrightarrow>
       auth_kind (cg_auth s) = ''jwt'' \<or> loopback_host (sv_http_host (cg_server s)) \<or> sd_trusted_network (cg_stdio s)"
  using assms by (auto simp: settings_of_sections_def bind_py_Inr validate_stdio_gate_def split: if_splits)

lemma settings_gate:
  assumes "load_settings C path = Inr s" "sd_enabled (cg_stdio s)"
  shows "auth_kind (cg_auth s) = ''jwt'' \<or> loopback_host (sv_http_host (cg_server s)) \<or> sd_trusted_network (cg_stdio s)"
  using assms(1)
proof (rule load_settings_steps)
  fix yaml env ss s0
  assume "settings_of_sections (ce_reader C) ss = Inr s0" "bare_port (ce_environ C) s0 = Inr s"
  then show ?thesis using settings_from_sections(7)[of _ _ s0] bare_port_keeps[of _ s0 s] assms(2) by auto
qed

lemma merged_server_section:
  "merged_sections yaml env = Inr ss \<Longrightarrow>
    section_dict yaml env ''server'' (dump_server_config default_server_config) = Inr (section_of ss ''server'')"
  by (auto simp: merged_sections_def from_defaults_def Let_def bind_py_Inr section_of_def)

lemma read_server_host:
  "read_server_config R d = Inr c \<Longrightarrow> field_or (fr_text R) d ''http_host'' ''127.0.0.1'' = Inr (sv_http_host c)"
  by (auto simp: read_server_config_def bind_py_Inr)

lemma section_host:
  assumes "section_dict yaml env ''server'' defaults = Inr d" "keys_distinct (JObj env)"
  obtains x m where "host_view env = Inr x" "merge_with defaults (map_of yaml ''server'') = Inr m"
    "map_of d ''http_host'' =
      (case x of None \<Rightarrow> map_of m ''http_host'' | Some v \<Rightarrow> Some (merge_value (map_of m ''http_host'') v))"
proof -
  obtain m where m: "merge_with defaults (map_of yaml ''server'') = Inr m" "merge_with m (map_of env ''server'') = Inr d"
    using assms(1) by (auto simp: section_dict_def bind_py_Inr)
  show ?thesis
  proof (cases "map_of env ''server''")
    case None
    then show ?thesis using m that[of None m] by (simp add: merge_with_def host_view_def)
  next
    case (Some w)
    then obtain e where e: "w = JObj e" "d = deep_merge m e" using m(2) by (cases w) (auto simp: merge_with_def)
    then have "distinct (map fst e)" using assms(2) Some keys_distinct_map_of by fastforce
    then show ?thesis using m that[of "map_of e ''http_host''" m] Some e by (simp add: host_view_def map_of_deep_merge)
  qed
qed

text \<open>The host of the settings, from the file and the view of the environment.\<close>

lemma load_settings_host:
  assumes "load_settings C path = Inr s"
  obtains yaml env x m where "load_yaml_config C path = Inr (JObj yaml)" "collect_nested_env_vars (ce_environ C) = Inr env"
    "host_view env = Inr x" "merge_with (dump_server_config default_server_config) (map_of yaml ''server'') = Inr m"
    "(case (case x of None \<Rightarrow> map_of m ''http_host'' | Some v \<Rightarrow> Some (merge_value (map_of m ''http_host'') v)) of
        None \<Rightarrow> Some ''127.0.0.1'' | Some v \<Rightarrow> fr_text (ce_reader C) v) = Some (sv_http_host (cg_server s))"
  using assms
proof (rule load_settings_steps)
  fix yaml env ss s0
  assume yaml: "load_yaml_config C path = Inr (JObj yaml)" and env: "collect_nested_env_vars (ce_environ C) = Inr env"
    and ss: "merged_sections yaml env = Inr ss" and s0: "settings_of_sections (ce_reader C) ss = Inr s0"
    and s: "bare_port (ce_environ C) s0 = Inr s"
  have "keys_distinct (JObj env)" using collect_distinct[OF env[unfolded collect_nested_env_vars_def]] by simp
  with merged_server_section[OF ss] obtain x m where x: "host_view env = Inr x"
    "merge_with (dump_server_config default_server_config) (map_of yaml ''server'') = Inr m"
    "map_of (section_of ss ''server'') ''http_host'' =
      (case x of None \<Rightarrow> map_of m ''http_host'' | Some v \<Rightarrow> Some (merge_value (map_of m ''http_host'') v))"
    by (rule section_host)
  have "field_or (fr_text (ce_reader C)) (section_of ss ''server'') ''http_host'' ''127.0.0.1'' = Inr (sv_http_host (cg_server s))"
    using read_server_host[OF settings_from_sections(1)[OF s0]] bare_port_keeps(1)[OF s] by simp
  then have "(case map_of (section_of ss ''server'') ''http_host'' of None \<Rightarrow> Some ''127.0.0.1'' | Some v \<Rightarrow> fr_text (ce_reader C) v)
      = Some (sv_http_host (cg_server s))"
    by (auto simp: field_or_def invalid_config_def split: option.splits)
  then show ?thesis using that[OF yaml env x(1,2)] x(3) by simp
qed

section \<open>Starting\<close>

lemma env_names:
  "env_parts HOST_ENV = Some [''server'', ''http_host'']" "env_parts PORT_ENV = Some [''server'', ''http_port'']"
  "env_parts DEV_MODE_ENV = Some [''security'', ''allow_private_networks'']"
  by code_simp+

lemma filter_update_key:
  assumes "\<And>v. \<not> P (k, v)"
  shows "filter P (AList.update k w d) = filter P d"
  using assms by (induction d) auto

lemma exported_host_kept:
  "filter host_variable (if dev then apply_dev_mode (export_cli_overrides None port E) else export_cli_overrides None port E)
    = filter host_variable E"
proof -
  have "\<not> host_variable (PORT_ENV, v)" "\<not> host_variable (DEV_MODE_ENV, v)" for v
    by (simp_all add: host_variable_def env_names on_host_def)
  then show ?thesis
    by (auto simp: export_cli_overrides_def apply_dev_mode_def filter_update_key split: option.splits)
qed

definition cli_environ :: "cli \<Rightarrow> (string, string) dict \<Rightarrow> (string, string) dict" where
  "cli_environ args E =
     (let exported = export_cli_overrides (cl_host args) (cl_port args) E
      in if cl_dev args then apply_dev_mode exported else exported)"

lemma exported_host_value:
  assumes "cl_host args = Some h" "distinct (map fst E)"
  shows "map_of (cli_environ args E) HOST_ENV = Some h" "distinct (map fst (cli_environ args E))"
    and "fst ` set (cli_environ args E) \<subseteq> insert HOST_ENV (insert PORT_ENV (insert DEV_MODE_ENV (fst ` set E)))"
proof -
  have ne: "HOST_ENV \<noteq> PORT_ENV" "HOST_ENV \<noteq> DEV_MODE_ENV" by (simp_all add: HOST_ENV_def PORT_ENV_def DEV_MODE_ENV_def)
  show "map_of (cli_environ args E) HOST_ENV = Some h"
    using assms(1) ne by (cases "cl_port args") (simp_all add: cli_environ_def export_cli_overrides_def apply_dev_mode_def Let_def map_of_update)
  show "distinct (map fst (cli_environ args E))"
    using assms by (cases "cl_port args")
      (simp_all add: cli_environ_def export_cli_overrides_def apply_dev_mode_def Let_def distinct_update)
  show "fst ` set (cli_environ args E) \<subseteq> insert HOST_ENV (insert PORT_ENV (insert DEV_MODE_ENV (fst ` set E)))"
    using assms(1) by (cases "cl_port args")
      (auto simp: cli_environ_def export_cli_overrides_def apply_dev_mode_def Let_def keys_update split: if_splits)
qed

lemma main_steps:
  assumes "main C args = Inr (host, port, app, auth)"
  obtains s where "load_settings C (cl_config args) = Inr s"
    "host = (case cl_host args of None \<Rightarrow> sv_http_host (cg_server s) | Some h \<Rightarrow> h)"
    "load_settings (C\<lparr>ce_environ := cli_environ args (ce_environ C)\<rparr>) None = Inr app"
  using assms
  by (auto simp: main_def resolve_settings_def cli_environ_def create_app_def bind_py_Inr Let_def map_sum_def
      split: sum.splits if_splits option.splits)

lemma main_binds_known_host:
  assumes main: "main C args = Inr (host, port, app, auth)" and "cl_config args = None"
    and reads: "\<And>t. fr_text (ce_reader C) (JStr t) = Some t"
    and "distinct (map fst (ce_environ C))"
    and names: "\<And>k. k \<in> fst ` set (ce_environ C) \<Longrightarrow> env_parts k = Some [''server'', ''http_host''] \<Longrightarrow> k = HOST_ENV"
  shows "sv_http_host (cg_server app) = host"
  using main
proof (rule main_steps)
  fix s
  assume s: "load_settings C (cl_config args) = Inr s"
    and host: "host = (case cl_host args of None \<Rightarrow> sv_http_host (cg_server s) | Some h \<Rightarrow> h)"
    and app: "load_settings (C\<lparr>ce_environ := cli_environ args (ce_environ C)\<rparr>) None = Inr app"
  let ?C = "C\<lparr>ce_environ := cli_environ args (ce_environ C)\<rparr>"
  have same: "load_yaml_config ?C None = load_yaml_config C None" "ce_reader ?C = ce_reader C"
    "ce_environ ?C = cli_environ args (ce_environ C)" by (simp_all add: load_yaml_config_def)
  obtain yaml env x m where A: "load_yaml_config C None = Inr (JObj yaml)"
    "collect_nested_env_vars (cli_environ args (ce_environ C)) = Inr env" "host_view env = Inr x"
    "merge_with (dump_server_config default_server_config) (map_of yaml ''server'') = Inr m"
    "(case (case x of None \<Rightarrow> map_of m ''http_host'' | Some v \<Rightarrow> Some (merge_value (map_of m ''http_host'') v)) of
        None \<Rightarrow> Some ''127.0.0.1'' | Some v \<Rightarrow> fr_text (ce_reader C) v) = Some (sv_http_host (cg_server app))"
    by (rule load_settings_host[OF app, unfolded same])
  show ?thesis
  proof (cases "cl_host args")
    case None
    from s[unfolded assms(2)] obtain yaml' env' x' m' where B: "load_yaml_config C None = Inr (JObj yaml')"
      "collect_nested_env_vars (ce_environ C) = Inr env'" "host_view env' = Inr x'"
      "merge_with (dump_server_config default_server_config) (map_of yaml' ''server'') = Inr m'"
      "(case (case x' of None \<Rightarrow> map_of m' ''http_host'' | Some v \<Rightarrow> Some (merge_value (map_of m' ''http_host'') v)) of
          None \<Rightarrow> Some ''127.0.0.1'' | Some v \<Rightarrow> fr_text (ce_reader C) v) = Some (sv_http_host (cg_server s))"
      by (rule load_settings_host)
    have "filter host_variable (cli_environ args (ce_environ C)) = filter host_variable (ce_environ C)"
      unfolding cli_environ_def Let_def None by (rule exported_host_kept)
    then have same_view: "x = x'" using collect_same_host[OF A(2) B(2)] A(3) B(3) by simp
    have same_file: "m = m'" using A(1,4) B(1,4) by simp
    have "Some (sv_http_host (cg_server app)) = Some (sv_http_host (cg_server s))"
      unfolding A(5)[symmetric] B(5)[symmetric] same_view same_file by (rule refl)
    then show ?thesis using host None by simp
  next
    case (Some h)
    note exported = exported_host_value[OF Some assms(4)]
    have "v = h" if kv: "(k, v) \<in> set (cli_environ args (ce_environ C))" "env_parts k = Some [''server'', ''http_host'']" for k v
    proof -
      have "k \<in> fst ` set (cli_environ args (ce_environ C))" using kv(1) by force
      then have "k \<in> insert HOST_ENV (insert PORT_ENV (insert DEV_MODE_ENV (fst ` set (ce_environ C))))"
        using exported(3) by (rule rev_subsetD)
      then have "k = HOST_ENV" using kv(2) names[of k] env_names by auto
      then show ?thesis using kv(1) exported(1,2) by simp
    qed
    then have "host_view env = Inr (Some (JStr h)) \<or> (\<exists>w. host_view env = Inl w)"
      using A(2) env_names(1) map_of_SomeD[OF exported(1)] unfolding collect_nested_env_vars_def
      by (intro collect_exported_host) blast+
    then show ?thesis using A(3,5) host Some reads by (auto simp: merge_value_def)
  qed
qed

section \<open>What the validators promise\<close>

lemma positive_or_pos: "0 < default_value \<Longrightarrow> 0 < positive_or d name default_value"
  by (auto simp: positive_or_def coerce_positive_int_def split: option.splits)

lemma sub_model_Inr: "sub_model read v = Inr x \<Longrightarrow> \<exists>d. read d = Inr x"
  by (auto simp: sub_model_def invalid_config_def split: option.splits json.splits)

lemma read_auth_kind: "read_auth_config R d = Inr c \<Longrightarrow> auth_kind c \<in> set AUTH_TYPES"
proof -
  assume "read_auth_config R d = Inr c"
  then obtain t kind b where t: "field_or (fr_text R) d ''type'' ''none'' = Inr t"
    "(if has_key d ''type'' then validate_type t else Inr t) = Inr kind"
    and parts: "sub_model (read_basic_auth R (default_auth_config\<lparr>auth_kind := kind\<rparr>)) (map_of d ''basic_auth'') = Inr b"
      "sub_model (read_jwt_auth R b) (map_of d ''jwt'') = Inr c"
    unfolding read_auth_config_def bind_py_Inr by blast
  obtain d1 d2 where b: "read_basic_auth R (default_auth_config\<lparr>auth_kind := kind\<rparr>) d1 = Inr b" and c: "read_jwt_auth R b d2 = Inr c"
    using parts[THEN sub_model_Inr] by blast
  have "auth_kind b = kind" using b unfolding read_basic_auth_def bind_py_Inr by auto
  moreover have "auth_kind c = auth_kind b" using c unfolding read_jwt_auth_def bind_py_Inr by auto
  moreover have "kind \<in> set AUTH_TYPES"
    using t by (auto simp: validate_type_def field_or_def has_key_def AUTH_TYPES_def split: if_splits option.splits)
  ultimately show ?thesis by simp
qed

lemma settings_limits:
  assumes "load_settings C path = Inr s"
  shows "0 < hc_interval_seconds (cg_healthcheck s)" "0 < hc_timeout_seconds (cg_healthcheck s)"
    "0 < hc_failure_threshold (cg_healthcheck s)" "0 < dc_interval_seconds (cg_discovery s)"
    "0 < oc_max_spec_bytes (cg_openapi s)" "0 < oc_fetch_timeout_seconds (cg_openapi s)"
    "0 < oc_validate_timeout_seconds (cg_openapi s)" "0 < oc_validate_memory_mb (cg_openapi s)"
    "0 < oc_max_description_chars (cg_openapi s)" "0 < oc_call_timeout_seconds (cg_openapi s)"
    "0 < oc_max_response_bytes (cg_openapi s)" "0 \<le> oc_max_redirects (cg_openapi s)"
    "ot_enabled (cg_otel s) \<longrightarrow> ot_endpoint (cg_otel s) \<noteq> []" "auth_kind (cg_auth s) \<in> set AUTH_TYPES"
proof -
  obtain ss s0 where r: "settings_of_sections (ce_reader C) ss = Inr s0" "bare_port (ce_environ C) s0 = Inr s"
    using assms by (rule load_settings_steps)
  note sections = settings_from_sections[OF r(1)]
  note kept = bare_port_keeps[OF r(2)]
  show "0 < hc_interval_seconds (cg_healthcheck s)" "0 < hc_timeout_seconds (cg_healthcheck s)"
    "0 < hc_failure_threshold (cg_healthcheck s)"
    using sections(3) unfolding kept
    by (auto simp: read_health_config_def bind_py_Inr positive_or_pos dest!: sym[of _ "cg_healthcheck s0"])
  show "0 < dc_interval_seconds (cg_discovery s)"
    using sections(4) unfolding kept
    by (auto simp: read_discovery_config_def bind_py_Inr positive_or_pos MCP_DISCOVERY_INTERVAL_SECONDS_def
        dest!: sym[of _ "cg_discovery s0"])
  show "0 < oc_max_spec_bytes (cg_openapi s)" "0 < oc_fetch_timeout_seconds (cg_openapi s)"
    "0 < oc_validate_timeout_seconds (cg_openapi s)" "0 < oc_validate_memory_mb (cg_openapi s)"
    "0 < oc_max_description_chars (cg_openapi s)" "0 < oc_call_timeout_seconds (cg_openapi s)"
    "0 < oc_max_response_bytes (cg_openapi s)" "0 \<le> oc_max_redirects (cg_openapi s)"
    unfolding kept sections(6)
    by (simp_all add: read_openapi_config_def Let_def default_openapi_config_def positive_or_pos validate_max_redirects_def
        split: option.splits)
  obtain c where "validate_endpoint_present c = Inr (cg_otel s0)"
    using sections(5) unfolding read_otel_config_def bind_py_Inr by blast
  then show "ot_enabled (cg_otel s) \<longrightarrow> ot_endpoint (cg_otel s) \<noteq> []"
    unfolding kept by (auto simp: validate_endpoint_present_def split: if_splits)
  show "auth_kind (cg_auth s) \<in> set AUTH_TYPES"
    unfolding kept by (rule read_auth_kind[OF sections(2)])
qed

section \<open>The gate in front of stdio registrations\<close>

lemma prepared_by_admin: "prepare_route V route request store = Inr server \<Longrightarrow> require_admin (v1_auth V) request = None"
  by (cases route) (auto simp: prepare_route_def requested_data_def register_body_def import_body_def split: option.splits)

lemma stdio_server_allowed:
  assumes "prepare_route V route request store = Inr server" "is_stdio server"
  shows "\<exists>allowed. v1_stdio V = Some (True, allowed) \<and> srv_stdio_command_name server \<in> set allowed"
proof -
  obtain raw where raw: "prepare_registration V (reg_get (dv_ops (v1_discovery V)) store) raw = Inr server"
    using assms(1) by (auto simp: prepare_route_def split: sum.splits)
  obtain r where "registration_checked V (reg_get (dv_ops (v1_discovery V)) store) r server"
    using prepare_registration_checked(1)[OF raw] by blast
  then show ?thesis using assms(2) by (auto simp: registration_checked_def is_stdio_def split: if_splits)
qed

text \<open>The environment of the registration routes of an application started with these settings.\<close>

definition serves_settings :: "hub_settings \<Rightarrow> 's v1_env \<Rightarrow> bool" where
  "serves_settings s V \<longleftrightarrow>
     v1_auth V = Some (cg_auth s) \<and> v1_allow_private V = cg_allow_private_networks s \<and>
     v1_stdio V = Some (sd_enabled (cg_stdio s), map fst (sd_allowed_commands (cg_stdio s)))"

lemma app_settings_gate:
  assumes "main C args = Inr (host, port, app, auth)" "serves_settings app V"
    and "prepare_route V route request store = Inr server" "is_stdio server"
  shows "srv_stdio_command_name server \<in> fst ` set (sd_allowed_commands (cg_stdio app)) \<and>
    (loopback_host (sv_http_host (cg_server app)) \<or> sd_trusted_network (cg_stdio app) \<or>
     auth_kind (cg_auth app) = ''jwt'' \<and> is_admin (request_principal request) (cg_auth app))"
proof -
  obtain E where load: "load_settings E None = Inr app" using assms(1) by (rule main_steps)
  have "is_admin (request_principal request) (cg_auth app)"
    using prepared_by_admin[OF assms(3)] assms(2)
    by (auto simp: serves_settings_def require_admin_def request_auth_config_def Let_def split: if_splits)
  moreover have "sd_enabled (cg_stdio app)" "srv_stdio_command_name server \<in> fst ` set (sd_allowed_commands (cg_stdio app))"
    using stdio_server_allowed[OF assms(3,4)] assms(2) by (auto simp: serves_settings_def)
  ultimately show ?thesis using settings_gate[OF load] by blast
qed
end
