(* ===== verification/Virtual_Server.thy ===== *)
theory Virtual_Server
  imports Json_Text Server_Tools Stateless
begin

text \<open>
  \<^verbatim>\<open>openapi/virtual_server.py\<close> and \<^verbatim>\<open>openapi/local_call.py\<close>: the MCP server the hub itself is for an
  OpenAPI backend. The state of a request holds both module caches, the token caches and what the
  request sends. A result is \<open>None\<close> when a call does not return, \<open>Inl\<close> an exception and \<open>Inr\<close> the reply.

  \<open>json.loads\<close> is the argument \<open>ve_parse\<close> up to the calls of its hooks: it yields the values in the order of the
  text, with numbers that are not integers as text, ending at a \<open>Raw_error\<close> where the parser gives up.
  The hooks, which are the source's, run over it.
\<close>

section \<open>Constants\<close>

definition RESOURCE_NOT_FOUND :: int where "RESOURCE_NOT_FOUND = INVALID_PARAMS"
definition LEGACY_RESOURCE_NOT_FOUND :: int where "LEGACY_RESOURCE_NOT_FOUND = -32002"
definition UNSUPPORTED_PROTOCOL_VERSION :: int where "UNSUPPORTED_PROTOCOL_VERSION = -32022"

definition HANDSHAKE_VERSIONS :: "string list" where
  "HANDSHAKE_VERSIONS = [PROTOCOL_VERSION, BACKWARD_COMPAT_PROTOCOL_VERSION]"

definition LIST_TTL_MS :: int where "LIST_TTL_MS = 60000"

definition CAPABILITIES :: json where
  "CAPABILITIES = JObj [(''tools'', JObj [(''listChanged'', JBool False)]), (''resources'', JObj [])]"

definition MAX_VERSION_CHARS :: int where "MAX_VERSION_CHARS = 64"
definition SPEC_CACHE_SIZE :: nat where "SPEC_CACHE_SIZE = 16"

section \<open>Parsing\<close>

definition no_duplicates :: "(string \<times> json) list \<Rightarrow> string + json" where
  "no_duplicates pairs =
     (case repeated_key [] pairs of
        Some k \<Rightarrow> Inl (''duplicate key '' @ repr_str k)
      | None \<Rightarrow> Inr (JObj pairs))"

definition not_json :: "string \<Rightarrow> string + json" where
  "not_json token = Inl (token @ '' is not a JSON number'')"

text \<open>\<open>float(text)\<close> is \<open>None\<close> when it is infinite.\<close>

definition finite_number :: "(string \<Rightarrow> rat option) \<Rightarrow> string \<Rightarrow> string + json" where
  "finite_number float t =
     (case float t of Some r \<Rightarrow> Inr (JFloat r) | None \<Rightarrow> Inl (t @ '' is not a finite number''))"

fun hooked :: "(string \<Rightarrow> rat option) \<Rightarrow> string raw_json \<Rightarrow> string + json"
  and hooked_list :: "(string \<Rightarrow> rat option) \<Rightarrow> string raw_json list \<Rightarrow> string + json list"
  and hooked_pairs :: "(string \<Rightarrow> rat option) \<Rightarrow> (string \<times> string raw_json) list \<Rightarrow> string + (string \<times> json) list"
where
  "hooked float Raw_null = Inr JNull"
| "hooked float (Raw_bool b) = Inr (JBool b)"
| "hooked float (Raw_int i) = Inr (JInt i)"
| "hooked float (Raw_float t) = finite_number float t"
| "hooked float (Raw_constant t) = not_json t"
| "hooked float (Raw_str s) = Inr (JStr s)"
| "hooked float (Raw_list xs) =
     (case hooked_list float xs of Inl e \<Rightarrow> Inl e | Inr ys \<Rightarrow> Inr (JList ys))"
| "hooked float (Raw_obj ps) =
     (case hooked_pairs float ps of Inl e \<Rightarrow> Inl e | Inr qs \<Rightarrow> no_duplicates qs)"
| "hooked float (Raw_error e) = Inl e"
| "hooked_list float [] = Inr []"
| "hooked_list float (x # xs) =
     (case hooked float x of
        Inl e \<Rightarrow> Inl e
      | Inr y \<Rightarrow> (case hooked_list float xs of Inl e \<Rightarrow> Inl e | Inr ys \<Rightarrow> Inr (y # ys)))"
| "hooked_pairs float [] = Inr []"
| "hooked_pairs float ((k, x) # ps) =
     (case hooked float x of
        Inl e \<Rightarrow> Inl e
      | Inr y \<Rightarrow> (case hooked_pairs float ps of Inl e \<Rightarrow> Inl e | Inr qs \<Rightarrow> Inr ((k, y) # qs)))"

section \<open>Requests and replies\<close>

record virtual_reply = openapi_reply +
  vr_method :: string
  vr_route :: string
  vr_tool_name :: string

record 'u virtual_env =
  ve_exec :: "'u exec_env"
  ve_map :: map_env
  ve_parse :: "string \<Rightarrow> string raw_json"
  ve_float :: "string \<Rightarrow> rat option"
  ve_encode :: "json \<Rightarrow> string option"     \<comment> \<open>\<open>json.dumps(\<dots>, allow_nan=False).encode()\<close>, \<open>None\<close> when it raises\<close>
  ve_dumps :: "json \<Rightarrow> string"             \<comment> \<open>\<open>json.dumps(\<dots>, ensure_ascii=False)\<close>\<close>

record call_context =
  cx_server :: registered_server
  cx_caller :: caller_identity
  cx_description_limit :: int
  cx_limits :: call_limits

type_synonym spec_key = "string \<times> (string \<times> string) list"

record 'u virtual_state =
  vs_tools :: tools_cache
  vs_specs :: "(spec_key, string) dict"
  vs_tokens :: token_cache
  vs_obo :: obo_token_cache
  vs_sent :: sent_forms
  vs_calls :: "'u http_call list"
  vs_exchanges :: "upstream_exchange list"

type_synonym 'u handled = "('u virtual_state \<times> virtual_reply py) option"

definition parse_message :: "'u virtual_env \<Rightarrow> string \<Rightarrow> string + json" where
  "parse_message V body = hooked (ve_float V) (ve_parse V (if body = [] then ''null'' else body))"

definition envelope :: "json \<Rightarrow> string \<Rightarrow> json \<Rightarrow> json" where
  "envelope request_id kind v = JObj [(''jsonrpc'', JStr ''2.0''), (''id'', request_id), (kind, v)]"

definition encoded :: "'u virtual_env \<Rightarrow> json \<Rightarrow> string py" where
  "encoded V v = (case ve_encode V v of Some b \<Rightarrow> Inr b | None \<Rightarrow> Inl (ValueError ''cannot be encoded''))"

definition error_object :: "int \<Rightarrow> string \<Rightarrow> json" where
  "error_object code message = JObj [(''code'', JInt code), (''message'', JStr message)]"

definition fail_reply ::
  "'u virtual_env \<Rightarrow> int \<Rightarrow> json \<Rightarrow> int \<Rightarrow> string \<Rightarrow> string \<Rightarrow> virtual_reply py" where
  "fail_reply V status request_id code message method =
     bind_py (encoded V (envelope request_id ''error'' (error_object code message))) (\<lambda>b.
       Inr \<lparr>oy_body = b, oy_status_code = status, oy_error = message, oy_needs_authentication = False,
            vr_method = method, vr_route = [], vr_tool_name = []\<rparr>)"

definition ok_routed ::
  "'u virtual_env \<Rightarrow> json \<Rightarrow> string \<Rightarrow> jdict \<Rightarrow> bool \<Rightarrow> string \<Rightarrow> string \<Rightarrow> string \<Rightarrow> virtual_reply py" where
  "ok_routed V request_id method result stateless route tname err =
     (let res = (if stateless then AList.update ''resultType'' (JStr RESULT_TYPE_COMPLETE) result else result)
      in bind_py (encoded V (envelope request_id ''result'' (JObj res))) (\<lambda>b.
           Inr \<lparr>oy_body = b, oy_status_code = 200, oy_error = err, oy_needs_authentication = False,
                vr_method = method, vr_route = route, vr_tool_name = tname\<rparr>))"

abbreviation ok_reply :: "'u virtual_env \<Rightarrow> json \<Rightarrow> string \<Rightarrow> jdict \<Rightarrow> bool \<Rightarrow> virtual_reply py" where
  "ok_reply V request_id method result stateless \<equiv> ok_routed V request_id method result stateless [] [] []"

definition spec_uri :: "registered_server \<Rightarrow> string" where
  "spec_uri server = ''openapi://'' @ quote [] (srv_id server) @ ''/spec''"

definition server_info :: "registered_server \<Rightarrow> json py" where
  "server_info server =
     (let info = (case srv_openapi_snapshot server of
                    Some s \<Rightarrow> jget_or (os_document s) ''info'' (JObj [])
                  | None \<Rightarrow> JObj [])
      in bind_py (py_get info ''version'' JNull) (\<lambda>v.
           let spec_version = (case v of JStr t \<Rightarrow> t | _ \<Rightarrow> []);
               version = (if srv_version server \<noteq> [] then srv_version server
                          else if spec_version \<noteq> [] then spec_version else ''0'');
               name = (if srv_name server \<noteq> [] then srv_name server else srv_id server)
           in Inr (JObj [(''name'', JStr name), (''version'', JStr (py_prefix MAX_VERSION_CHARS version))])))"

section \<open>Handlers\<close>

type_synonym 'u handler =
  "'u virtual_env \<Rightarrow> json \<Rightarrow> jdict \<Rightarrow> call_context \<Rightarrow> bool \<Rightarrow> 'u virtual_state \<Rightarrow> 'u handled"

definition h_initialize :: "'u handler" where
  "h_initialize V request_id params ctx stateless st =
     (let version = (case jget params ''protocolVersion'' of
                       JStr v \<Rightarrow> if v \<in> set HANDSHAKE_VERSIONS then v else PROTOCOL_VERSION
                     | _ \<Rightarrow> PROTOCOL_VERSION)
      in Some (st, bind_py (server_info (cx_server ctx)) (\<lambda>info.
           ok_reply V request_id ''initialize''
             [(''protocolVersion'', JStr version), (''capabilities'', CAPABILITIES), (''serverInfo'', info)] stateless)))"

definition h_discover :: "'u handler" where
  "h_discover V request_id params ctx stateless st =
     Some (st, bind_py (server_info (cx_server ctx)) (\<lambda>info.
       ok_reply V request_id ''server/discover''
         [(''protocolVersions'', JList (map JStr (STATELESS_PROTOCOL_VERSION # HANDSHAKE_VERSIONS))),
          (''capabilities'', CAPABILITIES), (''serverInfo'', info)] stateless))"

definition h_ping :: "'u handler" where
  "h_ping V request_id params ctx stateless st = Some (st, ok_reply V request_id ''ping'' [] stateless)"

text \<open>\<open>_tools\<close>: a selection that cannot be mapped is served as no tools.\<close>

definition current_tools ::
  "'u virtual_env \<Rightarrow> call_context \<Rightarrow> 'u virtual_state \<Rightarrow> ('u virtual_state \<times> tool list py) option" where
  "current_tools V ctx st =
     map_option (\<lambda>(cache, r). (st\<lparr>vs_tools := cache\<rparr>,
         bind_py r (\<lambda>tools. Inr (case tools of Inl problems \<Rightarrow> [] | Inr ts \<Rightarrow> ts))))
       (cached_openapi_tools (ve_map V) (cx_server ctx) (cx_description_limit ctx) (vs_tools st))"

definition list_result :: "jdict \<Rightarrow> bool \<Rightarrow> jdict" where
  "list_result result stateless =
     (if stateless
      then dict_merge result [(''ttlMs'', JInt LIST_TTL_MS), (''cacheScope'', JStr ''private'')]
      else result)"

definition h_tools_list :: "'u handler" where
  "h_tools_list V request_id params ctx stateless st =
     map_option (\<lambda>(st', r). (st', bind_py r (\<lambda>tools.
         ok_reply V request_id ''tools/list''
           (list_result [(''tools'', JList (map (\<lambda>t. JObj (tool_def_to_mcp (tl_definition t))) tools))] stateless)
           stateless)))
       (current_tools V ctx st)"

text \<open>The state after a call of a tool: the token caches, and what was sent.\<close>

definition with_run :: "'u call_run \<Rightarrow> 'u virtual_state \<Rightarrow> 'u virtual_state" where
  "with_run r st =
     st\<lparr>vs_tokens := cu_tokens r, vs_obo := cu_obo r, vs_sent := vs_sent st @ cu_sent r,
        vs_calls := vs_calls st @ cu_calls r, vs_exchanges := vs_exchanges st @ cu_exchanges r\<rparr>"

definition run_tool ::
  "'u virtual_env \<Rightarrow> tool \<Rightarrow> jdict \<Rightarrow> call_context \<Rightarrow> 'u virtual_state \<Rightarrow> 'u call_run" where
  "run_tool V t arguments ctx st =
     call_tool (ve_exec V) t arguments (cx_server ctx) (cx_caller ctx) (cx_limits ctx) (vs_tokens st, vs_obo st)"

definition dispatch_tool_call ::
  "'u virtual_env \<Rightarrow> string \<Rightarrow> jdict \<Rightarrow> call_context \<Rightarrow> 'u virtual_state
     \<Rightarrow> ('u virtual_state \<times> (tool \<times> call_result) option py) option" where
  "dispatch_tool_call V name arguments ctx st =
     (case current_tools V ctx st of
        None \<Rightarrow> None
      | Some (st1, Inl e) \<Rightarrow> Some (st1, Inl e)
      | Some (st1, Inr tools) \<Rightarrow>
          (case find (\<lambda>t. td_name (tl_definition t) = name) tools of
             None \<Rightarrow> Some (st1, Inr None)
           | Some t \<Rightarrow>
               (let r = run_tool V t arguments ctx st1
                in Some (with_run r st1,
                     (case cu_outcome r of
                        Inl cls \<Rightarrow> Inl (RuntimeError cls)
                      | Inr result \<Rightarrow> Inr (Some (t, result)))))))"

definition route_of :: "tool \<Rightarrow> string" where
  "route_of t = rp_method (tl_plan t) @ '' '' @ rp_path (tl_plan t)"

definition unauthorized :: "string \<Rightarrow> tool \<Rightarrow> virtual_reply" where
  "unauthorized name t =
     \<lparr>oy_body = ''Unauthorized'', oy_status_code = 401, oy_error = ''authentication required'',
      oy_needs_authentication = True, vr_method = ''tools/call'', vr_route = route_of t, vr_tool_name = name\<rparr>"

definition call_reply ::
  "'u virtual_env \<Rightarrow> json \<Rightarrow> string \<Rightarrow> bool \<Rightarrow> (tool \<times> call_result) option \<Rightarrow> virtual_reply py" where
  "call_reply V request_id name stateless outcome =
     (case outcome of
        None \<Rightarrow> fail_reply V 200 request_id INVALID_PARAMS (''Unknown tool: '' @ name) ''tools/call''
      | Some (t, result) \<Rightarrow>
          if cr_needs_authentication result then Inr (unauthorized name t)
          else ok_routed V request_id ''tools/call'' (call_result_to_mcp result) stateless (route_of t) name
                 (if cr_is_error result then ''tool returned an error'' else []))"

definition h_tools_call :: "'u handler" where
  "h_tools_call V request_id params ctx stateless st =
     (case (jget params ''name'', jget_or params ''arguments'' (JObj [])) of
        (JStr name, JObj arguments) \<Rightarrow>
          map_option (\<lambda>(st', r). (st', bind_py r (call_reply V request_id name stateless)))
            (dispatch_tool_call V name arguments ctx st)
      | _ \<Rightarrow> Some (st, fail_reply V 200 request_id INVALID_PARAMS
                ''tools/call needs a string name and object arguments'' ''tools/call''))"

definition h_resources_list :: "'u handler" where
  "h_resources_list V request_id params ctx stateless st =
     Some (st, ok_reply V request_id ''resources/list''
       (list_result [(''resources'', JList [JObj
          [(''uri'', JStr (spec_uri (cx_server ctx))), (''name'', JStr ''OpenAPI document''),
           (''description'', JStr ''The API description, limited to the operations this server exposes.''),
           (''mimeType'', JStr ''application/json'')]])] stateless) stateless)"

definition spec_key :: "registered_server \<Rightarrow> openapi_snapshot \<Rightarrow> spec_key" where
  "spec_key server s =
     (os_sha256 s, sort (map (\<lambda>k. (ok_method k, ok_path k)) (remdups (selection_of server))))"

definition fresh_spec_text ::
  "(string \<Rightarrow> string) \<Rightarrow> (json \<Rightarrow> string) \<Rightarrow> registered_server \<Rightarrow> openapi_snapshot \<Rightarrow> string run" where
  "fresh_spec_text unquote dumps server s =
     bind_run (trimmed_spec unquote (os_document s) (os_dialect s) (selection_of server)) (\<lambda>document.
       ret (dumps document))"

definition spec_text ::
  "'u virtual_env \<Rightarrow> registered_server \<Rightarrow> openapi_snapshot \<Rightarrow> 'u virtual_state \<Rightarrow> ('u virtual_state \<times> string py) option" where
  "spec_text V server s st =
     (let key = spec_key server s
      in case map_of (vs_specs st) key of
           Some t \<Rightarrow> Some (st\<lparr>vs_specs := touch key (vs_specs st)\<rparr>, Inr t)
         | None \<Rightarrow>
             map_option (\<lambda>r. (case r of
                 Inl e \<Rightarrow> (st, Inl e)
               | Inr t \<Rightarrow> (st\<lparr>vs_specs := put_bounded SPEC_CACHE_SIZE key t (vs_specs st)\<rparr>, Inr t)))
               (fresh_spec_text (me_unquote (ve_map V)) (ve_dumps V) server s))"

definition h_resources_read :: "'u handler" where
  "h_resources_read V request_id params ctx stateless st =
     (let uri = jget params ''uri''
      in case srv_openapi_snapshot (cx_server ctx) of
           Some s \<Rightarrow>
             if uri = JStr (spec_uri (cx_server ctx))
             then map_option (\<lambda>(st', r). (st', bind_py r (\<lambda>t.
                      ok_reply V request_id ''resources/read''
                        [(''contents'', JList [JObj [(''uri'', uri), (''mimeType'', JStr ''application/json''),
                            (''text'', JStr t)]])] stateless)))
                    (spec_text V (cx_server ctx) s st)
             else Some (st, fail_reply V 200 request_id
                    (if stateless then RESOURCE_NOT_FOUND else LEGACY_RESOURCE_NOT_FOUND)
                    (''resource not found: '' @ py_str (ex_float_text (ve_exec V)) uri) ''resources/read'')
         | None \<Rightarrow> Some (st, fail_reply V 200 request_id
                    (if stateless then RESOURCE_NOT_FOUND else LEGACY_RESOURCE_NOT_FOUND)
                    (''resource not found: '' @ py_str (ex_float_text (ve_exec V)) uri) ''resources/read''))"

definition HANDLERS :: "(string \<times> 'u handler) list" where
  "HANDLERS =
     [(''initialize'', h_initialize), (''server/discover'', h_discover), (''ping'', h_ping),
      (''tools/list'', h_tools_list), (''tools/call'', h_tools_call),
      (''resources/list'', h_resources_list), (''resources/read'', h_resources_read)]"

section \<open>\<open>handle_request\<close>\<close>

text \<open>An identifier that is echoed: absent as \<open>null\<close>, text or an integer.\<close>

fun id_echoed :: "json \<Rightarrow> bool" where
  "id_echoed JNull = True"
| "id_echoed (JStr _) = True"
| "id_echoed (JInt _) = True"
| "id_echoed _ = False"

definition meta_version :: "jdict \<Rightarrow> json" where
  "meta_version params =
     (case jget params ''_meta'' of JObj meta \<Rightarrow> jget meta META_PROTOCOL_VERSION | _ \<Rightarrow> JNull)"

definition version_refused :: "json \<Rightarrow> bool" where
  "version_refused v =
     (case v of JNull \<Rightarrow> False | JStr s \<Rightarrow> s \<notin> set SUPPORTED_PROTOCOL_VERSIONS | _ \<Rightarrow> True)"

text \<open>The \<open>try\<close> around a handler.\<close>

definition guarded :: "'u virtual_env \<Rightarrow> json \<Rightarrow> string \<Rightarrow> 'u handled \<Rightarrow> 'u handled" where
  "guarded V request_id method res =
     map_option (\<lambda>(st, r). (st, (case r of
         Inr reply \<Rightarrow> Inr reply
       | Inl e \<Rightarrow> fail_reply V 200 request_id INTERNAL_ERROR ''internal error'' method))) res"

definition is_stateless :: "string \<Rightarrow> json \<Rightarrow> bool" where
  "is_stateless header version \<longleftrightarrow>
     header = STATELESS_PROTOCOL_VERSION \<or> version = JStr STATELESS_PROTOCOL_VERSION"

definition handle_call ::
  "'u virtual_env \<Rightarrow> string \<Rightarrow> json \<Rightarrow> jdict \<Rightarrow> call_context \<Rightarrow> string \<Rightarrow> 'u virtual_state \<Rightarrow> 'u handled" where
  "handle_call V method request_id params ctx header st =
     (let version = meta_version params; stateless = is_stateless header version
      in if version_refused version
         then Some (st, fail_reply V 200 request_id UNSUPPORTED_PROTOCOL_VERSION
                (''unsupported protocol version '' @ py_repr (ex_float_text (ve_exec V)) version) method)
         else case map_of HANDLERS method of
           None \<Rightarrow> Some (st, fail_reply V 200 request_id METHOD_NOT_FOUND (''method not found: '' @ method) method)
         | Some handler \<Rightarrow>
             if stateless \<and> method = ''initialize''
             then Some (st, fail_reply V 200 request_id METHOD_NOT_FOUND (''method not found: '' @ method) method)
             else guarded V request_id method (handler V request_id params ctx stateless st))"

definition notification_reply :: "string \<Rightarrow> virtual_reply" where
  "notification_reply method =
     \<lparr>oy_body = [], oy_status_code = 202, oy_error = [], oy_needs_authentication = False,
      vr_method = method, vr_route = [], vr_tool_name = []\<rparr>"

definition handle_message ::
  "'u virtual_env \<Rightarrow> jdict \<Rightarrow> string \<Rightarrow> call_context \<Rightarrow> string \<Rightarrow> 'u virtual_state \<Rightarrow> 'u handled" where
  "handle_message V message method ctx header st =
     (case map_of message ''id'' of
        None \<Rightarrow> Some (st, Inr (notification_reply method))
      | Some request_id \<Rightarrow>
          if \<not> id_echoed request_id
          then Some (st, fail_reply V 200 JNull INVALID_REQUEST
                 ''id must be a string, an integer or null'' method)
          else case jget_or message ''params'' (JObj []) of
            JObj params \<Rightarrow> handle_call V method request_id params ctx header st
          | _ \<Rightarrow> Some (st, fail_reply V 200 request_id INVALID_PARAMS ''params must be an object'' method))"

definition handle_request ::
  "'u virtual_env \<Rightarrow> string \<Rightarrow> call_context \<Rightarrow> string \<Rightarrow> 'u virtual_state \<Rightarrow> 'u handled" where
  "handle_request V body ctx header st =
     (case parse_message V body of
        Inl err \<Rightarrow> Some (st, fail_reply V 400 JNull PARSE_ERROR (''invalid JSON: '' @ err) [])
      | Inr (JList _) \<Rightarrow> Some (st, fail_reply V 400 JNull INVALID_REQUEST ''batch requests are not supported'' [])
      | Inr (JObj message) \<Rightarrow>
          (case jget message ''method'' of
             JStr method \<Rightarrow> handle_message V message method ctx header st
           | _ \<Rightarrow> Some (st, fail_reply V 400 JNull INVALID_REQUEST ''expected a JSON-RPC request object'' []))
      | Inr _ \<Rightarrow> Some (st, fail_reply V 400 JNull INVALID_REQUEST ''expected a JSON-RPC request object'' []))"

section \<open>\<open>call_virtual\<close>\<close>

record local_env =
  le_settings_description :: int
  le_limits :: call_limits
  le_body_limit :: int
  le_now :: timestamp
  le_elapsed :: rat
  le_sanitize :: "string \<Rightarrow> string"

definition local_exchange_entry ::
  "local_env \<Rightarrow> http_request \<Rightarrow> registered_server \<Rightarrow> string \<Rightarrow> upstream_exchange \<Rightarrow> trace_entry" where
  "local_exchange_entry L request server subject x =
     (let verbose = srv_trace_verbose server
      in \<lparr>te_timestamp = le_now L, te_server_id = srv_id server, te_operation = ''openapi_call'',
          te_http_method = ux_method x, te_url = rq_url request,
          te_outbound_url = (if verbose then ux_url x else ux_url_template x),
          te_status = ux_status x, te_duration_ms = ux_duration_ms x, te_error = ux_error x,
          te_request_headers = (if verbose then ux_request_headers x else []),
          te_response_headers = (if verbose then ux_response_headers x else []),
          te_subject = subject,
          te_request_body = (if verbose then truncate_body (ux_request_body x) (le_body_limit L) else []),
          te_response_body = []\<rparr>)"

definition local_entry ::
  "local_env \<Rightarrow> http_request \<Rightarrow> registered_server \<Rightarrow> string \<Rightarrow> string \<Rightarrow> string \<Rightarrow> virtual_reply \<Rightarrow> trace_entry" where
  "local_entry L request server subject operation body reply =
     (let kept = (\<lambda>b. if srv_trace_verbose server then truncate_body b (le_body_limit L) else [])
      in \<lparr>te_timestamp = le_now L, te_server_id = srv_id server, te_operation = operation,
          te_http_method = ''POST'', te_url = rq_url request, te_outbound_url = srv_url server,
          te_status = oy_status_code reply, te_duration_ms = le_elapsed L, te_error = oy_error reply,
          te_request_headers = [], te_response_headers = [], te_subject = subject,
          te_request_body = kept body, te_response_body = kept (oy_body reply)\<rparr>)"

definition call_virtual ::
  "'u virtual_env \<Rightarrow> local_env \<Rightarrow> http_request \<Rightarrow> registered_server \<Rightarrow> string \<Rightarrow> string \<Rightarrow> string
     \<Rightarrow> 'u virtual_state \<Rightarrow> trace_recorder \<Rightarrow> ('u virtual_state \<times> trace_recorder \<times> virtual_reply py) option" where
  "call_virtual V L request server body operation header st recorder =
     (let caller = caller_from_request request;
          ctx = \<lparr>cx_server = server, cx_caller = caller, cx_description_limit = le_settings_description L,
                 cx_limits = le_limits L\<rparr>;
          subject = caller_subject caller
      in map_option (\<lambda>(st', r).
           (case r of
              Inl e \<Rightarrow> (st', recorder, Inl e)
            | Inr reply \<Rightarrow>
                (st', fold (recorder_add (le_sanitize L))
                        (map (local_exchange_entry L request server subject) (vs_exchanges st')
                         @ [local_entry L request server subject operation body reply]) recorder,
                 Inr reply)))
         (handle_request V body ctx header (st\<lparr>vs_exchanges := []\<rparr>)))"

end
