(* ===== verification/Virtual_Facts.thy ===== *)
theory Virtual_Facts
  imports Virtual_Server
begin

text \<open>
  The virtual server's correctness: its two caches change nothing that can be observed, every method handler
  keeps the promises of the locale \<open>mcp_handler\<close>, only \<open>tools/call\<close> sends, and parsing is strict.
\<close>

section \<open>The caches\<close>

text \<open>The snapshots of \<open>S\<close> are told apart by their hash, and one document has one dialect.\<close>

definition snapshots_ok :: "openapi_snapshot set \<Rightarrow> bool" where
  "snapshots_ok S \<longleftrightarrow> hash_identifies S \<and>
     (\<forall>s \<in> S. \<forall>s' \<in> S. os_document s = os_document s' \<longrightarrow> os_dialect s = os_dialect s')"

definition spec_entry :: "(string \<Rightarrow> string) \<Rightarrow> (json \<Rightarrow> string) \<Rightarrow> openapi_snapshot set \<Rightarrow> spec_key \<Rightarrow> string \<Rightarrow> bool" where
  "spec_entry U D S k t \<longleftrightarrow>
     (\<exists>server s. s \<in> S \<and> k = spec_key server s \<and> fresh_spec_text U D server s = ret t)"

interpretation sc: bounded_cache SPEC_CACHE_SIZE "spec_entry U D S" for U D S
  .

lemma trimmed_spec_selection:
  assumes "set sel = set sel'"
  shows "trimmed_spec unquote document dia sel = trimmed_spec unquote document dia sel'"
proof -
  have "trimmed_item sel = trimmed_item sel'" by (intro ext) (simp add: trimmed_item_def assms)
  then have "trimmed_path unquote d sel = trimmed_path unquote d sel'" for d
    by (intro ext) (simp only: trimmed_path_def)
  then show ?thesis by (simp add: trimmed_spec_def trimmed_paths_def)
qed

lemma spec_key_determines:
  assumes "snapshots_ok S" "s \<in> S" "s' \<in> S" "spec_key server s = spec_key server' s'"
  shows "fresh_spec_text U D server s = fresh_spec_text U D server' s'"
proof -
  let ?place = "\<lambda>k::operation_key. (ok_method k, ok_path k)"
  have "os_sha256 s = os_sha256 s'" using assms(4) by (simp add: spec_key_def)
  with assms(1-3) have doc: "os_document s = os_document s'" "os_dialect s = os_dialect s'"
    unfolding snapshots_ok_def hash_identifies_def by blast+
  have "sort (map ?place (remdups (selection_of server))) = sort (map ?place (remdups (selection_of server')))"
    using assms(4) by (simp add: spec_key_def)
  then have "set (sort (map ?place (remdups (selection_of server))))
           = set (sort (map ?place (remdups (selection_of server'))))" by (simp only:)
  then have "?place ` set (selection_of server) = ?place ` set (selection_of server')" by simp
  moreover have "inj ?place" by (intro injI) simp
  ultimately have "set (selection_of server) = set (selection_of server')" by (simp add: inj_image_eq_iff)
  from trimmed_spec_selection[OF this] show ?thesis by (simp add: fresh_spec_text_def doc)
qed

definition context_ok :: "openapi_snapshot set \<Rightarrow> call_context \<Rightarrow> bool" where
  "context_ok S ctx \<longleftrightarrow> snapshots_ok S \<and> upper_refs (cx_server ctx) \<and>
     set_option (srv_openapi_snapshot (cx_server ctx)) \<subseteq> S"

definition caches_ok :: "'u virtual_env \<Rightarrow> openapi_snapshot set \<Rightarrow> 'u virtual_state \<Rightarrow> bool" where
  "caches_ok V S st \<longleftrightarrow> tc.holds (ve_map V) S (vs_tools st) \<and> sc.holds (me_unquote (ve_map V)) (ve_dumps V) S (vs_specs st)"

definition fresh :: "'u virtual_state \<Rightarrow> 'u virtual_state" where
  "fresh st = st\<lparr>vs_tools := [], vs_specs := []\<rparr>"

abbreviation observed :: "('u virtual_state \<times> 'a) option \<Rightarrow> ('u virtual_state \<times> 'a) option" where
  "observed \<equiv> map_option (map_prod fresh id)"

lemma fresh_caches_ok: "caches_ok V S (fresh st)"
  by (simp add: caches_ok_def fresh_def tc.empty_holds sc.empty_holds)

lemma fresh_simps [simp]:
  "vs_tokens (fresh st) = vs_tokens st" "vs_obo (fresh st) = vs_obo st" "vs_tools (fresh st) = []"
  "vs_specs (fresh st) = []" "vs_calls (fresh st) = vs_calls st" "fresh (st\<lparr>vs_tools := c\<rparr>) = fresh st"
  "fresh (st\<lparr>vs_specs := d\<rparr>) = fresh st" "fresh (fresh st) = fresh st" "fresh (with_run r st) = with_run r (fresh st)"
  by (simp_all add: fresh_def with_run_def)

text \<open>A result that is the same from the caches and without them, and leaves the caches sound.\<close>

definition transparent ::
  "'u virtual_env \<Rightarrow> openapi_snapshot set \<Rightarrow> ('u virtual_state \<Rightarrow> ('u virtual_state \<times> 'a) option) \<Rightarrow> bool" where
  "transparent V S f \<longleftrightarrow>
     (\<forall>st. caches_ok V S st \<longrightarrow>
        observed (f st) = observed (f (fresh st)) \<and>
        (\<forall>st' r. f st = Some (st', r) \<longrightarrow> caches_ok V S st'))"

lemma transparent_observed: "transparent V S f \<Longrightarrow> caches_ok V S st \<Longrightarrow> observed (f st) = observed (f (fresh st))"
  by (simp add: transparent_def)

lemma transparent_keeps: "transparent V S f \<Longrightarrow> caches_ok V S st \<Longrightarrow> f st = Some (st', r) \<Longrightarrow> caches_ok V S st'"
  by (simp add: transparent_def)

lemma transparent_const: "transparent V S (\<lambda>st. Some (st, r))"
  by (simp add: transparent_def)

lemma transparent_map:
  assumes "transparent V S f"
  shows "transparent V S (\<lambda>st. map_option (\<lambda>(st', r). (st', g r)) (f st))"
  unfolding transparent_def
proof (intro allI impI conjI)
  fix st assume ok: "caches_ok V S st"
  have via: "observed (map_option (\<lambda>(st', r). (st', g r)) x) = map_option (map_prod id g) (observed x)"
    for x :: "('a virtual_state \<times> 'b) option"
    by (cases x) auto
  show "observed (map_option (\<lambda>(st', r). (st', g r)) (f st)) =
        observed (map_option (\<lambda>(st', r). (st', g r)) (f (fresh st)))"
    unfolding via transparent_observed[OF assms ok] by (rule refl)
  show "caches_ok V S st'" if "map_option (\<lambda>(st', r). (st', g r)) (f st) = Some (st', r)" for st' r
    using that transparent_keeps[OF assms ok] by auto
qed

text \<open>Sequencing: what follows may use the state only through what the caches do not change.\<close>

lemma transparent_then:
  assumes f: "transparent V S f"
    and g: "\<And>r st. fresh (fst (g r st)) = fresh (fst (g r (fresh st)))" "\<And>r st. snd (g r st) = snd (g r (fresh st))"
    and keep: "\<And>r st. caches_ok V S st \<Longrightarrow> caches_ok V S (fst (g r st))"
  shows "transparent V S (\<lambda>st. map_option (\<lambda>(st', r). g r st') (f st))"
  unfolding transparent_def
proof (intro allI impI conjI)
  fix st assume ok: "caches_ok V S st"
  have step: "map_prod fresh id (g r st') = (fresh (fst (g r (fresh st'))), snd (g r (fresh st')))" for r st'
    using g[of r st'] by (cases "g r st'") simp
  have via: "observed (map_option (\<lambda>(st', r). g r st') x)
      = map_option (\<lambda>(st', r). (fresh (fst (g r st')), snd (g r st'))) (observed x)"
    for x :: "('a virtual_state \<times> 'b) option"
  proof (cases x)
    case (Some p)
    then show ?thesis using step[of "snd p" "fst p"] by (cases p) (simp add: map_prod_def)
  qed simp
  show "observed (map_option (\<lambda>(st', r). g r st') (f st)) = observed (map_option (\<lambda>(st', r). g r st') (f (fresh st)))"
    unfolding via transparent_observed[OF f ok] by (rule refl)
  show "caches_ok V S st'" if "map_option (\<lambda>(st', r). g r st') (f st) = Some (st', r)" for st' r
  proof -
    from that obtain st1 r1 where "f st = Some (st1, r1)" "g r1 st1 = (st', r)" by auto
    with keep[OF transparent_keeps[OF f ok]] show ?thesis by (metis fst_conv)
  qed
qed

lemma current_tools_transparent:
  assumes "context_ok S ctx"
  shows "transparent V S (current_tools V ctx)"
  unfolding transparent_def
proof (intro allI impI conjI)
  fix st assume ok: "caches_ok V S st"
  let ?run = "cached_openapi_tools (ve_map V) (cx_server ctx) (cx_description_limit ctx)"
  let ?g = "\<lambda>r. bind_py r (\<lambda>tools. Inr (case tools of Inl problems \<Rightarrow> [] | Inr ts \<Rightarrow> ts))"
  have C: "hash_identifies S" "upper_refs (cx_server ctx)" "set_option (srv_openapi_snapshot (cx_server ctx)) \<subseteq> S"
    using assms by (auto simp: context_ok_def snapshots_ok_def)
  have T: "tc.holds (ve_map V) S (vs_tools st)" using ok by (simp add: caches_ok_def)
  have via: "observed (current_tools V ctx st') = map_option (\<lambda>r. (fresh st', ?g r)) (map_option snd (?run (vs_tools st')))" for st'
    by (cases "?run (vs_tools st')") (auto simp: current_tools_def)
  show "observed (current_tools V ctx st) = observed (current_tools V ctx (fresh st))"
    unfolding via
    using cached_tools_transparent(1)[OF C(1) T C(2,3)] cached_tools_transparent(1)[OF C(1) tc.empty_holds C(2,3)]
    by simp
  show "caches_ok V S st'" if "current_tools V ctx st = Some (st', r)" for st' r
    using that ok cached_tools_transparent(2)[OF C(1) T C(2,3)] by (auto simp: current_tools_def caches_ok_def)
qed

lemma spec_text_transparent:
  assumes "context_ok S ctx" "srv_openapi_snapshot (cx_server ctx) = Some s"
  shows "transparent V S (spec_text V (cx_server ctx) s)"
  unfolding transparent_def
proof (intro allI impI)
  fix st assume ok: "caches_ok V S st"
  let ?srv = "cx_server ctx"
  let ?key = "spec_key ?srv s"
  have S: "snapshots_ok S" "s \<in> S" using assms by (auto simp: context_ok_def)
  have H: "sc.holds (me_unquote (ve_map V)) (ve_dumps V) S (vs_specs st)" using ok by (simp add: caches_ok_def)
  have empty: "observed (spec_text V ?srv s (fresh st)) = map_option (\<lambda>r. (fresh st, r)) (fresh_spec_text (me_unquote (ve_map V)) (ve_dumps V) ?srv s)"
    by (cases "fresh_spec_text (me_unquote (ve_map V)) (ve_dumps V) ?srv s") (auto simp: spec_text_def split: sum.split)
  show "observed (spec_text V ?srv s st) = observed (spec_text V ?srv s (fresh st)) \<and>
        (\<forall>st' r. spec_text V ?srv s st = Some (st', r) \<longrightarrow> caches_ok V S st')"
  proof (cases "map_of (vs_specs st) ?key")
    case (Some t)
    from sc.hit_valid[OF H Some] obtain server' s' where
      "s' \<in> S" "?key = spec_key server' s'" "fresh_spec_text (me_unquote (ve_map V)) (ve_dumps V) server' s' = ret t"
      unfolding spec_entry_def by blast
    with spec_key_determines[OF S(1,2)] have "fresh_spec_text (me_unquote (ve_map V)) (ve_dumps V) ?srv s = ret t" by metis
    then show ?thesis
      unfolding empty using Some ok sc.touch_holds[OF H] by (auto simp: spec_text_def caches_ok_def)
  next
    case None
    have put: "sc.holds (me_unquote (ve_map V)) (ve_dumps V) S (put_bounded SPEC_CACHE_SIZE ?key t (vs_specs st))" if "fresh_spec_text (me_unquote (ve_map V)) (ve_dumps V) ?srv s = ret t" for t
      by (rule sc.put_holds[OF H]) (use S(2) that in \<open>unfold spec_entry_def, blast\<close>)
    show ?thesis
      unfolding empty using None ok put
      by (cases "fresh_spec_text (me_unquote (ve_map V)) (ve_dumps V) ?srv s") (auto simp: spec_text_def caches_ok_def split: sum.splits)
  qed
qed

lemma transparent_if:
  "transparent V S f \<Longrightarrow> transparent V S g \<Longrightarrow> transparent V S (\<lambda>st. if b then f st else g st)"
  by (cases b) simp_all

lemma transparent_option:
  "transparent V S f \<Longrightarrow> (\<And>x. transparent V S (g x)) \<Longrightarrow>
     transparent V S (\<lambda>st. case v of None \<Rightarrow> f st | Some x \<Rightarrow> g x st)"
  by (cases v) simp_all

lemma transparent_obj:
  "transparent V S f \<Longrightarrow> (\<And>d. transparent V S (g d)) \<Longrightarrow>
     transparent V S (\<lambda>st. case v of JObj d \<Rightarrow> g d st | _ \<Rightarrow> f st)"
  by (cases v) simp_all

lemmas transparent_intros = transparent_if transparent_option transparent_obj transparent_const

section \<open>What every handler promises\<close>

text \<open>An answer to the request with this identifier: the envelope carries it, or the caller has to authenticate.\<close>

definition reply_for :: "'u virtual_env \<Rightarrow> json \<Rightarrow> virtual_reply \<Rightarrow> bool" where
  "reply_for V request_id reply \<longleftrightarrow>
     (\<exists>kind v. ve_encode V (envelope request_id kind v) = Some (oy_body reply) \<and>
        oy_status_code reply = 200 \<and> \<not> oy_needs_authentication reply) \<or>
     (oy_status_code reply = 401 \<and> oy_needs_authentication reply \<and> oy_body reply = ''Unauthorized'')"

lemma reply_forI:
  "ve_encode V (envelope rid kind v) = Some (oy_body reply) \<Longrightarrow> oy_status_code reply = 200 \<Longrightarrow>
     \<not> oy_needs_authentication reply \<Longrightarrow> reply_for V rid reply"
  unfolding reply_for_def by blast

lemma fail_reply_for: "fail_reply V 200 rid code message method = Inr reply \<Longrightarrow> reply_for V rid reply"
  by (rule reply_forI[where kind = "''error''" and v = "error_object code message"])
     (auto simp: fail_reply_def encoded_def split: option.splits)

lemma ok_routed_for: "ok_routed V rid method result stateless route tname err = Inr reply \<Longrightarrow> reply_for V rid reply"
  by (rule reply_forI[where kind = "''result''" and v = "JObj (if stateless
        then AList.update ''resultType'' (JStr RESULT_TYPE_COMPLETE) result else result)"])
     (auto simp: ok_routed_def encoded_def Let_def split: option.splits)

lemma call_reply_for:
  assumes "call_reply V rid name stateless outcome = Inr reply"
  shows "reply_for V rid reply"
proof (cases outcome)
  case None
  then show ?thesis using assms fail_reply_for by (simp add: call_reply_def)
next
  case (Some p)
  obtain t result where p: "p = (t, result)" by (cases p)
  show ?thesis
  proof (cases "cr_needs_authentication result")
    case True
    then have "reply = unauthorized name t" using assms Some p by (simp add: call_reply_def)
    then show ?thesis by (simp add: reply_for_def unauthorized_def)
  next
    case False
    then show ?thesis using assms Some p ok_routed_for by (simp add: call_reply_def)
  qed
qed

locale mcp_handler =
  fixes handle :: "'u handler"
  assumes handler_transparent: "context_ok S ctx \<Longrightarrow> transparent V S (handle V rid params ctx stateless)"
    and handler_id: "handle V rid params ctx stateless st = Some (st', Inr reply) \<Longrightarrow> reply_for V rid reply"
begin

lemma guarded_transparent:
  assumes "context_ok S ctx"
  shows "transparent V S (\<lambda>st. guarded V rid method (handle V rid params ctx stateless st))"
  unfolding guarded_def by (rule transparent_map[OF handler_transparent[OF assms]])

lemma guarded_id:
  assumes "guarded V rid method (handle V rid params ctx stateless st) = Some (st', Inr reply)"
  shows "reply_for V rid reply"
proof -
  from assms obtain r where run: "handle V rid params ctx stateless st = Some (st', r)"
    and r: "(case r of Inr reply \<Rightarrow> Inr reply
              | Inl e \<Rightarrow> fail_reply V 200 rid INTERNAL_ERROR ''internal error'' method) = Inr reply"
    by (auto simp: guarded_def)
  show ?thesis
  proof (cases r)
    case (Inl e)
    then show ?thesis using r by (intro fail_reply_for) simp
  next
    case (Inr x)
    then show ?thesis using r run by (intro handler_id) simp
  qed
qed

end

interpretation initialize: mcp_handler h_initialize
proof (unfold_locales, goal_cases)
  case 1 show ?case unfolding h_initialize_def Let_def by (rule transparent_const)
next
  case 2 then show ?case by (auto simp: h_initialize_def Let_def bind_py_Inr dest: ok_routed_for)
qed

interpretation discover: mcp_handler h_discover
proof (unfold_locales, goal_cases)
  case 1 show ?case unfolding h_discover_def by (rule transparent_const)
next
  case 2 then show ?case by (auto simp: h_discover_def bind_py_Inr dest: ok_routed_for)
qed

interpretation ping: mcp_handler h_ping
proof (unfold_locales, goal_cases)
  case 1 show ?case unfolding h_ping_def by (rule transparent_const)
next
  case 2 then show ?case by (auto simp: h_ping_def dest: ok_routed_for)
qed

interpretation tools_list: mcp_handler h_tools_list
proof (unfold_locales, goal_cases)
  case 1 then show ?case
    unfolding h_tools_list_def by (intro transparent_map current_tools_transparent)
next
  case 2 then show ?case by (auto simp: h_tools_list_def bind_py_Inr dest: ok_routed_for)
qed

interpretation resources_list: mcp_handler h_resources_list
proof (unfold_locales, goal_cases)
  case 1 show ?case unfolding h_resources_list_def by (rule transparent_const)
next
  case 2 then show ?case by (auto simp: h_resources_list_def dest: ok_routed_for)
qed

interpretation resources_read: mcp_handler h_resources_read
proof (unfold_locales, goal_cases)
  case (1 S ctx V rid params stateless)
  show ?case
  proof (cases "srv_openapi_snapshot (cx_server ctx)")
    case None
    show ?thesis unfolding h_resources_read_def Let_def None option.case by (rule transparent_const)
  next
    case (Some s)
    show ?thesis
    proof (cases "jget params ''uri'' = JStr (spec_uri (cx_server ctx))")
      case True
      show ?thesis
        unfolding h_resources_read_def Let_def Some option.case if_P[OF True]
        by (rule transparent_map[OF spec_text_transparent[OF 1 Some]])
    next
      case False
      show ?thesis
        unfolding h_resources_read_def Let_def Some option.case if_not_P[OF False] by (rule transparent_const)
    qed
  qed
next
  case 2 then show ?case
    by (auto simp: h_resources_read_def Let_def bind_py_Inr dest: ok_routed_for fail_reply_for split: option.splits if_splits)
qed

text \<open>\<open>tools/call\<close> sends after it has looked its tool up; the call itself does not touch the caches.\<close>

definition call_found ::
  "'u virtual_env \<Rightarrow> string \<Rightarrow> jdict \<Rightarrow> call_context \<Rightarrow> tool list py \<Rightarrow> 'u virtual_state
     \<Rightarrow> 'u virtual_state \<times> (tool \<times> call_result) option py" where
  "call_found V name arguments ctx tools st =
     (case tools of
        Inl e \<Rightarrow> (st, Inl e)
      | Inr ts \<Rightarrow>
          (case find (\<lambda>t. td_name (tl_definition t) = name) ts of
             None \<Rightarrow> (st, Inr None)
           | Some t \<Rightarrow>
               (with_run (run_tool V t arguments ctx st) st,
                (case cu_outcome (run_tool V t arguments ctx st) of
                   Inl cls \<Rightarrow> Inl (RuntimeError cls) | Inr result \<Rightarrow> Inr (Some (t, result))))))"

lemma dispatch_found:
  "dispatch_tool_call V name arguments ctx st =
     map_option (\<lambda>(st', r). call_found V name arguments ctx r st') (current_tools V ctx st)"
  by (auto simp: dispatch_tool_call_def call_found_def Let_def split: option.split sum.split)

lemma run_tool_fresh [simp]: "run_tool V t arguments ctx (fresh st) = run_tool V t arguments ctx st"
  by (simp add: run_tool_def)

lemma caches_ok_with_run [simp]: "caches_ok V S (with_run r st) = caches_ok V S st"
  by (simp add: caches_ok_def with_run_def)

lemma dispatch_transparent:
  assumes "context_ok S ctx"
  shows "transparent V S (dispatch_tool_call V name arguments ctx)"
  unfolding dispatch_found
proof (rule transparent_then[OF current_tools_transparent[OF assms]])
  show "fresh (fst (call_found V name arguments ctx r st)) = fresh (fst (call_found V name arguments ctx r (fresh st)))" for r st
    by (simp add: call_found_def split: sum.split option.split)
  show "snd (call_found V name arguments ctx r st) = snd (call_found V name arguments ctx r (fresh st))" for r st
    by (simp add: call_found_def split: sum.split option.split)
  show "caches_ok V S st \<Longrightarrow> caches_ok V S (fst (call_found V name arguments ctx r st))" for r st
    by (simp add: call_found_def split: sum.split option.split)
qed

interpretation tools_call: mcp_handler h_tools_call
proof (unfold_locales, goal_cases)
  case (1 S ctx V rid params stateless)
  show ?case
  proof (cases "\<exists>name arguments. jget params ''name'' = JStr name \<and> jget_or params ''arguments'' (JObj []) = JObj arguments")
    case True
    then obtain name arguments where
      args: "jget params ''name'' = JStr name" "jget_or params ''arguments'' (JObj []) = JObj arguments" by blast
    show ?thesis
      unfolding h_tools_call_def args prod.case json.case
      by (rule transparent_map[OF dispatch_transparent[OF 1]])
  next
    case False
    then have "h_tools_call V rid params ctx stateless = (\<lambda>st. Some (st, fail_reply V 200 rid INVALID_PARAMS
                ''tools/call needs a string name and object arguments'' ''tools/call''))"
      by (intro ext) (auto simp: h_tools_call_def split: json.splits)
    then show ?thesis by (simp only: transparent_const)
  qed
next
  case 2 then show ?case
    by (auto simp: h_tools_call_def bind_py_Inr dest: call_reply_for fail_reply_for split: json.splits)
qed

lemmas handler_facts =
  initialize.guarded_transparent discover.guarded_transparent ping.guarded_transparent
  tools_list.guarded_transparent tools_call.guarded_transparent resources_list.guarded_transparent
  resources_read.guarded_transparent

lemmas handler_ids =
  initialize.guarded_id discover.guarded_id ping.guarded_id tools_list.guarded_id tools_call.guarded_id
  resources_list.guarded_id resources_read.guarded_id

lemma handlers_cases:
  "map_of HANDLERS method = Some h \<Longrightarrow>
     h \<in> {h_initialize, h_discover, h_ping, h_tools_list, h_tools_call, h_resources_list, h_resources_read}"
  by (auto simp: HANDLERS_def split: if_splits)

lemma handle_call_transparent:
  assumes "context_ok S ctx"
  shows "transparent V S (handle_call V method rid params ctx header)"
proof (cases "version_refused (meta_version params)")
  case True
  then show ?thesis unfolding handle_call_def Let_def by (simp add: transparent_const)
next
  case False
  show ?thesis
  proof (cases "map_of HANDLERS method :: 'a handler option")
    case None
    then show ?thesis unfolding handle_call_def Let_def by (simp add: False transparent_const)
  next
    case (Some h)
    from handlers_cases[OF Some] have "transparent V S (\<lambda>st. guarded V rid method
        (h V rid params ctx (is_stateless header (meta_version params)) st))"
      using handler_facts[OF assms] by (elim insertE emptyE) simp_all
    then have served: "transparent V S (\<lambda>st. if is_stateless header (meta_version params) \<and> method = ''initialize''
        then Some (st, fail_reply V 200 rid METHOD_NOT_FOUND (''method not found: '' @ method) method)
        else guarded V rid method (h V rid params ctx (is_stateless header (meta_version params)) st))"
      by (intro transparent_intros)
    show ?thesis
      unfolding handle_call_def Let_def if_not_P[OF False] Some option.case by (rule served)
  qed
qed

lemma handle_call_id:
  assumes "handle_call V method rid params ctx header st = Some (st', Inr reply)"
  shows "reply_for V rid reply"
proof (cases "map_of HANDLERS method :: 'a handler option")
  case None
  then show ?thesis using assms by (auto simp: handle_call_def Let_def dest: fail_reply_for split: if_splits)
next
  case (Some h)
  have "reply_for V rid reply" if "guarded V rid method
        (h V rid params ctx (is_stateless header (meta_version params)) st) = Some (st', Inr reply)"
    using handlers_cases[OF Some] that by (elim insertE emptyE) (simp_all add: handler_ids)
  then show ?thesis using assms Some by (auto simp: handle_call_def Let_def dest: fail_reply_for split: if_splits)
qed

text \<open>A body that is not one request object with a method changes nothing.\<close>

lemma handle_request_refused:
  assumes no: "\<nexists>message method. parse_message V body = Inr (JObj message) \<and> jget message ''method'' = JStr method"
  shows "\<exists>err code. \<forall>st. handle_request V body ctx header st = Some (st, fail_reply V 400 JNull code err [])"
proof (cases "parse_message V body")
  case (Inl e)
  then show ?thesis by (auto simp: handle_request_def)
next
  case (Inr v)
  show ?thesis
  proof (cases v)
    case (JObj message)
    then show ?thesis using no Inr by (cases "jget message ''method''") (auto simp: handle_request_def)
  qed (auto simp: handle_request_def Inr)
qed

lemma handle_request_transparent:
  assumes "context_ok S ctx"
  shows "transparent V S (handle_request V body ctx header)"
proof -
  have msg: "transparent V S (handle_message V message mth ctx header)" for message mth
    unfolding handle_message_def by (intro transparent_intros handle_call_transparent[OF assms])
  show ?thesis
  proof (cases "\<exists>message mth. parse_message V body = Inr (JObj message) \<and> jget message ''method'' = JStr mth")
    case True
    then obtain message mth where
      "parse_message V body = Inr (JObj message)" "jget message ''method'' = JStr mth" by blast
    then have "handle_request V body ctx header = handle_message V message mth ctx header"
      by (intro ext) (simp add: handle_request_def)
    then show ?thesis using msg by simp
  next
    case False
    from handle_request_refused[OF this] obtain r where "handle_request V body ctx header = (\<lambda>st. Some (st, r))"
      by blast
    then show ?thesis by (simp only: transparent_const)
  qed
qed

lemma handle_request_id:
  assumes parsed: "parse_message V body = Inr (JObj message)" "jget message ''method'' = JStr method"
    and rid: "map_of message ''id'' = Some rid" "id_echoed rid"
    and run: "handle_request V body ctx header st = Some (st', Inr reply)"
  shows "reply_for V rid reply"
  using run handle_call_id fail_reply_for
  by (auto simp: handle_request_def handle_message_def parsed rid split: json.splits)

section \<open>What is sent\<close>

text \<open>Only \<open>tools/call\<close> sends, and only for a tool of the server's own selection.\<close>

lemma call_found_calls:
  "vs_calls (fst (call_found V name arguments ctx tools st)) =
     vs_calls st @ (case tools of
        Inl e \<Rightarrow> []
      | Inr ts \<Rightarrow> (case find (\<lambda>t. td_name (tl_definition t) = name) ts of
                     None \<Rightarrow> [] | Some t \<Rightarrow> cu_calls (run_tool V t arguments ctx st)))"
  by (simp add: call_found_def with_run_def split: sum.split option.split)

lemma current_tools_calls: "current_tools V ctx st = Some (st', r) \<Longrightarrow> vs_calls st' = vs_calls st"
  by (auto simp: current_tools_def)

lemma spec_text_calls: "spec_text V server s st = Some (st', r) \<Longrightarrow> vs_calls st' = vs_calls st"
  by (cases "fresh_spec_text (me_unquote (ve_map V)) (ve_dumps V) server s")
     (auto simp: spec_text_def Let_def split: option.splits sum.splits)

lemma quiet_handlers:
  assumes "map_of HANDLERS method = Some h" "method \<noteq> ''tools/call''" "h V rid params ctx stateless st = Some (st', r)"
  shows "vs_calls st' = vs_calls st"
proof -
  have "h \<in> {h_initialize, h_discover, h_ping, h_tools_list, h_resources_list, h_resources_read}"
    using assms(1,2) by (auto simp: HANDLERS_def split: if_splits)
  then show ?thesis
    using assms(3)
    by (elim insertE emptyE)
      (auto simp: h_initialize_def h_discover_def h_ping_def h_tools_list_def h_resources_list_def
         h_resources_read_def Let_def dest: current_tools_calls spec_text_calls split: option.splits if_splits)
qed

text \<open>The tools a state serves are those of a fresh mapping.\<close>

lemma current_tools_fresh:
  assumes "context_ok S ctx" "caches_ok V S st" "current_tools V ctx st = Some (st', Inr ts)" "t \<in> set ts"
  shows "openapi_tools (ve_map V) (cx_server ctx) (cx_description_limit ctx) None = ret (Inr ts)"
proof -
  have C: "hash_identifies S" "upper_refs (cx_server ctx)" "set_option (srv_openapi_snapshot (cx_server ctx)) \<subseteq> S"
    using assms(1) by (auto simp: context_ok_def snapshots_ok_def)
  obtain cache r where run: "cached_openapi_tools (ve_map V) (cx_server ctx) (cx_description_limit ctx) (vs_tools st)
      = Some (cache, Inr r)" "(case r of Inl problems \<Rightarrow> [] | Inr ts \<Rightarrow> ts) = ts"
    using assms(3) by (auto simp: current_tools_def bind_py_Inr)
  then have "r = Inr ts" using assms(4) by (cases r) auto
  then show ?thesis
    using cached_tools_transparent(1)[OF C(1) _ C(2,3), of "ve_map V" "vs_tools st" "cx_description_limit ctx"] assms(2) run
    by (simp add: caches_ok_def)
qed

definition sent_for ::
  "'u virtual_env \<Rightarrow> call_context \<Rightarrow> 'u virtual_state \<Rightarrow> 'u http_call list \<Rightarrow> bool" where
  "sent_for V ctx st calls \<longleftrightarrow>
     (\<exists>ts t arguments.
        openapi_tools (ve_map V) (cx_server ctx) (cx_description_limit ctx) None = ret (Inr ts) \<and> t \<in> set ts \<and>
        calls = cu_calls (run_tool V t arguments ctx st))"

lemma tools_call_calls:
  assumes "context_ok S ctx" "caches_ok V S st" "h_tools_call V rid params ctx stateless st = Some (st', r)"
  shows "\<exists>calls. vs_calls st' = vs_calls st @ calls \<and> (calls = [] \<or> sent_for V ctx st calls)"
proof (cases "vs_calls st' = vs_calls st")
  case False
  then obtain name arguments where p: "jget params ''name'' = JStr name" "jget_or params ''arguments'' (JObj []) = JObj arguments"
    using assms(3) by (auto simp: h_tools_call_def split: json.splits)
  from assms(3) obtain r' where "dispatch_tool_call V name arguments ctx st = Some (st', r')"
    by (auto simp: h_tools_call_def p)
  then obtain st1 tools where cur: "current_tools V ctx st = Some (st1, tools)"
    and st': "st' = fst (call_found V name arguments ctx tools st1)"
    by (auto simp: dispatch_found intro: fst_conv[symmetric])
  have same: "vs_calls st1 = vs_calls st" using current_tools_calls[OF cur] .
  then obtain ts t where t: "tools = Inr ts" "find (\<lambda>t. td_name (tl_definition t) = name) ts = Some t"
    using False st' by (auto simp: call_found_calls split: sum.splits option.splits)
  have "t \<in> set ts" using t(2) by (auto simp: find_Some_iff)
  moreover have "run_tool V t arguments ctx st1 = run_tool V t arguments ctx st"
    using cur by (auto simp: current_tools_def run_tool_def)
  ultimately have "sent_for V ctx st (cu_calls (run_tool V t arguments ctx st1))"
    unfolding sent_for_def using current_tools_fresh[OF assms(1,2) cur[unfolded t(1)]] by metis
  then show ?thesis using st' t same by (auto simp: call_found_calls)
qed simp

lemma handle_request_calls:
  assumes ok: "context_ok S ctx" "caches_ok V S st"
    and run: "handle_request V body ctx header st = Some (st', r)"
  shows "\<exists>calls. vs_calls st' = vs_calls st @ calls \<and> (calls = [] \<or> sent_for V ctx st calls)"
proof (cases "vs_calls st' = vs_calls st")
  case False
  then have "\<exists>message mth. parse_message V body = Inr (JObj message) \<and> jget message ''method'' = JStr mth"
    using handle_request_refused[of V body ctx header] run by fastforce
  then obtain message mth where m: "parse_message V body = Inr (JObj message)" "jget message ''method'' = JStr mth"
    by blast
  then have "handle_message V message mth ctx header st = Some (st', r)" using run by (simp add: handle_request_def)
  then obtain rid params where "handle_call V mth rid params ctx header st = Some (st', r)"
    using False by (auto simp: handle_message_def split: option.splits if_splits json.splits)
  then obtain h where h: "map_of HANDLERS mth = Some h"
    and "guarded V rid mth (h V rid params ctx (is_stateless header (meta_version params)) st) = Some (st', r)"
    using False by (auto simp: handle_call_def Let_def split: option.splits if_splits)
  then obtain r' where r': "h V rid params ctx (is_stateless header (meta_version params)) st = Some (st', r')"
    by (auto simp: guarded_def)
  then have "mth = ''tools/call''" using quiet_handlers[OF h] False by blast
  then have "h = h_tools_call" using h by (simp add: HANDLERS_def)
  then show ?thesis using tools_call_calls[OF ok] r' by blast
qed simp

text \<open>The tools of a server, their plans and their names.\<close>

lemma openapi_tools_safe:
  assumes "openapi_tools M server limit None = ret (Inr ts)" "t \<in> set ts"
    and "\<And>s. srv_openapi_snapshot server = Some s \<Longrightarrow> distinct_paths M (os_document s) (os_dialect s)"
  shows "tl_key t \<in> set (selection_of server)" "tool_name_ok (td_name (tl_definition t))" "plan_safe (tl_plan t)"
    "rp_method (tl_plan t) \<noteq> ''TRACE''"
proof -
  obtain s where s: "srv_openapi_snapshot server = Some s"
    using assms(1,2) by (cases "srv_openapi_snapshot server") (auto simp: openapi_tools_def)
  then have "build_tools M (os_document s) (os_dialect s) (selection_of server) (overrides_of server) limit = ret (Inr ts)"
    using assms(1) by (simp add: openapi_tools_def)
  from build_tools_ret(2)[OF this assms(3)[OF s]] assms(2)
  show "tl_key t \<in> set (selection_of server)" "tool_name_ok (td_name (tl_definition t))" "plan_safe (tl_plan t)"
    "rp_method (tl_plan t) \<noteq> ''TRACE''"
    by blast+
qed

text \<open>A name that is no tool of the server is answered in one way, whether the document has it or not.\<close>

lemma unknown_tool:
  assumes "current_tools V ctx st = Some (st1, Inr ts)" "name \<notin> (\<lambda>t. td_name (tl_definition t)) ` set ts"
    and "jget params ''name'' = JStr name" "jget_or params ''arguments'' (JObj []) = JObj arguments"
  shows "h_tools_call V rid params ctx stateless st =
           Some (st1, fail_reply V 200 rid INVALID_PARAMS (''Unknown tool: '' @ name) ''tools/call'')"
proof -
  have "find (\<lambda>t. td_name (tl_definition t) = name) ts = None" using assms(2) by (auto simp: find_None_iff)
  then show ?thesis
    using assms by (simp add: h_tools_call_def dispatch_tool_call_def call_reply_def)
qed

section \<open>Strict parsing\<close>

text \<open>No object of the text repeats a key and no number is infinite or a constant.\<close>

fun strict :: "(string \<Rightarrow> rat option) \<Rightarrow> string raw_json \<Rightarrow> bool" where
  "strict float (Raw_list xs) = list_all (strict float) xs"
| "strict float (Raw_obj ps) = (distinct (map fst ps) \<and> list_all (\<lambda>p. strict float (snd p)) ps)"
| "strict float (Raw_float t) = (float t \<noteq> None)"
| "strict float (Raw_constant t) = False"
| "strict float (Raw_error e) = False"
| "strict float _ = True"

lemma hooked_strict:
  "hooked float v = Inr w \<Longrightarrow> strict float v"
  "hooked_list float vs = Inr ws \<Longrightarrow> list_all (strict float) vs"
  "hooked_pairs float ps = Inr qs \<Longrightarrow> list_all (\<lambda>p. strict float (snd p)) ps \<and> map fst qs = map fst ps"
  by (induction float v and float vs and float ps arbitrary: w and ws and qs rule: hooked_hooked_list_hooked_pairs.induct)
     (auto simp: no_duplicates_def not_json_def finite_number_def repeated_key_None split: sum.splits option.splits)

lemma strict_hooked:
  "strict float v \<Longrightarrow> \<exists>w. hooked float v = Inr w"
  "list_all (strict float) vs \<Longrightarrow> \<exists>ws. hooked_list float vs = Inr ws"
  "list_all (\<lambda>p. strict float (snd p)) ps \<Longrightarrow> \<exists>qs. hooked_pairs float ps = Inr qs \<and> map fst qs = map fst ps"
  by (induction float v and float vs and float ps rule: hooked_hooked_list_hooked_pairs.induct)
     (auto simp: no_duplicates_def not_json_def finite_number_def dest: not_repeated split: sum.splits option.splits)

lemma loose_message_refused:
  assumes "\<not> strict (ve_float V) (ve_parse V (if body = [] then ''null'' else body))"
  shows "\<exists>err. handle_request V body ctx header st =
           Some (st, fail_reply V 400 JNull PARSE_ERROR (''invalid JSON: '' @ err) [])"
proof -
  obtain e where "parse_message V body = Inl e"
    using assms hooked_strict(1) unfolding parse_message_def by (metis sum.exhaust_sel)
  then show ?thesis by (intro exI[where x = e]) (simp add: handle_request_def)
qed

end
