(* ===== verification/Health.thy ===== *)
theory Health
  imports Registry Stateless Trace
begin

text \<open>
  \<^verbatim>\<open>health/\<close>: the health URL, the parser of a health document, the probe of one server and the
  decision whether to unregister it.

  The checker reads the outside world through \<open>health_env\<close>: the HTTP client, the SDK's ping and
  the stdio pool's, the clock and the outcome of a write to storage. It changes the registry's
  storage, the token caches and the trace, which \<open>health_state\<close> holds. The checker is written
  against the registry's contract, so its lemmas are proved once in the locale
  \<open>server_registry\<close> and hold for both storages.
\<close>

section \<open>URL and parser\<close>

definition build_health_url :: "string \<Rightarrow> string" where
  "build_health_url mcp_url =
     (let r1 = rstrip_char (CHR ''/'') mcp_url;
          r2 = (if endswith r1 ''/mcp'' then take (length r1 - 4) r1
                else if endswith r1 ''mcp'' then take (length r1 - 3) r1 else r1);
          r3 = rstrip_char (CHR ''/'') r2
      in if \<not> endswith r3 ''/'' then r3 @ ''/health'' else r3 @ ''health'')"

definition HEALTHY_STATUSES :: "string list" where
  "HEALTHY_STATUSES = [''healthy'', ''ok'', ''up'', ''running'', ''active'', ''pass'', ''warn'']"

definition format_uptime :: "rat \<Rightarrow> string" where
  "format_uptime seconds =
     (if seconds \<le> 0 then ''0m''
      else if seconds < 60 then ''< 1 min''
      else
        (let total = \<lfloor>seconds / 60\<rfloor>;
             days = total div (24 * 60);
             rest = total mod (24 * 60);
             hours = rest div 60;
             minutes = rest mod 60
         in if days \<ge> 30 then str_int days @ ''d''
            else join '' ''
              ((if days > 0 then [str_int days @ ''d''] else [])
               @ (if hours > 0 \<or> days > 0 then [str_int hours @ ''h''] else [])
               @ [str_int minutes @ ''m''])))"

record health_response =
  hp_status :: string
  hp_uptime_secs :: rat
  hp_has_status :: bool
  hp_has_uptime :: bool

definition hp_is_healthy :: "health_response \<Rightarrow> bool" where
  "hp_is_healthy r \<longleftrightarrow> hp_has_status r \<and> hp_status r \<in> set HEALTHY_STATUSES"

text \<open>\<open>float(v)\<close>; \<open>float_text\<close> reads a text, \<open>None\<close> for \<open>ValueError\<close>.\<close>

definition py_float :: "(string \<Rightarrow> rat option) \<Rightarrow> json \<Rightarrow> rat option" where
  "py_float float_text v =
     (case v of JStr s \<Rightarrow> float_text s | _ \<Rightarrow> num_of v)"

definition health_parse ::
  "(string \<Rightarrow> string + json) \<Rightarrow> (string \<Rightarrow> rat option) \<Rightarrow> string \<Rightarrow> string \<Rightarrow> string
     \<Rightarrow> health_response py" where
  "health_parse loads float_text status_field uptime_field body =
     (case loads body of
        Inl e \<Rightarrow> Inl (ValueError (''Invalid JSON: '' @ e))
      | Inr (JObj data) \<Rightarrow>
          (let (status, has_status) =
                 (case jget data status_field of
                    JStr s \<Rightarrow> (strip (lower s), True) | _ \<Rightarrow> ([], False));
               up = (if has_key data uptime_field then py_float float_text (jget data uptime_field) else None)
           in Inr \<lparr>hp_status = status, hp_uptime_secs = (case up of Some u \<Rightarrow> u | None \<Rightarrow> 0),
                   hp_has_status = has_status, hp_has_uptime = (up \<noteq> None)\<rparr>)
      | Inr _ \<Rightarrow> Inl (ValueError ''JSON root must be an object''))"

section \<open>Environment and state\<close>

datatype probe_outcome = Probe_ok | Probe_client_error mcp_client_error | Probe_raised string

type_synonym http_get = "string \<Rightarrow> headers \<Rightarrow> headers \<Rightarrow> string + (int \<times> headers \<times> string)"

record health_env =
  he_auth :: auth_env
  he_get :: http_get
  he_post :: "string \<Rightarrow> headers \<Rightarrow> jdict \<Rightarrow> string + (int \<times> string \<times> string)"
  he_ping :: "registered_server \<Rightarrow> probe_outcome"
  he_stdio_ping :: "(registered_server \<Rightarrow> string + unit) option"
  he_loads :: "string \<Rightarrow> string + json"
  he_float_text :: "string \<Rightarrow> rat option"
  he_float_repr :: "rat \<Rightarrow> string"
  he_now :: timestamp
  he_stamps :: "timestamp \<times> timestamp"
  he_io :: bool
  he_duration_ms :: rat
  he_body_limit :: int
  he_ellipsis :: string
  he_failure_threshold :: int
  he_auto_unregister :: bool

record 's health_state =
  hs_store :: 's
  hs_tokens :: token_cache
  hs_obo :: obo_token_cache
  hs_trace :: "trace_entry list"

definition is_rate_limited :: "mcp_client_error \<Rightarrow> bool" where
  "is_rate_limited e \<longleftrightarrow>
     mc_status_code e = Some 429 \<or> contains (mc_message e) ''429''
     \<or> contains (mc_message e) ''Too Many Requests''"

record health_check_result =
  hk_healthy :: bool
  hk_got_404 :: bool
  hk_endpoint_worked :: bool

text \<open>The truncation marker holds characters outside the model's code points: \<open>he_ellipsis\<close>.\<close>

definition trim_trace_body :: "string \<Rightarrow> int \<Rightarrow> string \<Rightarrow> string" where
  "trim_trace_body ellipsis body_limit body =
     (if body_limit \<le> 0 \<or> int (length body) \<le> body_limit then body
      else take (nat body_limit) body @ [CHR 0x0A] @ ellipsis @ ''(truncated)'' @ ellipsis)"

definition service_auth ::
  "health_env \<Rightarrow> headers \<Rightarrow> headers option \<Rightarrow> registered_server \<Rightarrow> 's health_state
     \<Rightarrow> auth_state \<times> auth_error option \<times> 's health_state" where
  "service_auth env hs params srv st =
     (case apply_server_auth (he_auth env) ServiceIdentity
             \<lparr>as_headers = hs, as_params = params, as_server = srv, as_tokens = hs_tokens st,
              as_obo = hs_obo st, as_sent = []\<rparr> of
        (a, e) \<Rightarrow> (a, e, st\<lparr>hs_tokens := as_tokens a, hs_obo := as_obo a\<rparr>))"

definition auth_exc :: "auth_error \<Rightarrow> py_exc" where
  "auth_exc e = (case e of Raised x \<Rightarrow> x | OBOAuthError d n \<Rightarrow> RuntimeError d)"

definition health_entry ::
  "health_env \<Rightarrow> registered_server \<Rightarrow> string \<Rightarrow> headers \<Rightarrow> string + (int \<times> headers \<times> string) \<Rightarrow> trace_entry" where
  "health_entry env srv url hs answer =
     (let verbose = srv_trace_verbose srv;
          (status, rhs, body, err) = (case answer of
             Inl e \<Rightarrow> (0, [], [], e) | Inr (s, h, b) \<Rightarrow> (s, h, b, []))
      in \<lparr>te_timestamp = he_now env, te_server_id = srv_id srv, te_operation = ''health'',
          te_http_method = ''GET'', te_url = url, te_outbound_url = [], te_status = status,
          te_duration_ms = he_duration_ms env, te_error = err,
          te_request_headers = (if verbose then sanitize_trace_headers [] hs else []),
          te_response_headers = (if verbose then sanitize_trace_headers [] rhs else []),
          te_subject = [], te_request_body = [],
          te_response_body = (if verbose \<and> he_body_limit env > 0
                              then trim_trace_body (he_ellipsis env) (he_body_limit env) body else [])\<rparr>)"

text \<open>An exception whose text is empty leaves \<open>error_message\<close> empty, and the status is then 0.\<close>

definition judge_health :: "health_env \<Rightarrow> string + (int \<times> headers \<times> string) \<Rightarrow> health_check_result" where
  "judge_health env answer =
     (let dead = \<lparr>hk_healthy = False, hk_got_404 = False, hk_endpoint_worked = False\<rparr>
      in case answer of
           Inl e \<Rightarrow> dead
         | Inr (status, hs, body) \<Rightarrow>
             if status = 404 then dead\<lparr>hk_got_404 := True\<rparr>
             else if status \<noteq> 200 then dead
             else case health_parse (he_loads env) (he_float_text env) ''status'' ''uptime_seconds'' body of
               Inl e \<Rightarrow> dead\<lparr>hk_endpoint_worked := True\<rparr>
             | Inr parsed \<Rightarrow> \<lparr>hk_healthy = hp_is_healthy parsed, hk_got_404 = False,
                              hk_endpoint_worked = True\<rparr>)"

definition check_service_health ::
  "health_env \<Rightarrow> registered_server \<Rightarrow> 's health_state \<Rightarrow> health_check_result py \<times> 's health_state" where
  "check_service_health env srv st =
     (let url = build_health_url (srv_url srv)
      in case service_auth env [] None srv st of
           (a, Some e, st') \<Rightarrow> (Inl (auth_exc e), st')
         | (a, None, st') \<Rightarrow>
             (let answer = he_get env url (as_headers a) []
              in (Inr (judge_health env answer),
                  st'\<lparr>hs_trace := hs_trace st' @ [health_entry env (as_server a) url (as_headers a) answer]\<rparr>)))"

section \<open>MCP probe\<close>

definition mcp_probe ::
  "health_env \<Rightarrow> registered_server \<Rightarrow> 's health_state \<Rightarrow> probe_outcome \<times> 's health_state" where
  "mcp_probe env srv st =
     (case needs_user_identity srv of
        Inl e \<Rightarrow> (Probe_raised (exc_text e), st)
      | Inr True \<Rightarrow> (Probe_ok, st)
      | Inr False \<Rightarrow>
          if strip (srv_mcp_protocol_version srv) = STATELESS_PROTOCOL_VERSION
          then (case stateless_discover
                       \<lparr>se_auth = he_auth env, se_caller = ServiceIdentity, se_loads = he_loads env,
                        se_float_text = he_float_repr env, se_post = he_post env (srv_url srv)\<rparr>
                       \<lparr>sl_counter = 0, sl_server = Some srv, sl_tokens = hs_tokens st,
                        sl_obo = hs_obo st, sl_posts = []\<rparr> of
                  (r, c) \<Rightarrow>
                    (case r of
                       Inr d \<Rightarrow> Probe_ok
                     | Inl (ClientError e) \<Rightarrow> Probe_client_error e
                     | Inl (AuthFailed e) \<Rightarrow> Probe_raised (exc_text (auth_exc e)),
                     st\<lparr>hs_tokens := sl_tokens c, hs_obo := sl_obo c\<rparr>))
          else (he_ping env srv, st))"

text \<open>Healthy and rate-limited, from the outcome of the fallback probe.\<close>

definition probe_verdict :: "probe_outcome \<Rightarrow> bool \<times> bool" where
  "probe_verdict o' =
     (case o' of
        Probe_ok \<Rightarrow> (True, False)
      | Probe_client_error e \<Rightarrow> if is_rate_limited e then (True, True) else (False, False)
      | Probe_raised s \<Rightarrow> (False, False))"

section \<open>Recording a verdict\<close>

definition new_fails :: "bool \<Rightarrow> registered_server \<Rightarrow> int" where
  "new_fails healthy srv = (if healthy then 0 else srv_consecutive_fails srv + 1)"

definition drops :: "health_env \<Rightarrow> bool \<Rightarrow> registered_server \<Rightarrow> bool" where
  "drops env healthy srv \<longleftrightarrow>
     \<not> healthy \<and> new_fails healthy srv \<ge> he_failure_threshold env \<and> he_auto_unregister env"

definition on_store :: "('s \<Rightarrow> unit py \<times> 's) \<Rightarrow> 's health_state \<Rightarrow> unit py \<times> 's health_state" where
  "on_store f st = (case f (hs_store st) of (r, s) \<Rightarrow> (r, st\<lparr>hs_store := s\<rparr>))"

definition and_then ::
  "unit py \<times> 's health_state \<Rightarrow> ('s health_state \<Rightarrow> unit py \<times> 's health_state) \<Rightarrow> unit py \<times> 's health_state" where
  "and_then p k = (case p of (Inl e, st) \<Rightarrow> (Inl e, st) | (Inr u, st) \<Rightarrow> k st)"

definition write_verdict ::
  "(registered_server, 's) storage_ops \<Rightarrow> health_env \<Rightarrow> registered_server \<Rightarrow> bool \<Rightarrow> bool
     \<Rightarrow> 's health_state \<Rightarrow> unit py \<times> 's health_state" where
  "write_verdict ops env srv healthy rate_limited =
     on_store (reg_update_health_and_uptime ops (he_io env) (he_now env) (he_stamps env) (srv_id srv)
                 healthy (new_fails healthy srv) rate_limited)"

definition set_supports ::
  "(registered_server, 's) storage_ops \<Rightarrow> health_env \<Rightarrow> registered_server \<Rightarrow> bool
     \<Rightarrow> 's health_state \<Rightarrow> unit py \<times> 's health_state" where
  "set_supports ops env srv b =
     on_store (reg_set_supports_health_endpoint ops (he_io env) (he_stamps env) (srv_id srv) b)"

definition drop_if_failing ::
  "(registered_server, 's) storage_ops \<Rightarrow> health_env \<Rightarrow> registered_server \<Rightarrow> bool
     \<Rightarrow> 's health_state \<Rightarrow> unit py \<times> 's health_state" where
  "drop_if_failing ops env srv healthy st =
     (if drops env healthy srv
      then on_store (reg_unregister ops (he_io env) (srv_id srv)) st else (Inr (), st))"

definition finish_check ::
  "(registered_server, 's) storage_ops \<Rightarrow> health_env \<Rightarrow> registered_server \<Rightarrow> bool \<Rightarrow> bool
     \<Rightarrow> 's health_state \<Rightarrow> unit py \<times> 's health_state" where
  "finish_check ops env srv healthy rate_limited st =
     and_then (write_verdict ops env srv healthy rate_limited st) (drop_if_failing ops env srv healthy)"

definition record_probe ::
  "(registered_server, 's) storage_ops \<Rightarrow> health_env \<Rightarrow> registered_server \<Rightarrow> bool \<Rightarrow> bool
     \<Rightarrow> 's health_state \<Rightarrow> unit py \<times> 's health_state" where
  "record_probe ops env srv healthy rate_limited st =
     and_then
       (and_then (write_verdict ops env srv healthy rate_limited st)
          (\<lambda>st. if srv_supports_health_endpoint srv \<noteq> Some False then set_supports ops env srv False st
                else (Inr (), st)))
       (drop_if_failing ops env srv healthy)"

section \<open>One server\<close>

definition check_stdio_server ::
  "(registered_server, 's) storage_ops \<Rightarrow> health_env \<Rightarrow> registered_server
     \<Rightarrow> 's health_state \<Rightarrow> unit py \<times> 's health_state" where
  "check_stdio_server ops env srv st =
     (let healthy = (case he_stdio_ping env of
                       None \<Rightarrow> False
                     | Some ping \<Rightarrow> (case ping srv of Inl e \<Rightarrow> False | Inr u \<Rightarrow> True))
      in record_probe ops env srv healthy False st)"

definition check_openapi_server ::
  "(registered_server, 's) storage_ops \<Rightarrow> health_env \<Rightarrow> registered_server
     \<Rightarrow> 's health_state \<Rightarrow> unit py \<times> 's health_state" where
  "check_openapi_server ops env srv st =
     (case srv_openapi_health_probe srv of
        None \<Rightarrow> (Inr (), st)
      | Some probe \<Rightarrow>
          (case service_auth env [(''Accept'', ''application/json'')] (Some []) srv st of
             (a, Some e, st') \<Rightarrow> record_probe ops env (as_server a) False False st'
           | (a, None, st') \<Rightarrow>
               (case he_get env (rstrip_char (CHR ''/'') (srv_openapi_base_url srv) @ or_path probe)
                       (as_headers a) (case as_params a of Some ps \<Rightarrow> ps | None \<Rightarrow> []) of
                  Inl e \<Rightarrow> record_probe ops env (as_server a) False False st'
                | Inr (status, hs, body) \<Rightarrow>
                    record_probe ops env (as_server a)
                      (200 \<le> status \<and> status < 300 \<or> status = 429) (status = 429) st')))"

text \<open>The probe of \<open>/health\<close> on the HTTP path: the verdict so far and what it teaches about the
  endpoint.\<close>

definition health_endpoint_probe ::
  "(registered_server, 's) storage_ops \<Rightarrow> health_env \<Rightarrow> registered_server
     \<Rightarrow> 's health_state \<Rightarrow> bool py \<times> 's health_state" where
  "health_endpoint_probe ops env srv st =
     (if srv_supports_health_endpoint srv = Some False then (Inr False, st)
      else case check_service_health env srv st of
        (Inl e, st1) \<Rightarrow> (Inl e, st1)
      | (Inr result, st1) \<Rightarrow>
          if hk_got_404 result
          then (case set_supports ops env srv False st1 of
                  (Inl e, st2) \<Rightarrow> (Inl e, st2) | (Inr u, st2) \<Rightarrow> (Inr False, st2))
          else if hk_endpoint_worked result \<and> srv_supports_health_endpoint srv = None
          then (case set_supports ops env srv True st1 of
                  (Inl e, st2) \<Rightarrow> (Inl e, st2) | (Inr u, st2) \<Rightarrow> (Inr (hk_healthy result), st2))
          else (Inr (hk_healthy result), st1))"

definition check_single_server ::
  "(registered_server, 's) storage_ops \<Rightarrow> health_env \<Rightarrow> registered_server
     \<Rightarrow> 's health_state \<Rightarrow> unit py \<times> 's health_state" where
  "check_single_server ops env srv st =
     (if is_stdio srv then check_stdio_server ops env srv st
      else if is_openapi srv then check_openapi_server ops env srv st
      else case health_endpoint_probe ops env srv st of
        (Inl e, st1) \<Rightarrow> (Inl e, st1)
      | (Inr True, st1) \<Rightarrow> finish_check ops env srv True False st1
      | (Inr False, st1) \<Rightarrow>
          (case mcp_probe env srv st1 of
             (out, st2) \<Rightarrow>
               finish_check ops env srv (fst (probe_verdict out)) (snd (probe_verdict out)) st2))"

fun check_servers ::
  "(registered_server, 's) storage_ops \<Rightarrow> health_env \<Rightarrow> registered_server list
     \<Rightarrow> 's health_state \<Rightarrow> unit py \<times> 's health_state" where
  "check_servers ops env [] st = (Inr (), st)"
| "check_servers ops env (srv # rest) st =
     and_then (check_single_server ops env srv st) (check_servers ops env rest)"

definition check_all_once ::
  "(registered_server, 's) storage_ops \<Rightarrow> health_env \<Rightarrow> 's health_state \<Rightarrow> unit py \<times> 's health_state" where
  "check_all_once ops env st = check_servers ops env (reg_list ops (hs_store st)) st"

section \<open>Lemmas\<close>

lemma endswith_rstrip: "\<not> suffix ''/'' (rstrip_char (CHR ''/'') s)"
proof
  assume a: "suffix ''/'' (rstrip_char (CHR ''/'') s)"
  then have "rstrip_char (CHR ''/'') s \<noteq> []" by auto
  from rstrip_if_last[OF this] a show False by (auto simp: suffix_def)
qed

text \<open>The second branch of the last conditional is never taken: nothing ends in a slash after
  \<open>rstrip\<close>.\<close>

lemma build_health_url_suffix:
  "\<exists>base. build_health_url u = base @ ''/health'' \<and> \<not> endswith base ''/''"
  using endswith_rstrip by (simp add: build_health_url_def Let_def)

lemma and_then_Inr: "and_then p k = (Inr u, st) \<Longrightarrow> \<exists>st1. p = (Inr (), st1) \<and> k st1 = (Inr u, st)"
  by (auto simp: and_then_def split: prod.splits sum.splits)

context server_registry
begin

lemma write_verdict_get:
  assumes "inv (hs_store st)" "he_io env" "reg_get ops (hs_store st) (srv_id srv) = Some stored"
  shows "\<exists>s'. write_verdict ops env srv h rl st = (Inr (), st\<lparr>hs_store := s'\<rparr>) \<and> inv s' \<and>
           reg_get ops s' (srv_id srv) =
             Some ((health_fields (he_now env) h (new_fails h srv) rl stored)
                     \<lparr>srv_updated_at := Some (fst (he_stamps env))\<rparr>)"
proof -
  obtain r s' where u: "reg_update_health_and_uptime ops True (he_now env) (he_stamps env) (srv_id srv)
      h (new_fails h srv) rl (hs_store st) = (r, s')" by (metis surj_pair)
  have "r = Inr ()"
    using modify_succeeds[OF assms(1,3)] u by (metis fst_conv reg_update_health_and_uptime_def)
  moreover have "inv s'"
    using modify_inv[OF assms(1)] u by (metis reg_update_health_and_uptime_def snd_conv)
  ultimately show ?thesis
    using update_health_get[OF assms(1,3) u] u assms(2)
    by (intro exI[of _ s']) (simp add: write_verdict_def on_store_def)
qed

lemma drop_if_failing_get:
  assumes "inv (hs_store st)" "he_io env" "reg_get ops (hs_store st) (srv_id srv) = Some v"
  shows "\<exists>s'. drop_if_failing ops env srv h st = (Inr (), st\<lparr>hs_store := s'\<rparr>) \<and> inv s' \<and>
           reg_get ops s' (srv_id srv) = (if drops env h srv then None else Some v)"
proof (cases "drops env h srv")
  case True
  obtain r s' where u: "op_unregister ops True (srv_id srv) (hs_store st) = (r, s')" by (metis surj_pair)
  have a: "abs (hs_store st) (srv_id srv) = Some v" using assms(1,3) by (simp add: reg_get_def get_abs)
  show ?thesis
    using True u unregister_abs[OF assms(1) a u] get_after_unregister[OF assms(1) u] assms(2)
    by (intro exI[of _ s']) (simp add: drop_if_failing_def on_store_def reg_unregister_def reg_get_def)
next
  case False
  then show ?thesis using assms by (intro exI[of _ "hs_store st"]) (simp add: drop_if_failing_def)
qed

text \<open>The verdict on the HTTP path reaches the registry: the failure counter is reset or raised by
  one, and the server is gone exactly when it failed often enough and the operator asked for it.\<close>

lemma finish_check_get:
  assumes "inv (hs_store st)" "he_io env" "reg_get ops (hs_store st) (srv_id srv) = Some stored"
    and "finish_check ops env srv h rl st = (r, st')"
  shows "r = Inr () \<and> inv (hs_store st') \<and>
    reg_get ops (hs_store st') (srv_id srv) =
      (if drops env h srv then None
       else Some ((health_fields (he_now env) h (new_fails h srv) rl stored)
                    \<lparr>srv_updated_at := Some (fst (he_stamps env))\<rparr>))"
proof -
  obtain s1 where s1: "write_verdict ops env srv h rl st = (Inr (), st\<lparr>hs_store := s1\<rparr>)" "inv s1"
    "reg_get ops s1 (srv_id srv) = Some ((health_fields (he_now env) h (new_fails h srv) rl stored)
                     \<lparr>srv_updated_at := Some (fst (he_stamps env))\<rparr>)" (is "_ = Some ?v")
    using write_verdict_get[OF assms(1-3)] by blast
  have "\<exists>s'. drop_if_failing ops env srv h (st\<lparr>hs_store := s1\<rparr>) = (Inr (), st\<lparr>hs_store := s1\<rparr>\<lparr>hs_store := s'\<rparr>) \<and>
           inv s' \<and> reg_get ops s' (srv_id srv) = (if drops env h srv then None else Some ?v)"
    using drop_if_failing_get[of "st\<lparr>hs_store := s1\<rparr>" env srv ?v h] s1 assms(2) by simp
  then show ?thesis
    using assms(4) s1(1) by (auto simp: finish_check_def and_then_def)
qed

end

text \<open>A server no service credential can probe passes its MCP probe, reachable or not.\<close>

lemma mcp_probe_user_only:
  "needs_user_identity srv = Inr True \<Longrightarrow> mcp_probe env srv st = (Probe_ok, st)"
  by (simp add: mcp_probe_def)

lemma probe_verdict_429:
  "is_rate_limited e \<Longrightarrow> probe_verdict (Probe_client_error e) = (True, True)"
  by (simp add: probe_verdict_def)

end
