(* ===== verification/Deployment.thy ===== *)
theory Deployment
  imports Constants Proxy Health Jsonrpc Tool_Schemas Request_Builder Import_Jobs Openapi_Refs Jwt_Auth Ssrf
begin

text \<open>
  Concrete data: one server that delegates, one user, one identity provider, one key set, one
  storage file and one request. The evaluated instances of the properties run on them.
\<close>

section \<open>A concrete deployment\<close>

definition demo_server :: registered_server where
  "demo_server = (new_server ''s1'' ''https://b.example'')
     \<lparr>srv_auth_type := AT_obo, srv_oauth_token_url := ''https://idp/token'',
      srv_oauth_client_id := ''hub'', srv_oauth_client_secret := ''pw'',
      srv_bearer_token := ''stale'', srv_required_scope := ''s1:call''\<rparr>"

definition alice :: principal where
  "alice = (named_principal ''alice'')
     \<lparr>pr_issuer := ''idp'', pr_token := ''at'', pr_scopes := [''s1:call'']\<rparr>"

definition demo_env :: "string + token_response \<Rightarrow> auth_env" where
  "demo_env answer =
     \<lparr>ae_post = (\<lambda>url form. answer), ae_claims_of = (\<lambda>a. Inl ''unreadable''), ae_b64 = (\<lambda>s. s),
      ae_float_text = (\<lambda>r. ''0.5''), ae_form_text = (\<lambda>v. []), ae_token_lookup_at = 0,
      ae_token_store_at = 0, ae_obo_lookup_at = 0, ae_obo_store_at = 0\<rparr>"

definition demo_state :: auth_state where
  "demo_state =
     \<lparr>as_headers = [], as_params = None, as_server = demo_server, as_tokens = [],
      as_obo = new_obo_cache 4, as_sent = []\<rparr>"

definition idp_answer :: "string + token_response" where
  "idp_answer = Inr \<lparr>tr_status = 200, tr_json = Inr (JObj [(''access_token'', JStr ''tok'')]),
                     tr_status_error = []\<rparr>"

lemmas demo_defs = demo_server_def alice_def demo_env_def demo_state_def idp_answer_def
  named_principal_def new_obo_cache_def

lemmas auth_eval = apply_server_auth_def apply_obo_auth_def can_act_as_obo_subject_def
  oauth_token_endpoint_def obo_exchange_def cached_fetch_def cache_token_def cache_lookup_def
  exchange_token_def read_exchange_def obo_failure_def set_header_def exchange_error_def
  exchange_error_summary_def obo_exchange_request_def

lemma demo_exchange:
  "read_exchange fr idp_answer =
     Inr \<lparr>xt_access_token = ''tok'', xt_expires_in = coerce_expires_in JNull,
          xt_issued_token_type = str_or_empty fr JNull, xt_scope = str_or_empty fr JNull\<rparr>"
  by (simp add: read_exchange_def idp_answer_def jget_def)

lemma demo_delegation_succeeds:
  "snd (apply_obo_auth (demo_env idp_answer) alice
          \<lparr>as_headers = [], as_params = None, as_server = demo_server, as_tokens = [],
           as_obo = new_obo_cache 4, as_sent = []\<rparr>) = None"
  by (simp add: apply_obo_auth_def demo_server_def alice_def named_principal_def can_act_as_obo_subject_def
      oauth_token_endpoint_def obo_exchange_def cached_fetch_def cache_token_def cache_lookup_def
      new_obo_cache_def exchange_token_def obo_exchange_request_def demo_env_def demo_exchange new_server_def
      Let_def)

definition demo_id_jag :: id_jag_request where
  "demo_id_jag =
     \<lparr>ir_idp_token_url = ''https://idp/token'', ir_resource_as_token_url = ''https://as/token'',
      ir_resource_as_issuer = ''https://as'', ir_resource_id = ''res'', ir_client_id = ''hub'',
      ir_client_secret = ''pw'', ir_subject_token = ''at'', ir_subject_token_type = ACCESS_TOKEN_TYPE,
      ir_scope = []\<rparr>"

definition demo_id_jag_post :: token_endpoint where
  "demo_id_jag_post url form =
     Inr \<lparr>tr_status = 200,
          tr_json = Inr (JObj [(''issued_token_type'', JStr ID_JAG_TOKEN_TYPE), (''access_token'', JStr ''jag'')]),
          tr_status_error = []\<rparr>"

definition demo_claims :: "string \<Rightarrow> string + jdict" where
  "demo_claims a = Inr [(''resource'', JStr ''res'')]"

lemmas id_jag_eval = demo_id_jag_def demo_id_jag_post_def demo_claims_def exchange_for_access_token_def
  request_id_jag_def read_leg_def verify_resource_claim_def redeem_id_jag_def jget_def str_or_empty_def
  ID_JAG_TOKEN_TYPE_def Let_def

definition key_a :: obo_cache_key where
  "key_a = \<lparr>ck_subject = ''alice'', ck_issuer = ''idp'', ck_server_id = ''s1'', ck_audience = [],
            ck_scope = [], ck_resource = [], ck_flow = ''obo''\<rparr>"

definition key_b :: obo_cache_key where
  "key_b = key_a\<lparr>ck_subject := ''bob''\<rparr>"

definition demo_token :: exchanged_token where
  "demo_token = \<lparr>xt_access_token = ''tok'', xt_expires_in = 3600, xt_issued_token_type = [], xt_scope = []\<rparr>"

text \<open>A miss, the exchange it starts, and a hit.\<close>

definition demo_cache_run :: cache_system where
  "demo_cache_run =
     \<lparr>cs_cache = \<lparr>oc_entries = [(key_a, \<lparr>ce_token = ''tok'', ce_expires_at = microseconds 3600\<rparr>)],
                  oc_max_entries = 2\<rparr>,
      cs_now = 0, cs_pending = [], cs_issued = [(key_a, demo_token, None)],
      cs_answers = [(key_a, ''tok'', 0, True), (key_a, ''tok'', 0, False)]\<rparr>"

lemma demo_cache_run_reachable: "cache_reachable 2 0 demo_cache_run"
proof -
  let ?s0 = "cache_start 2 0"
  let ?s1 = "?s0\<lparr>cs_cache := new_obo_cache 2, cs_pending := [(key_a, None)]\<rparr>"
  let ?s2 = "?s1\<lparr>cs_cache := cache_store 0 key_a demo_token None (new_obo_cache 2), cs_pending := [],
                 cs_issued := [(key_a, demo_token, None)], cs_answers := [(key_a, ''tok'', 0, False)]\<rparr>"
  have "cache_step ?s0 ?s1"
    using cache_step.miss[of ?s0 key_a "new_obo_cache 2" None]
    by (simp add: cache_start_def cache_lookup_def new_obo_cache_def)
  moreover have "cache_step ?s1 ?s2"
    using cache_step.fetched[of key_a None ?s1 demo_token]
    by (simp add: cache_start_def demo_token_def)
  moreover have "cache_step ?s2 demo_cache_run"
    using cache_step.hit[of ?s2 key_a "cs_cache demo_cache_run" "''tok''"]
    by (simp add: cache_start_def cache_lookup_def new_obo_cache_def cache_store_def move_to_end_def
        expiry_for_def demo_token_def is_live_def demo_cache_run_def EXPIRY_MARGIN_SECONDS_def)
  ultimately show ?thesis by (meson cache_reachable.intros)
qed

definition demo_auth :: auth_config where
  "demo_auth = default_auth_config\<lparr>auth_kind := ''jwt'', jwt_admin_scope := ''admin''\<rparr>"

definition demo_request :: http_request where
  "demo_request =
     \<lparr>rq_method = ''POST'', rq_url = ''/mcp'', rq_path = ''/mcp'', rq_query = [], rq_base_url = ''https://hub'',
      rq_headers = [(''X-MCP-Target-Server'', ''s1''), (''Authorization'', ''Bearer at'')], rq_body = ''{}'',
      rq_principal = Some alice\<rparr>"

lemma s1_call_strip: "strip ''s1:call'' = ''s1:call''" "strip ''admin'' = ''admin''"
  by code_simp+

definition demo_jwt_lib :: "unit jwt_lib" where
  "demo_jwt_lib =
     \<lparr>unverified_header = (\<lambda>t. Some [(''kid'', JStr ''k1'')]),
      jwt_decode = (\<lambda>t k algs aud iss leeway req.
        Some [(''sub'', JStr ''alice''), (''scope'', JStr ''s1:call'')]),
      pyjwk_key = (\<lambda>d. Some ())\<rparr>"

definition demo_strategy :: jwt_strategy where
  "demo_strategy = \<lparr>js_issuer = ''idp'', js_audience = ''hub'', js_algorithms = [''RS256''],
                    js_required_scopes = [], js_leeway = 0\<rparr>"

definition demo_jwks :: jwks_env where
  "demo_jwks = \<lparr>je_now = 1, je_after = 1,
                je_document = Some (JObj [(''keys'', JList [JObj [(''kid'', JStr ''k1'')]])])\<rparr>"

definition jwt_request :: http_request where
  "jwt_request = demo_request\<lparr>rq_headers := [(''Authorization'', ''Bearer at'')]\<rparr>"

lemma presented_eval: "strip ''at'' = ''at''" "lower ''Authorization'' = ''authorization''"
  "lower ''X-MCP-Identity-Assertion'' = ''x-mcp-identity-assertion''"
  by code_simp+

lemmas jwt_eval = jwt_authenticate_def jwt_request_def demo_request_def header_or_empty_def presented_eval
  demo_jwt_lib_def demo_strategy_def demo_jwks_def new_jwks_cache_def key_for_def jwks_lookup_def may_refresh_def
  jwks_refresh_def jwks_parse_def parse_entry_def has_key_def jget_def header_kid_def str_or_empty_def
  identity_assertion_for_def IDENTITY_ASSERTION_HEADER_def Let_def

definition demo_jwt_auth :: auth_config where
  "demo_jwt_auth = default_auth_config
     \<lparr>auth_kind := ''jwt'', jwt_issuer := ''idp'', jwt_audience := ''hub'', jwt_jwks_uri := ''https://idp/keys''\<rparr>"

lemma demo_jwt_auth_builds: "\<exists>uri st. build_authenticator demo_jwt_auth = Inr (JWTBearerStrategy uri st)"
proof -
  have "strip ''idp'' = ''idp''" "strip ''hub'' = ''hub''" "strip ''https://idp/keys'' = ''https://idp/keys''"
    "filter (\<lambda>a. \<not> is_asymmetric a) DEFAULT_ALGORITHMS = []" "DEFAULT_ALGORITHMS \<noteq> []"
    by code_simp+
  then show ?thesis
    by (simp add: demo_jwt_auth_def default_auth_config_def build_authenticator_def missing_jwt_fields_def
        new_jwt_strategy_def Let_def)
qed

definition demo_proxy :: proxy_env where
  "demo_proxy =
     \<lparr>pv_loads = (\<lambda>b. Inl ''bad''), pv_dumps = (\<lambda>j. []), pv_brk = (\<lambda>h. True), pv_settings = Some demo_auth,
      pv_body_limit = 10, pv_capture_sse = False, pv_lookup = (\<lambda>i. Some demo_server),
      pv_auth1 = demo_env idp_answer, pv_auth2 = demo_env idp_answer,
      pv_backend1 = (\<lambda>c. Unreachable ''down''), pv_backend2 = (\<lambda>c. Unreachable ''down''), pv_stdio = None,
      pv_openapi = (\<lambda>s c b v caches. ((fst caches, snd caches, []),
        \<lparr>oy_body = [], oy_status_code = 202, oy_error = [], oy_needs_authentication = False\<rparr>, [])),
      pv_now = 0, pv_elapsed = 0\<rparr>"

definition demo_proxy_state :: proxy_state where
  "demo_proxy_state =
     \<lparr>px_tokens = [], px_obo = new_obo_cache 4, px_trace = [], px_calls = [], px_token_requests = []\<rparr>"

lemma target_lower: "lower ''X-MCP-Target-Server'' = ''x-mcp-target-server''"
  by code_simp

definition demo_codec :: codec where
  "demo_codec =
     \<lparr>dump_server = (\<lambda>s. JNull),
      validate_server = (\<lambda>j. Inr (sanitize_for_persistence (stamp_server (5, 5) None demo_server))),
      dump_agent = (\<lambda>a. JNull), validate_agent = (\<lambda>j. Inl (ValueError []))\<rparr>"

definition empty_json :: json_store where
  "empty_json = \<lparr>js_mem = empty_store, js_file = None\<rparr>"

definition demo_health :: health_env where
  "demo_health =
     \<lparr>he_auth = demo_env idp_answer, he_get = (\<lambda>u h p. Inl ''down''), he_post = (\<lambda>u h b. Inl ''down''),
      he_ping = (\<lambda>s. Probe_raised ''down''), he_stdio_ping = None, he_loads = (\<lambda>b. Inl ''bad''),
      he_float_text = (\<lambda>s. None), he_float_repr = (\<lambda>r. []), he_now = 9, he_stamps = (9, 9), he_io = True,
      he_duration_ms = 0, he_body_limit = 10, he_ellipsis = [], he_failure_threshold = 3,
      he_auto_unregister = True\<rparr>"

definition demo_health_state :: "json_store health_state" where
  "demo_health_state =
     \<lparr>hs_store = snd (json_save demo_codec True (5, 5) demo_server empty_json), hs_tokens = [],
      hs_obo = new_obo_cache 4, hs_trace = []\<rparr>"

definition user_only_server :: registered_server where
  "user_only_server = (new_server ''s2'' ''https://c.example'')\<lparr>srv_auth_type := AT_obo\<rparr>"

definition demo_entry :: trace_entry where
  "demo_entry =
     \<lparr>te_timestamp = 0, te_server_id = ''s1'', te_operation = ''proxy'', te_http_method = ''POST'', te_url = [],
      te_outbound_url = [], te_status = 200, te_duration_ms = 0, te_error = [], te_request_headers = [],
      te_response_headers = [], te_subject = ''alice'', te_request_body = [], te_response_body = []\<rparr>"

definition public_ip :: ip_reader where
  "public_ip a = (if a = ''1.2.3.4'' then Some \<lparr>ip_loopback = False, ip_private = False, ip_link_local = False,
     ip_reserved = False, ip_in_private_networks = False\<rparr> else None)"

definition demo_fetch :: "(unit, unit, nat list) fetcher" where
  "demo_fetch cursor s = (Inr [case cursor of None \<Rightarrow> 0 | Some c \<Rightarrow> length c], s)"

definition demo_next :: "nat list \<Rightarrow> string option" where
  "demo_next p = (if Suc (hd p) < 3 then Some (replicate (Suc (hd p)) (CHR ''x'')) else None)"

definition demo_document :: json where
  "demo_document = JObj [(''a'', JObj []), (''b'', JObj [(''$ref'', JStr ''#/a'')])]"

definition demo_plan :: request_plan where
  "demo_plan =
     \<lparr>rp_method = ''GET'', rp_path = ''/p/{id}'',
      rp_parameters = [\<lparr>pp_argument = ''id'', pp_name = ''id'', pp_location = In_path, pp_style = ''simple'',
                        pp_explode = False\<rparr>],
      rp_body = None, rp_output = Out_none\<rparr>"

lemma demo_plan_builds:
  "\<exists>req. build_http_request (\<lambda>r. []) (\<lambda>j. []) demo_plan [(''id'', JStr ''a/b'')] = Inr req"
proof -
  have "path_parts ''/p/{id}'' [] = [Literal ''/p/'', Variable ''id'', Literal []]" by code_simp
  then show ?thesis
    by (simp add: build_http_request_def demo_plan_def build_path_def path_value_def jget_def build_body_def)
qed

end
