(* ===== verification/Shop.thy ===== *)
theory Shop
  imports Virtual_Facts Deployment
begin

text \<open>
  Concrete data for the OpenAPI part: a document with two operations, one of them selected, the server
  that serves it, and an environment that answers its requests.
\<close>

section \<open>A served document\<close>

definition shop_document :: jdict where
  "shop_document =
     [(''openapi'', JStr ''3.0.3''),
      (''info'', JObj [(''title'', JStr ''Shop''), (''version'', JStr ''1'')]),
      (''paths'', JObj
        [(''/orders'', JObj
           [(''get'', JObj
              [(''operationId'', JStr ''list_orders''),
               (''parameters'', JList [JObj
                  [(''name'', JStr ''limit''), (''in'', JStr ''query''),
                   (''schema'', JObj [(''$ref'', JStr ''#/components/schemas/Limit'')])]]),
               (''responses'', JObj [(''200'', JObj [(''description'', JStr ''ok'')])])]),
            (''delete'', JObj
              [(''operationId'', JStr ''drop_orders''),
               (''responses'', JObj [(''200'', JObj [(''description'', JStr ''ok'')])])])])]),
      (''components'', JObj [(''schemas'', JObj
        [(''Limit'', JObj [(''type'', JStr ''integer'')])])])]"

definition shop_map :: map_env where
  "shop_map = \<lparr>me_float_text = (\<lambda>r. ''0.5''), me_unquote = (\<lambda>s. s), me_ellipsis = ''...'', me_re2 = (\<lambda>p. None)\<rparr>"

definition shop_snapshot :: openapi_snapshot where
  "shop_snapshot =
     \<lparr>os_document = shop_document, os_dialect = D30, os_sha256 = ''ab'', os_source_url = [], os_loaded_at = None\<rparr>"

definition shop_ref :: operation_ref where
  "shop_ref = \<lparr>or_method = ''GET'', or_path = ''/orders''\<rparr>"

definition shop_server :: registered_server where
  "shop_server = (new_server ''shop'' ''openapi:shop'')
     \<lparr>srv_transport_kind := TK_openapi, srv_openapi_snapshot := Some shop_snapshot,
      srv_openapi_selection := [shop_ref], srv_openapi_base_url := ''https://shop.example/v1'',
      srv_bearer_token := ''s3cret''\<rparr>"

definition shop_tool :: tool where
  "shop_tool =
     \<lparr>tl_key = \<lparr>ok_method = ''GET'', ok_path = ''/orders''\<rparr>,
      tl_definition =
        \<lparr>td_name = ''list_orders'', td_description = ''GET /orders'',
         td_input_schema =
           [(''type'', JStr ''object''),
            (''properties'', JObj [(''limit'', JObj [(''$ref'', JStr ''#/$defs/Limit'')])]),
            (''additionalProperties'', JBool False),
            (''$defs'', JObj [(''Limit'', JObj [(''type'', JStr ''integer'')])])],
         td_output_schema = None, td_annotations = [(''readOnlyHint'', JBool True)]\<rparr>,
      tl_plan =
        \<lparr>rp_method = ''GET'', rp_path = ''/orders'',
         rp_parameters = [\<lparr>pp_argument = ''limit'', pp_name = ''limit'', pp_location = In_query,
                           pp_style = ''form'', pp_explode = True\<rparr>],
         rp_body = None, rp_output = Out_none\<rparr>\<rparr>"

lemma shop_tools: "openapi_tools shop_map shop_server 100 None = ret (Inr [shop_tool])"
  by code_simp

section \<open>Its environment\<close>

text \<open>A URL is its text and its query.\<close>

type_synonym shop_url = "string \<times> (string \<times> string) list"

definition shop_urls :: "shop_url url_lib" where
  "shop_urls =
     \<lparr>ul_parse = (\<lambda>t. Some (t, [])), ul_join = (\<lambda>u t. Some (t, [])), ul_scheme = (\<lambda>u. ''https''),
      ul_host = (\<lambda>u. takeWhile (\<lambda>c. c \<noteq> CHR ''/'') (drop 8 (fst u))), ul_port = (\<lambda>u. None),
      ul_userinfo = (\<lambda>u. []), ul_params = snd, ul_with_params = (\<lambda>u ps. Some (fst u, ps)), ul_text = fst\<rparr>"

lemma shop_url_laws: "url_laws shop_urls"
  by (simp add: url_laws_def shop_urls_def)

definition shop_response :: upstream_response where
  "shop_response =
     \<lparr>ur_status = 200, ur_headers = [(''content-type'', ''text/plain'')], ur_chunks = [''none''], ur_end = Body_complete\<rparr>"

definition shop_exec :: "shop_url exec_env" where
  "shop_exec =
     \<lparr>ex_urls = shop_urls, ex_auth = demo_env idp_answer, ex_iter_errors = (\<lambda>s v. Some []), ex_ellipsis = ''...'',
      ex_float_text = (\<lambda>r. ''0.5''), ex_compact_dumps = (\<lambda>v. []), ex_loads = (\<lambda>t. Load_value_error),
      ex_dumps = (\<lambda>v. []), ex_b64 = (\<lambda>s. s), ex_charset = (\<lambda>r. None), ex_decode = (\<lambda>c b. Some b),
      ex_utf8 = (\<lambda>b. b), ex_brk = (\<lambda>s. False), ex_general = (\<lambda>r. ''30''),
      ex_ip_of = (\<lambda>s. if s = ''192.0.2.7''
                      then Some \<lparr>ip_loopback = False, ip_private = False, ip_link_local = False,
                                 ip_reserved = False, ip_in_private_networks = False\<rparr> else None),
      ex_dns = (\<lambda>i h. if h = ''shop.example'' then Some [''192.0.2.7''] else None),
      ex_dns_deadline = (\<lambda>i. False), ex_send = (\<lambda>i c. Sent shop_response),
      ex_wire_headers = hc_headers, ex_elapsed = (\<lambda>i. 0), ex_observed = True\<rparr>"

definition shop_limits :: call_limits where
  "shop_limits =
     \<lparr>cl_timeout_seconds = 30, cl_max_response_bytes = 1000, cl_max_redirects = 3, cl_allow_private_networks = False\<rparr>"

definition shop_context :: call_context where
  "shop_context =
     \<lparr>cx_server = shop_server, cx_caller = ServiceIdentity, cx_description_limit = 100, cx_limits = shop_limits\<rparr>"

text \<open>A parser for the one request of the example, and an encoder for its replies.\<close>

definition shop_call :: "string raw_json" where
  "shop_call =
     Raw_obj [(''jsonrpc'', Raw_str ''2.0''), (''id'', Raw_int 7), (''method'', Raw_str ''tools/call''),
       (''params'', Raw_obj [(''name'', Raw_str ''list_orders''), (''arguments'', Raw_obj [(''limit'', Raw_int 5)])])]"

definition shop_env :: "shop_url virtual_env" where
  "shop_env =
     \<lparr>ve_exec = shop_exec, ve_map = shop_map,
      ve_parse = (\<lambda>b. if b = ''call'' then shop_call
                      else if b = ''twice'' then Raw_obj [(''id'', Raw_int 1), (''id'', Raw_int 2)] else Raw_error b),
      ve_float = (\<lambda>t. None),
      ve_encode = (\<lambda>v. case v of JObj d \<Rightarrow> Some (py_repr (\<lambda>r. ''0.5'') (jget d ''id'')) | _ \<Rightarrow> None),
      ve_dumps = (\<lambda>v. [])\<rparr>"

definition shop_state :: "shop_url virtual_state" where
  "shop_state =
     \<lparr>vs_tools = [], vs_specs = [], vs_tokens = [], vs_obo = new_obo_cache 4, vs_sent = [], vs_calls = [],
      vs_exchanges = []\<rparr>"

lemma shop_context_ok: "context_ok {shop_snapshot} shop_context"
  by (simp add: context_ok_def snapshots_ok_def hash_identifies_def upper_refs_def shop_context_def shop_server_def
      shop_ref_def new_server_def) code_simp

lemma shop_caches_ok: "caches_ok shop_env S shop_state"
  by (simp add: caches_ok_def shop_state_def tc.empty_holds sc.empty_holds)

lemma shop_distinct_paths: "distinct_paths shop_map shop_document D30"
  by code_simp

text \<open>The call is sent once and answered.\<close>

lemma shop_handled:
  "\<exists>st' reply. handle_request shop_env ''call'' shop_context [] shop_state = Some (st', Inr reply) \<and>
     length (vs_calls st') = 1 \<and> oy_status_code reply = 200"
proof -
  have "map_option (\<lambda>(st', r). (length (vs_calls st'), case r of Inr x \<Rightarrow> oy_status_code x | Inl e \<Rightarrow> 0))
      (handle_request shop_env ''call'' shop_context [] shop_state) = Some (1, 200)" by code_simp
  then show ?thesis
    by (cases "handle_request shop_env ''call'' shop_context [] shop_state"; cases "snd (the
          (handle_request shop_env ''call'' shop_context [] shop_state))") auto
qed

definition warm_state :: "shop_url virtual_state" where
  "warm_state = shop_state\<lparr>vs_tools := [(tools_key shop_server shop_snapshot 100, Inr [shop_tool])]\<rparr>"

lemma warm_caches_ok: "caches_ok shop_env {shop_snapshot} warm_state"
proof -
  have "upper_refs shop_server" using shop_context_ok by (simp add: context_ok_def shop_context_def)
  moreover have "srv_openapi_snapshot shop_server = Some shop_snapshot" by (simp add: shop_server_def)
  ultimately have entry: "tools_entry shop_map {shop_snapshot} (tools_key shop_server shop_snapshot 100) (Inr [shop_tool])"
    unfolding tools_entry_def using shop_tools by blast
  have "tc.holds shop_map {shop_snapshot} (put_bounded CACHE_SIZE (tools_key shop_server shop_snapshot 100) (Inr [shop_tool]) [])"
    by (rule tc.put_holds[OF tc.empty_holds entry])
  then show ?thesis
    by (simp add: caches_ok_def warm_state_def shop_state_def shop_env_def sc.empty_holds put_bounded_def CACHE_SIZE_def)
qed

definition shop_trimmed :: json where
  "shop_trimmed = (case trimmed_spec (\<lambda>s. s) shop_document D30 [mk_key ''get'' ''/orders''] of
                     Some (Inr v) \<Rightarrow> v | _ \<Rightarrow> JNull)"

end
