(* ===== verification/Hub_Steps.thy ===== *)
theory Hub_Steps
  imports Registration
begin

text \<open>
  The administration of the hub as a transition system: the OpenAPI routes, the registration routes, the import jobs, the
  discovery tasks and the poll of the servers, in any order. A registration is two steps, with any others between them.
\<close>

section \<open>Steps\<close>

record 's hub_state =
  hb_app :: "'s openapi_app"
  hb_prepared :: "registered_server list"        \<comment> \<open>checked, not yet stored\<close>
  hb_background :: "registered_server list"      \<comment> \<open>stored, not yet asked for their tools\<close>

abbreviation hub_registry :: "'s hub_state \<Rightarrow> 's" where
  "hub_registry h \<equiv> ds_registry (ap_discovery (hb_app h))"

definition with_registry :: "'s \<Rightarrow> 's hub_state \<Rightarrow> 's hub_state" where
  "with_registry s h = h\<lparr>hb_app := (hb_app h)\<lparr>ap_discovery := (ap_discovery (hb_app h))\<lparr>ds_registry := s\<rparr>\<rparr>\<rparr>"

definition with_discovery :: "'s discovery_state \<Rightarrow> 's hub_state \<Rightarrow> 's hub_state" where
  "with_discovery d h = h\<lparr>hb_app := (hb_app h)\<lparr>ap_discovery := d\<rparr>\<rparr>"

definition hub_start :: "'s \<Rightarrow> job_store \<Rightarrow> token_cache \<Rightarrow> obo_token_cache \<Rightarrow> 's hub_state" where
  "hub_start s jobs tokens obo =
     \<lparr>hb_app = \<lparr>ap_discovery = \<lparr>ds_registry = s, ds_not_before = [], ds_tokens = tokens, ds_obo = obo\<rparr>,
                ap_jobs = jobs, ap_works = []\<rparr>,
      hb_prepared = [], hb_background = []\<rparr>"

text \<open>Every step has its own environment: clocks, answers and configuration may change, the storage and the loader stay.\<close>

definition openapi_env_of :: "(registered_server, 's) storage_ops \<Rightarrow> loader_env \<Rightarrow> 's openapi_env \<Rightarrow> bool" where
  "openapi_env_of ops L E \<longleftrightarrow> dv_ops (discovery_of E) = ops \<and> im_loader (oe_import E) = L"

inductive hub_step ::
  "(registered_server, 's) storage_ops \<Rightarrow> loader_env \<Rightarrow> 's hub_state \<Rightarrow> 's hub_state \<Rightarrow> bool"
  for ops :: "(registered_server, 's) storage_ops" and L :: loader_env where
  openapi_request: "openapi_env_of ops L E \<Longrightarrow> handle_route E route request (hb_app h) = Some (res, app') \<Longrightarrow>
    hub_step ops L h (h\<lparr>hb_app := app'\<rparr>)"
| import_job: "openapi_env_of ops L E \<Longrightarrow> run_job E job_id (hb_app h) = Some app' \<Longrightarrow> hub_step ops L h (h\<lparr>hb_app := app'\<rparr>)"
| poll: "dv_ops D = ops \<Longrightarrow> poll_once D (ap_discovery (hb_app h)) = Some (failed, d) \<Longrightarrow> hub_step ops L h (with_discovery d h)"
| prepare: "dv_ops (v1_discovery V) = ops \<Longrightarrow> prepare_route V route request (hub_registry h) = Inr server \<Longrightarrow>
    hub_step ops L h (h\<lparr>hb_prepared := hb_prepared h @ [server]\<rparr>)"
| commit: "dv_ops (v1_discovery V) = ops \<Longrightarrow> server \<in> set (hb_prepared h) \<Longrightarrow>
    commit_registration V server (hub_registry h) = (reply, task, s') \<Longrightarrow>
    hub_step ops L h ((with_registry s' h)\<lparr>hb_prepared := remove1 server (hb_prepared h),
      hb_background := hb_background h @ (case task of None \<Rightarrow> [] | Some t \<Rightarrow> [t])\<rparr>)"
| background: "dv_ops (v1_discovery V) = ops \<Longrightarrow> server \<in> set (hb_background h) \<Longrightarrow>
    background_discover V server (ap_discovery (hb_app h)) = Some d \<Longrightarrow>
    hub_step ops L h ((with_discovery d h)\<lparr>hb_background := remove1 server (hb_background h)\<rparr>)"
| unregister: "dv_ops (v1_discovery V) = ops \<Longrightarrow> unregister_server V i request (hub_registry h) = (reply, s') \<Longrightarrow>
    hub_step ops L h (with_registry s' h)"

inductive hub_reachable ::
  "(registered_server, 's) storage_ops \<Rightarrow> loader_env \<Rightarrow> 's \<Rightarrow> 's hub_state \<Rightarrow> bool"
  for ops :: "(registered_server, 's) storage_ops" and L :: loader_env and s0 :: 's where
  start: "hub_reachable ops L s0 (hub_start s0 jobs tokens obo)"
| step: "hub_reachable ops L s0 h \<Longrightarrow> hub_step ops L h h' \<Longrightarrow> hub_reachable ops L s0 h'"

inductive_cases hub_stepE: "hub_step ops L h h'"

section \<open>Checked documents\<close>

definition from_loader :: "loader_env \<Rightarrow> openapi_snapshot \<Rightarrow> bool" where
  "from_loader L s \<longleftrightarrow>
     (\<exists>spec. spec_loaded L spec \<and> os_document s = ls_document spec \<and> os_dialect s = ls_dialect spec \<and>
             os_sha256 s = ls_sha256 spec)"

text \<open>Only OpenAPI servers have documents, and each was loaded.\<close>

fun docs_ok :: "loader_env \<Rightarrow> transport_kind \<times> openapi_snapshot option \<times> openapi_snapshot option \<Rightarrow> bool" where
  "docs_ok L (kind, live, pending) \<longleftrightarrow>
     (\<forall>s. live = Some s \<or> pending = Some s \<longrightarrow> kind = TK_openapi \<and> from_loader L s)"

lemma load_request_loaded: "load_request E r = Inr spec \<Longrightarrow> spec_loaded (im_loader E) spec"
  using load_spec_ok by (fastforce simp: load_request_def load_spec_from_url_def split: if_splits sum.splits)

lemma snapshot_from_loader: "spec_loaded L spec \<Longrightarrow> from_loader L (snapshot_of now url spec)"
  by (auto simp: from_loader_def snapshot_of_def)

lemma spec_view_docs: "spec_view s = spec_view t \<Longrightarrow> doc_view s = doc_view t"
  by (simp add: spec_view_def doc_view_def)

lemma served_view_docs: "served_view s = served_view t \<Longrightarrow> doc_view s = doc_view t"
  by (simp add: served_view_def doc_view_def)

lemma updated_server_pending:
  "updated_server existing r snapshot = (s, outcome) \<Longrightarrow>
     srv_openapi_pending s = srv_openapi_pending existing \<or> srv_openapi_pending s = Some snapshot"
proof -
  let ?u = "with_choices (sent r) (rq_selection r) (rq_overrides r) (rq_health_probe r) (settings_update r existing)"
  have "spec_view ?u = spec_view existing" by (simp only: with_choices_keeps settings_update_keeps)
  then have u: "srv_openapi_pending ?u = srv_openapi_pending existing" unfolding spec_view_def by simp
  assume "updated_server existing r snapshot = (s, outcome)"
  then show ?thesis using u by (auto simp: updated_server_def Let_def split: option.splits if_splits)
qed

context server_registry
begin

definition documented :: "loader_env \<Rightarrow> 's \<Rightarrow> bool" where
  "documented L s \<longleftrightarrow> inv s \<and> (\<forall>k e. reg_get ops s k = Some e \<longrightarrow> docs_ok L (doc_view e))"

lemma documented_get: "documented L s \<Longrightarrow> reg_get ops s k = Some e \<Longrightarrow> docs_ok L (doc_view e)"
  by (simp add: documented_def)

lemma kept_documented:
  assumes "documented L s" "health_kept V s s'" "\<forall>v \<in> V. docs_ok L v"
  shows "documented L s'"
proof -
  have "docs_ok L (doc_view e)" if "reg_get ops s' k = Some e" for k e
  proof -
    from assms(2) that have "map_option doc_view (reg_get ops s k) = Some (doc_view e) \<or> doc_view e \<in> V"
      unfolding health_kept_def by (metis (no_types, lifting) imageE option.inject option.simps(9))
    then show ?thesis
    proof
      assume "map_option doc_view (reg_get ops s k) = Some (doc_view e)"
      then obtain z where "reg_get ops s k = Some z" "doc_view z = doc_view e" by auto
      then show ?thesis using documented_get[OF assms(1)] by metis
    qed (use assms(3) in blast)
  qed
  then show ?thesis using assms(2) by (simp add: documented_def health_kept_def)
qed

lemma stores_only_documented:
  assumes "documented L s" "stores_only server s s'" "docs_ok L (doc_view server)"
  shows "documented L s'"
proof -
  have "docs_ok L (doc_view e)" if "reg_get ops s' k = Some e" for k e
  proof (cases "reg_get ops s' k = reg_get ops s k")
    case True
    then show ?thesis using documented_get[OF assms(1)] that by simp
  next
    case False
    then obtain e' where "reg_get ops s' k = Some e'" "served_view e' = served_view server"
      using assms(2) unfolding stores_only_def by blast
    then show ?thesis using that assms(3) served_view_docs[of e' server] by simp
  qed
  then show ?thesis using assms(2) by (simp add: documented_def stores_only_def)
qed

lemma store_server_documented:
  assumes "dv_ops D = ops" "documented L (ds_registry st)" "docs_ok L (doc_view server)" "store_server D server st = (e, st')"
  shows "documented L (ds_registry st')"
proof -
  have i: "inv (ds_registry st)" using assms(2) by (simp add: documented_def)
  show ?thesis
    using assms(2,3) store_server_get[OF assms(1) i assms(4)] by (auto simp: documented_def)
qed

lemma discover_documented:
  assumes "dv_ops D = ops" "documented L (ds_registry st)" "docs_ok L (doc_view server)"
    and "discover_immediately D timeout server st = Some (e, st')"
  shows "documented L (ds_registry st')"
proof -
  have i: "inv (ds_registry st)" using assms(2) by (simp add: documented_def)
  have "health_kept {doc_view server} (ds_registry st) (ds_registry st')"
    by (rule discover_immediately_kept[OF assms(1) i assms(4)]) simp
  from kept_documented[OF assms(2) this] assms(3) show ?thesis by simp
qed

lemma poll_documented:
  assumes "dv_ops D = ops" "documented L (ds_registry st)" "poll_once D st = Some (failed, st')"
  shows "documented L (ds_registry st')"
proof -
  have i: "inv (ds_registry st)" using assms(2) by (simp add: documented_def)
  have "docs_ok L v" if "v \<in> doc_view ` set (reg_list ops (ds_registry st))" for v
    using that assms(2) i list_complete by (auto simp: reg_list_def reg_get_def documented_def)
  with kept_documented[OF assms(2) poll_once_kept[OF assms(1) i assms(3)]] show ?thesis by blast
qed

lemma unregister_documented:
  assumes "documented L s" "reg_unregister ops io k s = (r, s')"
  shows "documented L s'"
proof -
  have i: "inv s" using assms(1) by (simp add: documented_def)
  have run: "op_unregister ops io k s = (r, s')" using assms(2) by (simp add: reg_unregister_def)
  have "inv s'" using unregister_inv[OF i, of io k] run by simp
  then show ?thesis
    using assms(1) get_after_unregister[OF i run] by (auto simp: documented_def reg_get_def split: if_splits)
qed

section \<open>Import jobs\<close>

lemma store_import_documented:
  assumes "dv_ops D = ops" "documented L (ds_registry st)" "from_loader L snapshot"
    and "store_import D r snapshot st = Some (res, st')"
  shows "documented L (ds_registry st')"
proof -
  have i: "inv (ds_registry st)" using assms(2) by (simp add: documented_def)
  have stored: "documented L (ds_registry st')"
    if "is_openapi server" "docs_ok L (doc_view server)" "register_checked D server out st = Some (res, st')" for server out
    using stores_only_documented[OF assms(2) register_checked_stores(1)[OF assms(1) i that(1,3)] that(2)] .
  show ?thesis
  proof (cases "reg_get ops (ds_registry st) (rq_id r)")
    case None
    note new = new_openapi_server_view[of "dv_now D" r snapshot]
    have "srv_openapi_pending (new_openapi_server (dv_now D) r snapshot) = None"
      by (rule new(4))
    then have "docs_ok L (doc_view (new_openapi_server (dv_now D) r snapshot))"
      using new assms(3) by (simp add: doc_view_def is_openapi_def)
    from stored[OF new(2) this] show ?thesis using assms(1,4) None by (simp add: store_import_def)
  next
    case (Some existing)
    note docs = documented_get[OF assms(2) Some]
    show ?thesis
    proof (cases "is_openapi existing")
      case True
      obtain server out where u: "updated_server existing r snapshot = (server, out)" by fastforce
      note view = updated_server_view[OF u]
      have "is_openapi server" using view(2) True by (simp add: is_openapi_def)
      moreover have "docs_ok L (doc_view server)"
      proof -
        have "from_loader L x" if "srv_openapi_snapshot server = Some x \<or> srv_openapi_pending server = Some x" for x
          using that view(3) docs assms(3) updated_server_pending[OF u]
          by (auto simp: doc_view_def split: option.splits if_splits)
        then show ?thesis using calculation by (auto simp: doc_view_def is_openapi_def)
      qed
      ultimately show ?thesis
        using stored assms(1,4) Some True u by (simp add: store_import_def)
    next
      case False
      then show ?thesis using assms(1,2,4) Some by (simp add: store_import_def)
    qed
  qed
qed

lemma run_import_documented:
  assumes "dv_ops (im_discovery E) = ops" "documented (im_loader E) (ds_registry st)" "run_import E r st = Some (res, st')"
  shows "documented (im_loader E) (ds_registry st')"
proof (cases "load_request E r")
  case (Inl e)
  then show ?thesis using assms(2,3) by (simp add: run_import_def)
next
  case (Inr spec)
  then have "store_import (im_discovery E) r (snapshot_of (dv_now (im_discovery E)) (rq_spec_url r) spec) st = Some (res, st')"
    using assms(3) by (simp add: run_import_def)
  from store_import_documented[OF assms(1,2) snapshot_from_loader[OF load_request_loaded[OF Inr]] this] show ?thesis .
qed

end

section \<open>Routes\<close>

lemma submit_import_discovery: "ap_discovery (snd (submit_import E r app)) = ap_discovery app"
  by (simp add: submit_import_def Let_def split: prod.split option.split)

text \<open>Five of the routes leave the registry as it is.\<close>

lemma reading_routes:
  "start_import E request app = Some (res, app') \<Longrightarrow> ap_discovery app' = ap_discovery app"
  "get_import E i request app = Some (res, app') \<Longrightarrow> ap_discovery app' = ap_discovery app"
  "get_operations E i request app = Some (res, app') \<Longrightarrow> ap_discovery app' = ap_discovery app"
  "get_revision E i request app = Some (res, app') \<Longrightarrow> ap_discovery app' = ap_discovery app"
  "refresh E i request app = Some (res, app') \<Longrightarrow> ap_discovery app' = ap_discovery app"
proof -
  have submitted: "submit_import E r app = (res, app') \<Longrightarrow> ap_discovery app' = ap_discovery app" for r
    using submit_import_discovery[of E r app] by simp
  show "start_import E request app = Some (res, app') \<Longrightarrow> ap_discovery app' = ap_discovery app"
    by (auto simp: start_import_def as_admin_def with_body_def dest!: submitted
        split: option.splits sum.splits parse_outcome.splits if_splits)
  show "get_import E i request app = Some (res, app') \<Longrightarrow> ap_discovery app' = ap_discovery app"
    by (auto simp: get_import_def as_admin_def split: option.splits prod.splits)
  show "get_operations E i request app = Some (res, app') \<Longrightarrow> ap_discovery app' = ap_discovery app"
    by (auto simp: get_operations_def as_admin_def Let_def split: option.splits sum.splits)
  show "get_revision E i request app = Some (res, app') \<Longrightarrow> ap_discovery app' = ap_discovery app"
    by (auto simp: get_revision_def as_admin_def split: option.splits sum.splits if_splits)
  show "refresh E i request app = Some (res, app') \<Longrightarrow> ap_discovery app' = ap_discovery app"
    by (auto simp: refresh_def as_admin_def Let_def dest!: submitted split: option.splits sum.splits if_splits)
qed

context server_registry
begin

abbreviation app_documented :: "loader_env \<Rightarrow> 's openapi_app \<Rightarrow> bool" where
  "app_documented L app \<equiv> documented L (ds_registry (ap_discovery app))"

lemma store_and_reply_documented:
  assumes "dv_ops (discovery_of E) = ops" "app_documented L app" "docs_ok L (doc_view updated)"
    and "store_and_reply E i updated reply app = Some (res, app')"
  shows "app_documented L app'"
proof -
  obtain e d where store: "store_server (discovery_of E) updated (ap_discovery app) = (e, d)" by fastforce
  have d: "documented L (ds_registry d)" by (rule store_server_documented[OF assms(1-3) store])
  show ?thesis
    using assms(4) store d discover_documented[OF assms(1) d assms(3)]
    by (auto simp: store_and_reply_def Let_def split: option.splits sum.splits)
qed

lemma openapi_server_docs:
  assumes "dv_ops (discovery_of E) = ops" "app_documented L app" "openapi_server E i app = Some server"
  shows "docs_ok L (doc_view server)" "srv_transport_kind server = TK_openapi"
  using assms documented_get[OF assms(2), of i server]
  by (auto simp: openapi_server_def stored_server_def is_openapi_def split: option.splits if_splits)

lemma put_tools_documented:
  assumes "dv_ops (discovery_of E) = ops" "app_documented L app" "put_tools E i request app = Some (res, app')"
  shows "app_documented L app'"
proof -
  have stored: "app_documented L app'"
    if "openapi_server E i app = Some server" "apply_choices M server sel ov probe fs limit = ret (Inr updated)"
      "store_and_reply E i updated reply app = Some (res, app')" for server M sel ov probe fs limit updated reply
  proof -
    have "doc_view updated = doc_view server"
      using checked_ok(1)[OF that(2)] with_choices_keeps spec_view_docs by metis
    with openapi_server_docs(1)[OF assms(1,2) that(1)] have "docs_ok L (doc_view updated)" by simp
    then show ?thesis by (rule store_and_reply_documented[OF assms(1,2) _ that(3)])
  qed
  show ?thesis
    using assms(2,3)
    by (auto simp: put_tools_def as_admin_def with_body_def served_or_problems_def dest!: stored
        split: option.splits sum.splits parse_outcome.splits)
qed

lemma patch_settings_documented:
  assumes "dv_ops (discovery_of E) = ops" "app_documented L app" "patch_settings E i request app = Some (res, app')"
  shows "app_documented L app'"
proof -
  have stored: "app_documented L app'"
    if "openapi_server E i app = Some server" "apply_settings M server r limit = ret (Inr updated)"
      "store_and_reply E i updated reply app = Some (res, app')" for server M r limit updated reply
  proof -
    have "doc_view updated = doc_view server"
      using checked_ok(2)[OF that(2)] settings_update_keeps(1) spec_view_docs by metis
    with openapi_server_docs(1)[OF assms(1,2) that(1)] have "docs_ok L (doc_view updated)" by simp
    then show ?thesis by (rule store_and_reply_documented[OF assms(1,2) _ that(3)])
  qed
  show ?thesis
    using assms(2,3)
    by (auto simp: patch_settings_def as_admin_def with_body_def served_or_problems_def dest!: stored
        split: option.splits sum.splits parse_outcome.splits if_splits)
qed

lemma reviewed_server:
  "reviewed_revision E request i app = Inr (server, pending) \<Longrightarrow>
     openapi_server E i app = Some server \<and> srv_openapi_pending server = Some pending"
  by (auto simp: reviewed_revision_def Let_def split: sum.splits option.splits parse_outcome.splits if_splits)

lemma accept_documented:
  assumes "dv_ops (discovery_of E) = ops" "app_documented L app" "accept E i request app = Some (res, app')"
  shows "app_documented L app'"
proof -
  have stored: "app_documented L app'"
    if "reviewed_revision E request i app = Inr (server, pending)"
      "accept_revision M server limit = ret (Inr (updated, report))"
      "store_and_reply E i updated reply app = Some (res, app')" for server pending M limit updated report reply
  proof -
    note rev = reviewed_server[OF that(1)]
    note docs = openapi_server_docs[OF assms(1,2), of i server]
    have "srv_transport_kind updated = TK_openapi" using accept_revision_kind[OF that(2)] docs(2) rev by simp
    moreover have "srv_openapi_snapshot updated = Some pending" "srv_openapi_pending updated = None"
      using accept_revision_checked[OF that(2)] rev by (simp_all add: accepted_from_def)
    moreover have "from_loader L pending" using docs(1) rev by (simp add: doc_view_def)
    ultimately have "docs_ok L (doc_view updated)" by (simp add: doc_view_def)
    then show ?thesis by (rule store_and_reply_documented[OF assms(1,2) _ that(3)])
  qed
  show ?thesis
    using assms(2,3)
    by (auto simp: accept_def as_admin_def served_or_problems_def split: option.splits sum.splits) (rule stored; assumption)
qed

lemma reject_documented:
  assumes "dv_ops (discovery_of E) = ops" "app_documented L app" "reject E i request app = Some (res, app')"
  shows "app_documented L app'"
proof -
  have stored: "documented L (ds_registry d)"
    if "reviewed_revision E request i app = Inr (server, pending)"
      "store_server (discovery_of E) (server\<lparr>srv_openapi_pending := None\<rparr>) (ap_discovery app) = (e, d)" for server pending e d
  proof -
    have "docs_ok L (doc_view (server\<lparr>srv_openapi_pending := None\<rparr>))"
      using openapi_server_docs(1)[OF assms(1,2), of i server] reviewed_server[OF that(1)] by (simp add: doc_view_def)
    from store_server_documented[OF assms(1,2) this that(2)] show ?thesis .
  qed
  show ?thesis
    using assms(2,3)
    by (auto simp: reject_def as_admin_def dest!: stored split: option.splits sum.splits prod.splits)
qed

lemma handle_route_documented:
  assumes "dv_ops (discovery_of E) = ops" "app_documented L app" "handle_route E route request app = Some (res, app')"
  shows "app_documented L app'"
proof (cases route)
  case (Put_tools i)
  then show ?thesis using put_tools_documented[OF assms(1,2)] assms(3) by simp
next
  case (Patch_settings i)
  then show ?thesis using patch_settings_documented[OF assms(1,2)] assms(3) by simp
next
  case (Accept_revision i)
  then show ?thesis using accept_documented[OF assms(1,2)] assms(3) by simp
next
  case (Reject_revision i)
  then show ?thesis using reject_documented[OF assms(1,2)] assms(3) by simp
qed (use assms(2,3) in \<open>auto dest!: reading_routes\<close>)

section \<open>Every reachable state\<close>

text \<open>In every reachable state the documents are checked ones, those of the registrations under way included.\<close>

definition hub_inv :: "loader_env \<Rightarrow> 's hub_state \<Rightarrow> bool" where
  "hub_inv L h \<longleftrightarrow>
     app_documented L (hb_app h) \<and> (\<forall>s \<in> set (hb_prepared h) \<union> set (hb_background h). docs_ok L (doc_view s))"

lemma run_job_documented:
  assumes "openapi_env_of ops L E" "app_documented L app" "run_job E job_id app = Some app'"
  shows "app_documented L app'"
proof -
  have "documented L (ds_registry d)" if "run_import (oe_import E) r (ap_discovery app) = Some (res, d)" for r res d
    using run_import_documented[of "oe_import E" "ap_discovery app" r res d] assms(1,2) that
    by (simp add: openapi_env_of_def)
  then show ?thesis
    using assms(2,3) by (auto simp: run_job_def split: option.splits)
qed

lemma commit_documented:
  assumes "dv_ops (v1_discovery V) = ops" "documented L s" "docs_ok L (doc_view server)"
    and "commit_registration V server s = (reply, task, s')"
  shows "documented L s'" and "task = Some t \<Longrightarrow> docs_ok L (doc_view t)"
proof -
  let ?D = "v1_discovery V"
  have i: "inv s" using assms(2) by (simp add: documented_def)
  obtain r where reg: "reg_register ops (dv_io ?D) (dv_now ?D) (dv_stamps ?D) server s = (r, s')"
    using assms(1,4) by (auto simp: commit_registration_def Let_def split: prod.splits sum.splits)
  note get = register_get[OF i reg]
  show "documented L s'"
    using assms(2,3) register_abs(1)[OF i reg] by (auto simp: documented_def get)
  show "docs_ok L (doc_view t)" if "task = Some t"
  proof -
    from that assms(1,4) reg have "r = Inr t"
      by (auto simp: commit_registration_def Let_def split: sum.splits if_splits)
    from register_returns_stored[OF i reg[unfolded this]] get[of "srv_id server"] assms(3) show ?thesis by auto
  qed
qed

lemma hub_step_inv:
  assumes "hub_step ops L h h'" "hub_inv L h"
  shows "hub_inv L h'"
  using assms(1)
proof cases
  case (openapi_request E route request res app')
  then show ?thesis
    using handle_route_documented[of E L "hb_app h" route request res app'] assms(2)
    by (simp add: hub_inv_def openapi_env_of_def)
next
  case (import_job E job_id app')
  then show ?thesis using run_job_documented[of L E "hb_app h" job_id app'] assms(2) by (simp add: hub_inv_def)
next
  case (poll D failed d)
  then show ?thesis
    using poll_documented[of D L "ap_discovery (hb_app h)" failed d] assms(2) by (simp add: hub_inv_def with_discovery_def)
next
  case (prepare V route request server)
  have "docs_ok L (doc_view server)"
  proof -
    from prepare(3) obtain raw where "prepare_registration V (reg_get (dv_ops (v1_discovery V)) (hub_registry h)) raw = Inr server"
      by (auto simp: prepare_route_def split: sum.splits)
    from prepare_registration_checked(2,3)[OF this] show ?thesis by (simp add: doc_view_def)
  qed
  then show ?thesis using prepare(1) assms(2) by (auto simp: hub_inv_def)
next
  case (commit V server reply task s')
  have reg: "documented L (hub_registry h)" and docs: "docs_ok L (doc_view server)"
    using assms(2) commit(3) by (auto simp: hub_inv_def)
  note new = commit_documented[OF commit(2) reg docs commit(4)]
  have "docs_ok L (doc_view t)" if "t \<in> set (remove1 server (hb_prepared h)) \<union> set (hb_background h)" for t
    using that assms(2) notin_set_remove1 by (fastforce simp: hub_inv_def)
  then show ?thesis
    using commit(1) new by (auto simp: hub_inv_def with_registry_def split: option.splits)
next
  case (background V server d)
  have reg: "documented L (ds_registry (ap_discovery (hb_app h)))" and docs: "docs_ok L (doc_view server)"
    using assms(2) background(3) by (auto simp: hub_inv_def)
  from background(4) obtain e where "discover_immediately (v1_discovery V) 20 server (ap_discovery (hb_app h)) = Some (e, d)"
    by (auto simp: background_discover_def)
  from discover_documented[OF background(2) reg docs this] have "documented L (ds_registry d)" .
  moreover have "docs_ok L (doc_view t)" if "t \<in> set (hb_prepared h) \<union> set (remove1 server (hb_background h))" for t
    using that assms(2) notin_set_remove1 by (fastforce simp: hub_inv_def)
  ultimately show ?thesis
    using background(1) by (auto simp: hub_inv_def with_discovery_def)
next
  case (unregister V i request reply s')
  have reg: "documented L (hub_registry h)" using assms(2) by (simp add: hub_inv_def)
  have "documented L s'"
    using unregister(3) reg unregister_documented[OF reg]
    by (auto simp: unregister_server_def unregister(2) split: option.splits if_splits prod.splits sum.splits)
  then show ?thesis using unregister(1) assms(2) by (simp add: hub_inv_def with_registry_def)
qed

lemma hub_reachable_inv:
  assumes "hub_reachable ops L s0 h" "documented L s0"
  shows "hub_inv L h"
  using assms(1)
proof induction
  case (start jobs tokens obo)
  then show ?case using assms(2) by (simp add: hub_inv_def hub_start_def)
next
  case (step h h')
  then show ?case using hub_step_inv by blast
qed

end

end
