(* ===== verification/Shop_Import.thy ===== *)
theory Shop_Import
  imports Shop Hub_Steps
begin

text \<open>
  Concrete data for the administration of OpenAPI servers: the document of \<^verbatim>\<open>Shop\<close> is uploaded, imported, revised and reviewed.
\<close>

section \<open>Loading\<close>

text \<open>The parser's view of a JSON value.\<close>

fun raw_of :: "json \<Rightarrow> 'e raw_json" and raw_list_of :: "json list \<Rightarrow> 'e raw_json list"
  and raw_items_of :: "(string \<times> json) list \<Rightarrow> (string \<times> 'e raw_json) list" where
  "raw_of JNull = Raw_null"
| "raw_of (JBool b) = Raw_bool b"
| "raw_of (JInt i) = Raw_int i"
| "raw_of (JFloat r) = Raw_float []"
| "raw_of (JStr s) = Raw_str s"
| "raw_of (JList xs) = Raw_list (raw_list_of xs)"
| "raw_of (JObj d) = Raw_obj (raw_items_of d)"
| "raw_list_of [] = []"
| "raw_list_of (x # xs) = raw_of x # raw_list_of xs"
| "raw_items_of [] = []"
| "raw_items_of ((k, v) # d) = (k, raw_of v) # raw_items_of d"

text \<open>The next revision of the document drops one operation.\<close>

definition shop_revision :: jdict where
  "shop_revision =
     [(''openapi'', JStr ''3.0.3''),
      (''info'', JObj [(''title'', JStr ''Shop''), (''version'', JStr ''2'')]),
      (''paths'', JObj
        [(''/orders'', JObj
           [(''get'', JObj
              [(''operationId'', JStr ''list_orders''),
               (''responses'', JObj [(''200'', JObj [(''description'', JStr ''ok'')])])])])])]"

definition shop_parse :: parse_env where
  "shop_parse =
     \<lparr>pe_ellipsis = ''...'', pe_utf8 = Inr,
      pe_json = (\<lambda>t. if t = ''{1}'' then raw_of (JObj shop_document)
                     else if t = ''{2}'' then raw_of (JObj shop_revision) else Raw_error (Json_syntax ''no'' 1 1)),
      pe_float = (\<lambda>t. Inr 0), pe_yaml = (\<lambda>t. Yaml_error ''no'')\<rparr>"

definition shop_loader :: loader_env where
  "shop_loader =
     \<lparr>ld_parse = shop_parse, ld_unquote = (\<lambda>s. s), ld_float_text = (\<lambda>r. ''0.5''), ld_validator = (\<lambda>d v. Valid),
      ld_sha256 = (\<lambda>d. Inr (if d = shop_document then ''ab'' else ''cd''))\<rparr>"

definition shop_discovery :: "store discovery_env" where
  "shop_discovery =
     \<lparr>dv_ops = mem_server_ops, dv_io = True, dv_now = 7, dv_stamps = (7, 7), dv_clock = 1, dv_map = shop_map,
      dv_description_limit = 100, dv_float_text = (\<lambda>r. ''0.5''), dv_stdio = None,
      dv_sdk = (\<lambda>u. \<lparr>sk_auth = demo_env idp_answer, sk_caller = ServiceIdentity, sk_float_text = (\<lambda>r. ''0.5''),
                     sk_open = (\<lambda>l. Some (plain_exc ''OSError'' ''down'')), sk_initialize = (\<lambda>l. Inl (plain_exc ''OSError'' ''down'')),
                     sk_session_header = (\<lambda>l. []), sk_notify = (\<lambda>l. None), sk_list = (\<lambda>l. Inl (plain_exc ''OSError'' ''down'')),
                     sk_raw = None, sk_close = (\<lambda>l. None)\<rparr>),
      dv_stateless = (\<lambda>u. \<lparr>se_auth = demo_env idp_answer, se_caller = ServiceIdentity, se_loads = (\<lambda>t. Inl ''no''),
                            se_float_text = (\<lambda>r. ''0.5''), se_post = (\<lambda>h b. Inl ''down'')\<rparr>)\<rparr>"

definition shop_import :: "store import_env" where
  "shop_import =
     \<lparr>im_loader = shop_loader,
      im_fetch = \<lparr>fe_brk = (\<lambda>s. False), fe_ellipsis = ''...'', fe_float_text = (\<lambda>r. ''0.5''), fe_get = (\<lambda>u. Fetch_deadline)\<rparr>,
      im_general = (\<lambda>r. ''30''),
      im_limits = \<lparr>sl_max_bytes = 1000, sl_fetch_timeout = 30, sl_validate_timeout = 30, sl_memory_mb = 512\<rparr>,
      im_fate = Child_ran, im_discovery = shop_discovery\<rparr>"

text \<open>An upload under the id of the server, with the choices of the administrator.\<close>

definition shop_upload :: "string \<Rightarrow> import_request" where
  "shop_upload spec =
     (refetch_request ''shop'' [])\<lparr>rq_spec := spec, st_base_url := ''https://shop.example/v1'',
        rq_selection := Some [shop_ref], st_sent := [''id'', ''spec'', ''base_url'', ''selection'']\<rparr>"

definition shop_spec :: loaded_spec where
  "shop_spec = \<lparr>ls_document = shop_document, ls_dialect = D30, ls_sha256 = ''ab''\<rparr>"

definition shop_next :: loaded_spec where
  "shop_next = \<lparr>ls_document = shop_revision, ls_dialect = D30, ls_sha256 = ''cd''\<rparr>"

definition shop_heap :: "jdict \<Rightarrow> heap" where
  "shop_heap d = (case json_value shop_parse (raw_of (JObj d)) [] of Inr (v, h) \<Rightarrow> h | Inl e \<Rightarrow> [])"

definition shop_top :: "jdict \<Rightarrow> nat" where "shop_top d = length (shop_heap d) - 1"

lemma shop_expands:
  "expand (shop_heap shop_document) (Suc MAX_DEPTH) (P_ref (shop_top shop_document)) = Some (JObj shop_document)"
  "expand (shop_heap shop_revision) (Suc MAX_DEPTH) (P_ref (shop_top shop_revision)) = Some (JObj shop_revision)"
  by code_simp+

lemma shop_plain:
  "check_plain_json ell (shop_heap shop_document) (shop_top shop_document) = Inr ()"
  "check_plain_json ell (shop_heap shop_revision) (shop_top shop_revision) = Inr ()"
proof -
  have "jsize (JObj shop_document) = 27" "jsize (JObj shop_revision) = 12" by code_simp+
  then have "jsize (JObj shop_document) \<le> MAX_NODES" "jsize (JObj shop_revision) \<le> MAX_NODES"
    by (simp_all only: MAX_NODES_def)
  then show "check_plain_json ell (shop_heap shop_document) (shop_top shop_document) = Inr ()"
    "check_plain_json ell (shop_heap shop_revision) (shop_top shop_revision) = Inr ()"
    unfolding check_plain_json_iff using shop_expands by blast+
qed

lemma shop_parsed:
  "parse_document shop_parse ''{1}'' = Inr (shop_heap shop_document, shop_top shop_document)"
  "parse_document shop_parse ''{2}'' = Inr (shop_heap shop_revision, shop_top shop_revision)"
proof -
  have decode: "decode_spec shop_parse t = Inr t" if "\<not> prefix UTF8_BOM t" for t
    using that by (simp add: decode_spec_def shop_parse_def)
  have "parse_text shop_parse ''{1}'' = Inr (shop_heap shop_document, P_ref (shop_top shop_document)) \<and>
    parse_text shop_parse ''{2}'' = Inr (shop_heap shop_revision, P_ref (shop_top shop_revision))"
    by code_simp
  then have parsed: "parse_text shop_parse ''{1}'' = Inr (shop_heap shop_document, P_ref (shop_top shop_document))"
    "parse_text shop_parse ''{2}'' = Inr (shop_heap shop_revision, P_ref (shop_top shop_revision))"
    by blast+
  have dict: "case cell_at (shop_heap shop_document) (shop_top shop_document) of Dict ps \<Rightarrow> True | Seq xs \<Rightarrow> False"
    "case cell_at (shop_heap shop_revision) (shop_top shop_revision) of Dict ps \<Rightarrow> True | Seq xs \<Rightarrow> False"
    by code_simp+
  have words: "strip ''{1}'' \<noteq> []" "strip ''{2}'' \<noteq> []" "\<not> prefix UTF8_BOM ''{1}''" "\<not> prefix UTF8_BOM ''{2}''" by code_simp+
  show "parse_document shop_parse ''{1}'' = Inr (shop_heap shop_document, shop_top shop_document)"
    "parse_document shop_parse ''{2}'' = Inr (shop_heap shop_revision, shop_top shop_revision)"
    using dict shop_plain parsed words decode by (auto simp: parse_document_def split: cell.splits)
qed

lemma shop_documents:
  "document_of (shop_heap shop_document) (shop_top shop_document) = shop_document"
  "document_of (shop_heap shop_revision) (shop_top shop_revision) = shop_revision"
  unfolding document_of_def shop_expands by simp_all

lemma shop_loaded:
  "load_request shop_import (shop_upload ''{1}'') = Inr shop_spec"
  "load_request shop_import (shop_upload ''{2}'') = Inr shop_next"
proof -
  have "load_document shop_loader shop_document = Inr shop_spec \<and> load_document shop_loader shop_revision = Inr shop_next"
    by code_simp
  then have load: "load_document shop_loader shop_document = Inr shop_spec" "load_document shop_loader shop_revision = Inr shop_next"
    by blast+
  have bytes: "encode_utf8 ''{1}'' = ''{1}''" "encode_utf8 ''{2}'' = ''{2}''" by code_simp+
  have "ld_parse shop_loader = shop_parse" by (simp add: shop_loader_def)
  then show "load_request shop_import (shop_upload ''{1}'') = Inr shop_spec"
    "load_request shop_import (shop_upload ''{2}'') = Inr shop_next"
    using load bytes
    by (simp_all add: load_request_def load_spec_def load_in_child_def child_main_def load_spec_unsandboxed_def
        shop_import_def shop_upload_def refetch_request_def shop_parsed shop_documents Let_def)
qed

section \<open>Importing\<close>

definition shop_start :: "store discovery_state" where
  "shop_start = \<lparr>ds_registry = empty_store, ds_not_before = [], ds_tokens = [], ds_obo = new_obo_cache 4\<rparr>"

definition imported :: "jdict \<Rightarrow> loaded_spec \<Rightarrow> store discovery_state \<Rightarrow> store discovery_state" where
  "imported d spec st =
     (case store_import shop_discovery (shop_upload (if d = shop_document then ''{1}'' else ''{2}''))
             (snapshot_of 7 [] spec) st of
        Some (res, st') \<Rightarrow> st' | None \<Rightarrow> st)"

definition shop_live :: "store discovery_state" where "shop_live = imported shop_document shop_spec shop_start"
definition shop_reviewing :: "store discovery_state" where "shop_reviewing = imported shop_revision shop_next shop_live"

lemma shop_imports:
  "run_import shop_import (shop_upload ''{1}'') shop_start = Some (Inr ''created'', shop_live)"
  "run_import shop_import (shop_upload ''{2}'') shop_live = Some (Inr ''revision_pending'', shop_reviewing)"
proof -
  have one: "map_option fst (store_import shop_discovery (shop_upload ''{1}'') (snapshot_of 7 [] shop_spec) shop_start)
      = Some (Inr ''created'')" by code_simp
  have two: "map_option fst (store_import shop_discovery (shop_upload ''{2}'') (snapshot_of 7 [] shop_next) shop_live)
      = Some (Inr ''revision_pending'')" by code_simp
  have run: "run_import shop_import r st = store_import shop_discovery r (snapshot_of 7 [] spec) st"
    if "load_request shop_import r = Inr spec" "rq_spec_url r = []" for r st spec
    using that by (simp add: run_import_def shop_import_def shop_discovery_def)
  have urls: "rq_spec_url (shop_upload t) = []" for t by (simp add: shop_upload_def refetch_request_def)
  have other: "shop_revision \<noteq> shop_document" by code_simp
  show "run_import shop_import (shop_upload ''{1}'') shop_start = Some (Inr ''created'', shop_live)"
    unfolding run[OF shop_loaded(1) urls] using one
    by (auto simp: shop_live_def imported_def split: option.splits)
  show "run_import shop_import (shop_upload ''{2}'') shop_live = Some (Inr ''revision_pending'', shop_reviewing)"
    unfolding run[OF shop_loaded(2) urls] using two other
    by (auto simp: shop_reviewing_def imported_def split: option.splits)
qed

lemma shop_stores_ok: "store_ok (ds_registry shop_live)" "store_ok (ds_registry shop_reviewing)"
proof -
  have env: "dv_ops (im_discovery shop_import) = mem_server_ops" by (simp add: shop_import_def shop_discovery_def)
  have start: "store_ok (ds_registry shop_start)" by (simp add: shop_start_def store_ok_empty)
  show live: "store_ok (ds_registry shop_live)"
    by (rule mem_registry.run_import_effect(1)[OF env start shop_imports(1)])
  show "store_ok (ds_registry shop_reviewing)"
    by (rule mem_registry.run_import_effect(1)[OF env live shop_imports(2)])
qed

section \<open>The routes\<close>

definition admin_request :: "string \<Rightarrow> http_request" where
  "admin_request body =
     demo_request\<lparr>rq_principal := Some (alice\<lparr>pr_scopes := [''admin'']\<rparr>), rq_headers := [], rq_body := body\<rparr>"

definition shop_admin :: "store openapi_env" where
  "shop_admin =
     \<lparr>oe_auth = Some demo_auth, oe_import = shop_import, oe_allow_private = False, oe_brk = (\<lambda>s. False),
      oe_ip = ex_ip_of shop_exec, oe_dns = (\<lambda>h. if h = ''shop.example'' then Some [''192.0.2.7''] else None),
      oe_parse_import = (\<lambda>b. Parsed (shop_upload b)), oe_parse_settings = (\<lambda>b. Not_json),
      oe_parse_choices = (\<lambda>b. Not_json), oe_parse_revision = (\<lambda>b. if b = ''{}'' then Not_valid ''sha256'' else Parsed b),
      oe_invalid_body = (\<lambda>b. []), oe_isoformat = (\<lambda>t. ''now''), oe_dump = (\<lambda>s. JNull), oe_job_id = ''j1'', oe_clock = 1\<rparr>"

definition shop_app :: "store openapi_app" where
  "shop_app = \<lparr>ap_discovery = shop_start, ap_jobs = new_job_store 1 4 3600 10, ap_works = []\<rparr>"

definition submitted_app :: "store openapi_app" where
  "submitted_app = snd (submit_import shop_admin (shop_upload ''{1}'') shop_app)"

lemma shop_submits:
  "\<exists>res. handle_route shop_admin Start_import (admin_request ''{1}'') shop_app = Some (res, submitted_app)"
proof -
  have "start_import shop_admin (admin_request ''{1}'') shop_app =
      Some (submit_import shop_admin (shop_upload ''{1}'') shop_app)" by code_simp
  then have "handle_route shop_admin Start_import (admin_request ''{1}'') shop_app =
      Some (submit_import shop_admin (shop_upload ''{1}'') shop_app)" by simp
  then show ?thesis by (cases "submit_import shop_admin (shop_upload ''{1}'') shop_app") (simp add: submitted_app_def)
qed

definition live_app :: "store openapi_app" where
  "live_app = (case start_job ''j1'' (ap_jobs submitted_app) of
      Some jobs \<Rightarrow> \<lparr>ap_discovery = shop_live, ap_jobs = end_job 7 1 ''j1'' (Work_ok ''created'') jobs, ap_works = []\<rparr>
    | None \<Rightarrow> submitted_app)"

lemma live_app_discovery: "ap_discovery live_app = shop_live"
proof -
  have "start_job ''j1'' (ap_jobs submitted_app) \<noteq> None" by code_simp
  then show ?thesis by (auto simp: live_app_def)
qed

lemma shop_job: "run_job shop_admin ''j1'' submitted_app = Some live_app"
proof -
  have works: "ap_works submitted_app = [(''j1'', shop_upload ''{1}'')]" "ap_discovery submitted_app = shop_start" by code_simp+
  have "start_job ''j1'' (ap_jobs submitted_app) \<noteq> None" by code_simp
  then obtain jobs where "start_job ''j1'' (ap_jobs submitted_app) = Some jobs" by blast
  moreover have "oe_import shop_admin = shop_import" "dv_now shop_discovery = 7" "oe_clock shop_admin = 1"
    "im_discovery shop_import = shop_discovery"
    by (simp_all add: shop_admin_def shop_discovery_def shop_import_def)
  ultimately show ?thesis
    by (simp add: run_job_def works shop_imports(1) live_app_def)
qed

lemma shop_reachable:
  "hub_reachable mem_server_ops shop_loader empty_store \<lparr>hb_app = live_app, hb_prepared = [], hb_background = []\<rparr>"
proof -
  let ?h = "\<lambda>app. \<lparr>hb_app = app, hb_prepared = [], hb_background = []\<rparr>"
  have env: "openapi_env_of mem_server_ops shop_loader shop_admin"
    by (simp add: openapi_env_of_def shop_admin_def shop_import_def shop_discovery_def)
  have "hub_start empty_store (new_job_store 1 4 3600 10) [] (new_obo_cache 4) = ?h shop_app"
    by (simp add: hub_start_def shop_app_def shop_start_def)
  then have r0: "hub_reachable mem_server_ops shop_loader empty_store (?h shop_app)"
    using hub_reachable.start by metis
  obtain res where one: "handle_route shop_admin Start_import (admin_request ''{1}'') (hb_app (?h shop_app)) = Some (res, submitted_app)"
    using shop_submits by auto
  have r1: "hub_reachable mem_server_ops shop_loader empty_store (?h submitted_app)"
    using hub_reachable.step[OF r0 hub_step.openapi_request[OF env one]] by simp
  have two: "run_job shop_admin ''j1'' (hb_app (?h submitted_app)) = Some live_app" by (simp add: shop_job)
  show ?thesis using hub_reachable.step[OF r1 hub_step.import_job[OF env two]] by simp
qed

text \<open>The server with a revision to review.\<close>

definition reviewing_app :: "store openapi_app" where
  "reviewing_app =
     shop_app\<lparr>ap_discovery := shop_start\<lparr>ds_registry :=
        \<lparr>st_data = [(''shop'', shop_server\<lparr>srv_openapi_pending := Some (snapshot_of 7 [] shop_next)\<rparr>)], st_agents = []\<rparr>\<rparr>\<rparr>"

definition accepted_app :: "store openapi_app" where
  "accepted_app = (case accept shop_admin ''shop'' (admin_request ''cd'') reviewing_app of Some (res, app) \<Rightarrow> app | None \<Rightarrow> reviewing_app)"

lemma shop_accepts:
  "\<exists>content. accept shop_admin ''shop'' (admin_request ''cd'') reviewing_app = Some (Reply 200 content [], accepted_app)"
proof -
  have "(case accept shop_admin ''shop'' (admin_request ''cd'') reviewing_app of
      Some (Reply st content hs, app) \<Rightarrow> st = 200 \<and> hs = [] | _ \<Rightarrow> False)" by code_simp
  then show ?thesis by (auto simp: accepted_app_def split: option.splits prod.splits route_result.splits)
qed

section \<open>A registration\<close>

definition shop_v1 :: "store v1_env" where
  "shop_v1 =
     \<lparr>v1_auth = Some demo_auth, v1_discovery = shop_discovery, v1_allow_private = False, v1_brk = (\<lambda>s. False),
      v1_ip = ex_ip_of shop_exec, v1_dns = (\<lambda>h. if h = ''shop.example'' then Some [''192.0.2.7''] else None),
      v1_fetch = (\<lambda>u. None), v1_issuer = (\<lambda>v. []), v1_stdio = Some (True, [''echo'']), v1_loads = (\<lambda>b. Not_json),
      v1_read = (\<lambda>d. Inl (None, [])), v1_dump = (\<lambda>s. JNull), v1_float_text = (\<lambda>r. ''0.5''),
      v1_registry_client = None, v1_registry_base = []\<rparr>"

definition shop_request :: register_request where
  "shop_request =
     \<lparr>rg_id = ''mcp'', rg_url = '' https://shop.example/mcp'', rg_transport_kind = Kind_http, rg_stdio_command_name = [],
      rg_registry_source = [], rg_registry_name = [], rg_registry_version = [], rg_name = [], rg_version = [],
      rg_description = [], rg_tags = [], rg_registration_type = RT_unset, rg_mcp_protocol_version = [],
      rg_mcp_transport = MT_unset, rg_auth_type = AT_unset, rg_bearer_token = ''t'', rg_basic_username = [],
      rg_basic_password = [], rg_oauth_discovery_url = [], rg_oauth_token_url = [], rg_oauth_client_id = [],
      rg_oauth_client_secret = [], rg_oauth_scope = [], rg_oauth_resource = [], rg_obo_audience = [],
      rg_obo_resource = [], rg_obo_scope = [], rg_obo_actor_token_source = AS_none, rg_ema_resource_as_issuer = [],
      rg_ema_resource_as_token_url = [], rg_ema_resource_id = [], rg_ema_subject_token_type = ST_id_token,
      rg_required_scope = [], rg_trace_verbose = False\<rparr>"

lemma shop_registers:
  "\<exists>s. prepare_registration shop_v1 (\<lambda>k. None) (Inr shop_request) = Inr s \<and> srv_url s = ''https://shop.example/mcp'' \<and>
     srv_registration_type s = RT_manual \<and> srv_transport_kind s = TK_http"
proof -
  have "map_sum (\<lambda>e. ()) (\<lambda>s. (srv_url s, srv_registration_type s, srv_transport_kind s))
      (prepare_registration shop_v1 (\<lambda>k. None) (Inr shop_request)) = Inr (''https://shop.example/mcp'', RT_manual, TK_http)"
    by code_simp
  then show ?thesis by (cases "prepare_registration shop_v1 (\<lambda>k. None) (Inr shop_request)") auto
qed

end
