(* ===== verification/Shop_Config.thy ===== *)
theory Shop_Config
  imports Config_Facts Shop_Import
begin

text \<open>
  Concrete configurations: a hub for local use with one program on its list, and the same hub started with the option \<open>--config\<close>.
\<close>

definition plain_reader :: field_reader where
  "plain_reader =
     \<lparr>fr_text = (\<lambda>v. case v of JStr t \<Rightarrow> Some t | _ \<Rightarrow> None),
      fr_int = (\<lambda>v. case v of JInt i \<Rightarrow> Some i | JStr t \<Rightarrow> int_text t | _ \<Rightarrow> None),
      fr_bool = (\<lambda>v. case v of JBool b \<Rightarrow> Some b | JStr t \<Rightarrow> if t = ''true'' then Some True else None | _ \<Rightarrow> None),
      fr_float = (\<lambda>v. case v of JFloat r \<Rightarrow> Some r | _ \<Rightarrow> None),
      fr_texts = (\<lambda>v. case v of JList xs \<Rightarrow> Some (map (\<lambda>x. case x of JStr t \<Rightarrow> t | _ \<Rightarrow> []) xs) | _ \<Rightarrow> None),
      fr_text_map = (\<lambda>v. case v of JObj d \<Rightarrow> Some (map (\<lambda>(k, x). (k, case x of JStr t \<Rightarrow> t | _ \<Rightarrow> [])) d) | _ \<Rightarrow> None),
      fr_brk = (\<lambda>s. False)\<rparr>"

text \<open>The file of the working directory enables a program; a second file, elsewhere, only names an address.\<close>

definition local_file :: json where
  "local_file = JObj [(''stdio'', JObj [(''enabled'', JBool True),
     (''allowed_commands'', JObj [(''echo'', JObj [(''command'', JStr ''/bin/echo'')])])])]"

definition open_file :: json where
  "open_file = JObj [(''server'', JObj [(''http_host'', JStr ''0.0.0.0'')])]"

definition local_config :: config_env where
  "local_config =
     \<lparr>ce_files = (\<lambda>p. if p = ''/srv/config.yaml'' then Some (Inr local_file)
                     else if p = ''/etc/hub.yaml'' then Some (Inr open_file) else None),
      ce_cwd = ''/srv'', ce_environ = [(''HOME'', ''/root'')], ce_reader = plain_reader, ce_telemetry_sdk = False\<rparr>"

definition plain_start :: cli where
  "plain_start = \<lparr>cl_config = None, cl_host = Some ''localhost'', cl_port = Some 9000, cl_dev = True\<rparr>"

definition config_start :: cli where
  "config_start = \<lparr>cl_config = Some ''/etc/hub.yaml'', cl_host = None, cl_port = None, cl_dev = False\<rparr>"

definition local_settings :: hub_settings where
  "local_settings =
     from_defaults\<lparr>cg_stdio := \<lparr>sd_enabled = True,
        sd_allowed_commands = [(''echo'', \<lparr>sc_command = ''/bin/echo'', sc_args = [], sc_env = [], sc_cwd = []\<rparr>)],
        sd_trusted_network = False\<rparr>\<rparr>"

definition dev_settings :: hub_settings where
  "dev_settings =
     local_settings\<lparr>cg_server := default_server_config\<lparr>sv_http_host := ''localhost'', sv_http_port := 9000\<rparr>,
       cg_allow_private_networks := True\<rparr>"

section \<open>Evaluation\<close>

lemmas config_eval = merged_sections_def from_defaults_def dump_server_config_def dump_storage_config_def dump_auth_config_def
  dump_health_config_def dump_discovery_config_def dump_stdio_config_def dump_openapi_config_def dump_otel_config_def
  default_server_config_def default_storage_config_def default_auth_config_def default_health_config_def
  default_openapi_config_def default_otel_config_def section_dict_def merge_with_def merge_value_def bind_py_simps

lemmas config_read = settings_of_sections_def section_of_def read_server_config_def read_storage_config_def read_auth_config_def
  read_health_config_def read_discovery_config_def read_stdio_config_def read_registry_config_def read_otel_config_def
  read_trace_config_def read_security_config_def validate_stdio_gate_def field_or_def sub_model_def read_redis_config_def
  read_basic_auth_def read_jwt_auth_def read_response_fields_def read_commands_def read_stdio_command_def read_openapi_config_def
  positive_or_def coerce_positive_int_def config_int_def validate_max_redirects_def validate_type_def AUTH_TYPES_def
  normalize_storage_type_def storage_kind_of_def validate_public_base_url_def validate_endpoint_def absolute_http_url_def
  validate_endpoint_present_def has_key_def plain_reader_def

lemmas config_load = load_settings_def load_yaml_config_def collect_nested_env_vars_def bare_port_def truthy.simps

lemma config_words:
  "lower ''inmemory'' = ''inmemory''" "loopback_host ''127.0.0.1''" "loopback_host ''localhost''" "\<not> loopback_host ''0.0.0.0''"
  "strip ''/bin/echo'' = ''/bin/echo''" "env_parts ''HOME'' = None"
  by code_simp+

lemma config_numbers: "str_int 9000 = ''9000''" "int_text ''9000'' = Some 9000"
proof -
  have "char_of (57 :: nat) = CHR ''9''" "char_of (48 :: nat) = CHR ''0''" by code_simp+
  then show "str_int 9000 = ''9000''" by (simp add: str_int_def str_nat_def digits_rev.simps)
  have "parse_int ''9000'' = Some 9000" by code_simp
  then show "int_text ''9000'' = Some 9000" by (simp add: int_text_def)
qed

lemma local_loads:
  "load_settings local_config None = Inr local_settings"
  "load_settings local_config (Some ''/etc/hub.yaml'') =
     Inr (from_defaults\<lparr>cg_server := default_server_config\<lparr>sv_http_host := ''0.0.0.0''\<rparr>\<rparr>)"
  "load_settings (local_config\<lparr>ce_environ := cli_environ plain_start (ce_environ local_config)\<rparr>) None = Inr dev_settings"
  by (simp_all add: config_eval config_read config_load config_words config_numbers env_names local_file_def open_file_def local_config_def
      local_settings_def dev_settings_def cli_environ_def plain_start_def export_cli_overrides_def apply_dev_mode_def
      HOST_ENV_def PORT_ENV_def DEV_MODE_ENV_def env_names[unfolded HOST_ENV_def PORT_ENV_def DEV_MODE_ENV_def] Let_def)

lemma local_starts:
  "main local_config plain_start = Inr (''localhost'', 9000, dev_settings, NoAuthStrategy)"
  "main local_config config_start = Inr (''0.0.0.0'', 8080, local_settings, NoAuthStrategy)"
proof -
  have apps: "create_app (local_config\<lparr>ce_environ := cli_environ plain_start (ce_environ local_config)\<rparr>) = Inr (dev_settings, NoAuthStrategy)"
    "create_app local_config = Inr (local_settings, NoAuthStrategy)"
    unfolding create_app_def local_loads
    by (simp_all add: dev_settings_def local_settings_def from_defaults_def default_storage_config_def default_auth_config_def
        default_otel_config_def build_authenticator_def)
  show "main local_config plain_start = Inr (''localhost'', 9000, dev_settings, NoAuthStrategy)"
    using apps(1) by (simp add: main_def resolve_settings_def cli_environ_def plain_start_def local_loads Let_def)
  show "main local_config config_start = Inr (''0.0.0.0'', 8080, local_settings, NoAuthStrategy)"
    using apps(2) by (simp add: main_def resolve_settings_def config_start_def export_cli_overrides_def local_loads from_defaults_def
        default_server_config_def Let_def)
qed

section \<open>A registration\<close>

definition echo_request :: register_request where
  "echo_request =
     shop_request\<lparr>rg_id := ''echo'', rg_url := [], rg_transport_kind := Kind_stdio, rg_stdio_command_name := ''echo'',
       rg_bearer_token := []\<rparr>"

definition local_v1 :: "store v1_env" where
  "local_v1 =
     shop_v1\<lparr>v1_auth := Some (cg_auth dev_settings), v1_allow_private := True, v1_stdio := Some (True, [''echo'']),
       v1_loads := (\<lambda>b. Parsed (JObj [])), v1_read := (\<lambda>d. Inr echo_request)\<rparr>"

lemma local_v1_serves: "serves_settings dev_settings local_v1"
  by (simp add: serves_settings_def local_v1_def dev_settings_def local_settings_def)

lemma local_registers:
  "\<exists>server. prepare_route local_v1 Register (admin_request ''{}'') empty_store = Inr server \<and> is_stdio server"
proof -
  have "map_sum (\<lambda>e. ()) is_stdio (prepare_registration local_v1 (\<lambda>k. None) (Inr echo_request)) = Inr True" by code_simp
  moreover have "reg_get (dv_ops (v1_discovery local_v1)) empty_store = (\<lambda>k. None)"
    by (auto simp: local_v1_def shop_v1_def shop_discovery_def reg_get_def mem_server_ops_def mem_op_defs empty_store_def)
  moreover have "requested_data local_v1 Register (admin_request ''{}'') = Inr []"
    by (simp add: requested_data_def register_body_def local_v1_def require_admin_def request_auth_config_def is_admin_def
        authorization_enforced_def dev_settings_def local_settings_def from_defaults_def default_auth_config_def
        admin_request_def MAX_REQUEST_BODY_SIZE_def Let_def)
  moreover have "v1_read local_v1 [] = Inr echo_request" by (simp add: local_v1_def)
  ultimately show ?thesis
    by (cases "prepare_registration local_v1 (\<lambda>k. None) (Inr echo_request)") (auto simp: prepare_route_def)
qed
end
