(* ===== verification/Spec2Isabelle.thy ===== *)
theory Spec2Isabelle
  imports Shop_Config
begin

text \<open>
  Verification of the MCP hub (\<^verbatim>\<open>src/src/mcp_hub\<close>): a gateway that registers MCP servers and agents,
  authenticates the callers, forwards their requests to the servers with the right credentials, records
  what it forwards, checks the servers' health and imports OpenAPI documents as servers.

  \<^bold>\<open>Parts, theories and sources.\<close> Every theory is named after the part it models and its definitions keep
  the names of the functions they translate.

  \<^item> Foundations. \<^verbatim>\<open>Prelude\<close>: Python text and dictionaries; \<^verbatim>\<open>Json\<close>: JSON values, truth, comparison and conversion as
    Python has them; \<^verbatim>\<open>Http\<close>: requests, responses, headers; \<^verbatim>\<open>Url\<close>: \<open>urllib.parse\<close>; \<^verbatim>\<open>Constants\<close>: \<^verbatim>\<open>mcp/constants.py\<close>.
  \<^item> Data. \<^verbatim>\<open>Server_Model\<close>: \<^verbatim>\<open>models/server.py\<close>, \<^verbatim>\<open>models/agent.py\<close>, \<^verbatim>\<open>models/openapi.py\<close>. The record \<open>registered_server\<close> has
    one field per field of the class.
  \<^item> State. \<^verbatim>\<open>Storage\<close>: \<^verbatim>\<open>storage/\<close>, both backends behind the interface \<open>storage_ops\<close>; the locale \<open>keyed_storage\<close> is what a
    storage promises, and it is interpreted on the memory and the JSON storage, for servers and for agents.
    \<^verbatim>\<open>Registry\<close>: \<^verbatim>\<open>registry/service.py\<close> over any storage (locale \<open>server_registry\<close>). \<^verbatim>\<open>Trace\<close>: \<^verbatim>\<open>trace/\<close>.
  \<^item> Callers. \<^verbatim>\<open>Principal_Auth\<close>: \<^verbatim>\<open>auth/\<close> except JWT, with the locale \<open>authenticator\<close> for what every strategy promises;
    \<^verbatim>\<open>Jwt_Auth\<close>: \<^verbatim>\<open>auth/jwt_bearer.py\<close> and \<open>build_authenticator\<close>.
  \<^item> Credentials. \<^verbatim>\<open>Token_Exchange\<close>: \<^verbatim>\<open>mcp/token_exchange.py\<close> and \<^verbatim>\<open>mcp/id_jag.py\<close>; \<^verbatim>\<open>Obo_Cache\<close>: \<^verbatim>\<open>mcp/obo_cache.py\<close>;
    \<^verbatim>\<open>Server_Auth\<close>: \<^verbatim>\<open>mcp/auth.py\<close>.
  \<^item> Forwarding. \<^verbatim>\<open>Backends\<close>: \<^verbatim>\<open>proxy/url.py\<close>, \<^verbatim>\<open>proxy/fault_injection.py\<close>, \<^verbatim>\<open>proxy/stdio_proxy.py\<close>; \<^verbatim>\<open>Proxy\<close>: \<^verbatim>\<open>proxy/handler.py\<close>
    and \<^verbatim>\<open>proxy/openapi_proxy.py\<close>; \<^verbatim>\<open>Ssrf\<close>: \<^verbatim>\<open>utils.py\<close> and \<^verbatim>\<open>mcp/oauth.py\<close>.
  \<^item> The hub as a client. \<^verbatim>\<open>Jsonrpc\<close>: \<^verbatim>\<open>mcp/jsonrpc.py\<close>, \<^verbatim>\<open>mcp/mrtr.py\<close>, \<^verbatim>\<open>mcp/sse.py\<close>; \<^verbatim>\<open>Stateless\<close>: \<^verbatim>\<open>mcp/stateless.py\<close> and
    \<^verbatim>\<open>mcp/pagination.py\<close>; \<^verbatim>\<open>Tool_Schemas\<close>: \<^verbatim>\<open>mcp/validation.py\<close> and \<^verbatim>\<open>mcp/schema_refs.py\<close>; \<^verbatim>\<open>Health\<close>: \<^verbatim>\<open>health/\<close>.
  \<^item> OpenAPI documents. \<^verbatim>\<open>Openapi_Refs\<close> and \<^verbatim>\<open>Py_Object\<close>: \<^verbatim>\<open>openapi/refs.py\<close>; \<^verbatim>\<open>Swagger2\<close>: \<^verbatim>\<open>openapi/swagger2.py\<close>;
    \<^verbatim>\<open>Schema_Convert\<close>: \<^verbatim>\<open>openapi/schema_convert.py\<close>; \<^verbatim>\<open>Trimmed_Spec\<close>: \<^verbatim>\<open>openapi/trimmed_spec.py\<close>; \<^verbatim>\<open>Import_Jobs\<close>: \<^verbatim>\<open>openapi/jobs.py\<close>.
  \<^item> OpenAPI tools. \<^verbatim>\<open>Openapi_Model\<close>: \<^verbatim>\<open>openapi/model.py\<close> and \<^verbatim>\<open>openapi/validation.py\<close>; \<^verbatim>\<open>Arguments\<close>: \<^verbatim>\<open>openapi/arguments.py\<close>;
    \<^verbatim>\<open>Mapping_Tools\<close>: \<^verbatim>\<open>openapi/mapping.py\<close>; \<^verbatim>\<open>Server_Tools\<close>: \<^verbatim>\<open>openapi/server_tools.py\<close>, with the locale \<open>bounded_cache\<close> that both caches of
    the virtual server interpret.
  \<^item> OpenAPI calls. \<^verbatim>\<open>Request_Builder\<close>: \<^verbatim>\<open>openapi/request_builder.py\<close>; \<^verbatim>\<open>Executor\<close>: \<^verbatim>\<open>openapi/executor.py\<close>; \<^verbatim>\<open>Virtual_Server\<close>:
    \<^verbatim>\<open>openapi/virtual_server.py\<close> and \<^verbatim>\<open>openapi/local_call.py\<close>, with the locale \<open>mcp_handler\<close> for what every method handler promises.
  \<^item> OpenAPI import. \<^verbatim>\<open>Json_Text\<close>, \<^verbatim>\<open>Spec_Parse\<close>: \<^verbatim>\<open>openapi/errors.py\<close> and \<^verbatim>\<open>openapi/parse.py\<close>; \<^verbatim>\<open>Spec_Bounds\<close>: what the parser
    accepts; \<^verbatim>\<open>Spec_Loader\<close>: \<^verbatim>\<open>openapi/loader.py\<close> and \<^verbatim>\<open>openapi/isolation.py\<close>; \<^verbatim>\<open>Importer\<close> and \<^verbatim>\<open>Import_Facts\<close>: \<^verbatim>\<open>openapi/importer.py\<close>; \<^verbatim>\<open>Revision\<close>:
    \<^verbatim>\<open>openapi/revision.py\<close>; \<^verbatim>\<open>Hints\<close>: \<^verbatim>\<open>openapi/hints.py\<close>.
  \<^item> Discovery. \<^verbatim>\<open>Sdk_Client\<close>: \<^verbatim>\<open>mcp/sdk_client.py\<close>; \<^verbatim>\<open>Discovery\<close>: \<^verbatim>\<open>mcp/discovery.py\<close>.
  \<^item> Administration. \<^verbatim>\<open>Openapi_Routes\<close>: \<^verbatim>\<open>routes/openapi.py\<close>; \<^verbatim>\<open>Registry_Exchange\<close>: \<^verbatim>\<open>mcp/registry_client.py\<close>,
    \<^verbatim>\<open>mcp/registry_import.py\<close>, \<^verbatim>\<open>mcp/registry_export.py\<close>; \<^verbatim>\<open>Registration\<close>: \<^verbatim>\<open>models/register_request.py\<close>, \<^verbatim>\<open>routes/v1.py\<close> and
    \<^verbatim>\<open>routes/registry_api.py\<close>; \<^verbatim>\<open>Hub_Steps\<close>: all of them with the import jobs, the discovery tasks and the poll as one transition system,
    whose invariant is proved in the locale \<open>server_registry\<close>.
  \<^item> Configuration. \<^verbatim>\<open>Hub_Config\<close> and \<^verbatim>\<open>Config_Facts\<close>: \<^verbatim>\<open>config.py\<close>, \<^verbatim>\<open>__main__.py\<close> and what \<^verbatim>\<open>app.py\<close> decides from the settings.
  \<^item> \<^verbatim>\<open>Deployment\<close>, \<^verbatim>\<open>Shop\<close>, \<^verbatim>\<open>Shop_Import\<close> and \<^verbatim>\<open>Shop_Config\<close> hold the concrete data on which the properties below are evaluated.

  \<^bold>\<open>Effects.\<close> State is passed explicitly: what a handler changes is a record it returns (\<open>proxy_state\<close>, \<open>auth_state\<close>,
  \<open>health_state\<close>), what it reads from outside is a record of its environment. An exception is the left side of a sum.
  Clocks are arguments, one for each reading that matters. Critical sections that another task may run between are separate steps:
  the token cache, the import jobs and the administration as a whole are transition systems (\<open>cache_step\<close>, \<open>job_step\<close>, \<open>hub_step\<close>)
  whose reachable states interleave them in any order. A registration is two steps of \<open>hub_step\<close>, since the handler waits for the network
  between its reading of the registry and its write, and the discovery it starts is a third.

  \<^bold>\<open>Code that is not the hub's\<close> is an argument: HTTP posts and gets, the JWT library, base64, name resolution and the
  classification of addresses, the JSON text codec, the JSON and YAML parsers up to their hooks, the OpenAPI validator, the hash, the
  fate of the child process that loads a document, the record codec of pydantic and its reading of a request's fields, \<open>unquote\<close>, the stdio
  sessions, the sessions of the MCP SDK, the GET of the public registry, \<open>httpx.URL\<close>, the JSON Schema engine and RE2. Assumed of them are
  only that the record codec round-trips the records that were written (\<open>codec_ok\<close>), that \<open>copy_with(params=...)\<close> of a URL changes its query
  only (\<open>url_laws\<close>), and that the hash of a snapshot identifies its document (\<open>snapshots_ok\<close>). Header collections of \<open>httpx\<close> are
  ordered pairs whose names compare without case.

  \<^bold>\<open>What is shown.\<close> The credentials of users: delegation fails closed, users never share tokens, assertions are checked before they
  are redeemed and the token cache is bounded (C1, C2, C6, C7). Who may do what: C9 to C11 and C18. The configuration: programs are
  registered only on a protected hub (C4). The administration: documents in the registry were checked, an accepted revision is the
  reviewed one, a registration was checked before it is stored, discovery undoes no other task's writes, secrets survive a
  resubmission (C5, C8, C12 to C14, C22, C23, C40). The proxy: C15 to C17 and C34. The calls and tools of an OpenAPI server: C3, C19 to
  C21, C32 and C35. Health and storage: C24 to C26. Traces: C27, C28 and C37. Outbound safety: C29. Documents, their references and
  the import jobs: C30, C31, C33, C38 and C39. The client: C36. Lemmas between them, without a number, are further facts of the same
  parts.

  \<^bold>\<open>Bounds.\<close> No loop needs fuel: \<open>collect_pages\<close> counts its \<open>MAX_PAGES\<close>, \<open>send_hops\<close> the redirects, \<open>list_pages\<close> the pages of the registry; the walks of a document that may
  not end (\<open>deref\<close>, \<open>bundle_pending\<close>, \<open>object_roots\<close>, \<open>reach\<close>, \<open>drop_dangling\<close>) are partial functions, of which the first two are
  shown to return on a checked document, and the other recursive functions have termination
  proofs (the reference search on the unvisited nodes, the document walks on the size of the stack, the schema references on their
  depth, the size check of a parsed document on the tree that is left). Text is made of code points up to 255, the range on which \<open>lower\<close>, \<open>strip\<close> and the like follow Python. Times are microseconds
  in \<open>int\<close>; Python's floats are rationals.

  \<^bold>\<open>Not modelled.\<close> Telemetry and logging, which change nothing the rest reads; the wiring of the FastAPI application, the pages of the
  user interface and their forms; the pool of stdio processes, which drives
  the SDK; the fetching of agent cards; the endless timer loops around \<open>poll_once\<close> and the health checks, of which the body is modelled.
\<close>

section \<open>Delegated authentication\<close>





text \<open>Under delegation the static credentials of the record are never read: changing the bearer
  token, the basic user name and the basic password changes nothing in the run but those three fields
  of the record itself.\<close>

lemma delegation_ignores_static_credentials:
  assumes "srv_auth_type (as_server st) = AT_obo \<or> srv_auth_type (as_server st) = AT_ema"
  shows "apply_server_auth env (PrincipalCaller p) (restatic b u w st) =
           map_prod (restatic b u w) (\<lambda>r. r) (apply_server_auth env (PrincipalCaller p) st)"
  using assms by (rule apply_server_auth_restatic)

theorem delegation_ignores_static_credentials_witness:
  "srv_auth_type (as_server demo_state) = AT_obo \<and>
   apply_server_auth (demo_env idp_answer) (PrincipalCaller alice) (restatic ''x'' ''y'' ''z'' demo_state) =
     map_prod (restatic ''x'' ''y'' ''z'') (\<lambda>r. r)
       (apply_server_auth (demo_env idp_answer) (PrincipalCaller alice) demo_state)"
proof -
  have "srv_auth_type (as_server demo_state) = AT_obo" by (simp add: demo_defs)
  then show ?thesis using delegation_ignores_static_credentials[of demo_state] by simp
qed

text \<open>A background call has no user: it exchanges nobody's token, leaves the per-user cache as it
  is, and the only token requests it sends are the server's own client-credentials form, which names
  no subject.\<close>

lemma service_identity_exchanges_nothing:
  "as_obo (fst (apply_server_auth env ServiceIdentity st)) = as_obo st \<and>
   (\<exists>sent. as_sent (fst (apply_server_auth env ServiceIdentity st)) = as_sent st @ sent \<and>
      (\<forall>(url, form) \<in> set sent. form = credentials_form (as_server st) \<and> map_of form ''subject_token'' = None))"
  using apply_service_identity[of env st] credentials_form_no_subject by fastforce

theorem service_identity_exchanges_nothing_witness:
  "as_obo (fst (apply_server_auth (demo_env idp_answer) ServiceIdentity demo_state)) = new_obo_cache 4"
  using service_identity_exchanges_nothing[of "demo_env idp_answer" demo_state] by (simp add: demo_state_def)

text \<open>C6. The ID-JAG flow redeems an assertion only after checking it: if a second token request is
  sent, the first leg returned an assertion, its \<open>resource\<close> claim is the configured resource whenever
  one is configured, and the two requests are exactly the two legs.\<close>

theorem id_jag_redeemed_only_after_check:
  assumes "length (fst (exchange_for_access_token fr post claims_of r)) > 1"
  shows "\<exists>a. request_id_jag fr post r = Inr a \<and>
           (ir_resource_id r = [] \<or>
             (\<exists>claims. claims_of a = Inr claims \<and>
                       str_or_empty fr (jget claims ''resource'') = ir_resource_id r)) \<and>
           fst (exchange_for_access_token fr post claims_of r) =
             [(ir_idp_token_url r, id_jag_form r), (ir_resource_as_token_url r, redeem_form r a)]"
proof -
  obtain sent res where e: "exchange_for_access_token fr post claims_of r = (sent, res)" by fastforce
  with assms have "length sent > 1" by simp
  from redeem_only_after_claim[OF e this] show ?thesis using e by (metis fst_conv)
qed

theorem id_jag_redeemed_only_after_check_witness:
  "\<exists>a. request_id_jag (\<lambda>r. []) demo_id_jag_post demo_id_jag = Inr a \<and>
       (ir_resource_id demo_id_jag = [] \<or>
         (\<exists>claims. demo_claims a = Inr claims \<and>
                   str_or_empty (\<lambda>r. []) (jget claims ''resource'') = ir_resource_id demo_id_jag)) \<and>
       fst (exchange_for_access_token (\<lambda>r. []) demo_id_jag_post demo_claims demo_id_jag) =
         [(ir_idp_token_url demo_id_jag, id_jag_form demo_id_jag),
          (ir_resource_as_token_url demo_id_jag, redeem_form demo_id_jag a)]"
  by (rule id_jag_redeemed_only_after_check) (simp add: id_jag_eval)

section \<open>The cache of exchanged tokens\<close>

text \<open>C7. In every reachable state of the cache, with lookups, exchanges, failures, invalidations and
  time interleaved in any way, the cache holds at most its maximum of entries, each entry is a token
  issued under its own key, and each answer is a token issued under the key asked for; a cached answer
  was given more than the safety margin before the caller's own token expires.\<close>

theorem obo_cache_invariant:
  assumes "cache_reachable n now s"
  shows "length (oc_entries (cs_cache s)) \<le> n \<and>
         (\<forall>(k, e) \<in> set (oc_entries (cs_cache s)). entry_issued s k e) \<and>
         (\<forall>a \<in> set (cs_answers s). answer_issued s a)"
  using cache_reachable_inv[OF assms] by (simp add: cache_inv_def cache_ok_def)

theorem obo_cache_invariant_witness:
  "cache_reachable 2 0 demo_cache_run \<and> length (cs_answers demo_cache_run) = 2 \<and>
   list_all (answer_issued demo_cache_run) (cs_answers demo_cache_run)"
  using obo_cache_invariant[OF demo_cache_run_reachable] demo_cache_run_reachable
  by (simp add: list_all_iff) (simp add: demo_cache_run_def)

text \<open>Storing a token makes it the most recent entry, and what is evicted is a prefix of the
  entries in order of use: the least recently used ones and never the token just stored.\<close>

lemma obo_cache_evicts_oldest:
  assumes "oc_max_entries c > 0"
  shows "\<exists>gone e. e = \<lparr>ce_token = xt_access_token t, ce_expires_at = expiry_for now t se\<rparr> \<and>
           AList.delete k (oc_entries c) @ [(k, e)] = gone @ oc_entries (cache_store now k t se c) \<and>
           map_of (oc_entries (cache_store now k t se c)) k = Some e"
  using cache_store_get[OF assms, of now k t se] cache_store_evicts_prefix[OF refl, of k c t now se] by auto

theorem obo_cache_evicts_oldest_witness:
  "oc_entries (cache_store 0 key_b demo_token None
       \<lparr>oc_entries = [(key_a, \<lparr>ce_token = ''old'', ce_expires_at = 9\<rparr>)], oc_max_entries = 1\<rparr>)
     = [(key_b, \<lparr>ce_token = ''tok'', ce_expires_at = microseconds 3600\<rparr>)]"
proof -
  let ?c = "\<lparr>oc_entries = [(key_a, \<lparr>ce_token = ''old'', ce_expires_at = 9\<rparr>)], oc_max_entries = 1\<rparr>"
  have "oc_max_entries ?c > 0" by simp
  from obo_cache_evicts_oldest[OF this, of demo_token 0 None key_b] show ?thesis
    by (simp add: cache_store_def move_to_end_def Let_def expiry_for_def demo_token_def key_a_def key_b_def)
qed

section \<open>Authentication and authorization\<close>

text \<open>C10. Who may call a server: without JWT authentication everyone; otherwise only an authenticated
  caller who holds the admin scope, or the scope the server requires when it requires one. A refused
  caller gets 401 when anonymous and 403 otherwise.\<close>

theorem server_access_decision:
  "(require_server_access settings request server = None \<longleftrightarrow>
      \<not> authorization_enforced (request_auth_config settings) \<or>
      (\<not> pr_is_anonymous (request_principal request) \<and>
       (has_scope (request_principal request) (admin_scope (request_auth_config settings)) \<or>
        (strip (srv_required_scope server) \<noteq> [] \<and>
         has_scope (request_principal request) (strip (srv_required_scope server)))))) \<and>
   map_option he_status (require_server_access settings request server) \<in>
     {None, Some (if pr_is_anonymous (request_principal request) then 401 else 403)}"
  using require_server_access_None[of settings request server]
    require_server_access_status[of settings request server] may_call_server_iff
  by (cases "require_server_access settings request server") auto

theorem server_access_decision_witness:
  "require_server_access (Some demo_auth) demo_request demo_server = None \<and>
   require_server_access (Some demo_auth) (demo_request\<lparr>rq_principal := None\<rparr>) demo_server \<noteq> None"
  using server_access_decision[of "Some demo_auth" demo_request demo_server]
    server_access_decision[of "Some demo_auth" "demo_request\<lparr>rq_principal := None\<rparr>" demo_server]
  by (simp add: demo_request_def demo_auth_def alice_def demo_server_def new_server_def named_principal_def
      request_principal_def caller_from_request_def anonymous_def authorization_enforced_def
      request_auth_config_def has_scope_def s1_call_strip)

text \<open>C11. A principal that JWT authentication returns carries the token the request presented, and the
  library verified that token against the configured algorithms, issuer and audience; its subject and
  scopes are the token's, every required scope is among them, and an identity assertion it carries is
  a verified token of the same subject.\<close>

theorem jwt_principal_verified:
  assumes "fst (jwt_authenticate fr lib st env1 env2 c request) = Inr (Some p)"
  shows "presented_bearer request = Some (pr_token p) \<and>
    (\<exists>key claims.
       jwt_decode lib (pr_token p) key (js_algorithms st) (Some (js_audience st)) (js_issuer st)
         (js_leeway st) [''exp'', ''iss'', ''aud'', ''sub''] = Some claims \<and>
       pr_subject p = str_or_empty fr (jget claims ''sub'') \<and> pr_subject p \<noteq> [] \<and>
       pr_scopes p = scopes_from_claims fr claims \<and> set (js_required_scopes st) \<subseteq> set (pr_scopes p)) \<and>
    \<not> pr_is_anonymous p \<and>
    (pr_id_token p = [] \<or>
      (\<exists>key claims. jwt_decode lib (pr_id_token p) key (js_algorithms st) None (js_issuer st) (js_leeway st)
           [''exp'', ''iss'', ''sub''] = Some claims \<and> str_or_empty fr (jget claims ''sub'') = pr_subject p))"
proof -
  obtain c' where a: "jwt_authenticate fr lib st env1 env2 c request = (Inr (Some p), c')"
    using assms by (metis prod.collapse)
  obtain c1 where "identity_assertion_for fr lib st env2 request (pr_subject p) c1 = (pr_id_token p, c')"
    using jwt_authenticate_assertion[OF a] by blast
  from identity_assertion_subject(2)[OF this] show ?thesis
    by (rule_tac jwt_authenticate_Some[OF a]) blast
qed

theorem jwt_principal_verified_witness:
  "\<exists>p. fst (jwt_authenticate (\<lambda>r. []) demo_jwt_lib demo_strategy demo_jwks demo_jwks (new_jwks_cache 60) jwt_request)
         = Inr (Some p) \<and> presented_bearer jwt_request = Some (pr_token p)"
proof -
  obtain p where p: "fst (jwt_authenticate (\<lambda>r. []) demo_jwt_lib demo_strategy demo_jwks demo_jwks
      (new_jwks_cache 60) jwt_request) = Inr (Some p)"
    by (simp add: jwt_eval)
  with jwt_principal_verified[OF p] show ?thesis by blast
qed

text \<open>C18. Signing keys are refreshed at most twice in any window of the minimum refresh interval,
  however many requests with unknown key identifiers arrive in it.\<close>

theorem jwks_refreshes_bounded:
  assumes "0 < t" and "jc_last_attempt c = 0 \<longrightarrow> jc_keys c = []"
    and "\<forall>(env, kid) \<in> set calls. t \<le> je_after env \<and> je_now env < t + jc_min_refresh_interval c"
  shows "fst (jwks_run fr lib calls c) \<le> 2"
  using jwks_run_bounded[OF assms] refresh_budget_le le_trans by blast

theorem jwks_refreshes_bounded_witness:
  "fst (jwks_run (\<lambda>r. []) demo_jwt_lib (replicate 9 (demo_jwks, Some ''other'')) (new_jwks_cache 60)) \<le> 2"
  by (rule jwks_refreshes_bounded[of 1]) (simp_all add: demo_jwks_def new_jwks_cache_def)

text \<open>A JWT configuration that the hub accepts verifies asymmetric signatures only, whatever
  algorithms it lists, and names an issuer, an audience and a key set.\<close>

lemma jwt_configuration_asymmetric:
  assumes "build_authenticator auth = Inr (JWTBearerStrategy uri st)"
  shows "uri \<noteq> [] \<and> js_issuer st \<noteq> [] \<and> js_audience st \<noteq> [] \<and> js_algorithms st \<noteq> [] \<and>
         list_all is_asymmetric (js_algorithms st)"
  using build_authenticator_jwt[OF assms] by (simp add: list_all_iff)

theorem jwt_configuration_asymmetric_witness:
  "\<exists>uri st. build_authenticator demo_jwt_auth = Inr (JWTBearerStrategy uri st) \<and>
            list_all is_asymmetric (js_algorithms st)"
proof -
  obtain uri st where b: "build_authenticator demo_jwt_auth = Inr (JWTBearerStrategy uri st)"
    using demo_jwt_auth_builds by blast
  with jwt_configuration_asymmetric[OF b] show ?thesis by blast
qed

text \<open>The token exchanged for a user is the one the request itself presented: after the
  authentication dependency has accepted a request under JWT authentication, a principal that may be
  the subject of an exchange carries the bearer token of that request.\<close>

lemma subject_token_from_request:
  assumes "fst (auth_required (jwt_authenticate fr lib st env1 env2) challenge c request) = Inr request'"
    and "can_act_as_obo_subject (request_principal request')"
  shows "presented_bearer request = Some (pr_token (request_principal request'))"
  using assms jwt.subject_token_is_the_callers by (metis prod.collapse)

theorem subject_token_from_request_witness:
  "\<exists>request'. fst (auth_required (jwt_authenticate (\<lambda>r. []) demo_jwt_lib demo_strategy demo_jwks demo_jwks)
       (\<lambda>r. []) (new_jwks_cache 60) jwt_request) = Inr request' \<and>
     presented_bearer jwt_request = Some (pr_token (request_principal request'))"
proof -
  obtain request' where a: "fst (auth_required (jwt_authenticate (\<lambda>r. []) demo_jwt_lib demo_strategy
      demo_jwks demo_jwks) (\<lambda>r. []) (new_jwks_cache 60) jwt_request) = Inr request'"
    and b: "can_act_as_obo_subject (request_principal request')"
    by (simp add: jwt_eval auth_required_def request_principal_def caller_from_request_def can_act_as_obo_subject_def)
  from subject_token_from_request[OF a b] a show ?thesis by blast
qed

section \<open>The proxy\<close>


text \<open>C16. A refused request has no effect but its trace entry: no backend call, no token request, no
  change of either token cache; the entry names the caller and has the status of the reply, 401 for an
  anonymous caller and 403 for another.\<close>

theorem proxy_refusal_has_no_effect:
  assumes "target_server env r = Some s"
    and "\<not> may_call_server (request_principal r) s (request_auth_config (pv_settings env))"
  shows "\<exists>e resp. proxy_request env r st = (st\<lparr>px_trace := px_trace st @ [e]\<rparr>, Replied resp) \<and>
           hr_status resp = (if pr_is_anonymous (request_principal r) then 401 else 403) \<and>
           te_status e = hr_status resp \<and> te_subject e = pr_subject (request_principal r) \<and>
           te_request_headers e = [] \<and> te_request_body e = []"
proof -
  obtain exc where exc: "require_server_access (pv_settings env) r s = Some exc"
    using assms(2) require_server_access_None[of "pv_settings env" r s] by (cases "require_server_access (pv_settings env) r s") auto
  then have "proxy_request env r st = proxy_denied env r s exc st"
    using assms(1) proxy_request_cases[of env r st] by simp
  moreover have "he_status exc = (if pr_is_anonymous (request_principal r) then 401 else 403)"
    by (rule require_server_access_status[OF exc])
  moreover have "caller_subject (caller_from_request r) = pr_subject (request_principal r)"
    by (simp add: caller_subject_def request_principal_def caller_from_request_def split: option.split)
  ultimately show ?thesis
    by (intro exI[of _ "proxy_entry env r s (pr_subject (request_principal r)) [] (he_status exc) (he_detail exc)"]
          exI[of _ "response_of (he_status exc) (he_detail exc) (he_headers exc) None"])
       (simp add: proxy_denied_def add_trace_def proxy_entry_def response_of_def)
qed

theorem proxy_refusal_has_no_effect_witness:
  "\<exists>e resp. proxy_request demo_proxy (demo_request\<lparr>rq_principal := None\<rparr>) demo_proxy_state
              = (demo_proxy_state\<lparr>px_trace := [e]\<rparr>, Replied resp) \<and> hr_status resp = 401"
proof -
  have a: "target_server demo_proxy (demo_request\<lparr>rq_principal := None\<rparr>) = Some demo_server"
    by (simp add: target_server_def demo_request_def demo_proxy_def header_or_empty_def target_lower)
  have b: "\<not> may_call_server (request_principal (demo_request\<lparr>rq_principal := None\<rparr>)) demo_server
             (request_auth_config (pv_settings demo_proxy))"
    by (simp add: demo_proxy_def demo_auth_def request_principal_def caller_from_request_def may_call_server_def
        authorization_enforced_def is_admin_def anonymous_def demo_request_def request_auth_config_def)
  have "pr_is_anonymous (request_principal (demo_request\<lparr>rq_principal := None\<rparr>))"
    by (simp add: request_principal_def caller_from_request_def anonymous_def demo_request_def)
  with proxy_refusal_has_no_effect[OF a b, of demo_proxy_state] show ?thesis
    by (auto simp: demo_proxy_state_def)
qed


text \<open>The identity assertion is forwarded: a \<open>X-MCP-Identity-Assertion\<close> header, by which a caller
  hands the hub an ID token, stays among the headers sent to the backend.\<close>

lemma identity_assertion_forwarded:
  assumes "(k, v) \<in> set incoming" and "lower k = lower IDENTITY_ASSERTION_HEADER"
  shows "(k, v) \<in> set (unauthenticated_headers loads incoming server body)"
proof -
  have "lower k \<notin> {''host'', ''authorization'', lower ''MCP-Protocol-Version'', lower ''Mcp-Method'', lower ''Mcp-Name''}"
    unfolding assms(2) by code_simp
  then have "(k, v) \<in> set (forwarded_headers incoming)" "k \<notin> {''MCP-Protocol-Version'', ''Mcp-Method'', ''Mcp-Name''}"
    using assms(1) by (auto simp: forwarded_headers_def)
  then show ?thesis by (rule unauthenticated_headers_keeps)
qed

theorem identity_assertion_forwarded_witness:
  "(IDENTITY_ASSERTION_HEADER, ''id-token'') \<in>
     set (unauthenticated_headers (\<lambda>b. Inl []) [(IDENTITY_ASSERTION_HEADER, ''id-token'')] demo_server [])"
  by (rule identity_assertion_forwarded) simp_all

text \<open>C37. What the trace keeps of a backend's answer: with verbose tracing of an answer that may be
  captured, one entry with the status, the sanitized headers and the whole body truncated to the limit,
  although only a bounded prefix of the stream is buffered; without verbose tracing, one entry with no
  headers and no bodies; and for a verbose server with a captured-off event stream, no entry at all.\<close>

theorem delivered_answer_trace:
  assumes "pv_body_limit env \<ge> 0"
  shows "let sse = is_sse_content_type (header_get (br_headers resp) ''content-type'');
             new = px_trace (fst (deliver env r s sub url resp st))
         in snd (deliver env r s sub url resp st) = Streamed (br_status resp) (br_headers resp) (br_chunks resp) \<and>
            new = px_trace st @
              (if \<not> srv_trace_verbose s then [proxy_entry env r s sub url (br_status resp) []]
               else if sse \<and> \<not> pv_capture_sse env then []
               else [(proxy_entry env r s sub url (br_status resp) [])
                       \<lparr>te_request_headers := sanitize_headers (rq_headers r),
                        te_request_body := truncate_body (rq_body r) (pv_body_limit env),
                        te_response_headers := sanitize_headers (br_headers resp),
                        te_response_body := truncate_body (concat (br_chunks resp)) (pv_body_limit env)\<rparr>])"
  by (auto simp: deliver_trace truncate_capture[OF assms] with_request_def captured_request_def Let_def)
     (simp_all add: deliver_def Let_def)

theorem delivered_answer_trace_witness:
  "px_trace (fst (deliver demo_proxy demo_request (demo_server\<lparr>srv_trace_verbose := True\<rparr>) ''alice'' ''u''
      \<lparr>br_status = 200, br_headers = [(''content-type'', ''text/event-stream'')], br_chunks = [''data'']\<rparr>
      demo_proxy_state)) = []"
proof -
  have "is_sse_content_type (Some ''text/event-stream'')" "lower ''content-type'' = ''content-type''" by code_simp+
  moreover have "pv_body_limit demo_proxy \<ge> 0" by (simp add: demo_proxy_def)
  ultimately show ?thesis
    using delivered_answer_trace[of demo_proxy "\<lparr>br_status = 200, br_headers = [(''content-type'', ''text/event-stream'')],
      br_chunks = [''data'']\<rparr>" demo_request "demo_server\<lparr>srv_trace_verbose := True\<rparr>" "''alice''" "''u''" demo_proxy_state]
    by (simp add: Let_def demo_proxy_state_def demo_proxy_def)
qed

text \<open>A JSON-RPC request with an identifier that is proxied to a stdio process is always answered
  under that identifier, whether the pool, the process or the reply fails or not.\<close>

lemma stdio_reply_keeps_id:
  assumes "loads body = Inr (JObj d)" and "body \<noteq> []" and "jget d ''id'' \<noteq> JNull"
  shows "reply_id_ok dumps (jget d ''id'') (forward_to_stdio loads dumps pool srv body)"
  using assms by (rule forward_to_stdio_id)

theorem stdio_reply_keeps_id_witness:
  "reply_id_ok (\<lambda>j. ''out'') (JInt 7) (forward_to_stdio (\<lambda>b. Inr (JObj [(''id'', JInt 7)])) (\<lambda>j. ''out'') None demo_server ''x'')"
  using stdio_reply_keeps_id[of "\<lambda>b. Inr (JObj [(''id'', JInt 7)])" "''x''" "[(''id'', JInt 7)]"]
  by (simp add: jget_def)

section \<open>The registry and its storage\<close>

text \<open>Registering a server over the JSON storage makes it readable at once, even when the file
  cannot be written; every other server stays as it was; a server registered again keeps its creation
  time, and a server that is not an OpenAPI one keeps the tools found earlier when it brings none.\<close>

lemma register_then_get:
  assumes "json_ok js"
  shows "let ops = json_server_ops cd; js' = snd (reg_register ops io now ts server js);
             old = reg_get ops js (srv_id server)
         in json_ok js' \<and>
            (\<forall>k. k = srv_id server \<or> reg_get ops js' k = reg_get ops js k) \<and>
            (\<exists>v. reg_get ops js' (srv_id server) = Some v \<and> srv_id v = srv_id server \<and>
                 srv_created_at v = (case old of Some e \<Rightarrow> srv_created_at e | None \<Rightarrow> Some (fst ts)) \<and>
                 srv_tools v = (case old of
                    Some e \<Rightarrow> if is_openapi server then srv_tools server
                              else keep_list (srv_tools server) (srv_tools e)
                  | None \<Rightarrow> srv_tools server))"
proof -
  obtain r js' where r: "reg_register (json_server_ops cd) io now ts server js = (r, js')" by fastforce
  show ?thesis
    using json_registry.register_abs(1)[OF assms r] json_registry.register_get[OF assms r]
    by (simp add: r Let_def registered_as_created_at registered_as_tools)
qed

theorem register_then_get_witness:
  "\<exists>v. reg_get (json_server_ops demo_codec)
        (snd (reg_register (json_server_ops demo_codec) True 5 (5, 5) demo_server empty_json)) ''s1'' = Some v
      \<and> srv_created_at v = Some 5"
proof -
  have ok: "json_ok empty_json" and none: "reg_get (json_server_ops demo_codec) empty_json ''s1'' = None"
    and i: "srv_id demo_server = ''s1''"
    by (simp_all add: empty_json_def store_ok_empty)
       (simp_all add: reg_get_def json_server_ops_def json_op_defs mem_op_defs empty_store_def
          demo_server_def new_server_def)
  show ?thesis
    using register_then_get[OF ok, of demo_codec True 5 "(5, 5)" demo_server] by (simp add: Let_def i none) blast
qed


text \<open>C26. A restart recovers what was saved: after a save that wrote the file, loading that file gives
  back every server and agent, without the fields that are not persisted, provided the record codec
  round-trips the records that were written.\<close>

theorem restart_recovers_saved:
  assumes "json_ok js" and "codec_ok cd (js_mem (snd (json_save cd True ts v js)))"
  shows "let js' = snd (json_save cd True ts v js)
         in json_init cd (js_file js') = Inr \<lparr>js_mem = restarted (js_mem js'), js_file = js_file js'\<rparr> \<and>
            map_of (st_data (restarted (js_mem js'))) (srv_id v) =
              Some (sanitize_for_persistence (stamp_server ts (map_of (st_data (js_mem js)) (srv_id v)) v))"
proof -
  let ?js' = "snd (json_save cd True ts v js)"
  have saved: "fst (json_save cd True ts v js) = Inr (stamp_server ts (map_of (st_data (js_mem js)) (srv_id v)) v)"
    using json_servers.save_ok[OF assms(1), of cd ts v] by (simp add: json_server_ops_def)
  then have run: "json_save cd True ts v js = (Inr (stamp_server ts (map_of (st_data (js_mem js)) (srv_id v)) v), ?js')"
    by (metis prod.collapse)
  have ok: "store_ok (js_mem ?js')" and get: "map_of (st_data (js_mem ?js')) (srv_id v)
      = Some (stamp_server ts (map_of (st_data (js_mem js)) (srv_id v)) v)"
    using json_servers.save_abs[OF assms(1), of cd True ts v] run by (simp_all add: json_server_ops_def)
  have "map_of (st_data (restarted st)) k = map_option sanitize_for_persistence (map_of (st_data st) k)" for st k
    by (simp add: restarted_def map_of_map)
  then show ?thesis
    using json_init_persisted[OF assms(2) ok] json_save_file[OF run] get by (simp add: Let_def)
qed

theorem restart_recovers_saved_witness:
  "\<exists>js'. json_init demo_codec (js_file (snd (json_save demo_codec True (5, 5) demo_server empty_json))) = Inr js'"
proof -
  have ok: "json_ok empty_json" by (simp add: empty_json_def store_ok_empty)
  have "codec_ok demo_codec (js_mem (snd (json_save demo_codec True (5, 5) demo_server empty_json)))"
    by (simp add: json_save_mem mem_save_def Let_def codec_ok_def server_codec_ok_def empty_json_def
        empty_store_def demo_codec_def)
  from restart_recovers_saved[OF ok this] show ?thesis by (simp add: Let_def)
qed

text \<open>A save whose write fails raises the error and leaves the file as it was, but the server is
  in memory and is served from there.\<close>

lemma failed_write_keeps_file:
  assumes "json_ok js"
  shows "let js' = snd (json_save cd False ts v js)
         in isl (fst (json_save cd False ts v js)) \<and> js_file js' = js_file js \<and>
            op_get (json_server_ops cd) js' (srv_id v) =
              Some (stamp_server ts (map_of (st_data (js_mem js)) (srv_id v)) v)"
proof -
  have err: "\<exists>e. json_save cd False ts v js = (Inl e, snd (json_save cd False ts v js))"
    by (simp add: json_save_def persist_locked_def Let_def split: prod.splits)
  then obtain e where e: "json_save cd False ts v js = (Inl e, snd (json_save cd False ts v js))" by blast
  have "op_get (json_server_ops cd) (snd (json_save cd False ts v js)) (srv_id v) =
      Some (stamp_server ts (map_of (st_data (js_mem js)) (srv_id v)) v)"
    using json_servers.get_after_save[OF assms, of cd False ts v _ _ "srv_id v"] e
    by (simp add: json_server_ops_def)
  with json_save_failed_file[OF e] e show ?thesis by (metis fst_conv sum.disc(1))
qed

theorem failed_write_keeps_file_witness:
  "js_file (snd (json_save demo_codec False (5, 5) demo_server empty_json)) = None"
  using failed_write_keeps_file[of empty_json demo_codec "(5, 5)" demo_server]
  by (simp add: empty_json_def store_ok_empty Let_def)

section \<open>Health checks\<close>

text \<open>C24. The end of a health check over the JSON storage, when the file can be written: a healthy verdict
  resets the failure counter and a failed one adds one to it, the stored health fields are consistent
  (healthy exactly when there is a start of the healthy period, from which the uptime is counted), and the
  server is removed exactly when automatic removal is on and the counter has reached the threshold.\<close>

theorem health_verdict_recorded:
  assumes "json_ok (hs_store st)" and "he_io env" and "reg_get (json_server_ops cd) (hs_store st) (srv_id srv) = Some stored"
  shows "fst (finish_check (json_server_ops cd) env srv h rl st) = Inr () \<and>
    (case reg_get (json_server_ops cd) (hs_store (snd (finish_check (json_server_ops cd) env srv h rl st))) (srv_id srv) of
       None \<Rightarrow> \<not> h \<and> he_auto_unregister env \<and> srv_consecutive_fails srv + 1 \<ge> he_failure_threshold env
     | Some v \<Rightarrow> (h \<or> \<not> he_auto_unregister env \<or> srv_consecutive_fails srv + 1 < he_failure_threshold env) \<and>
         srv_healthy v = h \<and> srv_rate_limited v = rl \<and> srv_last_checked v = Some (he_now env) \<and>
         srv_consecutive_fails v = (if h then 0 else srv_consecutive_fails srv + 1) \<and> health_consistent v)"
proof -
  obtain r st' where r: "finish_check (json_server_ops cd) env srv h rl st = (r, st')" by fastforce
  let ?v = "health_fields (he_now env) h (new_fails h srv) rl stored"
  have same: "health_consistent (?v\<lparr>srv_updated_at := u\<rparr>)" for u
    using health_fields_consistent[of "he_now env" h "new_fails h srv" rl stored] by (simp add: health_consistent_def)
  show ?thesis
    using json_registry.finish_check_get[OF assms r] same
    by (auto simp: r drops_def new_fails_def split: if_splits)
qed

theorem health_verdict_recorded_witness:
  "fst (finish_check (json_server_ops demo_codec) demo_health demo_server False False demo_health_state) = Inr ()"
proof -
  have "json_ok (hs_store demo_health_state)"
    using json_servers.save_abs[of empty_json demo_codec True "(5, 5)" demo_server]
    by (simp add: demo_health_state_def empty_json_def store_ok_empty json_server_ops_def prod.expand split: prod.splits)
       (metis prod.collapse)
  moreover have "he_io demo_health" by (simp add: demo_health_def)
  moreover have "\<exists>stored. reg_get (json_server_ops demo_codec) (hs_store demo_health_state) (srv_id demo_server) = Some stored"
    by (simp add: demo_health_state_def reg_get_def json_server_ops_def json_op_defs json_save_mem mem_op_defs
        Let_def update_conv')
  ultimately show ?thesis using health_verdict_recorded by blast
qed

text \<open>The MCP probe of a server that only ever acts for users (delegation with no credential of its
  own) always reports success, without a request and whatever the server's endpoint answered.\<close>

lemma user_only_probe_succeeds:
  assumes "needs_user_identity srv = Inr True"
  shows "mcp_probe env srv st = (Probe_ok, st) \<and> probe_verdict (fst (mcp_probe env srv st)) = (True, False)"
  by (simp add: mcp_probe_user_only[OF assms] probe_verdict_def)

theorem user_only_probe_succeeds_witness:
  "fst (mcp_probe demo_health user_only_server demo_health_state) = Probe_ok"
proof -
  have "needs_user_identity user_only_server = Inr True"
    by (simp add: user_only_server_def needs_user_identity_def has_service_credential_def
        oauth_token_endpoint_def token_endpoint_from_metadata_def new_server_def)
  then show ?thesis using user_only_probe_succeeds[of user_only_server demo_health demo_health_state] by simp
qed

section \<open>Traces\<close>

text \<open>C27. The recorder refines an unbounded log: after any sequence of additions and clearings, what it
  lists for a server is the last \<open>limit\<close> of the redacted entries added for that server since it was
  last cleared, in order; listing for one subject shows only that subject's entries.\<close>

theorem recorder_refines_log:
  assumes "sid \<noteq> []"
  shows "recorder_list (foldl (recorder_step san) (new_recorder n) evs) sid None = last_n n (history san sid [] evs) \<and>
         recorder_list (foldl (recorder_step san) (new_recorder n) evs) sid (Some sub)
           = filter (\<lambda>e. te_subject e = sub) (last_n n (history san sid [] evs))"
proof -
  have start: "recorder_list (new_recorder n) sid None = last_n (tr_limit (new_recorder n)) []"
    by (simp add: recorder_list_def new_recorder_def last_n_def)
  have "recorder_list (foldl (recorder_step san) (new_recorder n) evs) sid None = last_n n (history san sid [] evs)"
    using recorder_refines_history_from[OF assms start, of san evs] by (simp add: new_recorder_def)
  then show ?thesis by (auto simp: recorder_list_def split: option.splits)
qed

theorem recorder_refines_log_witness:
  "recorder_list (foldl (recorder_step id) (new_recorder 1) [Add demo_entry, Clear ''s2'', Add demo_entry]) ''s1'' None
     = [demo_entry]"
  using recorder_refines_log[of "''s1''" id 1 "[Add demo_entry, Clear ''s2'', Add demo_entry]"]
  by (simp add: last_n_def demo_entry_def redact_entry_def)

text \<open>C28. Redaction keeps secrets out of the trace: a redacted document has the marker under every sensitive
  name at every depth, redacting again changes nothing, and two documents that differ only under sensitive
  names are redacted to the same document.\<close>

theorem redaction_hides_secrets:
  "secrets_hidden (redact_structure j) \<and> redact_structure (redact_structure j) = redact_structure j \<and>
   (same_public j w \<longrightarrow> redact_structure j = redact_structure w)"
  using redact_hides(1)[of j] redact_fixes_hidden(1)[OF redact_hides(1)[of j]] same_public_redact(1)[of j w]
  by blast

theorem redaction_hides_secrets_witness:
  "redact_structure (JList [JObj [(''password'', JStr ''a'')]]) = redact_structure (JList [JObj [(''password'', JInt 7)]])"
proof -
  have "lower ''password'' \<in> set SENSITIVE_BODY_FIELDS" by code_simp
  then show ?thesis
    using redaction_hides_secrets[of "JList [JObj [(''password'', JStr ''a'')]]" "JList [JObj [(''password'', JInt 7)]]"]
    by simp
qed

section \<open>Outbound requests of the hub\<close>

text \<open>C29. A connection goes only to a checked address: the transport connects to the address it checked, that
  address is allowed, and when it came from name resolution every address the name resolved to is allowed;
  the name stays in the \<open>Host\<close> header and in the TLS server name.\<close>

theorem pinned_connection_checked:
  assumes "handle_async_request ip_of dns allow host hs = Inr q"
  shows "(\<exists>ip. ip_of (pq_connect q) = Some ip \<and> ip_allowed ip allow) \<and>
    (pq_connect q = host \<or>
      (\<exists>ips. dns host = Some ips \<and> pq_connect q \<in> set ips \<and>
             (\<forall>a \<in> set ips. \<forall>ip. ip_of a = Some ip \<longrightarrow> ip_allowed ip allow))) \<and>
    pq_sni q = host \<and> map_of (pq_headers q) ''Host'' = Some host"
proof -
  obtain a where a: "resolve_pinned_ip ip_of dns allow host = Some a" "pq_connect q = a" "pq_sni q = host"
    "pq_headers q = AList.update ''Host'' host hs"
    using assms by (auto simp: handle_async_request_def split: option.splits)
  from resolve_pinned_ip_Some[OF a(1)] show ?thesis using a(2-4) by (auto simp: dict_simps)
qed

theorem pinned_connection_checked_witness:
  "\<exists>q. handle_async_request public_ip (\<lambda>h. Some [''1.2.3.4'']) False ''b.example'' [] = Inr q \<and> pq_sni q = ''b.example''"
proof -
  obtain q where q: "handle_async_request public_ip (\<lambda>h. Some [''1.2.3.4'']) False ''b.example'' [] = Inr q"
    by (simp add: handle_async_request_def resolve_pinned_ip_def public_ip_def ip_allowed_def)
  with pinned_connection_checked[OF q] show ?thesis by blast
qed

text \<open>A sanitized file name stays in its directory: no slash, no backslash, no control character and no
  two dots in a row.\<close>

lemma sanitized_filename_stays:
  "CHR ''/'' \<notin> set (sanitize_filename s) \<and> CHR 0x5C \<notin> set (sanitize_filename s) \<and>
   contains (sanitize_filename s) ''..'' = False \<and> list_all (\<lambda>c. \<not> is_control c) (sanitize_filename s)"
  using sanitize_filename_safe[of s] by (simp add: list_all_iff)

section \<open>The MCP client\<close>

text \<open>C36. Pagination is complete: against a server that serves \<open>n\<close> pages under distinct consecutive
  cursors, with \<open>n\<close> at most the page limit, every page is fetched and merged, in order.\<close>

theorem pagination_complete:
  assumes "\<And>s. fetch None s = (Inr (page 0), s)"
    and "\<And>i s. i < n \<Longrightarrow> fetch (Some (cur i)) s = (Inr (page i), s)"
    and "\<And>i. i < n \<Longrightarrow> nxt (page i) = (if Suc i < n then Some (cur (Suc i)) else None)"
    and "\<And>i. Suc i < n \<Longrightarrow> cur (Suc i) \<noteq> cur i"
    and "0 < n" and "n \<le> MAX_PAGES"
  shows "collect_pages fetch (\<lambda>acc p. Inr (merge acc p)) nxt s = (Inr (foldl merge (page 0) (map page [1..<n])), s)"
  using assms by (rule collect_pages_complete)

theorem pagination_complete_witness:
  "collect_pages demo_fetch (\<lambda>acc p. Inr (acc @ p)) demo_next () = (Inr [0, 1, 2], ())"
proof -
  have "collect_pages demo_fetch (\<lambda>acc p. Inr (acc @ p)) demo_next () = (Inr (foldl (@) [0] (map (\<lambda>i. [i]) [1..<3])), ())"
    by (rule pagination_complete[where n = 3 and page = "\<lambda>i. [i]" and cur = "\<lambda>i. replicate i (CHR ''x'')"])
       (auto simp: demo_fetch_def demo_next_def MAX_PAGES_def)
  then show ?thesis by (simp add: numeral_3_eq_3 upt_rec)
qed

text \<open>Listing always ends: whatever cursors the server returns, one listing sends at most \<open>MAX_PAGES\<close>
  requests.\<close>

lemma listing_requests_bounded:
  "length (sl_posts (snd (stateless_list env m c))) \<le> length (sl_posts c) + MAX_PAGES"
  by (rule stateless_list_posts)

text \<open>The retry of a request that needed input keeps the method, carries every answer and the state the
  server sent, and has a new identifier, which differs from the original one as Python compares values
  except when the original is \<open>True\<close> or the float one.\<close>

lemma retry_body_shape:
  assumes "build_retry_body loads req ir answers = Inr (Some d)"
  shows "\<exists>payload p. loads req = Inr (JObj payload) \<and> jget d ''method'' = jget payload ''method'' \<and>
           jget d ''params'' = JObj p \<and> jget p ''inputResponses'' = JObj (input_responses ir answers) \<and>
           (iq_request_state ir = [] \<or> jget p ''requestState'' = JStr (iq_request_state ir)) \<and>
           (py_eq (jget d ''id'') (jget payload ''id'') \<longleftrightarrow>
              jget payload ''id'' = JBool True \<or> jget payload ''id'' = JFloat 1)"
  using build_retry_body_Some[OF assms] next_id_differs by metis

theorem retry_body_shape_witness:
  "\<exists>d. build_retry_body (\<lambda>b. Inr (JObj [(''id'', JInt 4), (''method'', JStr ''m'')])) []
         \<lparr>iq_requests = [], iq_request_state = []\<rparr> [] = Inr (Some d) \<and> jget d ''method'' = JStr ''m''"
proof -
  let ?loads = "\<lambda>b. Inr (JObj [(''id'', JInt 4), (''method'', JStr ''m'')])"
  obtain d where d: "build_retry_body ?loads [] \<lparr>iq_requests = [], iq_request_state = []\<rparr> [] = Inr (Some d)"
    by (simp add: build_retry_body_def dict_or_empty_def jget_def)
  from retry_body_shape[OF d] d show ?thesis by (auto simp: jget_def)
qed

text \<open>Resolving a tool schema's references only adds: a property keeps every key it had, and a definition's
  own fields win over those of the definition it refers to.\<close>

lemma schema_references_only_add:
  assumes "resolve_ref defs (JStr ref) depth = Some r" and "ref_name ref = Some n" and "jget defs n = JObj d"
    and "has_key d k" and "k \<in> set MERGE_KEYS"
  shows "jget r k = jget d k \<and>
         jget (merge_into_property p r) k = (if has_key p k then jget p k else jget d k)"
proof -
  have own: "jget r k = jget d k" by (rule resolve_ref_own_keys[OF assms])
  have "has_key r k" using assms by (simp add: resolve_ref.simps[of defs "JStr ref" depth] Let_def
      has_key_add_missing keys_merge_fields split: if_splits option.splits)
        (auto simp: has_key_add_missing keys_merge_fields)
  with own show ?thesis
    by (cases "has_key p k") (simp_all add: merge_into_property_keeps merge_into_property_adds assms(5))
qed

theorem schema_references_only_add_witness:
  "jget (merge_into_property [] [(''type'', JStr ''string'')]) ''type'' = JStr ''string''"
proof -
  have "ref_name ''#/$defs/a'' = Some ''a''" "''type'' \<in> set MERGE_KEYS" by code_simp+
  moreover have "resolve_ref [(''a'', JObj [(''type'', JStr ''string'')])] (JStr ''#/$defs/a'') 1
      = Some [(''type'', JStr ''string'')]"
    by code_simp
  ultimately show ?thesis
    using schema_references_only_add[of "[(''a'', JObj [(''type'', JStr ''string'')])]" "''#/$defs/a''" 1
        "[(''type'', JStr ''string'')]" "''a''" "[(''type'', JStr ''string'')]" "''type''" "[]"]
    by (simp add: jget_def has_key_def)
qed

section \<open>OpenAPI imports\<close>



text \<open>JSON pointers round-trip: decoding the text of a pointer gives back its parts, whatever slashes and
  tildes they contain.\<close>

lemma pointer_roundtrip: "decode_pointer (encode_pointer parts) = Inr parts"
  by (rule decode_encode)

text \<open>C32. No argument of a call changes the shape of the request path: the built path has exactly the slashes of
  the template's literal text, and no header value carries a control character.\<close>

theorem built_request_shape:
  assumes "build_http_request fr dumps plan arguments = Inr req"
  shows "count_slashes (pd_path req) = literal_slashes (path_parts (rp_path plan) []) \<and>
         (\<forall>(k, v) \<in> set (pd_headers req). \<forall>c \<in> set v. \<not> is_ctl c)"
proof -
  obtain query path where p: "collect_params fr dumps arguments (rp_parameters plan) = Inr (query, pd_headers req)"
    "build_path fr dumps (rp_path plan) (rp_parameters plan) arguments = Inr path" "pd_path req = path"
    using assms by (auto simp: build_http_request_def split: sum.splits)
  from render_path_slashes[OF p(2)[unfolded build_path_def]] collect_params_headers[OF p(1)] p(3) show ?thesis
    by simp
qed

theorem built_request_shape_witness:
  "\<exists>req. build_http_request (\<lambda>r. []) (\<lambda>j. []) demo_plan [(''id'', JStr ''a/b'')] = Inr req \<and>
         count_slashes (pd_path req) = literal_slashes (path_parts (rp_path demo_plan) [])"
proof -
  obtain req where r: "build_http_request (\<lambda>r. []) (\<lambda>j. []) demo_plan [(''id'', JStr ''a/b'')] = Inr req"
    using demo_plan_builds by blast
  with built_request_shape[OF r] show ?thesis by blast
qed

text \<open>Percent-encoding loses nothing: decoding the quoted text gives the UTF-8 bytes of the original.\<close>

lemma quote_roundtrip:
  assumes "CHR ''%'' \<notin> set safe"
  shows "pct_bytes (quote safe s) = concat (map utf8 s)"
  using assms by (rule pct_bytes_quote)

theorem quote_roundtrip_witness: "pct_bytes (quote [] ''a/b'') = concat (map utf8 ''a/b'')"
  by (rule quote_roundtrip) simp

text \<open>C33. In every reachable state of the import jobs at most \<open>max_running\<close> run, at most \<open>max_queued\<close> are
  unfinished, a slot is held exactly for each running job, and a job has a finishing time exactly when it is
  finished; a job just submitted is found when it is asked for.\<close>

theorem import_jobs_bounded:
  assumes "job_reachable (new_job_store mr mq rt mf) s"
  shows "jobs_ok s \<and> running s \<le> jb_max_running s \<and> waiting s \<le> jb_max_queued s \<and> jb_slots_used s = running s \<and>
    (map_of (jb_finished_at s) jid \<noteq> None \<or>
      (case submit jid now c1 sid s of (r, s') \<Rightarrow> r = None \<or> fst (job_get c2 jid s') = r))"
proof -
  have ok: "jobs_ok s" using job_reachable_ok[OF assms jobs_ok_new] .
  have "map_of (jb_finished_at s) jid \<noteq> None \<or>
      (case submit jid now c1 sid s of (r, s') \<Rightarrow> r = None \<or> fst (job_get c2 jid s') = r)"
    using submit_then_get[OF ok, of jid now c1 sid _ _ c2]
    by (cases "submit jid now c1 sid s"; cases "fst (submit jid now c1 sid s)") auto
  with ok show ?thesis by (simp add: jobs_okD[OF ok])
qed

theorem import_jobs_bounded_witness:
  "running (new_job_store 1 2 60 5) \<le> 1"
  using import_jobs_bounded[OF job_reachable.start, of 1 2 60 5] by (simp add: new_job_store_def)

section \<open>OpenAPI servers\<close>

text \<open>C3. What an OpenAPI server sends is confined: whatever the request body, the HTTP requests made for it are
  at most one more than the redirects allowed, each to the origin of the server's base URL, each
  to a host that was resolved and checked, each with the credentials the authentication rules chose and no argument
  in their place; and they are the requests of one tool of the admin's selection.\<close>

theorem virtual_calls_confined:
  assumes "context_ok S ctx" "caches_ok V S st" "url_laws (ex_urls (ve_exec V))"
    and "\<And>s. srv_openapi_snapshot (cx_server ctx) = Some s \<Longrightarrow>
           distinct_paths (ve_map V) (os_document s) (os_dialect s)"
    and "handle_request V body ctx header st = Some (st', r)"
  shows "\<exists>calls a. vs_calls st' = vs_calls st @ calls \<and>
     a = fst (apply_server_auth (ex_auth (ve_exec V)) (cx_caller ctx)
                (auth_start (cx_server ctx) (vs_tokens st, vs_obo st))) \<and>
     int (length calls) \<le> max 0 (cl_max_redirects (cx_limits ctx) + 1) \<and>
     (\<forall>i < length calls. call_within (ve_exec V) (cx_server ctx) (cx_limits ctx) a i (calls ! i)) \<and>
     (calls = [] \<or> (\<exists>t arguments. tl_key t \<in> set (selection_of (cx_server ctx)) \<and>
        rp_method (tl_plan t) \<noteq> ''TRACE'' \<and> calls = cu_calls (run_tool V t arguments ctx st)))"
proof -
  obtain calls where c: "vs_calls st' = vs_calls st @ calls" "calls = [] \<or> sent_for V ctx st calls"
    using handle_request_calls[OF assms(1,2,5)] by blast
  show ?thesis
  proof (cases "calls = []")
    case True
    then show ?thesis using c(1) by auto
  next
    case False
    then obtain ts t arguments where t:
      "openapi_tools (ve_map V) (cx_server ctx) (cx_description_limit ctx) None = ret (Inr ts)" "t \<in> set ts"
      "calls = cu_calls (run_tool V t arguments ctx st)"
      using c(2) unfolding sent_for_def by blast
    have "tl_key t \<in> set (selection_of (cx_server ctx))" "rp_method (tl_plan t) \<noteq> ''TRACE''"
      using openapi_tools_safe[OF t(1,2) assms(4)] by blast+
    with c(1) t(3) call_tool_calls[OF assms(3) refl t(3)[unfolded run_tool_def]] show ?thesis by blast
  qed
qed

theorem virtual_calls_confined_witness:
  "\<exists>st' r calls a. handle_request shop_env ''call'' shop_context [] shop_state = Some (st', r) \<and>
     vs_calls st' = calls \<and> length calls = 1 \<and> call_within shop_exec shop_server shop_limits a 0 (calls ! 0)"
proof -
  obtain st' reply where run: "handle_request shop_env ''call'' shop_context [] shop_state = Some (st', Inr reply)"
    and len: "length (vs_calls st') = 1" using shop_handled by blast
  have V: "ve_exec shop_env = shop_exec" "ve_map shop_env = shop_map" "ex_urls shop_exec = shop_urls"
    "cx_server shop_context = shop_server" "cx_limits shop_context = shop_limits" "vs_calls shop_state = []"
    by (simp_all add: shop_env_def shop_exec_def shop_context_def shop_state_def)
  have paths: "distinct_paths (ve_map shop_env) (os_document s) (os_dialect s)"
    if "srv_openapi_snapshot (cx_server shop_context) = Some s" for s
    using that shop_distinct_paths by (auto simp: V shop_server_def shop_snapshot_def)
  from virtual_calls_confined[OF shop_context_ok shop_caches_ok _ paths run] shop_url_laws len
  show ?thesis unfolding V by (intro exI[of _ st'] exI[of _ "Inr reply"]) (use run in auto)
qed

text \<open>C19. The caches are invisible: from any state with sound caches the virtual server answers, sends and
  ends in the same way as it would with empty caches, and its caches stay sound and bounded.\<close>

theorem virtual_caches_transparent:
  assumes "context_ok S ctx" "caches_ok V S st"
  shows "map_option (\<lambda>(st', r). (fresh st', r)) (handle_request V body ctx header st)
       = map_option (\<lambda>(st', r). (fresh st', r)) (handle_request V body ctx header (fresh st)) \<and>
     (case handle_request V body ctx header st of
        Some (st', r) \<Rightarrow> caches_ok V S st' \<and> length (vs_tools st') \<le> CACHE_SIZE \<and> length (vs_specs st') \<le> SPEC_CACHE_SIZE
      | None \<Rightarrow> True)"
proof -
  note T = handle_request_transparent[OF assms(1), of V body header]
  have same: "map_option (\<lambda>(st', r). (fresh st', r)) x = observed x" for x :: "('a virtual_state \<times> 'c) option"
    by (simp add: map_prod_def id_def)
  have "length (vs_tools st') \<le> CACHE_SIZE \<and> length (vs_specs st') \<le> SPEC_CACHE_SIZE" if "caches_ok V S st'" for st'
    using that by (simp add: caches_ok_def tc.holds_def sc.holds_def)
  then show ?thesis
    unfolding same using transparent_observed[OF T assms(2)] transparent_keeps[OF T assms(2)]
    by (auto split: option.split)
qed

theorem virtual_caches_transparent_witness:
  "map_option (\<lambda>(st', r). (fresh st', r)) (handle_request shop_env ''call'' shop_context [] warm_state)
     = map_option (\<lambda>(st', r). (fresh st', r)) (handle_request shop_env ''call'' shop_context [] (fresh warm_state)) \<and>
   vs_tools warm_state \<noteq> []"
  using virtual_caches_transparent[OF shop_context_ok warm_caches_ok, of "''call''" "[]"] by (simp add: warm_state_def)

text \<open>Every answer to a request with an identifier carries that identifier, in a result or an error, unless the caller has
  to authenticate first, which is a 401.\<close>

lemma virtual_reply_keeps_id:
  assumes "parse_message V body = Inr (JObj message)" "jget message ''method'' = JStr method"
    and "map_of message ''id'' = Some rid" "id_echoed rid"
    and "handle_request V body ctx header st = Some (st', Inr reply)"
  shows "(\<exists>kind v. ve_encode V (envelope rid kind v) = Some (oy_body reply) \<and>
            oy_status_code reply = 200 \<and> \<not> oy_needs_authentication reply) \<or>
         (oy_status_code reply = 401 \<and> oy_needs_authentication reply \<and> oy_body reply = ''Unauthorized'')"
  using handle_request_id[OF assms] by (simp add: reply_for_def)

theorem virtual_reply_keeps_id_witness:
  "\<exists>st' reply kind v. handle_request shop_env ''call'' shop_context [] shop_state = Some (st', Inr reply) \<and>
     ve_encode shop_env (envelope (JInt 7) kind v) = Some (oy_body reply)"
proof -
  obtain st' reply where h: "handle_request shop_env ''call'' shop_context [] shop_state = Some (st', Inr reply)"
    and ok: "oy_status_code reply = 200" using shop_handled by blast
  have p: "parse_message shop_env ''call'' = Inr (JObj [(''jsonrpc'', JStr ''2.0''), (''id'', JInt 7),
      (''method'', JStr ''tools/call''),
      (''params'', JObj [(''name'', JStr ''list_orders''), (''arguments'', JObj [(''limit'', JInt 5)])])])" by code_simp
  from virtual_reply_keeps_id[OF p _ _ _ h, of "''tools/call''" "JInt 7"] h ok show ?thesis
    by (auto simp: jget_def)
qed

text \<open>C35. Parsing is strict: a body is accepted by the parser's hooks exactly when no object in it repeats a key and every number
  is finite, and any other body is answered with a parse error and changes nothing.\<close>

theorem strict_parsing:
  "((\<exists>v. parse_message V body = Inr v) \<longleftrightarrow>
      strict (ve_float V) (ve_parse V (if body = [] then ''null'' else body))) \<and>
   (strict (ve_float V) (ve_parse V (if body = [] then ''null'' else body)) \<or>
    (\<exists>err. handle_request V body ctx header st =
       Some (st, fail_reply V 400 JNull PARSE_ERROR (''invalid JSON: '' @ err) [])))"
  using hooked_strict(1) strict_hooked(1) loose_message_refused[of V body ctx header st]
  unfolding parse_message_def by blast

text \<open>A name that is no tool of the server is answered in one way and sends nothing, whether the document
  has such an operation or not: a hidden tool looks like a missing one.\<close>

lemma hidden_tool_looks_missing:
  assumes "current_tools V ctx st = Some (st1, Inr ts)" "name \<notin> (\<lambda>t. td_name (tl_definition t)) ` set ts"
    and "jget params ''name'' = JStr name" "jget_or params ''arguments'' (JObj []) = JObj arguments"
  shows "h_tools_call V rid params ctx stateless st =
           Some (st1, fail_reply V 200 rid INVALID_PARAMS (''Unknown tool: '' @ name) ''tools/call'') \<and>
         vs_calls st1 = vs_calls st"
  using unknown_tool[OF assms] current_tools_calls[OF assms(1)] by blast

theorem hidden_tool_looks_missing_witness:
  "map_option snd (h_tools_call shop_env (JInt 7) [(''name'', JStr ''drop_orders'')] shop_context False shop_state)
     = Some (fail_reply shop_env 200 (JInt 7) INVALID_PARAMS ''Unknown tool: drop_orders'' ''tools/call'') \<and>
   map_option snd (h_tools_call shop_env (JInt 7) [(''name'', JStr ''no_such'')] shop_context False shop_state)
     = Some (fail_reply shop_env 200 (JInt 7) INVALID_PARAMS ''Unknown tool: no_such'' ''tools/call'')"
proof -
  have cur: "map_option snd (current_tools shop_env shop_context shop_state) = Some (Inr [shop_tool])" by code_simp
  then obtain st1 where c: "current_tools shop_env shop_context shop_state = Some (st1, Inr [shop_tool])" by auto
  have n: "''drop_orders'' \<notin> (\<lambda>t. td_name (tl_definition t)) ` set [shop_tool]"
    "''no_such'' \<notin> (\<lambda>t. td_name (tl_definition t)) ` set [shop_tool]" by code_simp+
  show ?thesis
    using hidden_tool_looks_missing[OF c n(1), of "[(''name'', JStr ''drop_orders'')]" "[]" "JInt 7" False]
      hidden_tool_looks_missing[OF c n(2), of "[(''name'', JStr ''no_such'')]" "[]" "JInt 7" False]
    by (simp add: jget_def jget_or_def)
qed



text \<open>The document served as a resource shows only what is exposed: an operation under \<open>paths\<close> of the trimmed
  document is one of the selection.\<close>

lemma trimmed_document_selected:
  assumes "trimmed_spec unquote document dia selection = ret v"
    and "is_obj (node_at v [At_key ''paths'', At_key path, At_key m])" "m \<in> set METHODS"
  shows "mk_key m path \<in> set selection"
  using assms by (rule trimmed_spec_selected)

theorem trimmed_document_selected_witness:
  "is_obj (node_at shop_trimmed [At_key ''paths'', At_key ''/orders'', At_key ''get'']) \<and>
   mk_key ''get'' ''/orders'' \<in> set [mk_key ''get'' ''/orders'']"
proof -
  have r: "trimmed_spec (\<lambda>s. s) shop_document D30 [mk_key ''get'' ''/orders''] = ret shop_trimmed" by code_simp
  have o: "is_obj (node_at shop_trimmed [At_key ''paths'', At_key ''/orders'', At_key ''get''])" "''get'' \<in> set METHODS"
    by code_simp+
  from trimmed_document_selected[OF r o] o show ?thesis by blast
qed

text \<open>C21. Nothing is sent for a call that is not in order: if a tool's call sends an HTTP request, the arguments passed the tool's
  schema, the request could be built from them and the credentials were obtained.\<close>

theorem call_sent_only_in_order:
  assumes "cu_calls (call_tool E t arguments server caller limits caches) \<noteq> []"
  shows "srv_openapi_base_url server \<noteq> [] \<and>
     argument_error (ex_ellipsis E) (ex_iter_errors E) (td_input_schema (tl_definition t)) (JObj arguments) = None \<and>
     (\<exists>prepared. build_http_request (ex_float_text E) (ex_compact_dumps E) (tl_plan t) arguments = Inr prepared) \<and>
     snd (apply_server_auth (ex_auth E) caller (auth_start server caches)) = None"
proof -
  have "srv_openapi_base_url server \<noteq> []" using assms by (auto simp: call_tool_def not_sent_def)
  then show ?thesis using call_tool_cases[OF assms] by (metis snd_conv)
qed

theorem call_sent_only_in_order_witness:
  "cu_calls (call_tool shop_exec shop_tool [(''limit'', JInt 5)] shop_server ServiceIdentity shop_limits ([], new_obo_cache 4)) \<noteq> [] \<and>
   snd (apply_server_auth (ex_auth shop_exec) ServiceIdentity (auth_start shop_server ([], new_obo_cache 4))) = None"
proof -
  have n: "cu_calls (call_tool shop_exec shop_tool [(''limit'', JInt 5)] shop_server ServiceIdentity shop_limits
      ([], new_obo_cache 4)) \<noteq> []" by code_simp
  from call_sent_only_in_order[OF n] n show ?thesis by blast
qed

text \<open>C34. An error of the API does not echo the server's credentials: the text a caller sees of an error answer contains none
  of the API key, the bearer token and the password of the server, for values that are not empty and have no asterisk.\<close>

theorem upstream_error_hides_credentials:
  assumes "secret \<in> {srv_api_key_value server, srv_bearer_token server, srv_basic_password server}"
    and "strip secret \<noteq> []" "CHR ''*'' \<notin> set (strip secret)"
  shows "\<not> contains (error_detail E body response server) (strip secret)"
  using error_detail_hides[OF assms(1)] assms(2,3) by (simp add: star_free_def)

theorem upstream_error_hides_credentials_witness:
  "error_detail shop_exec ''bad token s3cret'' shop_response shop_server = ''bad token ****'' \<and>
   \<not> contains (error_detail shop_exec ''bad token s3cret'' shop_response shop_server) ''s3cret''"
proof -
  have s: "''s3cret'' \<in> {srv_api_key_value shop_server, srv_bearer_token shop_server, srv_basic_password shop_server}"
    "strip ''s3cret'' = ''s3cret''" "CHR ''*'' \<notin> set ''s3cret''" by code_simp+
  have "error_detail shop_exec ''bad token s3cret'' shop_response shop_server = ''bad token ****''" by code_simp
  then show ?thesis using upstream_error_hides_credentials[OF s(1)] s(2,3) by simp
qed

text \<open>C38. On a document that passed the reference check, following references ends: every value of the document is
  resolved, in finitely many steps, to a value of the document that is not itself a reference.\<close>

theorem references_resolve:
  assumes "check_refs unquote document = Inr ()" "part_of v document"
  shows "\<exists>w. deref unquote document v = ret w \<and> \<not> is_ref w \<and> part_of w document"
  using assms by (rule deref_returns)

theorem references_resolve_witness:
  "\<exists>w. deref id demo_document demo_document = ret w \<and> \<not> is_ref w"
proof -
  have "check_refs id demo_document = Inr ()" by code_simp
  from references_resolve[OF this part_self] show ?thesis by blast
qed

text \<open>C39. Collecting the shared schemas of a tool ends: on a checked document, every reference that the conversion of one of
  its values leaves behind is converted in turn, and each name that is used is defined in the result.\<close>

theorem schema_bundling_completes:
  assumes "check_refs unquote document = Inr ()" "part_of v document"
  shows "\<exists>b w b'. convert v (new_bundler document dia) = (b, w) \<and> bundle_pending unquote b = ret b' \<and>
     set (bu_names b) \<subseteq> set (bu_names b') \<and> list_all (\<lambda>(r, n). has_key (bu_defs b') n) (bu_names b')"
proof -
  obtain b w where c: "convert v (new_bundler document dia) = (b, w)" by (cases "convert v (new_bundler document dia)")
  have "bundle_ok {} b" "bu_document b = document"
    using convert_ok(1,2)[OF c new_bundler_ok(1)] assms(2) by simp_all
  with bundle_pending_returns[of unquote b] assms(1) c show ?thesis
    by (auto simp: list_all_iff case_prod_beta)
qed

theorem schema_bundling_completes_witness:
  "\<exists>b w b'. convert (JObj shop_document) (new_bundler (JObj shop_document) D30) = (b, w) \<and>
     bundle_pending id b = ret b' \<and> list_all (\<lambda>(r, n). has_key (bu_defs b') n) (bu_names b')"
proof -
  have "check_refs id (JObj shop_document) = Inr ()" by code_simp
  from schema_bundling_completes[OF this part_self] show ?thesis by blast
qed

section \<open>Administration\<close>

text \<open>C5. In every reachable state of the hub, with requests of the administration, import jobs, registrations, discovery and
  removals interleaved in any way, each document a server serves or holds for review has passed the loader: it is within the bounds, of the
  dialect it declares, with safe references, valid, under its own hash; and only OpenAPI servers have one.\<close>

theorem stored_documents_checked:
  assumes "hub_reachable mem_server_ops L empty_store h"
    and "reg_get mem_server_ops (hub_registry h) k = Some server"
    and "srv_openapi_snapshot server = Some s \<or> srv_openapi_pending server = Some s"
  shows "is_openapi server \<and> check_refs (ld_unquote L) (JObj (os_document s)) = Inr () \<and>
    ld_validator L (os_dialect s) (os_document s) = Valid \<and> ld_sha256 L (os_document s) = Inr (os_sha256 s) \<and>
    (\<exists>parsed. jsize (JObj parsed) \<le> MAX_NODES \<and> jheight (JObj parsed) \<le> Suc MAX_DEPTH \<and>
       detect_dialect (ld_float_text L) (pe_ellipsis (ld_parse L)) parsed = Inr (os_document s, os_dialect s))"
proof -
  have "mem_registry.documented L empty_store"
    by (simp add: mem_registry.documented_def store_ok_empty)
       (simp add: reg_get_def mem_server_ops_def mem_op_defs empty_store_def)
  from mem_registry.hub_reachable_inv[OF assms(1) this] have "mem_registry.documented L (hub_registry h)"
    by (simp add: mem_registry.hub_inv_def)
  from mem_registry.documented_get[OF this assms(2)] assms(3)
  have "srv_transport_kind server = TK_openapi" "from_loader L s" by (auto simp: doc_view_def)
  then show ?thesis by (auto simp: is_openapi_def from_loader_def spec_loaded_def)
qed

theorem stored_documents_checked_witness:
  "\<exists>server. reg_get mem_server_ops (ds_registry shop_live) ''shop'' = Some server \<and>
     srv_openapi_snapshot server = Some (snapshot_of 7 [] shop_spec) \<and>
     check_refs (ld_unquote shop_loader) (JObj shop_document) = Inr ()"
proof -
  have "map_option srv_openapi_snapshot (reg_get mem_server_ops (ds_registry shop_live) ''shop'') =
      Some (Some (snapshot_of 7 [] shop_spec))" by code_simp
  then obtain server where server: "reg_get mem_server_ops (ds_registry shop_live) ''shop'' = Some server"
    "srv_openapi_snapshot server = Some (snapshot_of 7 [] shop_spec)" by auto
  then show ?thesis
    using live_app_discovery stored_documents_checked[OF shop_reachable, of "''shop''" server "snapshot_of 7 [] shop_spec"]
    by (simp add: snapshot_of_def shop_spec_def)
qed

text \<open>C13. An import job changes no server but the one it names, and never the document that server's tools are made from: what
  it brings to a server that has one is a revision to be reviewed.\<close>

theorem import_keeps_live_document:
  assumes "dv_ops (im_discovery E) = mem_server_ops" "store_ok (ds_registry st)" "run_import E r st = Some (res, st')"
  shows "(\<forall>k. k = rq_id r \<or> reg_get mem_server_ops (ds_registry st') k = reg_get mem_server_ops (ds_registry st) k) \<and>
    (\<forall>e live. reg_get mem_server_ops (ds_registry st) (rq_id r) = Some e \<longrightarrow> srv_openapi_snapshot e = Some live \<longrightarrow>
       (\<exists>e'. reg_get mem_server_ops (ds_registry st') (rq_id r) = Some e' \<and> srv_openapi_snapshot e' = Some live))"
  using mem_registry.run_import_effect(2,3)[OF assms] by blast

theorem import_keeps_live_document_witness:
  "\<exists>e'. reg_get mem_server_ops (ds_registry shop_reviewing) ''shop'' = Some e' \<and>
     srv_openapi_snapshot e' = Some (snapshot_of 7 [] shop_spec)"
proof -
  have live: "map_option srv_openapi_snapshot (reg_get mem_server_ops (ds_registry shop_live) ''shop'') =
      Some (Some (snapshot_of 7 [] shop_spec))" by code_simp
  have "dv_ops (im_discovery shop_import) = mem_server_ops" by (simp add: shop_import_def shop_discovery_def)
  from import_keeps_live_document[OF this shop_stores_ok(1) shop_imports(2)] live show ?thesis
    by (auto simp: shop_upload_def refetch_request_def)
qed

text \<open>C14. A successful import stores what can be served: the document of the request was loaded, and is live or held for
  review as the outcome says; the tools stored are those of the stored choices, and no tool is enabled without a base URL.\<close>

theorem import_stores_served_tools:
  assumes "dv_ops (im_discovery E) = mem_server_ops" "store_ok (ds_registry st)"
    and "run_import E r st = Some (Inr outcome, st')"
  shows "\<exists>spec e ts. load_request E r = Inr spec \<and> reg_get mem_server_ops (ds_registry st') (rq_id r) = Some e \<and>
    openapi_tools (dv_map (im_discovery E)) e (dv_description_limit (im_discovery E)) None = ret (Inr ts) \<and>
    srv_tools e = Some (served_tools (Inr ts)) \<and> (srv_openapi_base_url e = [] \<longrightarrow> srv_openapi_selection e = []) \<and>
    (if outcome = ''revision_pending''
     then srv_openapi_pending e = Some (snapshot_of (dv_now (im_discovery E)) (rq_spec_url r) spec)
     else \<exists>live. srv_openapi_snapshot e = Some live \<and> os_sha256 live = ls_sha256 spec)"
  using mem_registry.run_import_stored[OF assms] unfolding mem_registry.import_stored_def by blast

theorem import_stores_served_tools_witness:
  "\<exists>e ts. reg_get mem_server_ops (ds_registry shop_live) ''shop'' = Some e \<and>
     openapi_tools shop_map e 100 None = ret (Inr ts) \<and> srv_tools e = Some (served_tools (Inr ts))"
proof -
  have env: "dv_ops (im_discovery shop_import) = mem_server_ops" "store_ok (ds_registry shop_start)"
    "dv_map (im_discovery shop_import) = shop_map" "dv_description_limit (im_discovery shop_import) = 100"
    "rq_id (shop_upload ''{1}'') = ''shop''"
    by (simp_all add: shop_import_def shop_discovery_def shop_start_def store_ok_empty shop_upload_def refetch_request_def)
  show ?thesis using import_stores_served_tools[OF env(1,2) shop_imports(1)] unfolding env(3-5) by blast
qed

text \<open>C12. What an administrator accepts is what was reviewed: a successful acceptance makes the pending document whose hash the
  request names the live one, and enables no operation that was not selected before.\<close>

theorem accepted_revision_reviewed:
  assumes "dv_ops (discovery_of E) = mem_server_ops" "store_ok (ds_registry (ap_discovery app))"
    and "accept E server_id request app = Some (Reply 200 content hs, app')"
  shows "\<exists>server pending e. openapi_server E server_id app = Some server \<and> srv_openapi_pending server = Some pending \<and>
     oe_parse_revision E (or_braces (rq_body request)) = Parsed (os_sha256 pending) \<and>
     stored_server E server_id app' = Some e \<and> srv_openapi_snapshot e = Some pending \<and> srv_openapi_pending e = None \<and>
     set (srv_openapi_selection e) \<subseteq> set (srv_openapi_selection server)"
  using assms by (rule mem_registry.accept_stores_reviewed)

theorem accepted_revision_reviewed_witness:
  "\<exists>e pending. stored_server shop_admin ''shop'' accepted_app = Some e \<and> srv_openapi_snapshot e = Some pending \<and>
     os_sha256 pending = ''cd'' \<and> srv_openapi_pending e = None"
proof -
  obtain content where a: "accept shop_admin ''shop'' (admin_request ''cd'') reviewing_app = Some (Reply 200 content [], accepted_app)"
    using shop_accepts by blast
  have "dv_ops (discovery_of shop_admin) = mem_server_ops" "store_ok (ds_registry (ap_discovery reviewing_app))"
    by (simp_all add: shop_admin_def shop_import_def shop_discovery_def reviewing_app_def store_ok_def shop_server_def new_server_def)
  from accepted_revision_reviewed[OF this a] show ?thesis
    by (auto simp: shop_admin_def admin_request_def or_braces_def)
qed

text \<open>C22. The review shown to the administrator is what acceptance does: when the difference of a revision reports no problem, accepting it
  succeeds and drops exactly the choices listed as orphaned, and when it reports one, accepting fails.\<close>

theorem review_predicts_acceptance:
  assumes "diff_revision M server limit = ret d"
  shows "\<exists>r. accept_revision M server limit = ret r \<and> (rd_problems d = [] \<longleftrightarrow> (\<exists>s report. r = Inr (s, report) \<and>
           ar_dropped_selection report = rd_orphaned_selection d \<and> ar_dropped_overrides report = rd_orphaned_overrides d \<and>
           ar_dropped_health_probe report = rd_orphaned_health_probe d))"
  using assms by (rule diff_revision_predicts)

theorem review_predicts_acceptance_witness:
  "\<exists>s report. accept_revision shop_map (shop_server\<lparr>srv_openapi_pending := Some (snapshot_of 7 [] shop_next)\<rparr>) 100
     = ret (Inr (s, report)) \<and> ar_dropped_selection report = []"
proof -
  let ?server = "shop_server\<lparr>srv_openapi_pending := Some (snapshot_of 7 [] shop_next)\<rparr>"
  have "map_option (map_sum (\<lambda>e. e) (\<lambda>d. (rd_problems d, rd_orphaned_selection d))) (diff_revision shop_map ?server 100)
      = Some (Inr ([], []))" by code_simp
  then obtain z where z: "diff_revision shop_map ?server 100 = Some z"
    "map_sum (\<lambda>e. e) (\<lambda>d. (rd_problems d, rd_orphaned_selection d)) z = Inr ([], [])" by auto
  then obtain d where d: "diff_revision shop_map ?server 100 = ret d" "rd_problems d = []" "rd_orphaned_selection d = []"
    by (cases z) auto
  from review_predicts_acceptance[OF d(1)] d(2,3) show ?thesis by auto
qed

text \<open>C9. Without the administrator's scope nothing is administered: each route of the OpenAPI administration, a registration, an import
  from the registry, an export and a removal answer 403, and no state changes.\<close>

theorem administration_needs_admin:
  assumes "require_admin (oe_auth E) request = Some exc" "v1_auth V = oe_auth E"
  shows "he_status exc = 403 \<and> handle_route E route request app = Some (Denied exc, app) \<and>
    prepare_route V registration request s = Inl (Forbidden exc) \<and>
    unregister_server V i request s = (Forbidden exc, s) \<and> export_server_json V i request s = Forbidden exc"
proof -
  have "he_status exc = 403" using assms(1) by (auto simp: require_admin_def Let_def split: if_splits)
  then show ?thesis
    using assms handle_route_denied[OF assms(1), of route app]
    by (cases registration) (simp_all add: prepare_route_def requested_data_def register_body_def import_body_def
        unregister_server_def export_server_json_def)
qed

theorem administration_needs_admin_witness:
  "\<exists>exc. handle_route shop_admin (Accept_revision ''shop'') demo_request reviewing_app = Some (Denied exc, reviewing_app) \<and>
     he_status exc = 403"
proof -
  have "require_admin (oe_auth shop_admin) demo_request \<noteq> None"
    by (simp add: shop_admin_def require_admin_def demo_auth_def demo_request_def alice_def named_principal_def request_principal_def
        caller_from_request_def is_admin_def authorization_enforced_def request_auth_config_def has_scope_def admin_scope_def
        s1_call_strip Let_def)
  then obtain exc where e: "require_admin (oe_auth shop_admin) demo_request = Some exc" by blast
  have "v1_auth shop_v1 = oe_auth shop_admin" by (simp add: shop_v1_def shop_admin_def)
  from administration_needs_admin[OF e this, of "Accept_revision ''shop''" reviewing_app] show ?thesis by blast
qed





text \<open>C40. Secrets survive: importing again and registering again both keep a stored secret that is sent empty, and replace it by one that
  is not.\<close>

theorem secrets_survive_resubmission:
  "credential_view (settings_update r s) =
     (sent_or (st_bearer_token r) (srv_bearer_token s), sent_or (st_basic_password r) (srv_basic_password s),
      sent_or (st_oauth_client_secret r) (srv_oauth_client_secret s), sent_or (st_api_key_value r) (srv_api_key_value s)) \<and>
   srv_bearer_token (keep_stored e new) = sent_or (srv_bearer_token new) (srv_bearer_token e) \<and>
   srv_basic_password (keep_stored e new) = sent_or (srv_basic_password new) (srv_basic_password e) \<and>
   srv_oauth_client_secret (keep_stored e new) = sent_or (srv_oauth_client_secret new) (srv_oauth_client_secret e)"
  by (simp add: settings_update_credentials keep_stored_secrets kept_text_def sent_or_def)

text \<open>C31. The bounds of a document are exact: the check of the parsed objects accepts a document exactly when, with every use of a shared
  object counted, it is a tree of JSON values of at most \<open>MAX_DEPTH\<close> levels below the top and at most \<open>MAX_NODES\<close> values.\<close>

theorem document_bounds_exact:
  "check_plain_json ell h i = Inr () \<longleftrightarrow>
     (\<exists>j. expand h (Suc MAX_DEPTH) (P_ref i) = Some j \<and> jsize j \<le> MAX_NODES)"
  by (rule check_plain_json_iff)

section \<open>Configuration\<close>

text \<open>C4. A program is registered only on a protected hub: when the hub was started without the option \<open>--config\<close>, a request that
  registers a stdio server names a program of the configured list, and the address the hub is bound to is a loopback address, or the
  operator declared the network trusted, or the request comes from an administrator under JWT authentication. No variable
  of the environment may name the host in another spelling.\<close>

theorem stdio_needs_protected_hub:
  assumes "main C args = Inr (host, port, app, auth)" and "cl_config args = None"
    and "\<And>t. fr_text (ce_reader C) (JStr t) = Some t"
    and "distinct (map fst (ce_environ C))"
    and "\<And>k. k \<in> fst ` set (ce_environ C) \<Longrightarrow> env_parts k = Some [''server'', ''http_host''] \<Longrightarrow> k = HOST_ENV"
    and "serves_settings app V" and "prepare_route V route request store = Inr server" and "is_stdio server"
  shows "srv_stdio_command_name server \<in> fst ` set (sd_allowed_commands (cg_stdio app)) \<and>
    (loopback_host host \<or> sd_trusted_network (cg_stdio app) \<or>
     auth_kind (cg_auth app) = ''jwt'' \<and> is_admin (request_principal request) (cg_auth app))"
  using app_settings_gate[OF assms(1,6,7,8)] main_binds_known_host[OF assms(1-5)] by simp

theorem stdio_needs_protected_hub_witness:
  "\<exists>server. prepare_route local_v1 Register (admin_request ''{}'') empty_store = Inr server \<and> is_stdio server \<and>
     srv_stdio_command_name server \<in> fst ` set (sd_allowed_commands (cg_stdio dev_settings)) \<and> loopback_host ''localhost''"
proof -
  obtain server where server: "prepare_route local_v1 Register (admin_request ''{}'') empty_store = Inr server" "is_stdio server"
    using local_registers by blast
  have start: "cl_config plain_start = None" "\<And>t. fr_text (ce_reader local_config) (JStr t) = Some t"
    "distinct (map fst (ce_environ local_config))"
    by (simp_all add: plain_start_def local_config_def plain_reader_def)
  have names: "k = HOST_ENV" if "k \<in> fst ` set (ce_environ local_config)" "env_parts k = Some [''server'', ''http_host'']" for k
    using that config_words(6) by (simp add: local_config_def)
  show ?thesis
    using stdio_needs_protected_hub[OF local_starts(1) start names local_v1_serves server] server config_words(3) by blast
qed

text \<open>With \<open>--config\<close> this fails: the option decides the address, and the application takes everything else from the file of the
  working directory. A hub that lets anyone register a program is bound to every address, although each file passes the gate of
  its own.\<close>

theorem config_option_misses_gate:
  "\<exists>port app auth. main local_config config_start = Inr (''0.0.0.0'', port, app, auth) \<and> sd_enabled (cg_stdio app) \<and>
     \<not> loopback_host ''0.0.0.0'' \<and> \<not> sd_trusted_network (cg_stdio app) \<and> auth_kind (cg_auth app) \<noteq> ''jwt''"
  using local_starts(2) config_words(4)
  by (simp add: local_settings_def from_defaults_def default_auth_config_def)

text \<open>Where a setting comes from: the environment over the file over the defaults, at every depth of a section, and a value of one source
  leaves the other values of the section as they were.\<close>

theorem configuration_precedence:
  assumes "section_dict yaml env name defaults = Inr d" "keys_distinct (JObj yaml)"
    and "collect_nested_env_vars environ = Inr env"
  shows "(at_path (Some (JObj env)) (name # q) = Some v \<and> \<not> is_obj v \<longrightarrow> at_path (Some (JObj d)) q = Some v) \<and>
    (\<not> says env (name # q) \<and> at_path (Some (JObj yaml)) (name # q) = Some v \<and> \<not> is_obj v \<longrightarrow>
       at_path (Some (JObj d)) q = Some v) \<and>
    (\<not> says env (name # q) \<and> \<not> says yaml (name # q) \<longrightarrow>
       at_path (Some (JObj d)) q = at_path (Some (JObj defaults)) q)"
proof -
  have "keys_distinct (JObj env)"
    using collect_distinct[OF assms(3)[unfolded collect_nested_env_vars_def]] by simp
  from section_dict_precedence[OF assms(1,2) this] show ?thesis by blast
qed

theorem configuration_precedence_witness:
  "at_path (Some (JObj (deep_merge (dump_auth_config default_auth_config) [(''jwt'', JObj [(''issuer'', JStr ''i'')])])))
     [''jwt'', ''audience''] = Some (JStr [])"
proof -
  let ?yaml = "[(''auth'', JObj [(''jwt'', JObj [(''issuer'', JStr ''i'')])])]"
  have d: "section_dict ?yaml [] ''auth'' (dump_auth_config default_auth_config) =
      Inr (deep_merge (dump_auth_config default_auth_config) [(''jwt'', JObj [(''issuer'', JStr ''i'')])])"
    by (simp add: section_dict_def merge_with_def bind_py_simps)
  have env: "collect_nested_env_vars [] = Inr []" "keys_distinct (JObj ?yaml)" by (simp_all add: collect_nested_env_vars_def)
  have unsaid: "\<not> says [] (''auth'' # [''jwt'', ''audience''])" "\<not> says ?yaml (''auth'' # [''jwt'', ''audience''])" by simp_all
  have "at_path (Some (JObj (dump_auth_config default_auth_config))) [''jwt'', ''audience''] = Some (JStr [])"
    by (simp add: dump_auth_config_def default_auth_config_def)
  with configuration_precedence[OF d env(2,1), of "[''jwt'', ''audience'']"] unsaid show ?thesis by simp
qed

text \<open>Limits are usable: every interval, timeout and size of loaded settings is positive, whatever the file and the environment hold,
  the redirects are not negative, and telemetry is enabled only with an endpoint.\<close>

theorem settings_limits_usable:
  assumes "load_settings C path = Inr s"
  shows "0 < hc_interval_seconds (cg_healthcheck s) \<and> 0 < hc_timeout_seconds (cg_healthcheck s) \<and>
    0 < hc_failure_threshold (cg_healthcheck s) \<and> 0 < dc_interval_seconds (cg_discovery s) \<and>
    0 < oc_max_spec_bytes (cg_openapi s) \<and> 0 < oc_call_timeout_seconds (cg_openapi s) \<and>
    0 < oc_max_response_bytes (cg_openapi s) \<and> 0 \<le> oc_max_redirects (cg_openapi s) \<and>
    (if ot_enabled (cg_otel s) then ot_endpoint (cg_otel s) \<noteq> [] else True)"
  using settings_limits[OF assms] by simp

theorem settings_limits_usable_witness: "0 < hc_failure_threshold (cg_healthcheck local_settings)"
  using settings_limits_usable[OF local_loads(1)] by simp

text \<open>An id derived from a name of the public registry is one that every route accepts: not empty, made of letters, digits, underscores,
  dots and dashes, with no two dots and no two dashes in a row.\<close>

theorem derived_server_id_safe:
  assumes "derive_server_id name = Inr i"
  shows "i \<noteq> [] \<and> list_all id_char i \<and> \<not> has_run (CHR ''.'') i \<and> \<not> has_run (CHR ''-'') i"
  using derive_server_id_safe[OF assms] by blast

theorem derived_server_id_safe_witness:
  "derive_server_id ''io.github/../my server'' = Inr ''io.github.my-server'' \<and> \<not> has_run (CHR ''.'') ''io.github.my-server''"
proof -
  have d: "derive_server_id ''io.github/../my server'' = Inr ''io.github.my-server''" by code_simp
  from derived_server_id_safe[OF d] d show ?thesis by blast
qed

end
